(* ===== verification/Prelude.thy ===== *)
theory Prelude
  imports Main "HOL-Library.Word" "HOL-Library.Char_ord" "HOL-Library.List_Lexorder"
begin

text \<open>
  Shared vocabulary of the development: JavaScript strings as lists of UTF-16 code units, the
  error monad in which every fallible function of the program is written, insertion into an
  insertion-ordered set, and the generic facts on sorting, lookup by key and relations that
  the component theories rely on.
\<close>

named_theorems err_simps \<open>rewrite rules that follow the success path of an error computation\<close>
named_theorems codec_simps \<open>rewrite rules for reading back the objects the program builds\<close>

section \<open>JavaScript strings\<close>

text \<open>
  A JavaScript string is a finite sequence of 16-bit code units; \<open>length\<close> counts code units and
  \<open><\<close> compares code units lexicographically, which is the order that
  \<^verbatim>\<open>HOL-Library.List_Lexorder\<close> puts on lists of words.
\<close>

type_synonym code_unit = "16 word"
type_synonym jsstr = "code_unit list"

text \<open>An ASCII literal of the source as a JavaScript string.\<close>

definition lit :: "string \<Rightarrow> jsstr" where
  "lit s = map of_char s"

lemma unat_of_char [simp]: "unat (of_char c :: 16 word) = of_char c"
proof -
  have "(of_char c :: nat) mod 65536 = of_char c"
    by (rule mod_less) (rule less_trans [OF nat_of_char_less_256], simp)
  then have "unat (of_nat (of_char c) :: 16 word) = of_char c"
    by (simp add: unat_of_nat)
  then show ?thesis by (simp add: of_nat_of_char)
qed

lemma of_char_word_eq_iff [simp]: "(of_char c :: 16 word) = of_char d \<longleftrightarrow> c = d"
  by (metis unat_of_char of_char_eq_iff)

lemma of_char_word_less_iff [simp]: "(of_char c :: 16 word) < of_char d \<longleftrightarrow> c < d"
  by (simp add: word_less_nat_alt less_char_def)

lemma lit_Nil [simp]: "lit [] = []"
  by (simp add: lit_def)

lemma lit_append [simp]: "lit (s @ t) = lit s @ lit t"
  by (simp add: lit_def)

lemma lit_inject [simp]: "lit s = lit t \<longleftrightarrow> s = t"
  unfolding lit_def by (rule inj_map_eq_map) (simp add: inj_def)

lemma lit_eq_Nil_iff [simp]: "lit s = [] \<longleftrightarrow> s = []" "[] = lit s \<longleftrightarrow> s = []"
  by (auto simp: lit_def)

lemma length_lit [simp]: "length (lit s) = length s"
  by (simp add: lit_def)

lemma lit_less_iff [simp]: "lit s < lit t \<longleftrightarrow> s < t"
proof (induction s arbitrary: t)
  case Nil
  then show ?case by (cases t) (auto simp: lit_def)
next
  case (Cons c s)
  then show ?case by (cases t) (auto simp: lit_def)
qed

lemma lit_le_iff [simp]: "lit s \<le> lit t \<longleftrightarrow> s \<le> t"
  by (auto simp: order.order_iff_strict)

section \<open>Decimal rendering of array indices\<close>

text \<open>The text that a template literal produces for a non-negative integer.\<close>

definition digit_char :: "nat \<Rightarrow> char" where
  "digit_char d = char_of (48 + d)"

fun show_nat :: "nat \<Rightarrow> string" where
  "show_nat n = (if n < 10 then [digit_char n] else show_nat (n div 10) @ [digit_char (n mod 10)])"

declare show_nat.simps [simp del]

section \<open>The error monad\<close>

text \<open>
  A function of the source that returns \<open>{ok: false, error}\<close> or \<open>{ok: true, value}\<close> is a
  function into a sum: \<open>Inl\<close> the error, \<open>Inr\<close> the value. \<open>ebind\<close> is the idiom
  \<open>const r = f(x); if (!r.ok) return r;\<close>.
\<close>

definition ebind :: "'e + 'a \<Rightarrow> ('a \<Rightarrow> 'e + 'b) \<Rightarrow> 'e + 'b" where
  "ebind m f = (case m of Inl e \<Rightarrow> Inl e | Inr x \<Rightarrow> f x)"

text \<open>A value that is absent is turned into an error.\<close>

definition eopt :: "'e \<Rightarrow> 'a option \<Rightarrow> 'e + 'a" where
  "eopt e m = (case m of None \<Rightarrow> Inl e | Some x \<Rightarrow> Inr x)"

lemma ebind_Inl [simp]: "ebind (Inl e) f = Inl e"
  by (simp add: ebind_def)

lemma ebind_Inr [simp]: "ebind (Inr x) f = f x"
  by (simp add: ebind_def)

lemma ebind_eq_Inr [err_simps]: "ebind m f = Inr y \<longleftrightarrow> (\<exists>x. m = Inr x \<and> f x = Inr y)"
  by (auto simp: ebind_def split: sum.splits)

lemma ebind_eq_Inl [err_simps]:
  "ebind m f = Inl e \<longleftrightarrow> m = Inl e \<or> (\<exists>x. m = Inr x \<and> f x = Inl e)"
  by (auto simp: ebind_def split: sum.splits)

lemma ebind_cong [fundef_cong]:
  "m = m' \<Longrightarrow> (\<And>x. m' = Inr x \<Longrightarrow> f x = g x) \<Longrightarrow> ebind m f = ebind m' g"
  by (auto simp: ebind_def split: sum.splits)

lemma eopt_simps [simp]: "eopt e None = Inl e" "eopt e (Some x) = Inr x"
  by (simp_all add: eopt_def)

lemma eopt_eq_Inr [err_simps]: "eopt e m = Inr x \<longleftrightarrow> m = Some x"
  by (auto simp: eopt_def split: option.splits)

lemma eopt_eq_Inl [err_simps]: "eopt e m = Inl e' \<longleftrightarrow> m = None \<and> e' = e"
  by (auto simp: eopt_def split: option.splits)

lemma if_Inl_eq_Inr [err_simps]: "(if c then Inl e else r) = Inr y \<longleftrightarrow> \<not> c \<and> r = Inr y"
  by simp

lemma if_Inr_eq_Inr [err_simps]: "(if c then r else Inl e) = Inr y \<longleftrightarrow> c \<and> r = Inr y"
  by simp

lemma if_None_eq_Some [err_simps]: "(if c then None else r) = Some y \<longleftrightarrow> \<not> c \<and> r = Some y"
  by simp

lemma if_Some_eq_Some [err_simps]: "(if c then r else None) = Some y \<longleftrightarrow> c \<and> r = Some y"
  by simp

section \<open>Insertion-ordered sets\<close>

text \<open>\<open>Set.prototype.add\<close>: a JavaScript set enumerates its elements in insertion order.\<close>

definition set_add :: "'a \<Rightarrow> 'a list \<Rightarrow> 'a list" where
  "set_add x xs = (if x \<in> set xs then xs else xs @ [x])"

lemma set_set_add [simp]: "set (set_add x xs) = insert x (set xs)"
  by (auto simp: set_add_def)

lemma set_add_not_Nil [simp]: "set_add x xs \<noteq> []"
  by (auto simp: set_add_def)

lemma distinct_set_add [simp]: "distinct (set_add x xs) \<longleftrightarrow> distinct xs"
  by (auto simp: set_add_def)

section \<open>Lists\<close>

text \<open>\<open>new Set(xs).size !== xs.length\<close> tests for duplicates.\<close>

lemma length_remdups_eq_iff: "length (remdups xs) = length xs \<longleftrightarrow> distinct xs"
  by (simp add: length_remdups_card_conv card_distinct distinct_card) (metis card_distinct distinct_card)

lemma option_eq_via_Some: "(\<And>x. a = Some x \<longleftrightarrow> b = Some x) \<Longrightarrow> a = b"
  by (cases a; cases b) auto

lemma find_eq_Some_D: "find P xs = Some x \<Longrightarrow> x \<in> set xs \<and> P x"
  by (auto simp: find_Some_iff)

lemma find_key_distinct:
  "distinct (map key xs) \<Longrightarrow> x \<in> set xs \<Longrightarrow> key x = k \<Longrightarrow> find (\<lambda>y. key y = k) xs = Some x"
  by (induction xs) (auto simp: image_iff)

lemma find_key_iff:
  "distinct (map key xs) \<Longrightarrow>
    find (\<lambda>y. key y = k) xs = Some x \<longleftrightarrow> x \<in> set xs \<and> key x = k"
  by (auto simp: find_key_distinct dest: find_eq_Some_D)

lemma find_key_None_iff: "find (\<lambda>y. key y = k) xs = None \<longleftrightarrow> k \<notin> key ` set xs"
  by (auto simp: find_None_iff)

lemma distinct_map_sort_key [simp]: "distinct (map f (sort_key f xs)) \<longleftrightarrow> distinct (map f xs)"
  by (simp add: distinct_map)

lemma length_remdups_sort_key:
  "length (remdups (map f (sort_key f xs))) = length xs \<longleftrightarrow> distinct (map f xs)"
  using length_remdups_eq_iff [of "map f (sort_key f xs)"] by simp

lemma distinct_key_eq: "distinct (map f xs) \<Longrightarrow> x \<in> set xs \<Longrightarrow> y \<in> set xs \<Longrightarrow> f x = f y \<Longrightarrow> x = y"
  by (auto simp: distinct_map inj_on_def)

lemma sorted_wrt_less_distinct:
  fixes xs :: "'a::linorder list"
  shows "sorted_wrt (<) xs \<longleftrightarrow> sorted xs \<and> distinct xs"
  by (rule strict_sorted_iff)

section \<open>Relations\<close>

lemma acyclic_insert_iff:
  "acyclic (insert (a, b) r) \<longleftrightarrow> acyclic r \<and> (b, a) \<notin> r\<^sup>*"
  by (simp add: acyclic_insert)

lemma acyclic_empty [simp]: "acyclic {}"
  by (simp add: acyclic_def)

lemma acyclic_mono: "acyclic r \<Longrightarrow> s \<subseteq> r \<Longrightarrow> acyclic s"
  by (rule acyclic_subset)

end
