(* ===== verification/Js_Value.thy ===== *)
theory Js_Value
  imports Prelude
begin

text \<open>
  The JavaScript values that the program receives as \<open>unknown\<close>, and the two readers through
  which all of them pass: \<open>readExactRecord\<close> and \<open>readCanonicalArray\<close> of
  \<^verbatim>\<open>src/domain.ts\<close> (\<open>exactRecord\<close> and \<open>canonicalArray\<close> of
  \<^verbatim>\<open>src/authorization.ts\<close> are the same functions). The scalar predicates
  (\<open>isIdentifier\<close>, \<open>isSafeInteger\<close>, ...) and the text predicates behind cancellation reasons
  follow, and the encoding of the object and array literals that the program builds.
\<close>

section \<open>Values\<close>

text \<open>
  A number is kept as an integer when its value is integral; fractions, infinities and NaN are
  \<open>JFraction\<close>, since the program only asks whether a number is a safe integer and compares
  safe integers. An object has a prototype and own properties in insertion order, keyed by
  strings or symbols (pairwise distinct in every JavaScript object); a property is a data
  property with its enumerability or an accessor. An array has one slot per index below its
  \<open>length\<close> (a hole is \<open>None\<close>) and a number of further own keys besides \<open>length\<close>.
  \<open>JThrowing\<close> is an object whose inspection throws (a revoked proxy, a throwing trap).
\<close>

datatype jsnum = JInt int | JFraction

datatype pkey = KeyStr jsstr | KeySymbol nat

datatype proto = ObjectPrototype | NullPrototype | OtherPrototype

datatype 'v descriptor = DataProp 'v bool | AccessorProp

datatype jsval =
    JUndefined
  | JNull
  | JBool bool
  | JNum jsnum
  | JStr jsstr
  | JObject proto "(pkey \<times> jsval descriptor) list"
  | JArray bool "jsval descriptor option list" nat
  | JThrowing
  | JOther

section \<open>The two readers\<close>

type_synonym jsrec = "(jsstr \<times> jsval) list"

fun readProperties :: "jsstr list \<Rightarrow> (pkey \<times> jsval descriptor) list \<Rightarrow> jsrec option" where
  "readProperties allowed [] = Some []"
| "readProperties allowed ((KeySymbol n, p) # ps) = None"
| "readProperties allowed ((KeyStr k, p) # ps) =
     (if k \<notin> set allowed then None
      else case p of
        AccessorProp \<Rightarrow> None
      | DataProp v enumerable \<Rightarrow>
          (if \<not> enumerable then None
           else map_option (\<lambda>copy. (k, v) # copy) (readProperties allowed ps)))"

definition readExactRecord :: "jsval \<Rightarrow> string list \<Rightarrow> jsrec option" where
  "readExactRecord value expected =
     (case value of
        JObject prototype ownProperties \<Rightarrow>
          (if prototype \<noteq> ObjectPrototype \<and> prototype \<noteq> NullPrototype then None
           else if length ownProperties \<noteq> length expected then None
           else readProperties (map lit expected) ownProperties)
      | _ \<Rightarrow> None)"

fun readSlots :: "jsval descriptor option list \<Rightarrow> jsval list option" where
  "readSlots [] = Some []"
| "readSlots (None # ss) = None"
| "readSlots (Some AccessorProp # ss) = None"
| "readSlots (Some (DataProp v enumerable) # ss) =
     (if \<not> enumerable then None else map_option (\<lambda>items. v # items) (readSlots ss))"

text \<open>The own keys of an array are its occupied indices, \<open>length\<close>, and the further keys.\<close>

definition readCanonicalArray :: "jsval \<Rightarrow> jsval list option" where
  "readCanonicalArray value =
     (case value of
        JArray isArrayPrototype slots furtherKeys \<Rightarrow>
          (if \<not> isArrayPrototype then None
           else if length (filter (\<lambda>s. s \<noteq> None) slots) + 1 + furtherKeys \<noteq> length slots + 1 then None
           else readSlots slots)
      | _ \<Rightarrow> None)"

text \<open>Reading a field of a copied record; a missing field reads as \<open>undefined\<close>.\<close>

definition fld :: "jsrec \<Rightarrow> string \<Rightarrow> jsval" where
  "fld r k = (case map_of r (lit k) of None \<Rightarrow> JUndefined | Some v \<Rightarrow> v)"

section \<open>Scalars\<close>

definition MAX_SAFE_INTEGER :: int where
  "MAX_SAFE_INTEGER = 9007199254740991"

fun isSafeInteger :: "jsval \<Rightarrow> bool" where
  "isSafeInteger (JNum (JInt n)) = (- MAX_SAFE_INTEGER \<le> n \<and> n \<le> MAX_SAFE_INTEGER)"
| "isSafeInteger _ = False"

fun numOf :: "jsval \<Rightarrow> int" where
  "numOf (JNum (JInt n)) = n"
| "numOf _ = 0"

fun strOf :: "jsval \<Rightarrow> jsstr" where
  "strOf (JStr s) = s"
| "strOf _ = []"

fun boolOf :: "jsval \<Rightarrow> bool" where
  "boolOf (JBool b) = b"
| "boolOf _ = False"

text \<open>A nullable field once it is known to be \<open>null\<close> or of the expected type.\<close>

definition nullable :: "(jsval \<Rightarrow> 'a) \<Rightarrow> jsval \<Rightarrow> 'a option" where
  "nullable f v = (if v = JNull then None else Some (f v))"

definition isPositiveInteger :: "jsval \<Rightarrow> bool" where
  "isPositiveInteger v \<longleftrightarrow> isSafeInteger v \<and> numOf v > 0"

definition isNonnegativeInteger :: "jsval \<Rightarrow> bool" where
  "isNonnegativeInteger v \<longleftrightarrow> isSafeInteger v \<and> numOf v \<ge> 0"

fun isString :: "jsval \<Rightarrow> bool" where
  "isString (JStr s) = True"
| "isString _ = False"

fun isBoolean :: "jsval \<Rightarrow> bool" where
  "isBoolean (JBool b) = True"
| "isBoolean _ = False"

fun isIdentifier :: "jsval \<Rightarrow> bool" where
  "isIdentifier (JStr s) = (length s > 0)"
| "isIdentifier _ = False"

definition isNullableIdentifier :: "jsval \<Rightarrow> bool" where
  "isNullableIdentifier v \<longleftrightarrow> v = JNull \<or> isIdentifier v"

text \<open>Comparison with a string literal of the source, \<open>v === "text"\<close>.\<close>

definition isLit :: "jsval \<Rightarrow> string \<Rightarrow> bool" where
  "isLit v s \<longleftrightarrow> v = JStr (lit s)"

text \<open>
  A union of string literals is a datatype with a naming function; reading a value finds the
  member with that name, as \<open>(NAMES as readonly string[]).includes(value)\<close> does.
\<close>

definition enumOf :: "('a \<Rightarrow> string) \<Rightarrow> 'a list \<Rightarrow> jsval \<Rightarrow> 'a option" where
  "enumOf name members v = find (\<lambda>m. isLit v (name m)) members"

section \<open>Cancellation-reason text\<close>

text \<open>
  UTF-16 well-formedness, the Unicode general categories Cc and Cf that the pattern
  \<^verbatim>\<open>/[\p{Cc}\p{Cf}]/u\<close> matches (Unicode 16), and the UTF-8 length of well-formed text.
  Unicode normalisation form C depends on the Unicode character database and is a parameter
  of the model: \<open>nfc\<close> stands for \<open>String.prototype.normalize("NFC")\<close>.
\<close>

definition isHighSurrogate :: "code_unit \<Rightarrow> bool" where
  "isHighSurrogate c \<longleftrightarrow> 0xd800 \<le> c \<and> c \<le> 0xdbff"

definition isLowSurrogate :: "code_unit \<Rightarrow> bool" where
  "isLowSurrogate c \<longleftrightarrow> 0xdc00 \<le> c \<and> c \<le> 0xdfff"

fun wellFormedText :: "jsstr \<Rightarrow> bool" where
  "wellFormedText [] = True"
| "wellFormedText [c] = (\<not> isHighSurrogate c \<and> \<not> isLowSurrogate c)"
| "wellFormedText (c # d # cs) =
     (if isHighSurrogate c then isLowSurrogate d \<and> wellFormedText cs
      else \<not> isLowSurrogate c \<and> wellFormedText (d # cs))"

fun codePoints :: "jsstr \<Rightarrow> nat list" where
  "codePoints [] = []"
| "codePoints [c] = [unat c]"
| "codePoints (c # d # cs) =
     (if isHighSurrogate c \<and> isLowSurrogate d
      then (0x10000 + (unat c - 0xd800) * 0x400 + (unat d - 0xdc00)) # codePoints cs
      else unat c # codePoints (d # cs))"

definition FORBIDDEN_RANGES :: "(nat \<times> nat) list" where
  "FORBIDDEN_RANGES =
     [(0x0, 0x1f), (0x7f, 0x9f), (0xad, 0xad), (0x600, 0x605), (0x61c, 0x61c), (0x6dd, 0x6dd),
      (0x70f, 0x70f), (0x890, 0x891), (0x8e2, 0x8e2), (0x180e, 0x180e), (0x200b, 0x200f),
      (0x202a, 0x202e), (0x2060, 0x2064), (0x2066, 0x206f), (0xfeff, 0xfeff), (0xfff9, 0xfffb),
      (0x110bd, 0x110bd), (0x110cd, 0x110cd), (0x13430, 0x1343f), (0x1bca0, 0x1bca3),
      (0x1d173, 0x1d17a), (0xe0001, 0xe0001), (0xe0020, 0xe007f)]"

definition forbiddenCancellationText :: "jsstr \<Rightarrow> bool" where
  "forbiddenCancellationText s \<longleftrightarrow>
     list_ex (\<lambda>c. list_ex (\<lambda>(a, b). a \<le> c \<and> c \<le> b) FORBIDDEN_RANGES) (codePoints s)"

definition utf8Length :: "nat \<Rightarrow> nat" where
  "utf8Length c = (if c < 0x80 then 1 else if c < 0x800 then 2 else if c < 0x10000 then 3 else 4)"

definition encodedBytes :: "jsstr \<Rightarrow> nat" where
  "encodedBytes s = sum_list (map utf8Length (codePoints s))"

fun isCanonicalCancellationReason :: "(jsstr \<Rightarrow> jsstr) \<Rightarrow> jsval \<Rightarrow> bool" where
  "isCanonicalCancellationReason nfc (JStr s) =
     (if \<not> wellFormedText s \<or> forbiddenCancellationText s \<or> nfc s \<noteq> s then False
      else encodedBytes s \<ge> 1 \<and> encodedBytes s \<le> 4096)"
| "isCanonicalCancellationReason nfc _ = False"

section \<open>The literals the program builds\<close>

definition jsObj :: "(string \<times> jsval) list \<Rightarrow> jsval" where
  "jsObj kvs = JObject ObjectPrototype (map (\<lambda>(k, v). (KeyStr (lit k), DataProp v True)) kvs)"

definition jsArr :: "jsval list \<Rightarrow> jsval" where
  "jsArr xs = JArray True (map (\<lambda>v. Some (DataProp v True)) xs) 0"

definition jsNullable :: "('a \<Rightarrow> jsval) \<Rightarrow> 'a option \<Rightarrow> jsval" where
  "jsNullable f x = (case x of None \<Rightarrow> JNull | Some y \<Rightarrow> f y)"

abbreviation jsInt :: "int \<Rightarrow> jsval" where
  "jsInt n \<equiv> JNum (JInt n)"

subsection \<open>Reading back what was built\<close>

lemma readProperties_build:
  "set (map fst kvs) \<subseteq> set keys \<Longrightarrow>
   readProperties (map lit keys) (map (\<lambda>(k, v). (KeyStr (lit k), DataProp v True)) kvs)
     = Some (map (\<lambda>(k, v). (lit k, v)) kvs)"
  by (induction kvs) auto

lemma readExactRecord_jsObj:
  assumes "set (map fst kvs) \<subseteq> set keys" and "length kvs = length keys"
  shows "readExactRecord (jsObj kvs) keys = Some (map (\<lambda>(k, v). (lit k, v)) kvs)"
  using readProperties_build [OF assms(1)] assms(2)
  by (simp add: readExactRecord_def jsObj_def)

lemma readSlots_build: "readSlots (map (\<lambda>v. Some (DataProp v True)) xs) = Some xs"
  by (induction xs) auto

lemma readCanonicalArray_jsArr [simp, codec_simps]: "readCanonicalArray (jsArr xs) = Some xs"
proof -
  have "filter (\<lambda>s. s \<noteq> None) (map (\<lambda>v. Some (DataProp v True)) xs)
      = map (\<lambda>v. Some (DataProp v True)) xs"
    by (simp add: filter_id_conv)
  then show ?thesis
    by (simp add: readCanonicalArray_def jsArr_def readSlots_build)
qed

lemma fld_Cons [simp, codec_simps]:
  "fld ((lit k, v) # r) k' = (if k = k' then v else fld r k')"
  by (simp add: fld_def)

lemma nullable_simps [simp, codec_simps]:
  "nullable f JNull = None"
  "nullable f (JStr s) = Some (f (JStr s))"
  "nullable f (JNum n) = Some (f (JNum n))"
  "nullable f (JObject pr ps) = Some (f (JObject pr ps))"
  by (simp_all add: nullable_def)

lemma jsNullable_simps [simp, codec_simps]:
  "jsNullable f None = JNull" "jsNullable f (Some x) = f x"
  by (simp_all add: jsNullable_def)

lemma jsNullable_eq_JNull [simp]:
  "(\<And>x. f x \<noteq> JNull) \<Longrightarrow> jsNullable f x = JNull \<longleftrightarrow> x = None"
  by (cases x) auto

lemma nullable_jsNullable [simp, codec_simps]:
  "(\<And>y. f y \<noteq> JNull) \<Longrightarrow> (\<And>y. g (f y) = y) \<Longrightarrow> nullable g (jsNullable f x) = x"
  by (cases x) (auto simp: nullable_def)

lemma isIdentifier_iff: "isIdentifier v \<longleftrightarrow> (\<exists>s. v = JStr s \<and> s \<noteq> [])"
  by (cases v) auto

lemma isNullableIdentifier_jsNullable [simp, codec_simps]:
  "isNullableIdentifier (jsNullable JStr x) \<longleftrightarrow> x \<noteq> Some []"
  by (cases x) (auto simp: isNullableIdentifier_def)

lemma isNullableIdentifier_D:
  "isNullableIdentifier v \<Longrightarrow> nullable strOf v \<noteq> Some []"
  by (auto simp: isNullableIdentifier_def isIdentifier_iff)

lemma jsNullable_nullable_strOf:
  "isNullableIdentifier v \<Longrightarrow> jsNullable JStr (nullable strOf v) = v"
  by (auto simp: isNullableIdentifier_def isIdentifier_iff)

lemma isString_iff: "isString v \<longleftrightarrow> (\<exists>s. v = JStr s)"
  by (cases v) auto

lemma isBoolean_iff: "isBoolean v \<longleftrightarrow> (\<exists>b. v = JBool b)"
  by (cases v) auto

lemma isSafeInteger_iff:
  "isSafeInteger v \<longleftrightarrow>
     (\<exists>n. v = jsInt n \<and> - MAX_SAFE_INTEGER \<le> n \<and> n \<le> MAX_SAFE_INTEGER)"
  by (cases v rule: isSafeInteger.cases) auto

lemma isPositiveInteger_iff:
  "isPositiveInteger v \<longleftrightarrow> (\<exists>n. v = jsInt n \<and> 1 \<le> n \<and> n \<le> MAX_SAFE_INTEGER)"
  by (auto simp: isPositiveInteger_def isSafeInteger_iff MAX_SAFE_INTEGER_def)

lemma isNonnegativeInteger_iff:
  "isNonnegativeInteger v \<longleftrightarrow> (\<exists>n. v = jsInt n \<and> 0 \<le> n \<and> n \<le> MAX_SAFE_INTEGER)"
  by (auto simp: isNonnegativeInteger_def isSafeInteger_iff MAX_SAFE_INTEGER_def)

lemma isLit_iff [simp, codec_simps]:
  "isLit (JStr s) t \<longleftrightarrow> s = lit t" "\<not> isLit JNull t" "\<not> isLit JUndefined t" "\<not> isLit (JNum n) t"
  by (auto simp: isLit_def)

lemma isLit_D: "isLit v s \<Longrightarrow> v = JStr (lit s)"
  by (simp add: isLit_def)

lemma enumOf_Some_D: "enumOf name ms v = Some m \<Longrightarrow> v = JStr (lit (name m)) \<and> m \<in> set ms"
  by (auto simp: enumOf_def isLit_def dest: find_eq_Some_D)

lemma enumOf_lit:
  assumes "inj_on name (set ms)" and "m \<in> set ms"
  shows "enumOf name ms (JStr (lit (name m))) = Some m"
proof -
  obtain m' where m': "find (\<lambda>x. isLit (JStr (lit (name m))) (name x)) ms = Some m'"
    using assms(2) by (cases "find (\<lambda>x. isLit (JStr (lit (name m))) (name x)) ms")
      (auto simp: find_None_iff)
  then have "m' \<in> set ms" "name m' = name m"
    by (auto dest!: find_eq_Some_D)
  then show ?thesis
    using m' assms by (auto simp: enumOf_def inj_on_def)
qed

declare isCanonicalCancellationReason.simps(1) [simp del]

lemma isCanonicalCancellationReason_D:
  "isCanonicalCancellationReason nfc v \<Longrightarrow>
    \<exists>s. v = JStr s \<and> isCanonicalCancellationReason nfc (JStr s)"
  by (cases v) auto

lemma readExactRecord_JNull [simp]: "readExactRecord JNull ks = None"
  by (simp add: readExactRecord_def)

end
