(* ===== verification/Domain_Model.thy ===== *)
theory Domain_Model
  imports Js_Value
begin

text \<open>
  The data of the Domain Core (\<^verbatim>\<open>src/domain.ts\<close>): Task states, waiting reasons, the
  authoritative transition relation, errors, events, Projects, Tasks and their facts, and the
  parsers that admit a value into them. The lemmas show that every parser only admits
  well-formed data and reads back every well-formed value that the program built: each
  parser with its encoder is an instance of the \<open>codec\<close> locale.
\<close>

section \<open>Vocabulary\<close>

datatype task_state = Idea | Ready | Running | Waiting | Completed | Cancelled

definition TASK_STATES :: "task_state list" where
  "TASK_STATES = [Idea, Ready, Running, Waiting, Completed, Cancelled]"

fun stateName :: "task_state \<Rightarrow> string" where
  "stateName Idea = ''idea''"
| "stateName Ready = ''ready''"
| "stateName Running = ''running''"
| "stateName Waiting = ''waiting''"
| "stateName Completed = ''completed''"
| "stateName Cancelled = ''cancelled''"

datatype waiting_reason =
    HumanInput | AuthorizationRequired | ExecutionFailed | PolicyGateFailed | ResourceExhausted
  | RateLimited | DiskFull | WorkspaceConflict | DependencyCancelledReason | StaleLease
  | AmbiguousExternalState | BackendIncompatible

definition WAITING_REASONS :: "waiting_reason list" where
  "WAITING_REASONS =
     [HumanInput, AuthorizationRequired, ExecutionFailed, PolicyGateFailed, ResourceExhausted,
      RateLimited, DiskFull, WorkspaceConflict, DependencyCancelledReason, StaleLease,
      AmbiguousExternalState, BackendIncompatible]"

fun waitingReasonName :: "waiting_reason \<Rightarrow> string" where
  "waitingReasonName HumanInput = ''human_input''"
| "waitingReasonName AuthorizationRequired = ''authorization_required''"
| "waitingReasonName ExecutionFailed = ''execution_failed''"
| "waitingReasonName PolicyGateFailed = ''policy_gate_failed''"
| "waitingReasonName ResourceExhausted = ''resource_exhausted''"
| "waitingReasonName RateLimited = ''rate_limited''"
| "waitingReasonName DiskFull = ''disk_full''"
| "waitingReasonName WorkspaceConflict = ''workspace_conflict''"
| "waitingReasonName DependencyCancelledReason = ''dependency_cancelled''"
| "waitingReasonName StaleLease = ''stale_lease''"
| "waitingReasonName AmbiguousExternalState = ''ambiguous_external_state''"
| "waitingReasonName BackendIncompatible = ''backend_incompatible''"

datatype transition_event =
    MarkReady | Cancel | ClaimAccepted | DependencyCancelled | ExecutionWait | CompletionAccepted
  | InterruptionVerified | ResumeAccepted | RetryAccepted

fun eventName :: "transition_event \<Rightarrow> string" where
  "eventName MarkReady = ''mark_ready''"
| "eventName Cancel = ''cancel''"
| "eventName ClaimAccepted = ''claim_accepted''"
| "eventName DependencyCancelled = ''dependency_cancelled''"
| "eventName ExecutionWait = ''execution_wait''"
| "eventName CompletionAccepted = ''completion_accepted''"
| "eventName InterruptionVerified = ''interruption_verified''"
| "eventName ResumeAccepted = ''resume_accepted''"
| "eventName RetryAccepted = ''retry_accepted''"

text \<open>The authoritative relation: source state, target state, event.\<close>

definition TASK_TRANSITIONS :: "(task_state \<times> task_state \<times> transition_event) list" where
  "TASK_TRANSITIONS =
     [(Idea, Ready, MarkReady), (Idea, Cancelled, Cancel), (Ready, Running, ClaimAccepted),
      (Ready, Waiting, DependencyCancelled), (Ready, Cancelled, Cancel),
      (Running, Waiting, ExecutionWait), (Running, Completed, CompletionAccepted),
      (Running, Cancelled, InterruptionVerified), (Waiting, Running, ResumeAccepted),
      (Waiting, Running, RetryAccepted), (Waiting, Cancelled, Cancel)]"

datatype domain_error_code =
    INVALID_INPUT | INVALID_SNAPSHOT | TASK_NOT_FOUND | PROJECT_NOT_FOUND | PROJECT_ALREADY_EXISTS
  | TASK_ALREADY_EXISTS | ILLEGAL_TRANSITION | TERMINAL_IMMUTABLE | MUTATION_NOT_ALLOWED | NO_OP
  | REVISION_EXHAUSTED | PROJECT_DISABLED | TASK_NOT_ELIGIBLE | DEPENDENCY_NOT_FOUND
  | DEPENDENCY_CANCELLED | DEPENDENCY_SELF | DEPENDENCY_DUPLICATE | DEPENDENCY_CYCLE
  | PARENT_NOT_FOUND | PARENT_SELF | PARENT_PROJECT_MISMATCH | PARENT_CYCLE
  | SUPERSESSION_NOT_FOUND | SUPERSESSION_SELF | EXTERNAL_PRECONDITION_FAILED
  | CONTINUATION_NOT_ELIGIBLE

datatype detail_value = DetailStr jsstr | DetailNum int | DetailBool bool | DetailNull

type_synonym details = "(string \<times> detail_value) list"

record domain_error =
  err_code :: domain_error_code
  err_message :: string
  err_details :: details

datatype domain_event_type =
    TaskCreated | TaskTransitioned | TaskBodyChanged | TaskWaitingChanged | TaskParentChanged
  | TaskDependencyAdded | TaskDependencyRemoved | TaskSupersessionChanged

record domain_event =
  ev_type :: domain_event_type
  ev_taskId :: jsstr
  ev_revisionBefore :: "int option"
  ev_revisionAfter :: int
  ev_details :: details

type_synonym 'a parsed = "domain_error + 'a"
type_synonym 'a domain_result = "domain_error + 'a \<times> domain_event list"

definition domainError :: "domain_error_code \<Rightarrow> string \<Rightarrow> details \<Rightarrow> domain_error" where
  "domainError code message details =
     \<lparr>err_code = code, err_message = message, err_details = details\<rparr>"

abbreviation invalid :: "domain_error_code \<Rightarrow> string \<Rightarrow> details \<Rightarrow> domain_error + 'a" where
  "invalid code message details \<equiv> Inl (domainError code message details)"

definition event ::
  "domain_event_type \<Rightarrow> jsstr \<Rightarrow> int option \<Rightarrow> int \<Rightarrow> details \<Rightarrow> domain_event" where
  "event type taskId prior after details =
     \<lparr>ev_type = type, ev_taskId = taskId, ev_revisionBefore = prior, ev_revisionAfter = after,
      ev_details = details\<rparr>"

definition success :: "'a \<Rightarrow> domain_event list \<Rightarrow> 'a domain_result" where
  "success value events = Inr (value, events)"

definition detailOfNullable :: "jsstr option \<Rightarrow> detail_value" where
  "detailOfNullable x = (case x of None \<Rightarrow> DetailNull | Some s \<Rightarrow> DetailStr s)"

section \<open>Projects, Tasks and their facts\<close>

record project =
  p_id :: jsstr
  p_enabled :: bool

record waiting_input =
  w_reason :: waiting_reason
  w_phase :: jsstr
  w_requiredAction :: jsstr
  w_lastErrorCode :: jsstr
  w_lastErrorSummary :: "jsstr option"
  w_retryable :: bool
  w_retryCount :: int
  w_retryAfter :: "int option"
  w_executionId :: "jsstr option"
  w_workspaceRevision :: "jsstr option"
  w_backendThreadId :: "jsstr option"

record waiting_metadata =
  wm_input :: waiting_input
  wm_waitingTaskRevision :: int

record completion_fact =
  c_decisionId :: jsstr
  c_acceptedTaskRevision :: int

datatype cancellation_event = CancelEvent | InterruptionVerifiedEvent

record cancellation_fact =
  x_event :: cancellation_event
  x_reason :: jsstr
  x_verificationId :: "jsstr option"
  x_acceptedTaskRevision :: int

record task =
  t_id :: jsstr
  t_projectId :: jsstr
  t_state :: task_state
  t_revision :: int
  t_body :: jsstr
  t_parentId :: "jsstr option"
  t_dependencyIds :: "jsstr list"
  t_waiting :: "waiting_metadata option"
  t_completion :: "completion_fact option"
  t_cancellation :: "cancellation_fact option"
  t_supersedesTaskId :: "jsstr option"

record snapshot =
  s_projects :: "project list"
  s_tasks :: "task list"

definition TERMINAL_STATES :: "task_state list" where
  "TERMINAL_STATES = [Completed, Cancelled]"

definition GRAPH_MUTABLE_STATES :: "task_state list" where
  "GRAPH_MUTABLE_STATES = [Idea, Ready, Waiting]"

fun cancellationEventName :: "cancellation_event \<Rightarrow> string" where
  "cancellationEventName CancelEvent = ''cancel''"
| "cancellationEventName InterruptionVerifiedEvent = ''interruption_verified''"

section \<open>Reading the vocabulary\<close>

definition isTaskState :: "jsval \<Rightarrow> task_state option" where
  "isTaskState = enumOf stateName TASK_STATES"

definition isWaitingReason :: "jsval \<Rightarrow> waiting_reason option" where
  "isWaitingReason = enumOf waitingReasonName WAITING_REASONS"

text \<open>\<open>TASK_TRANSITIONS.some((transition) => transition.event === value)\<close>\<close>

definition isTransitionEvent :: "jsval \<Rightarrow> transition_event option" where
  "isTransitionEvent = enumOf eventName (map (\<lambda>(from, to, event). event) TASK_TRANSITIONS)"

definition isCancellationEvent :: "jsval \<Rightarrow> cancellation_event option" where
  "isCancellationEvent = enumOf cancellationEventName [CancelEvent, InterruptionVerifiedEvent]"

section \<open>Parsers\<close>

definition parseProject :: "jsval \<Rightarrow> jsstr \<Rightarrow> project parsed" where
  "parseProject value path =
     (case readExactRecord value [''id'', ''enabled''] of
        None \<Rightarrow> invalid INVALID_SNAPSHOT ''Project must have the exact domain shape''
                  [(''path'', DetailStr path)]
      | Some record \<Rightarrow>
          if \<not> isIdentifier (fld record ''id'') \<or> \<not> isBoolean (fld record ''enabled'')
          then invalid INVALID_SNAPSHOT ''Project identity or enablement is invalid''
                 [(''path'', DetailStr path)]
          else Inr \<lparr>p_id = strOf (fld record ''id''), p_enabled = boolOf (fld record ''enabled'')\<rparr>)"

definition waitingInputKeys :: "string list" where
  "waitingInputKeys =
     [''reason'', ''phase'', ''requiredAction'', ''lastErrorCode'', ''lastErrorSummary'',
      ''retryable'', ''retryCount'', ''retryAfter'', ''executionId'', ''workspaceRevision'',
      ''backendThreadId'']"

definition parseWaitingInput :: "jsval \<Rightarrow> jsstr \<Rightarrow> waiting_input parsed" where
  "parseWaitingInput value path =
     (case readExactRecord value waitingInputKeys of
        None \<Rightarrow> invalid INVALID_INPUT ''Waiting metadata must contain every exact field''
                  [(''path'', DetailStr path)]
      | Some record \<Rightarrow>
          if isWaitingReason (fld record ''reason'') = None
             \<or> \<not> isIdentifier (fld record ''phase'')
             \<or> \<not> isIdentifier (fld record ''requiredAction'')
             \<or> \<not> isIdentifier (fld record ''lastErrorCode'')
             \<or> \<not> (fld record ''lastErrorSummary'' = JNull \<or> isString (fld record ''lastErrorSummary''))
             \<or> \<not> isBoolean (fld record ''retryable'')
             \<or> \<not> isNonnegativeInteger (fld record ''retryCount'')
             \<or> \<not> (fld record ''retryAfter'' = JNull \<or> isSafeInteger (fld record ''retryAfter''))
             \<or> \<not> isNullableIdentifier (fld record ''executionId'')
             \<or> \<not> isNullableIdentifier (fld record ''workspaceRevision'')
             \<or> \<not> isNullableIdentifier (fld record ''backendThreadId'')
          then invalid INVALID_INPUT ''Waiting metadata contains an invalid field''
                 [(''path'', DetailStr path)]
          else Inr
            \<lparr>w_reason = the (isWaitingReason (fld record ''reason'')),
             w_phase = strOf (fld record ''phase''),
             w_requiredAction = strOf (fld record ''requiredAction''),
             w_lastErrorCode = strOf (fld record ''lastErrorCode''),
             w_lastErrorSummary = nullable strOf (fld record ''lastErrorSummary''),
             w_retryable = boolOf (fld record ''retryable''),
             w_retryCount = numOf (fld record ''retryCount''),
             w_retryAfter = nullable numOf (fld record ''retryAfter''),
             w_executionId = nullable strOf (fld record ''executionId''),
             w_workspaceRevision = nullable strOf (fld record ''workspaceRevision''),
             w_backendThreadId = nullable strOf (fld record ''backendThreadId'')\<rparr>)"

definition parseWaiting :: "jsval \<Rightarrow> jsstr \<Rightarrow> waiting_metadata parsed" where
  "parseWaiting value path =
     (case readExactRecord value (waitingInputKeys @ [''waitingTaskRevision'']) of
        None \<Rightarrow> invalid INVALID_SNAPSHOT ''Waiting metadata must contain every exact field''
                  [(''path'', DetailStr path)]
      | Some record \<Rightarrow>
          ebind (parseWaitingInput (jsObj (map (\<lambda>key. (key, fld record key)) waitingInputKeys)) path)
            (\<lambda>parsedInput.
              if \<not> isPositiveInteger (fld record ''waitingTaskRevision'')
              then invalid INVALID_SNAPSHOT ''waitingTaskRevision must be a positive integer''
                     [(''path'', DetailStr path)]
              else Inr \<lparr>wm_input = parsedInput,
                        wm_waitingTaskRevision = numOf (fld record ''waitingTaskRevision'')\<rparr>))"

definition parseCompletion :: "jsval \<Rightarrow> jsstr \<Rightarrow> completion_fact parsed" where
  "parseCompletion value path =
     (case readExactRecord value [''decisionId'', ''acceptedTaskRevision''] of
        None \<Rightarrow> invalid INVALID_SNAPSHOT ''Completion fact must have the exact domain shape''
                  [(''path'', DetailStr path)]
      | Some record \<Rightarrow>
          if \<not> isIdentifier (fld record ''decisionId'')
             \<or> \<not> isPositiveInteger (fld record ''acceptedTaskRevision'')
          then invalid INVALID_SNAPSHOT ''Completion fact is invalid'' [(''path'', DetailStr path)]
          else Inr \<lparr>c_decisionId = strOf (fld record ''decisionId''),
                    c_acceptedTaskRevision = numOf (fld record ''acceptedTaskRevision'')\<rparr>)"

definition parseCancellation :: "(jsstr \<Rightarrow> jsstr) \<Rightarrow> jsval \<Rightarrow> jsstr \<Rightarrow> cancellation_fact parsed" where
  "parseCancellation nfc value path =
     (case readExactRecord value [''event'', ''reason'', ''verificationId'', ''acceptedTaskRevision''] of
        None \<Rightarrow> invalid INVALID_SNAPSHOT ''Cancellation fact must have the exact domain shape''
                  [(''path'', DetailStr path)]
      | Some record \<Rightarrow>
          if isCancellationEvent (fld record ''event'') = None
             \<or> \<not> isCanonicalCancellationReason nfc (fld record ''reason'')
             \<or> \<not> isNullableIdentifier (fld record ''verificationId'')
             \<or> \<not> isPositiveInteger (fld record ''acceptedTaskRevision'')
          then invalid INVALID_SNAPSHOT ''Cancellation fact is invalid'' [(''path'', DetailStr path)]
          else Inr \<lparr>x_event = the (isCancellationEvent (fld record ''event'')),
                    x_reason = strOf (fld record ''reason''),
                    x_verificationId = nullable strOf (fld record ''verificationId''),
                    x_acceptedTaskRevision = numOf (fld record ''acceptedTaskRevision'')\<rparr>)"

text \<open>An optional nested fact: \<open>null\<close>, or parsed at its own path.\<close>

definition parseNullable ::
  "(jsval \<Rightarrow> jsstr \<Rightarrow> 'a parsed) \<Rightarrow> jsval \<Rightarrow> jsstr \<Rightarrow> 'a option parsed" where
  "parseNullable parse value path =
     (if value \<noteq> JNull then ebind (parse value path) (\<lambda>result. Inr (Some result)) else Inr None)"

text \<open>The facts a Task carries are exactly those of its state, bound to its revision.\<close>

definition coherentFacts ::
  "jsstr \<Rightarrow> task_state \<Rightarrow> int \<Rightarrow> waiting_metadata option \<Rightarrow> completion_fact option \<Rightarrow>
    cancellation_fact option \<Rightarrow> unit parsed" where
  "coherentFacts path state revision waiting completion cancellation =
     (if state = Waiting then
        (if (case waiting of None \<Rightarrow> True | Some w \<Rightarrow> wm_waitingTaskRevision w \<noteq> revision)
            \<or> completion \<noteq> None \<or> cancellation \<noteq> None
         then invalid INVALID_SNAPSHOT ''Waiting Task facts are incomplete or incoherent''
                [(''path'', DetailStr path)]
         else Inr ())
      else if state = Completed then
        (if waiting \<noteq> None
            \<or> (case completion of None \<Rightarrow> True | Some c \<Rightarrow> c_acceptedTaskRevision c \<noteq> revision - 1)
            \<or> cancellation \<noteq> None
         then invalid INVALID_SNAPSHOT ''Completed Task facts are incomplete or incoherent''
                [(''path'', DetailStr path)]
         else Inr ())
      else if state = Cancelled then
        (if waiting \<noteq> None \<or> completion \<noteq> None
            \<or> (case cancellation of None \<Rightarrow> True | Some x \<Rightarrow> x_acceptedTaskRevision x \<noteq> revision - 1)
         then invalid INVALID_SNAPSHOT ''Cancelled Task facts are incomplete or incoherent''
                [(''path'', DetailStr path)]
         else Inr ())
      else if waiting \<noteq> None \<or> completion \<noteq> None \<or> cancellation \<noteq> None
        then invalid INVALID_SNAPSHOT
               ''Non-waiting and non-terminal Task cannot carry waiting or terminal facts''
               [(''path'', DetailStr path)]
        else Inr ())"

definition taskKeys :: "string list" where
  "taskKeys =
     [''id'', ''projectId'', ''state'', ''revision'', ''body'', ''parentId'', ''dependencyIds'',
      ''waiting'', ''completion'', ''cancellation'', ''supersedesTaskId'']"

definition parseTask :: "(jsstr \<Rightarrow> jsstr) \<Rightarrow> jsval \<Rightarrow> jsstr \<Rightarrow> task parsed" where
  "parseTask nfc value path =
     (case readExactRecord value taskKeys of
        None \<Rightarrow> invalid INVALID_SNAPSHOT ''Task must have the exact domain shape''
                  [(''path'', DetailStr path)]
      | Some record \<Rightarrow>
        (case readCanonicalArray (fld record ''dependencyIds'') of
           None \<Rightarrow> invalid INVALID_SNAPSHOT ''Task contains an invalid scalar or collection''
                     [(''path'', DetailStr path)]
         | Some dependencyValues \<Rightarrow>
           if \<not> isIdentifier (fld record ''id'')
              \<or> \<not> isIdentifier (fld record ''projectId'')
              \<or> isTaskState (fld record ''state'') = None
              \<or> \<not> isPositiveInteger (fld record ''revision'')
              \<or> \<not> isString (fld record ''body'')
              \<or> \<not> isNullableIdentifier (fld record ''parentId'')
              \<or> \<not> isNullableIdentifier (fld record ''supersedesTaskId'')
           then invalid INVALID_SNAPSHOT ''Task contains an invalid scalar or collection''
                  [(''path'', DetailStr path)]
           else if \<not> list_all isIdentifier dependencyValues
           then invalid INVALID_SNAPSHOT ''Task contains an invalid scalar or collection''
                  [(''path'', DetailStr path)]
           else let dependencyIds = sort (map strOf dependencyValues);
                    taskId = strOf (fld record ''id'');
                    state = the (isTaskState (fld record ''state''));
                    revision = numOf (fld record ''revision'') in
             if length (remdups dependencyIds) \<noteq> length dependencyIds
             then invalid INVALID_SNAPSHOT ''Task dependency identifiers must be unique''
                    [(''path'', DetailStr path)]
             else if fld record ''parentId'' = fld record ''id''
             then invalid INVALID_SNAPSHOT ''Task cannot parent itself'' [(''path'', DetailStr path)]
             else if taskId \<in> set dependencyIds
             then invalid INVALID_SNAPSHOT ''Task cannot depend on itself'' [(''path'', DetailStr path)]
             else if fld record ''supersedesTaskId'' = fld record ''id''
             then invalid INVALID_SNAPSHOT ''Task cannot supersede itself'' [(''path'', DetailStr path)]
             else
               ebind (parseNullable parseWaiting (fld record ''waiting'') (path @ lit ''.waiting''))
                 (\<lambda>waiting.
               ebind (parseNullable parseCompletion (fld record ''completion'') (path @ lit ''.completion''))
                 (\<lambda>completion.
               ebind (parseNullable (parseCancellation nfc) (fld record ''cancellation'')
                        (path @ lit ''.cancellation''))
                 (\<lambda>cancellation.
               ebind (coherentFacts path state revision waiting completion cancellation) (\<lambda>_.
                 Inr \<lparr>t_id = taskId,
                      t_projectId = strOf (fld record ''projectId''),
                      t_state = state,
                      t_revision = revision,
                      t_body = strOf (fld record ''body''),
                      t_parentId = nullable strOf (fld record ''parentId''),
                      t_dependencyIds = dependencyIds,
                      t_waiting = waiting,
                      t_completion = completion,
                      t_cancellation = cancellation,
                      t_supersedesTaskId = nullable strOf (fld record ''supersedesTaskId'')\<rparr>))))))"

text \<open>The \<open>for\<close> loops over the collections of a snapshot, which name each element by its index.\<close>

fun parseEach ::
  "(jsval \<Rightarrow> jsstr \<Rightarrow> 'a parsed) \<Rightarrow> string \<Rightarrow> nat \<Rightarrow> jsval list \<Rightarrow> 'a list parsed" where
  "parseEach parse collection index [] = Inr []"
| "parseEach parse collection index (value # values) =
     ebind (parse value (lit (collection @ ''['' @ show_nat index @ '']''))) (\<lambda>result.
     ebind (parseEach parse collection (Suc index) values) (\<lambda>results. Inr (result # results)))"

end
