(* ===== verification/Domain_Codec.thy ===== *)
theory Domain_Codec
  imports Domain_Model
begin

text \<open>
  Well-formed domain data, the objects that the program builds from it, and the \<open>codec\<close>
  interface between the two: a parser admits only well-formed data, and reads a well-formed
  value back from the object built for it, whatever path it is parsed at. Every parser of
  \<^verbatim>\<open>src/domain.ts\<close> is an interpretation; the facts on collections are proved once in the
  locale.
\<close>

section \<open>The interface of a parser and its encoder\<close>

locale codec =
  fixes enc :: "'a \<Rightarrow> jsval" and dec :: "jsval \<Rightarrow> jsstr \<Rightarrow> 'a parsed" and wf :: "'a \<Rightarrow> bool"
  assumes dec_enc: "wf x \<Longrightarrow> dec (enc x) path = Inr x"
    and dec_wf: "dec v path = Inr x \<Longrightarrow> wf x"
    and enc_not_null: "enc x \<noteq> JNull"
begin

lemma dec_enc_iff: "dec (enc x) path = Inr x \<longleftrightarrow> wf x"
  using dec_enc dec_wf by blast

lemma dec_normal: "dec v path = Inr x \<Longrightarrow> dec (enc x) path' = Inr x"
  by (blast intro: dec_enc dec_wf)

lemma enc_inject: "wf x \<Longrightarrow> wf y \<Longrightarrow> enc x = enc y \<longleftrightarrow> x = y"
  by (metis dec_enc sum.inject(2))

lemma parseEach_enc: "\<forall>x\<in>set xs. wf x \<Longrightarrow> parseEach dec collection i (map enc xs) = Inr xs"
  by (induction xs arbitrary: i) (auto simp: dec_enc)

lemma parseEach_wf: "parseEach dec collection i vs = Inr xs \<Longrightarrow> \<forall>x\<in>set xs. wf x"
  by (induction vs arbitrary: i xs) (auto simp: err_simps dec_wf)

lemma parseNullable_enc:
  "(case x of None \<Rightarrow> True | Some y \<Rightarrow> wf y) \<Longrightarrow> parseNullable dec (jsNullable enc x) path = Inr x"
  by (auto simp: parseNullable_def dec_enc enc_not_null split: option.splits)

lemma parseNullable_wf: "parseNullable dec v path = Inr (Some x) \<Longrightarrow> wf x"
  by (auto simp: parseNullable_def err_simps dec_wf split: if_splits)

end

section \<open>Well-formed data\<close>

definition safeInt :: "int \<Rightarrow> bool" where
  "safeInt n \<longleftrightarrow> - MAX_SAFE_INTEGER \<le> n \<and> n \<le> MAX_SAFE_INTEGER"

definition wf_project :: "project \<Rightarrow> bool" where
  "wf_project p \<longleftrightarrow> p_id p \<noteq> []"

definition wf_waiting_input :: "waiting_input \<Rightarrow> bool" where
  "wf_waiting_input w \<longleftrightarrow>
     w_phase w \<noteq> [] \<and> w_requiredAction w \<noteq> [] \<and> w_lastErrorCode w \<noteq> [] \<and>
     0 \<le> w_retryCount w \<and> w_retryCount w \<le> MAX_SAFE_INTEGER \<and>
     (case w_retryAfter w of None \<Rightarrow> True | Some n \<Rightarrow> safeInt n) \<and>
     w_executionId w \<noteq> Some [] \<and> w_workspaceRevision w \<noteq> Some [] \<and> w_backendThreadId w \<noteq> Some []"

definition wf_revision :: "int \<Rightarrow> bool" where
  "wf_revision n \<longleftrightarrow> 1 \<le> n \<and> n \<le> MAX_SAFE_INTEGER"

definition wf_waiting :: "waiting_metadata \<Rightarrow> bool" where
  "wf_waiting w \<longleftrightarrow> wf_waiting_input (wm_input w) \<and> wf_revision (wm_waitingTaskRevision w)"

definition wf_completion :: "completion_fact \<Rightarrow> bool" where
  "wf_completion c \<longleftrightarrow> c_decisionId c \<noteq> [] \<and> wf_revision (c_acceptedTaskRevision c)"

definition wf_cancellation :: "(jsstr \<Rightarrow> jsstr) \<Rightarrow> cancellation_fact \<Rightarrow> bool" where
  "wf_cancellation nfc x \<longleftrightarrow>
     isCanonicalCancellationReason nfc (JStr (x_reason x)) \<and> x_verificationId x \<noteq> Some [] \<and>
     wf_revision (x_acceptedTaskRevision x)"

definition facts_of_state :: "task \<Rightarrow> bool" where
  "facts_of_state t \<longleftrightarrow>
     (case t_state t of
        Waiting \<Rightarrow> (\<exists>w. t_waiting t = Some w \<and> wm_waitingTaskRevision w = t_revision t)
                    \<and> t_completion t = None \<and> t_cancellation t = None
      | Completed \<Rightarrow> t_waiting t = None \<and>
                    (\<exists>c. t_completion t = Some c \<and> c_acceptedTaskRevision c = t_revision t - 1)
                    \<and> t_cancellation t = None
      | Cancelled \<Rightarrow> t_waiting t = None \<and> t_completion t = None \<and>
                    (\<exists>x. t_cancellation t = Some x \<and> x_acceptedTaskRevision x = t_revision t - 1)
      | _ \<Rightarrow> t_waiting t = None \<and> t_completion t = None \<and> t_cancellation t = None)"

definition wf_task :: "(jsstr \<Rightarrow> jsstr) \<Rightarrow> task \<Rightarrow> bool" where
  "wf_task nfc t \<longleftrightarrow>
     t_id t \<noteq> [] \<and> t_projectId t \<noteq> [] \<and> wf_revision (t_revision t) \<and>
     t_parentId t \<noteq> Some [] \<and> t_supersedesTaskId t \<noteq> Some [] \<and> [] \<notin> set (t_dependencyIds t) \<and>
     sorted (t_dependencyIds t) \<and> distinct (t_dependencyIds t) \<and>
     t_parentId t \<noteq> Some (t_id t) \<and> t_id t \<notin> set (t_dependencyIds t) \<and>
     t_supersedesTaskId t \<noteq> Some (t_id t) \<and>
     (case t_waiting t of None \<Rightarrow> True | Some w \<Rightarrow> wf_waiting w) \<and>
     (case t_completion t of None \<Rightarrow> True | Some c \<Rightarrow> wf_completion c) \<and>
     (case t_cancellation t of None \<Rightarrow> True | Some x \<Rightarrow> wf_cancellation nfc x) \<and>
     facts_of_state t"

section \<open>The objects built from the data\<close>

definition projectToJs :: "project \<Rightarrow> jsval" where
  "projectToJs p = jsObj [(''id'', JStr (p_id p)), (''enabled'', JBool (p_enabled p))]"

definition waitingInputFields :: "waiting_input \<Rightarrow> (string \<times> jsval) list" where
  "waitingInputFields w =
     [(''reason'', JStr (lit (waitingReasonName (w_reason w)))),
      (''phase'', JStr (w_phase w)),
      (''requiredAction'', JStr (w_requiredAction w)),
      (''lastErrorCode'', JStr (w_lastErrorCode w)),
      (''lastErrorSummary'', jsNullable JStr (w_lastErrorSummary w)),
      (''retryable'', JBool (w_retryable w)),
      (''retryCount'', jsInt (w_retryCount w)),
      (''retryAfter'', jsNullable jsInt (w_retryAfter w)),
      (''executionId'', jsNullable JStr (w_executionId w)),
      (''workspaceRevision'', jsNullable JStr (w_workspaceRevision w)),
      (''backendThreadId'', jsNullable JStr (w_backendThreadId w))]"

definition waitingInputToJs :: "waiting_input \<Rightarrow> jsval" where
  "waitingInputToJs w = jsObj (waitingInputFields w)"

definition waitingToJs :: "waiting_metadata \<Rightarrow> jsval" where
  "waitingToJs w =
     jsObj (waitingInputFields (wm_input w) @
            [(''waitingTaskRevision'', jsInt (wm_waitingTaskRevision w))])"

definition completionToJs :: "completion_fact \<Rightarrow> jsval" where
  "completionToJs c =
     jsObj [(''decisionId'', JStr (c_decisionId c)),
            (''acceptedTaskRevision'', jsInt (c_acceptedTaskRevision c))]"

definition cancellationToJs :: "cancellation_fact \<Rightarrow> jsval" where
  "cancellationToJs x =
     jsObj [(''event'', JStr (lit (cancellationEventName (x_event x)))),
            (''reason'', JStr (x_reason x)),
            (''verificationId'', jsNullable JStr (x_verificationId x)),
            (''acceptedTaskRevision'', jsInt (x_acceptedTaskRevision x))]"

definition taskToJs :: "task \<Rightarrow> jsval" where
  "taskToJs t =
     jsObj [(''id'', JStr (t_id t)),
            (''projectId'', JStr (t_projectId t)),
            (''state'', JStr (lit (stateName (t_state t)))),
            (''revision'', jsInt (t_revision t)),
            (''body'', JStr (t_body t)),
            (''parentId'', jsNullable JStr (t_parentId t)),
            (''dependencyIds'', jsArr (map JStr (t_dependencyIds t))),
            (''waiting'', jsNullable waitingToJs (t_waiting t)),
            (''completion'', jsNullable completionToJs (t_completion t)),
            (''cancellation'', jsNullable cancellationToJs (t_cancellation t)),
            (''supersedesTaskId'', jsNullable JStr (t_supersedesTaskId t))]"

section \<open>Reading the vocabulary back\<close>

lemma isTaskState_lit [simp, codec_simps]: "isTaskState (JStr (lit (stateName s))) = Some s"
  unfolding isTaskState_def
  by (rule enumOf_lit) (cases s; auto simp: TASK_STATES_def inj_on_def)+

lemma isWaitingReason_lit [simp, codec_simps]:
  "isWaitingReason (JStr (lit (waitingReasonName r))) = Some r"
  unfolding isWaitingReason_def
proof (rule enumOf_lit)
  show "inj_on waitingReasonName (set WAITING_REASONS)"
    by (simp add: WAITING_REASONS_def inj_on_def)
  show "r \<in> set WAITING_REASONS"
    by (cases r) (simp_all add: WAITING_REASONS_def)
qed

lemma isTransitionEvent_lit [simp, codec_simps]:
  "isTransitionEvent (JStr (lit (eventName e))) = Some e"
  unfolding isTransitionEvent_def
proof (rule enumOf_lit)
  show "inj_on eventName (set (map (\<lambda>(from, to, event). event) TASK_TRANSITIONS))"
    by (simp add: TASK_TRANSITIONS_def inj_on_def)
  show "e \<in> set (map (\<lambda>(from, to, event). event) TASK_TRANSITIONS)"
    by (cases e) (simp_all add: TASK_TRANSITIONS_def)
qed

lemma isCancellationEvent_lit [simp, codec_simps]:
  "isCancellationEvent (JStr (lit (cancellationEventName e))) = Some e"
  unfolding isCancellationEvent_def
  by (rule enumOf_lit) (cases e; auto simp: inj_on_def)+

section \<open>The parsers are codecs\<close>

lemma jsObj_not_JNull [simp]: "jsObj kvs \<noteq> JNull" "JNull \<noteq> jsObj kvs"
  by (simp_all add: jsObj_def)

lemma toJs_not_JNull [simp]:
  "projectToJs p \<noteq> JNull" "waitingInputToJs w \<noteq> JNull" "waitingToJs wm \<noteq> JNull"
  "completionToJs c \<noteq> JNull" "cancellationToJs x \<noteq> JNull" "taskToJs t \<noteq> JNull"
  by (simp_all add: projectToJs_def waitingInputToJs_def waitingToJs_def completionToJs_def
      cancellationToJs_def taskToJs_def)

interpretation project_codec: codec projectToJs parseProject wf_project
proof
  fix x path
  show "wf_project x \<Longrightarrow> parseProject (projectToJs x) path = Inr x"
    by (simp add: parseProject_def projectToJs_def readExactRecord_jsObj wf_project_def)
next
  fix v path x
  show "parseProject v path = Inr x \<Longrightarrow> wf_project x"
    by (auto simp: parseProject_def wf_project_def err_simps isIdentifier_iff
        split: option.splits if_splits)
qed simp

lemma isSafeInteger_jsNullable:
  "jsNullable jsInt x = JNull \<or> isSafeInteger (jsNullable jsInt x)
    \<longleftrightarrow> (case x of None \<Rightarrow> True | Some n \<Rightarrow> safeInt n)"
  by (cases x) (auto simp: safeInt_def)

lemma isString_jsNullable: "jsNullable JStr x = JNull \<or> isString (jsNullable JStr x)"
  by (cases x) auto

lemma parseWaitingInput_enc:
  assumes "wf_waiting_input w"
  shows "parseWaitingInput (waitingInputToJs w) path = Inr w"
proof -
  have "isNonnegativeInteger (jsInt (w_retryCount w))"
    using assms by (simp add: wf_waiting_input_def isNonnegativeInteger_iff)
  then show ?thesis
    using assms isSafeInteger_jsNullable [of "w_retryAfter w"]
      isString_jsNullable [of "w_lastErrorSummary w"]
    by (simp add: parseWaitingInput_def waitingInputToJs_def waitingInputFields_def
        waitingInputKeys_def readExactRecord_jsObj wf_waiting_input_def)
qed

lemma strOf_identifier [simp]: "isIdentifier v \<Longrightarrow> strOf v \<noteq> []"
  by (auto simp: isIdentifier_iff)

lemma strOf_nullable_identifier [simp]:
  "isNullableIdentifier v \<Longrightarrow> nullable strOf v \<noteq> Some []"
  by (rule isNullableIdentifier_D)

lemma numOf_nonnegative:
  "isNonnegativeInteger v \<Longrightarrow> 0 \<le> numOf v \<and> numOf v \<le> MAX_SAFE_INTEGER"
  by (auto simp: isNonnegativeInteger_iff)

lemma numOf_positive: "isPositiveInteger v \<Longrightarrow> wf_revision (numOf v)"
  by (auto simp: isPositiveInteger_iff wf_revision_def)

lemma numOf_nullable:
  "v = JNull \<or> isSafeInteger v \<Longrightarrow> case nullable numOf v of None \<Rightarrow> True | Some n \<Rightarrow> safeInt n"
  by (auto simp: isSafeInteger_iff safeInt_def)

lemma parseWaitingInput_wf:
  assumes "parseWaitingInput v path = Inr w"
  shows "wf_waiting_input w"
proof (cases "readExactRecord v waitingInputKeys")
  case None
  with assms show ?thesis by (simp add: parseWaitingInput_def)
next
  case (Some r)
  with assms show ?thesis
    by (clarsimp simp: parseWaitingInput_def err_simps wf_waiting_input_def numOf_nonnegative
        numOf_nullable)
qed

interpretation waiting_input_codec: codec waitingInputToJs parseWaitingInput wf_waiting_input
  by unfold_locales (simp_all add: parseWaitingInput_enc parseWaitingInput_wf)

lemma fld_waitingInputFields:
  assumes "key \<in> set waitingInputKeys"
  shows "fld (map (\<lambda>(k, v). (lit k, v)) (waitingInputFields w @ kvs)) key
       = fld (map (\<lambda>(k, v). (lit k, v)) (waitingInputFields w)) key"
  using assms by (auto simp: waitingInputFields_def waitingInputKeys_def)

lemma waitingInputFields_eta:
  "map (\<lambda>key. (key, fld (map (\<lambda>(k, v). (lit k, v)) (waitingInputFields w)) key)) waitingInputKeys
     = waitingInputFields w"
  by (simp add: waitingInputFields_def waitingInputKeys_def)

lemma parseWaiting_enc:
  assumes "wf_waiting w"
  shows "parseWaiting (waitingToJs w) path = Inr w"
proof -
  let ?fs = "waitingInputFields (wm_input w) @ [(''waitingTaskRevision'', jsInt (wm_waitingTaskRevision w))]"
  let ?r = "map (\<lambda>(k, v). (lit k, v)) ?fs"
  have keys: "set (map fst ?fs) \<subseteq> set (waitingInputKeys @ [''waitingTaskRevision''])"
    "length ?fs = length (waitingInputKeys @ [''waitingTaskRevision''])"
    by (simp_all add: waitingInputFields_def waitingInputKeys_def)
  have r: "readExactRecord (waitingToJs w) (waitingInputKeys @ [''waitingTaskRevision'']) = Some ?r"
    unfolding waitingToJs_def by (rule readExactRecord_jsObj [OF keys])
  have "map (\<lambda>key. (key, fld ?r key)) waitingInputKeys = waitingInputFields (wm_input w)"
    by (subst (2) waitingInputFields_eta [symmetric], rule map_cong [OF refl])
      (simp only: fld_waitingInputFields)
  then have input: "jsObj (map (\<lambda>key. (key, fld ?r key)) waitingInputKeys) = waitingInputToJs (wm_input w)"
    by (simp only: waitingInputToJs_def)
  have rev: "fld ?r ''waitingTaskRevision'' = jsInt (wm_waitingTaskRevision w)"
    by (simp add: waitingInputFields_def)
  from assms have "isPositiveInteger (jsInt (wm_waitingTaskRevision w))"
    by (simp add: wf_waiting_def wf_revision_def isPositiveInteger_iff)
  moreover from assms have "parseWaitingInput (waitingInputToJs (wm_input w)) path = Inr (wm_input w)"
    by (simp add: parseWaitingInput_enc wf_waiting_def)
  ultimately show ?thesis
    by (simp only: parseWaiting_def r option.case input ebind_Inr rev) simp
qed

interpretation waiting_codec: codec waitingToJs parseWaiting wf_waiting
proof
  fix v path x
  show "parseWaiting v path = Inr x \<Longrightarrow> wf_waiting x"
    by (auto simp: parseWaiting_def wf_waiting_def err_simps numOf_positive
        dest: parseWaitingInput_wf split: option.splits if_splits)
qed (simp_all add: parseWaiting_enc)

lemma isPositiveInteger_jsInt [simp]: "isPositiveInteger (jsInt n) \<longleftrightarrow> wf_revision n"
  by (simp add: isPositiveInteger_iff wf_revision_def)

interpretation completion_codec: codec completionToJs parseCompletion wf_completion
proof
  fix x path
  show "wf_completion x \<Longrightarrow> parseCompletion (completionToJs x) path = Inr x"
    by (simp add: parseCompletion_def completionToJs_def readExactRecord_jsObj wf_completion_def)
next
  fix v path x
  show "parseCompletion v path = Inr x \<Longrightarrow> wf_completion x"
    by (auto simp: parseCompletion_def wf_completion_def err_simps numOf_positive
        split: option.splits if_splits)
qed simp

interpretation cancellation_codec: codec cancellationToJs "parseCancellation nfc" "wf_cancellation nfc"
  for nfc
proof
  fix x path
  show "wf_cancellation nfc x \<Longrightarrow> parseCancellation nfc (cancellationToJs x) path = Inr x"
    by (simp add: parseCancellation_def cancellationToJs_def readExactRecord_jsObj wf_cancellation_def)
next
  fix v path x
  show "parseCancellation nfc v path = Inr x \<Longrightarrow> wf_cancellation nfc x"
    by (auto simp: parseCancellation_def wf_cancellation_def err_simps numOf_positive
        dest: isCanonicalCancellationReason_D split: option.splits if_splits)
qed simp

lemma coherentFacts_iff:
  "coherentFacts path (t_state t) (t_revision t) (t_waiting t) (t_completion t) (t_cancellation t) = Inr ()
    \<longleftrightarrow> facts_of_state t"
  by (cases "t_state t") (auto simp: coherentFacts_def facts_of_state_def split: option.splits)

lemma fld_parent_eq_id:
  "isIdentifier u \<Longrightarrow> isNullableIdentifier v \<Longrightarrow> v = u \<longleftrightarrow> nullable strOf v = Some (strOf u)"
  by (auto simp: isIdentifier_iff isNullableIdentifier_def)

lemma taskToJs_read:
  "readExactRecord (taskToJs t) taskKeys = Some
     [(lit ''id'', JStr (t_id t)), (lit ''projectId'', JStr (t_projectId t)),
      (lit ''state'', JStr (lit (stateName (t_state t)))), (lit ''revision'', jsInt (t_revision t)),
      (lit ''body'', JStr (t_body t)), (lit ''parentId'', jsNullable JStr (t_parentId t)),
      (lit ''dependencyIds'', jsArr (map JStr (t_dependencyIds t))),
      (lit ''waiting'', jsNullable waitingToJs (t_waiting t)),
      (lit ''completion'', jsNullable completionToJs (t_completion t)),
      (lit ''cancellation'', jsNullable cancellationToJs (t_cancellation t)),
      (lit ''supersedesTaskId'', jsNullable JStr (t_supersedesTaskId t))]"
  by (simp add: taskToJs_def taskKeys_def readExactRecord_jsObj)

lemma list_all_isIdentifier_map: "list_all isIdentifier (map JStr xs) \<longleftrightarrow> [] \<notin> set xs"
  by (auto simp: list_all_iff)

lemma strOf_comp_JStr [simp]: "strOf \<circ> JStr = id"
  by (simp add: fun_eq_iff)

lemma jsNullable_JStr_eq: "jsNullable JStr x = JStr s \<longleftrightarrow> x = Some s"
  by (cases x) auto

lemma parseTask_enc:
  assumes "wf_task nfc t"
  shows "parseTask nfc (taskToJs t) path = Inr t"
proof -
  have w: "parseNullable parseWaiting (jsNullable waitingToJs (t_waiting t)) p = Inr (t_waiting t)" for p
    using assms by (intro waiting_codec.parseNullable_enc) (simp add: wf_task_def)
  have c: "parseNullable parseCompletion (jsNullable completionToJs (t_completion t)) p = Inr (t_completion t)" for p
    using assms by (intro completion_codec.parseNullable_enc) (simp add: wf_task_def)
  have x: "parseNullable (parseCancellation nfc) (jsNullable cancellationToJs (t_cancellation t)) p
      = Inr (t_cancellation t)" for p
    using assms by (intro cancellation_codec.parseNullable_enc) (simp add: wf_task_def)
  have f: "coherentFacts path (t_state t) (t_revision t) (t_waiting t) (t_completion t) (t_cancellation t)
      = Inr ()"
    using assms by (simp add: coherentFacts_iff wf_task_def)
  from assms have "length (remdups (t_dependencyIds t)) = length (t_dependencyIds t)"
    "sort (t_dependencyIds t) = t_dependencyIds t"
    by (simp_all add: wf_task_def sorted_sort_id distinct_remdups_id)
  with assms show ?thesis
    by (simp add: parseTask_def taskToJs_read list_all_isIdentifier_map jsNullable_JStr_eq w c x f
        wf_task_def Let_def)
qed

lemma parseTask_wf:
  assumes "parseTask nfc v path = Inr t"
  shows "wf_task nfc t"
proof -
  from assms obtain r ds where r: "readExactRecord v taskKeys = Some r"
    and ds: "readCanonicalArray (fld r ''dependencyIds'') = Some ds"
    by (auto simp: parseTask_def split: option.splits)
  let ?deps = "sort (map strOf ds)"
  from assms r ds have scalars: "isIdentifier (fld r ''id'')" "isIdentifier (fld r ''projectId'')"
      "isPositiveInteger (fld r ''revision'')" "isNullableIdentifier (fld r ''parentId'')"
      "isNullableIdentifier (fld r ''supersedesTaskId'')" "list_all isIdentifier ds"
    and deps: "distinct ?deps" "fld r ''parentId'' \<noteq> fld r ''id''" "strOf (fld r ''id'') \<notin> set ?deps"
      "fld r ''supersedesTaskId'' \<noteq> fld r ''id''"
    by (auto simp: parseTask_def err_simps Let_def length_remdups_eq_iff)
  from assms r ds obtain w c x where
    w: "parseNullable parseWaiting (fld r ''waiting'') (path @ lit ''.waiting'') = Inr w" and
    c: "parseNullable parseCompletion (fld r ''completion'') (path @ lit ''.completion'') = Inr c" and
    x: "parseNullable (parseCancellation nfc) (fld r ''cancellation'') (path @ lit ''.cancellation'') = Inr x"
    and coh: "coherentFacts path (the (isTaskState (fld r ''state''))) (numOf (fld r ''revision'')) w c x = Inr ()"
    and t: "t = \<lparr>t_id = strOf (fld r ''id''), t_projectId = strOf (fld r ''projectId''),
       t_state = the (isTaskState (fld r ''state'')), t_revision = numOf (fld r ''revision''),
       t_body = strOf (fld r ''body''), t_parentId = nullable strOf (fld r ''parentId''),
       t_dependencyIds = ?deps, t_waiting = w, t_completion = c, t_cancellation = x,
       t_supersedesTaskId = nullable strOf (fld r ''supersedesTaskId'')\<rparr>"
    by (auto simp: parseTask_def err_simps Let_def)
  have "facts_of_state t"
    using coh coherentFacts_iff [of path t] by (simp add: t)
  moreover have "[] \<notin> set ?deps"
    using scalars(6) by (fastforce simp: list_all_iff isIdentifier_iff)
  moreover have "case w of None \<Rightarrow> True | Some w \<Rightarrow> wf_waiting w" 
    using w waiting_codec.parseNullable_wf by (auto split: option.split)
  moreover have "case c of None \<Rightarrow> True | Some c \<Rightarrow> wf_completion c"
    using c completion_codec.parseNullable_wf by (auto split: option.split)
  moreover have "case x of None \<Rightarrow> True | Some x \<Rightarrow> wf_cancellation nfc x"
    using x cancellation_codec.parseNullable_wf by (auto split: option.split)
  ultimately show ?thesis
    using scalars deps fld_parent_eq_id [OF scalars(1,4)] fld_parent_eq_id [OF scalars(1,5)]
    unfolding wf_task_def by (simp add: t numOf_positive)
qed

interpretation task_codec: codec taskToJs "parseTask nfc" "wf_task nfc" for nfc
  by unfold_locales (simp_all add: parseTask_enc parseTask_wf)

end
