(* ===== verification/Domain_Graph.thy ===== *)
theory Domain_Graph
  imports Domain_Codec
begin

text \<open>
  The two graphs over Tasks, parent hierarchy and dependencies, and the four searches of
  \<^verbatim>\<open>src/domain.ts\<close> over them: \<open>parentCycle\<close>, \<open>dependencyCycle\<close>, \<open>dependencyReaches\<close> and the
  cursor walk inside \<open>setTaskParent\<close>. Each loop is a function with a termination proof (every
  step visits a registered Task that was not visited before, or shortens the work list), and
  each search is shown to decide the graph property it is named after.
\<close>

section \<open>The graphs\<close>

definition parentRel :: "task list \<Rightarrow> jsstr rel" where
  "parentRel tasks = {(t_id t, p) | t p. t \<in> set tasks \<and> t_parentId t = Some p}"

definition depRel :: "task list \<Rightarrow> jsstr rel" where
  "depRel tasks = {(t_id t, d) | t d. t \<in> set tasks \<and> d \<in> set (t_dependencyIds t)}"

text \<open>\<open>new Map(tasks.map((task) => [task.id, task]))\<close>: the last entry for a key wins.\<close>

definition byId :: "task list \<Rightarrow> jsstr \<Rightarrow> task option" where
  "byId tasks k = find (\<lambda>t. t_id t = k) (rev tasks)"

abbreviation ids :: "task list \<Rightarrow> jsstr set" where
  "ids tasks \<equiv> t_id ` set tasks"

lemma byId_Some_D: "byId tasks k = Some t \<Longrightarrow> t \<in> set tasks \<and> t_id t = k"
  by (auto simp: byId_def dest: find_eq_Some_D)

lemma byId_None_iff: "byId tasks k = None \<longleftrightarrow> k \<notin> ids tasks"
  by (auto simp: byId_def find_None_iff)

lemma byId_iff:
  "distinct (map t_id tasks) \<Longrightarrow> byId tasks k = Some t \<longleftrightarrow> t \<in> set tasks \<and> t_id t = k"
  by (simp add: byId_def find_key_iff rev_map [symmetric])

lemma byId_eq_find: "distinct (map t_id tasks) \<Longrightarrow> byId tasks k = find (\<lambda>t. t_id t = k) tasks"
  by (rule option_eq_via_Some) (simp add: byId_iff find_key_iff)

lemma card_ids_Diff_less:
  "x \<in> ids tasks \<Longrightarrow> x \<notin> seen \<Longrightarrow> card (ids tasks - insert x seen) < card (ids tasks - seen)"
  by (rule psubset_card_mono) auto

lemma card_ids_Diff_same: "x \<notin> ids tasks \<Longrightarrow> ids tasks - insert x seen = ids tasks - seen"
  by auto

section \<open>Parent cycles\<close>

text \<open>The inner \<open>while\<close> loop: follow parents until one was seen before or there is none.\<close>

function parentWalk :: "task list \<Rightarrow> jsstr list \<Rightarrow> jsstr option \<Rightarrow> bool" where
  "parentWalk tasks seen None = False"
| "parentWalk tasks seen (Some parentId) =
     (if parentId \<in> set seen then True
      else parentWalk tasks (parentId # seen) (Option.bind (byId tasks parentId) t_parentId))"
  by pat_completeness auto
termination parentWalk
proof (relation "measure (\<lambda>(tasks, seen, p). case p of None \<Rightarrow> 0
    | Some _ \<Rightarrow> Suc (card (ids tasks - set seen)))", goal_cases)
  case (2 tasks seen p)
  show ?case
  proof (cases "byId tasks p")
    case (Some t)
    then have "p \<in> ids tasks" by (auto dest: byId_Some_D)
    with 2 show ?thesis
      using card_ids_Diff_less [of p tasks "set seen"] by (simp split: option.split)
  qed simp
qed simp

definition parentCycle :: "task list \<Rightarrow> jsstr option" where
  "parentCycle tasks =
     map_option t_id (find (\<lambda>task. parentWalk tasks [t_id task] (t_parentId task)) tasks)"

lemma parentRel_step:
  assumes "distinct (map t_id tasks)" and "(x, y) \<in> parentRel tasks"
  shows "Option.bind (byId tasks x) t_parentId = Some y"
proof -
  from assms(2) obtain t where "t \<in> set tasks" "t_id t = x" "t_parentId t = Some y"
    by (auto simp: parentRel_def)
  with assms(1) have "byId tasks x = Some t" by (simp add: byId_iff)
  with \<open>t_parentId t = Some y\<close> show ?thesis by simp
qed

lemma bind_byId_parentRel:
  "Option.bind (byId tasks x) t_parentId = Some y \<Longrightarrow> (x, y) \<in> parentRel tasks"
  by (cases "byId tasks x") (auto simp: parentRel_def dest: byId_Some_D)

lemma parentWalk_False_reach:
  "\<not> parentWalk tasks seen p \<Longrightarrow> distinct (map t_id tasks) \<Longrightarrow> p = Some x \<Longrightarrow>
    (x, y) \<in> (parentRel tasks)\<^sup>* \<Longrightarrow> y \<notin> set seen"
proof (induction tasks seen p arbitrary: x rule: parentWalk.induct)
  case (2 tasks seen p)
  then have "p \<notin> set seen" by (simp split: if_splits)
  from "2.prems"(4) show ?case
  proof (cases rule: converse_rtranclE)
    case base
    with \<open>p \<notin> set seen\<close> "2.prems"(3) show ?thesis by simp
  next
    case (step z)
    with "2.prems"(2,3) have "Option.bind (byId tasks p) t_parentId = Some z"
      by (simp add: parentRel_step)
    then show ?thesis
      using 2 step(2) by (auto split: if_splits)
  qed
qed simp

lemma parentWalk_acyclic:
  "acyclic (parentRel tasks) \<Longrightarrow> (\<And>x s. p = Some x \<Longrightarrow> s \<in> set seen \<Longrightarrow> (s, x) \<in> (parentRel tasks)\<^sup>+) \<Longrightarrow>
    \<not> parentWalk tasks seen p"
proof (induction tasks seen p rule: parentWalk.induct)
  case (2 tasks seen p)
  have p: "p \<notin> set seen"
    using "2.prems" by (auto simp: acyclic_def)
  have "\<not> parentWalk tasks (p # seen) (Option.bind (byId tasks p) t_parentId)"
  proof (rule "2.IH" [OF p "2.prems"(1)])
    fix x s
    assume "Option.bind (byId tasks p) t_parentId = Some x" and s: "s \<in> set (p # seen)"
    then have px: "(p, x) \<in> parentRel tasks" by (simp add: bind_byId_parentRel)
    show "(s, x) \<in> (parentRel tasks)\<^sup>+"
    proof (cases "s = p")
      case False
      with s "2.prems"(2) [of p s] have "(s, p) \<in> (parentRel tasks)\<^sup>+" by simp
      from this px show ?thesis by (rule trancl_into_trancl)
    qed (use px in auto)
  qed
  with p show ?case by simp
qed simp

theorem parentCycle_None_iff:
  assumes "distinct (map t_id tasks)"
  shows "parentCycle tasks = None \<longleftrightarrow> acyclic (parentRel tasks)"
proof
  assume none: "parentCycle tasks = None"
  show "acyclic (parentRel tasks)"
    unfolding acyclic_def
  proof (intro allI notI)
    fix x
    assume "(x, x) \<in> (parentRel tasks)\<^sup>+"
    then obtain y where xy: "(x, y) \<in> parentRel tasks" and yx: "(y, x) \<in> (parentRel tasks)\<^sup>*"
      by (auto dest: tranclD)
    then obtain t where "t \<in> set tasks" "t_id t = x" "t_parentId t = Some y"
      by (auto simp: parentRel_def)
    moreover from this none have "\<not> parentWalk tasks [t_id t] (t_parentId t)"
      by (auto simp: parentCycle_def find_None_iff)
    ultimately show False
      using parentWalk_False_reach [OF _ assms, of "[t_id t]" "Some y" y x] yx by simp
  qed
next
  assume ac: "acyclic (parentRel tasks)"
  have "\<not> parentWalk tasks [t_id t] (t_parentId t)" if "t \<in> set tasks" for t
    using that by (intro parentWalk_acyclic [OF ac]) (auto simp: parentRel_def)
  then show "parentCycle tasks = None"
    by (auto simp: parentCycle_def find_None_iff)
qed

section \<open>Dependency cycles\<close>

definition depsOf :: "task list \<Rightarrow> jsstr \<Rightarrow> jsstr list" where
  "depsOf tasks k = (case byId tasks k of None \<Rightarrow> [] | Some t \<Rightarrow> t_dependencyIds t)"

text \<open>
  The recursive \<open>visit\<close> and the loop over a Task's dependencies inside it. Both thread the
  mutable sets \<open>visiting\<close> and \<open>visited\<close>; the first component is the Task on a cycle, if any.
\<close>

function visit ::
    "task list \<Rightarrow> jsstr \<Rightarrow> jsstr list \<Rightarrow> jsstr list \<Rightarrow> jsstr option \<times> jsstr list \<times> jsstr list"
  and visitDependencies ::
    "task list \<Rightarrow> jsstr list \<Rightarrow> jsstr list \<Rightarrow> jsstr list \<Rightarrow> jsstr option \<times> jsstr list \<times> jsstr list"
where
  "visit tasks taskId visiting visited =
     (if taskId \<in> set visiting then (Some taskId, visiting, visited)
      else if taskId \<in> set visited then (None, visiting, visited)
      else case visitDependencies tasks (depsOf tasks taskId) (taskId # visiting) visited of
        (Some cycle, visiting', visited') \<Rightarrow> (Some cycle, visiting', visited')
      | (None, visiting', visited') \<Rightarrow> (None, removeAll taskId visiting', taskId # visited'))"
| "visitDependencies tasks [] visiting visited = (None, visiting, visited)"
| "visitDependencies tasks (dependencyId # dependencyIds) visiting visited =
     (case visit tasks dependencyId visiting visited of
        (Some cycle, visiting', visited') \<Rightarrow> (Some cycle, visiting', visited')
      | (None, visiting', visited') \<Rightarrow> visitDependencies tasks dependencyIds visiting' visited')"
  by pat_completeness auto

lemma visit_restores_visiting_partial:
  "visit_visitDependencies_dom (Inl (tasks, x, vis, ved)) \<Longrightarrow>
     visit tasks x vis ved = (None, vis', ved') \<Longrightarrow> vis' = vis"
  "visit_visitDependencies_dom (Inr (tasks, ds, vis, ved)) \<Longrightarrow>
     visitDependencies tasks ds vis ved = (None, vis', ved') \<Longrightarrow> vis' = vis"
proof (induction tasks x vis ved and tasks ds vis ved arbitrary: vis' ved' and vis' ved'
    rule: visit_visitDependencies.pinduct)
  case (1 tasks x vis ved)
  from "1.prems" show ?case
    unfolding visit.psimps [OF "1.hyps"]
    by (auto split: if_splits option.splits prod.splits dest!: "1.IH" [rotated 2])
next
  case (2 tasks vis ved)
  then show ?case by (simp add: visitDependencies.psimps)
next
  case (3 tasks d ds vis ved)
  from "3.prems" obtain vis'' ved'' where v: "visit tasks d vis ved = (None, vis'', ved'')"
    and ds: "visitDependencies tasks ds vis'' ved'' = (None, vis', ved')"
    unfolding visitDependencies.psimps(2) [OF "3.hyps"] by (auto split: option.splits prod.splits)
  from "3.IH"(2) [OF v [symmetric] refl refl ds] "3.IH"(1) [OF v] show ?case by simp
qed

termination visit
proof (relation "measures [\<lambda>x. case x of
      Inl (tasks, x, vis, ved) \<Rightarrow> card (ids tasks - set vis)
    | Inr (tasks, ds, vis, ved) \<Rightarrow> card (ids tasks - set vis),
    \<lambda>x. case x of Inl _ \<Rightarrow> 1 | Inr (tasks, ds, vis, ved) \<Rightarrow> 2 * length ds]", goal_cases)
  case (2 tasks x vis ved)
  show ?case
  proof (cases "x \<in> ids tasks")
    case True
    with 2 show ?thesis using card_ids_Diff_less [of x tasks "set vis"] by simp
  next
    case False
    then have "depsOf tasks x = []" by (simp add: depsOf_def byId_None_iff [symmetric])
    with False show ?thesis by (simp add: card_ids_Diff_same)
  qed
next
  case (4 tasks d ds vis ved r y vis' ved')
  then have "vis' = vis" by (metis visit_restores_visiting_partial(1))
  then show ?case by simp
qed simp_all

declare visit.simps [simp del]

lemma visit_restores_visiting:
  "visit tasks x vis ved = (None, vis', ved') \<Longrightarrow> vis' = vis"
  "visitDependencies tasks ds vis ved = (None, vis', ved') \<Longrightarrow> vis' = vis"
proof (induction tasks x vis ved and tasks ds vis ved arbitrary: vis' ved' and vis' ved'
    rule: visit_visitDependencies.induct)
  case (1 tasks x vis ved)
  from "1.prems" show ?case
    unfolding visit.simps [of tasks x vis ved]
    by (auto split: if_splits option.splits prod.splits dest!: "1.IH" [rotated 2])
next
  case (3 tasks d ds vis ved)
  from "3.prems" obtain vis'' ved'' where v: "visit tasks d vis ved = (None, vis'', ved'')"
    and ds: "visitDependencies tasks ds vis'' ved'' = (None, vis', ved')"
    by (auto split: option.splits prod.splits)
  from "3.IH"(2) [OF v [symmetric] refl refl ds] "3.IH"(1) [OF v] show ?case by simp
qed simp

text \<open>The outer loop over all Tasks is the same loop, over the Task identifiers.\<close>

definition dependencyCycle :: "task list \<Rightarrow> jsstr option" where
  "dependencyCycle tasks = fst (visitDependencies tasks (map t_id tasks) [] [])"

lemma depsOf_depRel: "d \<in> set (depsOf tasks x) \<Longrightarrow> (x, d) \<in> depRel tasks"
proof (cases "byId tasks x")
  case (Some t)
  then have "t \<in> set tasks" "t_id t = x" by (simp_all add: byId_Some_D)
  then show "d \<in> set (depsOf tasks x) \<Longrightarrow> (x, d) \<in> depRel tasks"
    using Some by (auto simp: depsOf_def depRel_def)
qed (simp add: depsOf_def)

lemma depRel_depsOf:
  assumes "distinct (map t_id tasks)" and "(x, d) \<in> depRel tasks"
  shows "d \<in> set (depsOf tasks x)"
proof -
  from assms(2) obtain t where "t \<in> set tasks" "t_id t = x" "d \<in> set (t_dependencyIds t)"
    by (auto simp: depRel_def)
  moreover from this assms(1) have "byId tasks x = Some t" by (simp add: byId_iff)
  ultimately show ?thesis by (simp add: depsOf_def)
qed

text \<open>On an acyclic graph the search never reports a cycle.\<close>

lemma visit_acyclic:
  "acyclic (depRel tasks) \<Longrightarrow> \<forall>v\<in>set vis. (v, x) \<in> (depRel tasks)\<^sup>+ \<Longrightarrow>
     fst (visit tasks x vis ved) = None"
  "acyclic (depRel tasks) \<Longrightarrow> \<forall>d\<in>set ds. \<forall>v\<in>set vis. (v, d) \<in> (depRel tasks)\<^sup>+ \<Longrightarrow>
     fst (visitDependencies tasks ds vis ved) = None"
proof (induction tasks x vis ved and tasks ds vis ved rule: visit_visitDependencies.induct)
  case (1 tasks x vis ved)
  have x: "x \<notin> set vis"
    using "1.prems" by (auto simp: acyclic_def)
  have deps: "\<forall>d\<in>set (depsOf tasks x). \<forall>v\<in>set (x # vis). (v, d) \<in> (depRel tasks)\<^sup>+"
    using "1.prems"(2) by (auto dest!: depsOf_depRel intro: trancl_into_trancl)
  show ?case
  proof (cases "x \<in> set ved")
    case False
    with "1.IH" [OF x False "1.prems"(1) deps] x show ?thesis
      by (auto simp: visit.simps [of tasks x] split: prod.splits)
  qed (simp add: visit.simps [of tasks x] x)
next
  case (3 tasks d ds vis ved)
  obtain r vis' ved' where v: "visit tasks d vis ved = (r, vis', ved')"
    by (cases "visit tasks d vis ved") auto
  with "3.IH"(1) "3.prems" have r: "r = None" by simp
  with v have "vis' = vis" by (simp add: visit_restores_visiting)
  with v r have vd: "visit tasks d vis ved = (None, vis, ved')" by simp
  have "fst (visitDependencies tasks ds vis ved') = None"
    using "3.prems" by (intro "3.IH"(2) [OF vd [symmetric] refl refl]) auto
  with vd show ?case by simp
qed simp

text \<open>
  A visited Task reaches no cycle. When the search succeeds, everything it was asked to visit
  is visited and this stays true.
\<close>

definition reaches_no_cycle :: "'a rel \<Rightarrow> 'a \<Rightarrow> bool" where
  "reaches_no_cycle r x \<longleftrightarrow> (\<forall>y. (x, y) \<in> r\<^sup>* \<longrightarrow> (y, y) \<notin> r\<^sup>+)"

lemma reaches_no_cycle_step:
  assumes "\<And>d. (x, d) \<in> r \<Longrightarrow> reaches_no_cycle r d"
  shows "reaches_no_cycle r x"
  unfolding reaches_no_cycle_def
proof (intro allI impI notI)
  fix y
  assume xy: "(x, y) \<in> r\<^sup>*" and yy: "(y, y) \<in> r\<^sup>+"
  show False
  proof (cases "x = y")
    case True
    with yy obtain d where "(x, d) \<in> r" "(d, x) \<in> r\<^sup>*" by (auto dest: tranclD)
    with assms [of d] yy True show False by (auto simp: reaches_no_cycle_def)
  next
    case False
    with xy obtain d where "(x, d) \<in> r" "(d, y) \<in> r\<^sup>*" by (auto elim: converse_rtranclE)
    with assms [of d] yy show False by (auto simp: reaches_no_cycle_def)
  qed
qed

lemma visit_visited:
  "visit tasks x vis ved = (None, vis', ved') \<Longrightarrow> distinct (map t_id tasks) \<Longrightarrow>
     \<forall>v\<in>set ved. reaches_no_cycle (depRel tasks) v \<Longrightarrow>
     insert x (set ved) \<subseteq> set ved' \<and> (\<forall>v\<in>set ved'. reaches_no_cycle (depRel tasks) v)"
  "visitDependencies tasks ds vis ved = (None, vis', ved') \<Longrightarrow> distinct (map t_id tasks) \<Longrightarrow>
     \<forall>v\<in>set ved. reaches_no_cycle (depRel tasks) v \<Longrightarrow>
     set ds \<union> set ved \<subseteq> set ved' \<and> (\<forall>v\<in>set ved'. reaches_no_cycle (depRel tasks) v)"
proof (induction tasks x vis ved and tasks ds vis ved arbitrary: vis' ved' and vis' ved'
    rule: visit_visitDependencies.induct)
  case (1 tasks x vis ved)
  show ?case
  proof (cases "x \<in> set ved")
    case True
    with "1.prems" show ?thesis by (auto simp: visit.simps [of tasks x] split: if_splits)
  next
    case False
    with "1.prems"(1) obtain vis'' ved'' where x: "x \<notin> set vis"
      and d: "visitDependencies tasks (depsOf tasks x) (x # vis) ved = (None, vis'', ved'')"
      and ved': "ved' = x # ved''"
      by (auto simp: visit.simps [of tasks x] split: if_splits option.splits prod.splits)
    from "1.IH" [OF x False d "1.prems"(2,3)]
    have IH: "set (depsOf tasks x) \<union> set ved \<subseteq> set ved''"
      "\<forall>v\<in>set ved''. reaches_no_cycle (depRel tasks) v" by auto
    then have "reaches_no_cycle (depRel tasks) x"
      using depRel_depsOf [OF "1.prems"(2)] by (blast intro: reaches_no_cycle_step)
    with IH ved' show ?thesis by auto
  qed
next
  case (3 tasks d ds vis ved)
  from "3.prems"(1) obtain vis'' ved'' where v: "visit tasks d vis ved = (None, vis'', ved'')"
    and ds: "visitDependencies tasks ds vis'' ved'' = (None, vis', ved')"
    by (auto split: option.splits prod.splits)
  from "3.IH"(1) [OF v "3.prems"(2,3)] have IH1: "insert d (set ved) \<subseteq> set ved''"
    "\<forall>v\<in>set ved''. reaches_no_cycle (depRel tasks) v" by auto
  from "3.IH"(2) [OF v [symmetric] refl refl ds "3.prems"(2) IH1(2)] IH1(1)
  show ?case by auto
qed simp

theorem dependencyCycle_None_iff:
  assumes "distinct (map t_id tasks)"
  shows "dependencyCycle tasks = None \<longleftrightarrow> acyclic (depRel tasks)"
proof
  assume "dependencyCycle tasks = None"
  then obtain vis ved where "visitDependencies tasks (map t_id tasks) [] [] = (None, vis, ved)"
    by (cases "visitDependencies tasks (map t_id tasks) [] []") (auto simp: dependencyCycle_def)
  from visit_visited(2) [OF this assms]
  have ids: "reaches_no_cycle (depRel tasks) x" if "x \<in> ids tasks" for x
    using that by auto
  show "acyclic (depRel tasks)"
    unfolding acyclic_def
  proof (intro allI notI)
    fix x
    assume cyc: "(x, x) \<in> (depRel tasks)\<^sup>+"
    then have "x \<in> ids tasks" by (auto dest!: tranclD simp: depRel_def)
    with ids cyc show False by (auto simp: reaches_no_cycle_def)
  qed
next
  assume "acyclic (depRel tasks)"
  then show "dependencyCycle tasks = None"
    unfolding dependencyCycle_def by (rule visit_acyclic(2)) simp
qed

section \<open>Reachability of a dependency\<close>

text \<open>
  The work list of \<open>dependencyReaches\<close>: \<open>pop\<close> takes the last element, \<open>push\<close> appends.
\<close>

function reachLoop :: "task list \<Rightarrow> jsstr \<Rightarrow> jsstr list \<Rightarrow> jsstr list \<Rightarrow> bool" where
  "reachLoop tasks targetTaskId pending seen =
     (if pending = [] then False
      else let current = last pending; rest = butlast pending in
        if current = targetTaskId then True
        else if current \<in> set seen then reachLoop tasks targetTaskId rest seen
        else reachLoop tasks targetTaskId (rest @ depsOf tasks current) (current # seen))"
  by pat_completeness auto
termination reachLoop
proof (relation "measures [\<lambda>(tasks, target, pending, seen). card (ids tasks - set seen),
    \<lambda>(tasks, target, pending, seen). length pending]", goal_cases)
  case (3 tasks target pending seen current rest)
  show ?case
  proof (cases "current \<in> ids tasks")
    case True
    with 3 show ?thesis using card_ids_Diff_less [of current tasks "set seen"] by simp
  next
    case False
    then have "depsOf tasks current = []" by (simp add: depsOf_def byId_None_iff [symmetric])
    with False 3 show ?thesis by (simp add: card_ids_Diff_same)
  qed
qed simp_all

declare reachLoop.simps [simp del]

lemma set_last_butlast: "xs \<noteq> [] \<Longrightarrow> set xs = insert (last xs) (set (butlast xs))"
  by (induction xs) auto

lemma reachLoop_sound:
  "reachLoop tasks target pending seen \<Longrightarrow> \<exists>p\<in>set pending. (p, target) \<in> (depRel tasks)\<^sup>*"
proof (induction tasks target pending seen rule: reachLoop.induct)
  case (1 tasks target pending seen)
  let ?c = "last pending" and ?rest = "butlast pending"
  from "1.prems" have ne: "pending \<noteq> []" by (auto simp: reachLoop.simps [of tasks target])
  note set = set_last_butlast [OF ne]
  consider "?c = target" | "?c \<noteq> target" "?c \<in> set seen" | "?c \<noteq> target" "?c \<notin> set seen" by blast
  then show ?case
  proof cases
    case 2
    with ne "1.prems" have "reachLoop tasks target ?rest seen"
      by (simp add: reachLoop.simps [of tasks target pending] Let_def)
    with "1.IH"(1) [OF ne refl refl 2] set show ?thesis by auto
  next
    case 3
    with ne "1.prems" have "reachLoop tasks target (?rest @ depsOf tasks ?c) (?c # seen)"
      by (simp add: reachLoop.simps [of tasks target pending] Let_def)
    with "1.IH"(2) [OF ne refl refl 3] obtain p
      where "p \<in> set ?rest \<or> p \<in> set (depsOf tasks ?c)" "(p, target) \<in> (depRel tasks)\<^sup>*" by auto
    then show ?thesis
      using set by (auto dest!: depsOf_depRel intro: converse_rtrancl_into_rtrancl)
  qed (use set in auto)
qed

text \<open>When the loop ends empty-handed, what it saw is closed under dependencies.\<close>

lemma reachLoop_complete:
  "\<not> reachLoop tasks target pending seen \<Longrightarrow> distinct (map t_id tasks) \<Longrightarrow>
    \<forall>x\<in>set seen. x \<noteq> target \<and> (\<forall>y. (x, y) \<in> depRel tasks \<longrightarrow> y \<in> set seen \<union> set pending) \<Longrightarrow>
    p \<in> set pending \<union> set seen \<Longrightarrow> (p, target) \<notin> (depRel tasks)\<^sup>*"
proof (induction tasks target pending seen arbitrary: p rule: reachLoop.induct)
  case (1 tasks target pending seen)
  let ?c = "last pending" and ?rest = "butlast pending"
  show ?case
  proof (cases "pending = []")
    case True
    have "y \<in> set seen" if "(p, y) \<in> (depRel tasks)\<^sup>*" for y
      using that True "1.prems"(3,4) by (induction rule: rtrancl_induct) auto
    with "1.prems"(3) show ?thesis by blast
  next
    case ne: False
    note set = set_last_butlast [OF ne]
    from ne "1.prems"(1) have c: "?c \<noteq> target"
      by (auto simp: reachLoop.simps [of tasks target pending] Let_def)
    show ?thesis
    proof (cases "?c \<in> set seen")
      case True
      with ne c "1.prems"(1) have "\<not> reachLoop tasks target ?rest seen"
        by (simp add: reachLoop.simps [of tasks target pending] Let_def)
      with "1.IH"(1) [OF ne refl refl c True] "1.prems" True set show ?thesis by auto
    next
      case False
      with ne c "1.prems"(1)
      have "\<not> reachLoop tasks target (?rest @ depsOf tasks ?c) (?c # seen)"
        by (simp add: reachLoop.simps [of tasks target pending] Let_def)
      moreover have "\<forall>x\<in>set (?c # seen). x \<noteq> target \<and>
          (\<forall>y. (x, y) \<in> depRel tasks \<longrightarrow> y \<in> set (?c # seen) \<union> set (?rest @ depsOf tasks ?c))"
        using "1.prems"(2,3) c set depRel_depsOf [OF "1.prems"(2)] by auto
      ultimately show ?thesis
        using "1.IH"(2) [OF ne refl refl c False] "1.prems"(2,4) set by auto
    qed
  qed
qed

theorem reachLoop_iff:
  assumes "distinct (map t_id tasks)"
  shows "reachLoop tasks target [from] [] \<longleftrightarrow> (from, target) \<in> (depRel tasks)\<^sup>*"
  using reachLoop_sound [of tasks target "[from]" "[]"]
    reachLoop_complete [of tasks target "[from]" "[]" "from"] assms by auto

section \<open>The cursor walk of \<open>setTaskParent\<close>\<close>

function cursorReaches :: "task list \<Rightarrow> jsstr \<Rightarrow> task option \<Rightarrow> jsstr list \<Rightarrow> bool" where
  "cursorReaches tasks taskId None seen = False"
| "cursorReaches tasks taskId (Some cursor) seen =
     (if t_id cursor = taskId then True
      else case t_parentId cursor of
        None \<Rightarrow> False
      | Some parentId \<Rightarrow>
          if t_id cursor \<in> set seen then False
          else cursorReaches tasks taskId (find (\<lambda>t. t_id t = parentId) tasks) (t_id cursor # seen))"
  by pat_completeness auto
termination cursorReaches
proof (relation "measures [\<lambda>(tasks, x, cursor, seen). card (ids tasks - set seen),
    \<lambda>(tasks, x, cursor, seen). case cursor of None \<Rightarrow> 0 | Some c \<Rightarrow> if t_id c \<in> ids tasks then 1 else 2]",
    goal_cases)
  case (2 tasks x cursor seen p)
  show ?case
  proof (cases "t_id cursor \<in> ids tasks")
    case True
    with 2 show ?thesis using card_ids_Diff_less [of "t_id cursor" tasks "set seen"] by simp
  next
    case False
    then have "(case find (\<lambda>t. t_id t = p) tasks of None \<Rightarrow> 0
        | Some c \<Rightarrow> if t_id c \<in> ids tasks then 1 else 2) < (2::nat)"
      by (auto split: option.split dest!: find_eq_Some_D)
    with False show ?thesis by (simp add: card_ids_Diff_same)
  qed
qed simp

lemma cursorReaches_sound:
  "cursorReaches tasks x c seen \<Longrightarrow> c = Some t \<Longrightarrow> t \<in> set tasks \<Longrightarrow>
    (t_id t, x) \<in> (parentRel tasks)\<^sup>*"
proof (induction tasks x c seen arbitrary: t rule: cursorReaches.induct)
  case (2 tasks x c seen)
  show ?case
  proof (cases "t_id c = x")
    case False
    with "2.prems" obtain p u where p: "t_parentId c = Some p" "t_id c \<notin> set seen"
      and u: "find (\<lambda>t. t_id t = p) tasks = Some u" "cursorReaches tasks x (Some u) (t_id c # seen)"
      by (cases "find (\<lambda>t. t_id t = the (t_parentId c)) tasks") (auto split: option.splits if_splits)
    from u(1) have "u \<in> set tasks" "t_id u = p" by (auto dest: find_eq_Some_D)
    with "2.IH" [OF False p, of u] u have "(p, x) \<in> (parentRel tasks)\<^sup>*"
      by (simp del: cursorReaches.simps)
    moreover have "(t_id t, p) \<in> parentRel tasks"
      using "2.prems" p by (auto simp: parentRel_def)
    ultimately show ?thesis by (rule converse_rtrancl_into_rtrancl [rotated])
  qed (use "2.prems" in auto)
qed simp

lemma cursorReaches_complete:
  "\<not> cursorReaches tasks x c seen \<Longrightarrow> c = Some t \<Longrightarrow> t \<in> set tasks \<Longrightarrow>
    distinct (map t_id tasks) \<Longrightarrow> acyclic (parentRel tasks) \<Longrightarrow>
    (\<forall>u\<in>set tasks. \<forall>p. t_parentId u = Some p \<longrightarrow> p \<in> ids tasks) \<Longrightarrow>
    \<forall>s\<in>set seen. (s, t_id t) \<in> (parentRel tasks)\<^sup>+ \<Longrightarrow> (t_id t, x) \<notin> (parentRel tasks)\<^sup>*"
proof (induction tasks x c seen arbitrary: t rule: cursorReaches.induct)
  case (2 tasks x c seen)
  from "2.prems"(1) have ne: "t_id c \<noteq> x" by auto
  have seen: "t_id c \<notin> set seen" using "2.prems"(2,5,7) by (auto simp: acyclic_def)
  show ?case
  proof
    assume "(t_id t, x) \<in> (parentRel tasks)\<^sup>*"
    then obtain p where p: "(t_id t, p) \<in> parentRel tasks" "(p, x) \<in> (parentRel tasks)\<^sup>*"
      using ne "2.prems"(2) by (auto elim: converse_rtranclE)
    have "byId tasks (t_id t) = Some c" using "2.prems"(2,3,4) by (simp add: byId_iff)
    with parentRel_step [OF "2.prems"(4) p(1)] have par: "t_parentId c = Some p" by simp
    with "2.prems"(2,3,6) obtain u where u: "u \<in> set tasks" "t_id u = p" by auto
    with "2.prems"(4) have find: "find (\<lambda>t. t_id t = p) tasks = Some u" by (simp add: find_key_iff)
    have "(p, x) \<notin> (parentRel tasks)\<^sup>*"
      using "2.IH" [OF ne par seen, of u] "2.prems" ne par seen u find p(1)
      by (auto intro: trancl_into_trancl)
    with p(2) show False by simp
  qed
qed simp

end
