(* ===== verification/Domain_Snapshot.thy ===== *)
theory Domain_Snapshot
  imports Domain_Graph "HOL-Library.AList"
begin

text \<open>
  Snapshot validation (\<open>parseSnapshot\<close>) and the primitives that every operation of the Domain
  Core is built from: lookup by identifier, \<open>nextTask\<close>, \<open>replaceTasks\<close>, \<open>requireMutableTask\<close>. The
  central result is that validation admits exactly the well-formed snapshots: whatever
  \<open>parseSnapshot\<close> accepts is well formed, and a well-formed snapshot is read back unchanged.
\<close>

section \<open>Validation\<close>

datatype validation_mode = CompleteMode | DecisionMode

text \<open>Whether a dangling Project or dependency of this Task is refused.\<close>

definition strictFor :: "validation_mode \<Rightarrow> jsstr option \<Rightarrow> task \<Rightarrow> bool" where
  "strictFor mode decisionTaskId task \<longleftrightarrow> mode = CompleteMode \<or> Some (t_id task) \<noteq> decisionTaskId"

definition checkReferences ::
  "validation_mode \<Rightarrow> jsstr option \<Rightarrow> project list \<Rightarrow> task list \<Rightarrow> task \<Rightarrow> unit parsed" where
  "checkReferences mode decisionTaskId projects tasks task =
     (if t_projectId task \<notin> p_id ` set projects \<and> strictFor mode decisionTaskId task
      then invalid INVALID_SNAPSHOT ''Task Project is not registered''
             [(''taskId'', DetailStr (t_id task))]
      else
        ebind (case t_parentId task of
                 None \<Rightarrow> Inr ()
               | Some parentId \<Rightarrow>
                   (case byId tasks parentId of
                      None \<Rightarrow> invalid INVALID_SNAPSHOT ''Task parent is not registered''
                                [(''taskId'', DetailStr (t_id task))]
                    | Some parent \<Rightarrow>
                        if t_projectId parent \<noteq> t_projectId task
                        then invalid INVALID_SNAPSHOT ''Task parent belongs to another Project''
                               [(''taskId'', DetailStr (t_id task))]
                        else Inr ())) (\<lambda>_.
        case find (\<lambda>dependencyId. byId tasks dependencyId = None \<and> strictFor mode decisionTaskId task)
               (t_dependencyIds task) of
          Some dependencyId \<Rightarrow>
            invalid INVALID_SNAPSHOT ''Task dependency is not registered''
              [(''taskId'', DetailStr (t_id task)), (''dependencyId'', DetailStr dependencyId)]
        | None \<Rightarrow>
            (case t_supersedesTaskId task of
               None \<Rightarrow> Inr ()
             | Some supersedesTaskId \<Rightarrow>
                 if byId tasks supersedesTaskId = None
                 then invalid INVALID_SNAPSHOT ''Superseded Task is not registered''
                        [(''taskId'', DetailStr (t_id task))]
                 else Inr ())))"

fun checkEach :: "('a \<Rightarrow> unit parsed) \<Rightarrow> 'a list \<Rightarrow> unit parsed" where
  "checkEach check [] = Inr ()"
| "checkEach check (x # xs) = ebind (check x) (\<lambda>_. checkEach check xs)"

definition parseSnapshot ::
  "(jsstr \<Rightarrow> jsstr) \<Rightarrow> jsval \<Rightarrow> validation_mode \<Rightarrow> jsstr option \<Rightarrow> snapshot parsed" where
  "parseSnapshot nfc value mode decisionTaskId =
     (case readExactRecord value [''projects'', ''tasks''] of
        None \<Rightarrow> invalid INVALID_SNAPSHOT
                  ''DomainSnapshot must have exact projects and tasks collections'' []
      | Some record \<Rightarrow>
     (case (readCanonicalArray (fld record ''projects''), readCanonicalArray (fld record ''tasks'')) of
        (Some projectValues, Some taskValues) \<Rightarrow>
          ebind (parseEach parseProject ''projects'' 0 projectValues) (\<lambda>parsedProjects.
          let projects = sort_key p_id parsedProjects in
          if length (remdups (map p_id projects)) \<noteq> length projects
          then invalid INVALID_SNAPSHOT ''Project identifiers must be unique'' []
          else
          ebind (parseEach (parseTask nfc) ''tasks'' 0 taskValues) (\<lambda>parsedTasks.
          let tasks = sort_key t_id parsedTasks in
          if length (remdups (map t_id tasks)) \<noteq> length tasks
          then invalid INVALID_SNAPSHOT ''Task identifiers must be unique'' []
          else
          ebind (checkEach (checkReferences mode decisionTaskId projects tasks) tasks) (\<lambda>_.
          case parentCycle tasks of
            Some taskId \<Rightarrow> invalid INVALID_SNAPSHOT ''Parent hierarchy contains a cycle''
                             [(''taskId'', DetailStr taskId)]
          | None \<Rightarrow>
          (case dependencyCycle tasks of
             Some taskId \<Rightarrow> invalid INVALID_SNAPSHOT ''Dependency graph contains a cycle''
                              [(''taskId'', DetailStr taskId)]
           | None \<Rightarrow> Inr \<lparr>s_projects = projects, s_tasks = tasks\<rparr>))))
      | _ \<Rightarrow> invalid INVALID_SNAPSHOT ''DomainSnapshot collections must be arrays'' []))"

definition snapshotToJs :: "snapshot \<Rightarrow> jsval" where
  "snapshotToJs s =
     jsObj [(''projects'', jsArr (map projectToJs (s_projects s))),
            (''tasks'', jsArr (map taskToJs (s_tasks s)))]"

section \<open>Well-formed snapshots\<close>

definition wf_references ::
  "validation_mode \<Rightarrow> jsstr option \<Rightarrow> project list \<Rightarrow> task list \<Rightarrow> task \<Rightarrow> bool" where
  "wf_references mode decisionTaskId projects tasks t \<longleftrightarrow>
     (strictFor mode decisionTaskId t \<longrightarrow>
        t_projectId t \<in> p_id ` set projects \<and> set (t_dependencyIds t) \<subseteq> ids tasks) \<and>
     (\<forall>p. t_parentId t = Some p \<longrightarrow>
        (\<exists>parent\<in>set tasks. t_id parent = p \<and> t_projectId parent = t_projectId t)) \<and>
     (\<forall>x. t_supersedesTaskId t = Some x \<longrightarrow> x \<in> ids tasks)"

definition wf_snapshot_in ::
  "(jsstr \<Rightarrow> jsstr) \<Rightarrow> validation_mode \<Rightarrow> jsstr option \<Rightarrow> snapshot \<Rightarrow> bool" where
  "wf_snapshot_in nfc mode decisionTaskId s \<longleftrightarrow>
     sorted (map p_id (s_projects s)) \<and> distinct (map p_id (s_projects s)) \<and>
     (\<forall>p\<in>set (s_projects s). wf_project p) \<and>
     sorted (map t_id (s_tasks s)) \<and> distinct (map t_id (s_tasks s)) \<and>
     (\<forall>t\<in>set (s_tasks s). wf_task nfc t \<and>
        wf_references mode decisionTaskId (s_projects s) (s_tasks s) t) \<and>
     acyclic (parentRel (s_tasks s)) \<and> acyclic (depRel (s_tasks s))"

text \<open>The invariant of the Domain Core.\<close>

abbreviation wf_snapshot :: "(jsstr \<Rightarrow> jsstr) \<Rightarrow> snapshot \<Rightarrow> bool" where
  "wf_snapshot nfc \<equiv> wf_snapshot_in nfc CompleteMode None"

lemma checkEach_iff: "checkEach check xs = Inr () \<longleftrightarrow> (\<forall>x\<in>set xs. check x = Inr ())"
  by (induction xs) (auto simp: err_simps)

lemma checkReferences_iff:
  assumes "distinct (map t_id tasks)"
  shows "checkReferences mode did projects tasks t = Inr () \<longleftrightarrow> wf_references mode did projects tasks t"
proof -
  have parent: "(case t_parentId t of None \<Rightarrow> Inr ()
       | Some p \<Rightarrow> (case byId tasks p of None \<Rightarrow> invalid c m d
         | Some parent \<Rightarrow> if t_projectId parent \<noteq> t_projectId t then invalid c' m' d' else Inr ())) = Inr ()
      \<longleftrightarrow> (\<forall>p. t_parentId t = Some p \<longrightarrow>
            (\<exists>parent\<in>set tasks. t_id parent = p \<and> t_projectId parent = t_projectId t))" for c m d c' m' d'
    using assms by (auto simp: byId_iff byId_None_iff split: option.split dest: distinct_key_eq)
  have dep: "find (\<lambda>d. byId tasks d = None \<and> strictFor mode did t) (t_dependencyIds t) = None
      \<longleftrightarrow> (strictFor mode did t \<longrightarrow> set (t_dependencyIds t) \<subseteq> ids tasks)"
    by (auto simp: find_None_iff byId_None_iff)
  have sup: "(case t_supersedesTaskId t of None \<Rightarrow> Inr ()
       | Some x \<Rightarrow> if byId tasks x = None then invalid c m d else Inr ()) = Inr ()
      \<longleftrightarrow> (\<forall>x. t_supersedesTaskId t = Some x \<longrightarrow> x \<in> ids tasks)" for c m d
    by (auto simp: byId_None_iff split: option.split)
  show ?thesis
    unfolding checkReferences_def wf_references_def
    using parent dep sup by (auto simp: err_simps split: option.splits)
qed

lemma wf_references_cong:
  "set ps = set ps' \<Longrightarrow> set ts = set ts' \<Longrightarrow>
    wf_references mode did ps ts t = wf_references mode did ps' ts' t"
  by (simp add: wf_references_def)

theorem parseSnapshot_wf:
  assumes "parseSnapshot nfc v mode did = Inr s"
  shows "wf_snapshot_in nfc mode did s"
proof -
  from assms obtain r pvs tvs where "readExactRecord v [''projects'', ''tasks''] = Some r"
    "readCanonicalArray (fld r ''projects'') = Some pvs" "readCanonicalArray (fld r ''tasks'') = Some tvs"
    by (auto simp: parseSnapshot_def split: option.splits)
  with assms obtain ps ts where
    ps: "parseEach parseProject ''projects'' 0 pvs = Inr ps" "distinct (map p_id (sort_key p_id ps))" and
    ts: "parseEach (parseTask nfc) ''tasks'' 0 tvs = Inr ts" "distinct (map t_id (sort_key t_id ts))" and
    refs: "checkEach (checkReferences mode did (sort_key p_id ps) (sort_key t_id ts)) (sort_key t_id ts) = Inr ()"
    and cycles: "parentCycle (sort_key t_id ts) = None" "dependencyCycle (sort_key t_id ts) = None"
    and s: "s = \<lparr>s_projects = sort_key p_id ps, s_tasks = sort_key t_id ts\<rparr>"
    by (auto simp: parseSnapshot_def err_simps Let_def length_remdups_sort_key split: option.splits)
  show ?thesis
    using ps(2) ts(2) refs cycles project_codec.parseEach_wf [OF ps(1)] task_codec.parseEach_wf [OF ts(1)]
    unfolding wf_snapshot_in_def s
    by (simp add: checkEach_iff checkReferences_iff parentCycle_None_iff dependencyCycle_None_iff)
qed

text \<open>An object built from well-formed elements in any order is read as the sorted snapshot.\<close>

theorem parseSnapshot_build:
  assumes "wf_snapshot_in nfc mode did \<lparr>s_projects = sort_key p_id ps, s_tasks = sort_key t_id ts\<rparr>"
  shows "parseSnapshot nfc (snapshotToJs \<lparr>s_projects = ps, s_tasks = ts\<rparr>) mode did
       = Inr \<lparr>s_projects = sort_key p_id ps, s_tasks = sort_key t_id ts\<rparr>"
proof -
  from assms have "parseEach parseProject ''projects'' 0 (map projectToJs ps) = Inr ps"
    by (intro project_codec.parseEach_enc) (simp add: wf_snapshot_in_def)
  moreover from assms have "parseEach (parseTask nfc) ''tasks'' 0 (map taskToJs ts) = Inr ts"
    by (intro task_codec.parseEach_enc) (simp add: wf_snapshot_in_def)
  moreover from assms have "length (remdups (map p_id (sort_key p_id ps))) = length (sort_key p_id ps)"
    "length (remdups (map t_id (sort_key t_id ts))) = length (sort_key t_id ts)"
    by (simp_all add: wf_snapshot_in_def distinct_remdups_id)
  moreover from assms have "parentCycle (sort_key t_id ts) = None" "dependencyCycle (sort_key t_id ts) = None"
    "checkEach (checkReferences mode did (sort_key p_id ps) (sort_key t_id ts)) (sort_key t_id ts) = Inr ()"
    by (simp_all add: wf_snapshot_in_def checkEach_iff checkReferences_iff parentCycle_None_iff
        dependencyCycle_None_iff)
  ultimately show ?thesis
    by (simp add: parseSnapshot_def snapshotToJs_def readExactRecord_jsObj Let_def)
qed

corollary parseSnapshot_roundtrip:
  assumes "wf_snapshot_in nfc mode did s"
  shows "parseSnapshot nfc (snapshotToJs s) mode did = Inr s"
proof -
  from assms have "sort_key p_id (s_projects s) = s_projects s" "sort_key t_id (s_tasks s) = s_tasks s"
    by (simp_all add: wf_snapshot_in_def sort_key_id_if_sorted)
  then show ?thesis
    using parseSnapshot_build [of nfc mode did "s_projects s" "s_tasks s"] assms by (cases s) simp
qed

section \<open>Lookup\<close>

definition taskById :: "snapshot \<Rightarrow> jsstr \<Rightarrow> task option" where
  "taskById s taskId = find (\<lambda>task. t_id task = taskId) (s_tasks s)"

definition projectById :: "snapshot \<Rightarrow> jsstr \<Rightarrow> project option" where
  "projectById s projectId = find (\<lambda>project. p_id project = projectId) (s_projects s)"

text \<open>
  The interface of an indexed collection: a state holds entries whose keys are distinct when
  the state satisfies its invariant, and lookup finds the entry with a key.
\<close>

locale registry =
  fixes entries :: "'s \<Rightarrow> 'a list" and key :: "'a \<Rightarrow> 'k" and lookup :: "'s \<Rightarrow> 'k \<Rightarrow> 'a option"
    and invar :: "'s \<Rightarrow> bool"
  assumes lookup_eq: "lookup s k = find (\<lambda>x. key x = k) (entries s)"
    and invar_distinct: "invar s \<Longrightarrow> distinct (map key (entries s))"
begin

lemma lookup_SomeD: "lookup s k = Some x \<Longrightarrow> x \<in> set (entries s) \<and> key x = k"
  by (auto simp: lookup_eq dest: find_eq_Some_D)

lemma lookup_None_iff: "lookup s k = None \<longleftrightarrow> k \<notin> key ` set (entries s)"
  by (simp add: lookup_eq find_key_None_iff)

lemma lookup_iff: "invar s \<Longrightarrow> lookup s k = Some x \<longleftrightarrow> x \<in> set (entries s) \<and> key x = k"
  by (simp add: lookup_eq find_key_iff invar_distinct)

lemma entry_unique:
  "invar s \<Longrightarrow> x \<in> set (entries s) \<Longrightarrow> y \<in> set (entries s) \<Longrightarrow> key x = key y \<Longrightarrow> x = y"
  by (blast dest: invar_distinct distinct_key_eq)

end

interpretation tasks: registry s_tasks t_id taskById "wf_snapshot_in nfc mode did" for nfc mode did
  by unfold_locales (simp_all add: taskById_def wf_snapshot_in_def)

interpretation projects: registry s_projects p_id projectById "wf_snapshot_in nfc mode did"
  for nfc mode did
  by unfold_locales (simp_all add: projectById_def wf_snapshot_in_def)

section \<open>Primitives of the operations\<close>

record domain_mutation =
  m_snapshot :: snapshot
  m_changedTaskIds :: "jsstr list"

record project_domain_mutation =
  pm_snapshot :: snapshot
  pm_changedProjectIds :: "jsstr list"

definition mutation ::
  "snapshot \<Rightarrow> jsstr list \<Rightarrow> domain_event list \<Rightarrow> domain_mutation domain_result" where
  "mutation snapshot changedTaskIds events =
     success \<lparr>m_snapshot = snapshot, m_changedTaskIds = sort changedTaskIds\<rparr> events"

definition projectMutation :: "snapshot \<Rightarrow> jsstr \<Rightarrow> project_domain_mutation domain_result" where
  "projectMutation snapshot projectId =
     success \<lparr>pm_snapshot = snapshot, pm_changedProjectIds = [projectId]\<rparr> []"

text \<open>The Tasks of a snapshot with replacements by identifier and additions at the end.\<close>

definition replacedTasks :: "snapshot \<Rightarrow> (jsstr \<times> task) list \<Rightarrow> task list \<Rightarrow> task list" where
  "replacedTasks snapshot replacements additions =
     map (\<lambda>task. case map_of replacements (t_id task) of None \<Rightarrow> task | Some t \<Rightarrow> t) (s_tasks snapshot)
       @ additions"

definition replaceTasks ::
  "(jsstr \<Rightarrow> jsstr) \<Rightarrow> snapshot \<Rightarrow> (jsstr \<times> task) list \<Rightarrow> task list \<Rightarrow> snapshot parsed" where
  "replaceTasks nfc snapshot replacements additions =
     parseSnapshot nfc
       (snapshotToJs \<lparr>s_projects = s_projects snapshot,
                      s_tasks = replacedTasks snapshot replacements additions\<rparr>)
       CompleteMode None"

text \<open>
  The candidate of \<open>nextTask\<close>: the patched Task at the next revision, its waiting metadata
  bound to that revision. A patch is the function that the object spread performs.
\<close>

definition nextCandidate :: "task \<Rightarrow> (task \<Rightarrow> task) \<Rightarrow> task" where
  "nextCandidate task patch =
     (let revision = t_revision task + 1; candidate = (patch task)\<lparr>t_revision := revision\<rparr> in
      if t_state candidate = Waiting
      then candidate\<lparr>t_waiting :=
             map_option (\<lambda>w. w\<lparr>wm_waitingTaskRevision := revision\<rparr>) (t_waiting candidate)\<rparr>
      else candidate)"

definition nextTask :: "(jsstr \<Rightarrow> jsstr) \<Rightarrow> task \<Rightarrow> (task \<Rightarrow> task) \<Rightarrow> task parsed" where
  "nextTask nfc task patch =
     (if t_revision task = MAX_SAFE_INTEGER
      then invalid REVISION_EXHAUSTED ''Task revision cannot be incremented safely''
             [(''taskId'', DetailStr (t_id task))]
      else parseTask nfc (taskToJs (nextCandidate task patch)) (lit ''task:'' @ t_id task))"

definition requireMutableTask :: "snapshot \<Rightarrow> jsstr \<Rightarrow> task parsed" where
  "requireMutableTask snapshot taskId =
     (case taskById snapshot taskId of
        None \<Rightarrow> invalid TASK_NOT_FOUND ''Task is not registered'' [(''taskId'', DetailStr taskId)]
      | Some task \<Rightarrow>
          if t_state task \<in> set TERMINAL_STATES
          then invalid TERMINAL_IMMUTABLE ''Terminal Task cannot be mutated''
                 [(''taskId'', DetailStr taskId), (''state'', DetailStr (lit (stateName (t_state task))))]
          else Inr task)"

definition parseTaskCommand :: "jsval \<Rightarrow> string list \<Rightarrow> jsrec parsed" where
  "parseTaskCommand value keys =
     eopt (domainError INVALID_INPUT ''Command must contain the exact expected fields'' [])
       (readExactRecord value keys)"

definition readRevision :: "jsval \<Rightarrow> jsstr parsed" where
  "readRevision value =
     (if \<not> isIdentifier value
      then invalid INVALID_INPUT ''readRevision must be a nonempty opaque label'' []
      else Inr (strOf value))"

end
