(* ===== verification/Domain_Ops.thy ===== *)
theory Domain_Ops
  imports Domain_Snapshot
begin

text \<open>
  The Project and Task operations of \<^verbatim>\<open>src/domain.ts\<close> other than state transitions: registering
  and enabling Projects, creating Tasks, changing a Task's body, waiting metadata, parent,
  dependencies and supersession. Each takes the snapshot and the command as JavaScript values,
  as the exported functions do, and returns an error or the new snapshot with its events.
\<close>

section \<open>The public guard\<close>

text \<open>
  \<open>guardPublicResult\<close> turns an exception of the operation into an error. The operation is
  \<open>None\<close> where it throws; the operations below read every input through
  \<open>readExactRecord\<close> and \<open>readCanonicalArray\<close>, which catch, and never throw.
\<close>

definition guardPublicResult ::
  "domain_error_code \<Rightarrow> 'a domain_result option \<Rightarrow> 'a domain_result" where
  "guardPublicResult code operation =
     (case operation of
        Some result \<Rightarrow> result
      | None \<Rightarrow> invalid code ''Public domain input could not be read safely''
                  [(''reason'', DetailStr (lit ''input_access_failed''))])"

section \<open>Projects\<close>

definition createDomainSnapshot :: "(jsstr \<Rightarrow> jsstr) \<Rightarrow> jsval \<Rightarrow> snapshot domain_result" where
  "createDomainSnapshot nfc input = guardPublicResult INVALID_SNAPSHOT (Some
     (ebind (parseSnapshot nfc input CompleteMode None) (\<lambda>snapshot. success snapshot [])))"

definition registerProject ::
  "(jsstr \<Rightarrow> jsstr) \<Rightarrow> jsval \<Rightarrow> jsval \<Rightarrow> project_domain_mutation domain_result" where
  "registerProject nfc snapshotInput commandInput = guardPublicResult INVALID_INPUT (Some
     (ebind (parseSnapshot nfc snapshotInput CompleteMode None) (\<lambda>snapshot.
      case parseTaskCommand commandInput [''projectId''] of
        Inl _ \<Rightarrow> invalid INVALID_INPUT ''Project registration contains an invalid field'' []
      | Inr command \<Rightarrow>
          if \<not> isIdentifier (fld command ''projectId'')
          then invalid INVALID_INPUT ''Project registration contains an invalid field'' []
          else let projectId = strOf (fld command ''projectId'') in
            if projectById snapshot projectId \<noteq> None
            then invalid PROJECT_ALREADY_EXISTS ''Project is already registered''
                   [(''projectId'', DetailStr projectId)]
            else
              ebind (parseSnapshot nfc
                       (snapshotToJs
                          \<lparr>s_projects = s_projects snapshot @ [\<lparr>p_id = projectId, p_enabled = True\<rparr>],
                           s_tasks = s_tasks snapshot\<rparr>) CompleteMode None)
                (\<lambda>parsedSnapshot. projectMutation parsedSnapshot projectId))))"

definition setProjectEnabled ::
  "(jsstr \<Rightarrow> jsstr) \<Rightarrow> jsval \<Rightarrow> jsval \<Rightarrow> project_domain_mutation domain_result" where
  "setProjectEnabled nfc snapshotInput commandInput = guardPublicResult INVALID_INPUT (Some
     (ebind (parseSnapshot nfc snapshotInput CompleteMode None) (\<lambda>snapshot.
      case parseTaskCommand commandInput [''projectId'', ''enabled''] of
        Inl _ \<Rightarrow> invalid INVALID_INPUT ''Project enablement command contains an invalid field'' []
      | Inr command \<Rightarrow>
          if \<not> isIdentifier (fld command ''projectId'') \<or> \<not> isBoolean (fld command ''enabled'')
          then invalid INVALID_INPUT ''Project enablement command contains an invalid field'' []
          else let projectId = strOf (fld command ''projectId'');
                   enabled = boolOf (fld command ''enabled'') in
            case projectById snapshot projectId of
              None \<Rightarrow> invalid PROJECT_NOT_FOUND ''Project is not registered''
                        [(''projectId'', DetailStr projectId)]
            | Some project \<Rightarrow>
                if p_enabled project = enabled
                then invalid NO_OP ''Project enablement is unchanged''
                       [(''projectId'', DetailStr (p_id project))]
                else
                  ebind (parseSnapshot nfc
                           (snapshotToJs
                              \<lparr>s_projects = map (\<lambda>candidate. if p_id candidate = p_id project
                                 then \<lparr>p_id = p_id project, p_enabled = enabled\<rparr> else candidate)
                                 (s_projects snapshot),
                               s_tasks = s_tasks snapshot\<rparr>) CompleteMode None)
                    (\<lambda>parsedSnapshot. projectMutation parsedSnapshot (p_id project)))))"

section \<open>Tasks\<close>

definition newTask :: "jsstr \<Rightarrow> jsstr \<Rightarrow> jsstr \<Rightarrow> jsstr option \<Rightarrow> task" where
  "newTask taskId projectId body supersedesTaskId =
     \<lparr>t_id = taskId, t_projectId = projectId, t_state = Idea, t_revision = 1, t_body = body,
      t_parentId = None, t_dependencyIds = [], t_waiting = None, t_completion = None,
      t_cancellation = None, t_supersedesTaskId = supersedesTaskId\<rparr>"

definition createTask ::
  "(jsstr \<Rightarrow> jsstr) \<Rightarrow> jsval \<Rightarrow> jsval \<Rightarrow> domain_mutation domain_result" where
  "createTask nfc snapshotInput commandInput = guardPublicResult INVALID_INPUT (Some
     (ebind (parseSnapshot nfc snapshotInput CompleteMode None) (\<lambda>snapshot.
      ebind (parseTaskCommand commandInput [''id'', ''projectId'', ''body'', ''supersedesTaskId''])
        (\<lambda>command.
      if \<not> isIdentifier (fld command ''id'') \<or> \<not> isIdentifier (fld command ''projectId'')
         \<or> \<not> isString (fld command ''body'') \<or> \<not> isNullableIdentifier (fld command ''supersedesTaskId'')
      then invalid INVALID_INPUT ''Create Task command contains an invalid field'' []
      else let taskId = strOf (fld command ''id'');
               projectId = strOf (fld command ''projectId'');
               supersedesTaskId = nullable strOf (fld command ''supersedesTaskId'') in
        if taskById snapshot taskId \<noteq> None
        then invalid TASK_ALREADY_EXISTS ''Task identity is already registered''
               [(''taskId'', DetailStr taskId)]
        else if projectById snapshot projectId = None
        then invalid PROJECT_NOT_FOUND ''Task Project is not registered''
               [(''projectId'', DetailStr projectId)]
        else if supersedesTaskId = Some taskId
        then invalid SUPERSESSION_SELF ''Task cannot supersede itself'' [(''taskId'', DetailStr taskId)]
        else if (case supersedesTaskId of None \<Rightarrow> False | Some x \<Rightarrow> taskById snapshot x = None)
        then invalid SUPERSESSION_NOT_FOUND ''Superseded Task is not registered''
               [(''taskId'', detailOfNullable supersedesTaskId)]
        else
          ebind (parseTask nfc
                   (taskToJs (newTask taskId projectId (strOf (fld command ''body'')) supersedesTaskId))
                   (lit ''task:'' @ taskId)) (\<lambda>task.
          ebind (replaceTasks nfc snapshot [] [task]) (\<lambda>next.
          mutation next [t_id task] [event TaskCreated (t_id task) None 1 []]))))))"

text \<open>
  The common tail of the single-Task operations: the next Task, the re-validated snapshot and
  one event.
\<close>

definition changeTask ::
  "(jsstr \<Rightarrow> jsstr) \<Rightarrow> snapshot \<Rightarrow> task \<Rightarrow> (task \<Rightarrow> task) \<Rightarrow> domain_event_type \<Rightarrow> (task \<Rightarrow> details) \<Rightarrow>
    domain_mutation domain_result" where
  "changeTask nfc snapshot task patch type eventDetails =
     ebind (nextTask nfc task patch) (\<lambda>changed.
     ebind (replaceTasks nfc snapshot [(t_id changed, changed)] []) (\<lambda>next.
     mutation next [t_id changed]
       [event type (t_id changed) (Some (t_revision task)) (t_revision changed) (eventDetails changed)]))"

definition updateTaskBody ::
  "(jsstr \<Rightarrow> jsstr) \<Rightarrow> jsval \<Rightarrow> jsval \<Rightarrow> domain_mutation domain_result" where
  "updateTaskBody nfc snapshotInput commandInput = guardPublicResult INVALID_INPUT (Some
     (ebind (parseSnapshot nfc snapshotInput CompleteMode None) (\<lambda>snapshot.
      ebind (parseTaskCommand commandInput [''taskId'', ''body'']) (\<lambda>command.
      if \<not> isIdentifier (fld command ''taskId'') \<or> \<not> isString (fld command ''body'')
      then invalid INVALID_INPUT ''Body command contains an invalid field'' []
      else
        ebind (requireMutableTask snapshot (strOf (fld command ''taskId''))) (\<lambda>task.
        if t_body task = strOf (fld command ''body'')
        then invalid NO_OP ''Task body is unchanged'' [(''taskId'', DetailStr (t_id task))]
        else changeTask nfc snapshot task (\<lambda>t. t\<lparr>t_body := strOf (fld command ''body'')\<rparr>)
               TaskBodyChanged (\<lambda>_. []))))))"

definition sameWaitingInput :: "waiting_metadata \<Rightarrow> waiting_input \<Rightarrow> bool" where
  "sameWaitingInput left right \<longleftrightarrow>
     w_reason (wm_input left) = w_reason right \<and>
     w_phase (wm_input left) = w_phase right \<and>
     w_requiredAction (wm_input left) = w_requiredAction right \<and>
     w_lastErrorCode (wm_input left) = w_lastErrorCode right \<and>
     w_lastErrorSummary (wm_input left) = w_lastErrorSummary right \<and>
     w_retryable (wm_input left) = w_retryable right \<and>
     w_retryCount (wm_input left) = w_retryCount right \<and>
     w_retryAfter (wm_input left) = w_retryAfter right \<and>
     w_executionId (wm_input left) = w_executionId right \<and>
     w_workspaceRevision (wm_input left) = w_workspaceRevision right \<and>
     w_backendThreadId (wm_input left) = w_backendThreadId right"

definition updateTaskWaiting ::
  "(jsstr \<Rightarrow> jsstr) \<Rightarrow> jsval \<Rightarrow> jsval \<Rightarrow> domain_mutation domain_result" where
  "updateTaskWaiting nfc snapshotInput commandInput = guardPublicResult INVALID_INPUT (Some
     (ebind (parseSnapshot nfc snapshotInput CompleteMode None) (\<lambda>snapshot.
      ebind (parseTaskCommand commandInput [''taskId'', ''waiting'']) (\<lambda>command.
      if \<not> isIdentifier (fld command ''taskId'')
      then invalid INVALID_INPUT ''Waiting command contains an invalid Task identity'' []
      else
        ebind (requireMutableTask snapshot (strOf (fld command ''taskId''))) (\<lambda>task.
        case (t_state task, t_waiting task) of
          (Waiting, Some waiting) \<Rightarrow>
            ebind (parseWaitingInput (fld command ''waiting'')
                     (lit ''task:'' @ t_id task @ lit ''.waiting'')) (\<lambda>waitingInput.
            if sameWaitingInput waiting waitingInput
            then invalid NO_OP ''Task waiting metadata is unchanged'' [(''taskId'', DetailStr (t_id task))]
            else changeTask nfc snapshot task
                   (\<lambda>t. t\<lparr>t_waiting := Some \<lparr>wm_input = waitingInput,
                                             wm_waitingTaskRevision = t_revision task\<rparr>\<rparr>)
                   TaskWaitingChanged
                   (\<lambda>changed.
                      [(''waitingReason'', case t_waiting changed of None \<Rightarrow> DetailNull
                          | Some w \<Rightarrow> DetailStr (lit (waitingReasonName (w_reason (wm_input w))))),
                       (''requiredAction'', case t_waiting changed of None \<Rightarrow> DetailNull
                          | Some w \<Rightarrow> DetailStr (w_requiredAction (wm_input w)))]))
        | _ \<Rightarrow> invalid MUTATION_NOT_ALLOWED
                 ''Waiting metadata can change only while the Task is waiting''
                 [(''taskId'', DetailStr (t_id task))])))))"

definition setTaskParent ::
  "(jsstr \<Rightarrow> jsstr) \<Rightarrow> jsval \<Rightarrow> jsval \<Rightarrow> domain_mutation domain_result" where
  "setTaskParent nfc snapshotInput commandInput = guardPublicResult INVALID_INPUT (Some
     (ebind (parseSnapshot nfc snapshotInput CompleteMode None) (\<lambda>snapshot.
      ebind (parseTaskCommand commandInput [''taskId'', ''parentId'']) (\<lambda>command.
      if \<not> isIdentifier (fld command ''taskId'') \<or> \<not> isNullableIdentifier (fld command ''parentId'')
      then invalid INVALID_INPUT ''Parent command contains an invalid field'' []
      else let newParentId = nullable strOf (fld command ''parentId'') in
        ebind (requireMutableTask snapshot (strOf (fld command ''taskId''))) (\<lambda>task.
        if t_state task \<notin> set GRAPH_MUTABLE_STATES
        then invalid MUTATION_NOT_ALLOWED ''Parent can change only in idea, ready, or waiting''
               [(''taskId'', DetailStr (t_id task))]
        else if t_parentId task = newParentId
        then invalid NO_OP ''Task parent is unchanged'' [(''taskId'', DetailStr (t_id task))]
        else if newParentId = Some (t_id task)
        then invalid PARENT_SELF ''Task cannot parent itself'' [(''taskId'', DetailStr (t_id task))]
        else
          ebind (case newParentId of
                   None \<Rightarrow> Inr ()
                 | Some parentId \<Rightarrow>
                     (case taskById snapshot parentId of
                        None \<Rightarrow> invalid PARENT_NOT_FOUND ''Proposed parent is not registered''
                                  [(''parentId'', DetailStr parentId)]
                      | Some parent \<Rightarrow>
                          if t_projectId parent \<noteq> t_projectId task
                          then invalid PARENT_PROJECT_MISMATCH ''Parent and child must share a Project''
                                 [(''taskId'', DetailStr (t_id task))]
                          else if cursorReaches (s_tasks snapshot) (t_id task) (Some parent) []
                          then invalid PARENT_CYCLE ''Proposed parent creates a cycle''
                                 [(''taskId'', DetailStr (t_id task))]
                          else Inr ())) (\<lambda>_.
          changeTask nfc snapshot task (\<lambda>t. t\<lparr>t_parentId := newParentId\<rparr>) TaskParentChanged
            (\<lambda>changed. [(''parentId'', detailOfNullable (t_parentId changed))])))))))"

definition dependencyCommand :: "jsval \<Rightarrow> (jsstr \<times> jsstr) parsed" where
  "dependencyCommand value =
     ebind (parseTaskCommand value [''taskId'', ''dependencyId'']) (\<lambda>command.
     if \<not> isIdentifier (fld command ''taskId'') \<or> \<not> isIdentifier (fld command ''dependencyId'')
     then invalid INVALID_INPUT ''Dependency command contains an invalid field'' []
     else Inr (strOf (fld command ''taskId''), strOf (fld command ''dependencyId'')))"

definition dependencyReaches :: "snapshot \<Rightarrow> jsstr \<Rightarrow> jsstr \<Rightarrow> bool" where
  "dependencyReaches snapshot fromTaskId targetTaskId =
     reachLoop (s_tasks snapshot) targetTaskId [fromTaskId] []"

definition addTaskDependency ::
  "(jsstr \<Rightarrow> jsstr) \<Rightarrow> jsval \<Rightarrow> jsval \<Rightarrow> domain_mutation domain_result" where
  "addTaskDependency nfc snapshotInput commandInput = guardPublicResult INVALID_INPUT (Some
     (ebind (parseSnapshot nfc snapshotInput CompleteMode None) (\<lambda>snapshot.
      ebind (dependencyCommand commandInput) (\<lambda>(taskId, dependencyId).
      ebind (requireMutableTask snapshot taskId) (\<lambda>task.
      if t_state task \<notin> set GRAPH_MUTABLE_STATES
      then invalid MUTATION_NOT_ALLOWED ''Dependencies can change only in idea, ready, or waiting''
             [(''taskId'', DetailStr (t_id task))]
      else if taskId = dependencyId
      then invalid DEPENDENCY_SELF ''Task cannot depend on itself'' [(''taskId'', DetailStr (t_id task))]
      else if taskById snapshot dependencyId = None
      then invalid DEPENDENCY_NOT_FOUND ''Dependency is not registered''
             [(''dependencyId'', DetailStr dependencyId)]
      else if dependencyId \<in> set (t_dependencyIds task)
      then invalid DEPENDENCY_DUPLICATE ''Dependency edge already exists''
             [(''taskId'', DetailStr (t_id task))]
      else if dependencyReaches snapshot dependencyId (t_id task)
      then invalid DEPENDENCY_CYCLE ''Proposed dependency creates a cycle''
             [(''taskId'', DetailStr (t_id task))]
      else changeTask nfc snapshot task
             (\<lambda>t. t\<lparr>t_dependencyIds := sort (t_dependencyIds task @ [dependencyId])\<rparr>)
             TaskDependencyAdded (\<lambda>_. [(''dependencyId'', DetailStr dependencyId)]))))))"

definition removeTaskDependency ::
  "(jsstr \<Rightarrow> jsstr) \<Rightarrow> jsval \<Rightarrow> jsval \<Rightarrow> domain_mutation domain_result" where
  "removeTaskDependency nfc snapshotInput commandInput = guardPublicResult INVALID_INPUT (Some
     (ebind (parseSnapshot nfc snapshotInput CompleteMode None) (\<lambda>snapshot.
      ebind (dependencyCommand commandInput) (\<lambda>(taskId, dependencyId).
      ebind (requireMutableTask snapshot taskId) (\<lambda>task.
      if t_state task \<notin> set GRAPH_MUTABLE_STATES
      then invalid MUTATION_NOT_ALLOWED ''Dependencies can change only in idea, ready, or waiting''
             [(''taskId'', DetailStr (t_id task))]
      else if dependencyId \<notin> set (t_dependencyIds task)
      then invalid NO_OP ''Dependency edge does not exist'' [(''taskId'', DetailStr (t_id task))]
      else changeTask nfc snapshot task
             (\<lambda>t. t\<lparr>t_dependencyIds := filter (\<lambda>d. d \<noteq> dependencyId) (t_dependencyIds task)\<rparr>)
             TaskDependencyRemoved (\<lambda>_. [(''dependencyId'', DetailStr dependencyId)]))))))"

definition setTaskSupersession ::
  "(jsstr \<Rightarrow> jsstr) \<Rightarrow> jsval \<Rightarrow> jsval \<Rightarrow> domain_mutation domain_result" where
  "setTaskSupersession nfc snapshotInput commandInput = guardPublicResult INVALID_INPUT (Some
     (ebind (parseSnapshot nfc snapshotInput CompleteMode None) (\<lambda>snapshot.
      ebind (parseTaskCommand commandInput [''taskId'', ''supersedesTaskId'']) (\<lambda>command.
      if \<not> isIdentifier (fld command ''taskId'')
         \<or> \<not> isNullableIdentifier (fld command ''supersedesTaskId'')
      then invalid INVALID_INPUT ''Supersession command contains an invalid field'' []
      else let newSupersedes = nullable strOf (fld command ''supersedesTaskId'') in
        ebind (requireMutableTask snapshot (strOf (fld command ''taskId''))) (\<lambda>task.
        if t_supersedesTaskId task = newSupersedes
        then invalid NO_OP ''Task supersession is unchanged'' [(''taskId'', DetailStr (t_id task))]
        else if newSupersedes = Some (t_id task)
        then invalid SUPERSESSION_SELF ''Task cannot supersede itself''
               [(''taskId'', DetailStr (t_id task))]
        else if (case newSupersedes of None \<Rightarrow> False | Some x \<Rightarrow> taskById snapshot x = None)
        then invalid SUPERSESSION_NOT_FOUND ''Superseded Task is not registered''
               [(''taskId'', DetailStr (t_id task))]
        else changeTask nfc snapshot task (\<lambda>t. t\<lparr>t_supersedesTaskId := newSupersedes\<rparr>)
               TaskSupersessionChanged
               (\<lambda>changed. [(''supersedesTaskId'', detailOfNullable (t_supersedesTaskId changed))]))))))"

end
