(* ===== verification/Domain_Transition.thy ===== *)
theory Domain_Transition
  imports Domain_Ops
begin

text \<open>
  Eligibility, waiting continuation and the state transitions of \<^verbatim>\<open>src/domain.ts\<close>, including
  the cancellation that moves every ready direct dependent to waiting in the same step.
\<close>

section \<open>Eligibility\<close>

datatype eligibility_reason =
    STATE_NOT_READY | PROJECT_NOT_REGISTERED | PROJECT_DISABLED_REASON | DEPENDENCY_NOT_REGISTERED
  | DEPENDENCY_NOT_COMPLETED

fun eligibilityReasonName :: "eligibility_reason \<Rightarrow> string" where
  "eligibilityReasonName STATE_NOT_READY = ''STATE_NOT_READY''"
| "eligibilityReasonName PROJECT_NOT_REGISTERED = ''PROJECT_NOT_REGISTERED''"
| "eligibilityReasonName PROJECT_DISABLED_REASON = ''PROJECT_DISABLED''"
| "eligibilityReasonName DEPENDENCY_NOT_REGISTERED = ''DEPENDENCY_NOT_REGISTERED''"
| "eligibilityReasonName DEPENDENCY_NOT_COMPLETED = ''DEPENDENCY_NOT_COMPLETED''"

definition eligibilityReasons :: "snapshot \<Rightarrow> task \<Rightarrow> eligibility_reason list" where
  "eligibilityReasons snapshot task =
     (let r0 = [];
          r1 = (if t_state task \<noteq> Ready then set_add STATE_NOT_READY r0 else r0);
          r2 = (case projectById snapshot (t_projectId task) of
                  None \<Rightarrow> set_add PROJECT_NOT_REGISTERED r1
                | Some project \<Rightarrow>
                    if \<not> p_enabled project then set_add PROJECT_DISABLED_REASON r1 else r1);
          r3 = fold (\<lambda>dependencyId reasons.
                  case taskById snapshot dependencyId of
                    None \<Rightarrow> set_add DEPENDENCY_NOT_REGISTERED reasons
                  | Some dependency \<Rightarrow>
                      if t_state dependency \<noteq> Completed
                      then set_add DEPENDENCY_NOT_COMPLETED reasons else reasons)
                (t_dependencyIds task) r2
      in sort_key (\<lambda>r. lit (eligibilityReasonName r)) r3)"

record eligibility_decision =
  ed_taskId :: jsstr
  ed_readRevision :: jsstr
  ed_eligible :: bool
  ed_reasons :: "eligibility_reason list"

definition evaluateTaskEligibility ::
  "(jsstr \<Rightarrow> jsstr) \<Rightarrow> jsval \<Rightarrow> jsval \<Rightarrow> eligibility_decision domain_result" where
  "evaluateTaskEligibility nfc snapshotInput commandInput = guardPublicResult INVALID_INPUT (Some
     (ebind (parseTaskCommand commandInput [''taskId'', ''readRevision'']) (\<lambda>command.
      ebind (readRevision (fld command ''readRevision'')) (\<lambda>revision.
      if \<not> isIdentifier (fld command ''taskId'')
      then invalid INVALID_INPUT ''Eligibility Task identity is invalid'' []
      else let taskId = strOf (fld command ''taskId'') in
        ebind (parseSnapshot nfc snapshotInput DecisionMode (Some taskId)) (\<lambda>snapshot.
        case taskById snapshot taskId of
          None \<Rightarrow> invalid TASK_NOT_FOUND ''Task is not registered'' [(''taskId'', DetailStr taskId)]
        | Some task \<Rightarrow>
            let reasons = eligibilityReasons snapshot task in
            success \<lparr>ed_taskId = t_id task, ed_readRevision = revision,
                     ed_eligible = (length reasons = 0), ed_reasons = reasons\<rparr> [])))))"

section \<open>Waiting continuation\<close>

datatype continuation_reason =
    STATE_NOT_WAITING | TASK_REVISION_STALE | CR_PROJECT_NOT_REGISTERED | CR_PROJECT_DISABLED
  | CR_DEPENDENCY_NOT_REGISTERED | CR_DEPENDENCY_NOT_COMPLETED | REQUIRED_ACTION_RECEIPT_STALE
  | IDENTITY_MISMATCH | EXECUTION_ID_REQUIRED | NOT_RETRYABLE | RETRY_TOO_EARLY

fun continuationReasonName :: "continuation_reason \<Rightarrow> string" where
  "continuationReasonName STATE_NOT_WAITING = ''STATE_NOT_WAITING''"
| "continuationReasonName TASK_REVISION_STALE = ''TASK_REVISION_STALE''"
| "continuationReasonName CR_PROJECT_NOT_REGISTERED = ''PROJECT_NOT_REGISTERED''"
| "continuationReasonName CR_PROJECT_DISABLED = ''PROJECT_DISABLED''"
| "continuationReasonName CR_DEPENDENCY_NOT_REGISTERED = ''DEPENDENCY_NOT_REGISTERED''"
| "continuationReasonName CR_DEPENDENCY_NOT_COMPLETED = ''DEPENDENCY_NOT_COMPLETED''"
| "continuationReasonName REQUIRED_ACTION_RECEIPT_STALE = ''REQUIRED_ACTION_RECEIPT_STALE''"
| "continuationReasonName IDENTITY_MISMATCH = ''IDENTITY_MISMATCH''"
| "continuationReasonName EXECUTION_ID_REQUIRED = ''EXECUTION_ID_REQUIRED''"
| "continuationReasonName NOT_RETRYABLE = ''NOT_RETRYABLE''"
| "continuationReasonName RETRY_TOO_EARLY = ''RETRY_TOO_EARLY''"

datatype continuation_kind = ResumeKind | RetryKind

fun continuationKindName :: "continuation_kind \<Rightarrow> string" where
  "continuationKindName ResumeKind = ''resume''"
| "continuationKindName RetryKind = ''retry''"

record action_receipt =
  ar_receiptId :: jsstr
  ar_taskId :: jsstr
  ar_taskRevision :: int
  ar_requiredAction :: jsstr

record continuation_command =
  cc_taskId :: jsstr
  cc_expectedTaskRevision :: int
  cc_readRevision :: jsstr
  cc_kind :: continuation_kind
  cc_receipt :: action_receipt
  cc_targetExecutionId :: "jsstr option"
  cc_targetWorkspaceRevision :: "jsstr option"
  cc_targetBackendThreadId :: "jsstr option"
  cc_trustedTime :: int

text \<open>The only status of a parsed receipt is \<open>accepted\<close>, so the record does not repeat it.\<close>

definition parseRequiredActionReceipt :: "jsval \<Rightarrow> action_receipt parsed" where
  "parseRequiredActionReceipt value =
     (case readExactRecord value [''receiptId'', ''taskId'', ''taskRevision'', ''requiredAction'', ''status''] of
        None \<Rightarrow> invalid INVALID_INPUT ''Required-action receipt must have the exact shape'' []
      | Some record \<Rightarrow>
          if \<not> isIdentifier (fld record ''receiptId'')
             \<or> \<not> isIdentifier (fld record ''taskId'')
             \<or> \<not> isPositiveInteger (fld record ''taskRevision'')
             \<or> \<not> isIdentifier (fld record ''requiredAction'')
             \<or> \<not> isLit (fld record ''status'') ''accepted''
          then invalid INVALID_INPUT ''Required-action receipt contains an invalid field'' []
          else Inr \<lparr>ar_receiptId = strOf (fld record ''receiptId''),
                    ar_taskId = strOf (fld record ''taskId''),
                    ar_taskRevision = numOf (fld record ''taskRevision''),
                    ar_requiredAction = strOf (fld record ''requiredAction'')\<rparr>)"

definition parseContinuationCommand :: "jsval \<Rightarrow> continuation_command parsed" where
  "parseContinuationCommand value =
     (case readExactRecord value
             [''taskId'', ''expectedTaskRevision'', ''readRevision'', ''kind'', ''requiredActionReceipt'',
              ''targetExecutionId'', ''targetWorkspaceRevision'', ''targetBackendThreadId'', ''trustedTime''] of
        None \<Rightarrow> invalid INVALID_INPUT ''Continuation command must contain every exact field'' []
      | Some record \<Rightarrow>
          ebind (readRevision (fld record ''readRevision'')) (\<lambda>revision.
          ebind (parseRequiredActionReceipt (fld record ''requiredActionReceipt'')) (\<lambda>receipt.
          if \<not> isIdentifier (fld record ''taskId'')
             \<or> \<not> isPositiveInteger (fld record ''expectedTaskRevision'')
             \<or> (\<not> isLit (fld record ''kind'') ''resume'' \<and> \<not> isLit (fld record ''kind'') ''retry'')
             \<or> \<not> isNullableIdentifier (fld record ''targetExecutionId'')
             \<or> \<not> isNullableIdentifier (fld record ''targetWorkspaceRevision'')
             \<or> \<not> isNullableIdentifier (fld record ''targetBackendThreadId'')
             \<or> \<not> isSafeInteger (fld record ''trustedTime'')
          then invalid INVALID_INPUT ''Continuation command contains an invalid field'' []
          else Inr \<lparr>cc_taskId = strOf (fld record ''taskId''),
                    cc_expectedTaskRevision = numOf (fld record ''expectedTaskRevision''),
                    cc_readRevision = revision,
                    cc_kind = (if isLit (fld record ''kind'') ''resume'' then ResumeKind else RetryKind),
                    cc_receipt = receipt,
                    cc_targetExecutionId = nullable strOf (fld record ''targetExecutionId''),
                    cc_targetWorkspaceRevision = nullable strOf (fld record ''targetWorkspaceRevision''),
                    cc_targetBackendThreadId = nullable strOf (fld record ''targetBackendThreadId''),
                    cc_trustedTime = numOf (fld record ''trustedTime'')\<rparr>)))"

definition bindingMismatch :: "jsstr option \<Rightarrow> jsstr option \<Rightarrow> bool" where
  "bindingMismatch recorded target \<longleftrightarrow> recorded \<noteq> None \<and> recorded \<noteq> target"

definition continuationReasons ::
  "snapshot \<Rightarrow> task \<Rightarrow> continuation_command \<Rightarrow> continuation_reason list" where
  "continuationReasons snapshot task command =
     (case (t_state task, t_waiting task) of
        (Waiting, Some wm) \<Rightarrow>
          (let waiting = wm_input wm; expected = cc_expectedTaskRevision command;
               receipt = cc_receipt command;
               r1 = (if t_revision task \<noteq> expected \<or> wm_waitingTaskRevision wm \<noteq> expected
                     then set_add TASK_REVISION_STALE [] else []);
               r2 = (case projectById snapshot (t_projectId task) of
                       None \<Rightarrow> set_add CR_PROJECT_NOT_REGISTERED r1
                     | Some project \<Rightarrow>
                         if \<not> p_enabled project then set_add CR_PROJECT_DISABLED r1 else r1);
               r3 = fold (\<lambda>dependencyId reasons.
                       case taskById snapshot dependencyId of
                         None \<Rightarrow> set_add CR_DEPENDENCY_NOT_REGISTERED reasons
                       | Some dependency \<Rightarrow>
                           if t_state dependency \<noteq> Completed
                           then set_add CR_DEPENDENCY_NOT_COMPLETED reasons else reasons)
                     (t_dependencyIds task) r2;
               r4 = (if ar_taskId receipt \<noteq> t_id task \<or> ar_taskRevision receipt \<noteq> expected
                        \<or> ar_requiredAction receipt \<noteq> w_requiredAction waiting
                     then set_add REQUIRED_ACTION_RECEIPT_STALE r3 else r3);
               r5 = (if bindingMismatch (w_executionId waiting) (cc_targetExecutionId command)
                        \<or> bindingMismatch (w_workspaceRevision waiting) (cc_targetWorkspaceRevision command)
                        \<or> bindingMismatch (w_backendThreadId waiting) (cc_targetBackendThreadId command)
                     then set_add IDENTITY_MISMATCH r4 else r4);
               r6 = (if cc_kind command = ResumeKind
                     then (if w_executionId waiting = None then set_add EXECUTION_ID_REQUIRED r5 else r5)
                     else
                       (let r = (if \<not> w_retryable waiting then set_add NOT_RETRYABLE r5 else r5) in
                        if (case w_retryAfter waiting of None \<Rightarrow> False
                              | Some after \<Rightarrow> after > cc_trustedTime command)
                        then set_add RETRY_TOO_EARLY r else r))
           in sort_key (\<lambda>r. lit (continuationReasonName r)) r6)
      | _ \<Rightarrow> [STATE_NOT_WAITING])"

record continuation_decision =
  cd_taskId :: jsstr
  cd_readRevision :: jsstr
  cd_kind :: continuation_kind
  cd_eligible :: bool
  cd_reasons :: "continuation_reason list"

definition evaluateWaitingContinuation ::
  "(jsstr \<Rightarrow> jsstr) \<Rightarrow> jsval \<Rightarrow> jsval \<Rightarrow> continuation_decision domain_result" where
  "evaluateWaitingContinuation nfc snapshotInput commandInput = guardPublicResult INVALID_INPUT (Some
     (ebind (parseContinuationCommand commandInput) (\<lambda>command.
      ebind (parseSnapshot nfc snapshotInput DecisionMode (Some (cc_taskId command))) (\<lambda>snapshot.
      case taskById snapshot (cc_taskId command) of
        None \<Rightarrow> invalid TASK_NOT_FOUND ''Task is not registered''
                  [(''taskId'', DetailStr (cc_taskId command))]
      | Some task \<Rightarrow>
          let reasons = continuationReasons snapshot task command in
          success \<lparr>cd_taskId = t_id task, cd_readRevision = cc_readRevision command,
                   cd_kind = cc_kind command, cd_eligible = (length reasons = 0),
                   cd_reasons = reasons\<rparr> []))))"

section \<open>External facts\<close>

text \<open>
  An external acceptance carries no data beyond its match with the Task, so its parser returns
  nothing; a completion decision is its identifier; a disposition its receipt, execution and
  whether the execution stopped.
\<close>

definition parseExternalAcceptance :: "jsval \<Rightarrow> task \<Rightarrow> unit parsed" where
  "parseExternalAcceptance value task =
     (case readExactRecord value [''taskId'', ''taskRevision'', ''authorization'', ''reliability''] of
        None \<Rightarrow> invalid INVALID_INPUT ''External acceptance must have the exact shape'' []
      | Some record \<Rightarrow>
          if fld record ''taskId'' \<noteq> JStr (t_id task)
             \<or> fld record ''taskRevision'' \<noteq> jsInt (t_revision task)
             \<or> \<not> isLit (fld record ''authorization'') ''accepted''
             \<or> \<not> isLit (fld record ''reliability'') ''accepted''
          then invalid EXTERNAL_PRECONDITION_FAILED ''External acceptance is not current and positive''
                 [(''taskId'', DetailStr (t_id task))]
          else Inr ())"

definition parseCompletionDecision :: "jsval \<Rightarrow> task \<Rightarrow> jsstr parsed" where
  "parseCompletionDecision value task =
     (case readExactRecord value [''decisionId'', ''taskId'', ''taskRevision'', ''status''] of
        None \<Rightarrow> invalid INVALID_INPUT ''Completion decision must have the exact shape'' []
      | Some record \<Rightarrow>
          if \<not> isIdentifier (fld record ''decisionId'')
             \<or> fld record ''taskId'' \<noteq> JStr (t_id task)
             \<or> fld record ''taskRevision'' \<noteq> jsInt (t_revision task)
             \<or> \<not> isLit (fld record ''status'') ''accepted''
          then invalid EXTERNAL_PRECONDITION_FAILED ''Completion decision is not current and accepted''
                 [(''taskId'', DetailStr (t_id task))]
          else Inr (strOf (fld record ''decisionId'')))"

record execution_disposition =
  xd_receiptId :: jsstr
  xd_executionId :: "jsstr option"
  xd_stopped :: bool

definition parseExecutionDisposition :: "jsval \<Rightarrow> task \<Rightarrow> execution_disposition parsed" where
  "parseExecutionDisposition value task =
     (case readExactRecord value [''receiptId'', ''taskId'', ''taskRevision'', ''executionId'', ''status''] of
        None \<Rightarrow> invalid INVALID_INPUT ''Execution disposition must have the exact shape'' []
      | Some record \<Rightarrow>
          if \<not> isIdentifier (fld record ''receiptId'')
             \<or> fld record ''taskId'' \<noteq> JStr (t_id task)
             \<or> fld record ''taskRevision'' \<noteq> jsInt (t_revision task)
             \<or> \<not> isNullableIdentifier (fld record ''executionId'')
             \<or> (\<not> isLit (fld record ''status'') ''absent'' \<and> \<not> isLit (fld record ''status'') ''stopped'')
          then invalid EXTERNAL_PRECONDITION_FAILED ''Execution disposition is not current and verified''
                 [(''taskId'', DetailStr (t_id task))]
          else Inr \<lparr>xd_receiptId = strOf (fld record ''receiptId''),
                    xd_executionId = nullable strOf (fld record ''executionId''),
                    xd_stopped = isLit (fld record ''status'') ''stopped''\<rparr>)"

definition waitingFromInput :: "jsval \<Rightarrow> int \<Rightarrow> jsstr \<Rightarrow> waiting_metadata parsed" where
  "waitingFromInput value revision path =
     ebind (parseWaitingInput value path) (\<lambda>input.
     parseWaiting (waitingToJs \<lparr>wm_input = input, wm_waitingTaskRevision = revision\<rparr>) path)"

type_synonym dependent_waiting = "jsstr \<times> waiting_input"

fun parseDependentEntries :: "nat \<Rightarrow> jsval list \<Rightarrow> dependent_waiting list parsed" where
  "parseDependentEntries index [] = Inr []"
| "parseDependentEntries index (value # values) =
     (let path = lit (''dependentWaiting['' @ show_nat index @ '']'') in
      case readExactRecord value [''taskId'', ''waiting''] of
        None \<Rightarrow> invalid INVALID_INPUT ''Dependent waiting entry has an invalid shape''
                  [(''path'', DetailStr path)]
      | Some item \<Rightarrow>
          if \<not> isIdentifier (fld item ''taskId'')
          then invalid INVALID_INPUT ''Dependent waiting entry has an invalid shape''
                 [(''path'', DetailStr path)]
          else
            ebind (parseWaitingInput (fld item ''waiting'') (path @ lit ''.waiting'')) (\<lambda>waiting.
            ebind (parseDependentEntries (Suc index) values) (\<lambda>entries.
            Inr ((strOf (fld item ''taskId''), waiting) # entries))))"

definition parseDependentWaiting :: "jsval \<Rightarrow> dependent_waiting list parsed" where
  "parseDependentWaiting value =
     (case readCanonicalArray value of
        None \<Rightarrow> invalid INVALID_INPUT ''dependentWaiting must be an array'' []
      | Some values \<Rightarrow>
          ebind (parseDependentEntries 0 values) (\<lambda>parsedEntries.
          let entries = sort_key fst parsedEntries in
          if length (remdups (map fst entries)) \<noteq> length entries
          then invalid INVALID_INPUT ''dependentWaiting Task identifiers must be unique'' []
          else Inr entries))"

definition transitionPayload :: "jsval \<Rightarrow> string list \<Rightarrow> jsrec parsed" where
  "transitionPayload value keys =
     eopt (domainError INVALID_INPUT ''Transition payload must contain the exact event fields'' [])
       (readExactRecord value keys)"

section \<open>Transitions\<close>

definition transitionDetails :: "transition_event \<Rightarrow> task_state \<Rightarrow> task_state \<Rightarrow> details" where
  "transitionDetails domainEvent fromState toState =
     [(''domainEvent'', DetailStr (lit (eventName domainEvent))),
      (''fromState'', DetailStr (lit (stateName fromState))),
      (''toState'', DetailStr (lit (stateName toState)))]"

definition applySimpleTransition ::
  "(jsstr \<Rightarrow> jsstr) \<Rightarrow> snapshot \<Rightarrow> task \<Rightarrow> task_state \<Rightarrow> (task \<Rightarrow> task) \<Rightarrow> transition_event \<Rightarrow>
    domain_mutation domain_result" where
  "applySimpleTransition nfc snapshot task state patch domainEvent =
     changeTask nfc snapshot task (\<lambda>t. (patch t)\<lparr>t_state := state\<rparr>) TaskTransitioned
       (\<lambda>_. transitionDetails domainEvent (t_state task) state)"

text \<open>The loop over the affected dependents: their replacements and events, in order.\<close>

fun waitDependents ::
  "(jsstr \<Rightarrow> jsstr) \<Rightarrow> (task \<times> dependent_waiting) list \<Rightarrow> (jsstr \<times> task) list \<Rightarrow> domain_event list \<Rightarrow>
    ((jsstr \<times> task) list \<times> domain_event list) parsed" where
  "waitDependents nfc [] replacements events = Inr (replacements, events)"
| "waitDependents nfc ((dependent, input) # rest) replacements events =
     (if w_reason (snd input) \<noteq> DependencyCancelledReason
      then invalid INVALID_INPUT ''Direct dependent waiting reason must be dependency_cancelled''
             [(''taskId'', DetailStr (t_id dependent))]
      else if t_revision dependent = MAX_SAFE_INTEGER
      then invalid REVISION_EXHAUSTED ''Dependent revision cannot be incremented safely''
             [(''taskId'', DetailStr (t_id dependent))]
      else
        ebind (waitingFromInput (waitingInputToJs (snd input)) (t_revision dependent + 1)
                 (lit ''dependent:'' @ t_id dependent)) (\<lambda>waiting.
        ebind (nextTask nfc dependent (\<lambda>t. t\<lparr>t_state := Waiting, t_waiting := Some waiting\<rparr>)) (\<lambda>changed.
        waitDependents nfc rest (AList.update (t_id changed) changed replacements)
          (events @ [event TaskTransitioned (t_id dependent) (Some (t_revision dependent))
                       (t_revision changed) (transitionDetails DependencyCancelled Ready Waiting)]))))"

definition affectedDependents :: "snapshot \<Rightarrow> jsstr \<Rightarrow> task list" where
  "affectedDependents snapshot taskId =
     sort_key t_id (filter (\<lambda>candidate. t_state candidate = Ready \<and> taskId \<in> set (t_dependencyIds candidate))
                      (s_tasks snapshot))"

definition cancelWithDirectDependents ::
  "(jsstr \<Rightarrow> jsstr) \<Rightarrow> snapshot \<Rightarrow> task \<Rightarrow> cancellation_fact \<Rightarrow> dependent_waiting list \<Rightarrow> transition_event \<Rightarrow>
    domain_mutation domain_result" where
  "cancelWithDirectDependents nfc snapshot task cancellation dependentInputs domainEvent =
     (let affected = affectedDependents snapshot (t_id task) in
      if length affected \<noteq> length dependentInputs \<or> map t_id affected \<noteq> map fst dependentInputs
      then invalid INVALID_INPUT ''dependentWaiting must exactly cover ready direct dependents''
             [(''taskId'', DetailStr (t_id task))]
      else
        ebind (nextTask nfc task (\<lambda>t. t\<lparr>t_state := Cancelled, t_waiting := None, t_completion := None,
                                        t_cancellation := Some cancellation\<rparr>)) (\<lambda>cancelled.
        ebind (waitDependents nfc (zip affected dependentInputs) [(t_id cancelled, cancelled)]
                 [event TaskTransitioned (t_id task) (Some (t_revision task)) (t_revision cancelled)
                    (transitionDetails domainEvent (t_state task) Cancelled)])
          (\<lambda>(replacements, events).
        ebind (replaceTasks nfc snapshot replacements []) (\<lambda>next.
        mutation next (map fst replacements) events))))"

definition hasCancelledDependency :: "snapshot \<Rightarrow> task \<Rightarrow> bool" where
  "hasCancelledDependency snapshot task =
     list_ex (\<lambda>dependencyId. map_option t_state (taskById snapshot dependencyId) = Some Cancelled)
       (t_dependencyIds task)"

subsection \<open>One definition per event of the \<open>switch\<close>\<close>

definition markReady :: "(jsstr \<Rightarrow> jsstr) \<Rightarrow> snapshot \<Rightarrow> task \<Rightarrow> jsval \<Rightarrow> domain_mutation domain_result" where
  "markReady nfc snapshot task payloadInput =
     ebind (transitionPayload payloadInput []) (\<lambda>payload.
     case projectById snapshot (t_projectId task) of
       None \<Rightarrow> invalid PROJECT_NOT_FOUND ''Task Project is not registered'' []
     | Some project \<Rightarrow>
         if \<not> p_enabled project
         then invalid PROJECT_DISABLED ''Disabled Project cannot offer a Task'' []
         else if hasCancelledDependency snapshot task
         then invalid DEPENDENCY_CANCELLED ''Cancelled dependency prevents mark_ready''
                [(''taskId'', DetailStr (t_id task))]
         else applySimpleTransition nfc snapshot task Ready (\<lambda>t. t) MarkReady)"

definition claimAccepted ::
  "(jsstr \<Rightarrow> jsstr) \<Rightarrow> snapshot \<Rightarrow> task \<Rightarrow> jsval \<Rightarrow> domain_mutation domain_result" where
  "claimAccepted nfc snapshot task payloadInput =
     ebind (transitionPayload payloadInput [''externalAcceptance'']) (\<lambda>payload.
     if length (eligibilityReasons snapshot task) > 0
     then invalid TASK_NOT_ELIGIBLE ''Task is not domain-eligible for claim''
            [(''taskId'', DetailStr (t_id task))]
     else
       ebind (parseExternalAcceptance (fld payload ''externalAcceptance'') task) (\<lambda>_.
       applySimpleTransition nfc snapshot task Running (\<lambda>t. t) ClaimAccepted))"

definition dependencyCancelled ::
  "(jsstr \<Rightarrow> jsstr) \<Rightarrow> snapshot \<Rightarrow> task \<Rightarrow> jsval \<Rightarrow> domain_mutation domain_result" where
  "dependencyCancelled nfc snapshot task payloadInput =
     ebind (transitionPayload payloadInput [''waiting'']) (\<lambda>payload.
     if \<not> hasCancelledDependency snapshot task
     then invalid DEPENDENCY_CANCELLED ''No direct dependency is cancelled''
            [(''taskId'', DetailStr (t_id task))]
     else if t_revision task = MAX_SAFE_INTEGER
     then invalid REVISION_EXHAUSTED ''Task revision cannot be incremented safely''
            [(''taskId'', DetailStr (t_id task))]
     else
       ebind (waitingFromInput (fld payload ''waiting'') (t_revision task + 1)
                (lit ''task:'' @ t_id task @ lit ''.waiting'')) (\<lambda>waiting.
       if w_reason (wm_input waiting) \<noteq> DependencyCancelledReason
       then invalid INVALID_INPUT ''Waiting reason must be dependency_cancelled''
              [(''taskId'', DetailStr (t_id task))]
       else applySimpleTransition nfc snapshot task Waiting (\<lambda>t. t\<lparr>t_waiting := Some waiting\<rparr>)
              DependencyCancelled))"

definition executionWait ::
  "(jsstr \<Rightarrow> jsstr) \<Rightarrow> snapshot \<Rightarrow> task \<Rightarrow> jsval \<Rightarrow> domain_mutation domain_result" where
  "executionWait nfc snapshot task payloadInput =
     ebind (transitionPayload payloadInput [''waiting'']) (\<lambda>payload.
     if t_revision task = MAX_SAFE_INTEGER
     then invalid REVISION_EXHAUSTED ''Task revision cannot be incremented safely''
            [(''taskId'', DetailStr (t_id task))]
     else
       ebind (waitingFromInput (fld payload ''waiting'') (t_revision task + 1)
                (lit ''task:'' @ t_id task @ lit ''.waiting'')) (\<lambda>waiting.
       applySimpleTransition nfc snapshot task Waiting (\<lambda>t. t\<lparr>t_waiting := Some waiting\<rparr>)
         ExecutionWait))"

definition completionAccepted ::
  "(jsstr \<Rightarrow> jsstr) \<Rightarrow> snapshot \<Rightarrow> task \<Rightarrow> jsval \<Rightarrow> domain_mutation domain_result" where
  "completionAccepted nfc snapshot task payloadInput =
     ebind (transitionPayload payloadInput [''decision'']) (\<lambda>payload.
     ebind (parseCompletionDecision (fld payload ''decision'') task) (\<lambda>decisionId.
     applySimpleTransition nfc snapshot task Completed
       (\<lambda>t. t\<lparr>t_completion := Some \<lparr>c_decisionId = decisionId, c_acceptedTaskRevision = t_revision task\<rparr>\<rparr>)
       CompletionAccepted))"

definition continuationAccepted ::
  "(jsstr \<Rightarrow> jsstr) \<Rightarrow> snapshot \<Rightarrow> task \<Rightarrow> transition_event \<Rightarrow> jsval \<Rightarrow> domain_mutation domain_result" where
  "continuationAccepted nfc snapshot task ev payloadInput =
     ebind (transitionPayload payloadInput [''continuation'', ''externalAcceptance'']) (\<lambda>payload.
     ebind (parseContinuationCommand (fld payload ''continuation'')) (\<lambda>continuation.
     if cc_taskId continuation \<noteq> t_id task
        \<or> cc_kind continuation \<noteq> (if ev = ResumeAccepted then ResumeKind else RetryKind)
     then invalid INVALID_INPUT ''Continuation identity or kind does not match the transition'' []
     else let reasons = continuationReasons snapshot task continuation in
       if length reasons > 0
       then invalid CONTINUATION_NOT_ELIGIBLE ''Waiting continuation predicate did not pass''
              [(''taskId'', DetailStr (t_id task)),
               (''firstReason'', case reasons of [] \<Rightarrow> DetailNull
                  | r # _ \<Rightarrow> DetailStr (lit (continuationReasonName r)))]
       else
         ebind (parseExternalAcceptance (fld payload ''externalAcceptance'') task) (\<lambda>_.
         applySimpleTransition nfc snapshot task Running (\<lambda>t. t\<lparr>t_waiting := None\<rparr>) ev)))"

text \<open>The verification identifier that a cancellation records for the Task's execution.\<close>

definition cancelVerification :: "task \<Rightarrow> jsval \<Rightarrow> jsstr option parsed" where
  "cancelVerification task dispositionInput =
     (if t_state task = Waiting then
        (case Option.bind (t_waiting task) (\<lambda>w. w_executionId (wm_input w)) of
           None \<Rightarrow>
             if dispositionInput \<noteq> JNull
             then invalid INVALID_INPUT ''Waiting Task without an execution must not carry a disposition'' []
             else Inr None
         | Some executionId \<Rightarrow>
             ebind (parseExecutionDisposition dispositionInput task) (\<lambda>disposition.
             if Some executionId \<noteq> xd_executionId disposition
             then invalid EXTERNAL_PRECONDITION_FAILED
                    ''Execution disposition identity does not match waiting Task'' []
             else Inr (Some (xd_receiptId disposition))))
      else if dispositionInput \<noteq> JNull
      then invalid INVALID_INPUT ''Idea or ready cancellation has no execution disposition'' []
      else Inr None)"

definition cancelTask :: "(jsstr \<Rightarrow> jsstr) \<Rightarrow> snapshot \<Rightarrow> task \<Rightarrow> jsval \<Rightarrow> domain_mutation domain_result" where
  "cancelTask nfc snapshot task payloadInput =
     ebind (transitionPayload payloadInput [''reason'', ''executionDisposition'', ''dependentWaiting'']) (\<lambda>payload.
     if \<not> isCanonicalCancellationReason nfc (fld payload ''reason'')
     then invalid INVALID_INPUT ''Cancellation reason is invalid'' [(''taskId'', DetailStr (t_id task))]
     else
       ebind (parseDependentWaiting (fld payload ''dependentWaiting'')) (\<lambda>dependents.
       ebind (cancelVerification task (fld payload ''executionDisposition'')) (\<lambda>verificationId.
       cancelWithDirectDependents nfc snapshot task
         \<lparr>x_event = CancelEvent, x_reason = strOf (fld payload ''reason''),
          x_verificationId = verificationId, x_acceptedTaskRevision = t_revision task\<rparr>
         dependents Cancel)))"

definition interruptionVerified ::
  "(jsstr \<Rightarrow> jsstr) \<Rightarrow> snapshot \<Rightarrow> task \<Rightarrow> jsval \<Rightarrow> domain_mutation domain_result" where
  "interruptionVerified nfc snapshot task payloadInput =
     ebind (transitionPayload payloadInput [''reason'', ''verification'', ''dependentWaiting'']) (\<lambda>payload.
     if \<not> isCanonicalCancellationReason nfc (fld payload ''reason'')
     then invalid INVALID_INPUT ''Cancellation reason is invalid'' [(''taskId'', DetailStr (t_id task))]
     else
       ebind (parseExecutionDisposition (fld payload ''verification'') task) (\<lambda>verification.
       if \<not> xd_stopped verification \<or> xd_executionId verification = None
       then invalid EXTERNAL_PRECONDITION_FAILED ''Running interruption must be verified stopped'' []
       else
         ebind (parseDependentWaiting (fld payload ''dependentWaiting'')) (\<lambda>dependents.
         cancelWithDirectDependents nfc snapshot task
           \<lparr>x_event = InterruptionVerifiedEvent, x_reason = strOf (fld payload ''reason''),
            x_verificationId = Some (xd_receiptId verification),
            x_acceptedTaskRevision = t_revision task\<rparr>
           dependents InterruptionVerified)))"

definition transitionTask ::
  "(jsstr \<Rightarrow> jsstr) \<Rightarrow> jsval \<Rightarrow> jsval \<Rightarrow> domain_mutation domain_result" where
  "transitionTask nfc snapshotInput commandInput = guardPublicResult INVALID_INPUT (Some
     (ebind (parseSnapshot nfc snapshotInput CompleteMode None) (\<lambda>snapshot.
      ebind (parseTaskCommand commandInput [''taskId'', ''event'', ''targetState'', ''payload'']) (\<lambda>command.
      case (isTransitionEvent (fld command ''event''), isTaskState (fld command ''targetState'')) of
        (Some ev, Some targetState) \<Rightarrow>
          if \<not> isIdentifier (fld command ''taskId'')
          then invalid INVALID_INPUT ''Transition command contains an invalid field'' []
          else
            (case taskById snapshot (strOf (fld command ''taskId'')) of
               None \<Rightarrow> invalid TASK_NOT_FOUND ''Task is not registered''
                         [(''taskId'', DetailStr (strOf (fld command ''taskId'')))]
             | Some task \<Rightarrow>
                 if t_state task \<in> set TERMINAL_STATES
                 then invalid TERMINAL_IMMUTABLE ''Terminal Task cannot transition''
                        [(''taskId'', DetailStr (t_id task))]
                 else if (t_state task, targetState, ev) \<notin> set TASK_TRANSITIONS
                 then invalid ILLEGAL_TRANSITION ''Task transition is not in the authoritative relation''
                        [(''taskId'', DetailStr (t_id task)),
                         (''fromState'', DetailStr (lit (stateName (t_state task)))),
                         (''toState'', DetailStr (lit (stateName targetState)))]
                 else
                   (case ev of
                      MarkReady \<Rightarrow> markReady nfc snapshot task (fld command ''payload'')
                    | ClaimAccepted \<Rightarrow> claimAccepted nfc snapshot task (fld command ''payload'')
                    | DependencyCancelled \<Rightarrow> dependencyCancelled nfc snapshot task (fld command ''payload'')
                    | ExecutionWait \<Rightarrow> executionWait nfc snapshot task (fld command ''payload'')
                    | CompletionAccepted \<Rightarrow> completionAccepted nfc snapshot task (fld command ''payload'')
                    | ResumeAccepted \<Rightarrow> continuationAccepted nfc snapshot task ResumeAccepted (fld command ''payload'')
                    | RetryAccepted \<Rightarrow> continuationAccepted nfc snapshot task RetryAccepted (fld command ''payload'')
                    | Cancel \<Rightarrow> cancelTask nfc snapshot task (fld command ''payload'')
                    | InterruptionVerified \<Rightarrow> interruptionVerified nfc snapshot task (fld command ''payload'')))
      | _ \<Rightarrow> invalid INVALID_INPUT ''Transition command contains an invalid field'' []))))"

end
