(* ===== verification/Domain_Update.thy ===== *)
theory Domain_Update
  imports Domain_Transition
begin

text \<open>
  What a mutation does to a snapshot. Every operation of the Domain Core replaces some Tasks
  and validates the whole snapshot again; the lemmas here show that the second validation
  cannot fail when the replaced Tasks are well formed and keep the graphs acyclic, so that the
  result of an operation is known exactly: \<open>putTasks\<close> of the replacements.
\<close>

section \<open>Replacing Tasks\<close>

definition putTasks :: "snapshot \<Rightarrow> (jsstr \<times> task) list \<Rightarrow> snapshot" where
  "putTasks s repl = s\<lparr>s_tasks := replacedTasks s repl []\<rparr>"

abbreviation putTask :: "snapshot \<Rightarrow> task \<Rightarrow> snapshot" where
  "putTask s t \<equiv> putTasks s [(t_id t, t)]"

text \<open>A replacement keeps the identity and the Project of the Task that it replaces.\<close>

definition replaces :: "snapshot \<Rightarrow> (jsstr \<times> task) list \<Rightarrow> bool" where
  "replaces s repl \<longleftrightarrow>
     (\<forall>(k, t')\<in>set repl. t_id t' = k \<and> (\<exists>t\<in>set (s_tasks s). t_id t = k \<and> t_projectId t' = t_projectId t))"

lemma replaces_D:
  "replaces s repl \<Longrightarrow> map_of repl k = Some t' \<Longrightarrow>
    t_id t' = k \<and> (\<exists>t\<in>set (s_tasks s). t_id t = k \<and> t_projectId t' = t_projectId t)"
  by (drule map_of_SomeD) (auto simp: replaces_def)

lemma putTasks_projects [simp]: "s_projects (putTasks s repl) = s_projects s"
  by (simp add: putTasks_def)

lemma projectById_putTasks [simp]: "projectById (putTasks s repl) = projectById s"
  by (simp add: projectById_def fun_eq_iff)

lemma map_id_replacedTasks:
  "replaces s repl \<Longrightarrow> map t_id (replacedTasks s repl []) = map t_id (s_tasks s)"
  by (auto simp: replacedTasks_def dest: replaces_D split: option.split)

lemma ids_replacedTasks: "replaces s repl \<Longrightarrow> ids (replacedTasks s repl []) = ids (s_tasks s)"
  using arg_cong [OF map_id_replacedTasks, of s repl set] by simp

lemma set_replacedTasks:
  "set (replacedTasks s repl []) =
    (\<lambda>t. case map_of repl (t_id t) of None \<Rightarrow> t | Some t' \<Rightarrow> t') ` set (s_tasks s)"
  by (simp add: replacedTasks_def)

lemma replacedTasks_cases:
  assumes "u \<in> set (replacedTasks s repl [])"
  obtains "u \<in> set (s_tasks s)" "map_of repl (t_id u) = None"
  | k where "map_of repl k = Some u"
  using assms by (fastforce simp: set_replacedTasks split: option.splits)

lemma replaced_project:
  assumes "replaces s repl" and "p \<in> set (s_tasks s)"
  obtains p' where "p' \<in> set (replacedTasks s repl [])" "t_id p' = t_id p" "t_projectId p' = t_projectId p \<or>
    (\<exists>q\<in>set (s_tasks s). t_id q = t_id p \<and> t_projectId p' = t_projectId q)"
proof -
  let ?p = "case map_of repl (t_id p) of None \<Rightarrow> p | Some t' \<Rightarrow> t'"
  have "?p \<in> set (replacedTasks s repl [])"
    using assms(2) by (auto simp: set_replacedTasks)
  moreover have "t_id ?p = t_id p" "t_projectId ?p = t_projectId p \<or>
    (\<exists>q\<in>set (s_tasks s). t_id q = t_id p \<and> t_projectId ?p = t_projectId q)"
    using assms(1) by (auto split: option.split dest: replaces_D)
  ultimately show ?thesis using that by blast
qed

text \<open>
  References of a Task in terms of the snapshot: they are kept by a replacement, whether the
  Task itself is replaced or not.
\<close>

lemma wf_references_replaced:
  assumes wf: "wf_snapshot nfc s" and repl: "replaces s repl"
    and refs: "wf_references CompleteMode None (s_projects s) (s_tasks s) t"
  shows "wf_references CompleteMode None (s_projects s) (replacedTasks s repl []) t"
proof -
  have "\<exists>p'\<in>set (replacedTasks s repl []). t_id p' = p \<and> t_projectId p' = t_projectId t"
    if p: "t_parentId t = Some p" for p
  proof -
    from refs p obtain q where q: "q \<in> set (s_tasks s)" "t_id q = p" "t_projectId q = t_projectId t"
      by (auto simp: wf_references_def)
    with replaced_project [OF repl q(1)] show ?thesis
      by (metis tasks.entry_unique [OF wf])
  qed
  with refs show ?thesis
    by (simp add: wf_references_def ids_replacedTasks [OF repl])
qed

lemma putTasks_wf:
  assumes wf: "wf_snapshot nfc s" and repl: "replaces s repl"
    and tasks: "\<And>k t. map_of repl k = Some t \<Longrightarrow>
      wf_task nfc t \<and> wf_references CompleteMode None (s_projects s) (s_tasks s) t"
    and acyclic: "acyclic (parentRel (replacedTasks s repl []))" "acyclic (depRel (replacedTasks s repl []))"
  shows "wf_snapshot nfc (putTasks s repl)"
proof -
  have "wf_task nfc u \<and> wf_references CompleteMode None (s_projects s) (replacedTasks s repl []) u"
    if u: "u \<in> set (replacedTasks s repl [])" for u
    using u
  proof (cases rule: replacedTasks_cases)
    case 1
    with wf have "wf_task nfc u" "wf_references CompleteMode None (s_projects s) (s_tasks s) u"
      by (simp_all add: wf_snapshot_in_def)
    with wf_references_replaced [OF wf repl] show ?thesis by blast
  next
    case (2 k)
    with tasks wf_references_replaced [OF wf repl] show ?thesis by blast
  qed
  with wf acyclic show ?thesis
    unfolding putTasks_def by (simp add: wf_snapshot_in_def map_id_replacedTasks [OF repl])
qed

theorem replaceTasks_eq:
  assumes "wf_snapshot nfc (putTasks s repl)"
  shows "replaceTasks nfc s repl [] = Inr (putTasks s repl)"
  using parseSnapshot_roundtrip [OF assms] by (cases s) (simp add: replaceTasks_def putTasks_def)

subsection \<open>Replacements that keep the graphs\<close>

definition keepsLinks :: "snapshot \<Rightarrow> (jsstr \<times> task) list \<Rightarrow> bool" where
  "keepsLinks s repl \<longleftrightarrow>
     (\<forall>(k, t')\<in>set repl. t_id t' = k \<and> (\<exists>t\<in>set (s_tasks s). t_id t = k \<and> t_projectId t' = t_projectId t
        \<and> t_parentId t' = t_parentId t \<and> t_dependencyIds t' = t_dependencyIds t
        \<and> t_supersedesTaskId t' = t_supersedesTaskId t))"

lemma keepsLinks_D:
  "keepsLinks s repl \<Longrightarrow> map_of repl k = Some t' \<Longrightarrow>
    t_id t' = k \<and> (\<exists>t\<in>set (s_tasks s). t_id t = k \<and> t_projectId t' = t_projectId t
        \<and> t_parentId t' = t_parentId t \<and> t_dependencyIds t' = t_dependencyIds t
        \<and> t_supersedesTaskId t' = t_supersedesTaskId t)"
  by (drule map_of_SomeD) (auto simp: keepsLinks_def)

lemma keepsLinks_replaces: "keepsLinks s repl \<Longrightarrow> replaces s repl"
  by (fastforce simp: keepsLinks_def replaces_def)

lemma keepsLinks_link:
  assumes "keepsLinks s repl" and "u \<in> set (replacedTasks s repl [])"
  shows "\<exists>t\<in>set (s_tasks s). t_id t = t_id u \<and> t_parentId u = t_parentId t
    \<and> t_dependencyIds u = t_dependencyIds t"
  using assms(2)
proof (cases rule: replacedTasks_cases)
  case (2 k)
  with keepsLinks_D [OF assms(1) 2] show ?thesis by auto
qed blast

lemma keepsLinks_graphs:
  assumes "keepsLinks s repl"
  shows "parentRel (replacedTasks s repl []) \<subseteq> parentRel (s_tasks s)"
    and "depRel (replacedTasks s repl []) \<subseteq> depRel (s_tasks s)"
proof -
  note link = keepsLinks_link [OF assms]
  show "parentRel (replacedTasks s repl []) \<subseteq> parentRel (s_tasks s)"
  proof (clarsimp simp: parentRel_def)
    fix u p
    assume "u \<in> set (replacedTasks s repl [])" "t_parentId u = Some p"
    with link [of u] show "\<exists>t. t_id u = t_id t \<and> t \<in> set (s_tasks s) \<and> t_parentId t = Some p"
      by (metis (no_types))
  qed
  show "depRel (replacedTasks s repl []) \<subseteq> depRel (s_tasks s)"
  proof (clarsimp simp: depRel_def)
    fix u d
    assume "u \<in> set (replacedTasks s repl [])" "d \<in> set (t_dependencyIds u)"
    with link [of u] show "\<exists>t. t_id u = t_id t \<and> t \<in> set (s_tasks s) \<and> d \<in> set (t_dependencyIds t)"
      by (metis (no_types))
  qed
qed

lemma putTasks_keepsLinks_wf:
  assumes wf: "wf_snapshot nfc s" and links: "keepsLinks s repl"
    and tasks: "\<And>k t. map_of repl k = Some t \<Longrightarrow> wf_task nfc t"
  shows "wf_snapshot nfc (putTasks s repl)"
proof (rule putTasks_wf [OF wf keepsLinks_replaces [OF links]])
  fix k t'
  assume k: "map_of repl k = Some t'"
  from keepsLinks_D [OF links k] obtain t where "t \<in> set (s_tasks s)" "t_projectId t' = t_projectId t"
      "t_parentId t' = t_parentId t" "t_dependencyIds t' = t_dependencyIds t"
      "t_supersedesTaskId t' = t_supersedesTaskId t" "strictFor CompleteMode None t'"
    by (auto simp: strictFor_def)
  with wf show "wf_task nfc t' \<and> wf_references CompleteMode None (s_projects s) (s_tasks s) t'"
    using tasks [OF k] by (auto simp: wf_snapshot_in_def wf_references_def strictFor_def)
next
  show "acyclic (parentRel (replacedTasks s repl []))" "acyclic (depRel (replacedTasks s repl []))"
    using wf keepsLinks_graphs [OF links] by (auto simp: wf_snapshot_in_def intro: acyclic_mono)
qed

section \<open>The next revision of a Task\<close>

lemma nextTask_eq:
  "wf_task nfc (nextCandidate t patch) \<Longrightarrow>
    nextTask nfc t patch =
      (if t_revision t = MAX_SAFE_INTEGER
       then invalid REVISION_EXHAUSTED ''Task revision cannot be incremented safely''
              [(''taskId'', DetailStr (t_id t))]
       else Inr (nextCandidate t patch))"
  by (simp add: nextTask_def task_codec.dec_enc)

lemma nextTask_exhausted:
  "t_revision t = MAX_SAFE_INTEGER \<Longrightarrow>
    nextTask nfc t patch = invalid REVISION_EXHAUSTED ''Task revision cannot be incremented safely''
              [(''taskId'', DetailStr (t_id t))]"
  by (simp add: nextTask_def)

text \<open>A single-Task operation with a well-formed candidate: exhausted revision, or the new snapshot.\<close>

theorem changeTask_eq:
  assumes rev: "t_revision t \<noteq> MAX_SAFE_INTEGER"
    and cand: "t' = nextCandidate t patch" "wf_task nfc t'" "wf_snapshot nfc (putTask s t')"
  shows "changeTask nfc s t patch type details =
    Inr (\<lparr>m_snapshot = putTask s t', m_changedTaskIds = [t_id t']\<rparr>,
         [event type (t_id t') (Some (t_revision t)) (t_revision t + 1) (details t')])"
proof -
  have "t_revision t' = t_revision t + 1"
    by (simp add: cand(1) nextCandidate_def Let_def)
  then show ?thesis
    using nextTask_eq [of nfc t patch] rev cand(2) replaceTasks_eq [OF cand(3)]
    by (simp add: changeTask_def mutation_def success_def flip: cand(1))
qed

lemma changeTask_exhausted:
  "t_revision t = MAX_SAFE_INTEGER \<Longrightarrow>
    changeTask nfc s t patch type details =
      invalid REVISION_EXHAUSTED ''Task revision cannot be incremented safely''
        [(''taskId'', DetailStr (t_id t))]"
  by (simp add: changeTask_def nextTask_exhausted)

section \<open>Well-formed candidates\<close>

definition wf_links :: "task \<Rightarrow> bool" where
  "wf_links t \<longleftrightarrow>
     t_id t \<noteq> [] \<and> t_projectId t \<noteq> [] \<and>
     t_parentId t \<noteq> Some [] \<and> t_supersedesTaskId t \<noteq> Some [] \<and> [] \<notin> set (t_dependencyIds t) \<and>
     sorted (t_dependencyIds t) \<and> distinct (t_dependencyIds t) \<and>
     t_parentId t \<noteq> Some (t_id t) \<and> t_id t \<notin> set (t_dependencyIds t) \<and>
     t_supersedesTaskId t \<noteq> Some (t_id t)"

text \<open>The facts of a patched Task, whose revision is still the one before the change.\<close>

definition patched_facts :: "(jsstr \<Rightarrow> jsstr) \<Rightarrow> int \<Rightarrow> task \<Rightarrow> bool" where
  "patched_facts nfc n u \<longleftrightarrow>
     (case t_state u of
        Waiting \<Rightarrow> (\<exists>w. t_waiting u = Some w \<and> wf_waiting_input (wm_input w))
                    \<and> t_completion u = None \<and> t_cancellation u = None
      | Completed \<Rightarrow> t_waiting u = None \<and> t_cancellation u = None \<and>
                    (\<exists>c. t_completion u = Some c \<and> wf_completion c \<and> c_acceptedTaskRevision c = n)
      | Cancelled \<Rightarrow> t_waiting u = None \<and> t_completion u = None \<and>
                    (\<exists>x. t_cancellation u = Some x \<and> wf_cancellation nfc x \<and> x_acceptedTaskRevision x = n)
      | _ \<Rightarrow> t_waiting u = None \<and> t_completion u = None \<and> t_cancellation u = None)"

lemma wf_task_links: "wf_task nfc t \<Longrightarrow> wf_links t"
  by (simp add: wf_task_def wf_links_def)

lemma wf_task_revision: "wf_task nfc t \<Longrightarrow> 1 \<le> t_revision t \<and> t_revision t \<le> MAX_SAFE_INTEGER"
  by (simp add: wf_task_def wf_revision_def)

lemma wf_task_waiting:
  assumes "wf_task nfc t" "t_waiting t = Some w"
  shows "wf_waiting_input (wm_input w)" "wm_waitingTaskRevision w = t_revision t" "t_state t = Waiting"
  using assms by (auto simp: wf_task_def wf_waiting_def facts_of_state_def split: task_state.splits)

lemma wf_task_live_facts:
  assumes "wf_task nfc t" "t_state t \<notin> set TERMINAL_STATES"
  shows "t_completion t = None" "t_cancellation t = None" "t_state t \<noteq> Waiting \<Longrightarrow> t_waiting t = None"
    "t_state t = Waiting \<Longrightarrow> \<exists>w. t_waiting t = Some w \<and> wf_waiting_input (wm_input w)"
  using assms by (auto simp: wf_task_def facts_of_state_def TERMINAL_STATES_def wf_waiting_def
      split: task_state.splits)

lemma nextCandidate_fields [simp]:
  "t_id (nextCandidate t patch) = t_id (patch t)"
  "t_projectId (nextCandidate t patch) = t_projectId (patch t)"
  "t_state (nextCandidate t patch) = t_state (patch t)"
  "t_revision (nextCandidate t patch) = t_revision t + 1"
  "t_body (nextCandidate t patch) = t_body (patch t)"
  "t_parentId (nextCandidate t patch) = t_parentId (patch t)"
  "t_dependencyIds (nextCandidate t patch) = t_dependencyIds (patch t)"
  "t_completion (nextCandidate t patch) = t_completion (patch t)"
  "t_cancellation (nextCandidate t patch) = t_cancellation (patch t)"
  "t_supersedesTaskId (nextCandidate t patch) = t_supersedesTaskId (patch t)"
  by (simp_all add: nextCandidate_def Let_def)

lemma nextCandidate_waiting:
  "t_waiting (nextCandidate t patch) =
    (if t_state (patch t) = Waiting
     then map_option (\<lambda>w. w\<lparr>wm_waitingTaskRevision := t_revision t + 1\<rparr>) (t_waiting (patch t))
     else t_waiting (patch t))"
  by (simp add: nextCandidate_def Let_def)

lemma wf_nextCandidate:
  assumes wf: "wf_task nfc t" and rev: "t_revision t \<noteq> MAX_SAFE_INTEGER"
    and links: "wf_links (patch t)" and facts: "patched_facts nfc (t_revision t) (patch t)"
  shows "wf_task nfc (nextCandidate t patch)"
proof -
  from wf_task_revision [OF wf] rev have "wf_revision (t_revision t + 1)"
    by (simp add: wf_revision_def)
  with links facts show ?thesis
    by (cases "t_state (patch t)")
      (auto simp: wf_task_def wf_links_def patched_facts_def facts_of_state_def nextCandidate_waiting
        wf_waiting_def)
qed

lemma patched_facts_live:
  assumes "wf_task nfc t" "t_state t \<notin> set TERMINAL_STATES"
  shows "patched_facts nfc n t"
  using wf_task_live_facts [OF assms] assms(2)
  by (cases "t_state t") (auto simp: patched_facts_def TERMINAL_STATES_def)

end
