(* ===== verification/Domain_Decision.thy ===== *)
theory Domain_Decision
  imports Domain_Update
begin

text \<open>
  The decisions of the Domain Core: what the reported eligibility and continuation reasons
  mean, and when a Task may be claimed, resumed or retried.
\<close>

section \<open>Collecting reasons\<close>

lemma set_fold_dependency_reasons:
  "set (fold (\<lambda>d reasons. case look d of None \<Rightarrow> set_add a reasons
          | Some u \<Rightarrow> if P u then set_add b reasons else reasons) ds rs)
   = set rs \<union> {r. r = a \<and> (\<exists>d\<in>set ds. look d = None)}
       \<union> {r. r = b \<and> (\<exists>d\<in>set ds. \<exists>u. look d = Some u \<and> P u)}"
  by (induction ds arbitrary: rs) (auto split: option.splits)

lemma distinct_fold_dependency_reasons:
  "distinct (fold (\<lambda>d reasons. case look d of None \<Rightarrow> set_add a reasons
          | Some u \<Rightarrow> if P u then set_add b reasons else reasons) ds rs) \<longleftrightarrow> distinct rs"
  by (induction ds arbitrary: rs) (auto split: option.splits)

section \<open>Eligibility\<close>

text \<open>When a reason applies to a Task.\<close>

fun eligibility_reason_holds :: "snapshot \<Rightarrow> task \<Rightarrow> eligibility_reason \<Rightarrow> bool" where
  "eligibility_reason_holds s t STATE_NOT_READY \<longleftrightarrow> t_state t \<noteq> Ready"
| "eligibility_reason_holds s t PROJECT_NOT_REGISTERED \<longleftrightarrow> projectById s (t_projectId t) = None"
| "eligibility_reason_holds s t PROJECT_DISABLED_REASON \<longleftrightarrow>
     (\<exists>p. projectById s (t_projectId t) = Some p \<and> \<not> p_enabled p)"
| "eligibility_reason_holds s t DEPENDENCY_NOT_REGISTERED \<longleftrightarrow>
     (\<exists>d\<in>set (t_dependencyIds t). taskById s d = None)"
| "eligibility_reason_holds s t DEPENDENCY_NOT_COMPLETED \<longleftrightarrow>
     (\<exists>d\<in>set (t_dependencyIds t). \<exists>u. taskById s d = Some u \<and> t_state u \<noteq> Completed)"

lemma set_eligibilityReasons:
  "r \<in> set (eligibilityReasons s t) \<longleftrightarrow> eligibility_reason_holds s t r"
  unfolding eligibilityReasons_def Let_def set_sort set_fold_dependency_reasons
  by (cases r; cases "projectById s (t_projectId t)") simp_all

lemma eligibilityReasons_ordered:
  "distinct (eligibilityReasons s t)"
  "sorted (map (\<lambda>r. lit (eligibilityReasonName r)) (eligibilityReasons s t))"
  by (simp_all add: eligibilityReasons_def Let_def distinct_fold_dependency_reasons split: option.split)

text \<open>The contract of eligibility: ready, in an enabled Project, every dependency completed.\<close>

definition eligible :: "snapshot \<Rightarrow> task \<Rightarrow> bool" where
  "eligible s t \<longleftrightarrow>
     t_state t = Ready \<and> (\<exists>p. projectById s (t_projectId t) = Some p \<and> p_enabled p) \<and>
     (\<forall>d\<in>set (t_dependencyIds t). \<exists>u. taskById s d = Some u \<and> t_state u = Completed)"

lemma eligibilityReasons_Nil_iff: "eligibilityReasons s t = [] \<longleftrightarrow> eligible s t"
proof -
  have "eligibilityReasons s t = [] \<longleftrightarrow> (\<forall>r. \<not> eligibility_reason_holds s t r)"
    using set_eligibilityReasons [of _ s t] by (metis list.set_intros(1) neq_Nil_conv list.set(1) empty_iff)
  also have "\<dots> \<longleftrightarrow> eligible s t"
  proof
    assume none: "\<forall>r. \<not> eligibility_reason_holds s t r"
    show "eligible s t"
      using none [rule_format, of STATE_NOT_READY] none [rule_format, of PROJECT_NOT_REGISTERED]
        none [rule_format, of PROJECT_DISABLED_REASON] none [rule_format, of DEPENDENCY_NOT_REGISTERED]
        none [rule_format, of DEPENDENCY_NOT_COMPLETED]
      by (fastforce simp: eligible_def)
  next
    assume "eligible s t"
    then have "\<not> eligibility_reason_holds s t r" for r
      by (cases r) (auto simp: eligible_def)
    then show "\<forall>r. \<not> eligibility_reason_holds s t r" by blast
  qed
  finally show ?thesis .
qed

section \<open>Continuation\<close>

text \<open>
  The contract of continuation: a waiting Task at the expected revision, in an enabled Project,
  with every dependency completed, a receipt for its required action, and targets that agree
  with every recorded binding. A resume needs an execution; a retry needs a retryable wait
  whose time has come.
\<close>

definition binding_kept :: "jsstr option \<Rightarrow> jsstr option \<Rightarrow> bool" where
  "binding_kept recorded target \<longleftrightarrow> (\<forall>x. recorded = Some x \<longrightarrow> target = Some x)"

definition continuable :: "snapshot \<Rightarrow> task \<Rightarrow> continuation_command \<Rightarrow> bool" where
  "continuable s t c \<longleftrightarrow>
     (\<exists>w. t_state t = Waiting \<and> t_waiting t = Some w \<and>
        t_revision t = cc_expectedTaskRevision c \<and> wm_waitingTaskRevision w = cc_expectedTaskRevision c \<and>
        (\<exists>p. projectById s (t_projectId t) = Some p \<and> p_enabled p) \<and>
        (\<forall>d\<in>set (t_dependencyIds t). \<exists>u. taskById s d = Some u \<and> t_state u = Completed) \<and>
        ar_taskId (cc_receipt c) = t_id t \<and> ar_taskRevision (cc_receipt c) = cc_expectedTaskRevision c \<and>
        ar_requiredAction (cc_receipt c) = w_requiredAction (wm_input w) \<and>
        binding_kept (w_executionId (wm_input w)) (cc_targetExecutionId c) \<and>
        binding_kept (w_workspaceRevision (wm_input w)) (cc_targetWorkspaceRevision c) \<and>
        binding_kept (w_backendThreadId (wm_input w)) (cc_targetBackendThreadId c) \<and>
        (case cc_kind c of
           ResumeKind \<Rightarrow> w_executionId (wm_input w) \<noteq> None
         | RetryKind \<Rightarrow> w_retryable (wm_input w) \<and>
             (\<forall>n. w_retryAfter (wm_input w) = Some n \<longrightarrow> n \<le> cc_trustedTime c)))"

lemma bindingMismatch_iff: "bindingMismatch recorded target \<longleftrightarrow> \<not> binding_kept recorded target"
  by (cases recorded) (auto simp: bindingMismatch_def binding_kept_def)

lemma fold_dependency_reasons_Nil:
  "fold (\<lambda>d reasons. case look d of None \<Rightarrow> set_add a reasons
          | Some u \<Rightarrow> if P u then set_add b reasons else reasons) ds rs = []
   \<longleftrightarrow> rs = [] \<and> (\<forall>d\<in>set ds. \<exists>u. look d = Some u \<and> \<not> P u)"
  by (subst set_empty [symmetric], subst set_fold_dependency_reasons) auto

lemma sort_key_eq_Nil_iff: "sort_key f xs = [] \<longleftrightarrow> xs = []"
  by (metis length_0_conv length_sort)

lemma if_set_add_Nil: "(if c then set_add a rs else rs) = [] \<longleftrightarrow> \<not> c \<and> rs = []"
  by simp

lemma continuationReasons_Nil_iff: "continuationReasons s t c = [] \<longleftrightarrow> continuable s t c"
proof (cases "\<exists>w. t_state t = Waiting \<and> t_waiting t = Some w")
  case False
  then show ?thesis
    by (auto simp: continuationReasons_def continuable_def split: task_state.splits option.splits)
next
  case True
  then obtain w where w: "t_state t = Waiting" "t_waiting t = Some w" by blast
  have project: "(case look of None \<Rightarrow> set_add a rs
      | Some project \<Rightarrow> if \<not> p_enabled project then set_add b rs else rs) = []
    \<longleftrightarrow> (\<exists>p. look = Some p \<and> p_enabled p) \<and> rs = []" for look and a b :: continuation_reason and rs
    by (auto split: option.splits)
  have late: "(case x of None \<Rightarrow> False | Some after \<Rightarrow> after > n) \<longleftrightarrow> \<not> (\<forall>m. x = Some m \<longrightarrow> m \<le> n)"
    for x and n :: int by (auto split: option.splits)
  show ?thesis
    unfolding continuationReasons_def continuable_def w
    by (cases "cc_kind c")
      (simp_all only: w task_state.case option.case prod.case Let_def sort_key_eq_Nil_iff if_set_add_Nil
        fold_dependency_reasons_Nil project late bindingMismatch_iff de_Morgan_disj not_not
        continuation_kind.simps simp_thms if_True if_False option.inject ex_simps, blast+)
qed

end
