(* ===== verification/Domain_Machine.thy ===== *)
theory Domain_Machine
  imports Domain_Decision
begin

text \<open>
  The contract of the Domain Core as a transition system on well-formed snapshots. An action is
  what a command asks for, free of its JavaScript encoding; \<open>task_step\<close> says when the action is
  enabled and which Tasks it replaces; \<open>domain_step\<close> adds the Projects and new Tasks. The lemmas
  show that a step keeps the snapshot well formed and what it may change.
\<close>

section \<open>Actions\<close>

datatype action =
    RegisterProject jsstr
  | SetProjectEnabled jsstr bool
  | CreateTask jsstr jsstr jsstr "jsstr option"
  | SetBody jsstr jsstr
  | SetWaiting jsstr waiting_input
  | SetParent jsstr "jsstr option"
  | AddDependency jsstr jsstr
  | RemoveDependency jsstr jsstr
  | SetSupersession jsstr "jsstr option"
  | Transition jsstr task_state transition_event

section \<open>Steps\<close>

text \<open>A Task that can be mutated: registered, not terminal, with a successor revision.\<close>

definition live :: "snapshot \<Rightarrow> jsstr \<Rightarrow> task \<Rightarrow> bool" where
  "live s i t \<longleftrightarrow> taskById s i = Some t \<and> t_state t \<notin> set TERMINAL_STATES \<and>
     t_revision t \<noteq> MAX_SAFE_INTEGER"

definition moveTo :: "task_state \<Rightarrow> task \<Rightarrow> task" where
  "moveTo st t = nextCandidate t (\<lambda>t. t\<lparr>t_state := st, t_waiting := None\<rparr>)"

definition moveWaiting :: "waiting_input \<Rightarrow> task \<Rightarrow> task" where
  "moveWaiting w t = nextCandidate t (\<lambda>t. t\<lparr>t_state := Waiting,
     t_waiting := Some \<lparr>wm_input = w, wm_waitingTaskRevision = t_revision t + 1\<rparr>\<rparr>)"

definition moveCompleted :: "jsstr \<Rightarrow> task \<Rightarrow> task" where
  "moveCompleted decisionId t = nextCandidate t (\<lambda>t. t\<lparr>t_state := Completed, t_waiting := None,
     t_completion := Some \<lparr>c_decisionId = decisionId, c_acceptedTaskRevision = t_revision t\<rparr>\<rparr>)"

definition moveCancelled :: "cancellation_event \<Rightarrow> jsstr \<Rightarrow> jsstr option \<Rightarrow> task \<Rightarrow> task" where
  "moveCancelled e reason verificationId t = nextCandidate t (\<lambda>t. t\<lparr>t_state := Cancelled,
     t_waiting := None, t_completion := None,
     t_cancellation := Some \<lparr>x_event = e, x_reason = reason, x_verificationId = verificationId,
                             x_acceptedTaskRevision = t_revision t\<rparr>\<rparr>)"

text \<open>
  Cancelling a Task moves exactly its ready direct dependents to waiting, each with its own
  waiting input for the cancelled dependency.
\<close>

definition cancellation ::
  "snapshot \<Rightarrow> task \<Rightarrow> task \<Rightarrow> (jsstr \<Rightarrow> waiting_input) \<Rightarrow> (jsstr \<times> task) list" where
  "cancellation s t t' ws =
     (t_id t, t') # map (\<lambda>d. (t_id d, moveWaiting (ws (t_id d)) d)) (affectedDependents s (t_id t))"

definition dependents_ready :: "snapshot \<Rightarrow> task \<Rightarrow> (jsstr \<Rightarrow> waiting_input) \<Rightarrow> bool" where
  "dependents_ready s t ws \<longleftrightarrow>
     (\<forall>d\<in>set (affectedDependents s (t_id t)). t_revision d \<noteq> MAX_SAFE_INTEGER \<and>
        wf_waiting_input (ws (t_id d)) \<and> w_reason (ws (t_id d)) = DependencyCancelledReason)"

definition projectEnabled :: "snapshot \<Rightarrow> task \<Rightarrow> bool" where
  "projectEnabled s t \<longleftrightarrow> (\<exists>p. projectById s (t_projectId t) = Some p \<and> p_enabled p)"

inductive task_step ::
  "(jsstr \<Rightarrow> jsstr) \<Rightarrow> snapshot \<Rightarrow> action \<Rightarrow> (jsstr \<times> task) list \<Rightarrow> bool" for nfc s
where
  step_body: "live s i t \<Longrightarrow> t_body t \<noteq> b \<Longrightarrow>
    task_step nfc s (SetBody i b) [(i, nextCandidate t (\<lambda>t. t\<lparr>t_body := b\<rparr>))]"
| step_waiting: "live s i t \<Longrightarrow> t_state t = Waiting \<Longrightarrow> t_waiting t = Some wm \<Longrightarrow> wm_input wm \<noteq> w \<Longrightarrow>
    wf_waiting_input w \<Longrightarrow> task_step nfc s (SetWaiting i w) [(i, moveWaiting w t)]"
| step_parent: "live s i t \<Longrightarrow> t_state t \<in> set GRAPH_MUTABLE_STATES \<Longrightarrow> t_parentId t \<noteq> p \<Longrightarrow>
    (\<And>q. p = Some q \<Longrightarrow> \<exists>u. taskById s q = Some u \<and> t_projectId u = t_projectId t \<and>
       (q, i) \<notin> (parentRel (s_tasks s))\<^sup>*) \<Longrightarrow>
    task_step nfc s (SetParent i p) [(i, nextCandidate t (\<lambda>t. t\<lparr>t_parentId := p\<rparr>))]"
| step_add_dependency: "live s i t \<Longrightarrow> t_state t \<in> set GRAPH_MUTABLE_STATES \<Longrightarrow>
    d \<in> ids (s_tasks s) \<Longrightarrow> d \<notin> set (t_dependencyIds t) \<Longrightarrow> (d, i) \<notin> (depRel (s_tasks s))\<^sup>* \<Longrightarrow>
    task_step nfc s (AddDependency i d)
      [(i, nextCandidate t (\<lambda>t. t\<lparr>t_dependencyIds := sort (t_dependencyIds t @ [d])\<rparr>))]"
| step_remove_dependency: "live s i t \<Longrightarrow> t_state t \<in> set GRAPH_MUTABLE_STATES \<Longrightarrow>
    d \<in> set (t_dependencyIds t) \<Longrightarrow>
    task_step nfc s (RemoveDependency i d)
      [(i, nextCandidate t (\<lambda>t. t\<lparr>t_dependencyIds := filter (\<lambda>x. x \<noteq> d) (t_dependencyIds t)\<rparr>))]"
| step_supersession: "live s i t \<Longrightarrow> t_supersedesTaskId t \<noteq> x \<Longrightarrow> x \<noteq> Some i \<Longrightarrow>
    (\<And>y. x = Some y \<Longrightarrow> y \<in> ids (s_tasks s)) \<Longrightarrow>
    task_step nfc s (SetSupersession i x) [(i, nextCandidate t (\<lambda>t. t\<lparr>t_supersedesTaskId := x\<rparr>))]"
| step_ready: "live s i t \<Longrightarrow> t_state t = Idea \<Longrightarrow> projectEnabled s t \<Longrightarrow> \<not> hasCancelledDependency s t \<Longrightarrow>
    task_step nfc s (Transition i Ready MarkReady) [(i, moveTo Ready t)]"
| step_claim: "live s i t \<Longrightarrow> eligible s t \<Longrightarrow>
    task_step nfc s (Transition i Running ClaimAccepted) [(i, moveTo Running t)]"
| step_dependency_cancelled: "live s i t \<Longrightarrow> t_state t = Ready \<Longrightarrow> hasCancelledDependency s t \<Longrightarrow>
    wf_waiting_input w \<Longrightarrow> w_reason w = DependencyCancelledReason \<Longrightarrow>
    task_step nfc s (Transition i Waiting DependencyCancelled) [(i, moveWaiting w t)]"
| step_wait: "live s i t \<Longrightarrow> t_state t = Running \<Longrightarrow> wf_waiting_input w \<Longrightarrow>
    task_step nfc s (Transition i Waiting ExecutionWait) [(i, moveWaiting w t)]"
| step_complete: "live s i t \<Longrightarrow> t_state t = Running \<Longrightarrow> decisionId \<noteq> [] \<Longrightarrow>
    task_step nfc s (Transition i Completed CompletionAccepted) [(i, moveCompleted decisionId t)]"
| step_resume: "live s i t \<Longrightarrow> continuable s t c \<Longrightarrow> cc_kind c = ResumeKind \<Longrightarrow>
    task_step nfc s (Transition i Running ResumeAccepted) [(i, moveTo Running t)]"
| step_retry: "live s i t \<Longrightarrow> continuable s t c \<Longrightarrow> cc_kind c = RetryKind \<Longrightarrow>
    task_step nfc s (Transition i Running RetryAccepted) [(i, moveTo Running t)]"
| step_cancel: "live s i t \<Longrightarrow> t_state t \<in> {Idea, Ready, Waiting} \<Longrightarrow>
    isCanonicalCancellationReason nfc (JStr reason) \<Longrightarrow>
    (v = None \<longleftrightarrow> (\<forall>w. t_waiting t = Some w \<longrightarrow> w_executionId (wm_input w) = None)) \<Longrightarrow> v \<noteq> Some [] \<Longrightarrow>
    dependents_ready s t ws \<Longrightarrow>
    task_step nfc s (Transition i Cancelled Cancel)
      (cancellation s t (moveCancelled CancelEvent reason v t) ws)"
| step_interrupt: "live s i t \<Longrightarrow> t_state t = Running \<Longrightarrow>
    isCanonicalCancellationReason nfc (JStr reason) \<Longrightarrow> v \<noteq> [] \<Longrightarrow> dependents_ready s t ws \<Longrightarrow>
    task_step nfc s (Transition i Cancelled InterruptionVerified)
      (cancellation s t (moveCancelled InterruptionVerifiedEvent reason (Some v) t) ws)"

inductive domain_step :: "(jsstr \<Rightarrow> jsstr) \<Rightarrow> snapshot \<Rightarrow> action \<Rightarrow> snapshot \<Rightarrow> bool" for nfc s
where
  step_register: "p \<noteq> [] \<Longrightarrow> projectById s p = None \<Longrightarrow>
    domain_step nfc s (RegisterProject p)
      (s\<lparr>s_projects := sort_key p_id (s_projects s @ [\<lparr>p_id = p, p_enabled = True\<rparr>])\<rparr>)"
| step_enable: "projectById s p = Some q \<Longrightarrow> p_enabled q \<noteq> b \<Longrightarrow>
    domain_step nfc s (SetProjectEnabled p b)
      (s\<lparr>s_projects := map (\<lambda>c. if p_id c = p then c\<lparr>p_enabled := b\<rparr> else c) (s_projects s)\<rparr>)"
| step_create: "i \<noteq> [] \<Longrightarrow> taskById s i = None \<Longrightarrow> projectById s p \<noteq> None \<Longrightarrow>
    (\<And>y. x = Some y \<Longrightarrow> y \<in> ids (s_tasks s)) \<Longrightarrow>
    domain_step nfc s (CreateTask i p b x)
      (s\<lparr>s_tasks := sort_key t_id (s_tasks s @ [newTask i p b x])\<rparr>)"
| step_task: "task_step nfc s a repl \<Longrightarrow> domain_step nfc s a (putTasks s repl)"

section \<open>The replaced Tasks\<close>

lemma live_wf:
  assumes "wf_snapshot nfc s" and "live s i t"
  shows "t \<in> set (s_tasks s)" "t_id t = i" "wf_task nfc t"
  using assms tasks.lookup_SomeD [of s i t] by (auto simp: live_def wf_snapshot_in_def)

lemmas move_defs = moveTo_def moveWaiting_def moveCompleted_def moveCancelled_def

lemma move_fields [simp]:
  "t_id (moveTo st t) = t_id t" "t_id (moveWaiting w t) = t_id t"
  "t_id (moveCompleted c t) = t_id t" "t_id (moveCancelled e r v t) = t_id t"
  "t_projectId (moveTo st t) = t_projectId t" "t_projectId (moveWaiting w t) = t_projectId t"
  "t_projectId (moveCompleted c t) = t_projectId t" "t_projectId (moveCancelled e r v t) = t_projectId t"
  "t_state (moveTo st t) = st" "t_state (moveWaiting w t) = Waiting"
  "t_state (moveCompleted c t) = Completed" "t_state (moveCancelled e r v t) = Cancelled"
  "t_revision (moveTo st t) = t_revision t + 1" "t_revision (moveWaiting w t) = t_revision t + 1"
  "t_revision (moveCompleted c t) = t_revision t + 1" "t_revision (moveCancelled e r v t) = t_revision t + 1"
  by (simp_all add: move_defs)

lemma move_links [simp]:
  "t_parentId (moveTo st t) = t_parentId t" "t_parentId (moveWaiting w t) = t_parentId t"
  "t_parentId (moveCompleted c t) = t_parentId t" "t_parentId (moveCancelled e r v t) = t_parentId t"
  "t_dependencyIds (moveTo st t) = t_dependencyIds t" "t_dependencyIds (moveWaiting w t) = t_dependencyIds t"
  "t_dependencyIds (moveCompleted c t) = t_dependencyIds t"
  "t_dependencyIds (moveCancelled e r v t) = t_dependencyIds t"
  "t_supersedesTaskId (moveTo st t) = t_supersedesTaskId t"
  "t_supersedesTaskId (moveWaiting w t) = t_supersedesTaskId t"
  "t_supersedesTaskId (moveCompleted c t) = t_supersedesTaskId t"
  "t_supersedesTaskId (moveCancelled e r v t) = t_supersedesTaskId t"
  by (simp_all add: move_defs)

lemma wf_moves:
  assumes wf: "wf_task nfc t" and live: "t_state t \<notin> set TERMINAL_STATES"
    and rev: "t_revision t \<noteq> MAX_SAFE_INTEGER"
  shows "st \<in> {Idea, Ready, Running} \<Longrightarrow> wf_task nfc (moveTo st t)"
    and "wf_waiting_input w \<Longrightarrow> wf_task nfc (moveWaiting w t)"
    and "decisionId \<noteq> [] \<Longrightarrow> wf_task nfc (moveCompleted decisionId t)"
    and "isCanonicalCancellationReason nfc (JStr reason) \<Longrightarrow> v \<noteq> Some [] \<Longrightarrow>
      wf_task nfc (moveCancelled e reason v t)"
proof -
  note facts = wf_task_live_facts [OF wf live]
  have links: "wf_links (t\<lparr>t_state := st, t_waiting := w, t_completion := c, t_cancellation := x\<rparr>)" for st w c x
    using wf_task_links [OF wf] by (simp add: wf_links_def)
  have links': "wf_links (t\<lparr>t_state := st, t_waiting := w\<rparr>)" "wf_links (t\<lparr>t_state := st, t_waiting := w, t_completion := c\<rparr>)" for st w c
    using wf_task_links [OF wf] by (simp_all add: wf_links_def)
  have n: "wf_revision (t_revision t)"
    using wf by (simp add: wf_task_def)
  show "wf_task nfc (moveTo st t)" if "st \<in> {Idea, Ready, Running}"
    unfolding moveTo_def using that facts(1,2) links'
    by (intro wf_nextCandidate [OF wf rev]) (auto simp: patched_facts_def)
  show "wf_task nfc (moveWaiting w t)" if "wf_waiting_input w"
    unfolding moveWaiting_def using that facts(1,2) links'
    by (intro wf_nextCandidate [OF wf rev]) (auto simp: patched_facts_def)
  show "wf_task nfc (moveCompleted decisionId t)" if "decisionId \<noteq> []"
    unfolding moveCompleted_def using that facts(1,2) links' n
    by (intro wf_nextCandidate [OF wf rev]) (auto simp: patched_facts_def wf_completion_def)
  show "wf_task nfc (moveCancelled e reason v t)" if "isCanonicalCancellationReason nfc (JStr reason)" "v \<noteq> Some []"
    unfolding moveCancelled_def using that facts(1,2) links n
    by (intro wf_nextCandidate [OF wf rev]) (auto simp: patched_facts_def wf_cancellation_def)
qed

lemma wf_edit:
  assumes wf: "wf_task nfc t" and live: "t_state t \<notin> set TERMINAL_STATES"
    and rev: "t_revision t \<noteq> MAX_SAFE_INTEGER" and links: "wf_links (patch t)"
    and same: "t_state (patch t) = t_state t" "t_waiting (patch t) = t_waiting t"
      "t_completion (patch t) = t_completion t" "t_cancellation (patch t) = t_cancellation t"
  shows "wf_task nfc (nextCandidate t patch)"
proof (rule wf_nextCandidate [where patch = patch, OF wf rev links])
  show "patched_facts nfc (t_revision t) (patch t)"
    using patched_facts_live [OF wf live, of "t_revision t"] unfolding patched_facts_def same .
qed

text \<open>The change that one Task may undergo in a step.\<close>

definition task_change :: "(jsstr \<Rightarrow> jsstr) \<Rightarrow> task \<Rightarrow> task \<Rightarrow> bool" where
  "task_change nfc t t' \<longleftrightarrow>
     t_id t' = t_id t \<and> t_projectId t' = t_projectId t \<and> t_revision t' = t_revision t + 1 \<and>
     t_state t \<notin> set TERMINAL_STATES \<and> wf_task nfc t' \<and>
     (t_state t' = t_state t \<or> (\<exists>e. (t_state t, t_state t', e) \<in> set TASK_TRANSITIONS))"

definition references_ok :: "snapshot \<Rightarrow> task \<Rightarrow> bool" where
  "references_ok s t \<longleftrightarrow> wf_references CompleteMode None (s_projects s) (s_tasks s) t"

lemma references_ok_iff:
  assumes "wf_snapshot nfc s" "t \<in> set (s_tasks s)" "t_projectId t' = t_projectId t"
  shows "references_ok s t' \<longleftrightarrow> set (t_dependencyIds t') \<subseteq> ids (s_tasks s) \<and>
     (\<forall>q. t_parentId t' = Some q \<longrightarrow> (\<exists>u. taskById s q = Some u \<and> t_projectId u = t_projectId t)) \<and>
     (\<forall>x. t_supersedesTaskId t' = Some x \<longrightarrow> x \<in> ids (s_tasks s))"
proof -
  from assms have "t_projectId t' \<in> p_id ` set (s_projects s)"
    by (auto simp: wf_snapshot_in_def wf_references_def strictFor_def)
  then show ?thesis
    using assms(3) tasks.lookup_iff [OF assms(1)]
    by (auto simp: references_ok_def wf_references_def strictFor_def)
qed

lemma references_ok_task:
  "wf_snapshot nfc s \<Longrightarrow> t \<in> set (s_tasks s) \<Longrightarrow> references_ok s t"
  by (simp add: references_ok_def wf_snapshot_in_def)

lemma affected_live:
  assumes "wf_snapshot nfc s" and "dependents_ready s t ws" and "d \<in> set (affectedDependents s (t_id t))"
  shows "live s (t_id d) d" "d \<in> set (s_tasks s)" "t_state d = Ready" "wf_task nfc d"
    "wf_waiting_input (ws (t_id d))"
  using assms tasks.lookup_iff [OF assms(1), of "t_id d" d]
  by (auto simp: affectedDependents_def dependents_ready_def live_def TERMINAL_STATES_def wf_snapshot_in_def)

lemma affected_not_self:
  assumes "wf_snapshot nfc s" and "d \<in> set (affectedDependents s i)"
  shows "t_id d \<noteq> i"
  using assms by (auto simp: affectedDependents_def wf_snapshot_in_def wf_task_def)

lemma distinct_affected: "wf_snapshot nfc s \<Longrightarrow> distinct (map t_id (affectedDependents s i))"
  by (simp add: affectedDependents_def wf_snapshot_in_def distinct_map_filter)

text \<open>Every transition of a move is one of the authoritative relation.\<close>

lemma task_change_move:
  assumes "wf_snapshot nfc s" "live s i t"
  shows "t_state t = Idea \<Longrightarrow> task_change nfc t (moveTo Ready t)"
    and "t_state t \<in> {Ready, Waiting} \<Longrightarrow> task_change nfc t (moveTo Running t)"
    and "t_state t \<in> {Ready, Running, Waiting} \<Longrightarrow> wf_waiting_input w \<Longrightarrow> task_change nfc t (moveWaiting w t)"
    and "t_state t = Running \<Longrightarrow> c \<noteq> [] \<Longrightarrow> task_change nfc t (moveCompleted c t)"
    and "isCanonicalCancellationReason nfc (JStr r) \<Longrightarrow> v \<noteq> Some [] \<Longrightarrow>
      task_change nfc t (moveCancelled e r v t)"
proof -
  from assms have l: "t_state t \<notin> set TERMINAL_STATES" "t_revision t \<noteq> MAX_SAFE_INTEGER"
    by (simp_all add: live_def)
  note wf = wf_moves [OF live_wf(3) [OF assms] l]
  show "t_state t = Idea \<Longrightarrow> task_change nfc t (moveTo Ready t)"
    using l wf(1) [of Ready] by (auto simp: task_change_def TASK_TRANSITIONS_def)
  show "t_state t \<in> {Ready, Waiting} \<Longrightarrow> task_change nfc t (moveTo Running t)"
    using l wf(1) [of Running] by (auto simp: task_change_def TASK_TRANSITIONS_def)
  show "t_state t \<in> {Ready, Running, Waiting} \<Longrightarrow> wf_waiting_input w \<Longrightarrow> task_change nfc t (moveWaiting w t)"
    using l wf(2) [of w] by (auto simp: task_change_def TASK_TRANSITIONS_def)
  show "t_state t = Running \<Longrightarrow> c \<noteq> [] \<Longrightarrow> task_change nfc t (moveCompleted c t)"
    using l wf(3) [of c] by (auto simp: task_change_def TASK_TRANSITIONS_def)
  show "isCanonicalCancellationReason nfc (JStr r) \<Longrightarrow> v \<noteq> Some [] \<Longrightarrow> task_change nfc t (moveCancelled e r v t)"
    using l wf(4) [of r v e] by (cases "t_state t") (auto simp: task_change_def TASK_TRANSITIONS_def TERMINAL_STATES_def)
qed

lemma task_change_edit:
  assumes "wf_snapshot nfc s" "live s i t" "wf_links (patch t)"
    and "t_id (patch t) = t_id t" "t_projectId (patch t) = t_projectId t" 
    and "t_state (patch t) = t_state t" "t_waiting (patch t) = t_waiting t"
      "t_completion (patch t) = t_completion t" "t_cancellation (patch t) = t_cancellation t"
  shows "task_change nfc t (nextCandidate t patch)"
  using assms wf_edit [where patch = patch, OF live_wf(3) [OF assms(1,2)]]
  by (simp add: task_change_def live_def)

text \<open>The links of the replacement: kept by every move, changed by the graph operations.\<close>

lemma references_move:
  assumes "wf_snapshot nfc s" "t \<in> set (s_tasks s)" "t_projectId t' = t_projectId t"
    "t_parentId t' = t_parentId t" "t_dependencyIds t' = t_dependencyIds t"
    "t_supersedesTaskId t' = t_supersedesTaskId t"
  shows "references_ok s t'"
  using references_ok_task [OF assms(1,2)] references_ok_iff [OF assms(1,2,3)]
    references_ok_iff [OF assms(1,2) refl] assms(4-6) by simp

lemma keepsLinks_single:
  assumes "wf_snapshot nfc s" "live s i t" "t_id t' = t_id t" "t_projectId t' = t_projectId t"
    "t_parentId t' = t_parentId t" "t_dependencyIds t' = t_dependencyIds t"
    "t_supersedesTaskId t' = t_supersedesTaskId t"
  shows "keepsLinks s [(i, t')]"
  using live_wf [OF assms(1,2)] assms(3-) by (auto simp: keepsLinks_def)

lemma keepsLinks_cancellation:
  assumes "wf_snapshot nfc s" "live s i t" "dependents_ready s t ws"
  shows "keepsLinks s (cancellation s t (moveCancelled e r v t) ws)"
  using live_wf [OF assms(1,2)] affected_live(2) [OF assms(1,3)]
  by (auto simp: keepsLinks_def cancellation_def)

lemma acyclic_replaced:
  assumes "wf_snapshot nfc s"
    and "\<And>k t'. map_of repl k = Some t' \<Longrightarrow> t_id t' = k"
    and parent: "\<And>k t' q. map_of repl k = Some t' \<Longrightarrow> t_parentId t' = Some q \<Longrightarrow> (k, q) \<in> parentRel (s_tasks s) \<union> P"
    and dep: "\<And>k t' d. map_of repl k = Some t' \<Longrightarrow> d \<in> set (t_dependencyIds t') \<Longrightarrow> (k, d) \<in> depRel (s_tasks s) \<union> D"
    and "acyclic (parentRel (s_tasks s) \<union> P)" "acyclic (depRel (s_tasks s) \<union> D)"
  shows "acyclic (parentRel (replacedTasks s repl []))" "acyclic (depRel (replacedTasks s repl []))"
proof -
  have "parentRel (replacedTasks s repl []) \<subseteq> parentRel (s_tasks s) \<union> P"
  proof (clarsimp simp: parentRel_def [of "replacedTasks s repl []"])
    fix u q assume "u \<in> set (replacedTasks s repl [])" "t_parentId u = Some q" "(t_id u, q) \<notin> P"
    then show "(t_id u, q) \<in> parentRel (s_tasks s)"
      by (cases rule: replacedTasks_cases) (use parent assms(2) in \<open>fastforce simp: parentRel_def\<close>)+
  qed
  then show "acyclic (parentRel (replacedTasks s repl []))"
    using assms(5) by (blast intro: acyclic_mono)
  have "depRel (replacedTasks s repl []) \<subseteq> depRel (s_tasks s) \<union> D"
  proof (clarsimp simp: depRel_def [of "replacedTasks s repl []"])
    fix u d assume "u \<in> set (replacedTasks s repl [])" "d \<in> set (t_dependencyIds u)" "(t_id u, d) \<notin> D"
    then show "(t_id u, d) \<in> depRel (s_tasks s)"
      by (cases rule: replacedTasks_cases) (use dep assms(2) in \<open>fastforce simp: depRel_def\<close>)+
  qed
  then show "acyclic (depRel (replacedTasks s repl []))"
    using assms(6) by (blast intro: acyclic_mono)
qed

section \<open>A step keeps the invariant\<close>

definition step_ok :: "(jsstr \<Rightarrow> jsstr) \<Rightarrow> snapshot \<Rightarrow> (jsstr \<times> task) list \<Rightarrow> bool" where
  "step_ok nfc s repl \<longleftrightarrow>
     distinct (map fst repl) \<and> (\<forall>(k, t')\<in>set repl. \<exists>t. live s k t \<and> task_change nfc t t') \<and>
     wf_snapshot nfc (putTasks s repl)"

lemma step_ok_links:
  assumes wf: "wf_snapshot nfc s" and links: "keepsLinks s repl" and "distinct (map fst repl)"
    and change: "\<And>k t'. (k, t') \<in> set repl \<Longrightarrow> \<exists>t. live s k t \<and> task_change nfc t t'"
  shows "step_ok nfc s repl"
proof -
  have "wf_task nfc t'" if "map_of repl k = Some t'" for k t'
    using change [OF map_of_SomeD [OF that]] by (auto simp: task_change_def)
  then have "wf_snapshot nfc (putTasks s repl)"
    by (rule putTasks_keepsLinks_wf [OF wf links])
  with assms show ?thesis by (auto simp: step_ok_def)
qed

lemma step_ok_move:
  assumes "wf_snapshot nfc s" "live s i t" "task_change nfc t t'" "t_parentId t' = t_parentId t"
    "t_dependencyIds t' = t_dependencyIds t" "t_supersedesTaskId t' = t_supersedesTaskId t"
  shows "step_ok nfc s [(i, t')]"
  using assms by (intro step_ok_links keepsLinks_single [OF assms(1,2)]) (auto simp: task_change_def)

lemma step_ok_edit:
  assumes wf: "wf_snapshot nfc s" and live: "live s i t" and change: "task_change nfc t t'"
    and refs: "references_ok s t'"
    and parent: "t_parentId t' = t_parentId t \<or> acyclic (parentRel (s_tasks s) \<union> {(i, q) | q. t_parentId t' = Some q})"
    and dep: "acyclic (depRel (s_tasks s) \<union> {(i, d) | d. d \<in> set (t_dependencyIds t')})"
  shows "step_ok nfc s [(i, t')]"
proof -
  note t = live_wf [OF wf live]
  from t have P: "(i, q) \<in> parentRel (s_tasks s)" if "t_parentId t = Some q" for q
    using that by (auto simp: parentRel_def)
  have "parentRel (s_tasks s) \<union> {(i, q) | q. t_parentId t' = Some q} = parentRel (s_tasks s)"
    if "t_parentId t' = t_parentId t" using that P by auto
  with parent wf have acyclic: "acyclic (parentRel (s_tasks s) \<union> {(i, q) | q. t_parentId t' = Some q})"
    by (auto simp: wf_snapshot_in_def)
  have id: "t_id t' = i" using change t(2) by (simp add: task_change_def)
  have "wf_snapshot nfc (putTasks s [(i, t')])"
  proof (rule putTasks_wf [OF wf])
    show "replaces s [(i, t')]"
      using change t by (auto simp: replaces_def task_change_def)
    show "map_of [(i, t')] k = Some u \<Longrightarrow>
        wf_task nfc u \<and> wf_references CompleteMode None (s_projects s) (s_tasks s) u" for k u
      using change refs by (auto simp: task_change_def references_ok_def split: if_splits)
    show "acyclic (parentRel (replacedTasks s [(i, t')] []))"
      by (rule acyclic_replaced(1) [OF wf _ _ _ acyclic dep]) (use id in \<open>auto split: if_splits\<close>)
    show "acyclic (depRel (replacedTasks s [(i, t')] []))"
      by (rule acyclic_replaced(2) [OF wf _ _ _ acyclic dep]) (use id in \<open>auto split: if_splits\<close>)
  qed
  with live change show ?thesis by (auto simp: step_ok_def)
qed

lemma step_ok_cancellation:
  assumes wf: "wf_snapshot nfc s" and live: "live s i t" and ready: "dependents_ready s t ws"
    and change: "task_change nfc t (moveCancelled e r v t)"
  shows "step_ok nfc s (cancellation s t (moveCancelled e r v t) ws)"
proof (rule step_ok_links [OF wf keepsLinks_cancellation [OF wf live ready]])
  show "distinct (map fst (cancellation s t (moveCancelled e r v t) ws))"
    using distinct_affected [OF wf]
    by (auto simp: cancellation_def comp_def dest: affected_not_self [OF wf])
  fix k t'
  assume "(k, t') \<in> set (cancellation s t (moveCancelled e r v t) ws)"
  then consider "k = i" "t' = moveCancelled e r v t"
    | d where "d \<in> set (affectedDependents s (t_id t))" "k = t_id d" "t' = moveWaiting (ws (t_id d)) d"
    using live_wf(2) [OF wf live] by (auto simp: cancellation_def)
  then show "\<exists>t. live s k t \<and> task_change nfc t t'"
  proof cases
    case 1
    with live change show ?thesis by blast
  next
    case (2 d)
    note d = affected_live [OF wf ready 2(1)]
    with task_change_move(3) [OF wf d(1), of "ws (t_id d)"] 2 show ?thesis by auto
  qed
qed

lemma dep_pairs_kept:
  assumes "wf_snapshot nfc s" "live s i t" "set ds \<subseteq> set (t_dependencyIds t)"
  shows "acyclic (depRel (s_tasks s) \<union> {(i, d) | d. d \<in> set ds})"
proof -
  have "{(i, d) | d. d \<in> set ds} \<subseteq> depRel (s_tasks s)"
    using live_wf [OF assms(1,2)] assms(3) by (auto simp: depRel_def)
  then have "depRel (s_tasks s) \<union> {(i, d) | d. d \<in> set ds} = depRel (s_tasks s)" by blast
  with assms(1) show ?thesis by (simp add: wf_snapshot_in_def)
qed

lemma Nil_not_id: "wf_snapshot nfc s \<Longrightarrow> [] \<notin> ids (s_tasks s)"
  by (fastforce simp: wf_snapshot_in_def wf_task_def)

lemma step_parent_ok:
  assumes wf: "wf_snapshot nfc s" and live: "live s i t"
    and parent: "\<And>q. p = Some q \<Longrightarrow> \<exists>u. taskById s q = Some u \<and> t_projectId u = t_projectId t \<and>
       (q, i) \<notin> (parentRel (s_tasks s))\<^sup>*"
  shows "step_ok nfc s [(i, nextCandidate t (\<lambda>t. t\<lparr>t_parentId := p\<rparr>))]"
proof -
  note t = live_wf [OF wf live]
  let ?t' = "nextCandidate t (\<lambda>t. t\<lparr>t_parentId := p\<rparr>)"
  have reg: "\<exists>u. taskById s q = Some u \<and> t_projectId u = t_projectId t" "(q, i) \<notin> (parentRel (s_tasks s))\<^sup>*"
    if "p = Some q" for q using parent [OF that] by auto
  have "p \<noteq> Some i" using reg(2) by blast
  moreover have "p \<noteq> Some []"
    using reg(1) [of "[]"] tasks.lookup_SomeD [of s "[]"] Nil_not_id [OF wf] by (metis imageI)
  ultimately have "wf_links (t\<lparr>t_parentId := p\<rparr>)"
    using wf_task_links [OF t(3)] t(2) by (simp add: wf_links_def)
  then have change: "task_change nfc t ?t'" by (intro task_change_edit [OF wf live]) auto
  have "references_ok s ?t'"
    using references_ok_task [OF wf t(1)] reg(1) references_ok_iff [OF wf t(1), of ?t']
      references_ok_iff [OF wf t(1) refl] by auto
  moreover have "acyclic (parentRel (s_tasks s) \<union> {(i, q) | q. t_parentId ?t' = Some q})"
    using wf reg(2) by (cases p) (auto simp: wf_snapshot_in_def acyclic_insert_iff)
  ultimately show ?thesis
    using dep_pairs_kept [OF wf live order.refl]
    by (intro step_ok_edit [OF wf live change]) auto
qed

lemma step_add_dependency_ok:
  assumes wf: "wf_snapshot nfc s" and live: "live s i t" and d: "d \<in> ids (s_tasks s)"
    "d \<notin> set (t_dependencyIds t)" "(d, i) \<notin> (depRel (s_tasks s))\<^sup>*"
  shows "step_ok nfc s
    [(i, nextCandidate t (\<lambda>t. t\<lparr>t_dependencyIds := sort (t_dependencyIds t @ [d])\<rparr>))]"
proof -
  note t = live_wf [OF wf live]
  let ?t' = "nextCandidate t (\<lambda>t. t\<lparr>t_dependencyIds := sort (t_dependencyIds t @ [d])\<rparr>)"
  have "d \<noteq> []" "d \<noteq> i" using d(1,3) Nil_not_id [OF wf] by (metis, metis rtrancl.rtrancl_refl)
  then have "wf_links (t\<lparr>t_dependencyIds := sort (t_dependencyIds t @ [d])\<rparr>)"
    using wf_task_links [OF t(3)] t(2) d by (auto simp: wf_links_def)
  then have change: "task_change nfc t ?t'" by (intro task_change_edit [OF wf live]) auto
  have "references_ok s ?t'"
    using references_ok_task [OF wf t(1)] d references_ok_iff [OF wf t(1), of ?t']
      references_ok_iff [OF wf t(1) refl] by auto
  moreover have "{(i, x) | x. x \<in> set (t_dependencyIds ?t')} =
      insert (i, d) {(i, x) | x. x \<in> set (t_dependencyIds t)}" by auto
  then have "depRel (s_tasks s) \<union> {(i, x) | x. x \<in> set (t_dependencyIds ?t')} = insert (i, d) (depRel (s_tasks s))"
    using t by (auto simp: depRel_def)
  then have "acyclic (depRel (s_tasks s) \<union> {(i, x) | x. x \<in> set (t_dependencyIds ?t')})"
    using wf d by (simp add: wf_snapshot_in_def acyclic_insert_iff)
  ultimately show ?thesis
    by (intro step_ok_edit [OF wf live change]) auto
qed

lemma step_remove_dependency_ok:
  assumes wf: "wf_snapshot nfc s" and live: "live s i t"
  shows "step_ok nfc s
    [(i, nextCandidate t (\<lambda>t. t\<lparr>t_dependencyIds := filter (\<lambda>x. x \<noteq> d) (t_dependencyIds t)\<rparr>))]"
proof -
  note t = live_wf [OF wf live]
  let ?t' = "nextCandidate t (\<lambda>t. t\<lparr>t_dependencyIds := filter (\<lambda>x. x \<noteq> d) (t_dependencyIds t)\<rparr>)"
  have "wf_links (t\<lparr>t_dependencyIds := filter (\<lambda>x. x \<noteq> d) (t_dependencyIds t)\<rparr>)"
    using wf_task_links [OF t(3)] sorted_filter [of "\<lambda>x. x" "t_dependencyIds t"]
    by (auto simp: wf_links_def)
  then have change: "task_change nfc t ?t'" by (intro task_change_edit [OF wf live]) auto
  have "references_ok s ?t'"
    using references_ok_task [OF wf t(1)] references_ok_iff [OF wf t(1), of ?t']
      references_ok_iff [OF wf t(1) refl] by auto
  then show ?thesis
    using dep_pairs_kept [OF wf live, of "t_dependencyIds ?t'"]
    by (intro step_ok_edit [OF wf live change]) auto
qed

lemma step_supersession_ok:
  assumes wf: "wf_snapshot nfc s" and live: "live s i t" and "x \<noteq> Some i"
    and x: "\<And>y. x = Some y \<Longrightarrow> y \<in> ids (s_tasks s)"
  shows "step_ok nfc s [(i, nextCandidate t (\<lambda>t. t\<lparr>t_supersedesTaskId := x\<rparr>))]"
proof -
  note t = live_wf [OF wf live]
  let ?t' = "nextCandidate t (\<lambda>t. t\<lparr>t_supersedesTaskId := x\<rparr>)"
  have "x \<noteq> Some []" using x Nil_not_id [OF wf] by blast
  then have "wf_links (t\<lparr>t_supersedesTaskId := x\<rparr>)"
    using wf_task_links [OF t(3)] t(2) assms(3) by (auto simp: wf_links_def)
  then have change: "task_change nfc t ?t'" by (intro task_change_edit [OF wf live]) auto
  have "references_ok s ?t'"
    using references_ok_task [OF wf t(1)] x references_ok_iff [OF wf t(1), of ?t']
      references_ok_iff [OF wf t(1) refl] by auto
  then show ?thesis
    using dep_pairs_kept [OF wf live order.refl]
    by (intro step_ok_edit [OF wf live change]) auto
qed

theorem task_step_ok:
  assumes "task_step nfc s a repl" and wf: "wf_snapshot nfc s"
  shows "step_ok nfc s repl"
  using assms(1)
proof cases
  case (step_body i t b)
  have "wf_links (t\<lparr>t_body := b\<rparr>)"
    using wf_task_links [OF live_wf(3) [OF wf step_body(3)]] by (simp add: wf_links_def)
  then show ?thesis
    unfolding step_body by (intro step_ok_move [OF wf step_body(3)] task_change_edit [OF wf step_body(3)]) auto
next
  case (step_waiting i t wm w)
  then show ?thesis
    by (auto intro!: step_ok_move [OF wf] task_change_move(3) [OF wf])
next
  case (step_claim i t)
  then show ?thesis
    by (auto simp: eligible_def intro!: step_ok_move [OF wf] task_change_move(2) [OF wf])
next
  case (step_resume i t c)
  then show ?thesis
    by (auto simp: continuable_def intro!: step_ok_move [OF wf] task_change_move(2) [OF wf])
next
  case (step_retry i t c)
  then show ?thesis
    by (auto simp: continuable_def intro!: step_ok_move [OF wf] task_change_move(2) [OF wf])
next
  case (step_cancel i t reason v ws)
  then show ?thesis
    using step_ok_cancellation [OF wf] task_change_move(5) [OF wf] by blast
next
  case (step_interrupt i t reason v ws)
  then show ?thesis
    using step_ok_cancellation [OF wf] task_change_move(5) [OF wf] by blast
next
  case (step_parent i t p)
  then show ?thesis using step_parent_ok [OF wf] by simp
next
  case (step_add_dependency i t d)
  then show ?thesis using step_add_dependency_ok [OF wf] by simp
next
  case (step_remove_dependency i t d)
  then show ?thesis using step_remove_dependency_ok [OF wf] by simp
next
  case (step_supersession i t x)
  then show ?thesis using step_supersession_ok [OF wf] by simp
qed (auto intro!: step_ok_move [OF wf] task_change_move [OF wf])

end
