(* ===== verification/Machines.thy ===== *)
theory Machines
  imports Main
begin

text \<open>
  Transition systems: the reachable states, runs as explicit sequences of actions, and the
  interface of an inductive invariant. Components interpret \<open>inductive_invariant\<close> on their step
  relation; a sequence of steps then keeps whatever a single step keeps.
\<close>

inductive reach :: "('s \<Rightarrow> bool) \<Rightarrow> ('s \<Rightarrow> 'a \<Rightarrow> 's \<Rightarrow> bool) \<Rightarrow> 's \<Rightarrow> bool" for init step where
  reach_init: "init s \<Longrightarrow> reach init step s"
| reach_step: "reach init step s \<Longrightarrow> step s a s' \<Longrightarrow> reach init step s'"

inductive run :: "('s \<Rightarrow> 'a \<Rightarrow> 's \<Rightarrow> bool) \<Rightarrow> 's \<Rightarrow> 'a list \<Rightarrow> 's \<Rightarrow> bool" for step where
  run_Nil: "run step s [] s"
| run_Cons: "step s a s' \<Longrightarrow> run step s' as s'' \<Longrightarrow> run step s (a # as) s''"

inductive_simps run_Nil_simp [simp]: "run step s [] s'"
inductive_simps run_Cons_simp: "run step s (a # as) s'"

lemma run_append: "run step s (as @ bs) s'' \<longleftrightarrow> (\<exists>s'. run step s as s' \<and> run step s' bs s'')"
  by (induction as arbitrary: s) (auto simp: run_Cons_simp)

lemma reach_run: "run step s as s' \<Longrightarrow> reach init step s \<Longrightarrow> reach init step s'"
  by (induction rule: run.induct) (auto intro: reach_step)

text \<open>An invariant that holds initially and that every step keeps.\<close>

locale inductive_invariant =
  fixes init :: "'s \<Rightarrow> bool" and step :: "'s \<Rightarrow> 'a \<Rightarrow> 's \<Rightarrow> bool" and inv :: "'s \<Rightarrow> bool"
  assumes inv_init: "init s \<Longrightarrow> inv s"
    and inv_step: "inv s \<Longrightarrow> step s a s' \<Longrightarrow> inv s'"
begin

lemma reach_inv: "reach init step s \<Longrightarrow> inv s"
  by (induction rule: reach.induct) (auto intro: inv_init inv_step)

lemma run_inv: "run step s as s' \<Longrightarrow> inv s \<Longrightarrow> inv s'"
  by (induction rule: run.induct) (auto intro: inv_step)

text \<open>A reflexive and transitive relation that every step from a good state establishes.\<close>

lemma run_rel:
  assumes "run step s as s'" "inv s" "\<And>s. R s s"
    and "\<And>s a s'. inv s \<Longrightarrow> step s a s' \<Longrightarrow> R s s'" "\<And>s s' s''. R s s' \<Longrightarrow> R s' s'' \<Longrightarrow> R s s''"
  shows "R s s'"
  using assms(1,2)
proof (induction rule: run.induct)
  case (run_Cons s a s' as s'')
  then show ?case using assms(4,5) inv_step by blast
qed (rule assms(3))

end

text \<open>A simulation: seen abstractly, every step is a step of another machine, or none.\<close>

locale simulation = inductive_invariant init step inv
  for init :: "'s \<Rightarrow> bool" and step :: "'s \<Rightarrow> 'a \<Rightarrow> 's \<Rightarrow> bool" and inv :: "'s \<Rightarrow> bool" +
  fixes abstracted :: "'s \<Rightarrow> 'c" and abstract_step :: "'c \<Rightarrow> 'c \<Rightarrow> bool"
  assumes simulates: "inv s \<Longrightarrow> step s a s' \<Longrightarrow> abstracted s' = abstracted s \<or> abstract_step (abstracted s) (abstracted s')"
begin

lemma run_simulates: "run step s as s' \<Longrightarrow> inv s \<Longrightarrow> abstract_step\<^sup>*\<^sup>* (abstracted s) (abstracted s')"
  by (rule run_rel) (auto dest: simulates)

end

end
