(* ===== verification/Domain_Reach.thy ===== *)
theory Domain_Reach
  imports Domain_Machine Machines
begin

text \<open>
  Reachable snapshots of the Domain Core: the invariant, what a sequence of steps may do to a
  Task, and that work only ever starts on, and finishes with, completed dependencies.
\<close>

section \<open>Steps keep the invariant\<close>

lemma wf_register:
  assumes wf: "wf_snapshot nfc s" and "p \<noteq> []" "projectById s p = None"
  shows "wf_snapshot nfc (s\<lparr>s_projects := sort_key p_id (s_projects s @ [\<lparr>p_id = p, p_enabled = b\<rparr>])\<rparr>)"
proof -
  from assms(3) have "p \<notin> p_id ` set (s_projects s)" by (simp add: projects.lookup_None_iff)
  with assms(1,2) show ?thesis
    by (auto simp: wf_snapshot_in_def wf_references_def wf_project_def)
qed

lemma wf_same_project_ids:
  assumes wf: "wf_snapshot nfc s" and ids: "map p_id ps = map p_id (s_projects s)"
  shows "wf_snapshot nfc (s\<lparr>s_projects := ps\<rparr>)"
proof -
  have eq: "p_id ` set ps = p_id ` set (s_projects s)"
    using arg_cong [OF ids, of set] by simp
  have "[] \<notin> p_id ` set (s_projects s)"
    using wf by (auto simp: wf_snapshot_in_def wf_project_def)
  then have "\<forall>p\<in>set ps. wf_project p"
    unfolding wf_project_def by (metis eq imageI)
  with eq show ?thesis
    using wf ids by (simp add: wf_snapshot_in_def wf_references_def)
qed

lemma wf_enable:
  "wf_snapshot nfc s \<Longrightarrow> wf_snapshot nfc
    (s\<lparr>s_projects := map (\<lambda>c. if p_id c = p then c\<lparr>p_enabled := b\<rparr> else c) (s_projects s)\<rparr>)"
  by (rule wf_same_project_ids) simp_all

lemma wf_newTask:
  assumes "i \<noteq> []" "p \<noteq> []" "x \<noteq> Some []" "x \<noteq> Some i"
  shows "wf_task nfc (newTask i p b x)"
  using assms by (simp add: newTask_def wf_task_def wf_revision_def facts_of_state_def MAX_SAFE_INTEGER_def)

lemma wf_create:
  assumes wf: "wf_snapshot nfc s" and i: "i \<noteq> []" "taskById s i = None" "projectById s p \<noteq> None"
    and x: "\<And>y. x = Some y \<Longrightarrow> y \<in> ids (s_tasks s)"
  shows "wf_snapshot nfc (s\<lparr>s_tasks := sort_key t_id (s_tasks s @ [newTask i p b x])\<rparr>)"
proof -
  let ?n = "newTask i p b x" and ?ts = "s_tasks s @ [newTask i p b x]"
  have fresh: "i \<notin> ids (s_tasks s)" using i by (simp add: tasks.lookup_None_iff)
  have p: "p \<in> p_id ` set (s_projects s)"
    using i by (simp add: projects.lookup_None_iff)
  then have "p \<noteq> []" using wf by (auto simp: wf_snapshot_in_def wf_project_def)
  then have n: "wf_task nfc ?n"
    using i x fresh Nil_not_id [OF wf] by (intro wf_newTask) blast+
  have "wf_references CompleteMode None (s_projects s) ?ts t" if "t \<in> set ?ts" for t
  proof (cases "t = ?n")
    case True
    with p x show ?thesis by (auto simp: wf_references_def newTask_def)
  next
    case False
    with that wf have "wf_references CompleteMode None (s_projects s) (s_tasks s) t"
      by (simp add: wf_snapshot_in_def)
    then show ?thesis by (auto simp: wf_references_def)
  qed
  then have refs: "\<forall>t\<in>set (sort_key t_id ?ts). wf_references CompleteMode None (s_projects s) (sort_key t_id ?ts) t"
    using wf_references_cong [of "s_projects s" "s_projects s" "sort_key t_id ?ts" ?ts] by simp
  have rels: "parentRel (sort_key t_id ?ts) = parentRel (s_tasks s)" "depRel (sort_key t_id ?ts) = depRel (s_tasks s)"
    by (auto simp: parentRel_def depRel_def newTask_def)
  have "t_id ?n = i" by (simp add: newTask_def)
  then show ?thesis
    using wf n fresh refs by (auto simp: wf_snapshot_in_def rels)
qed

theorem domain_step_wf: "domain_step nfc s a s' \<Longrightarrow> wf_snapshot nfc s \<Longrightarrow> wf_snapshot nfc s'"
proof (induction rule: domain_step.induct)
  case (step_task a repl)
  then show ?case using task_step_ok by (auto simp: step_ok_def)
qed (auto intro!: wf_register wf_enable wf_create)

section \<open>What a step does to a Task\<close>

lemma taskById_putTasks:
  assumes "wf_snapshot nfc s" "step_ok nfc s repl"
  shows "taskById (putTasks s repl) i = (case map_of repl i of None \<Rightarrow> taskById s i | Some t' \<Rightarrow> Some t')"
proof -
  have repl: "t_id t' = k" "\<exists>t\<in>set (s_tasks s). t_id t = k" if "map_of repl k = Some t'" for k t'
    using map_of_SomeD [OF that] assms(2) live_wf [OF assms(1)] by (fastforce simp: step_ok_def task_change_def)+
  let ?f = "\<lambda>t. case map_of repl (t_id t) of None \<Rightarrow> t | Some t' \<Rightarrow> t'"
  have idf: "t_id (?f t) = t_id t" for t using repl(1) by (auto split: option.split)
  have "find (\<lambda>t. t_id t = i) (map ?f ts) = map_option ?f (find (\<lambda>t. t_id t = i) ts)" for ts
    by (induction ts) (simp_all add: idf del: option.case_eq_if)
  then have eq: "taskById (putTasks s repl) i = map_option ?f (taskById s i)"
    by (simp add: taskById_def putTasks_def replacedTasks_def)
  show ?thesis
  proof (cases "map_of repl i")
    case None
    then show ?thesis using eq tasks.lookup_SomeD [of s i] by (cases "taskById s i") auto
  next
    case (Some t')
    then have "taskById s i \<noteq> None" using repl(2) by (auto simp: tasks.lookup_None_iff)
    with Some eq tasks.lookup_SomeD [of s i] show ?thesis by auto
  qed
qed

lemma taskById_sort_snoc:
  assumes "wf_snapshot nfc s" "t_id n \<notin> ids (s_tasks s)"
  shows "taskById (s\<lparr>s_tasks := sort_key t_id (s_tasks s @ [n])\<rparr>) i = (if i = t_id n then Some n else taskById s i)"
proof (rule option_eq_via_Some)
  fix x
  have d: "distinct (map t_id (sort_key t_id (s_tasks s @ [n])))"
    using assms by (simp add: wf_snapshot_in_def)
  show "taskById (s\<lparr>s_tasks := sort_key t_id (s_tasks s @ [n])\<rparr>) i = Some x
    \<longleftrightarrow> (if i = t_id n then Some n else taskById s i) = Some x"
    using find_key_iff [OF d, of i x] tasks.lookup_iff [OF assms(1), of i x] assms(2)
    by (auto simp: taskById_def image_iff)
qed

theorem domain_step_task:
  assumes step: "domain_step nfc s a s'" and wf: "wf_snapshot nfc s" and i: "taskById s i = Some t"
  shows "\<exists>t'. taskById s' i = Some t' \<and> (t' = t \<or> task_change nfc t t')"
  using step
proof cases
  case (step_create j p x b)
  then have "t_id (newTask j p b x) \<notin> ids (s_tasks s)"
    by (simp add: newTask_def tasks.lookup_None_iff)
  with taskById_sort_snoc [OF wf this] i step_create show ?thesis
    by (auto simp: newTask_def)
next
  case (step_task repl)
  have ok: "step_ok nfc s repl" by (rule task_step_ok [OF step_task(2) wf])
  then have "task_change nfc t t'" if "map_of repl i = Some t'" for t'
    using map_of_SomeD [OF that] i by (fastforce simp: step_ok_def live_def)
  with i show ?thesis
    by (auto simp: step_task taskById_putTasks [OF wf ok] split: option.split)
qed (use i in \<open>auto simp: taskById_def\<close>)

section \<open>Reachable snapshots\<close>

definition emptySnapshot :: "snapshot \<Rightarrow> bool" where
  "emptySnapshot s \<longleftrightarrow> s = \<lparr>s_projects = [], s_tasks = []\<rparr>"

lemma wf_emptySnapshot: "emptySnapshot s \<Longrightarrow> wf_snapshot nfc s"
  by (simp add: emptySnapshot_def wf_snapshot_in_def parentRel_def depRel_def acyclic_def)

interpretation domain: inductive_invariant emptySnapshot "domain_step nfc" "wf_snapshot nfc" for nfc
  by unfold_locales (auto intro: wf_emptySnapshot domain_step_wf)

text \<open>
  How a Task evolves: it is never removed and never leaves its Project, its revision only grows
  and identifies its contents, and a terminal Task never changes again.
\<close>

definition evolves :: "snapshot \<Rightarrow> snapshot \<Rightarrow> bool" where
  "evolves s s' \<longleftrightarrow>
     (\<forall>i t. taskById s i = Some t \<longrightarrow>
        (\<exists>t'. taskById s' i = Some t' \<and> t_projectId t' = t_projectId t \<and> t_revision t \<le> t_revision t' \<and>
              (t_revision t' = t_revision t \<or> t_state t \<in> set TERMINAL_STATES \<longrightarrow> t' = t)))"

lemma evolves_refl: "evolves s s"
  by (auto simp: evolves_def)

lemma evolves_trans: "evolves s s' \<Longrightarrow> evolves s' s'' \<Longrightarrow> evolves s s''"
  unfolding evolves_def by (smt (verit) order.trans order.antisym)

lemma evolves_step: "wf_snapshot nfc s \<Longrightarrow> domain_step nfc s a s' \<Longrightarrow> evolves s s'"
  unfolding evolves_def
proof (intro allI impI)
  fix i t
  assume "wf_snapshot nfc s" "domain_step nfc s a s'" "taskById s i = Some t"
  from domain_step_task [OF this(2,1,3)] show "\<exists>t'. taskById s' i = Some t' \<and> t_projectId t' = t_projectId t
      \<and> t_revision t \<le> t_revision t' \<and> (t_revision t' = t_revision t \<or> t_state t \<in> set TERMINAL_STATES \<longrightarrow> t' = t)"
    by (auto simp: task_change_def)
qed

lemma run_evolves: "run (domain_step nfc) s as s' \<Longrightarrow> wf_snapshot nfc s \<Longrightarrow> evolves s s'"
  by (erule domain.run_rel) (auto intro: evolves_refl evolves_step evolves_trans)

section \<open>Work starts and ends with completed dependencies\<close>

definition deps_completed :: "snapshot \<Rightarrow> task \<Rightarrow> bool" where
  "deps_completed s t \<longleftrightarrow> (\<forall>d\<in>set (t_dependencyIds t). \<exists>u. taskById s d = Some u \<and> t_state u = Completed)"

definition work_ordered :: "snapshot \<Rightarrow> bool" where
  "work_ordered s \<longleftrightarrow> (\<forall>t\<in>set (s_tasks s). t_state t \<in> {Running, Completed} \<longrightarrow> deps_completed s t)"

lemma deps_completed_mono:
  assumes "evolves s s'" "deps_completed s t" "t_dependencyIds t' = t_dependencyIds t"
  shows "deps_completed s' t'"
  using assms unfolding deps_completed_def evolves_def TERMINAL_STATES_def
  by (metis list.set_intros(1))

lemma task_step_work:
  assumes "task_step nfc s a repl" and wf: "wf_snapshot nfc s" and "work_ordered s"
    and "(k, t') \<in> set repl" and "t_state t' \<in> {Running, Completed}"
  shows "\<exists>t. t_dependencyIds t' = t_dependencyIds t \<and> deps_completed s t"
proof -
  have ordered: "deps_completed s t" if "live s i t" "t_state t = Running" for i t
    using that live_wf(1) [OF wf that(1)] assms(3) by (auto simp: work_ordered_def)
  from assms(1) show ?thesis
  proof cases
    case (step_body i t b)
    with assms(4,5) ordered [of i t] show ?thesis
      by (auto simp: live_def TERMINAL_STATES_def)
  next
    case (step_supersession i t x)
    with assms(4,5) ordered [of i t] show ?thesis
      by (auto simp: live_def TERMINAL_STATES_def)
  next
    case (step_claim i t)
    with assms(4) show ?thesis by (auto simp: eligible_def deps_completed_def)
  next
    case (step_resume i t c)
    with assms(4) show ?thesis by (auto simp: continuable_def deps_completed_def)
  next
    case (step_retry i t c)
    with assms(4) show ?thesis by (auto simp: continuable_def deps_completed_def)
  next
    case (step_complete i t c)
    with assms(4) ordered [of i t] show ?thesis by auto
  qed (use assms(4,5) in \<open>auto simp: GRAPH_MUTABLE_STATES_def cancellation_def\<close>)
qed

lemma work_ordered_step:
  assumes wf: "wf_snapshot nfc s" and "work_ordered s" and step: "domain_step nfc s a s'"
  shows "work_ordered s'"
  unfolding work_ordered_def
proof (intro ballI impI)
  fix t' assume t': "t' \<in> set (s_tasks s')" "t_state t' \<in> {Running, Completed}"
  note ev = evolves_step [OF wf step]
  have old: "deps_completed s' t'" if "t' \<in> set (s_tasks s)"
    using that assms(2) t'(2) deps_completed_mono [OF ev] by (auto simp: work_ordered_def)
  from step show "deps_completed s' t'"
  proof cases
    case (step_create j p x b)
    then consider "t' \<in> set (s_tasks s)" | "t' = newTask j p b x" using t'(1) by auto
    then show ?thesis using t'(2) old by cases (auto simp: newTask_def)
  next
    case (step_task repl)
    have "t' \<in> set (replacedTasks s repl [])" using t'(1) step_task by (simp add: putTasks_def)
    then show ?thesis
    proof (cases rule: replacedTasks_cases)
      case 1
      then show ?thesis by (intro old)
    next
      case (2 k)
      with task_step_work [OF step_task(2) wf assms(2) map_of_SomeD t'(2)] deps_completed_mono [OF ev]
      show ?thesis by blast
    qed
  qed (use t' old in auto)
qed

interpretation work: inductive_invariant emptySnapshot "domain_step nfc"
  "\<lambda>s. wf_snapshot nfc s \<and> work_ordered s" for nfc
proof
  show "emptySnapshot s \<Longrightarrow> wf_snapshot nfc s \<and> work_ordered s" for s
    using wf_emptySnapshot by (auto simp: emptySnapshot_def work_ordered_def)
qed (auto intro: domain_step_wf work_ordered_step)

end
