(* ===== verification/Domain_Refine.thy ===== *)
theory Domain_Refine
  imports Domain_Reach
begin

text \<open>
  The exported operations implement the contract: whatever values an operation is given, if it
  succeeds then its snapshot parsed, the command names an action enabled there, and the result
  is exactly the snapshot, changed identifiers and events of that action's step.
\<close>

section \<open>Results of a step\<close>

definition step_event :: "domain_event \<Rightarrow> jsstr \<times> task \<Rightarrow> bool" where
  "step_event e p \<longleftrightarrow> ev_taskId e = fst p \<and> ev_revisionBefore e = Some (t_revision (snd p) - 1) \<and>
     ev_revisionAfter e = t_revision (snd p)"

lemma step_event_event [simp]:
  "step_event (event type k (Some n) m details) (k', t') \<longleftrightarrow> k' = k \<and> n = t_revision t' - 1 \<and> m = t_revision t'"
  by (auto simp: step_event_def event_def)

definition implements ::
  "(jsstr \<Rightarrow> jsstr) \<Rightarrow> snapshot \<Rightarrow> action \<Rightarrow> domain_mutation \<times> domain_event list \<Rightarrow> bool" where
  "implements nfc s a r \<longleftrightarrow>
     (\<exists>repl. task_step nfc s a repl \<and>
        fst r = \<lparr>m_snapshot = putTasks s repl, m_changedTaskIds = sort (map fst repl)\<rparr> \<and>
        list_all2 step_event (snd r) repl)"

lemma implements_step:
  "implements nfc s a r \<Longrightarrow> domain_step nfc s a (m_snapshot (fst r))"
  by (auto simp: implements_def intro: step_task)

lemma changeTask_step:
  assumes wf: "wf_snapshot nfc s" and step: "task_step nfc s a [(t_id t, nextCandidate t patch)]"
    and rev: "t_revision t \<noteq> MAX_SAFE_INTEGER" and id: "t_id (patch t) = t_id t"
  shows "changeTask nfc s t patch type details =
    Inr (\<lparr>m_snapshot = putTasks s [(t_id t, nextCandidate t patch)], m_changedTaskIds = [t_id t]\<rparr>,
         [event type (t_id t) (Some (t_revision t)) (t_revision t + 1) (details (nextCandidate t patch))])"
proof -
  have "wf_task nfc (nextCandidate t patch)" "wf_snapshot nfc (putTask s (nextCandidate t patch))"
    using task_step_ok [OF step wf] id by (auto simp: step_ok_def task_change_def)
  from changeTask_eq [OF rev refl this] show ?thesis using id by simp
qed

lemma changeTask_implements:
  assumes wf: "wf_snapshot nfc s" and ch: "changeTask nfc s t patch type details = Inr r"
    and step: "t_revision t \<noteq> MAX_SAFE_INTEGER \<Longrightarrow> task_step nfc s a [(t_id t, nextCandidate t patch)]"
    and id: "t_id (patch t) = t_id t"
  shows "implements nfc s a r"
proof -
  have rev: "t_revision t \<noteq> MAX_SAFE_INTEGER"
    using ch changeTask_exhausted [of t nfc s patch type details] by auto
  from changeTask_step [OF wf step [OF rev] rev id, of type details] ch step [OF rev] show ?thesis
    unfolding implements_def
    by (intro exI [of _ "[(t_id t, nextCandidate t patch)]"]) auto
qed

lemma requireMutableTask_Inr:
  "requireMutableTask s i = Inr t \<longleftrightarrow> taskById s i = Some t \<and> t_state t \<notin> set TERMINAL_STATES"
  by (auto simp: requireMutableTask_def split: option.splits)

lemma liveI:
  "taskById s i = Some t \<Longrightarrow> t_state t \<notin> set TERMINAL_STATES \<Longrightarrow> t_revision t \<noteq> MAX_SAFE_INTEGER \<Longrightarrow>
    live s i t"
  by (simp add: live_def)

lemma parseTaskCommand_Inr:
  "parseTaskCommand v keys = Inr c \<longleftrightarrow> readExactRecord v keys = Some c"
  by (simp add: parseTaskCommand_def err_simps)

lemma sameWaitingInput_iff: "sameWaitingInput wm w \<longleftrightarrow> wm_input wm = w"
  by (auto simp: sameWaitingInput_def)

lemma nextCandidate_waiting_edit:
  "t_state t = Waiting \<Longrightarrow>
    nextCandidate t (\<lambda>t. t\<lparr>t_waiting := Some \<lparr>wm_input = w, wm_waitingTaskRevision = n\<rparr>\<rparr>) = moveWaiting w t"
  by (cases t) (simp add: nextCandidate_def moveWaiting_def Let_def)

lemma case_waiting_Inr:
  "(case st of Waiting \<Rightarrow> (case w of None \<Rightarrow> Inl e | Some x \<Rightarrow> f x) | _ \<Rightarrow> Inl e) = Inr r
    \<longleftrightarrow> st = Waiting \<and> (\<exists>x. w = Some x \<and> f x = Inr r)"
  by (cases st; cases w) auto

lemmas op_simps = guardPublicResult_def err_simps parseTaskCommand_Inr requireMutableTask_Inr Let_def

section \<open>Body, waiting metadata and supersession\<close>

theorem updateTaskBody_implements:
  assumes "updateTaskBody nfc sv cv = Inr r"
  shows "\<exists>s c. parseSnapshot nfc sv CompleteMode None = Inr s \<and> readExactRecord cv [''taskId'', ''body''] = Some c \<and>
    implements nfc s (SetBody (strOf (fld c ''taskId'')) (strOf (fld c ''body''))) r"
proof -
  from assms obtain s c t where s: "parseSnapshot nfc sv CompleteMode None = Inr s"
    and c: "readExactRecord cv [''taskId'', ''body''] = Some c"
    and t: "taskById s (strOf (fld c ''taskId'')) = Some t" "t_state t \<notin> set TERMINAL_STATES"
    and body: "t_body t \<noteq> strOf (fld c ''body'')"
    and ch: "changeTask nfc s t (\<lambda>t. t\<lparr>t_body := strOf (fld c ''body'')\<rparr>) TaskBodyChanged (\<lambda>_. []) = Inr r"
    by (auto simp: updateTaskBody_def op_simps)
  note id = tasks.lookup_SomeD [OF t(1)]
  have "implements nfc s (SetBody (strOf (fld c ''taskId'')) (strOf (fld c ''body''))) r"
    using step_body [OF liveI [OF t]] body id
    by (intro changeTask_implements [OF parseSnapshot_wf [OF s] ch]) auto
  with s c show ?thesis by blast
qed

theorem updateTaskWaiting_implements:
  assumes "updateTaskWaiting nfc sv cv = Inr r"
  shows "\<exists>s c w. parseSnapshot nfc sv CompleteMode None = Inr s \<and>
    readExactRecord cv [''taskId'', ''waiting''] = Some c \<and>
    (\<exists>path. parseWaitingInput (fld c ''waiting'') path = Inr w) \<and>
    implements nfc s (SetWaiting (strOf (fld c ''taskId'')) w) r"
proof -
  let ?patch = "\<lambda>w n t. t\<lparr>t_waiting := Some \<lparr>wm_input = w, wm_waitingTaskRevision = n\<rparr>\<rparr>"
  let ?details = "\<lambda>changed. [(''waitingReason'', case t_waiting changed of None \<Rightarrow> DetailNull
                          | Some w \<Rightarrow> DetailStr (lit (waitingReasonName (w_reason (wm_input w))))),
                       (''requiredAction'', case t_waiting changed of None \<Rightarrow> DetailNull
                          | Some w \<Rightarrow> DetailStr (w_requiredAction (wm_input w)))]"
  from assms obtain s c t wm w where s: "parseSnapshot nfc sv CompleteMode None = Inr s"
    and c: "readExactRecord cv [''taskId'', ''waiting''] = Some c"
    and t: "taskById s (strOf (fld c ''taskId'')) = Some t" "t_state t \<notin> set TERMINAL_STATES"
      "t_state t = Waiting" "t_waiting t = Some wm"
    and w: "parseWaitingInput (fld c ''waiting'') (lit ''task:'' @ t_id t @ lit ''.waiting'') = Inr w"
      "wm_input wm \<noteq> w"
    and ch: "changeTask nfc s t (?patch w (t_revision t)) TaskWaitingChanged ?details = Inr r"
    by (auto simp: updateTaskWaiting_def op_simps sameWaitingInput_iff case_waiting_Inr)
  note id = tasks.lookup_SomeD [OF t(1)]
  have "implements nfc s (SetWaiting (strOf (fld c ''taskId'')) w) r"
    using step_waiting [OF liveI [OF t(1,2)] t(3,4) w(2)] parseWaitingInput_wf [OF w(1)] id
    by (intro changeTask_implements [OF parseSnapshot_wf [OF s] ch])
      (auto simp: nextCandidate_waiting_edit [OF t(3)])
  with s c w show ?thesis by blast
qed

theorem setTaskSupersession_implements:
  assumes "setTaskSupersession nfc sv cv = Inr r"
  shows "\<exists>s c. parseSnapshot nfc sv CompleteMode None = Inr s \<and>
    readExactRecord cv [''taskId'', ''supersedesTaskId''] = Some c \<and>
    implements nfc s (SetSupersession (strOf (fld c ''taskId'')) (nullable strOf (fld c ''supersedesTaskId''))) r"
proof -
  let ?details = "\<lambda>changed. [(''supersedesTaskId'', detailOfNullable (t_supersedesTaskId changed))]"
  from assms obtain s c t where s: "parseSnapshot nfc sv CompleteMode None = Inr s"
    and c: "readExactRecord cv [''taskId'', ''supersedesTaskId''] = Some c"
    and t: "taskById s (strOf (fld c ''taskId'')) = Some t" "t_state t \<notin> set TERMINAL_STATES"
    and x: "t_supersedesTaskId t \<noteq> nullable strOf (fld c ''supersedesTaskId'')"
      "nullable strOf (fld c ''supersedesTaskId'') \<noteq> Some (t_id t)"
      "\<not> (case nullable strOf (fld c ''supersedesTaskId'') of None \<Rightarrow> False | Some x \<Rightarrow> taskById s x = None)"
    and ch: "changeTask nfc s t (\<lambda>t. t\<lparr>t_supersedesTaskId := nullable strOf (fld c ''supersedesTaskId'')\<rparr>)
      TaskSupersessionChanged ?details = Inr r"
    by (auto simp: setTaskSupersession_def op_simps)
  note id = tasks.lookup_SomeD [OF t(1)]
  have "implements nfc s (SetSupersession (strOf (fld c ''taskId'')) (nullable strOf (fld c ''supersedesTaskId''))) r"
    using step_supersession [OF liveI [OF t] x(1)] x(2,3) id
    by (intro changeTask_implements [OF parseSnapshot_wf [OF s] ch]) (auto simp: tasks.lookup_None_iff split: option.splits)
  with s c show ?thesis by blast
qed

section \<open>Graph operations\<close>

lemma cursorReaches_iff:
  assumes "wf_snapshot nfc s" "taskById s q = Some u"
  shows "cursorReaches (s_tasks s) i (Some u) [] \<longleftrightarrow> (q, i) \<in> (parentRel (s_tasks s))\<^sup>*"
proof -
  note u = tasks.lookup_SomeD [OF assms(2)]
  have "distinct (map t_id (s_tasks s))" "acyclic (parentRel (s_tasks s))"
    using assms(1) by (simp_all add: wf_snapshot_in_def)
  moreover have "\<forall>u\<in>set (s_tasks s). \<forall>p. t_parentId u = Some p \<longrightarrow> p \<in> ids (s_tasks s)"
    using assms(1) unfolding wf_snapshot_in_def wf_references_def by (metis imageI)
  ultimately show ?thesis
    using cursorReaches_sound [of "s_tasks s" i "Some u" "[]" u] u
      cursorReaches_complete [of "s_tasks s" i "Some u" "[]" u]
    by (auto simp del: cursorReaches.simps)
qed

lemma dependencyReaches_iff:
  "wf_snapshot nfc s \<Longrightarrow> dependencyReaches s d i \<longleftrightarrow> (d, i) \<in> (depRel (s_tasks s))\<^sup>*"
  unfolding dependencyReaches_def by (rule reachLoop_iff) (simp add: wf_snapshot_in_def)

text \<open>The guard of \<open>setTaskParent\<close> passes exactly for an acceptable parent.\<close>

lemma parent_guard_iff:
  assumes "wf_snapshot nfc s"
  shows "(case p of None \<Rightarrow> Inr ()
     | Some parentId \<Rightarrow>
        (case taskById s parentId of None \<Rightarrow> Inl (e1 parentId)
         | Some parent \<Rightarrow> if t_projectId parent \<noteq> t_projectId t then Inl e2
             else if cursorReaches (s_tasks s) (t_id t) (Some parent) [] then Inl e3 else Inr ())) = Inr ()
    \<longleftrightarrow> (\<forall>q. p = Some q \<longrightarrow> (\<exists>u. taskById s q = Some u \<and> t_projectId u = t_projectId t \<and>
          (q, t_id t) \<notin> (parentRel (s_tasks s))\<^sup>*))"
  using cursorReaches_iff [OF assms] by (auto split: option.splits)

theorem setTaskParent_implements:
  assumes "setTaskParent nfc sv cv = Inr r"
  shows "\<exists>s c. parseSnapshot nfc sv CompleteMode None = Inr s \<and>
    readExactRecord cv [''taskId'', ''parentId''] = Some c \<and>
    implements nfc s (SetParent (strOf (fld c ''taskId'')) (nullable strOf (fld c ''parentId''))) r"
proof -
  let ?p = "\<lambda>c. nullable strOf (fld c ''parentId'')"
  let ?details = "\<lambda>changed. [(''parentId'', detailOfNullable (t_parentId changed))]"
  from assms obtain s where s: "parseSnapshot nfc sv CompleteMode None = Inr s"
    by (auto simp: setTaskParent_def op_simps)
  note wf = parseSnapshot_wf [OF s]
  from assms s obtain c t where c: "readExactRecord cv [''taskId'', ''parentId''] = Some c"
    and t: "taskById s (strOf (fld c ''taskId'')) = Some t" "t_state t \<notin> set TERMINAL_STATES"
      "t_state t \<in> set GRAPH_MUTABLE_STATES"
    and p: "t_parentId t \<noteq> ?p c" "\<forall>q. ?p c = Some q \<longrightarrow> (\<exists>u. taskById s q = Some u \<and>
      t_projectId u = t_projectId t \<and> (q, t_id t) \<notin> (parentRel (s_tasks s))\<^sup>*)"
    and ch: "changeTask nfc s t (\<lambda>t. t\<lparr>t_parentId := ?p c\<rparr>) TaskParentChanged ?details = Inr r"
    by (auto simp: setTaskParent_def op_simps parent_guard_iff [OF wf])
  note id = tasks.lookup_SomeD [OF t(1)]
  have "implements nfc s (SetParent (strOf (fld c ''taskId'')) (?p c)) r"
    using step_parent [OF liveI [OF t(1,2)] t(3) p(1)] p(2) id
    by (intro changeTask_implements [OF wf ch]) auto
  with s c show ?thesis by blast
qed

lemma dependencyCommand_Inr:
  "dependencyCommand v = Inr (i, d) \<Longrightarrow>
    \<exists>c. readExactRecord v [''taskId'', ''dependencyId''] = Some c \<and>
      i = strOf (fld c ''taskId'') \<and> d = strOf (fld c ''dependencyId'')"
  by (auto simp: dependencyCommand_def op_simps)

theorem addTaskDependency_implements:
  assumes "addTaskDependency nfc sv cv = Inr r"
  shows "\<exists>s i d. parseSnapshot nfc sv CompleteMode None = Inr s \<and> dependencyCommand cv = Inr (i, d) \<and>
    implements nfc s (AddDependency i d) r"
proof -
  from assms obtain s i d t where s: "parseSnapshot nfc sv CompleteMode None = Inr s"
    and c: "dependencyCommand cv = Inr (i, d)"
    and t: "taskById s i = Some t" "t_state t \<notin> set TERMINAL_STATES" "t_state t \<in> set GRAPH_MUTABLE_STATES"
    and d: "taskById s d \<noteq> None" "d \<notin> set (t_dependencyIds t)" "\<not> dependencyReaches s d (t_id t)"
    and ch: "changeTask nfc s t (\<lambda>u. u\<lparr>t_dependencyIds := sort (t_dependencyIds t @ [d])\<rparr>)
      TaskDependencyAdded (\<lambda>_. [(''dependencyId'', DetailStr d)]) = Inr r"
    by (auto simp: addTaskDependency_def op_simps)
  note id = tasks.lookup_SomeD [OF t(1)] and wf = parseSnapshot_wf [OF s]
  from d(1) have "d \<in> ids (s_tasks s)" by (simp add: tasks.lookup_None_iff)
  from step_add_dependency [OF liveI [OF t(1,2)] t(3) this d(2)]
  have "implements nfc s (AddDependency i d) r"
    using d(3) id by (intro changeTask_implements [OF wf ch])
      (auto simp: dependencyReaches_iff [OF wf] nextCandidate_def Let_def)
  with s c show ?thesis by blast
qed

theorem removeTaskDependency_implements:
  assumes "removeTaskDependency nfc sv cv = Inr r"
  shows "\<exists>s i d. parseSnapshot nfc sv CompleteMode None = Inr s \<and> dependencyCommand cv = Inr (i, d) \<and>
    implements nfc s (RemoveDependency i d) r"
proof -
  from assms obtain s i d t where s: "parseSnapshot nfc sv CompleteMode None = Inr s"
    and c: "dependencyCommand cv = Inr (i, d)"
    and t: "taskById s i = Some t" "t_state t \<notin> set TERMINAL_STATES" "t_state t \<in> set GRAPH_MUTABLE_STATES"
    and d: "d \<in> set (t_dependencyIds t)"
    and ch: "changeTask nfc s t (\<lambda>u. u\<lparr>t_dependencyIds := filter (\<lambda>x. x \<noteq> d) (t_dependencyIds t)\<rparr>)
      TaskDependencyRemoved (\<lambda>_. [(''dependencyId'', DetailStr d)]) = Inr r"
    by (auto simp: removeTaskDependency_def op_simps)
  note id = tasks.lookup_SomeD [OF t(1)] and wf = parseSnapshot_wf [OF s]
  from step_remove_dependency [OF liveI [OF t(1,2)] t(3) d]
  have "implements nfc s (RemoveDependency i d) r"
    using id by (intro changeTask_implements [OF wf ch]) (auto simp: nextCandidate_def Let_def)
  with s c show ?thesis by blast
qed

section \<open>Transitions\<close>

lemma waitingFromInput_Inr:
  assumes "waitingFromInput v n path = Inr wm" and "1 \<le> n" "n \<le> MAX_SAFE_INTEGER"
  shows "\<exists>w. wf_waiting_input w \<and> wm = \<lparr>wm_input = w, wm_waitingTaskRevision = n\<rparr>"
proof -
  from assms(1) obtain w where w: "parseWaitingInput v path = Inr w"
    and wm: "parseWaiting (waitingToJs \<lparr>wm_input = w, wm_waitingTaskRevision = n\<rparr>) path = Inr wm"
    by (auto simp: waitingFromInput_def err_simps)
  have "wf_waiting \<lparr>wm_input = w, wm_waitingTaskRevision = n\<rparr>"
    using parseWaitingInput_wf [OF w] assms(2,3) by (simp add: wf_waiting_def wf_revision_def)
  from parseWaiting_enc [OF this] wm parseWaitingInput_wf [OF w] show ?thesis by auto
qed

lemma next_revision_range:
  "wf_task nfc t \<Longrightarrow> t_revision t \<noteq> MAX_SAFE_INTEGER \<Longrightarrow>
    1 \<le> t_revision t + 1 \<and> t_revision t + 1 \<le> MAX_SAFE_INTEGER"
  using wf_task_revision [of nfc t] by auto

text \<open>The object spreads of the transitions are the moves of the contract.\<close>

lemma waiting_None_id: "t_waiting t = None \<Longrightarrow> t\<lparr>t_waiting := None\<rparr> = t"
  by (cases t) simp

lemma nextCandidate_moves:
  "t_waiting t = None \<Longrightarrow> nextCandidate t (\<lambda>t. t\<lparr>t_state := st\<rparr>) = moveTo st t"
  "nextCandidate t (\<lambda>t. t\<lparr>t_waiting := None, t_state := st\<rparr>) = moveTo st t"
  "nextCandidate t (\<lambda>t. t\<lparr>t_waiting := Some \<lparr>wm_input = w, wm_waitingTaskRevision = t_revision u + 1\<rparr>,
      t_state := Waiting\<rparr>) = moveWaiting w t"
  "t_waiting t = None \<Longrightarrow> nextCandidate t (\<lambda>u. u\<lparr>t_completion := Some \<lparr>c_decisionId = c, c_acceptedTaskRevision = t_revision t\<rparr>,
      t_state := Completed\<rparr>) = moveCompleted c t"
  by (cases t; simp add: nextCandidate_def move_defs Let_def)+

lemma applySimpleTransition_implements:
  assumes wf: "wf_snapshot nfc s" and ch: "applySimpleTransition nfc s t st patch e = Inr r"
    and id: "t_id (patch t) = t_id t" "t_id t = i"
    and step: "t_revision t \<noteq> MAX_SAFE_INTEGER \<Longrightarrow>
      task_step nfc s a [(i, nextCandidate t (\<lambda>t. (patch t)\<lparr>t_state := st\<rparr>))]"
  shows "implements nfc s a r"
  using changeTask_implements [OF wf ch [unfolded applySimpleTransition_def], of a] step id by simp

lemma taskById_wf:
  assumes "wf_snapshot nfc s" "taskById s i = Some t"
  shows "wf_task nfc t" "t_id t = i"
  using tasks.lookup_SomeD [OF assms(2)] assms(1) by (auto simp: wf_snapshot_in_def)

lemma taskById_waiting_None:
  assumes "wf_snapshot nfc s" "taskById s i = Some t" "t_state t \<noteq> Waiting" "t_state t \<notin> set TERMINAL_STATES"
  shows "t_waiting t = None"
  using wf_task_live_facts(3) [OF taskById_wf(1) [OF assms(1,2)] assms(4,3)] .

lemma markReady_implements:
  assumes wf: "wf_snapshot nfc s" and t: "taskById s i = Some t" "t_state t = Idea"
    and "markReady nfc s t v = Inr r"
  shows "implements nfc s (Transition i Ready MarkReady) r"
proof -
  have live: "t_state t \<notin> set TERMINAL_STATES" using t by (simp add: TERMINAL_STATES_def)
  from assms(4) have "projectEnabled s t" "\<not> hasCancelledDependency s t"
    and ch: "applySimpleTransition nfc s t Ready (\<lambda>t. t) MarkReady = Inr r"
    by (auto simp: markReady_def op_simps projectEnabled_def split: option.splits)
  with step_ready [OF liveI [OF t(1) live] t(2)] show ?thesis
    using nextCandidate_moves(1) [OF taskById_waiting_None [OF wf t(1)]] live t(2) taskById_wf(2) [OF wf t(1)]
    by (intro applySimpleTransition_implements [OF wf ch]) auto
qed

lemma claimAccepted_implements:
  assumes wf: "wf_snapshot nfc s" and t: "taskById s i = Some t"
    and "claimAccepted nfc s t v = Inr r"
  shows "implements nfc s (Transition i Running ClaimAccepted) r"
proof -
  from assms(3) have el: "eligible s t"
    and ch: "applySimpleTransition nfc s t Running (\<lambda>t. t) ClaimAccepted = Inr r"
    by (auto simp: claimAccepted_def op_simps eligibilityReasons_Nil_iff)
  have live: "t_state t \<notin> set TERMINAL_STATES" "t_state t \<noteq> Waiting"
    using el by (simp_all add: TERMINAL_STATES_def eligible_def)
  from step_claim [OF liveI [OF t live(1)] el] show ?thesis
    using nextCandidate_moves(1) [OF taskById_waiting_None [OF wf t live(2,1)]] taskById_wf(2) [OF wf t]
    by (intro applySimpleTransition_implements [OF wf ch]) auto
qed

lemma executionWait_implements:
  assumes wf: "wf_snapshot nfc s" and t: "taskById s i = Some t" "t_state t = Running"
    and "executionWait nfc s t v = Inr r"
  shows "implements nfc s (Transition i Waiting ExecutionWait) r"
proof -
  have live: "t_state t \<notin> set TERMINAL_STATES" using t by (simp add: TERMINAL_STATES_def)
  from assms(4) obtain wi path wm where rev: "t_revision t \<noteq> MAX_SAFE_INTEGER"
    and wm: "waitingFromInput wi (t_revision t + 1) path = Inr wm"
    and ch: "applySimpleTransition nfc s t Waiting (\<lambda>t. t\<lparr>t_waiting := Some wm\<rparr>) ExecutionWait = Inr r"
    by (auto simp: executionWait_def op_simps)
  from waitingFromInput_Inr [OF wm] next_revision_range [OF taskById_wf(1) [OF wf t(1)] rev]
  obtain w where w: "wf_waiting_input w" "wm = \<lparr>wm_input = w, wm_waitingTaskRevision = t_revision t + 1\<rparr>" by auto
  from step_wait [OF liveI [OF t(1) live rev] t(2) w(1)] show ?thesis
    using taskById_wf(2) [OF wf t(1)] w(2)
    by (intro applySimpleTransition_implements [OF wf ch]) (auto simp: nextCandidate_moves)
qed

lemma dependencyCancelled_implements:
  assumes wf: "wf_snapshot nfc s" and t: "taskById s i = Some t" "t_state t = Ready"
    and "dependencyCancelled nfc s t v = Inr r"
  shows "implements nfc s (Transition i Waiting DependencyCancelled) r"
proof -
  have live: "t_state t \<notin> set TERMINAL_STATES" using t by (simp add: TERMINAL_STATES_def)
  from assms(4) obtain wi path wm where rev: "t_revision t \<noteq> MAX_SAFE_INTEGER"
    and dep: "hasCancelledDependency s t" "w_reason (wm_input wm) = DependencyCancelledReason"
    and wm: "waitingFromInput wi (t_revision t + 1) path = Inr wm"
    and ch: "applySimpleTransition nfc s t Waiting (\<lambda>t. t\<lparr>t_waiting := Some wm\<rparr>) DependencyCancelled = Inr r"
    by (auto simp: dependencyCancelled_def op_simps)
  from waitingFromInput_Inr [OF wm] next_revision_range [OF taskById_wf(1) [OF wf t(1)] rev]
  obtain w where w: "wf_waiting_input w" "wm = \<lparr>wm_input = w, wm_waitingTaskRevision = t_revision t + 1\<rparr>" by auto
  from step_dependency_cancelled [OF liveI [OF t(1) live rev] t(2) dep(1) w(1)] show ?thesis
    using taskById_wf(2) [OF wf t(1)] w(2) dep(2)
    by (intro applySimpleTransition_implements [OF wf ch]) (auto simp: nextCandidate_moves)
qed

lemma completionAccepted_implements:
  assumes wf: "wf_snapshot nfc s" and t: "taskById s i = Some t" "t_state t = Running"
    and "completionAccepted nfc s t v = Inr r"
  shows "implements nfc s (Transition i Completed CompletionAccepted) r"
proof -
  have live: "t_state t \<notin> set TERMINAL_STATES" "t_state t \<noteq> Waiting" using t by (simp_all add: TERMINAL_STATES_def)
  from assms(4) obtain c dv where c: "parseCompletionDecision dv t = Inr c"
    and ch: "applySimpleTransition nfc s t Completed
      (\<lambda>u. u\<lparr>t_completion := Some \<lparr>c_decisionId = c, c_acceptedTaskRevision = t_revision t\<rparr>\<rparr>) CompletionAccepted = Inr r"
    by (auto simp: completionAccepted_def op_simps)
  from c have "c \<noteq> []" by (auto simp: parseCompletionDecision_def err_simps split: option.splits)
  from step_complete [OF liveI [OF t(1) live(1)] t(2) this] show ?thesis
    using nextCandidate_moves(4) [OF taskById_waiting_None [OF wf t(1) live(2,1)]] taskById_wf(2) [OF wf t(1)]
    by (intro applySimpleTransition_implements [OF wf ch]) auto
qed

lemma continuationAccepted_implements:
  assumes wf: "wf_snapshot nfc s" and t: "taskById s i = Some t" and e: "e = ResumeAccepted \<or> e = RetryAccepted"
    and "continuationAccepted nfc s t e v = Inr r"
  shows "implements nfc s (Transition i Running e) r"
proof -
  from assms(4) obtain c where kind: "cc_kind c = (if e = ResumeAccepted then ResumeKind else RetryKind)"
    and c: "continuable s t c"
    and ch: "applySimpleTransition nfc s t Running (\<lambda>t. t\<lparr>t_waiting := None\<rparr>) e = Inr r"
    by (auto simp: continuationAccepted_def op_simps continuationReasons_Nil_iff split: if_splits)
  have live: "t_state t \<notin> set TERMINAL_STATES" using c by (auto simp: TERMINAL_STATES_def continuable_def)
  have "task_step nfc s (Transition i Running e) [(i, moveTo Running t)]" if "t_revision t \<noteq> MAX_SAFE_INTEGER"
    using step_resume [OF liveI [OF t live that] c] step_retry [OF liveI [OF t live that] c] e kind
    by (auto split: if_splits)
  then show ?thesis
    using taskById_wf(2) [OF wf t]
    by (intro applySimpleTransition_implements [OF wf ch]) (auto simp: nextCandidate_moves)
qed

end
