(* ===== verification/Domain_Cancel.thy ===== *)
theory Domain_Cancel
  imports Domain_Refine
begin

text \<open>
  Cancellation: the loop over the ready direct dependents and the two events that run it, and
  then \<open>transitionTask\<close> as a whole.
\<close>

section \<open>Parsing the waiting inputs of the dependents\<close>

lemma parseDependentEntries_wf:
  "parseDependentEntries n vs = Inr es \<Longrightarrow> \<forall>(k, w)\<in>set es. k \<noteq> [] \<and> wf_waiting_input w"
proof (induction n vs arbitrary: es rule: parseDependentEntries.induct)
  case (2 n v vs)
  from 2(2) obtain item w es' where "isIdentifier (fld item ''taskId'')"
    and w: "parseWaitingInput (fld item ''waiting'') (lit (''dependentWaiting['' @ show_nat n @ '']'') @ lit ''.waiting'') = Inr w"
    and es: "parseDependentEntries (Suc n) vs = Inr es'" "es = (strOf (fld item ''taskId''), w) # es'"
    and item: "readExactRecord v [''taskId'', ''waiting''] = Some item"
    by (auto simp: err_simps Let_def split: option.splits)
  then show ?case
    using 2(1) [OF refl item _ w, of es'] parseWaitingInput_wf [OF w] by auto
qed simp

lemma parseDependentWaiting_wf:
  "parseDependentWaiting v = Inr es \<Longrightarrow> \<forall>(k, w)\<in>set es. wf_waiting_input w"
  by (auto simp: parseDependentWaiting_def err_simps Let_def dest!: parseDependentEntries_wf split: option.splits)

section \<open>The loop\<close>

lemma update_fresh: "k \<notin> fst ` set al \<Longrightarrow> AList.update k v al = al @ [(k, v)]"
  by (induction al) auto

definition waited :: "(task \<times> dependent_waiting) list \<Rightarrow> (jsstr \<times> task) list" where
  "waited ps = map (\<lambda>(d, k, w). (t_id d, moveWaiting w d)) ps"

lemma waitDependent_step:
  assumes d: "wf_task nfc d" "t_state d = Ready" "wf_waiting_input w" and rev: "t_revision d \<noteq> MAX_SAFE_INTEGER"
  shows "waitingFromInput (waitingInputToJs w) (t_revision d + 1) path =
      Inr \<lparr>wm_input = w, wm_waitingTaskRevision = t_revision d + 1\<rparr>"
    and "nextTask nfc d (\<lambda>t. t\<lparr>t_state := Waiting,
      t_waiting := Some \<lparr>wm_input = w, wm_waitingTaskRevision = t_revision d + 1\<rparr>\<rparr>) = Inr (moveWaiting w d)"
proof -
  let ?wm = "\<lparr>wm_input = w, wm_waitingTaskRevision = t_revision d + 1\<rparr>"
  have live: "t_state d \<notin> set TERMINAL_STATES" using d by (simp add: TERMINAL_STATES_def)
  show "waitingFromInput (waitingInputToJs w) (t_revision d + 1) path = Inr ?wm"
    using d rev next_revision_range [of nfc d]
    by (simp add: waitingFromInput_def parseWaitingInput_enc parseWaiting_enc wf_waiting_def wf_revision_def)
  show "nextTask nfc d (\<lambda>t. t\<lparr>t_state := Waiting, t_waiting := Some ?wm\<rparr>) = Inr (moveWaiting w d)"
    using nextTask_eq [of nfc d "\<lambda>t. t\<lparr>t_state := Waiting, t_waiting := Some ?wm\<rparr>"] rev
      wf_moves(2) [of nfc d w] d live by (simp add: moveWaiting_def nextCandidate_def Let_def)
qed

lemma waitDependents_Inr:
  assumes "waitDependents nfc ps repl evs = Inr (repl', evs')"
    and "\<forall>p\<in>set ps. wf_task nfc (fst p) \<and> t_state (fst p) = Ready \<and> wf_waiting_input (snd (snd p))"
    and "distinct (map (t_id \<circ> fst) ps)" and "\<forall>p\<in>set ps. t_id (fst p) \<notin> fst ` set repl"
  shows "repl' = repl @ waited ps \<and> (\<exists>es. evs' = evs @ es \<and> list_all2 step_event es (waited ps)) \<and>
    (\<forall>(d, k, w)\<in>set ps. t_revision d \<noteq> MAX_SAFE_INTEGER \<and> w_reason w = DependencyCancelledReason)"
  using assms
proof (induction ps arbitrary: repl evs)
  case (Cons p ps)
  obtain d k w where p: "p = (d, k, w)" by (cases p) auto
  have d: "wf_task nfc d" "t_state d = Ready" "wf_waiting_input w" using Cons.prems(2) p by auto
  let ?e = "event TaskTransitioned (t_id d) (Some (t_revision d)) (t_revision d + 1)
              (transitionDetails DependencyCancelled Ready Waiting)"
  from Cons.prems(1) p have rev: "t_revision d \<noteq> MAX_SAFE_INTEGER" "w_reason w = DependencyCancelledReason"
    by (auto split: if_splits)
  have rest: "waitDependents nfc ps (repl @ [(t_id d, moveWaiting w d)]) (evs @ [?e]) = Inr (repl', evs')"
    using waitDependent_step [OF d rev(1)] Cons.prems(1,4) p rev by (simp add: update_fresh)
  have fresh: "\<forall>q\<in>set ps. t_id (fst q) \<notin> fst ` set (repl @ [(t_id d, moveWaiting w d)])"
    using Cons.prems(3,4) p by (force simp: image_iff)
  obtain es where "repl' = (repl @ [(t_id d, moveWaiting w d)]) @ waited ps" "evs' = (evs @ [?e]) @ es"
    "list_all2 step_event es (waited ps)"
    "\<forall>(d, k, w)\<in>set ps. t_revision d \<noteq> MAX_SAFE_INTEGER \<and> w_reason w = DependencyCancelledReason"
    using Cons.IH [OF rest _ _ fresh] Cons.prems(2,3) by auto
  then show ?case
    using rev p by (auto simp: waited_def intro!: exI [of _ "?e # es"])
qed (simp add: waited_def)

lemma waitDependents_total:
  assumes "\<forall>p\<in>set ps. wf_task nfc (fst p) \<and> t_state (fst p) = Ready \<and> wf_waiting_input (snd (snd p)) \<and>
      t_revision (fst p) \<noteq> MAX_SAFE_INTEGER \<and> w_reason (snd (snd p)) = DependencyCancelledReason"
    and "distinct (map (t_id \<circ> fst) ps)" and "\<forall>p\<in>set ps. t_id (fst p) \<notin> fst ` set repl"
  shows "\<exists>evs'. waitDependents nfc ps repl evs = Inr (repl @ waited ps, evs')"
  using assms
proof (induction ps arbitrary: repl evs)
  case (Cons p ps)
  obtain d k w where p: "p = (d, k, w)" by (cases p) auto
  have d: "wf_task nfc d" "t_state d = Ready" "wf_waiting_input w" "t_revision d \<noteq> MAX_SAFE_INTEGER"
    "w_reason w = DependencyCancelledReason" using Cons.prems(1) p by auto
  have live: "t_state d \<notin> set TERMINAL_STATES" using d by (simp add: TERMINAL_STATES_def)
  have "\<forall>q\<in>set ps. t_id (fst q) \<notin> fst ` set (repl @ [(t_id d, moveWaiting w d)])"
    using Cons.prems(2,3) p by (force simp: image_iff)
  then have "\<exists>evs'. waitDependents nfc ps (repl @ [(t_id d, moveWaiting w d)]) e =
      Inr ((repl @ [(t_id d, moveWaiting w d)]) @ waited ps, evs')" for e
    using Cons.IH [of "repl @ [(t_id d, moveWaiting w d)]" e] Cons.prems(1,2) by auto
  then show ?case
    using waitDependent_step [OF d(1,2,3,4)] Cons.prems(3) p d by (simp add: update_fresh waited_def)
qed (simp add: waited_def)

lemma waited_zip:
  assumes "map t_id ds = map fst es" "distinct (map t_id ds)"
  shows "waited (zip ds es) = map (\<lambda>d. (t_id d, moveWaiting (the (map_of es (t_id d))) d)) ds"
proof -
  have len: "length ds = length es" using arg_cong [OF assms(1), of length] by simp
  have "map_of es (t_id (ds ! j)) = Some (snd (es ! j))" if "j < length ds" for j
  proof (rule map_of_is_SomeI)
    show "distinct (map fst es)" using assms by simp
    have "t_id (ds ! j) = fst (es ! j)" using assms(1) that len by (metis nth_map)
    then show "(t_id (ds ! j), snd (es ! j)) \<in> set es" using that len by simp
  qed
  then show ?thesis
    using len by (intro nth_equalityI) (auto simp: waited_def split: prod.split)
qed

section \<open>Cancelling with the direct dependents\<close>

lemma zip_affected:
  assumes "map t_id (affectedDependents s i) = map fst es" "(d, k, w) \<in> set (zip (affectedDependents s i) es)"
  shows "d \<in> set (affectedDependents s i)" "(k, w) \<in> set es" "k = t_id d"
proof -
  from assms(2) show "d \<in> set (affectedDependents s i)" "(k, w) \<in> set es"
    by (auto dest: set_zip_leftD set_zip_rightD)
  from assms(2) obtain j where "j < length (affectedDependents s i)" "j < length es"
    "d = affectedDependents s i ! j" "(k, w) = es ! j" by (auto simp: set_zip)
  then show "k = t_id d" by (metis assms(1) fst_conv nth_map)
qed

lemma dependents_ready_entries:
  assumes wf: "wf_snapshot nfc s" and ids: "map t_id (affectedDependents s (t_id t)) = map fst es"
    and es: "\<forall>(k, w)\<in>set es. wf_waiting_input w"
    and ok: "\<forall>(d, k, w)\<in>set (zip (affectedDependents s (t_id t)) es).
      t_revision d \<noteq> MAX_SAFE_INTEGER \<and> w_reason w = DependencyCancelledReason"
  shows "dependents_ready s t (\<lambda>k. the (map_of es k))"
  unfolding dependents_ready_def
proof (intro ballI)
  let ?A = "affectedDependents s (t_id t)"
  fix d assume "d \<in> set ?A"
  then obtain j where j: "j < length ?A" "d = ?A ! j" by (auto simp: in_set_conv_nth)
  then have in_zip: "(d, es ! j) \<in> set (zip ?A es)"
    using arg_cong [OF ids, of length] by (auto simp: set_zip)
  obtain k w where kw: "es ! j = (k, w)" by (cases "es ! j")
  from zip_affected [OF ids in_zip [unfolded kw]] have k: "(k, w) \<in> set es" "k = t_id d" by auto
  then have "map_of es (t_id d) = Some w"
    using ids distinct_affected [OF wf, of "t_id t"] by (simp add: map_of_is_SomeI)
  with ok in_zip kw es k show "t_revision d \<noteq> MAX_SAFE_INTEGER \<and> wf_waiting_input (the (map_of es (t_id d))) \<and>
      w_reason (the (map_of es (t_id d))) = DependencyCancelledReason" by auto
qed

lemma cancelWithDirectDependents_Inr:
  assumes wf: "wf_snapshot nfc s" and t: "taskById s i = Some t" "t_state t \<notin> set TERMINAL_STATES"
    and x: "isCanonicalCancellationReason nfc (JStr reason)" "v \<noteq> Some []"
    and es: "\<forall>(k, w)\<in>set es. wf_waiting_input w"
    and res: "cancelWithDirectDependents nfc s t
      \<lparr>x_event = e, x_reason = reason, x_verificationId = v, x_acceptedTaskRevision = t_revision t\<rparr> es ev = Inr r"
  shows "\<exists>ws. live s i t \<and> dependents_ready s t ws \<and>
    fst r = \<lparr>m_snapshot = putTasks s (cancellation s t (moveCancelled e reason v t) ws),
             m_changedTaskIds = sort (map fst (cancellation s t (moveCancelled e reason v t) ws))\<rparr> \<and>
    list_all2 step_event (snd r) (cancellation s t (moveCancelled e reason v t) ws)"
proof -
  let ?x = "\<lparr>x_event = e, x_reason = reason, x_verificationId = v, x_acceptedTaskRevision = t_revision t\<rparr>"
  let ?A = "affectedDependents s i" and ?t' = "moveCancelled e reason v t"
  define ws where "ws k = the (map_of es k)" for k
  note task = taskById_wf [OF wf t(1)]
  have rev: "t_revision t \<noteq> MAX_SAFE_INTEGER" and ids: "map t_id ?A = map fst es"
    using res task(2) by (auto simp: cancelWithDirectDependents_def nextTask_exhausted Let_def err_simps)
  have live: "live s i t" by (rule liveI [OF t rev])
  have "nextTask nfc t (\<lambda>t. t\<lparr>t_state := Cancelled, t_waiting := None, t_completion := None,
      t_cancellation := Some ?x\<rparr>) = Inr ?t'"
    using nextTask_eq [of nfc t "\<lambda>t. t\<lparr>t_state := Cancelled, t_waiting := None, t_completion := None,
      t_cancellation := Some ?x\<rparr>"] wf_moves(4) [OF task(1) t(2) rev x, of e] rev
    by (simp add: moveCancelled_def nextCandidate_def Let_def)
  with res obtain repl evs n where
    loop: "waitDependents nfc (zip ?A es) [(i, ?t')] [event TaskTransitioned i (Some (t_revision t))
        (t_revision t + 1) (transitionDetails ev (t_state t) Cancelled)] = Inr (repl, evs)"
    and n: "replaceTasks nfc s repl [] = Inr n" and r: "r = (\<lparr>m_snapshot = n, m_changedTaskIds = sort (map fst repl)\<rparr>, evs)"
    using task(2) by (auto simp: cancelWithDirectDependents_def Let_def err_simps mutation_def success_def)
  have A: "wf_task nfc d" "t_state d = Ready" if "d \<in> set ?A" for d
    using that wf by (auto simp: affectedDependents_def wf_snapshot_in_def)
  have zip: "\<forall>p\<in>set (zip ?A es). wf_task nfc (fst p) \<and> t_state (fst p) = Ready \<and> wf_waiting_input (snd (snd p))"
    using zip_affected [OF ids] A es by fastforce
  have dist: "distinct (map (t_id \<circ> fst) (zip ?A es))"
    using distinct_affected [OF wf, of i] arg_cong [OF ids, of length]
    by (metis length_map map_fst_zip map_map)
  have fresh: "\<forall>p\<in>set (zip ?A es). t_id (fst p) \<notin> fst ` set [(i, ?t')]"
    by (auto dest!: set_zip_leftD dest: affected_not_self [OF wf])
  have repl: "repl = cancellation s t ?t' ws"
    and ev: "list_all2 step_event evs (cancellation s t ?t' ws)"
    and ok: "\<forall>(d, k, w)\<in>set (zip ?A es). t_revision d \<noteq> MAX_SAFE_INTEGER \<and> w_reason w = DependencyCancelledReason"
    using waitDependents_Inr [OF loop zip dist fresh] waited_zip [OF ids distinct_affected [OF wf]] task(2)
    by (auto simp: cancellation_def ws_def)
  have ready: "dependents_ready s t ws"
    unfolding ws_def using dependents_ready_entries [OF wf] ids es ok task(2) by simp
  have "n = putTasks s repl"
    using n replaceTasks_eq step_ok_cancellation [OF wf live ready]
      task_change_move(5) [OF wf live x, of e] repl by (auto simp: step_ok_def)
  then show ?thesis using ready live repl ev r by auto
qed

theorem cancelWithDirectDependents_total:
  assumes wf: "wf_snapshot nfc s" and live: "live s i t"
    and x: "isCanonicalCancellationReason nfc (JStr reason)" "v \<noteq> Some []"
    and ids: "map t_id (affectedDependents s i) = map fst es"
    and es: "\<forall>p\<in>set es. wf_waiting_input (snd p) \<and> w_reason (snd p) = DependencyCancelledReason"
    and revs: "\<forall>d\<in>set (affectedDependents s i). t_revision d \<noteq> MAX_SAFE_INTEGER"
  shows "\<exists>r. cancelWithDirectDependents nfc s t
      \<lparr>x_event = e, x_reason = reason, x_verificationId = v, x_acceptedTaskRevision = t_revision t\<rparr> es ev = Inr r"
proof -
  let ?A = "affectedDependents s i" and ?t' = "moveCancelled e reason v t"
  note t = live_wf [OF wf live]
  have t': "t_state t \<notin> set TERMINAL_STATES" "t_revision t \<noteq> MAX_SAFE_INTEGER" using live by (simp_all add: live_def)
  let ?patch = "\<lambda>t'. t'\<lparr>t_state := Cancelled, t_waiting := None, t_completion := None, t_cancellation :=
    Some \<lparr>x_event = e, x_reason = reason, x_verificationId = v, x_acceptedTaskRevision = t_revision t\<rparr>\<rparr>"
  have nt: "nextTask nfc t ?patch = Inr ?t'"
    using nextTask_eq [of nfc t ?patch] wf_moves(4) [OF t(3) t' x, of e] t'(2)
    by (simp add: moveCancelled_def nextCandidate_def Let_def)
  have A: "wf_task nfc d" "t_state d = Ready" if "d \<in> set ?A" for d
    using that wf by (auto simp: affectedDependents_def wf_snapshot_in_def)
  have zip: "\<forall>p\<in>set (zip ?A es). wf_task nfc (fst p) \<and> t_state (fst p) = Ready \<and> wf_waiting_input (snd (snd p)) \<and>
      t_revision (fst p) \<noteq> MAX_SAFE_INTEGER \<and> w_reason (snd (snd p)) = DependencyCancelledReason"
    using A es revs by (fastforce dest: set_zip_leftD set_zip_rightD)
  have dist: "distinct (map (t_id \<circ> fst) (zip ?A es))"
    using distinct_affected [OF wf, of i] arg_cong [OF ids, of length]
    by (metis length_map map_fst_zip map_map)
  have fresh: "\<forall>p\<in>set (zip ?A es). t_id (fst p) \<notin> fst ` set [(i, ?t')]"
    by (auto dest!: set_zip_leftD dest: affected_not_self [OF wf])
  from waitDependents_total [OF zip dist fresh] obtain evs where
    loop: "waitDependents nfc (zip ?A es) [(i, ?t')] [event TaskTransitioned i (Some (t_revision t))
        (t_revision t + 1) (transitionDetails ev (t_state t) Cancelled)] = Inr ([(i, ?t')] @ waited (zip ?A es), evs)"
    by blast
  define ws where "ws k = the (map_of es k)" for k
  have repl: "[(i, ?t')] @ waited (zip ?A es) = cancellation s t ?t' ws"
    using waited_zip [OF ids distinct_affected [OF wf]] t(2) by (simp add: cancellation_def ws_def)
  have "dependents_ready s t ws"
    unfolding ws_def by (rule dependents_ready_entries [OF wf]) (use ids es zip t(2) in \<open>auto simp: case_prod_beta\<close>)
  then have "replaceTasks nfc s ([(i, ?t')] @ waited (zip ?A es)) [] = Inr (putTasks s (cancellation s t ?t' ws))"
    unfolding repl using replaceTasks_eq step_ok_cancellation [OF wf live]
      task_change_move(5) [OF wf live x, of e] by (auto simp: step_ok_def)
  moreover have "length ?A = length es" using arg_cong [OF ids, of length] by (simp only: length_map)
  ultimately show ?thesis
    using nt loop ids t(2)
    by (simp add: cancelWithDirectDependents_def Let_def mutation_def success_def)
qed

section \<open>The two cancelling events\<close>

lemma cancelVerification_Inr:
  assumes "cancelVerification t dv = Inr v" and "t_state t \<noteq> Waiting \<Longrightarrow> t_waiting t = None"
  shows "v = None \<longleftrightarrow> (\<forall>w. t_waiting t = Some w \<longrightarrow> w_executionId (wm_input w) = None)" "v \<noteq> Some []"
proof -
  have receipt: "xd_receiptId d \<noteq> []" if "parseExecutionDisposition dv t = Inr d" for d
    using that by (auto simp: parseExecutionDisposition_def err_simps split: option.splits)
  show "v = None \<longleftrightarrow> (\<forall>w. t_waiting t = Some w \<longrightarrow> w_executionId (wm_input w) = None)"
    using assms by (cases "t_waiting t") (auto simp: cancelVerification_def err_simps split: if_splits option.splits)
  show "v \<noteq> Some []"
    using assms(1) receipt by (auto simp: cancelVerification_def err_simps split: if_splits option.splits)
qed

lemma cancelTask_implements:
  assumes wf: "wf_snapshot nfc s" and t: "taskById s i = Some t" "t_state t \<in> {Idea, Ready, Waiting}"
    and res: "cancelTask nfc s t v = Inr r"
  shows "implements nfc s (Transition i Cancelled Cancel) r"
proof -
  have live: "t_state t \<notin> set TERMINAL_STATES" using t(2) by (auto simp: TERMINAL_STATES_def)
  from res obtain rv dv pv reason es vid where "isCanonicalCancellationReason nfc rv"
    and es: "parseDependentWaiting dv = Inr es" and vid: "cancelVerification t pv = Inr vid"
    and ch: "cancelWithDirectDependents nfc s t \<lparr>x_event = CancelEvent, x_reason = reason,
      x_verificationId = vid, x_acceptedTaskRevision = t_revision t\<rparr> es Cancel = Inr r" and "reason = strOf rv"
    by (auto simp: cancelTask_def op_simps transitionPayload_def)
  then have reason: "isCanonicalCancellationReason nfc (JStr reason)"
    by (auto dest: isCanonicalCancellationReason_D)
  note v = cancelVerification_Inr [OF vid taskById_waiting_None [OF wf t(1) _ live]]
  from cancelWithDirectDependents_Inr [OF wf t(1) live reason v(2) parseDependentWaiting_wf [OF es] ch]
  show ?thesis unfolding implements_def using step_cancel [OF _ t(2) reason v] by blast
qed

lemma interruptionVerified_implements:
  assumes wf: "wf_snapshot nfc s" and t: "taskById s i = Some t" "t_state t = Running"
    and res: "interruptionVerified nfc s t v = Inr r"
  shows "implements nfc s (Transition i Cancelled InterruptionVerified) r"
proof -
  have live: "t_state t \<notin> set TERMINAL_STATES" using t(2) by (auto simp: TERMINAL_STATES_def)
  from res obtain rv dv pv reason es d where "isCanonicalCancellationReason nfc rv"
    and es: "parseDependentWaiting dv = Inr es" and d: "parseExecutionDisposition pv t = Inr d"
    and ch: "cancelWithDirectDependents nfc s t \<lparr>x_event = InterruptionVerifiedEvent, x_reason = reason,
      x_verificationId = Some (xd_receiptId d), x_acceptedTaskRevision = t_revision t\<rparr> es InterruptionVerified = Inr r"
    and "reason = strOf rv"
    by (auto simp: interruptionVerified_def op_simps transitionPayload_def)
  then have reason: "isCanonicalCancellationReason nfc (JStr reason)"
    by (auto dest: isCanonicalCancellationReason_D)
  have v: "xd_receiptId d \<noteq> []"
    using d by (auto simp: parseExecutionDisposition_def err_simps split: option.splits)
  from cancelWithDirectDependents_Inr [OF wf t(1) live reason _ parseDependentWaiting_wf [OF es] ch]
  show ?thesis unfolding implements_def using step_interrupt [OF _ t(2) reason v] v by blast
qed

section \<open>The whole transition\<close>

lemma case_option_Inr: "(case x of None \<Rightarrow> Inl e | Some y \<Rightarrow> f y) = Inr r \<longleftrightarrow> (\<exists>y. x = Some y \<and> f y = Inr r)"
  by (cases x) auto

theorem transitionTask_implements:
  assumes "transitionTask nfc sv cv = Inr r"
  shows "\<exists>s c e st. parseSnapshot nfc sv CompleteMode None = Inr s \<and>
    readExactRecord cv [''taskId'', ''event'', ''targetState'', ''payload''] = Some c \<and>
    isTransitionEvent (fld c ''event'') = Some e \<and> isTaskState (fld c ''targetState'') = Some st \<and>
    implements nfc s (Transition (strOf (fld c ''taskId'')) st e) r"
proof -
  let ?i = "\<lambda>c. strOf (fld c ''taskId'')" and ?p = "\<lambda>c. fld c ''payload''"
  from assms obtain s c e st t where s: "parseSnapshot nfc sv CompleteMode None = Inr s"
    and c: "readExactRecord cv [''taskId'', ''event'', ''targetState'', ''payload''] = Some c"
      "isTransitionEvent (fld c ''event'') = Some e" "isTaskState (fld c ''targetState'') = Some st"
    and t: "taskById s (?i c) = Some t" and tr: "(t_state t, st, e) \<in> set TASK_TRANSITIONS"
    and ev: "(case e of
          MarkReady \<Rightarrow> markReady nfc s t (?p c) | ClaimAccepted \<Rightarrow> claimAccepted nfc s t (?p c)
        | DependencyCancelled \<Rightarrow> dependencyCancelled nfc s t (?p c) | ExecutionWait \<Rightarrow> executionWait nfc s t (?p c)
        | CompletionAccepted \<Rightarrow> completionAccepted nfc s t (?p c)
        | ResumeAccepted \<Rightarrow> continuationAccepted nfc s t ResumeAccepted (?p c)
        | RetryAccepted \<Rightarrow> continuationAccepted nfc s t RetryAccepted (?p c)
        | Cancel \<Rightarrow> cancelTask nfc s t (?p c)
        | InterruptionVerified \<Rightarrow> interruptionVerified nfc s t (?p c)) = Inr r"
    by (auto simp: transitionTask_def op_simps case_option_Inr)
  note wf = parseSnapshot_wf [OF s]
  have "implements nfc s (Transition (?i c) st e) r"
    using ev tr markReady_implements [where r = r, OF wf t] claimAccepted_implements [where r = r, OF wf t]
      dependencyCancelled_implements [where r = r, OF wf t] executionWait_implements [where r = r, OF wf t]
      completionAccepted_implements [where r = r, OF wf t] continuationAccepted_implements [where r = r, OF wf t]
      cancelTask_implements [where r = r, OF wf t] interruptionVerified_implements [where r = r, OF wf t]
    by (cases e) (auto simp: TASK_TRANSITIONS_def)
  with s c show ?thesis by blast
qed

section \<open>The Tasks after a cancellation\<close>

lemma cancel_step_cases:
  assumes "task_step nfc s (Transition i st e) repl" and "e = Cancel \<or> e = InterruptionVerified"
  shows "\<exists>t x r v ws. live s i t \<and> repl = cancellation s t (moveCancelled x r v t) ws \<and> dependents_ready s t ws"
  using assms(1) by cases (use assms(2) in blast)+

lemma map_of_keyed:
  assumes "distinct (map t_id ts)" "u \<in> set ts"
  shows "map_of (map (\<lambda>d. (t_id d, f d)) ts) (t_id u) = Some (f u)"
  using assms by (intro map_of_is_SomeI) (auto simp: comp_def)

lemma cancellation_lookup:
  assumes wf: "wf_snapshot nfc s" and u: "u \<in> set (s_tasks s)"
  shows "map_of (map (\<lambda>d. (t_id d, f d)) (affectedDependents s i)) (t_id u) =
    (if t_state u = Ready \<and> i \<in> set (t_dependencyIds u) then Some (f u) else None)"
proof (cases "u \<in> set (affectedDependents s i)")
  case True
  then show ?thesis
    using map_of_keyed [OF distinct_affected [OF wf] True, of f] by (auto simp: affectedDependents_def)
next
  case False
  have "t_id u \<notin> t_id ` set (affectedDependents s i)"
  proof
    assume "t_id u \<in> t_id ` set (affectedDependents s i)"
    then obtain d where "d \<in> set (affectedDependents s i)" "t_id d = t_id u" by auto
    moreover from this have "d \<in> set (s_tasks s)" by (simp add: affectedDependents_def)
    ultimately show False using False tasks.entry_unique [OF wf _ u] by blast
  qed
  with False u show ?thesis by (auto simp: map_of_eq_None_iff image_image affectedDependents_def)
qed

end
