(* ===== verification/Domain_Complete.thy ===== *)
theory Domain_Complete
  imports Domain_Cancel
begin

text \<open>
  Projects and new Tasks, and the converse of the refinement for commands: an action other than
  a transition that the contract enables is accepted when the command that encodes it is
  submitted, so \<open>runAction\<close> and \<open>domain_step\<close> agree.
\<close>

section \<open>Projects and new Tasks\<close>

lemma sorted_projects: "wf_snapshot nfc s \<Longrightarrow> sort_key p_id (s_projects s) = s_projects s"
  by (simp add: wf_snapshot_in_def sort_key_id_if_sorted)

lemma sorted_tasks: "wf_snapshot nfc s \<Longrightarrow> sort_key t_id (s_tasks s) = s_tasks s"
  by (simp add: wf_snapshot_in_def sort_key_id_if_sorted)

lemma parse_with_projects:
  assumes "wf_snapshot nfc s" "wf_snapshot nfc (s\<lparr>s_projects := sort_key p_id ps\<rparr>)"
  shows "parseSnapshot nfc (snapshotToJs \<lparr>s_projects = ps, s_tasks = s_tasks s\<rparr>) CompleteMode None
    = Inr (s\<lparr>s_projects := sort_key p_id ps\<rparr>)"
  using parseSnapshot_build [of nfc CompleteMode None ps "s_tasks s"] assms sorted_tasks [OF assms(1)]
  by (cases s) simp

lemma parse_with_tasks:
  assumes "wf_snapshot nfc s" "wf_snapshot nfc (s\<lparr>s_tasks := sort_key t_id ts\<rparr>)"
  shows "parseSnapshot nfc (snapshotToJs \<lparr>s_projects = s_projects s, s_tasks = ts\<rparr>) CompleteMode None
    = Inr (s\<lparr>s_tasks := sort_key t_id ts\<rparr>)"
  using parseSnapshot_build [of nfc CompleteMode None "s_projects s" ts] assms sorted_projects [OF assms(1)]
  by (cases s) simp

theorem registerProject_eq:
  assumes wf: "wf_snapshot nfc s"
  shows "registerProject nfc (snapshotToJs s) (jsObj [(''projectId'', JStr p)]) =
    (if p = [] then invalid INVALID_INPUT ''Project registration contains an invalid field'' []
     else if projectById s p \<noteq> None
     then invalid PROJECT_ALREADY_EXISTS ''Project is already registered'' [(''projectId'', DetailStr p)]
     else Inr (\<lparr>pm_snapshot = s\<lparr>s_projects := sort_key p_id (s_projects s @ [\<lparr>p_id = p, p_enabled = True\<rparr>])\<rparr>,
                pm_changedProjectIds = [p]\<rparr>, []))"
  using parse_with_projects [OF wf wf_register [OF wf, of p True]]
  by (simp add: registerProject_def guardPublicResult_def parseSnapshot_roundtrip [OF wf] parseTaskCommand_def
      readExactRecord_jsObj projectMutation_def success_def Let_def)

theorem setProjectEnabled_eq:
  assumes wf: "wf_snapshot nfc s"
  shows "setProjectEnabled nfc (snapshotToJs s) (jsObj [(''projectId'', JStr p), (''enabled'', JBool b)]) =
    (if p = [] then invalid INVALID_INPUT ''Project enablement command contains an invalid field'' []
     else case projectById s p of
       None \<Rightarrow> invalid PROJECT_NOT_FOUND ''Project is not registered'' [(''projectId'', DetailStr p)]
     | Some q \<Rightarrow>
         if p_enabled q = b
         then invalid NO_OP ''Project enablement is unchanged'' [(''projectId'', DetailStr p)]
         else Inr (\<lparr>pm_snapshot =
                      s\<lparr>s_projects := map (\<lambda>c. if p_id c = p then c\<lparr>p_enabled := b\<rparr> else c) (s_projects s)\<rparr>,
                    pm_changedProjectIds = [p]\<rparr>, []))"
proof -
  let ?ps = "map (\<lambda>c. if p_id c = p then c\<lparr>p_enabled := b\<rparr> else c) (s_projects s)"
  have ids: "map p_id ?ps = map p_id (s_projects s)" by simp
  have "sorted (map p_id (s_projects s))" using wf by (simp add: wf_snapshot_in_def)
  then have sorted: "sort_key p_id ?ps = ?ps" by (intro sort_key_id_if_sorted) (simp only: ids)
  note parse = parse_with_projects [OF wf, of ?ps, unfolded sorted, OF wf_enable [OF wf]]
  have spread: "(\<lambda>c. if p_id c = q then \<lparr>p_id = q, p_enabled = b\<rparr> else c)
      = (\<lambda>c. if p_id c = q then c\<lparr>p_enabled := b\<rparr> else c)" for q
    by (auto simp: fun_eq_iff)
  show ?thesis
    using parse projects.lookup_SomeD [of s p]
    by (auto simp add: setProjectEnabled_def guardPublicResult_def parseSnapshot_roundtrip [OF wf]
      parseTaskCommand_def readExactRecord_jsObj projectMutation_def success_def Let_def spread
      split: option.split)
qed

theorem createTask_eq:
  assumes wf: "wf_snapshot nfc s" and "i \<noteq> []" "p \<noteq> []" "x \<noteq> Some []"
  shows "createTask nfc (snapshotToJs s) (jsObj [(''id'', JStr i), (''projectId'', JStr p), (''body'', JStr b),
      (''supersedesTaskId'', jsNullable JStr x)]) =
    (if taskById s i \<noteq> None
     then invalid TASK_ALREADY_EXISTS ''Task identity is already registered'' [(''taskId'', DetailStr i)]
     else if projectById s p = None
     then invalid PROJECT_NOT_FOUND ''Task Project is not registered'' [(''projectId'', DetailStr p)]
     else if x = Some i
     then invalid SUPERSESSION_SELF ''Task cannot supersede itself'' [(''taskId'', DetailStr i)]
     else if (case x of None \<Rightarrow> False | Some y \<Rightarrow> taskById s y = None)
     then invalid SUPERSESSION_NOT_FOUND ''Superseded Task is not registered'' [(''taskId'', detailOfNullable x)]
     else Inr (\<lparr>m_snapshot = s\<lparr>s_tasks := sort_key t_id (s_tasks s @ [newTask i p b x])\<rparr>,
                m_changedTaskIds = [i]\<rparr>, [event TaskCreated i None 1 []]))"
proof -
  let ?n = "newTask i p b x"
  have n: "t_id ?n = i" by (simp add: newTask_def)
  have parse: "parseTask nfc (taskToJs ?n) path = Inr ?n" if "x \<noteq> Some i" for path
    using assms that by (intro parseTask_enc wf_newTask)
  have replace: "replaceTasks nfc s [] [?n] = Inr (s\<lparr>s_tasks := sort_key t_id (s_tasks s @ [?n])\<rparr>)"
    if "taskById s i = None" "projectById s p \<noteq> None" "\<not> (case x of None \<Rightarrow> False | Some y \<Rightarrow> taskById s y = None)"
    using that assms(2) parse_with_tasks [OF wf, of "s_tasks s @ [?n]"] wf_create [OF wf, of i p x b]
    by (auto simp: replaceTasks_def replacedTasks_def tasks.lookup_None_iff split: option.splits)
  have ids: "isIdentifier (JStr i)" "isIdentifier (JStr p)" "isNullableIdentifier (jsNullable JStr x)"
    using assms by simp_all
  show ?thesis
    using parse replace ids n
    by (simp add: createTask_def guardPublicResult_def parseSnapshot_roundtrip [OF wf] parseTaskCommand_def
        readExactRecord_jsObj mutation_def success_def Let_def)
qed

section \<open>Commands\<close>

text \<open>
  The command that encodes an action, submitted to the operation that serves it. Transitions
  carry event payloads of their own and are not covered.
\<close>

definition resultSnapshot :: "domain_mutation domain_result \<Rightarrow> snapshot parsed" where
  "resultSnapshot r = ebind r (\<lambda>(m, _). Inr (m_snapshot m))"

definition projectResultSnapshot :: "project_domain_mutation domain_result \<Rightarrow> snapshot parsed" where
  "projectResultSnapshot r = ebind r (\<lambda>(m, _). Inr (pm_snapshot m))"

fun runAction :: "(jsstr \<Rightarrow> jsstr) \<Rightarrow> jsval \<Rightarrow> action \<Rightarrow> snapshot parsed" where
  "runAction nfc v (RegisterProject p) =
     projectResultSnapshot (registerProject nfc v (jsObj [(''projectId'', JStr p)]))"
| "runAction nfc v (SetProjectEnabled p b) =
     projectResultSnapshot (setProjectEnabled nfc v (jsObj [(''projectId'', JStr p), (''enabled'', JBool b)]))"
| "runAction nfc v (CreateTask i p b x) =
     resultSnapshot (createTask nfc v (jsObj [(''id'', JStr i), (''projectId'', JStr p), (''body'', JStr b),
       (''supersedesTaskId'', jsNullable JStr x)]))"
| "runAction nfc v (SetBody i b) =
     resultSnapshot (updateTaskBody nfc v (jsObj [(''taskId'', JStr i), (''body'', JStr b)]))"
| "runAction nfc v (SetWaiting i w) =
     resultSnapshot (updateTaskWaiting nfc v (jsObj [(''taskId'', JStr i), (''waiting'', waitingInputToJs w)]))"
| "runAction nfc v (SetParent i p) =
     resultSnapshot (setTaskParent nfc v (jsObj [(''taskId'', JStr i), (''parentId'', jsNullable JStr p)]))"
| "runAction nfc v (AddDependency i d) =
     resultSnapshot (addTaskDependency nfc v (jsObj [(''taskId'', JStr i), (''dependencyId'', JStr d)]))"
| "runAction nfc v (RemoveDependency i d) =
     resultSnapshot (removeTaskDependency nfc v (jsObj [(''taskId'', JStr i), (''dependencyId'', JStr d)]))"
| "runAction nfc v (SetSupersession i x) =
     resultSnapshot (setTaskSupersession nfc v (jsObj [(''taskId'', JStr i), (''supersedesTaskId'', jsNullable JStr x)]))"
| "runAction nfc v (Transition i st e) = invalid INVALID_INPUT ''Transition payload is not given'' []"

lemma resultSnapshot_Inr [simp]: "resultSnapshot (Inr (m, es)) = Inr (m_snapshot m)"
  by (simp add: resultSnapshot_def)

lemma resultSnapshot_eq_Inr: "resultSnapshot r = Inr s \<longleftrightarrow> (\<exists>m es. r = Inr (m, es) \<and> m_snapshot m = s)"
  by (auto simp: resultSnapshot_def err_simps)

text \<open>The commands are read back as they were built.\<close>

lemma changeTask_live:
  assumes wf: "wf_snapshot nfc s" and "live s i t" and step: "task_step nfc s a [(i, nextCandidate t patch)]"
    and "t_id (patch t) = t_id t"
  shows "resultSnapshot (changeTask nfc s t patch type details) = Inr (putTasks s [(i, nextCandidate t patch)])"
  using changeTask_step [OF wf, of a t patch type details] assms live_wf(2) [OF wf assms(2)]
  by (simp add: live_def)

lemma live_require:
  assumes "wf_snapshot nfc s" "live s i t"
  shows "requireMutableTask s i = Inr t" "t_id t = i" "i \<noteq> []"
  using assms live_wf [OF assms] by (auto simp: requireMutableTask_Inr live_def wf_task_def)

lemmas command_simps = guardPublicResult_def parseTaskCommand_def readExactRecord_jsObj Let_def

lemma registered_not_Nil:
  "wf_snapshot nfc s \<Longrightarrow> taskById s i = Some t \<Longrightarrow> i \<noteq> []"
  using taskById_wf [of nfc s i t] by (auto simp: wf_task_def)

lemma enabled_body:
  assumes wf: "wf_snapshot nfc s" and live: "live s i t" and "t_body t \<noteq> b"
  shows "runAction nfc (snapshotToJs s) (SetBody i b) = Inr (putTasks s [(i, nextCandidate t (\<lambda>t. t\<lparr>t_body := b\<rparr>))])"
  using live_require [OF wf live] assms(3) changeTask_live [OF wf live step_body [OF live assms(3)]]
  by (simp add: updateTaskBody_def command_simps parseSnapshot_roundtrip [OF wf])

lemma enabled_waiting:
  assumes wf: "wf_snapshot nfc s" and live: "live s i t"
    and w: "t_state t = Waiting" "t_waiting t = Some wm" "wm_input wm \<noteq> w" "wf_waiting_input w"
  shows "runAction nfc (snapshotToJs s) (SetWaiting i w) = Inr (putTasks s [(i, moveWaiting w t)])"
proof -
  let ?patch = "\<lambda>u. u\<lparr>t_waiting := Some \<lparr>wm_input = w, wm_waitingTaskRevision = t_revision t\<rparr>\<rparr>"
  have eq: "nextCandidate t ?patch = moveWaiting w t"
    by (rule nextCandidate_waiting_edit [OF w(1)])
  show ?thesis
    using live_require [OF wf live] w
      changeTask_live [OF wf live, of "SetWaiting i w" ?patch, unfolded eq, OF step_waiting [OF live w]]
    by (simp add: updateTaskWaiting_def command_simps parseSnapshot_roundtrip [OF wf] parseWaitingInput_enc
        sameWaitingInput_iff)
qed

lemma enabled_parent:
  assumes wf: "wf_snapshot nfc s" and live: "live s i t"
    and g: "t_state t \<in> set GRAPH_MUTABLE_STATES" "t_parentId t \<noteq> p"
    and p: "\<And>q. p = Some q \<Longrightarrow> \<exists>u. taskById s q = Some u \<and> t_projectId u = t_projectId t \<and>
       (q, i) \<notin> (parentRel (s_tasks s))\<^sup>*"
  shows "runAction nfc (snapshotToJs s) (SetParent i p) =
    Inr (putTasks s [(i, nextCandidate t (\<lambda>t. t\<lparr>t_parentId := p\<rparr>))])"
proof -
  note t = live_require [OF wf live]
  have "p \<noteq> Some i" "p \<noteq> Some []" using p registered_not_Nil [OF wf] by blast+
  moreover have "\<forall>q. p = Some q \<longrightarrow> (\<exists>u. taskById s q = Some u \<and> t_projectId u = t_projectId t \<and>
      (q, t_id t) \<notin> (parentRel (s_tasks s))\<^sup>*)"
    using p t(2) by blast
  ultimately show ?thesis
    using t g changeTask_live [OF wf live step_parent [OF live g p]]
    by (simp add: setTaskParent_def command_simps parseSnapshot_roundtrip [OF wf] parent_guard_iff [OF wf, THEN iffD2])
qed

lemma enabled_add_dependency:
  assumes wf: "wf_snapshot nfc s" and live: "live s i t" and g: "t_state t \<in> set GRAPH_MUTABLE_STATES"
    and d: "d \<in> ids (s_tasks s)" "d \<notin> set (t_dependencyIds t)" "(d, i) \<notin> (depRel (s_tasks s))\<^sup>*"
  shows "runAction nfc (snapshotToJs s) (AddDependency i d) =
    Inr (putTasks s [(i, nextCandidate t (\<lambda>t. t\<lparr>t_dependencyIds := sort (t_dependencyIds t @ [d])\<rparr>))])"
proof -
  let ?patch = "\<lambda>u. u\<lparr>t_dependencyIds := sort (t_dependencyIds t @ [d])\<rparr>"
  have eq: "nextCandidate t ?patch = nextCandidate t (\<lambda>u. u\<lparr>t_dependencyIds := sort (t_dependencyIds u @ [d])\<rparr>)"
    by (simp add: nextCandidate_def)
  have "d \<noteq> []" using d(1) Nil_not_id [OF wf] by metis
  moreover have "d \<noteq> i" "\<not> dependencyReaches s d i"
    using d by (auto simp: dependencyReaches_iff [OF wf])
  moreover obtain u where "taskById s d = Some u"
    using d(1) by (cases "taskById s d") (auto simp: tasks.lookup_None_iff)
  ultimately show ?thesis
    using live_require [OF wf live] g d(2)
      changeTask_live [OF wf live, of _ ?patch, unfolded eq, OF step_add_dependency [OF live g d]]
    by (simp add: addTaskDependency_def dependencyCommand_def command_simps parseSnapshot_roundtrip [OF wf])
qed

lemma enabled_remove_dependency:
  assumes wf: "wf_snapshot nfc s" and live: "live s i t" and g: "t_state t \<in> set GRAPH_MUTABLE_STATES"
    and d: "d \<in> set (t_dependencyIds t)"
  shows "runAction nfc (snapshotToJs s) (RemoveDependency i d) =
    Inr (putTasks s [(i, nextCandidate t (\<lambda>t. t\<lparr>t_dependencyIds := filter (\<lambda>x. x \<noteq> d) (t_dependencyIds t)\<rparr>))])"
proof -
  let ?patch = "\<lambda>u. u\<lparr>t_dependencyIds := filter (\<lambda>x. x \<noteq> d) (t_dependencyIds t)\<rparr>"
  have eq: "nextCandidate t ?patch = nextCandidate t (\<lambda>u. u\<lparr>t_dependencyIds := filter (\<lambda>x. x \<noteq> d) (t_dependencyIds u)\<rparr>)"
    by (simp add: nextCandidate_def)
  have "d \<noteq> []" using d live_wf(3) [OF wf live] by (auto simp: wf_task_def)
  then show ?thesis
    using live_require [OF wf live] g d
      changeTask_live [OF wf live, of _ ?patch, unfolded eq, OF step_remove_dependency [OF live g d]]
    by (simp add: removeTaskDependency_def dependencyCommand_def command_simps parseSnapshot_roundtrip [OF wf])
qed

lemma enabled_supersession:
  assumes wf: "wf_snapshot nfc s" and live: "live s i t" and x: "t_supersedesTaskId t \<noteq> x" "x \<noteq> Some i"
    and reg: "\<And>y. x = Some y \<Longrightarrow> y \<in> ids (s_tasks s)"
  shows "runAction nfc (snapshotToJs s) (SetSupersession i x) =
    Inr (putTasks s [(i, nextCandidate t (\<lambda>t. t\<lparr>t_supersedesTaskId := x\<rparr>))])"
proof -
  have "x \<noteq> Some []" "\<not> (case x of None \<Rightarrow> False | Some y \<Rightarrow> taskById s y = None)"
    using reg Nil_not_id [OF wf] by (auto simp: tasks.lookup_None_iff split: option.splits)
  then show ?thesis
    using live_require [OF wf live] x changeTask_live [OF wf live step_supersession [OF live x reg]]
    by (simp add: setTaskSupersession_def command_simps parseSnapshot_roundtrip [OF wf])
qed

lemma task_step_runAction:
  assumes "task_step nfc s a repl" "wf_snapshot nfc s" "\<nexists>i st e. a = Transition i st e"
  shows "runAction nfc (snapshotToJs s) a = Inr (putTasks s repl)"
  using assms(1)
  by cases (use assms(2,3) in \<open>blast intro: enabled_body enabled_waiting enabled_parent enabled_add_dependency
      enabled_remove_dependency enabled_supersession\<close>)+

lemma implements_unique:
  "implements nfc s a (m, es) \<Longrightarrow> domain_step nfc s a (m_snapshot m)"
  using implements_step [of nfc s a "(m, es)"] by simp

lemma parseWaitingInput_exact:
  "parseWaitingInput (waitingInputToJs w) path = Inr w' \<Longrightarrow> w' = w"
  by (clarsimp simp: parseWaitingInput_def waitingInputToJs_def waitingInputFields_def
      waitingInputKeys_def readExactRecord_jsObj err_simps)

lemma createTask_step:
  assumes wf: "wf_snapshot nfc s" and run: "runAction nfc (snapshotToJs s) (CreateTask i p b x) = Inr s'"
  shows "domain_step nfc s (CreateTask i p b x) s'"
proof -
  from run have ids: "i \<noteq> []" "p \<noteq> []" "x \<noteq> Some []"
    by (auto simp: createTask_def command_simps parseSnapshot_roundtrip [OF wf] resultSnapshot_eq_Inr if_Inl_eq_Inr)
  from run show ?thesis
    by (auto simp: createTask_eq [OF wf ids] resultSnapshot_eq_Inr if_Inl_eq_Inr tasks.lookup_None_iff
        intro!: step_create ids split: option.splits)
qed

theorem runAction_iff:
  assumes wf: "wf_snapshot nfc s" and a: "\<nexists>i st e. a = Transition i st e"
  shows "runAction nfc (snapshotToJs s) a = Inr s' \<longleftrightarrow> domain_step nfc s a s'"
proof
  assume "domain_step nfc s a s'"
  then show "runAction nfc (snapshotToJs s) a = Inr s'"
  proof cases
    case (step_register p)
    then show ?thesis by (simp add: registerProject_eq [OF wf] projectResultSnapshot_def)
  next
    case (step_enable p q b)
    then show ?thesis
      using projects.lookup_SomeD [OF step_enable(3)] wf
      by (auto simp: setProjectEnabled_eq [OF wf] projectResultSnapshot_def wf_snapshot_in_def wf_project_def)
  next
    case (step_create i p x b)
    have x: "x \<noteq> Some []" "x \<noteq> Some i" "\<not> (case x of None \<Rightarrow> False | Some y \<Rightarrow> taskById s y = None)"
      using step_create(4,6) Nil_not_id [OF wf] by (auto simp: tasks.lookup_None_iff split: option.splits)
    obtain q where q: "projectById s p = Some q" using step_create(5) by blast
    then have "p \<noteq> []"
      using projects.lookup_SomeD [of s p q] wf by (auto simp: wf_snapshot_in_def wf_project_def)
    then show ?thesis using step_create(1-4) q x by (simp add: createTask_eq [OF wf])
  next
    case (step_task repl)
    then show ?thesis using task_step_runAction [OF _ wf a] by simp
  qed
next
  assume run: "runAction nfc (snapshotToJs s) a = Inr s'"
  note read = parseSnapshot_roundtrip [OF wf] readExactRecord_jsObj resultSnapshot_eq_Inr
  from run show "domain_step nfc s a s'"
  proof (cases a)
    case (RegisterProject p)
    with run show ?thesis
      by (auto simp: registerProject_eq [OF wf] projectResultSnapshot_def split: if_splits intro: step_register)
  next
    case (SetProjectEnabled p b)
    with run show ?thesis
      by (auto simp: setProjectEnabled_eq [OF wf] projectResultSnapshot_def
          split: if_splits option.splits intro: step_enable)
  next
    case (CreateTask i p b x)
    with run show ?thesis by (simp add: createTask_step [OF wf])
  next
    case (SetBody i b)
    with run show ?thesis by (auto simp: read dest!: updateTaskBody_implements implements_unique)
  next
    case (SetWaiting i w)
    with run show ?thesis
      by (auto simp: read dest!: updateTaskWaiting_implements implements_unique parseWaitingInput_exact)
  next
    case (SetParent i p)
    with run show ?thesis by (auto simp: read dest!: setTaskParent_implements implements_unique)
  next
    case (AddDependency i d)
    with run show ?thesis
      by (auto simp: read dest!: addTaskDependency_implements dependencyCommand_Inr implements_unique)
  next
    case (RemoveDependency i d)
    with run show ?thesis
      by (auto simp: read dest!: removeTaskDependency_implements dependencyCommand_Inr implements_unique)
  next
    case (SetSupersession i x)
    with run show ?thesis by (auto simp: read dest!: setTaskSupersession_implements implements_unique)
  qed simp
qed

end
