(* ===== verification/Domain_Example.thy ===== *)
theory Domain_Example
  imports Domain_Complete
begin

text \<open>
  A concrete well-formed snapshot on which the properties of the Domain Core are evaluated: an
  enabled Project with a completed Task and a ready Task that depends on it.
\<close>

definition demoDone :: task where
  "demoDone = \<lparr>t_id = lit ''a'', t_projectId = lit ''p'', t_state = Completed, t_revision = 4,
     t_body = lit ''first'', t_parentId = None, t_dependencyIds = [], t_waiting = None,
     t_completion = Some \<lparr>c_decisionId = lit ''d1'', c_acceptedTaskRevision = 3\<rparr>,
     t_cancellation = None, t_supersedesTaskId = None\<rparr>"

definition demoReady :: task where
  "demoReady = \<lparr>t_id = lit ''b'', t_projectId = lit ''p'', t_state = Ready, t_revision = 2,
     t_body = lit ''second'', t_parentId = None, t_dependencyIds = [lit ''a''], t_waiting = None,
     t_completion = None, t_cancellation = None, t_supersedesTaskId = None\<rparr>"

definition demo :: snapshot where
  "demo = \<lparr>s_projects = [\<lparr>p_id = lit ''p'', p_enabled = True\<rparr>], s_tasks = [demoDone, demoReady]\<rparr>"

lemmas demo_defs = demo_def demoDone_def demoReady_def

lemma demo_wf: "wf_snapshot (\<lambda>s. s) demo"
proof -
  have "parentRel (s_tasks demo) = {}"
    by (auto simp: parentRel_def demo_defs)
  moreover have "depRel (s_tasks demo) \<subseteq> {(lit ''b'', lit ''a'')}"
    by (auto simp: depRel_def demo_defs)
  then have "acyclic (depRel (s_tasks demo))"
    by (rule acyclic_mono [rotated]) (simp add: acyclic_insert_iff)
  ultimately show ?thesis
    unfolding wf_snapshot_in_def
    by (simp add: demo_defs wf_task_def wf_references_def facts_of_state_def wf_revision_def
        MAX_SAFE_INTEGER_def wf_project_def wf_completion_def)
qed

lemma demo_lookup [simp]:
  "taskById demo (lit ''a'') = Some demoDone" "taskById demo (lit ''b'') = Some demoReady"
  "projectById demo (lit ''p'') = Some \<lparr>p_id = lit ''p'', p_enabled = True\<rparr>"
  by (simp_all add: taskById_def projectById_def demo_defs)

lemma demo_eligible: "eligible demo demoReady"
  by (simp add: eligible_def demoReady_def) (simp add: demoDone_def)

text \<open>The command that claims the ready Task.\<close>

definition demoClaim :: jsval where
  "demoClaim = jsObj [(''taskId'', JStr (lit ''b'')), (''event'', JStr (lit (eventName ClaimAccepted))),
     (''targetState'', JStr (lit (stateName Running))),
     (''payload'', jsObj [(''externalAcceptance'', jsObj [(''taskId'', JStr (lit ''b'')), (''taskRevision'', jsInt 2),
        (''authorization'', JStr (lit ''accepted'')), (''reliability'', JStr (lit ''accepted''))])])]"

definition demoRunning :: task where
  "demoRunning = demoReady\<lparr>t_state := Running, t_revision := 3\<rparr>"

lemma demoRunning_move: "moveTo Running demoReady = demoRunning"
  by (simp add: moveTo_def demoRunning_def nextCandidate_def demoReady_def)

lemma demo_live: "live demo (lit ''b'') demoReady"
  by (simp add: live_def) (simp add: demoReady_def TERMINAL_STATES_def MAX_SAFE_INTEGER_def)

lemma demo_claim_step:
  "task_step nfc demo (Transition (lit ''b'') Running ClaimAccepted) [(lit ''b'', demoRunning)]"
  using step_claim [OF demo_live demo_eligible] by (simp add: demoRunning_move)

lemma demo_claim:
  "transitionTask (\<lambda>s. s) (snapshotToJs demo) demoClaim =
    Inr (\<lparr>m_snapshot = demo\<lparr>s_tasks := [demoDone, demoRunning]\<rparr>, m_changedTaskIds = [lit ''b'']\<rparr>,
         [event TaskTransitioned (lit ''b'') (Some 2) 3 (transitionDetails ClaimAccepted Ready Running)])"
proof -
  have eq: "nextCandidate demoReady (\<lambda>t. t\<lparr>t_state := Running\<rparr>) = demoRunning"
    by (simp add: demoRunning_def nextCandidate_def demoReady_def)
  have fields: "t_id demoReady = lit ''b''" "t_state demoReady = Ready" "t_revision demoReady = 2"
    by (simp_all add: demoReady_def)
  have put: "putTasks demo [(lit ''b'', demoRunning)] = demo\<lparr>s_tasks := [demoDone, demoRunning]\<rparr>"
    by (simp add: putTasks_def replacedTasks_def) (simp add: demo_defs demoRunning_def)
  have "changeTask (\<lambda>s. s) demo demoReady (\<lambda>t. t\<lparr>t_state := Running\<rparr>) TaskTransitioned
      (\<lambda>_. transitionDetails ClaimAccepted Ready Running) =
    Inr (\<lparr>m_snapshot = demo\<lparr>s_tasks := [demoDone, demoRunning]\<rparr>, m_changedTaskIds = [lit ''b'']\<rparr>,
         [event TaskTransitioned (lit ''b'') (Some 2) 3 (transitionDetails ClaimAccepted Ready Running)])"
    using changeTask_step [OF demo_wf, where t = demoReady and patch = "\<lambda>t. t\<lparr>t_state := Running\<rparr>", unfolded eq,
        unfolded fields, OF demo_claim_step] fields
    by (simp add: put MAX_SAFE_INTEGER_def)
  moreover have "eligibilityReasons demo demoReady = []"
    by (simp add: eligibilityReasons_Nil_iff demo_eligible)
  ultimately show ?thesis
    unfolding demoClaim_def
    by (simp add: transitionTask_def command_simps parseSnapshot_roundtrip [OF demo_wf] fields
        TERMINAL_STATES_def TASK_TRANSITIONS_def claimAccepted_def transitionPayload_def
        parseExternalAcceptance_def applySimpleTransition_def
        del: eventName.simps stateName.simps)
qed

section \<open>A run from the empty snapshot\<close>

definition chainTask :: "string \<Rightarrow> jsstr list \<Rightarrow> task_state \<Rightarrow> int \<Rightarrow> completion_fact option \<Rightarrow> task" where
  "chainTask i deps st n c =
     \<lparr>t_id = lit i, t_projectId = lit ''p'', t_state = st, t_revision = n, t_body = [],
      t_parentId = None, t_dependencyIds = deps, t_waiting = None, t_completion = c,
      t_cancellation = None, t_supersedesTaskId = None\<rparr>"

definition chain :: "task list \<Rightarrow> snapshot" where
  "chain ts = \<lparr>s_projects = [\<lparr>p_id = lit ''p'', p_enabled = True\<rparr>], s_tasks = ts\<rparr>"

definition chainDone :: task where
  "chainDone = chainTask ''a'' [] Completed 4 (Some \<lparr>c_decisionId = lit ''d'', c_acceptedTaskRevision = 3\<rparr>)"

lemmas chain_simps = chain_def chainTask_def chainDone_def live_def taskById_def projectById_def TERMINAL_STATES_def
  MAX_SAFE_INTEGER_def putTasks_def replacedTasks_def moveTo_def moveCompleted_def nextCandidate_def newTask_def
  projectEnabled_def hasCancelledDependency_def eligible_def GRAPH_MUTABLE_STATES_def

lemma chain_start:
  "domain_step nfc \<lparr>s_projects = [], s_tasks = []\<rparr> (RegisterProject (lit ''p'')) (chain [])"
  using step_register [of "lit ''p''" "\<lparr>s_projects = [], s_tasks = []\<rparr>" nfc] by (simp add: chain_simps)

lemma chain_create:
  "domain_step nfc (chain []) (CreateTask (lit ''a'') (lit ''p'') [] None) (chain [chainTask ''a'' [] Idea 1 None])"
  "domain_step nfc (chain [chainDone]) (CreateTask (lit ''b'') (lit ''p'') [] None)
     (chain [chainDone, chainTask ''b'' [] Idea 1 None])"
  using step_create [of "lit ''a''" "chain []" "lit ''p''" None nfc "[]"]
    step_create [of "lit ''b''" "chain [chainDone]" "lit ''p''" None nfc "[]"] by (simp_all add: chain_simps)

lemma chain_first:
  "domain_step nfc (chain [chainTask ''a'' [] Idea 1 None]) (Transition (lit ''a'') Ready MarkReady)
     (chain [chainTask ''a'' [] Ready 2 None])"
  "domain_step nfc (chain [chainTask ''a'' [] Ready 2 None]) (Transition (lit ''a'') Running ClaimAccepted)
     (chain [chainTask ''a'' [] Running 3 None])"
  "domain_step nfc (chain [chainTask ''a'' [] Running 3 None]) (Transition (lit ''a'') Completed CompletionAccepted)
     (chain [chainDone])"
  using step_task [OF step_ready [of "chain [chainTask ''a'' [] Idea 1 None]" "lit ''a''" "chainTask ''a'' [] Idea 1 None"]]
    step_task [OF step_claim [of "chain [chainTask ''a'' [] Ready 2 None]" "lit ''a''" "chainTask ''a'' [] Ready 2 None"]]
    step_task [OF step_complete [of "chain [chainTask ''a'' [] Running 3 None]" "lit ''a''" "chainTask ''a'' [] Running 3 None" "lit ''d''"]]
  by (simp_all add: chain_simps)

lemma chain_depend:
  "domain_step nfc (chain [chainDone, chainTask ''b'' [] Idea 1 None]) (AddDependency (lit ''b'') (lit ''a''))
     (chain [chainDone, chainTask ''b'' [lit ''a''] Idea 2 None])"
proof -
  let ?b = "chainTask ''b'' [] Idea 1 None"
  have "depRel (s_tasks (chain [chainDone, ?b])) = {}" by (auto simp: depRel_def chain_simps)
  then have "(lit ''a'', lit ''b'') \<notin> (depRel (s_tasks (chain [chainDone, ?b])))\<^sup>*" by simp
  with step_task [OF step_add_dependency [of "chain [chainDone, ?b]" "lit ''b''" ?b "lit ''a''"]] show ?thesis
    by (simp add: chain_simps)
qed

lemma chain_second:
  "domain_step nfc (chain [chainDone, chainTask ''b'' [lit ''a''] Idea 2 None]) (Transition (lit ''b'') Ready MarkReady)
     (chain [chainDone, chainTask ''b'' [lit ''a''] Ready 3 None])"
  "domain_step nfc (chain [chainDone, chainTask ''b'' [lit ''a''] Ready 3 None]) (Transition (lit ''b'') Running ClaimAccepted)
     (chain [chainDone, chainTask ''b'' [lit ''a''] Running 4 None])"
  using step_task [OF step_ready [of "chain [chainDone, chainTask ''b'' [lit ''a''] Idea 2 None]" "lit ''b''"
        "chainTask ''b'' [lit ''a''] Idea 2 None"]]
    step_task [OF step_claim [of "chain [chainDone, chainTask ''b'' [lit ''a''] Ready 3 None]" "lit ''b''"
        "chainTask ''b'' [lit ''a''] Ready 3 None"]]
  by (simp_all add: chain_simps)

definition chainEnd :: snapshot where
  "chainEnd = chain [chainDone, chainTask ''b'' [lit ''a''] Running 4 None]"

lemma chain_run:
  "\<exists>as. run (domain_step nfc) (chain [chainDone]) as chainEnd"
  unfolding chainEnd_def
  by (intro exI) (rule run_Cons chain_create chain_depend chain_second run_Nil)+

lemma chain_reach: "reach emptySnapshot (domain_step nfc) chainEnd"
proof -
  have "reach emptySnapshot (domain_step nfc) (chain [chainDone])"
    by (rule reach_step [OF reach_step [OF reach_step [OF reach_step [OF reach_step [OF reach_init]]]]])
      (rule chain_first chain_create chain_start | simp add: emptySnapshot_def)+
  moreover obtain as where "run (domain_step nfc) (chain [chainDone]) as chainEnd"
    using chain_run by blast
  ultimately show ?thesis by (metis reach_run)
qed

text \<open>A Task with a dependent child, on which a back edge would close a cycle.\<close>

definition chainCyclic :: snapshot where
  "chainCyclic = chain [chainTask ''a'' [] Idea 1 None,
     (chainTask ''b'' [lit ''a''] Idea 2 None)\<lparr>t_parentId := Some (lit ''a'')\<rparr>]"

lemma chainCyclic_wf: "wf_snapshot (\<lambda>s. s) chainCyclic"
proof -
  have "parentRel (s_tasks chainCyclic) \<subseteq> {(lit ''b'', lit ''a'')}" "depRel (s_tasks chainCyclic) \<subseteq> {(lit ''b'', lit ''a'')}"
    by (auto simp: parentRel_def depRel_def chainCyclic_def chain_def chainTask_def)
  moreover have "acyclic {(lit ''b'', lit ''a'')}" by (simp add: acyclic_insert_iff)
  ultimately have "acyclic (parentRel (s_tasks chainCyclic))" "acyclic (depRel (s_tasks chainCyclic))"
    by (blast intro: acyclic_mono)+
  then show ?thesis
    unfolding wf_snapshot_in_def
    by (simp add: chainCyclic_def chain_def chainTask_def wf_task_def wf_references_def facts_of_state_def
        wf_revision_def MAX_SAFE_INTEGER_def wf_project_def)
qed

text \<open>A retry command, for a Task that does not wait.\<close>

definition demoRetry :: jsval where
  "demoRetry = jsObj [(''taskId'', JStr (lit ''b'')), (''expectedTaskRevision'', jsInt 2),
     (''readRevision'', JStr (lit ''r1'')), (''kind'', JStr (lit ''retry'')),
     (''requiredActionReceipt'', jsObj [(''receiptId'', JStr (lit ''r'')), (''taskId'', JStr (lit ''b'')),
        (''taskRevision'', jsInt 2), (''requiredAction'', JStr (lit ''x'')), (''status'', JStr (lit ''accepted''))]),
     (''targetExecutionId'', JNull), (''targetWorkspaceRevision'', JNull), (''targetBackendThreadId'', JNull),
     (''trustedTime'', jsInt 0)]"

definition demoRetryCommand :: continuation_command where
  "demoRetryCommand = \<lparr>cc_taskId = lit ''b'', cc_expectedTaskRevision = 2, cc_readRevision = lit ''r1'',
     cc_kind = RetryKind,
     cc_receipt = \<lparr>ar_receiptId = lit ''r'', ar_taskId = lit ''b'', ar_taskRevision = 2, ar_requiredAction = lit ''x''\<rparr>,
     cc_targetExecutionId = None, cc_targetWorkspaceRevision = None, cc_targetBackendThreadId = None,
     cc_trustedTime = 0\<rparr>"

lemma demo_retry_parse: "parseContinuationCommand demoRetry = Inr demoRetryCommand"
  unfolding demoRetry_def
  by (simp add: parseContinuationCommand_def readExactRecord_jsObj readRevision_def
      parseRequiredActionReceipt_def isPositiveInteger_iff isNullableIdentifier_def isSafeInteger_iff
      MAX_SAFE_INTEGER_def isLit_def demoRetryCommand_def)

section \<open>A cancellation with a ready dependent\<close>

definition demoWaitingInput :: waiting_input where
  "demoWaitingInput = \<lparr>w_reason = DependencyCancelledReason, w_phase = lit ''x'', w_requiredAction = lit ''x'',
     w_lastErrorCode = lit ''x'', w_lastErrorSummary = None, w_retryable = False, w_retryCount = 0,
     w_retryAfter = None, w_executionId = None, w_workspaceRevision = None, w_backendThreadId = None\<rparr>"

definition demoCancelSnapshot :: snapshot where
  "demoCancelSnapshot = chain [chainTask ''a'' [] Idea 1 None, chainTask ''b'' [lit ''a''] Ready 2 None]"

definition demoCancel :: jsval where
  "demoCancel = jsObj [(''taskId'', JStr (lit ''a'')), (''event'', JStr (lit (eventName Cancel))),
     (''targetState'', JStr (lit (stateName Cancelled))),
     (''payload'', jsObj [(''reason'', JStr (lit ''r'')), (''executionDisposition'', JNull),
        (''dependentWaiting'', jsArr [jsObj [(''taskId'', JStr (lit ''b'')), (''waiting'', waitingInputToJs demoWaitingInput)]])])]"

lemma demoCancelSnapshot_wf: "wf_snapshot (\<lambda>s. s) demoCancelSnapshot"
proof -
  have "parentRel (s_tasks demoCancelSnapshot) = {}" "depRel (s_tasks demoCancelSnapshot) \<subseteq> {(lit ''b'', lit ''a'')}"
    by (auto simp: parentRel_def depRel_def demoCancelSnapshot_def chain_def chainTask_def)
  moreover have ba: "acyclic {(lit ''b'', lit ''a'')}" by (simp add: acyclic_insert_iff)
  ultimately have "acyclic (parentRel (s_tasks demoCancelSnapshot))" "acyclic (depRel (s_tasks demoCancelSnapshot))"
    using acyclic_mono [OF ba] by simp_all
  then show ?thesis
    unfolding wf_snapshot_in_def
    by (simp add: demoCancelSnapshot_def chain_def chainTask_def wf_task_def wf_references_def facts_of_state_def
        wf_revision_def MAX_SAFE_INTEGER_def wf_project_def)
qed

lemma demo_reason: "isCanonicalCancellationReason (\<lambda>s. s) (JStr (lit ''r''))"
  by (simp add: lit_def isCanonicalCancellationReason.simps(1) forbiddenCancellationText_def FORBIDDEN_RANGES_def
      encodedBytes_def utf8Length_def isHighSurrogate_def isLowSurrogate_def word_le_nat_alt)

lemma demo_cancel: "\<exists>r. transitionTask (\<lambda>s. s) (snapshotToJs demoCancelSnapshot) demoCancel = Inr r"
proof -
  let ?a = "chainTask ''a'' [] Idea 1 None" and ?b = "chainTask ''b'' [lit ''a''] Ready 2 None"
  have live: "live demoCancelSnapshot (lit ''a'') ?a"
    by (simp add: demoCancelSnapshot_def chain_simps)
  have A: "affectedDependents demoCancelSnapshot (lit ''a'') = [?b]"
    by (simp add: affectedDependents_def demoCancelSnapshot_def chain_def chainTask_def)
  have w: "wf_waiting_input demoWaitingInput" "w_reason demoWaitingInput = DependencyCancelledReason"
    by (simp_all add: wf_waiting_input_def demoWaitingInput_def MAX_SAFE_INTEGER_def)
  have fields: "t_id ?a = lit ''a''" "t_state ?a = Idea" "t_id ?b = lit ''b''" "t_revision ?b = 2"
    by (simp_all add: chainTask_def)
  have "\<exists>r. cancelWithDirectDependents (\<lambda>s. s) demoCancelSnapshot ?a
      \<lparr>x_event = CancelEvent, x_reason = lit ''r'', x_verificationId = None, x_acceptedTaskRevision = t_revision ?a\<rparr>
      [(lit ''b'', demoWaitingInput)] Cancel = Inr r"
    using w fields A
    by (intro cancelWithDirectDependents_total [OF demoCancelSnapshot_wf live demo_reason])
      (simp_all add: MAX_SAFE_INTEGER_def)
  moreover have "taskById demoCancelSnapshot (lit ''a'') = Some ?a" using live by (simp add: live_def)
  ultimately show ?thesis
    unfolding demoCancel_def
    by (simp add: transitionTask_def command_simps parseSnapshot_roundtrip [OF demoCancelSnapshot_wf] fields
        TERMINAL_STATES_def TASK_TRANSITIONS_def cancelTask_def transitionPayload_def demo_reason
        parseDependentWaiting_def parseWaitingInput_enc [OF w(1)] cancelVerification_def
        del: eventName.simps stateName.simps)
qed

end
