(* ===== verification/Domain_Properties.thy ===== *)
theory Domain_Properties
  imports Domain_Example
begin

text \<open>
  The properties of the Domain Core, each with the input at which it is instantiated where it
  has hypotheses.
\<close>

section \<open>Refinement of the contract\<close>



text \<open>
  C5: For every action other than a transition, submitting the command that encodes it to a
  valid snapshot succeeds with \<open>s'\<close> exactly when the contract has the step to \<open>s'\<close>: validation of
  the new snapshot never rejects an enabled action, and nothing else is accepted.
\<close>

theorem commands_refine:
  assumes "wf_snapshot nfc s" and "\<nexists>i st e. a = Transition i st e"
  shows "runAction nfc (snapshotToJs s) a = Inr s' \<longleftrightarrow> domain_step nfc s a s'"
  by (rule runAction_iff [OF assms])

theorem commands_refine_witness:
  "wf_snapshot (\<lambda>s. s) demo \<and>
   runAction (\<lambda>s. s) (snapshotToJs demo) (SetBody (lit ''b'') (lit ''x'')) =
     Inr (putTasks demo [(lit ''b'', demoReady\<lparr>t_body := lit ''x'', t_revision := 3\<rparr>)])"
proof -
  have "t_body demoReady \<noteq> lit ''x''" by (simp add: demoReady_def)
  from step_task [OF step_body [OF demo_live this]]
  have "domain_step (\<lambda>s. s) demo (SetBody (lit ''b'') (lit ''x''))
      (putTasks demo [(lit ''b'', demoReady\<lparr>t_body := lit ''x'', t_revision := 3\<rparr>)])"
    by (simp add: nextCandidate_def demoReady_def)
  then show ?thesis using commands_refine [OF demo_wf, of "SetBody (lit ''b'') (lit ''x'')"] demo_wf by simp
qed

section \<open>The invariant\<close>

text \<open>
  C14: Every mutation that any of the seven Task operations accepts, from whatever inputs, is a
  valid snapshot: unique sorted identifiers, well-formed Tasks with the facts of their state,
  resolved references, and acyclic hierarchy and dependencies.
\<close>

theorem mutation_valid:
  assumes "Inr (m, es) \<in> {createTask nfc sv cv, updateTaskBody nfc sv cv, updateTaskWaiting nfc sv cv,
      setTaskParent nfc sv cv, addTaskDependency nfc sv cv, removeTaskDependency nfc sv cv,
      setTaskSupersession nfc sv cv, transitionTask nfc sv cv}"
  shows "wf_snapshot nfc (m_snapshot m)"
proof -
  have step: "wf_snapshot nfc (m_snapshot m)"
    if "parseSnapshot nfc sv CompleteMode None = Inr s" "implements nfc s a (m, es)" for s a
    using that parseSnapshot_wf domain_step_wf [OF implements_unique] by blast
  have create: "wf_snapshot nfc (m_snapshot m)" if "createTask nfc sv cv = Inr (m, es)"
    using that by (auto simp: createTask_def op_simps replaceTasks_def mutation_def success_def
        dest!: parseSnapshot_wf)
  from assms show ?thesis
    using step create by (auto dest!: sym [of "Inr (m, es)"] dest: updateTaskBody_implements
        updateTaskWaiting_implements setTaskParent_implements addTaskDependency_implements
        removeTaskDependency_implements setTaskSupersession_implements transitionTask_implements)
qed

theorem mutation_valid_witness:
  "transitionTask (\<lambda>s. s) (snapshotToJs demo) demoClaim =
    Inr (\<lparr>m_snapshot = demo\<lparr>s_tasks := [demoDone, demoRunning]\<rparr>, m_changedTaskIds = [lit ''b'']\<rparr>,
         [event TaskTransitioned (lit ''b'') (Some 2) 3 (transitionDetails ClaimAccepted Ready Running)]) \<and>
   wf_snapshot (\<lambda>s. s) (demo\<lparr>s_tasks := [demoDone, demoRunning]\<rparr>)"
  using mutation_valid [of _ _ "\<lambda>s. s" "snapshotToJs demo" demoClaim] demo_claim by fastforce





section \<open>Validation of snapshots\<close>

text \<open>C19: A valid snapshot that the program built is read back unchanged.\<close>

theorem snapshot_roundtrip:
  assumes "wf_snapshot_in nfc mode decisionTaskId s"
  shows "parseSnapshot nfc (snapshotToJs s) mode decisionTaskId = Inr s"
  by (rule parseSnapshot_roundtrip [OF assms])

theorem snapshot_roundtrip_witness:
  "wf_snapshot (\<lambda>s. s) demo \<and> parseSnapshot (\<lambda>s. s) (snapshotToJs demo) CompleteMode None = Inr demo"
  using snapshot_roundtrip [OF demo_wf] demo_wf by blast

text \<open>
  C20: Validation admits only valid snapshots, whatever value it reads and in both modes; in
  decision mode only the Task under decision may have an unregistered Project or dependency.
\<close>

theorem snapshot_sound:
  assumes "parseSnapshot nfc v mode decisionTaskId = Inr s"
  shows "wf_snapshot_in nfc mode decisionTaskId s"
  by (rule parseSnapshot_wf [OF assms])

theorem snapshot_sound_witness:
  "parseSnapshot (\<lambda>s. s) (snapshotToJs demo) CompleteMode None = Inr demo \<and> wf_snapshot (\<lambda>s. s) demo"
  using snapshot_sound [of "\<lambda>s. s" "snapshotToJs demo" CompleteMode None demo] parseSnapshot_roundtrip [OF demo_wf]
  by simp

section \<open>The graph searches\<close>

text \<open>
  C21: The depth-first search \<open>dependencyCycle\<close> finds no cycle exactly when the dependency
  relation is acyclic.
\<close>

theorem dependencyCycle_decides:
  assumes "distinct (map t_id tasks)"
  shows "dependencyCycle tasks = None \<longleftrightarrow> acyclic (depRel tasks)"
  by (rule dependencyCycle_None_iff [OF assms])

theorem dependencyCycle_decides_witness:
  "dependencyCycle [demoDone, demoReady] = None \<and> acyclic (depRel [demoDone, demoReady])"
proof -
  have "distinct (map t_id [demoDone, demoReady])" by (simp add: demo_defs)
  moreover have "acyclic (depRel [demoDone, demoReady])"
    using demo_wf by (simp add: wf_snapshot_in_def demo_def)
  ultimately show ?thesis using dependencyCycle_decides [of "[demoDone, demoReady]"] by blast
qed

text \<open>
  The parent walk of \<open>parentCycle\<close> finds no cycle exactly when the parent relation is acyclic.
\<close>

theorem parentCycle_decides:
  assumes "distinct (map t_id tasks)"
  shows "parentCycle tasks = None \<longleftrightarrow> acyclic (parentRel tasks)"
  by (rule parentCycle_None_iff [OF assms])

theorem parentCycle_decides_witness:
  "parentCycle [demoDone\<lparr>t_parentId := Some (lit ''b'')\<rparr>, demoReady\<lparr>t_parentId := Some (lit ''a'')\<rparr>] \<noteq> None"
proof -
  let ?ts = "[demoDone\<lparr>t_parentId := Some (lit ''b'')\<rparr>, demoReady\<lparr>t_parentId := Some (lit ''a'')\<rparr>]"
  have "(lit ''a'', lit ''b'') \<in> parentRel ?ts" "(lit ''b'', lit ''a'') \<in> parentRel ?ts"
    by (force simp: parentRel_def demo_defs)+
  then have "\<not> acyclic (parentRel ?ts)" unfolding acyclic_def by (meson trancl.simps)
  moreover have "distinct (map t_id ?ts)" by (simp add: demo_defs)
  ultimately show ?thesis using parentCycle_decides [of ?ts] by blast
qed



text \<open>
  For a mutable Task and another Task of its Project that is not its parent yet,
  \<open>setTaskParent\<close> answers \<open>PARENT_CYCLE\<close> exactly when the new edge would close a cycle.
\<close>

theorem setTaskParent_cycle:
  assumes "wf_snapshot nfc s" and "live s i t" and "t_state t \<in> set GRAPH_MUTABLE_STATES"
    and "taskById s q = Some u" and "t_projectId u = t_projectId t" and "q \<noteq> i" and "t_parentId t \<noteq> Some q"
  shows "setTaskParent nfc (snapshotToJs s) (jsObj [(''taskId'', JStr i), (''parentId'', JStr q)])
      = invalid PARENT_CYCLE ''Proposed parent creates a cycle'' [(''taskId'', DetailStr i)]
    \<longleftrightarrow> \<not> acyclic (insert (i, q) (parentRel (s_tasks s)))"
proof -
  note t = live_require [OF assms(1,2)]
  have q: "q \<noteq> []" by (rule registered_not_Nil [OF assms(1,4)])
  have cyc: "acyclic (insert (i, q) (parentRel (s_tasks s))) \<longleftrightarrow> (q, i) \<notin> (parentRel (s_tasks s))\<^sup>*"
    using assms(1) by (simp add: acyclic_insert_iff wf_snapshot_in_def)
  have other: "r \<noteq> invalid PARENT_CYCLE ''Proposed parent creates a cycle'' [(''taskId'', DetailStr i)]"
    if "resultSnapshot r = Inr x" for r x using that by (auto simp: resultSnapshot_def)
  show ?thesis
  proof (cases "(q, i) \<in> (parentRel (s_tasks s))\<^sup>*")
    case True
    then have "cursorReaches (s_tasks s) i (Some u) []" by (simp only: cursorReaches_iff [OF assms(1,4)])
    with t q True assms cyc show ?thesis
      by (simp add: setTaskParent_def command_simps parseSnapshot_roundtrip isNullableIdentifier_def
        del: cursorReaches.simps)
  next
    case False
    have "runAction nfc (snapshotToJs s) (SetParent i (Some q)) =
        Inr (putTasks s [(i, nextCandidate t (\<lambda>t. t\<lparr>t_parentId := Some q\<rparr>))])"
      using False assms by (intro enabled_parent) auto
    with cyc False other show ?thesis by simp
  qed
qed

theorem setTaskParent_cycle_witness:
  "setTaskParent (\<lambda>s. s) (snapshotToJs chainCyclic) (jsObj [(''taskId'', JStr (lit ''a'')), (''parentId'', JStr (lit ''b''))])
    = invalid PARENT_CYCLE ''Proposed parent creates a cycle'' [(''taskId'', DetailStr (lit ''a''))]"
proof -
  let ?a = "chainTask ''a'' [] Idea 1 None"
  let ?b = "(chainTask ''b'' [lit ''a''] Idea 2 None)\<lparr>t_parentId := Some (lit ''a'')\<rparr>"
  have "(lit ''b'', lit ''a'') \<in> parentRel (s_tasks chainCyclic)" by (force simp: parentRel_def chainCyclic_def chain_simps)
  then have "\<not> acyclic (insert (lit ''a'', lit ''b'') (parentRel (s_tasks chainCyclic)))"
    by (auto simp: acyclic_insert_iff)
  moreover have "live chainCyclic (lit ''a'') ?a" "t_state ?a \<in> set GRAPH_MUTABLE_STATES"
    "taskById chainCyclic (lit ''b'') = Some ?b" "t_projectId ?b = t_projectId ?a"
    "lit ''b'' \<noteq> lit ''a''" "t_parentId ?a \<noteq> Some (lit ''b'')"
    by (simp_all add: chainCyclic_def chain_simps)
  ultimately show ?thesis using setTaskParent_cycle [OF chainCyclic_wf] by blast
qed

section \<open>Decisions\<close>

text \<open>
  C23: On a snapshot valid for the decision, \<open>evaluateTaskEligibility\<close> reports each reason that
  applies, once and nothing else, and the Task is eligible exactly when it is ready, its Project
  is registered and enabled and every dependency is completed.
\<close>

theorem eligibility_exact:
  assumes "wf_snapshot_in nfc DecisionMode (Some i) s" and "taskById s i = Some t" and "i \<noteq> []" and "label \<noteq> []"
  shows "\<exists>reasons. evaluateTaskEligibility nfc (snapshotToJs s)
        (jsObj [(''taskId'', JStr i), (''readRevision'', JStr label)]) =
      Inr (\<lparr>ed_taskId = i, ed_readRevision = label, ed_eligible = eligible s t, ed_reasons = reasons\<rparr>, []) \<and>
    distinct reasons \<and> (\<forall>r. r \<in> set reasons \<longleftrightarrow> eligibility_reason_holds s t r)"
proof -
  have "t_id t = i" using tasks.lookup_SomeD [OF assms(2)] by simp
  with assms show ?thesis
    by (intro exI [of _ "eligibilityReasons s t"])
      (simp add: evaluateTaskEligibility_def command_simps readRevision_def parseSnapshot_roundtrip success_def
        eligibilityReasons_Nil_iff set_eligibilityReasons eligibilityReasons_ordered)
qed

theorem eligibility_exact_witness:
  "\<exists>reasons. evaluateTaskEligibility (\<lambda>s. s) (snapshotToJs demo)
        (jsObj [(''taskId'', JStr (lit ''b'')), (''readRevision'', JStr (lit ''r1''))]) =
      Inr (\<lparr>ed_taskId = lit ''b'', ed_readRevision = lit ''r1'', ed_eligible = True, ed_reasons = reasons\<rparr>, []) \<and>
    (\<forall>r. r \<notin> set reasons)"
proof -
  have "wf_snapshot_in (\<lambda>s. s) DecisionMode (Some (lit ''b'')) demo"
    using demo_wf by (auto simp: wf_snapshot_in_def wf_references_def strictFor_def)
  from eligibility_exact [OF this demo_lookup(2), of "lit ''r1''"] demo_eligible show ?thesis
    using eligibilityReasons_Nil_iff [of demo demoReady] set_eligibilityReasons [of _ demo demoReady] by auto
qed

text \<open>
  On a snapshot valid for the decision, \<open>evaluateWaitingContinuation\<close> finds a resume or
  retry eligible exactly when the Task waits at the expected revision, its Project is enabled,
  its dependencies are completed, the receipt answers its required action, every recorded
  binding is the target's, and the execution is known (resume) or the wait is retryable and due
  (retry).
\<close>

theorem continuation_exact:
  assumes "parseContinuationCommand cv = Inr c" and "wf_snapshot_in nfc DecisionMode (Some (cc_taskId c)) s"
    and "taskById s (cc_taskId c) = Some t"
  shows "\<exists>reasons. evaluateWaitingContinuation nfc (snapshotToJs s) cv =
      Inr (\<lparr>cd_taskId = cc_taskId c, cd_readRevision = cc_readRevision c, cd_kind = cc_kind c,
            cd_eligible = continuable s t c, cd_reasons = reasons\<rparr>, []) \<and>
    (reasons = [] \<longleftrightarrow> continuable s t c)"
proof -
  have "t_id t = cc_taskId c" using tasks.lookup_SomeD [OF assms(3)] by simp
  with assms show ?thesis
    by (intro exI [of _ "continuationReasons s t c"])
      (simp add: evaluateWaitingContinuation_def guardPublicResult_def parseSnapshot_roundtrip success_def
        Let_def continuationReasons_Nil_iff)
qed

theorem continuation_exact_witness:
  "\<exists>reasons. evaluateWaitingContinuation (\<lambda>s. s) (snapshotToJs demo) demoRetry =
      Inr (\<lparr>cd_taskId = lit ''b'', cd_readRevision = lit ''r1'', cd_kind = RetryKind,
            cd_eligible = False, cd_reasons = reasons\<rparr>, []) \<and> reasons \<noteq> []"
proof -
  have "wf_snapshot_in (\<lambda>s. s) DecisionMode (Some (lit ''b'')) demo"
    using demo_wf by (auto simp: wf_snapshot_in_def wf_references_def strictFor_def)
  then have "wf_snapshot_in (\<lambda>s. s) DecisionMode (Some (cc_taskId demoRetryCommand)) demo"
    "taskById demo (cc_taskId demoRetryCommand) = Some demoReady"
    by (simp_all add: demoRetryCommand_def)
  from continuation_exact [OF demo_retry_parse this] show ?thesis
    by (simp add: demoRetryCommand_def continuable_def) (simp add: demoReady_def)
qed

section \<open>Transitions\<close>

text \<open>
  A step changes the state of a Task only along the authoritative relation.
\<close>

theorem states_follow_relation:
  assumes "domain_step nfc s a s'" and "wf_snapshot nfc s"
    and "taskById s i = Some t" and "taskById s' i = Some t'" and "t_state t' \<noteq> t_state t"
  shows "\<exists>e. (t_state t, t_state t', e) \<in> set TASK_TRANSITIONS"
  using domain_step_task [OF assms(1-3)] assms(4,5) by (auto simp: task_change_def)

theorem states_follow_relation_witness:
  "\<exists>e. (t_state demoReady, t_state demoRunning, e) \<in> set TASK_TRANSITIONS"
proof -
  have ok: "step_ok (\<lambda>s. s) demo [(lit ''b'', demoRunning)]" by (rule task_step_ok [OF demo_claim_step demo_wf])
  have "taskById (putTasks demo [(lit ''b'', demoRunning)]) (lit ''b'') = Some demoRunning"
    by (simp add: taskById_putTasks [OF demo_wf ok])
  moreover have "t_state demoRunning \<noteq> t_state demoReady" by (simp add: demoRunning_def demoReady_def)
  ultimately show ?thesis
    using states_follow_relation [OF step_task [OF demo_claim_step] demo_wf demo_lookup(2)] by blast
qed



section \<open>Creating Tasks and enabling Projects\<close>

text \<open>
  C25: \<open>createTask\<close> on a valid snapshot with well-formed identifiers: the four refusals in their
  order, and otherwise the snapshot with the new Task in idea at revision 1, in its sorted place.
\<close>

theorem createTask_behaviour:
  assumes "wf_snapshot nfc s" and "i \<noteq> []" and "p \<noteq> []" and "x \<noteq> Some []"
  shows "createTask nfc (snapshotToJs s) (jsObj [(''id'', JStr i), (''projectId'', JStr p), (''body'', JStr b),
      (''supersedesTaskId'', jsNullable JStr x)]) =
    (if taskById s i \<noteq> None
     then invalid TASK_ALREADY_EXISTS ''Task identity is already registered'' [(''taskId'', DetailStr i)]
     else if projectById s p = None
     then invalid PROJECT_NOT_FOUND ''Task Project is not registered'' [(''projectId'', DetailStr p)]
     else if x = Some i
     then invalid SUPERSESSION_SELF ''Task cannot supersede itself'' [(''taskId'', DetailStr i)]
     else if (case x of None \<Rightarrow> False | Some y \<Rightarrow> taskById s y = None)
     then invalid SUPERSESSION_NOT_FOUND ''Superseded Task is not registered'' [(''taskId'', detailOfNullable x)]
     else Inr (\<lparr>m_snapshot = s\<lparr>s_tasks := sort_key t_id (s_tasks s @ [newTask i p b x])\<rparr>,
                m_changedTaskIds = [i]\<rparr>, [event TaskCreated i None 1 []]))"
  by (rule createTask_eq [OF assms])

theorem createTask_behaviour_witness:
  "createTask (\<lambda>s. s) (snapshotToJs demo) (jsObj [(''id'', JStr (lit ''b'')), (''projectId'', JStr (lit ''p'')),
      (''body'', JStr []), (''supersedesTaskId'', JNull)]) =
    invalid TASK_ALREADY_EXISTS ''Task identity is already registered'' [(''taskId'', DetailStr (lit ''b''))]"
  using createTask_behaviour [OF demo_wf, of "lit ''b''" "lit ''p''" None "[]"] by simp

end
