(* ===== verification/Js_Date.thy ===== *)
theory Js_Date
  imports Js_Value
begin

text \<open>
  The part of JavaScript's \<open>Date\<close> that the program relies on: a timestamp is a string that
  \<open>new Date(value).toISOString()\<close> gives back unchanged, that is, the ISO rendering of a time value.
  Years 0 to 9999 have four digits; all other years have a sign and six digits. The calendar
  follows the formulas of ECMA-262 (\<open>DayFromYear\<close>, \<open>InLeapYear\<close>, \<open>MakeDay\<close>, \<open>MakeDate\<close>). The main
  result is that the string order that the program compares timestamps with is the order of
  time for four-digit years.
\<close>

section \<open>The calendar\<close>

definition DayFromYear :: "int \<Rightarrow> int" where
  "DayFromYear y = 365 * (y - 1970) + (y - 1969) div 4 - (y - 1901) div 100 + (y - 1601) div 400"

definition InLeapYear :: "int \<Rightarrow> bool" where
  "InLeapYear y \<longleftrightarrow> y mod 4 = 0 \<and> (y mod 100 \<noteq> 0 \<or> y mod 400 = 0)"

definition daysInMonth :: "int \<Rightarrow> int \<Rightarrow> int" where
  "daysInMonth y m =
     (if m = 2 then (if InLeapYear y then 29 else 28) else if m \<in> {4, 6, 9, 11} then 30 else 31)"

definition daysBeforeMonth :: "int \<Rightarrow> int \<Rightarrow> int" where
  "daysBeforeMonth y m = sum_list (map (daysInMonth y) [1..m - 1])"

definition MakeDay :: "int \<Rightarrow> int \<Rightarrow> int \<Rightarrow> int" where
  "MakeDay y m d = DayFromYear y + daysBeforeMonth y m + d - 1"

record date_time =
  dt_year :: int
  dt_month :: int
  dt_day :: int
  dt_hour :: int
  dt_minute :: int
  dt_second :: int
  dt_milli :: int

definition timeValue :: "date_time \<Rightarrow> int" where
  "timeValue t = MakeDay (dt_year t) (dt_month t) (dt_day t) * 86400000 +
     dt_hour t * 3600000 + dt_minute t * 60000 + dt_second t * 1000 + dt_milli t"

definition validDateTime :: "date_time \<Rightarrow> bool" where
  "validDateTime t \<longleftrightarrow>
     1 \<le> dt_month t \<and> dt_month t \<le> 12 \<and> 1 \<le> dt_day t \<and> dt_day t \<le> daysInMonth (dt_year t) (dt_month t) \<and>
     0 \<le> dt_hour t \<and> dt_hour t \<le> 23 \<and> 0 \<le> dt_minute t \<and> dt_minute t \<le> 59 \<and>
     0 \<le> dt_second t \<and> dt_second t \<le> 59 \<and> 0 \<le> dt_milli t \<and> dt_milli t \<le> 999 \<and>
     - 8640000000000000 \<le> timeValue t \<and> timeValue t \<le> 8640000000000000"

section \<open>Reading the ISO format\<close>

definition isDigit :: "code_unit \<Rightarrow> bool" where
  "isDigit c \<longleftrightarrow> 48 \<le> unat c \<and> unat c \<le> 57"

definition digitOf :: "code_unit \<Rightarrow> int" where
  "digitOf c = int (unat c) - 48"

definition digitsValue :: "jsstr \<Rightarrow> int" where
  "digitsValue ds = foldl (\<lambda>n c. n * 10 + digitOf c) 0 ds"

fun chunks :: "nat list \<Rightarrow> 'a list \<Rightarrow> 'a list list option" where
  "chunks [] xs = (if xs = [] then Some [] else None)"
| "chunks (n # ns) xs =
     (if length xs < n then None else map_option ((#) (take n xs)) (chunks ns (drop n xs)))"

text \<open>The separators and digit groups after the year: \<open>-MM-DDTHH:mm:ss.sssZ\<close>.\<close>

definition isoTail :: "jsstr list \<Rightarrow> bool" where
  "isoTail cs \<longleftrightarrow>
     map (\<lambda>i. cs ! i) [0, 2, 4, 6, 8, 10, 12] = map lit [''-'', ''-'', ''T'', '':'', '':'', ''.'', ''Z''] \<and>
     list_all (\<lambda>i. list_all isDigit (cs ! i)) [1, 3, 5, 7, 9, 11]"

definition isoTailFields :: "int \<Rightarrow> jsstr list \<Rightarrow> date_time" where
  "isoTailFields year cs =
     \<lparr>dt_year = year, dt_month = digitsValue (cs ! 1), dt_day = digitsValue (cs ! 3),
      dt_hour = digitsValue (cs ! 5), dt_minute = digitsValue (cs ! 7), dt_second = digitsValue (cs ! 9),
      dt_milli = digitsValue (cs ! 11)\<rparr>"

definition isoTailWidths :: "nat list" where
  "isoTailWidths = [1, 2, 1, 2, 1, 2, 1, 2, 1, 2, 1, 3, 1]"

definition parseShortIso :: "jsstr \<Rightarrow> date_time option" where
  "parseShortIso v =
     (case chunks (4 # isoTailWidths) v of
        Some (y # cs) \<Rightarrow>
          if list_all isDigit y \<and> isoTail cs then Some (isoTailFields (digitsValue y) cs) else None
      | _ \<Rightarrow> None)"

definition parseLongIso :: "jsstr \<Rightarrow> date_time option" where
  "parseLongIso v =
     (case chunks (1 # 6 # isoTailWidths) v of
        Some (sign # y # cs) \<Rightarrow>
          if \<not> list_all isDigit y \<or> \<not> isoTail cs then None
          else if sign = lit ''+'' \<and> digitsValue y > 9999 then Some (isoTailFields (digitsValue y) cs)
          else if sign = lit ''-'' \<and> digitsValue y > 0 then Some (isoTailFields (- digitsValue y) cs)
          else None
      | _ \<Rightarrow> None)"

definition parseIso :: "jsstr \<Rightarrow> date_time option" where
  "parseIso v = (case parseShortIso v of Some t \<Rightarrow> Some t | None \<Rightarrow> parseLongIso v)"

text \<open>\<open>Number.isFinite(date.valueOf()) && date.toISOString() === value\<close>\<close>

definition isIsoString :: "jsstr \<Rightarrow> bool" where
  "isIsoString v \<longleftrightarrow> (case parseIso v of Some t \<Rightarrow> validDateTime t | None \<Rightarrow> False)"

section \<open>The order of the calendar\<close>

lemma div_succ:
  fixes x k :: int
  assumes "0 < k"
  shows "(x + 1) div k = x div k + (if (x + 1) mod k = 0 then 1 else 0)"
proof (cases "x mod k = k - 1")
  case True
  then have "x + 1 = k * (x div k + 1) + 0"
    using mult_div_mod_eq [of k x] by (simp add: distrib_left)
  from int_div_pos_eq [OF this] int_mod_pos_eq [OF this] assms show ?thesis by simp
next
  case False
  then have "x mod k + 1 < k" "0 \<le> x mod k"
    using pos_mod_bound [OF assms, of x] pos_mod_sign [OF assms, of x] by linarith+
  moreover have "x + 1 = k * (x div k) + (x mod k + 1)" using mult_div_mod_eq [of k x] by simp
  ultimately show ?thesis
    using int_div_pos_eq [of "x + 1" k "x div k" "x mod k + 1"]
      int_mod_pos_eq [of "x + 1" k "x div k" "x mod k + 1"] by simp
qed

lemma mod_shift: "(y - c) mod k = 0 \<longleftrightarrow> y mod k = c mod k" for y c k :: int
  by (metis mod_eq_dvd_iff dvd_eq_mod_eq_0)

text \<open>A year has the number of days that the leap rule gives it.\<close>

lemma DayFromYear_Suc: "DayFromYear (y + 1) = DayFromYear y + (if InLeapYear y then 366 else 365)"
proof -
  have s: "y + 1 - 1969 = (y - 1969) + 1" "y + 1 - 1901 = (y - 1901) + 1" "y + 1 - 1601 = (y - 1601) + 1" by simp_all
  have m: "(y - 1969 + 1) mod 4 = 0 \<longleftrightarrow> y mod 4 = 0" "(y - 1901 + 1) mod 100 = 0 \<longleftrightarrow> y mod 100 = 0"
    "(y - 1601 + 1) mod 400 = 0 \<longleftrightarrow> y mod 400 = 0"
    using mod_shift [of y 1968 4] mod_shift [of y 1900 100] mod_shift [of y 1600 400] by simp_all
  have "y mod 400 = 0 \<Longrightarrow> y mod 100 = 0" "y mod 100 = 0 \<Longrightarrow> y mod 4 = 0"
    using dvd_trans [of 100 400 y] dvd_trans [of 4 100 y] by (simp_all add: dvd_eq_mod_eq_0)
  then show ?thesis
    unfolding DayFromYear_def s div_succ [of 4, simplified] div_succ [of 100, simplified] div_succ [of 400, simplified] m
    by (cases "y mod 400 = 0"; cases "y mod 100 = 0"; cases "y mod 4 = 0") (simp_all add: InLeapYear_def)
qed

lemma DayFromYear_add: "DayFromYear y + 365 * int n \<le> DayFromYear (y + int n)"
proof (induction n)
  case (Suc n)
  then show ?case using DayFromYear_Suc [of "y + int n"] by (simp add: algebra_simps split: if_splits)
qed simp

lemma DayFromYear_less:
  assumes "y < y'"
  shows "DayFromYear y + (if InLeapYear y then 366 else 365) \<le> DayFromYear y'"
proof -
  obtain n where "y' = y + 1 + int n" using zle_iff_zadd [of "y + 1" y'] assms by auto
  then show ?thesis using DayFromYear_add [of "y + 1" n] DayFromYear_Suc [of y] by (simp split: if_splits)
qed

text \<open>The months of a year follow each other and fill it.\<close>

lemma daysBeforeMonth_Suc:
  "1 \<le> m \<Longrightarrow> daysBeforeMonth y (m + 1) = daysBeforeMonth y m + daysInMonth y m"
  by (simp add: daysBeforeMonth_def upto_rec2)

lemma daysInMonth_pos: "0 < daysInMonth y m"
  by (simp add: daysInMonth_def)

lemma daysBeforeMonth_add: "1 \<le> m \<Longrightarrow> daysBeforeMonth y m \<le> daysBeforeMonth y (m + int n)"
proof (induction n)
  case (Suc n)
  then show ?case
    using daysBeforeMonth_Suc [of "m + int n" y] daysInMonth_pos [of y "m + int n"] by (simp add: algebra_simps)
qed simp

lemma daysBeforeMonth_less:
  assumes "1 \<le> m" "m < m'"
  shows "daysBeforeMonth y m + daysInMonth y m \<le> daysBeforeMonth y m'"
proof -
  obtain n where "m' = m + 1 + int n" using zle_iff_zadd [of "m + 1" m'] assms by auto
  then show ?thesis using daysBeforeMonth_add [of "m + 1" y n] daysBeforeMonth_Suc [of m y] assms by simp
qed

lemma daysBeforeMonth_13: "daysBeforeMonth y 13 = (if InLeapYear y then 366 else 365)"
  by (simp add: daysBeforeMonth_def daysInMonth_def upto_rec1)

lemma daysBeforeMonth_nonneg: "1 \<le> m \<Longrightarrow> 0 \<le> daysBeforeMonth y m"
  by (auto simp: daysBeforeMonth_def intro!: sum_list_nonneg less_imp_le [OF daysInMonth_pos])

text \<open>The fields of a valid date and time are ordered as their time values.\<close>

definition fields :: "date_time \<Rightarrow> int list" where
  "fields t = [dt_year t, dt_month t, dt_day t, dt_hour t, dt_minute t, dt_second t, dt_milli t]"

definition clock :: "date_time \<Rightarrow> int" where
  "clock t = dt_hour t * 3600000 + dt_minute t * 60000 + dt_second t * 1000 + dt_milli t"

lemma clock_range: "validDateTime t \<Longrightarrow> 0 \<le> clock t \<and> clock t < 86400000"
  by (simp add: validDateTime_def clock_def)

lemma day_less:
  assumes "validDateTime t" "validDateTime u"
    and "dt_year t < dt_year u \<or> dt_year t = dt_year u \<and>
      (dt_month t < dt_month u \<or> dt_month t = dt_month u \<and> dt_day t < dt_day u)"
  shows "MakeDay (dt_year t) (dt_month t) (dt_day t) < MakeDay (dt_year u) (dt_month u) (dt_day u)"
proof -
  have t: "1 \<le> dt_month t" "dt_month t \<le> 12" "dt_day t \<le> daysInMonth (dt_year t) (dt_month t)"
    and u: "1 \<le> dt_month u" "1 \<le> dt_day u"
    using assms(1,2) by (simp_all add: validDateTime_def)
  have "daysBeforeMonth (dt_year t) (dt_month t) + dt_day t \<le> (if InLeapYear (dt_year t) then 366 else 365)"
    using daysBeforeMonth_less [of "dt_month t" 13 "dt_year t"] t daysBeforeMonth_13 [of "dt_year t"] by simp
  moreover have "0 \<le> daysBeforeMonth (dt_year u) (dt_month u)" using u by (simp add: daysBeforeMonth_nonneg)
  ultimately have year: ?thesis if "dt_year t < dt_year u"
    using DayFromYear_less [OF that] u by (simp add: MakeDay_def split: if_splits)
  have month: ?thesis if "dt_year t = dt_year u" "dt_month t < dt_month u"
    using daysBeforeMonth_less [OF t(1) that(2), of "dt_year u"] t u that(1) by (simp add: MakeDay_def)
  from assms(3) year month show ?thesis by (auto simp: MakeDay_def)
qed

lemma fields_less_imp:
  assumes "validDateTime t" "validDateTime u" "fields t < fields u"
  shows "timeValue t < timeValue u"
proof -
  let ?day = "\<lambda>t. MakeDay (dt_year t) (dt_month t) (dt_day t)"
  have tv: "timeValue x = ?day x * 86400000 + clock x" for x by (simp add: timeValue_def clock_def)
  note r = clock_range [OF assms(1)] clock_range [OF assms(2)]
  have "?day t < ?day u \<or> ?day t = ?day u \<and> clock t < clock u"
  proof (cases "dt_year t = dt_year u \<and> dt_month t = dt_month u \<and> dt_day t = dt_day u")
    case True
    with assms show ?thesis by (auto simp: fields_def clock_def validDateTime_def)
  next
    case False
    with assms(3) have "dt_year t < dt_year u \<or> dt_year t = dt_year u \<and>
      (dt_month t < dt_month u \<or> dt_month t = dt_month u \<and> dt_day t < dt_day u)"
      by (auto simp: fields_def)
    from day_less [OF assms(1,2) this] show ?thesis by blast
  qed
  with r show ?thesis unfolding tv by auto
qed

lemma fields_less_iff:
  assumes "validDateTime t" "validDateTime u"
  shows "fields t < fields u \<longleftrightarrow> timeValue t < timeValue u"
proof -
  have "fields t = fields u \<Longrightarrow> timeValue t = timeValue u"
    by (simp add: fields_def timeValue_def)
  then show ?thesis
    using fields_less_imp [OF assms] fields_less_imp [OF assms(2,1)]
    by (metis less_asym linorder_less_linear)
qed

section \<open>The order of the strings\<close>

lemma chunks_Some: "chunks ns v = Some vs \<Longrightarrow> concat vs = v \<and> map length vs = ns"
  by (induction ns v arbitrary: vs rule: chunks.induct) (auto split: if_splits)

lemma append_less_iff:
  fixes xs ys :: "'a::linorder list"
  assumes "length xs = length ys"
  shows "xs @ a < ys @ b \<longleftrightarrow> xs < ys \<or> xs = ys \<and> a < b"
  using assms by (induction xs ys rule: list_induct2) auto

lemma concat_less_iff:
  fixes vs ws :: "'a::linorder list list"
  shows "map length vs = map length ws \<Longrightarrow> concat vs < concat ws \<longleftrightarrow> vs < ws"
proof (induction vs arbitrary: ws)
  case (Cons v vs)
  then obtain w ws' where "ws = w # ws'" "length v = length w" "map length vs = map length ws'"
    by (cases ws) auto
  with Cons.IH show ?case by (simp add: append_less_iff)
qed simp

lemma digitOf_range: "isDigit c \<Longrightarrow> 0 \<le> digitOf c \<and> digitOf c \<le> 9"
  unfolding isDigit_def digitOf_def by linarith

lemma digitOf_less_iff: "digitOf c < digitOf d \<longleftrightarrow> c < d"
  unfolding digitOf_def word_less_nat_alt by linarith

lemma digitsValue_foldl: "foldl (\<lambda>n c. n * 10 + digitOf c) a ds = a * 10 ^ length ds + digitsValue ds"
proof (induction ds arbitrary: a)
  case (Cons c ds)
  have "foldl (\<lambda>n c. n * 10 + digitOf c) a (c # ds) = (a * 10 + digitOf c) * 10 ^ length ds + digitsValue ds"
    using Cons [of "a * 10 + digitOf c"] by simp
  moreover have "digitsValue (c # ds) = digitOf c * 10 ^ length ds + digitsValue ds"
    using Cons [of "digitOf c"] by (simp add: digitsValue_def [of "c # ds"])
  ultimately show ?case by (simp add: algebra_simps)
qed (simp add: digitsValue_def)

lemma digitsValue_Cons: "digitsValue (c # ds) = digitOf c * 10 ^ length ds + digitsValue ds"
  using digitsValue_foldl [of "digitOf c" ds] by (simp add: digitsValue_def [of "c # ds"])

lemma digitsValue_range: "list_all isDigit ds \<Longrightarrow> 0 \<le> digitsValue ds \<and> digitsValue ds < 10 ^ length ds"
proof (induction ds)
  case (Cons c ds)
  then have c: "0 \<le> digitOf c" "digitOf c \<le> 9" by (simp_all add: digitOf_range)
  have "digitOf c * 10 ^ length ds \<le> 9 * 10 ^ length ds" "0 \<le> digitOf c * 10 ^ length ds"
    using c by (auto intro: mult_right_mono)
  moreover have "0 \<le> digitsValue ds" "digitsValue ds < 10 ^ length ds" using Cons by auto
  ultimately show ?case unfolding digitsValue_Cons length_Cons power_Suc by linarith
qed (simp add: digitsValue_def)

lemma digits_less_iff:
  assumes "length a = length b" "list_all isDigit a" "list_all isDigit b"
  shows "a < b \<longleftrightarrow> digitsValue a < digitsValue b"
  using assms
proof (induction a b rule: list_induct2)
  case (Cons c cs d ds)
  have r: "0 \<le> digitsValue cs" "digitsValue cs < 10 ^ length cs" "0 \<le> digitsValue ds" "digitsValue ds < 10 ^ length cs"
    using digitsValue_range [of cs] digitsValue_range [of ds] Cons by auto
  have eq: "digitsValue (c # cs) - digitsValue (d # ds) =
      (digitOf c - digitOf d) * 10 ^ length cs + (digitsValue cs - digitsValue ds)"
    using Cons.hyps by (simp add: digitsValue_Cons algebra_simps)
  consider "digitOf c < digitOf d" | "c = d" | "digitOf d < digitOf c"
    by (metis digitOf_less_iff linorder_less_linear)
  then show ?case
  proof cases
    case 1
    then have "(digitOf c - digitOf d) * 10 ^ length cs \<le> (- 1) * 10 ^ length cs"
      by (intro mult_right_mono) auto
    with eq r have "digitsValue (c # cs) < digitsValue (d # ds)" by linarith
    with 1 show ?thesis by (simp add: digitOf_less_iff)
  next
    case 2
    with Cons show ?thesis by (simp add: digitsValue_Cons)
  next
    case 3
    then have "1 * 10 ^ length cs \<le> (digitOf c - digitOf d) * 10 ^ length cs"
      by (intro mult_right_mono) auto
    with eq r have "\<not> digitsValue (c # cs) < digitsValue (d # ds)" by linarith
    moreover have "d < c" using 3 by (simp add: digitOf_less_iff)
    ultimately show ?thesis by auto
  qed
qed simp

lemma digits_eq_iff:
  "length a = length b \<Longrightarrow> list_all isDigit a \<Longrightarrow> list_all isDigit b \<Longrightarrow> a = b \<longleftrightarrow> digitsValue a = digitsValue b"
  using digits_less_iff [of a b] digits_less_iff [of b a] by (metis less_irrefl linorder_less_linear)

lemma length_13:
  "map length cs = isoTailWidths \<Longrightarrow> \<exists>c0 c1 c2 c3 c4 c5 c6 c7 c8 c9 c10 c11 c12.
    cs = [c0, c1, c2, c3, c4, c5, c6, c7, c8, c9, c10, c11, c12]"
  by (auto simp: isoTailWidths_def map_eq_Cons_conv)

lemma isoTail_less_iff:
  assumes "map length cs = isoTailWidths" "map length ds = isoTailWidths" "isoTail cs" "isoTail ds"
  shows "cs < ds \<longleftrightarrow> tl (fields (isoTailFields y cs)) < tl (fields (isoTailFields z ds))"
proof -
  obtain c0 c1 c2 c3 c4 c5 c6 c7 c8 c9 c10 c11 c12 where
    c: "cs = [c0, c1, c2, c3, c4, c5, c6, c7, c8, c9, c10, c11, c12]" using length_13 [OF assms(1)] by blast
  obtain d0 d1 d2 d3 d4 d5 d6 d7 d8 d9 d10 d11 d12 where
    d: "ds = [d0, d1, d2, d3, d4, d5, d6, d7, d8, d9, d10, d11, d12]" using length_13 [OF assms(2)] by blast
  have seps: "c0 = d0" "c2 = d2" "c4 = d4" "c6 = d6" "c8 = d8" "c10 = d10" "c12 = d12"
    using assms(3,4) by (simp_all add: isoTail_def c d)
  have digits: "list_all isDigit c1" "list_all isDigit c3" "list_all isDigit c5" "list_all isDigit c7"
    "list_all isDigit c9" "list_all isDigit c11" "list_all isDigit d1" "list_all isDigit d3" "list_all isDigit d5"
    "list_all isDigit d7" "list_all isDigit d9" "list_all isDigit d11"
    using assms(3,4) by (simp_all add: isoTail_def c d)
  have lens: "length c1 = length d1" "length c3 = length d3" "length c5 = length d5" "length c7 = length d7"
    "length c9 = length d9" "length c11 = length d11"
    using assms(1,2) by (simp_all add: isoTailWidths_def c d)
  note less = digits_less_iff [OF lens(1) digits(1,7)] digits_less_iff [OF lens(2) digits(2,8)]
    digits_less_iff [OF lens(3) digits(3,9)] digits_less_iff [OF lens(4) digits(4,10)]
    digits_less_iff [OF lens(5) digits(5,11)] digits_less_iff [OF lens(6) digits(6,12)]
  note eq = digits_eq_iff [OF lens(1) digits(1,7)] digits_eq_iff [OF lens(2) digits(2,8)]
    digits_eq_iff [OF lens(3) digits(3,9)] digits_eq_iff [OF lens(4) digits(4,10)]
    digits_eq_iff [OF lens(5) digits(5,11)] digits_eq_iff [OF lens(6) digits(6,12)]
  show ?thesis
    by (simp add: c d seps fields_def isoTailFields_def less eq)
qed

lemma parseShortIso_Some:
  assumes "parseShortIso v = Some t"
  obtains y cs where "v = concat (y # cs)" "length y = 4" "map length cs = isoTailWidths" "list_all isDigit y"
    "isoTail cs" "t = isoTailFields (digitsValue y) cs"
proof -
  from assms obtain y cs where c: "chunks (4 # isoTailWidths) v = Some (y # cs)"
    and "list_all isDigit y" "isoTail cs" "t = isoTailFields (digitsValue y) cs"
    unfolding parseShortIso_def by (auto simp del: chunks.simps split: option.splits list.splits if_splits)
  then show thesis using chunks_Some [OF c] by (intro that [of y cs]) auto
qed

theorem parseShortIso_less_iff:
  assumes "parseShortIso v = Some t" "parseShortIso w = Some u"
  shows "v < w \<longleftrightarrow> fields t < fields u"
proof -
  from assms(1) obtain y cs where v: "v = concat (y # cs)" "length y = 4" "map length cs = isoTailWidths"
    "list_all isDigit y" "isoTail cs" "t = isoTailFields (digitsValue y) cs" by (rule parseShortIso_Some)
  from assms(2) obtain z ds where w: "w = concat (z # ds)" "length z = 4" "map length ds = isoTailWidths"
    "list_all isDigit z" "isoTail ds" "u = isoTailFields (digitsValue z) ds" by (rule parseShortIso_Some)
  have "v < w \<longleftrightarrow> y # cs < z # ds"
    unfolding v(1) w(1) by (rule concat_less_iff) (simp add: v w)
  also have "\<dots> \<longleftrightarrow> digitsValue y < digitsValue z \<or> digitsValue y = digitsValue z \<and> cs < ds"
    using digits_less_iff [of y z] digits_eq_iff [of y z] v w by simp
  also have "\<dots> \<longleftrightarrow> fields t < fields u"
    using isoTail_less_iff [OF v(3) w(3) v(5) w(5)] by (simp add: v(6) w(6) fields_def isoTailFields_def)
  finally show ?thesis .
qed

section \<open>Comparing timestamps\<close>

text \<open>A timestamp with a four-digit year and the moment it denotes.\<close>

definition shortTimestamp :: "jsstr \<Rightarrow> bool" where
  "shortTimestamp v \<longleftrightarrow> isIsoString v \<and> length v = 24"

definition momentOf :: "jsstr \<Rightarrow> int" where
  "momentOf v = (case parseIso v of Some t \<Rightarrow> timeValue t | None \<Rightarrow> 0)"

lemma chunks_length: "chunks ns v = Some vs \<Longrightarrow> length v = sum_list ns"
  by (drule chunks_Some) (metis length_concat)

lemma parseLongIso_length: "parseLongIso v = Some t \<Longrightarrow> length v = 27"
  unfolding parseLongIso_def
  by (auto simp del: chunks.simps dest!: chunks_length split: option.splits list.splits if_splits)
    (simp_all add: isoTailWidths_def)

lemma parseShortIso_length: "parseShortIso v = Some t \<Longrightarrow> length v = 24"
  unfolding parseShortIso_def
  by (auto simp del: chunks.simps dest!: chunks_length split: option.splits list.splits if_splits)
    (simp_all add: isoTailWidths_def)

lemma isIsoString_length: "isIsoString v \<Longrightarrow> length v = 24 \<or> length v = 27"
  unfolding isIsoString_def parseIso_def
  by (auto split: option.splits dest: parseShortIso_length parseLongIso_length)

lemma shortTimestamp_parse:
  assumes "shortTimestamp v"
  obtains t where "parseShortIso v = Some t" "validDateTime t" "momentOf v = timeValue t"
  using assms parseLongIso_length [of v]
  by (auto simp: shortTimestamp_def isIsoString_def momentOf_def parseIso_def split: option.splits)

theorem shortTimestamp_less_iff:
  assumes "shortTimestamp v" "shortTimestamp w"
  shows "v < w \<longleftrightarrow> momentOf v < momentOf w"
proof -
  from assms(1) obtain t where t: "parseShortIso v = Some t" "validDateTime t" "momentOf v = timeValue t"
    by (rule shortTimestamp_parse)
  from assms(2) obtain u where u: "parseShortIso w = Some u" "validDateTime u" "momentOf w = timeValue u"
    by (rule shortTimestamp_parse)
  show ?thesis
    using parseShortIso_less_iff [OF t(1) u(1)] fields_less_iff [OF t(2) u(2)] t(3) u(3) by simp
qed

lemma shortTimestamp_le_iff:
  assumes "shortTimestamp v" "shortTimestamp w"
  shows "v \<le> w \<longleftrightarrow> momentOf v \<le> momentOf w"
  using shortTimestamp_less_iff [OF assms(2,1)] by (simp flip: not_less)

end
