(* ===== verification/Authorization.thy ===== *)
theory Authorization
  imports Js_Date
begin

text \<open>
  The authorization rules of \<^verbatim>\<open>src/authorization.ts\<close>: the action vocabularies, grants and their
  scopes, the evaluation of a request against a set of grants, and the rule by which an actor
  may issue a grant. Actions are strings, as in the source; a timestamp is an ISO string (theory
  Js_Date) and timestamps are compared as strings.
\<close>

section \<open>Actions\<close>

definition BASE_AUTHORIZATION_ACTIONS :: "string list" where
  "BASE_AUTHORIZATION_ACTIONS =
     [''authorization.grant.issue'', ''authorization.grant.inspect'',
      ''authorization.grant.revoke'', ''policy.evaluate'', ''project.register'',
      ''project.update'', ''project.disable'', ''project.inspect'', ''task.create'',
      ''task.update'', ''task.mark_ready'', ''task.cancel'', ''task.inspect'',
      ''dependency.add'', ''dependency.remove'', ''authorization.grant.list'',
      ''runtime.status'', ''runtime.backup'', ''runtime.restore'']"

definition EXECUTION_AUTHORIZATION_ACTIONS :: "string list" where
  "EXECUTION_AUTHORIZATION_ACTIONS =
     [''execution.claim'', ''execution.claim.inspect'', ''execution.lease.renew'',
      ''execution.lease.takeover'']"

definition CLAIM_AUTHORIZATION_ACTIONS :: "string list" where
  "CLAIM_AUTHORIZATION_ACTIONS = BASE_AUTHORIZATION_ACTIONS @ EXECUTION_AUTHORIZATION_ACTIONS"

definition MANUAL_EXECUTION_AUTHORIZATION_ACTIONS :: "string list" where
  "MANUAL_EXECUTION_AUTHORIZATION_ACTIONS =
     [''execution.start'', ''execution.inspect'', ''execution.resume'', ''execution.retry'',
      ''execution.cancel'', ''execution.completion.accept'']"

definition MANUAL_AUTHORIZATION_ACTIONS :: "string list" where
  "MANUAL_AUTHORIZATION_ACTIONS = CLAIM_AUTHORIZATION_ACTIONS @ MANUAL_EXECUTION_AUTHORIZATION_ACTIONS"

definition DISPATCH_AUTHORIZATION_ACTIONS :: "string list" where
  "DISPATCH_AUTHORIZATION_ACTIONS =
     [''dispatch.run'']"

definition DISPATCHER_AUTHORIZATION_ACTIONS :: "string list" where
  "DISPATCHER_AUTHORIZATION_ACTIONS = MANUAL_AUTHORIZATION_ACTIONS @ DISPATCH_AUTHORIZATION_ACTIONS"

definition WORKSPACE_AUTHORIZATION_ACTIONS :: "string list" where
  "WORKSPACE_AUTHORIZATION_ACTIONS =
     [''workspace.reserve'', ''workspace.create'', ''workspace.inspect'',
      ''workspace.recover'', ''workspace.cleanup'']"

definition COMPLETION_INTEGRATION_AUTHORIZATION_ACTIONS :: "string list" where
  "COMPLETION_INTEGRATION_AUTHORIZATION_ACTIONS =
     [''completion.gate.run'', ''completion.gate.inspect'', ''completion.gate.cancel'',
      ''completion.accept'', ''integration.reserve'', ''integration.inspect'',
      ''integration.lease.renew'', ''integration.lease.takeover'', ''integration.apply'',
      ''integration.push'', ''integration.recover'', ''integration.release'']"

definition WORKSPACE_STAGE_AUTHORIZATION_ACTIONS :: "string list" where
  "WORKSPACE_STAGE_AUTHORIZATION_ACTIONS = DISPATCHER_AUTHORIZATION_ACTIONS @ WORKSPACE_AUTHORIZATION_ACTIONS"

definition PHASE3_AUTHORIZATION_ACTIONS :: "string list" where
  "PHASE3_AUTHORIZATION_ACTIONS = WORKSPACE_STAGE_AUTHORIZATION_ACTIONS @ COMPLETION_INTEGRATION_AUTHORIZATION_ACTIONS"

definition SCHEDULER_AUTHORIZATION_ACTIONS :: "string list" where
  "SCHEDULER_AUTHORIZATION_ACTIONS =
     [''scheduler.register'', ''scheduler.inspect'', ''scheduler.remove'']"

definition SCHEDULER_STAGE_AUTHORIZATION_ACTIONS :: "string list" where
  "SCHEDULER_STAGE_AUTHORIZATION_ACTIONS = PHASE3_AUTHORIZATION_ACTIONS @ SCHEDULER_AUTHORIZATION_ACTIONS"

definition CODEX_AUTHORIZATION_ACTIONS :: "string list" where
  "CODEX_AUTHORIZATION_ACTIONS =
     [''codex.profile.activate'', ''codex.profile.inspect'', ''codex.profile.deactivate'',
      ''codex.execution.invoke'', ''codex.execution.cancel'']"

definition AUTHORIZATION_ACTIONS :: "string list" where
  "AUTHORIZATION_ACTIONS = SCHEDULER_STAGE_AUTHORIZATION_ACTIONS @ CODEX_AUTHORIZATION_ACTIONS"

definition HIGH_RISK_ACTIONS :: "string list" where
  "HIGH_RISK_ACTIONS =
     [''authorization.grant.issue'', ''authorization.grant.revoke'', ''project.register'',
      ''project.update'', ''project.disable'', ''runtime.restore'',
      ''execution.completion.accept'', ''completion.accept'', ''integration.apply'',
      ''integration.push'', ''workspace.cleanup'', ''scheduler.register'',
      ''scheduler.remove'', ''codex.profile.activate'', ''codex.profile.deactivate'',
      ''codex.execution.invoke'']"

lemmas action_lists = BASE_AUTHORIZATION_ACTIONS_def EXECUTION_AUTHORIZATION_ACTIONS_def
  CLAIM_AUTHORIZATION_ACTIONS_def MANUAL_EXECUTION_AUTHORIZATION_ACTIONS_def MANUAL_AUTHORIZATION_ACTIONS_def
  DISPATCH_AUTHORIZATION_ACTIONS_def DISPATCHER_AUTHORIZATION_ACTIONS_def WORKSPACE_AUTHORIZATION_ACTIONS_def
  COMPLETION_INTEGRATION_AUTHORIZATION_ACTIONS_def WORKSPACE_STAGE_AUTHORIZATION_ACTIONS_def
  PHASE3_AUTHORIZATION_ACTIONS_def SCHEDULER_AUTHORIZATION_ACTIONS_def SCHEDULER_STAGE_AUTHORIZATION_ACTIONS_def
  CODEX_AUTHORIZATION_ACTIONS_def AUTHORIZATION_ACTIONS_def

definition isAuthorizationVocabularyVersion :: "jsval \<Rightarrow> bool" where
  "isAuthorizationVocabularyVersion value \<longleftrightarrow> list_ex (\<lambda>n. value = jsInt n) [1, 2, 3, 4, 5, 6, 7, 8]"

definition actionsForVocabulary :: "int \<Rightarrow> string list" where
  "actionsForVocabulary version =
     (if version = 1 then BASE_AUTHORIZATION_ACTIONS
      else if version = 2 then CLAIM_AUTHORIZATION_ACTIONS
      else if version = 3 then MANUAL_AUTHORIZATION_ACTIONS
      else if version = 4 then DISPATCHER_AUTHORIZATION_ACTIONS
      else if version = 5 then WORKSPACE_STAGE_AUTHORIZATION_ACTIONS
      else if version = 6 then PHASE3_AUTHORIZATION_ACTIONS
      else if version = 7 then SCHEDULER_STAGE_AUTHORIZATION_ACTIONS
      else AUTHORIZATION_ACTIONS)"

section \<open>Grants and requests\<close>

datatype scope_kind = RuntimeScope | ProjectScope

record authorization_scope =
  as_kind :: scope_kind
  as_projectId :: "jsstr option"
  as_resourceRevision :: "int option"
  as_configRevision :: "int option"

record authorization_grant =
  g_grantId :: jsstr
  g_revision :: int
  g_actorId :: jsstr
  g_action :: jsstr
  g_scope :: authorization_scope
  g_notBefore :: jsstr
  g_expiresAt :: jsstr
  g_revokedAt :: "jsstr option"
  g_issuerGrantId :: "jsstr option"
  g_sourceGrantId :: "jsstr option"

record authorization_target =
  at_projectId :: "jsstr option"
  at_resourceRevision :: "int option"
  at_configRevision :: "int option"

datatype authorization_policy_result = PolicyAllow | PolicyDeny | PolicyReadNotApplicable

datatype authorization_reason =
    Allowed | ActorMismatch | ActionMismatch | ScopeMismatch | ScopeRevisionStale | GrantExpired
  | GrantNotYetValid | GrantRevoked | GrantMissing | PolicyDenied | ConfirmationRequired

record authorization_evaluation =
  ae_allowed :: bool
  ae_reason :: authorization_reason
  ae_policy :: authorization_policy_result
  ae_grantId :: "jsstr option"
  ae_grantRevision :: "int option"

section \<open>Readers\<close>

definition exactRecord :: "jsval \<Rightarrow> string list \<Rightarrow> jsrec option" where
  "exactRecord = readExactRecord"

definition canonicalArray :: "jsval \<Rightarrow> jsval list option" where
  "canonicalArray = readCanonicalArray"

definition identifier_ok :: "jsval \<Rightarrow> bool" where
  "identifier_ok value \<longleftrightarrow> isString value \<and> length (strOf value) > 0 \<and> length (strOf value) \<le> 128"

definition domainIdentifier :: "jsval \<Rightarrow> bool" where
  "domainIdentifier value \<longleftrightarrow> isString value \<and> length (strOf value) > 0"

definition revision :: "jsval \<Rightarrow> bool" where
  "revision value \<longleftrightarrow> isSafeInteger value \<and> numOf value > 0"

definition timestamp :: "jsval \<Rightarrow> bool" where
  "timestamp value \<longleftrightarrow>
     isString value \<and> length (strOf value) \<ge> 20 \<and> length (strOf value) \<le> 40 \<and> isIsoString (strOf value)"

definition isAuthorizationAction :: "jsval \<Rightarrow> bool" where
  "isAuthorizationAction value \<longleftrightarrow> list_ex (\<lambda>a. isLit value a) AUTHORIZATION_ACTIONS"

definition isHighRiskAction :: "jsstr \<Rightarrow> bool" where
  "isHighRiskAction action \<longleftrightarrow> list_ex (\<lambda>a. action = lit a) HIGH_RISK_ACTIONS"

definition parseScope :: "jsval \<Rightarrow> authorization_scope option" where
  "parseScope value =
     (case exactRecord value [''kind'', ''projectId'', ''resourceRevision'', ''configRevision''] of
        None \<Rightarrow> None
      | Some record \<Rightarrow>
          if \<not> isLit (fld record ''kind'') ''runtime'' \<and> \<not> isLit (fld record ''kind'') ''project'' then None
          else if isLit (fld record ''kind'') ''runtime''
            \<and> (fld record ''projectId'' \<noteq> JNull \<or> fld record ''resourceRevision'' \<noteq> JNull
               \<or> fld record ''configRevision'' \<noteq> JNull) then None
          else if \<not> isLit (fld record ''kind'') ''runtime''
            \<and> (\<not> domainIdentifier (fld record ''projectId'') \<or> \<not> revision (fld record ''resourceRevision'')
               \<or> \<not> revision (fld record ''configRevision'')) then None
          else Some
            \<lparr>as_kind = (if isLit (fld record ''kind'') ''runtime'' then RuntimeScope else ProjectScope),
             as_projectId = nullable strOf (fld record ''projectId''),
             as_resourceRevision = nullable numOf (fld record ''resourceRevision''),
             as_configRevision = nullable numOf (fld record ''configRevision'')\<rparr>)"

definition parseAuthorizationGrant :: "jsval \<Rightarrow> authorization_grant option" where
  "parseAuthorizationGrant value =
     (case exactRecord value [''grantId'', ''revision'', ''actorId'', ''action'', ''scope'', ''notBefore'',
             ''expiresAt'', ''revokedAt'', ''issuerGrantId'', ''sourceGrantId''] of
        None \<Rightarrow> None
      | Some record \<Rightarrow>
          (case parseScope (fld record ''scope'') of
             None \<Rightarrow> None
           | Some scope \<Rightarrow>
               if \<not> identifier_ok (fld record ''grantId'')
                  \<or> \<not> revision (fld record ''revision'')
                  \<or> \<not> identifier_ok (fld record ''actorId'')
                  \<or> \<not> isAuthorizationAction (fld record ''action'')
                  \<or> \<not> timestamp (fld record ''notBefore'')
                  \<or> \<not> timestamp (fld record ''expiresAt'')
                  \<or> \<not> (fld record ''revokedAt'' = JNull \<or> timestamp (fld record ''revokedAt''))
                  \<or> \<not> (fld record ''issuerGrantId'' = JNull \<or> identifier_ok (fld record ''issuerGrantId''))
                  \<or> \<not> (fld record ''sourceGrantId'' = JNull \<or> identifier_ok (fld record ''sourceGrantId''))
                  \<or> strOf (fld record ''notBefore'') \<ge> strOf (fld record ''expiresAt'')
               then None
               else Some
                 \<lparr>g_grantId = strOf (fld record ''grantId''),
                  g_revision = numOf (fld record ''revision''),
                  g_actorId = strOf (fld record ''actorId''),
                  g_action = strOf (fld record ''action''),
                  g_scope = scope,
                  g_notBefore = strOf (fld record ''notBefore''),
                  g_expiresAt = strOf (fld record ''expiresAt''),
                  g_revokedAt = nullable strOf (fld record ''revokedAt''),
                  g_issuerGrantId = nullable strOf (fld record ''issuerGrantId''),
                  g_sourceGrantId = nullable strOf (fld record ''sourceGrantId'')\<rparr>))"

definition scopeMatches :: "authorization_scope \<Rightarrow> authorization_target \<Rightarrow> bool" where
  "scopeMatches scope target =
     (if as_kind scope = RuntimeScope then True
      else at_projectId target = as_projectId scope \<and>
           at_resourceRevision target = as_resourceRevision scope \<and>
           at_configRevision target = as_configRevision scope)"

section \<open>Evaluation\<close>

definition evaluation ::
  "bool \<Rightarrow> authorization_reason \<Rightarrow> authorization_policy_result \<Rightarrow> authorization_grant option \<Rightarrow>
    authorization_evaluation" where
  "evaluation allowed reason policy grant =
     \<lparr>ae_allowed = allowed, ae_reason = reason, ae_policy = policy,
      ae_grantId = map_option g_grantId grant, ae_grantRevision = map_option g_revision grant\<rparr>"

text \<open>The \<open>for\<close> loop over the grants of the actor for the action.\<close>

fun evaluateGrants ::
  "jsstr \<Rightarrow> jsstr \<Rightarrow> authorization_target \<Rightarrow> authorization_policy_result \<Rightarrow> bool \<Rightarrow>
    authorization_reason \<Rightarrow> authorization_grant list \<Rightarrow> authorization_evaluation" where
  "evaluateGrants action now target policy confirmed firstReason [] =
     evaluation False firstReason policy None"
| "evaluateGrants action now target policy confirmed firstReason (grant # grants) =
     (if g_revokedAt grant \<noteq> None
      then evaluateGrants action now target policy confirmed GrantRevoked grants
      else if now < g_notBefore grant
      then evaluateGrants action now target policy confirmed GrantNotYetValid grants
      else if now \<ge> g_expiresAt grant
      then evaluateGrants action now target policy confirmed GrantExpired grants
      else if \<not> scopeMatches (g_scope grant) target
      then evaluateGrants action now target policy confirmed
             (if as_kind (g_scope grant) = ProjectScope \<and> as_projectId (g_scope grant) = at_projectId target
              then ScopeRevisionStale else ScopeMismatch) grants
      else if policy = PolicyDeny then evaluation False PolicyDenied PolicyDeny (Some grant)
      else if isHighRiskAction action \<and> \<not> confirmed
      then evaluation False ConfirmationRequired policy (Some grant)
      else evaluation True Allowed policy (Some grant))"

definition parsePolicyResult :: "jsval \<Rightarrow> authorization_policy_result option" where
  "parsePolicyResult v =
     (if isLit v ''allow'' then Some PolicyAllow
      else if isLit v ''deny'' then Some PolicyDeny
      else if isLit v ''read_not_applicable'' then Some PolicyReadNotApplicable
      else None)"

text \<open>
  The typed request that \<open>evaluateAuthorization\<close> reads out of its input before it looks at the
  grants: every check of the input, each of which answers \<open>grant_missing\<close>.
\<close>

record authorization_request =
  rq_actorId :: jsstr
  rq_action :: jsstr
  rq_target :: authorization_target
  rq_now :: jsstr
  rq_policy :: authorization_policy_result
  rq_confirmed :: bool
  rq_grants :: "authorization_grant list"

definition readAuthorizationInput :: "jsval \<Rightarrow> authorization_request option" where
  "readAuthorizationInput value =
     (case exactRecord value [''actorId'', ''action'', ''target'', ''now'', ''policy'', ''confirmed'', ''grants''] of
        None \<Rightarrow> None
      | Some input \<Rightarrow>
        if \<not> identifier_ok (fld input ''actorId'') \<or> \<not> isAuthorizationAction (fld input ''action'')
           \<or> \<not> timestamp (fld input ''now'')
        then None
        else
          (case (exactRecord (fld input ''target'') [''projectId'', ''resourceRevision'', ''configRevision''],
                 canonicalArray (fld input ''grants''), parsePolicyResult (fld input ''policy'')) of
             (Some target, Some grants, Some policy) \<Rightarrow>
               if \<not> (fld target ''projectId'' = JNull \<or> domainIdentifier (fld target ''projectId''))
                  \<or> \<not> (fld target ''resourceRevision'' = JNull \<or> revision (fld target ''resourceRevision''))
                  \<or> \<not> (fld target ''configRevision'' = JNull \<or> revision (fld target ''configRevision''))
                  \<or> \<not> isBoolean (fld input ''confirmed'')
               then None
               else let parsedGrants = map parseAuthorizationGrant grants in
                 if list_ex (\<lambda>grant. grant = None) parsedGrants then None
                 else Some
                   \<lparr>rq_actorId = strOf (fld input ''actorId''), rq_action = strOf (fld input ''action''),
                    rq_target = \<lparr>at_projectId = nullable strOf (fld target ''projectId''),
                      at_resourceRevision = nullable numOf (fld target ''resourceRevision''),
                      at_configRevision = nullable numOf (fld target ''configRevision'')\<rparr>,
                    rq_now = strOf (fld input ''now''), rq_policy = policy,
                    rq_confirmed = boolOf (fld input ''confirmed''), rq_grants = map the parsedGrants\<rparr>
           | _ \<Rightarrow> None))"

definition evaluateAuthorization :: "jsval \<Rightarrow> authorization_evaluation" where
  "evaluateAuthorization value =
     (case readAuthorizationInput value of
        None \<Rightarrow> evaluation False GrantMissing PolicyDeny None
      | Some input \<Rightarrow>
          let actorGrants = filter (\<lambda>grant. g_actorId grant = rq_actorId input) (rq_grants input) in
          if length actorGrants = 0 then evaluation False ActorMismatch (rq_policy input) None
          else let actionGrants = filter (\<lambda>grant. g_action grant = rq_action input) actorGrants in
            if length actionGrants = 0 then evaluation False ActionMismatch (rq_policy input) None
            else evaluateGrants (rq_action input) (rq_now input) (rq_target input) (rq_policy input)
                   (rq_confirmed input) GrantMissing actionGrants)"

section \<open>Issuing a grant\<close>

record grant_issue_candidate =
  gc_actorId :: jsstr
  gc_action :: jsstr
  gc_scope :: authorization_scope
  gc_notBefore :: jsstr
  gc_expiresAt :: jsstr

record grant_issue_proof =
  gp_administrativeGrantId :: jsstr
  gp_sourceGrantId :: jsstr

definition scopeTarget :: "authorization_scope \<Rightarrow> authorization_target" where
  "scopeTarget scope =
     \<lparr>at_projectId = as_projectId scope, at_resourceRevision = as_resourceRevision scope,
      at_configRevision = as_configRevision scope\<rparr>"

text \<open>The condition of the two nested loops, on an administrative and a source grant.\<close>

definition coversIssue ::
  "jsstr \<Rightarrow> grant_issue_candidate \<Rightarrow> authorization_grant \<Rightarrow> authorization_grant \<Rightarrow> bool" where
  "coversIssue now candidate admin authority \<longleftrightarrow>
     g_revokedAt admin = None \<and> g_revokedAt authority = None \<and>
     g_notBefore admin \<le> now \<and> g_notBefore authority \<le> now \<and>
     g_expiresAt admin \<ge> gc_expiresAt candidate \<and> g_expiresAt authority \<ge> gc_expiresAt candidate \<and>
     scopeMatches (g_scope admin) (scopeTarget (gc_scope candidate)) \<and>
     scopeMatches (g_scope authority) (scopeTarget (gc_scope candidate))"

fun firstCovering ::
  "jsstr \<Rightarrow> grant_issue_candidate \<Rightarrow> authorization_grant list \<Rightarrow> authorization_grant list \<Rightarrow>
    grant_issue_proof option" where
  "firstCovering now candidate [] source = None"
| "firstCovering now candidate (admin # admins) source =
     (case find (coversIssue now candidate admin) source of
        Some authority \<Rightarrow> Some \<lparr>gp_administrativeGrantId = g_grantId admin, gp_sourceGrantId = g_grantId authority\<rparr>
      | None \<Rightarrow> firstCovering now candidate admins source)"

definition canIssueGrant ::
  "jsstr \<Rightarrow> authorization_grant list \<Rightarrow> grant_issue_candidate \<Rightarrow> jsstr \<Rightarrow> grant_issue_proof option" where
  "canIssueGrant issuerActorId issuerGrants candidate now =
     (if \<not> identifier_ok (JStr issuerActorId) \<or> \<not> identifier_ok (JStr (gc_actorId candidate))
         \<or> \<not> timestamp (JStr now) \<or> \<not> timestamp (JStr (gc_notBefore candidate))
         \<or> \<not> timestamp (JStr (gc_expiresAt candidate))
      then None
      else if gc_notBefore candidate < now \<or> gc_notBefore candidate \<ge> gc_expiresAt candidate
         \<or> gc_expiresAt candidate \<le> now
      then None
      else
        let administrative = filter (\<lambda>grant. g_actorId grant = issuerActorId
               \<and> g_action grant = lit ''authorization.grant.issue'') issuerGrants;
            source = filter (\<lambda>grant. g_actorId grant = issuerActorId
               \<and> g_action grant = gc_action candidate) issuerGrants
        in firstCovering now candidate administrative source)"

end
