(* ===== verification/Authorization_Facts.thy ===== *)
theory Authorization_Facts
  imports Authorization Domain_Codec
begin

text \<open>
  What the authorization rules guarantee: a request is allowed exactly when a grant of the actor
  for the action is in force for the target, the policy does not deny, and a high-risk action is
  confirmed; a grant can only be issued within the issuer's own authority; the vocabularies
  grow from version to version; grants are read back as they were built.
\<close>

section \<open>Grants in force\<close>

definition in_force :: "jsstr \<Rightarrow> authorization_target \<Rightarrow> authorization_grant \<Rightarrow> bool" where
  "in_force now target g \<longleftrightarrow>
     g_revokedAt g = None \<and> g_notBefore g \<le> now \<and> now < g_expiresAt g \<and> scopeMatches (g_scope g) target"

lemma evaluateGrants_skip:
  assumes "\<not> in_force now target g"
  obtains r' where "evaluateGrants action now target policy confirmed r (g # gs)
    = evaluateGrants action now target policy confirmed r' gs"
proof -
  from assms consider "g_revokedAt g \<noteq> None" | "g_revokedAt g = None" "now < g_notBefore g"
    | "g_revokedAt g = None" "\<not> now < g_notBefore g" "g_expiresAt g \<le> now"
    | "g_revokedAt g = None" "\<not> now < g_notBefore g" "\<not> g_expiresAt g \<le> now" "\<not> scopeMatches (g_scope g) target"
    unfolding in_force_def by (meson leI)
  then show ?thesis by cases (rule that; simp)+
qed

lemma evaluateGrants_None:
  "\<forall>g\<in>set gs. \<not> in_force now target g \<Longrightarrow>
    \<exists>r. evaluateGrants action now target policy confirmed r0 gs = evaluation False r policy None"
proof (induction gs arbitrary: r0)
  case (Cons g gs)
  have "\<not> in_force now target g" using Cons.prems by simp
  then obtain r' where "evaluateGrants action now target policy confirmed r0 (g # gs)
      = evaluateGrants action now target policy confirmed r' gs" by (rule evaluateGrants_skip)
  with Cons.IH [of r'] Cons.prems show ?case by (simp del: evaluateGrants.simps)
qed auto

lemma evaluateGrants_Some:
  "find (in_force now target) gs = Some g \<Longrightarrow>
    evaluateGrants action now target policy confirmed r0 gs =
      (if policy = PolicyDeny then evaluation False PolicyDenied PolicyDeny (Some g)
       else if isHighRiskAction action \<and> \<not> confirmed then evaluation False ConfirmationRequired policy (Some g)
       else evaluation True Allowed policy (Some g))"
proof (induction gs arbitrary: r0)
  case (Cons h gs)
  show ?case
  proof (cases "in_force now target h")
    case True
    with Cons.prems have "h = g" by simp
    moreover have "\<not> now < g_notBefore h" "\<not> g_expiresAt h \<le> now" "g_revokedAt h = None" "scopeMatches (g_scope h) target"
      using True by (auto simp: in_force_def)
    ultimately show ?thesis by simp
  next
    case False
    then obtain r' where "evaluateGrants action now target policy confirmed r0 (h # gs)
        = evaluateGrants action now target policy confirmed r' gs" by (rule evaluateGrants_skip)
    with False Cons show ?thesis by (simp del: evaluateGrants.simps)
  qed
qed simp

lemma evaluation_allowed [simp]: "ae_allowed (evaluation a r p g) = a"
  by (simp add: evaluation_def)

lemma evaluateGrants_allowed:
  "ae_allowed (evaluateGrants action now target policy confirmed r gs) \<longleftrightarrow>
    (\<exists>g\<in>set gs. in_force now target g) \<and> policy \<noteq> PolicyDeny \<and> (isHighRiskAction action \<longrightarrow> confirmed)"
proof (cases "find (in_force now target) gs")
  case None
  then have none: "\<forall>g\<in>set gs. \<not> in_force now target g" by (auto simp: find_None_iff)
  from evaluateGrants_None [OF this, of action policy confirmed r] none show ?thesis by auto
next
  case (Some g)
  then show ?thesis
    using find_eq_Some_D [OF Some] by (auto simp: evaluateGrants_Some [OF Some])
qed

section \<open>The request\<close>

definition authorized :: "authorization_request \<Rightarrow> bool" where
  "authorized rq \<longleftrightarrow>
     (\<exists>g\<in>set (rq_grants rq). g_actorId g = rq_actorId rq \<and> g_action g = rq_action rq \<and>
        in_force (rq_now rq) (rq_target rq) g) \<and>
     rq_policy rq \<noteq> PolicyDeny \<and> (isHighRiskAction (rq_action rq) \<longrightarrow> rq_confirmed rq)"

theorem evaluateAuthorization_iff:
  "ae_allowed (evaluateAuthorization v) \<longleftrightarrow> (\<exists>rq. readAuthorizationInput v = Some rq \<and> authorized rq)"
  by (cases "readAuthorizationInput v")
    (auto simp: evaluateAuthorization_def Let_def authorized_def evaluateGrants_allowed filter_empty_conv)

section \<open>Grants as objects\<close>

definition wf_scope :: "authorization_scope \<Rightarrow> bool" where
  "wf_scope s \<longleftrightarrow>
     (case as_kind s of
        RuntimeScope \<Rightarrow> as_projectId s = None \<and> as_resourceRevision s = None \<and> as_configRevision s = None
      | ProjectScope \<Rightarrow> (\<exists>p r c. as_projectId s = Some p \<and> p \<noteq> [] \<and> as_resourceRevision s = Some r \<and>
          wf_revision r \<and> as_configRevision s = Some c \<and> wf_revision c))"

definition wf_identifier :: "jsstr \<Rightarrow> bool" where
  "wf_identifier s \<longleftrightarrow> s \<noteq> [] \<and> length s \<le> 128"

definition wf_grant :: "authorization_grant \<Rightarrow> bool" where
  "wf_grant g \<longleftrightarrow>
     wf_identifier (g_grantId g) \<and> wf_revision (g_revision g) \<and> wf_identifier (g_actorId g) \<and>
     g_action g \<in> set (map lit AUTHORIZATION_ACTIONS) \<and> wf_scope (g_scope g) \<and>
     isIsoString (g_notBefore g) \<and> isIsoString (g_expiresAt g) \<and> pred_option isIsoString (g_revokedAt g) \<and>
     pred_option wf_identifier (g_issuerGrantId g) \<and> pred_option wf_identifier (g_sourceGrantId g) \<and>
     g_notBefore g < g_expiresAt g"

fun scopeKindName :: "scope_kind \<Rightarrow> string" where
  "scopeKindName RuntimeScope = ''runtime''"
| "scopeKindName ProjectScope = ''project''"

definition scopeToJs :: "authorization_scope \<Rightarrow> jsval" where
  "scopeToJs s = jsObj [(''kind'', JStr (lit (scopeKindName (as_kind s)))),
     (''projectId'', jsNullable JStr (as_projectId s)),
     (''resourceRevision'', jsNullable jsInt (as_resourceRevision s)),
     (''configRevision'', jsNullable jsInt (as_configRevision s))]"

definition grantToJs :: "authorization_grant \<Rightarrow> jsval" where
  "grantToJs g = jsObj [(''grantId'', JStr (g_grantId g)), (''revision'', jsInt (g_revision g)),
     (''actorId'', JStr (g_actorId g)), (''action'', JStr (g_action g)), (''scope'', scopeToJs (g_scope g)),
     (''notBefore'', JStr (g_notBefore g)), (''expiresAt'', JStr (g_expiresAt g)),
     (''revokedAt'', jsNullable JStr (g_revokedAt g)), (''issuerGrantId'', jsNullable JStr (g_issuerGrantId g)),
     (''sourceGrantId'', jsNullable JStr (g_sourceGrantId g))]"

lemma identifier_ok_iff: "identifier_ok v \<longleftrightarrow> (\<exists>s. v = JStr s \<and> wf_identifier s)"
  by (cases v) (auto simp: identifier_ok_def wf_identifier_def)

lemma domainIdentifier_iff: "domainIdentifier v \<longleftrightarrow> (\<exists>s. v = JStr s \<and> s \<noteq> [])"
  by (cases v) (auto simp: domainIdentifier_def)

lemma revision_iff: "revision v \<longleftrightarrow> (\<exists>n. v = jsInt n \<and> wf_revision n)"
  by (auto simp: revision_def isSafeInteger_iff wf_revision_def)

lemma timestamp_iff: "timestamp v \<longleftrightarrow> (\<exists>s. v = JStr s \<and> isIsoString s)"
  by (cases v) (auto simp: timestamp_def dest: isIsoString_length)

lemma isAuthorizationAction_iff:
  "isAuthorizationAction v \<longleftrightarrow> (\<exists>a\<in>set AUTHORIZATION_ACTIONS. v = JStr (lit a))"
  by (auto simp: isAuthorizationAction_def list_ex_iff isLit_def)

lemma parseScope_enc: "wf_scope s \<Longrightarrow> parseScope (scopeToJs s) = Some s"
  by (cases s; cases "as_kind s")
    (auto simp: parseScope_def scopeToJs_def exactRecord_def readExactRecord_jsObj wf_scope_def
      domainIdentifier_iff revision_iff isLit_def nullable_def)

lemma parseScope_wf: "parseScope v = Some s \<Longrightarrow> wf_scope s"
  by (auto simp: parseScope_def wf_scope_def domainIdentifier_iff revision_iff isLit_def nullable_def
      split: option.splits if_splits)

lemma nullable_ok_iff:
  "(jsNullable JStr x = JNull \<or> identifier_ok (jsNullable JStr x)) \<longleftrightarrow> pred_option wf_identifier x"
  "(jsNullable JStr x = JNull \<or> timestamp (jsNullable JStr x)) \<longleftrightarrow> pred_option isIsoString x"
  by (cases x; auto simp: identifier_ok_iff timestamp_iff)+

lemma nullable_wf:
  "v = JNull \<or> identifier_ok v \<Longrightarrow> pred_option wf_identifier (nullable strOf v)"
  "v = JNull \<or> timestamp v \<Longrightarrow> pred_option isIsoString (nullable strOf v)"
  by (auto simp: nullable_def identifier_ok_iff timestamp_iff)

lemma parseAuthorizationGrant_enc:
  assumes "wf_grant g"
  shows "parseAuthorizationGrant (grantToJs g) = Some g"
proof -
  from assms have "isAuthorizationAction (JStr (g_action g))"
    by (auto simp: wf_grant_def isAuthorizationAction_iff)
  moreover from assms have "identifier_ok (JStr (g_grantId g))" "identifier_ok (JStr (g_actorId g))"
    "revision (jsInt (g_revision g))" "timestamp (JStr (g_notBefore g))" "timestamp (JStr (g_expiresAt g))"
    "parseScope (scopeToJs (g_scope g)) = Some (g_scope g)" "\<not> g_expiresAt g \<le> g_notBefore g"
    by (auto simp: wf_grant_def identifier_ok_iff revision_iff timestamp_iff parseScope_enc)
  ultimately show ?thesis
    using assms nullable_ok_iff(1) [of "g_issuerGrantId g"] nullable_ok_iff(1) [of "g_sourceGrantId g"]
      nullable_ok_iff(2) [of "g_revokedAt g"]
    by (simp add: parseAuthorizationGrant_def grantToJs_def exactRecord_def readExactRecord_jsObj wf_grant_def)
qed

lemma parseAuthorizationGrant_wf:
  assumes "parseAuthorizationGrant v = Some g"
  shows "wf_grant g"
proof -
  obtain r where r: "exactRecord v [''grantId'', ''revision'', ''actorId'', ''action'', ''scope'', ''notBefore'',
      ''expiresAt'', ''revokedAt'', ''issuerGrantId'', ''sourceGrantId''] = Some r"
    using assms by (auto simp: parseAuthorizationGrant_def split: option.splits)
  obtain scope where s: "parseScope (fld r ''scope'') = Some scope"
    using assms by (auto simp: parseAuthorizationGrant_def r split: option.splits)
  from assms show ?thesis
    unfolding parseAuthorizationGrant_def r s option.case if_None_eq_Some
    by (auto simp: wf_grant_def identifier_ok_iff revision_iff timestamp_iff isAuthorizationAction_iff
        parseScope_wf [OF s] nullable_wf nullable_def not_le)
qed

lemma scopeToJs_not_JNull [simp]: "grantToJs g \<noteq> JNull"
  by (simp add: grantToJs_def)

interpretation grant_codec: codec grantToJs
  "\<lambda>v path. eopt (domainError INVALID_INPUT ''grant'' []) (parseAuthorizationGrant v)" wf_grant
  by unfold_locales (simp_all add: parseAuthorizationGrant_enc parseAuthorizationGrant_wf eopt_eq_Inr)

section \<open>Requests as objects\<close>

fun policyName :: "authorization_policy_result \<Rightarrow> string" where
  "policyName PolicyAllow = ''allow''"
| "policyName PolicyDeny = ''deny''"
| "policyName PolicyReadNotApplicable = ''read_not_applicable''"

definition targetToJs :: "authorization_target \<Rightarrow> jsval" where
  "targetToJs t = jsObj [(''projectId'', jsNullable JStr (at_projectId t)),
     (''resourceRevision'', jsNullable jsInt (at_resourceRevision t)),
     (''configRevision'', jsNullable jsInt (at_configRevision t))]"

definition requestToJs :: "authorization_request \<Rightarrow> jsval" where
  "requestToJs rq = jsObj [(''actorId'', JStr (rq_actorId rq)), (''action'', JStr (rq_action rq)),
     (''target'', targetToJs (rq_target rq)), (''now'', JStr (rq_now rq)),
     (''policy'', JStr (lit (policyName (rq_policy rq)))), (''confirmed'', JBool (rq_confirmed rq)),
     (''grants'', jsArr (map grantToJs (rq_grants rq)))]"

definition wf_target :: "authorization_target \<Rightarrow> bool" where
  "wf_target t \<longleftrightarrow> at_projectId t \<noteq> Some [] \<and> pred_option wf_revision (at_resourceRevision t) \<and>
     pred_option wf_revision (at_configRevision t)"

definition wf_request :: "authorization_request \<Rightarrow> bool" where
  "wf_request rq \<longleftrightarrow> wf_identifier (rq_actorId rq) \<and> rq_action rq \<in> set (map lit AUTHORIZATION_ACTIONS) \<and>
     isIsoString (rq_now rq) \<and> wf_target (rq_target rq) \<and> (\<forall>g\<in>set (rq_grants rq). wf_grant g)"

lemma nullable_target_iff:
  "(jsNullable JStr x = JNull \<or> domainIdentifier (jsNullable JStr x)) \<longleftrightarrow> x \<noteq> Some []"
  "(jsNullable jsInt n = JNull \<or> revision (jsNullable jsInt n)) \<longleftrightarrow> pred_option wf_revision n"
  by (cases x; auto simp: domainIdentifier_iff) (cases n; auto simp: revision_iff)

lemma parsePolicyResult_name: "parsePolicyResult (JStr (lit (policyName p))) = Some p"
  by (cases p) (simp_all add: parsePolicyResult_def)

lemma map_parse_grants:
  "\<forall>g\<in>set gs. wf_grant g \<Longrightarrow> map (parseAuthorizationGrant \<circ> grantToJs) gs = map Some gs"
  by (induction gs) (auto simp: parseAuthorizationGrant_enc)

lemma readAuthorizationInput_enc:
  assumes "wf_request rq"
  shows "readAuthorizationInput (requestToJs rq) = Some rq"
proof -
  from assms have "identifier_ok (JStr (rq_actorId rq))" "isAuthorizationAction (JStr (rq_action rq))"
    "timestamp (JStr (rq_now rq))" and t: "wf_target (rq_target rq)" and g: "\<forall>g\<in>set (rq_grants rq). wf_grant g"
    by (auto simp: wf_request_def identifier_ok_iff isAuthorizationAction_iff timestamp_iff)
  then show ?thesis
    using nullable_target_iff(1) [of "at_projectId (rq_target rq)"] map_parse_grants [OF g]
      nullable_target_iff(2) [of "at_resourceRevision (rq_target rq)"]
      nullable_target_iff(2) [of "at_configRevision (rq_target rq)"]
    by (cases rq) (simp add: readAuthorizationInput_def requestToJs_def exactRecord_def readExactRecord_jsObj
        targetToJs_def canonicalArray_def parsePolicyResult_name wf_target_def list_ex_iff Let_def comp_def
        isBoolean_iff map_idI)
qed

section \<open>Issuing\<close>

lemma firstCovering_Some:
  "firstCovering now c admins source = Some p \<Longrightarrow>
    \<exists>admin\<in>set admins. \<exists>authority\<in>set source. coversIssue now c admin authority \<and>
      gp_administrativeGrantId p = g_grantId admin \<and> gp_sourceGrantId p = g_grantId authority"
  by (induction admins) (auto split: option.splits dest: find_eq_Some_D)

lemma firstCovering_None_iff:
  "firstCovering now c admins source = None \<longleftrightarrow>
    (\<forall>admin\<in>set admins. \<forall>authority\<in>set source. \<not> coversIssue now c admin authority)"
  by (induction admins) (auto split: option.splits simp: find_None_iff find_Some_iff)

text \<open>
  A scope that covers the target of another scope covers everything that the other covers.
\<close>

lemma scopeMatches_trans:
  assumes "wf_scope s" "wf_scope s'" "scopeMatches s (scopeTarget s')" "scopeMatches s' target"
  shows "scopeMatches s target"
  using assms by (cases "as_kind s"; cases "as_kind s'") (auto simp: scopeMatches_def scopeTarget_def wf_scope_def)

definition candidate_in_force :: "jsstr \<Rightarrow> authorization_target \<Rightarrow> grant_issue_candidate \<Rightarrow> bool" where
  "candidate_in_force now target c \<longleftrightarrow>
     gc_notBefore c \<le> now \<and> now < gc_expiresAt c \<and> scopeMatches (gc_scope c) target"

lemma coversIssue_delegates:
  assumes "coversIssue now c admin authority" "now \<le> gc_notBefore c" "wf_scope (gc_scope c)"
    "wf_scope (g_scope admin)" "wf_scope (g_scope authority)" "candidate_in_force later target c"
  shows "in_force later target admin \<and> in_force later target authority"
  using assms scopeMatches_trans [of "g_scope admin" "gc_scope c" target]
    scopeMatches_trans [of "g_scope authority" "gc_scope c" target]
  by (auto simp: coversIssue_def candidate_in_force_def in_force_def)

theorem canIssueGrant_delegates:
  assumes "canIssueGrant issuer gs c now = Some p" "wf_scope (gc_scope c)" "\<forall>g\<in>set gs. wf_scope (g_scope g)"
  shows "\<exists>admin\<in>set gs. \<exists>authority\<in>set gs.
    g_actorId admin = issuer \<and> g_action admin = lit ''authorization.grant.issue'' \<and>
    g_actorId authority = issuer \<and> g_action authority = gc_action c \<and>
    gp_administrativeGrantId p = g_grantId admin \<and> gp_sourceGrantId p = g_grantId authority \<and>
    (\<forall>later target. candidate_in_force later target c \<longrightarrow>
       in_force later target admin \<and> in_force later target authority)"
proof -
  from assms(1) have now: "now \<le> gc_notBefore c"
    and first: "firstCovering now c
       (filter (\<lambda>g. g_actorId g = issuer \<and> g_action g = lit ''authorization.grant.issue'') gs)
       (filter (\<lambda>g. g_actorId g = issuer \<and> g_action g = gc_action c) gs) = Some p"
    by (auto simp: canIssueGrant_def Let_def split: if_splits)
  from firstCovering_Some [OF first] obtain admin authority where
    "admin \<in> set gs" "authority \<in> set gs" "g_actorId admin = issuer"
    "g_action admin = lit ''authorization.grant.issue''" "g_actorId authority = issuer"
    "g_action authority = gc_action c" "coversIssue now c admin authority"
    "gp_administrativeGrantId p = g_grantId admin" "gp_sourceGrantId p = g_grantId authority" by auto
  with coversIssue_delegates [OF _ now assms(2)] assms(3) show ?thesis by blast
qed

section \<open>Vocabularies\<close>

lemmas stage_lists = CLAIM_AUTHORIZATION_ACTIONS_def MANUAL_AUTHORIZATION_ACTIONS_def
  DISPATCHER_AUTHORIZATION_ACTIONS_def WORKSPACE_STAGE_AUTHORIZATION_ACTIONS_def PHASE3_AUTHORIZATION_ACTIONS_def
  SCHEDULER_STAGE_AUTHORIZATION_ACTIONS_def AUTHORIZATION_ACTIONS_def

lemma vocabulary_step:
  assumes "1 \<le> v" "v \<le> 7"
  shows "\<exists>more. actionsForVocabulary (v + 1) = actionsForVocabulary v @ more"
proof -
  from assms have "v = 1 \<or> v = 2 \<or> v = 3 \<or> v = 4 \<or> v = 5 \<or> v = 6 \<or> v = 7" by arith
  then show ?thesis by (elim disjE) (simp_all add: actionsForVocabulary_def stage_lists)
qed

lemma vocabulary_grows:
  assumes "1 \<le> v"
  shows "v + int n \<le> 8 \<Longrightarrow> \<exists>more. actionsForVocabulary (v + int n) = actionsForVocabulary v @ more"
proof (induction n)
  case (Suc n)
  then obtain more where "actionsForVocabulary (v + int n) = actionsForVocabulary v @ more" by auto
  moreover obtain more' where "actionsForVocabulary (v + int n + 1) = actionsForVocabulary (v + int n) @ more'"
    using vocabulary_step [of "v + int n"] assms Suc.prems by auto
  ultimately show ?case by (simp add: algebra_simps)
qed simp

lemma distinct_actions: "distinct AUTHORIZATION_ACTIONS"
  by code_simp

lemma high_risk_actions: "set HIGH_RISK_ACTIONS \<subseteq> set AUTHORIZATION_ACTIONS"
  by code_simp

end
