(* ===== verification/Authorization_Properties.thy ===== *)
theory Authorization_Properties
  imports Authorization_Facts
begin

text \<open>
  The properties of the authorization rules and of the timestamps that they compare.
\<close>

section \<open>A small installation\<close>

definition demoTime :: "string \<Rightarrow> jsstr" where
  "demoTime year = lit (year @ ''-01-01T00:00:00.000Z'')"

lemma demoTime_iso:
  "isIsoString (demoTime ''2026'')" "isIsoString (demoTime ''2027'')" "isIsoString (demoTime ''2030'')"
  "isIsoString (demoTime ''+010000'')"
  by code_simp+

definition demoGrant :: "string \<Rightarrow> authorization_grant" where
  "demoGrant action =
     \<lparr>g_grantId = lit (''g:'' @ action), g_revision = 1, g_actorId = lit ''root'', g_action = lit action,
      g_scope = \<lparr>as_kind = RuntimeScope, as_projectId = None, as_resourceRevision = None, as_configRevision = None\<rparr>,
      g_notBefore = demoTime ''2026'', g_expiresAt = demoTime ''2030'', g_revokedAt = None,
      g_issuerGrantId = None, g_sourceGrantId = None\<rparr>"

definition demoGrants :: "authorization_grant list" where
  "demoGrants = [demoGrant ''authorization.grant.issue'', demoGrant ''task.create'']"

lemma demo_window:
  "demoTime ''2026'' < demoTime ''2027''" "demoTime ''2027'' < demoTime ''2030''"
  "demoTime ''2026'' \<le> demoTime ''2027''" "\<not> demoTime ''2027'' < demoTime ''2026''"
  by (simp_all add: demoTime_def less_char_def less_eq_char_def)

text \<open>An operator revokes a grant, with and without confirmation.\<close>

definition demoRequest :: "bool \<Rightarrow> authorization_request" where
  "demoRequest confirmed =
     \<lparr>rq_actorId = lit ''root'', rq_action = lit ''authorization.grant.revoke'',
      rq_target = \<lparr>at_projectId = None, at_resourceRevision = None, at_configRevision = None\<rparr>,
      rq_now = demoTime ''2027'', rq_policy = PolicyAllow, rq_confirmed = confirmed,
      rq_grants = [demoGrant ''authorization.grant.revoke'']\<rparr>"

lemma demo_request_read: "readAuthorizationInput (requestToJs (demoRequest confirmed)) = Some (demoRequest confirmed)"
  using demoTime_iso
  by (intro readAuthorizationInput_enc)
    (simp add: demoRequest_def wf_request_def wf_target_def wf_grant_def demoGrant_def wf_identifier_def wf_scope_def
      wf_revision_def MAX_SAFE_INTEGER_def AUTHORIZATION_ACTIONS_def action_lists demo_window less_trans [OF demo_window(1,2)])

section \<open>Requests\<close>

text \<open>
  C17: A request is allowed exactly when its input is well formed and some grant of the actor for
  the action is not revoked, is within its time window and covers the target, the policy result
  is not a denial, and a high-risk action was confirmed.
\<close>

theorem authorization_exact:
  "ae_allowed (evaluateAuthorization v) \<longleftrightarrow>
    (\<exists>rq. readAuthorizationInput v = Some rq \<and>
      (\<exists>g\<in>set (rq_grants rq). g_actorId g = rq_actorId rq \<and> g_action g = rq_action rq \<and>
         g_revokedAt g = None \<and> g_notBefore g \<le> rq_now rq \<and> rq_now rq < g_expiresAt g \<and>
         scopeMatches (g_scope g) (rq_target rq)) \<and>
      rq_policy rq \<noteq> PolicyDeny \<and> (\<not> isHighRiskAction (rq_action rq) \<or> rq_confirmed rq))"
  unfolding evaluateAuthorization_iff authorized_def in_force_def by blast

theorem authorization_exact_witness:
  "ae_allowed (evaluateAuthorization (requestToJs (demoRequest True))) \<and>
   \<not> ae_allowed (evaluateAuthorization (requestToJs (demoRequest False)))"
  using authorization_exact [of "requestToJs (demoRequest True)"]
    authorization_exact [of "requestToJs (demoRequest False)"]
  by (simp add: demo_request_read demo_window) (simp add: demoRequest_def demoGrants_def demoGrant_def
      isHighRiskAction_def HIGH_RISK_ACTIONS_def scopeMatches_def demo_window)

section \<open>Issuing grants\<close>

definition demoCandidate :: grant_issue_candidate where
  "demoCandidate =
     \<lparr>gc_actorId = lit ''worker'', gc_action = lit ''task.create'',
      gc_scope = \<lparr>as_kind = ProjectScope, as_projectId = Some (lit ''p''), as_resourceRevision = Some 1,
                  as_configRevision = Some 1\<rparr>,
      gc_notBefore = demoTime ''2027'', gc_expiresAt = demoTime ''2030''\<rparr>"

lemma demo_issue:
  "canIssueGrant (lit ''root'') demoGrants demoCandidate (demoTime ''2026'') =
    Some \<lparr>gp_administrativeGrantId = lit ''g:authorization.grant.issue'', gp_sourceGrantId = lit ''g:task.create''\<rparr>"
proof -
  have t: "timestamp (JStr (demoTime ''2026''))" "timestamp (JStr (demoTime ''2027''))" "timestamp (JStr (demoTime ''2030''))"
    using demoTime_iso by (auto simp: timestamp_iff)
  have i: "identifier_ok (JStr (lit ''root''))" "identifier_ok (JStr (lit ''worker''))"
    by (simp_all add: identifier_ok_iff wf_identifier_def)
  have o: "demoTime ''2026'' < demoTime ''2027''" "demoTime ''2027'' < demoTime ''2030''"
    by (simp_all add: demoTime_def less_char_def)
  then have "\<not> demoTime ''2027'' < demoTime ''2026''" "\<not> demoTime ''2030'' \<le> demoTime ''2027''"
    "\<not> demoTime ''2030'' \<le> demoTime ''2026''"
    by (meson less_asym leD less_trans)+
  then show ?thesis
    using t i by (simp add: canIssueGrant_def demoCandidate_def demoGrants_def demoGrant_def coversIssue_def
        scopeMatches_def Let_def)
qed

text \<open>
  C18: An issued grant never exceeds its issuer's authority: \<open>canIssueGrant\<close> only succeeds with an
  administrative grant and a source grant of the issuer for the same action that are in force
  at every later time and for every target at which the new grant is.
\<close>

theorem issue_within_authority:
  assumes "canIssueGrant issuer gs c now = Some p" and "wf_scope (gc_scope c)" and "\<forall>g\<in>set gs. wf_scope (g_scope g)"
  shows "\<exists>admin\<in>set gs. \<exists>authority\<in>set gs.
    g_actorId admin = issuer \<and> g_action admin = lit ''authorization.grant.issue'' \<and>
    g_actorId authority = issuer \<and> g_action authority = gc_action c \<and>
    gp_administrativeGrantId p = g_grantId admin \<and> gp_sourceGrantId p = g_grantId authority \<and>
    (\<forall>later target. candidate_in_force later target c \<longrightarrow>
       in_force later target admin \<and> in_force later target authority)"
  by (rule canIssueGrant_delegates [OF assms])

theorem issue_within_authority_witness:
  "\<exists>authority\<in>set demoGrants. g_action authority = lit ''task.create'' \<and>
    (\<forall>later target. candidate_in_force later target demoCandidate \<longrightarrow> in_force later target authority)"
proof -
  have "wf_scope (gc_scope demoCandidate)" "\<forall>g\<in>set demoGrants. wf_scope (g_scope g)"
    by (simp_all add: demoCandidate_def demoGrants_def demoGrant_def wf_scope_def wf_revision_def MAX_SAFE_INTEGER_def)
  from issue_within_authority [OF demo_issue this] show ?thesis
    by (auto simp: demoCandidate_def)
qed

text \<open>
  A grant object is read back exactly when it is well formed: bounded identifiers, a known
  action, a coherent scope, ISO timestamps and a non-empty time window.
\<close>

theorem grant_roundtrip: "parseAuthorizationGrant (grantToJs g) = Some g \<longleftrightarrow> wf_grant g"
  using parseAuthorizationGrant_enc parseAuthorizationGrant_wf by blast

section \<open>Timestamps\<close>

text \<open>
  For timestamps with a four-digit year, the string comparison that the program uses is the
  comparison of the moments they denote.
\<close>

theorem timestamps_chronological:
  assumes "timestamp (JStr v)" and "timestamp (JStr w)" and "length v = 24" and "length w = 24"
  shows "v < w \<longleftrightarrow> momentOf v < momentOf w"
  using assms by (intro shortTimestamp_less_iff) (simp_all add: shortTimestamp_def timestamp_iff)

theorem timestamps_chronological_witness:
  "demoTime ''2026'' < demoTime ''2027'' \<and> momentOf (demoTime ''2026'') < momentOf (demoTime ''2027'')"
proof -
  have "timestamp (JStr (demoTime ''2026''))" "timestamp (JStr (demoTime ''2027''))"
    "length (demoTime ''2026'') = 24" "length (demoTime ''2027'') = 24"
    using demoTime_iso by (auto simp: timestamp_iff demoTime_def)
  note iff = timestamps_chronological [OF this]
  have "demoTime ''2026'' < demoTime ''2027''" by (simp add: demoTime_def less_char_def)
  with iff show ?thesis by blast
qed


section \<open>Vocabularies\<close>

text \<open>
  The action vocabularies have no duplicates and only grow: every action of a version is an
  action of every later version, and every high-risk action is an action.
\<close>

theorem vocabularies_grow:
  assumes "1 \<le> v" and "v \<le> w" and "w \<le> 8"
  shows "set (actionsForVocabulary v) \<subseteq> set (actionsForVocabulary w) \<and> distinct (actionsForVocabulary w) \<and>
    set HIGH_RISK_ACTIONS \<subseteq> set AUTHORIZATION_ACTIONS"
proof -
  obtain n where "w = v + int n" using assms(2) zle_iff_zadd by auto
  then obtain more where "actionsForVocabulary w = actionsForVocabulary v @ more"
    using vocabulary_grows [OF assms(1), of n] assms(3) by auto
  moreover obtain m where "8 = w + int m" using assms(3) zle_iff_zadd by auto
  then obtain more' where "AUTHORIZATION_ACTIONS = actionsForVocabulary w @ more'"
    using vocabulary_grows [of w m] assms by (auto simp: actionsForVocabulary_def)
  ultimately show ?thesis using distinct_actions high_risk_actions by (metis distinct_append set_append Un_upper1)
qed

theorem vocabularies_grow_witness:
  "set (actionsForVocabulary 1) \<subseteq> set (actionsForVocabulary 8) \<and> distinct (actionsForVocabulary 8)"
  using vocabularies_grow [of 1 8] by simp

end
