(* ===== verification/Application_Model.thy ===== *)
theory Application_Model
  imports Authorization Domain_Transition
begin

text \<open>
  The data of the application layer (\<^verbatim>\<open>src/application-model.ts\<close>): commands, results and
  errors, the identity of an operation and its target, and the durable records that an
  operation reads and writes (\<^verbatim>\<open>src/persistence/application-repository-model.ts\<close>). An
  \<open>application_state\<close> carries the tables that the application service uses; of execution
  attempts and of scheduler decisions it only carries the columns the service looks at.
\<close>

section \<open>Errors and results\<close>

datatype application_error_code =
    InvalidInput | BootstrapAlreadyConsumed | BootstrapRequired | AuthorizationDenied
  | ProjectNotFound | ProjectAlreadyRegistered | ProjectRegistryRejected | TaskNotFound
  | GrantNotFound | StaleRevision | DomainRejected | ScopeExpansionDenied
  | CapabilityRenewalNotDue | CapabilityUpgradeNotEligible

record application_error =
  ape_code :: application_error_code
  ape_message :: string
  ape_details :: details

record application_failure =
  apf_error :: application_error
  apf_requestId :: "jsstr option"
  apf_correlationId :: "jsstr option"

record 'a application_success =
  aps_value :: 'a
  aps_requestId :: jsstr
  aps_correlationId :: jsstr

type_synonym 'a application_result = "application_failure + 'a application_success"

section \<open>Commands\<close>

datatype task_change = BodyChange jsstr | ParentChange "jsstr option"

datatype application_command =
    GrantIssue (issue_actorId: jsstr) (issue_action: jsstr) (issue_scope: authorization_scope)
      (issue_notBefore: jsstr) (issue_expiresAt: jsstr)
  | GrantInspect jsstr int
  | GrantRevoke jsstr int
  | PolicyEvaluate jsstr int int jsstr
  | ProjectRegister jsstr jsstr
  | ProjectUpdate jsstr int int
  | ProjectDisable jsstr int int
  | ProjectInspect jsstr int
  | TaskCreate jsstr int jsstr jsstr "jsstr option"
  | TaskUpdate jsstr int jsstr int task_change
  | TaskMarkReady jsstr int jsstr int
  | TaskCancel jsstr int jsstr int jsstr
  | TaskInspect jsstr int jsstr int
  | DependencyAdd jsstr int jsstr int jsstr int
  | DependencyRemove jsstr int jsstr int jsstr int
  | GrantList int "jsstr option"
  | RuntimeStatus
  | RuntimeBackup jsstr
  | RuntimeRestore jsstr

text \<open>
  In the order of the source's fields: \<open>projectId\<close>, the expected Project revisions, \<open>taskId\<close>,
  the expected Task revision, and what the command carries besides.
\<close>

fun commandKind :: "application_command \<Rightarrow> string" where
  "commandKind (GrantIssue _ _ _ _ _) = ''authorization.grant.issue''"
| "commandKind (GrantInspect _ _) = ''authorization.grant.inspect''"
| "commandKind (GrantRevoke _ _) = ''authorization.grant.revoke''"
| "commandKind (PolicyEvaluate _ _ _ _) = ''policy.evaluate''"
| "commandKind (ProjectRegister _ _) = ''project.register''"
| "commandKind (ProjectUpdate _ _ _) = ''project.update''"
| "commandKind (ProjectDisable _ _ _) = ''project.disable''"
| "commandKind (ProjectInspect _ _) = ''project.inspect''"
| "commandKind (TaskCreate _ _ _ _ _) = ''task.create''"
| "commandKind (TaskUpdate _ _ _ _ _) = ''task.update''"
| "commandKind (TaskMarkReady _ _ _ _) = ''task.mark_ready''"
| "commandKind (TaskCancel _ _ _ _ _) = ''task.cancel''"
| "commandKind (TaskInspect _ _ _ _) = ''task.inspect''"
| "commandKind (DependencyAdd _ _ _ _ _ _) = ''dependency.add''"
| "commandKind (DependencyRemove _ _ _ _ _ _) = ''dependency.remove''"
| "commandKind (GrantList _ _) = ''authorization.grant.list''"
| "commandKind RuntimeStatus = ''runtime.status''"
| "commandKind (RuntimeBackup _) = ''runtime.backup''"
| "commandKind (RuntimeRestore _) = ''runtime.restore''"

section \<open>Operation identity\<close>

record trusted_actor =
  ta_actorId :: jsstr
  ta_principal :: jsstr

record operation_identity =
  oi_actor :: trusted_actor
  oi_now :: jsstr
  oi_requestId :: jsstr
  oi_correlationId :: jsstr
  oi_decisionId :: jsstr
  oi_auditId :: jsstr

record confirmation_request =
  cr_actorId :: jsstr
  cr_action :: jsstr
  cr_requestId :: jsstr
  cr_correlationId :: jsstr

section \<open>Durable records\<close>

record project_root_identity =
  ri_canonicalRoot :: jsstr
  ri_rootKey :: jsstr
  ri_platform :: jsstr
  ri_device :: jsstr
  ri_inode :: jsstr
  ri_mode :: int

record registered_project = project_root_identity +
  rp_projectId :: jsstr
  rp_configRevision :: int
  rp_resourceRevision :: int
  rp_createdAt :: jsstr
  rp_updatedAt :: jsstr

record authorization_bootstrap = project_root_identity +
  ab_actorId :: jsstr
  ab_trustedPrincipal :: jsstr
  ab_requestId :: jsstr
  ab_createdAt :: jsstr
  ab_expiresAt :: jsstr
  ab_vocabularyVersion :: int

record local_identity =
  li_identityVersion :: int
  li_actorId :: jsstr
  li_principalSha256 :: jsstr
  li_platform :: jsstr
  li_runtimeRootKey :: jsstr
  li_bootstrapRequestId :: jsstr
  li_createdAt :: jsstr

record capability_epoch =
  ce_epochId :: jsstr
  ce_epochRevision :: int
  ce_actorId :: jsstr
  ce_runtimeRootKey :: jsstr
  ce_vocabularyVersion :: int
  ce_actionSetSha256 :: jsstr
  ce_requestId :: jsstr
  ce_createdAt :: jsstr
  ce_expiresAt :: jsstr

record lifecycle_authorization =
  la_authorizationId :: jsstr
  la_operation :: string
  la_backupGenerationId :: jsstr
  la_actorId :: jsstr
  la_runtimeRootKey :: jsstr
  la_grantId :: jsstr
  la_grantRevision :: int
  la_requestId :: jsstr
  la_decisionId :: jsstr
  la_auditId :: jsstr
  la_authorizedStateSha256 :: jsstr
  la_expectedRequestCount :: nat
  la_expectedDecisionCount :: nat
  la_expectedAuditCount :: nat
  la_issuedAt :: jsstr
  la_expiresAt :: jsstr

datatype target_kind = TargetRuntime | TargetProject | TargetTask | TargetGrant | TargetBackup | TargetExecution

datatype request_result = RequestBootstrap | RequestAllow | RequestDeny | RequestRenewal | RequestUpgrade

record request_record =
  rr_requestId :: jsstr
  rr_correlationId :: jsstr
  rr_actorId :: jsstr
  rr_action :: string
  rr_targetKind :: target_kind
  rr_targetId :: jsstr
  rr_targetRevision :: "int option"
  rr_result :: request_result
  rr_createdAt :: jsstr

record decision_record =
  dr_decisionId :: jsstr
  dr_requestId :: jsstr
  dr_actorId :: jsstr
  dr_action :: string
  dr_allow :: bool
  dr_reason :: authorization_reason
  dr_policy :: authorization_policy_result
  dr_grantId :: "jsstr option"
  dr_grantRevision :: "int option"
  dr_projectId :: "jsstr option"
  dr_resourceRevision :: "int option"
  dr_createdAt :: jsstr

record audit_record =
  ar_auditId :: jsstr
  ar_requestId :: jsstr
  ar_decisionId :: "jsstr option"
  ar_eventKind :: string
  ar_accepted :: bool
  ar_actorId :: jsstr
  ar_correlationId :: jsstr
  ar_targetKind :: target_kind
  ar_targetId :: jsstr
  ar_targetRevision :: "int option"
  ar_reason :: string
  ar_createdAt :: jsstr

record task_execution_sequence =
  es_taskId :: jsstr
  es_lastAttemptNumber :: int
  es_currentFencingToken :: int
  es_revision :: int

datatype attempt_kind = ClaimAttempt | TakeoverAttempt

datatype attempt_status = ActiveAttempt | SupersededAttempt

record execution_attempt =
  xa_executionId :: jsstr
  xa_taskId :: jsstr
  xa_attemptNumber :: int
  xa_operationKind :: attempt_kind
  xa_status :: attempt_status
  xa_idempotencyKey :: jsstr
  xa_ownerId :: jsstr
  xa_requestedLeaseSeconds :: int
  xa_predecessorExecutionRevision :: "int option"
  xa_predecessorLeaseRevision :: "int option"
  xa_predecessorFencingToken :: "int option"
  xa_leaseRevision :: int
  xa_leaseExpiresAt :: jsstr
  xa_fencingToken :: int
  xa_revision :: int
  xa_expectedTaskRevision :: int
  xa_preTaskRevision :: int
  xa_postTaskRevision :: int
  xa_projectResourceRevision :: int
  xa_projectConfigRevision :: int
  xa_requestId :: jsstr
  xa_decisionId :: jsstr
  xa_supersedesExecutionId :: "jsstr option"
  xa_supersededByExecutionId :: "jsstr option"
  xa_createdAt :: jsstr
  xa_updatedAt :: jsstr

text \<open>
  Of the records that the dispatcher and the backends keep for an execution, what the execution
  service reads: the execution of an intent and whether it is finalized, and the executions
  that have a terminal state or a manual turn.
\<close>

record intent_summary =
  in_executionId :: jsstr
  in_finalized :: bool

record terminal_summary =
  ts_executionId :: jsstr
  ts_status :: task_state

record application_state =
  st_domain :: snapshot
  st_projects :: "registered_project list"
  st_bootstrap :: "authorization_bootstrap option"
  st_identity :: "local_identity option"
  st_grants :: "authorization_grant list"
  st_epochs :: "capability_epoch list"
  st_requests :: "request_record list"
  st_decisions :: "decision_record list"
  st_audit :: "audit_record list"
  st_lifecycle :: "lifecycle_authorization list"
  st_executionSequences :: "task_execution_sequence list"
  st_executions :: "execution_attempt list"
  st_executionIntents :: "intent_summary list"
  st_executionTerminalStates :: "terminal_summary list"
  st_manualTurns :: "jsstr list"
  st_schedulerDecisionTimes :: "jsstr list"

section \<open>Targets and authorizations\<close>

record bound_target =
  bt_kind :: target_kind
  bt_id :: jsstr
  bt_revision :: "int option"
  bt_project :: "registered_project option"

record command_authorization =
  ca_evaluation :: authorization_evaluation
  ca_issuanceProof :: "grant_issue_proof option"

record project_command_result =
  pc_projectId :: jsstr
  pc_enabled :: bool
  pc_configRevision :: int
  pc_resourceRevision :: int

end
