(* ===== verification/Application_Input.thy ===== *)
theory Application_Input
  imports Application_Model
begin

text \<open>
  The admission of application commands (\<^verbatim>\<open>src/application-input.ts\<close>): lexical predicates,
  the parsers of commands, bootstrap, renewal and upgrade, and the questions put to the
  trusted ingress. The ingress is supplied by the caller and is a parameter: each of its four
  functions answers a value or throws (\<open>None\<close>) and may change the world it lives in.
\<close>

section \<open>Lexical predicates\<close>

definition alphanumeric :: "code_unit \<Rightarrow> bool" where
  "alphanumeric c \<longleftrightarrow> (let n = unat c in 48 \<le> n \<and> n \<le> 57 \<or> 65 \<le> n \<and> n \<le> 90 \<or> 97 \<le> n \<and> n \<le> 122)"

text \<open>The pattern \<^verbatim>\<open>/^[A-Za-z0-9][A-Za-z0-9._:-]{0,127}$/u\<close>.\<close>

fun operationalText :: "jsstr \<Rightarrow> bool" where
  "operationalText [] = False"
| "operationalText (c # cs) =
     (alphanumeric c \<and> length cs \<le> 127 \<and>
      list_all (\<lambda>d. alphanumeric d \<or> d \<in> set (lit ''._:-'')) cs)"

definition operationalIdentifier :: "jsval \<Rightarrow> bool" where
  "operationalIdentifier v \<longleftrightarrow> (case v of JStr s \<Rightarrow> operationalText s | _ \<Rightarrow> False)"

definition nonempty :: "jsval \<Rightarrow> nat \<Rightarrow> bool" where
  "nonempty v maximum \<longleftrightarrow>
     (case v of JStr s \<Rightarrow> length s > 0 \<and> length s \<le> maximum \<and> 0 \<notin> set s | _ \<Rightarrow> False)"

section \<open>Results\<close>

definition appError :: "application_error_code \<Rightarrow> string \<Rightarrow> details \<Rightarrow> application_error" where
  "appError code message details = \<lparr>ape_code = code, ape_message = message, ape_details = details\<rparr>"

definition failed ::
  "application_error_code \<Rightarrow> string \<Rightarrow> operation_identity option \<Rightarrow> details \<Rightarrow> application_failure" where
  "failed code message identity details =
     \<lparr>apf_error = appError code message details, apf_requestId = map_option oi_requestId identity,
      apf_correlationId = map_option oi_correlationId identity\<rparr>"

definition succeeded :: "'a \<Rightarrow> operation_identity \<Rightarrow> 'a application_success" where
  "succeeded value identity =
     \<lparr>aps_value = value, aps_requestId = oi_requestId identity, aps_correlationId = oi_correlationId identity\<rparr>"

section \<open>Parsers\<close>

definition parseActor :: "jsval \<Rightarrow> trusted_actor option" where
  "parseActor value =
     (case exactRecord value [''actorId'', ''principal''] of
        None \<Rightarrow> None
      | Some record \<Rightarrow>
          if \<not> operationalIdentifier (fld record ''actorId'') \<or> \<not> nonempty (fld record ''principal'') 256 then None
          else Some \<lparr>ta_actorId = strOf (fld record ''actorId''), ta_principal = strOf (fld record ''principal'')\<rparr>)"

text \<open>\<open>Object.getOwnPropertyDescriptor(value, key)\<close> on an object that is not an array.\<close>

fun ownProperty :: "(pkey \<times> jsval descriptor) list \<Rightarrow> string \<Rightarrow> jsval descriptor option" where
  "ownProperty properties key = map_of properties (KeyStr (lit key))"

definition commandKindOf :: "jsval \<Rightarrow> string option" where
  "commandKindOf value =
     (case value of
        JObject prototype properties \<Rightarrow>
          (if prototype \<noteq> ObjectPrototype \<and> prototype \<noteq> NullPrototype then None
           else case ownProperty properties ''kind'' of
             Some (DataProp v True) \<Rightarrow> find (isLit v) BASE_AUTHORIZATION_ACTIONS
           | _ \<Rightarrow> None)
      | _ \<Rightarrow> None)"

definition expectedKeys :: "string \<Rightarrow> string list" where
  "expectedKeys kind =
     (if kind = ''authorization.grant.issue'' then [''kind'', ''actorId'', ''action'', ''scope'', ''notBefore'', ''expiresAt'']
      else if kind \<in> {''authorization.grant.inspect'', ''authorization.grant.revoke''}
        then [''kind'', ''grantId'', ''expectedGrantRevision'']
      else if kind = ''policy.evaluate''
        then [''kind'', ''projectId'', ''expectedResourceRevision'', ''expectedConfigRevision'', ''action'']
      else if kind = ''project.register'' then [''kind'', ''projectId'', ''root'']
      else if kind \<in> {''project.update'', ''project.disable''}
        then [''kind'', ''projectId'', ''expectedResourceRevision'', ''expectedConfigRevision'']
      else if kind = ''project.inspect'' then [''kind'', ''projectId'', ''expectedResourceRevision'']
      else if kind = ''task.create''
        then [''kind'', ''projectId'', ''expectedProjectResourceRevision'', ''taskId'', ''body'', ''supersedesTaskId'']
      else if kind = ''task.update''
        then [''kind'', ''projectId'', ''expectedProjectResourceRevision'', ''taskId'', ''expectedTaskRevision'', ''change'']
      else if kind \<in> {''task.mark_ready'', ''task.inspect''}
        then [''kind'', ''projectId'', ''expectedProjectResourceRevision'', ''taskId'', ''expectedTaskRevision'']
      else if kind = ''task.cancel''
        then [''kind'', ''projectId'', ''expectedProjectResourceRevision'', ''taskId'', ''expectedTaskRevision'', ''reason'']
      else if kind \<in> {''dependency.add'', ''dependency.remove''}
        then [''kind'', ''projectId'', ''expectedProjectResourceRevision'', ''taskId'', ''expectedTaskRevision'',
              ''dependencyId'', ''expectedDependencyRevision'']
      else if kind = ''authorization.grant.list'' then [''kind'', ''limit'', ''afterGrantId'']
      else if kind = ''runtime.status'' then [''kind'']
      else [''kind'', ''backupGenerationId''])"

text \<open>The \<open>change\<close> of a \<open>task.update\<close> command.\<close>

definition parseChange :: "jsval \<Rightarrow> task_change option" where
  "parseChange value =
     (let changeKind = (case value of
            JObject prototype properties \<Rightarrow>
              (case ownProperty properties ''kind'' of Some (DataProp v True) \<Rightarrow> v | _ \<Rightarrow> JNull)
          | _ \<Rightarrow> JNull) in
      if isLit changeKind ''body'' then
        (case exactRecord value [''kind'', ''body''] of
           None \<Rightarrow> None
         | Some change \<Rightarrow>
             if nonempty (fld change ''body'') 16384 then Some (BodyChange (strOf (fld change ''body''))) else None)
      else if isLit changeKind ''parent'' then
        (case exactRecord value [''kind'', ''parentId''] of
           None \<Rightarrow> None
         | Some change \<Rightarrow>
             if fld change ''parentId'' = JNull \<or> domainIdentifier (fld change ''parentId'')
             then Some (ParentChange (nullable strOf (fld change ''parentId''))) else None)
      else None)"

text \<open>
  The branches of \<open>parseCommand\<close> after the exact record is read: first the commands without
  a Task, then those with one.
\<close>

definition readRuntimeCommand :: "string \<Rightarrow> jsrec \<Rightarrow> application_command option" where
  "readRuntimeCommand kind r =
     (if kind = ''authorization.grant.list'' then
        (if isSafeInteger (fld r ''limit'') \<and> numOf (fld r ''limit'') \<ge> 1 \<and> numOf (fld r ''limit'') \<le> 100 \<and>
            (fld r ''afterGrantId'' = JNull \<or> operationalIdentifier (fld r ''afterGrantId''))
         then Some (GrantList (numOf (fld r ''limit'')) (nullable strOf (fld r ''afterGrantId''))) else None)
      else if kind = ''runtime.status'' then Some RuntimeStatus
      else if kind = ''runtime.backup'' \<or> kind = ''runtime.restore'' then
        (if operationalIdentifier (fld r ''backupGenerationId'')
         then Some ((if kind = ''runtime.backup'' then RuntimeBackup else RuntimeRestore)
                (strOf (fld r ''backupGenerationId''))) else None)
      else if kind = ''authorization.grant.issue'' then
        (case parseScope (fld r ''scope'') of
           None \<Rightarrow> None
         | Some scope \<Rightarrow>
             if operationalIdentifier (fld r ''actorId'') \<and> isAuthorizationAction (fld r ''action'') \<and>
                timestamp (fld r ''notBefore'') \<and> timestamp (fld r ''expiresAt'')
             then Some (GrantIssue (strOf (fld r ''actorId'')) (strOf (fld r ''action'')) scope
                    (strOf (fld r ''notBefore'')) (strOf (fld r ''expiresAt''))) else None)
      else if operationalIdentifier (fld r ''grantId'') \<and> revision (fld r ''expectedGrantRevision'')
        then Some ((if kind = ''authorization.grant.inspect'' then GrantInspect else GrantRevoke)
               (strOf (fld r ''grantId'')) (numOf (fld r ''expectedGrantRevision'')))
      else None)"

definition readProjectCommand :: "string \<Rightarrow> jsrec \<Rightarrow> application_command option" where
  "readProjectCommand kind r =
     (if kind = ''policy.evaluate'' then
        (if domainIdentifier (fld r ''projectId'') \<and> revision (fld r ''expectedResourceRevision'') \<and>
            revision (fld r ''expectedConfigRevision'') \<and> isAuthorizationAction (fld r ''action'')
         then Some (PolicyEvaluate (strOf (fld r ''projectId'')) (numOf (fld r ''expectedResourceRevision''))
                (numOf (fld r ''expectedConfigRevision'')) (strOf (fld r ''action''))) else None)
      else if kind = ''project.register'' then
        (if domainIdentifier (fld r ''projectId'') \<and> nonempty (fld r ''root'') 4096
         then Some (ProjectRegister (strOf (fld r ''projectId'')) (strOf (fld r ''root''))) else None)
      else if kind = ''project.update'' \<or> kind = ''project.disable'' then
        (if domainIdentifier (fld r ''projectId'') \<and> revision (fld r ''expectedResourceRevision'') \<and>
            revision (fld r ''expectedConfigRevision'')
         then Some ((if kind = ''project.update'' then ProjectUpdate else ProjectDisable) (strOf (fld r ''projectId''))
                (numOf (fld r ''expectedResourceRevision'')) (numOf (fld r ''expectedConfigRevision''))) else None)
      else if domainIdentifier (fld r ''projectId'') \<and> revision (fld r ''expectedResourceRevision'')
        then Some (ProjectInspect (strOf (fld r ''projectId'')) (numOf (fld r ''expectedResourceRevision'')))
      else None)"

definition readTaskCommand :: "(jsstr \<Rightarrow> jsstr) \<Rightarrow> string \<Rightarrow> jsrec \<Rightarrow> application_command option" where
  "readTaskCommand nfc kind r =
     (if \<not> domainIdentifier (fld r ''projectId'') \<or> \<not> revision (fld r ''expectedProjectResourceRevision'') \<or>
         \<not> domainIdentifier (fld r ''taskId'') then None
      else let projectId = strOf (fld r ''projectId'');
               projectRevision = numOf (fld r ''expectedProjectResourceRevision'');
               taskId = strOf (fld r ''taskId'');
               taskRevision = numOf (fld r ''expectedTaskRevision'') in
        if kind = ''task.create'' then
          (if nonempty (fld r ''body'') 16384 \<and>
              (fld r ''supersedesTaskId'' = JNull \<or> domainIdentifier (fld r ''supersedesTaskId''))
           then Some (TaskCreate projectId projectRevision taskId (strOf (fld r ''body''))
                  (nullable strOf (fld r ''supersedesTaskId''))) else None)
        else if \<not> revision (fld r ''expectedTaskRevision'') then None
        else if kind = ''task.update'' then
          map_option (TaskUpdate projectId projectRevision taskId taskRevision) (parseChange (fld r ''change''))
        else if kind = ''task.cancel'' then
          (if isCanonicalCancellationReason nfc (fld r ''reason'')
           then Some (TaskCancel projectId projectRevision taskId taskRevision (strOf (fld r ''reason''))) else None)
        else if kind = ''dependency.add'' \<or> kind = ''dependency.remove'' then
          (if domainIdentifier (fld r ''dependencyId'') \<and> revision (fld r ''expectedDependencyRevision'')
           then Some ((if kind = ''dependency.add'' then DependencyAdd else DependencyRemove)
                  projectId projectRevision taskId taskRevision (strOf (fld r ''dependencyId''))
                  (numOf (fld r ''expectedDependencyRevision''))) else None)
        else if kind = ''task.mark_ready'' then Some (TaskMarkReady projectId projectRevision taskId taskRevision)
        else Some (TaskInspect projectId projectRevision taskId taskRevision))"

definition parseCommand :: "(jsstr \<Rightarrow> jsstr) \<Rightarrow> jsval \<Rightarrow> application_command option" where
  "parseCommand nfc value =
     (case commandKindOf value of
        None \<Rightarrow> None
      | Some kind \<Rightarrow>
          (case exactRecord value (expectedKeys kind) of
             None \<Rightarrow> None
           | Some record \<Rightarrow>
               if kind \<in> {''authorization.grant.list'', ''runtime.status'', ''runtime.backup'', ''runtime.restore'',
                  ''authorization.grant.issue'', ''authorization.grant.inspect'', ''authorization.grant.revoke''}
               then readRuntimeCommand kind record
               else if kind \<in> {''policy.evaluate'', ''project.register'', ''project.update'', ''project.disable'',
                  ''project.inspect''}
               then readProjectCommand kind record
               else readTaskCommand nfc kind record))"

text \<open>\<open>parseBootstrap\<close>, \<open>parseRenewal\<close> and \<open>parseCapabilityUpgrade\<close> differ in the kind; the result is \<open>expiresAt\<close>.\<close>

definition parseExpiry :: "string \<Rightarrow> jsval \<Rightarrow> jsstr option" where
  "parseExpiry kind value =
     (case exactRecord value [''kind'', ''expiresAt''] of
        None \<Rightarrow> None
      | Some record \<Rightarrow>
          if isLit (fld record ''kind'') kind \<and> timestamp (fld record ''expiresAt'')
          then Some (strOf (fld record ''expiresAt'')) else None)"

definition parseBootstrap :: "jsval \<Rightarrow> jsstr option" where
  "parseBootstrap = parseExpiry ''authorization.bootstrap''"

definition parseRenewal :: "jsval \<Rightarrow> jsstr option" where
  "parseRenewal = parseExpiry ''authorization.capability.renew''"

definition parseCapabilityUpgrade :: "jsval \<Rightarrow> jsstr option" where
  "parseCapabilityUpgrade = parseExpiry ''authorization.capability.upgrade''"

section \<open>The trusted ingress\<close>

record 'w ingress =
  ig_currentActor :: "'w \<Rightarrow> jsval option \<times> 'w"
  ig_now :: "'w \<Rightarrow> jsval option \<times> 'w"
  ig_nextId :: "string \<Rightarrow> 'w \<Rightarrow> jsval option \<times> 'w"
  ig_confirmHighRisk :: "confirmation_request \<Rightarrow> 'w \<Rightarrow> jsval option \<times> 'w"

text \<open>A call inside a \<open>try\<close> block whose handler returns \<open>failure\<close>.\<close>

definition ask :: "('w \<Rightarrow> jsval option \<times> 'w) \<Rightarrow> 'r \<Rightarrow> (jsval \<Rightarrow> 'w \<Rightarrow> 'r \<times> 'w) \<Rightarrow> 'w \<Rightarrow> 'r \<times> 'w" where
  "ask call failure continue w =
     (case call w of (None, w') \<Rightarrow> (failure, w') | (Some v, w') \<Rightarrow> continue v w')"

definition operationIdentity :: "'w ingress \<Rightarrow> 'w \<Rightarrow> operation_identity option \<times> 'w" where
  "operationIdentity ig =
     ask (ig_currentActor ig) None (\<lambda>actorValue.
     ask (ig_now ig) None (\<lambda>now.
     ask (ig_nextId ig ''request'') None (\<lambda>requestId.
     ask (ig_nextId ig ''correlation'') None (\<lambda>correlationId.
     ask (ig_nextId ig ''decision'') None (\<lambda>decisionId.
     ask (ig_nextId ig ''audit'') None (\<lambda>auditId w.
       (case parseActor actorValue of
          None \<Rightarrow> None
        | Some actor \<Rightarrow>
            if \<not> timestamp now \<or> \<not> operationalIdentifier requestId \<or> \<not> operationalIdentifier correlationId \<or>
               \<not> operationalIdentifier decisionId \<or> \<not> operationalIdentifier auditId then None
            else Some \<lparr>oi_actor = actor, oi_now = strOf now, oi_requestId = strOf requestId,
                   oi_correlationId = strOf correlationId, oi_decisionId = strOf decisionId,
                   oi_auditId = strOf auditId\<rparr>, w)))))))"

definition refreshOperationTime ::
  "operation_identity \<Rightarrow> 'w ingress \<Rightarrow> 'w \<Rightarrow> operation_identity option \<times> 'w" where
  "refreshOperationTime identity ig =
     ask (ig_now ig) None (\<lambda>now w.
       (if \<not> timestamp now \<or> strOf now < oi_now identity then None
        else Some (identity\<lparr>oi_now := strOf now\<rparr>), w))"

definition confirmHighRisk ::
  "operation_identity \<Rightarrow> string \<Rightarrow> 'w ingress \<Rightarrow> 'w \<Rightarrow> bool \<times> 'w" where
  "confirmHighRisk identity action ig w =
     (if action \<noteq> ''authorization.capability.renew'' \<and> action \<noteq> ''authorization.capability.upgrade'' \<and>
         \<not> isHighRiskAction (lit action) then (True, w)
      else ask (ig_confirmHighRisk ig
             \<lparr>cr_actorId = ta_actorId (oi_actor identity), cr_action = lit action,
              cr_requestId = oi_requestId identity, cr_correlationId = oi_correlationId identity\<rparr>)
             False (\<lambda>answer w. (answer = JBool True, w)) w)"

definition sameRootIdentity :: "'a project_root_identity_scheme \<Rightarrow> 'b project_root_identity_scheme \<Rightarrow> bool" where
  "sameRootIdentity left right \<longleftrightarrow>
     ri_rootKey left = ri_rootKey right \<and> ri_platform left = ri_platform right \<and>
     ri_device left = ri_device right \<and> ri_inode left = ri_inode right \<and> ri_mode left = ri_mode right"

end
