(* ===== verification/Project_Registry.thy ===== *)
theory Project_Registry
  imports Application_Input "HOL-Library.Sublist"
begin

text \<open>
  Identity of Project and runtime roots (\<^verbatim>\<open>src/project-registry.ts\<close>) and the wrappers of
  \<^verbatim>\<open>src/application-input.ts\<close> that turn its exceptions into application failures. The file
  system is a parameter: what \<open>lstatSync\<close> and \<open>realpathSync.native\<close> answer for a path.
  Paths are those of POSIX platforms; the branches for \<open>win32\<close> are not modelled.
\<close>

section \<open>The file system and POSIX paths\<close>

datatype fs_error = ENOENT | OtherFsError

record file_stat =
  fs_isDirectory :: bool
  fs_isSymbolicLink :: bool
  fs_dev :: nat
  fs_ino :: nat
  fs_mode :: nat

record filesystem =
  fs_platform :: jsstr
  fs_cwd :: jsstr
  fs_lstat :: "jsstr \<Rightarrow> fs_error + file_stat"
  fs_realpath :: "jsstr \<Rightarrow> fs_error + jsstr"

abbreviation slash :: code_unit where "slash \<equiv> 47"
abbreviation backslash :: code_unit where "backslash \<equiv> 92"

text \<open>The non-empty segments of a text between separators.\<close>

fun segmentsOf :: "(code_unit \<Rightarrow> bool) \<Rightarrow> jsstr \<Rightarrow> jsstr \<Rightarrow> jsstr list" where
  "segmentsOf sep current [] = (if current = [] then [] else [current])"
| "segmentsOf sep current (c # cs) =
     (if sep c then (if current = [] then [] else [current]) @ segmentsOf sep [] cs
      else segmentsOf sep (current @ [c]) cs)"

text \<open>\<open>path.resolve\<close>: \<open>.\<close> and \<open>..\<close> are removed, separators collapse, and a relative path starts at the working directory.\<close>

fun normalizeSegments :: "jsstr list \<Rightarrow> jsstr list \<Rightarrow> jsstr list" where
  "normalizeSegments acc [] = rev acc"
| "normalizeSegments acc (s # ss) =
     (if s = lit ''.'' then normalizeSegments acc ss
      else if s = lit ''..'' then normalizeSegments (tl acc) ss
      else normalizeSegments (s # acc) ss)"

definition joinSegments :: "jsstr list \<Rightarrow> jsstr" where
  "joinSegments ss = (if ss = [] then [slash] else concat (map (\<lambda>s. slash # s) ss))"

definition isAbsolute :: "jsstr \<Rightarrow> bool" where
  "isAbsolute v \<longleftrightarrow> v \<noteq> [] \<and> hd v = slash"

definition resolve :: "jsstr \<Rightarrow> jsstr \<Rightarrow> jsstr" where
  "resolve cwd v =
     joinSegments (normalizeSegments [] (segmentsOf ((=) slash) [] (if isAbsolute v then v else cwd @ slash # v)))"

section \<open>Registry errors\<close>

datatype project_registry_error_code =
    INVALID_PROJECT_ROOT | PROJECT_ROOT_MISSING | PROJECT_ROOT_REPARSE | PROJECT_IDENTITY_UNCERTAIN
  | PROJECT_RUNTIME_OVERLAP | PROJECT_IDENTITY_CHANGED

fun registryCodeName :: "project_registry_error_code \<Rightarrow> string" where
  "registryCodeName INVALID_PROJECT_ROOT = ''INVALID_PROJECT_ROOT''"
| "registryCodeName PROJECT_ROOT_MISSING = ''PROJECT_ROOT_MISSING''"
| "registryCodeName PROJECT_ROOT_REPARSE = ''PROJECT_ROOT_REPARSE''"
| "registryCodeName PROJECT_IDENTITY_UNCERTAIN = ''PROJECT_IDENTITY_UNCERTAIN''"
| "registryCodeName PROJECT_RUNTIME_OVERLAP = ''PROJECT_RUNTIME_OVERLAP''"
| "registryCodeName PROJECT_IDENTITY_CHANGED = ''PROJECT_IDENTITY_CHANGED''"

record registry_error =
  re_code :: project_registry_error_code
  re_message :: string

definition registryFailure :: "project_registry_error_code \<Rightarrow> string \<Rightarrow> registry_error + 'a" where
  "registryFailure code message = Inl \<lparr>re_code = code, re_message = message\<rparr>"

section \<open>Root inspection\<close>

definition comparablePath :: "filesystem \<Rightarrow> jsstr \<Rightarrow> jsstr" where
  "comparablePath fs value = resolve (fs_cwd fs) value"

definition overlaps :: "filesystem \<Rightarrow> jsstr \<Rightarrow> jsstr \<Rightarrow> bool" where
  "overlaps fs left right \<longleftrightarrow>
     (let first = comparablePath fs left; second = comparablePath fs right in
      first = second \<or> prefix (second @ [slash]) first \<or> prefix (first @ [slash]) second)"

definition exactProjectFilesystemIdentity :: "file_stat \<Rightarrow> registry_error + (jsstr \<times> jsstr \<times> int)" where
  "exactProjectFilesystemIdentity stats =
     (if \<not> int (fs_mode stats) \<le> MAX_SAFE_INTEGER
      then registryFailure PROJECT_IDENTITY_UNCERTAIN ''Filesystem mode is outside the safe numeric range''
      else Inr (lit (show_nat (fs_dev stats)), lit (show_nat (fs_ino stats)), int (fs_mode stats)))"

text \<open>The segments behind the root \<open>/\<close>, split at slashes and backslashes.\<close>

definition rootSegments :: "jsstr \<Rightarrow> jsstr list" where
  "rootSegments value = segmentsOf (\<lambda>c. c = slash \<or> c = backslash) [] (tl value)"

definition rejectLexicalRoot :: "filesystem \<Rightarrow> jsval \<Rightarrow> registry_error + jsstr" where
  "rejectLexicalRoot fs value =
     (case value of
        JStr v \<Rightarrow>
          (if length v = 0 \<or> 0 \<in> set v \<or> \<not> isAbsolute v
           then registryFailure INVALID_PROJECT_ROOT ''Project root must be a nonempty absolute local path''
           else if list_ex (\<lambda>segment. segment = lit ''.'' \<or> segment = lit ''..'') (rootSegments v)
           then registryFailure INVALID_PROJECT_ROOT ''Project root contains a traversal component''
           else if comparablePath fs v = comparablePath fs [slash] \<or>
              comparablePath fs v \<noteq> comparablePath fs (resolve (fs_cwd fs) v)
           then registryFailure INVALID_PROJECT_ROOT ''Project root is a filesystem root or is not normalized''
           else Inr v)
      | _ \<Rightarrow> registryFailure INVALID_PROJECT_ROOT ''Project root must be a nonempty absolute local path'')"

fun inspectComponents :: "filesystem \<Rightarrow> jsstr \<Rightarrow> jsstr list \<Rightarrow> registry_error + unit" where
  "inspectComponents fs current [] = Inr ()"
| "inspectComponents fs current (segment # segments) =
     (let here = (if current = [slash] then current @ segment else current @ slash # segment) in
      case fs_lstat fs here of
        Inl ENOENT \<Rightarrow> registryFailure PROJECT_ROOT_MISSING ''Project root does not exist''
      | Inl OtherFsError \<Rightarrow>
          registryFailure PROJECT_IDENTITY_UNCERTAIN ''Project root components could not be inspected''
      | Inr stat \<Rightarrow>
          if fs_isSymbolicLink stat
          then registryFailure PROJECT_ROOT_REPARSE ''Project root contains a reparse or symbolic-link component''
          else inspectComponents fs here segments)"

definition inspectEveryComponent :: "filesystem \<Rightarrow> jsstr \<Rightarrow> registry_error + unit" where
  "inspectEveryComponent fs value = inspectComponents fs [slash] (rootSegments value)"

definition uncertain :: "string \<Rightarrow> fs_error + 'a \<Rightarrow> registry_error + 'a" where
  "uncertain message result =
     (case result of Inl _ \<Rightarrow> registryFailure PROJECT_IDENTITY_UNCERTAIN message | Inr x \<Rightarrow> Inr x)"

definition rootIdentity :: "filesystem \<Rightarrow> jsstr \<Rightarrow> jsstr \<times> jsstr \<times> int \<Rightarrow> project_root_identity" where
  "rootIdentity fs canonicalRoot identity =
     \<lparr>ri_canonicalRoot = canonicalRoot, ri_rootKey = comparablePath fs canonicalRoot,
      ri_platform = fs_platform fs, ri_device = fst identity, ri_inode = fst (snd identity),
      ri_mode = snd (snd identity)\<rparr>"

definition inspectProjectRoot :: "filesystem \<Rightarrow> jsval \<Rightarrow> jsval \<Rightarrow> registry_error + project_root_identity" where
  "inspectProjectRoot fs projectRootInput runtimeRootInput =
     ebind (rejectLexicalRoot fs projectRootInput) (\<lambda>projectRoot.
     ebind (rejectLexicalRoot fs runtimeRootInput) (\<lambda>runtimeRoot.
     ebind (inspectEveryComponent fs projectRoot) (\<lambda>_.
     ebind (inspectEveryComponent fs runtimeRoot) (\<lambda>_.
     let message = ''Project root identity could not be established'' in
     ebind (uncertain message (fs_lstat fs projectRoot)) (\<lambda>rootStat.
     if \<not> fs_isDirectory rootStat \<or> fs_isSymbolicLink rootStat
     then registryFailure PROJECT_ROOT_REPARSE ''Project root must be a real directory''
     else
       ebind (uncertain message (fs_realpath fs projectRoot)) (\<lambda>canonicalRoot.
       ebind (uncertain message (fs_realpath fs runtimeRoot)) (\<lambda>canonicalRuntimeRoot.
       if comparablePath fs canonicalRoot \<noteq> comparablePath fs projectRoot
       then registryFailure PROJECT_ROOT_REPARSE ''Project root resolves through an alias or reparse point''
       else if overlaps fs canonicalRoot canonicalRuntimeRoot
       then registryFailure PROJECT_RUNTIME_OVERLAP ''Project root and runtime root must not overlap''
       else
         ebind (exactProjectFilesystemIdentity rootStat) (\<lambda>identity.
         if length (fst identity) = 0 \<or> length (fst (snd identity)) = 0
         then registryFailure PROJECT_IDENTITY_UNCERTAIN ''Project root has no stable local identity receipt''
         else Inr (rootIdentity fs canonicalRoot identity)))))))))"

definition inspectTrustedRuntimeRoot :: "filesystem \<Rightarrow> jsval \<Rightarrow> registry_error + project_root_identity" where
  "inspectTrustedRuntimeRoot fs runtimeRootInput =
     ebind (rejectLexicalRoot fs runtimeRootInput) (\<lambda>runtimeRoot.
     ebind (inspectEveryComponent fs runtimeRoot) (\<lambda>_.
     let message = ''Runtime root identity could not be established'' in
     ebind (uncertain message (fs_lstat fs runtimeRoot)) (\<lambda>rootStat.
     if \<not> fs_isDirectory rootStat \<or> fs_isSymbolicLink rootStat
     then registryFailure PROJECT_ROOT_REPARSE ''Runtime root must be a real directory''
     else
       ebind (uncertain message (fs_realpath fs runtimeRoot)) (\<lambda>canonicalRoot.
       if comparablePath fs canonicalRoot \<noteq> comparablePath fs runtimeRoot
       then registryFailure PROJECT_ROOT_REPARSE ''Runtime root resolves through an alias or reparse point''
       else ebind (exactProjectFilesystemIdentity rootStat) (\<lambda>identity.
         Inr (rootIdentity fs canonicalRoot identity))))))"

definition revalidateProjectRoot ::
  "filesystem \<Rightarrow> 'a project_root_identity_scheme \<Rightarrow> jsstr \<Rightarrow> registry_error + project_root_identity" where
  "revalidateProjectRoot fs receipt runtimeRoot =
     ebind (inspectProjectRoot fs (JStr (ri_canonicalRoot receipt)) (JStr runtimeRoot)) (\<lambda>current.
     if ri_rootKey current \<noteq> ri_rootKey receipt \<or> ri_platform current \<noteq> ri_platform receipt \<or>
        ri_device current \<noteq> ri_device receipt \<or> ri_inode current \<noteq> ri_inode receipt \<or>
        ri_mode current \<noteq> ri_mode receipt
     then registryFailure PROJECT_IDENTITY_CHANGED ''Project root identity changed since registration''
     else Inr current)"

section \<open>Application failures\<close>

definition projectRegistryFailure :: "registry_error \<Rightarrow> operation_identity \<Rightarrow> application_failure" where
  "projectRegistryFailure error identity =
     failed ProjectRegistryRejected ''Project or runtime root identity could not be established safely''
       (Some identity) [(''registryCode'', DetailStr (lit (registryCodeName (re_code error))))]"

definition checkedRuntimeRoot ::
  "filesystem \<Rightarrow> jsstr \<Rightarrow> operation_identity \<Rightarrow> application_failure + project_root_identity" where
  "checkedRuntimeRoot fs runtimeRoot identity =
     (case inspectTrustedRuntimeRoot fs (JStr runtimeRoot) of
        Inl error \<Rightarrow> Inl (projectRegistryFailure error identity)
      | Inr root \<Rightarrow> Inr root)"

definition checkedProjectRoot ::
  "filesystem \<Rightarrow> 'a project_root_identity_scheme \<Rightarrow> jsstr \<Rightarrow> operation_identity \<Rightarrow>
    application_failure + project_root_identity" where
  "checkedProjectRoot fs receipt runtimeRoot identity =
     (case revalidateProjectRoot fs receipt runtimeRoot of
        Inl error \<Rightarrow> Inl (projectRegistryFailure error identity)
      | Inr root \<Rightarrow> Inr root)"

section \<open>What an inspected root guarantees\<close>

lemma registryFailure_not_Inr [simp]: "registryFailure code message \<noteq> Inr x"
  by (simp add: registryFailure_def)

lemma uncertain_Inr [err_simps]: "uncertain message r = Inr x \<longleftrightarrow> r = Inr x"
  by (auto simp: uncertain_def split: sum.splits)

text \<open>The paths that a walk over the segments visits.\<close>

fun visitedPaths :: "jsstr \<Rightarrow> jsstr list \<Rightarrow> jsstr list" where
  "visitedPaths current [] = []"
| "visitedPaths current (segment # segments) =
     (let here = (if current = [slash] then current @ segment else current @ slash # segment) in
      here # visitedPaths here segments)"

lemma inspectComponents_Inr:
  "inspectComponents fs current segments = Inr () \<longleftrightarrow>
    (\<forall>p\<in>set (visitedPaths current segments). \<exists>stat. fs_lstat fs p = Inr stat \<and> \<not> fs_isSymbolicLink stat)"
  by (induction segments arbitrary: current) (auto simp: Let_def split: sum.splits fs_error.splits)

definition plainPath :: "filesystem \<Rightarrow> jsstr \<Rightarrow> bool" where
  "plainPath fs v \<longleftrightarrow>
     (\<forall>p\<in>set (visitedPaths [slash] (rootSegments v)). \<exists>stat. fs_lstat fs p = Inr stat \<and> \<not> fs_isSymbolicLink stat)"

lemma inspectEveryComponent_Inr [err_simps]: "inspectEveryComponent fs v = Inr u \<longleftrightarrow> plainPath fs v"
  using inspectComponents_Inr [of fs "[slash]" "rootSegments v"]
  by (simp add: inspectEveryComponent_def plainPath_def)

text \<open>Resolution is idempotent, so the normalisation test of \<open>rejectLexicalRoot\<close> never fires.\<close>

lemma segmentsOf_no_sep:
  "s \<in> set (segmentsOf sep current v) \<Longrightarrow> \<forall>c\<in>set current. \<not> sep c \<Longrightarrow> s \<noteq> [] \<and> (\<forall>c\<in>set s. \<not> sep c)"
proof (induction sep current v rule: segmentsOf.induct)
  case (2 sep current c cs)
  then show ?case by (auto split: if_splits)
qed (auto split: if_splits)

lemma normalizeSegments_set:
  "s \<in> set (normalizeSegments acc ss) \<Longrightarrow>
    s \<in> set acc \<or> s \<in> set ss \<and> s \<noteq> lit ''.'' \<and> s \<noteq> lit ''..''"
proof (induction acc ss rule: normalizeSegments.induct)
  case (2 acc s' ss)
  moreover have "x \<in> set (tl acc) \<Longrightarrow> x \<in> set acc" for x by (cases acc) auto
  ultimately show ?case by (auto split: if_splits)
qed simp

lemma normalizeSegments_plain:
  "\<forall>s\<in>set ss. s \<noteq> lit ''.'' \<and> s \<noteq> lit ''..'' \<Longrightarrow> normalizeSegments acc ss = rev acc @ ss"
  by (induction acc ss rule: normalizeSegments.induct) auto

lemma segmentsOf_plain:
  "\<forall>c\<in>set s. \<not> sep c \<Longrightarrow> segmentsOf sep current (s @ v) = segmentsOf sep (current @ s) v"
  by (induction s arbitrary: current) auto

lemma segmentsOf_concat:
  assumes "\<forall>s\<in>set ss. s \<noteq> [] \<and> slash \<notin> set s"
  shows "segmentsOf ((=) slash) current (concat (map (\<lambda>s. slash # s) ss)) = (if current = [] then [] else [current]) @ ss"
  using assms
proof (induction ss arbitrary: current)
  case (Cons s ss)
  then have "\<forall>c\<in>set s. \<not> (=) slash c" by auto
  then show ?case using Cons by (simp add: segmentsOf_plain)
qed simp

lemma segmentsOf_joinSegments:
  "\<forall>s\<in>set ss. s \<noteq> [] \<and> slash \<notin> set s \<Longrightarrow> segmentsOf ((=) slash) [] (joinSegments ss) = ss"
  using segmentsOf_concat [of ss "[]"] by (simp add: joinSegments_def)

lemma resolve_joinSegments:
  assumes "\<forall>s\<in>set ss. s \<noteq> [] \<and> slash \<notin> set s \<and> s \<noteq> lit ''.'' \<and> s \<noteq> lit ''..''"
  shows "resolve cwd (joinSegments ss) = joinSegments ss"
proof -
  have "isAbsolute (joinSegments ss)" by (cases ss) (auto simp: isAbsolute_def joinSegments_def)
  then show ?thesis
    using assms by (simp add: resolve_def segmentsOf_joinSegments normalizeSegments_plain)
qed

lemma normalized_segments:
  assumes "s \<in> set (normalizeSegments [] (segmentsOf ((=) slash) [] v))"
  shows "s \<noteq> [] \<and> slash \<notin> set s \<and> s \<noteq> lit ''.'' \<and> s \<noteq> lit ''..''"
proof -
  from normalizeSegments_set [OF assms]
  have "s \<in> set (segmentsOf ((=) slash) [] v)" "s \<noteq> lit ''.''" "s \<noteq> lit ''..''" by simp_all
  with segmentsOf_no_sep [OF this(1)] show ?thesis by auto
qed

lemma resolve_idem: "resolve cwd (resolve cwd v) = resolve cwd v"
  unfolding resolve_def [of cwd v] by (rule resolve_joinSegments) (blast dest: normalized_segments)

definition lexicalRoot :: "filesystem \<Rightarrow> jsstr \<Rightarrow> bool" where
  "lexicalRoot fs v \<longleftrightarrow> isAbsolute v \<and> 0 \<notin> set v \<and>
     (\<forall>s\<in>set (rootSegments v). s \<noteq> lit ''.'' \<and> s \<noteq> lit ''..'') \<and> comparablePath fs v \<noteq> comparablePath fs [slash]"

lemma rejectLexicalRoot_Inr [err_simps]:
  "rejectLexicalRoot fs x = Inr v \<longleftrightarrow> x = JStr v \<and> lexicalRoot fs v"
  by (cases x) (auto simp: rejectLexicalRoot_def lexicalRoot_def list_ex_iff comparablePath_def resolve_idem
      isAbsolute_def)

lemma show_nat_not_Nil: "show_nat n \<noteq> []"
  by (subst show_nat.simps) simp

theorem inspectProjectRoot_Inr:
  "inspectProjectRoot fs (JStr p) (JStr r) = Inr ident \<longleftrightarrow>
    (\<exists>stat canonical canonicalRuntime.
      lexicalRoot fs p \<and> lexicalRoot fs r \<and> plainPath fs p \<and> plainPath fs r \<and>
      fs_lstat fs p = Inr stat \<and> fs_isDirectory stat \<and> \<not> fs_isSymbolicLink stat \<and> int (fs_mode stat) \<le> MAX_SAFE_INTEGER \<and>
      fs_realpath fs p = Inr canonical \<and> fs_realpath fs r = Inr canonicalRuntime \<and>
      comparablePath fs canonical = comparablePath fs p \<and> \<not> overlaps fs canonical canonicalRuntime \<and>
      ident = rootIdentity fs canonical (lit (show_nat (fs_dev stat)), lit (show_nat (fs_ino stat)), int (fs_mode stat)))"
  by (auto simp: inspectProjectRoot_def err_simps exactProjectFilesystemIdentity_def Let_def show_nat_not_Nil)

lemma revalidateProjectRoot_Inr:
  "revalidateProjectRoot fs receipt r = Inr ident \<longleftrightarrow>
    inspectProjectRoot fs (JStr (ri_canonicalRoot receipt)) (JStr r) = Inr ident \<and> sameRootIdentity ident receipt"
  by (auto simp: revalidateProjectRoot_def err_simps sameRootIdentity_def)

lemma checkedProjectRoot_Inr:
  "checkedProjectRoot fs receipt r i = Inr ident \<longleftrightarrow> revalidateProjectRoot fs receipt r = Inr ident"
  by (auto simp: checkedProjectRoot_def split: sum.splits)

lemma checkedRuntimeRoot_Inr:
  "checkedRuntimeRoot fs r i = Inr ident \<longleftrightarrow> inspectTrustedRuntimeRoot fs (JStr r) = Inr ident"
  by (auto simp: checkedRuntimeRoot_def split: sum.splits)

end
