(* ===== verification/Js_Date_Format.thy ===== *)
theory Js_Date_Format
  imports Js_Date
begin

text \<open>
  \<open>Date.prototype.toISOString\<close>: the calendar date of a time value and its text. The text is
  read back as the same time value, and the timestamps that the program accepts
  (\<open>isIsoString\<close>) are exactly the texts that \<open>toISOString\<close> produces.
\<close>

section \<open>The calendar date of a time value\<close>

text \<open>An estimate from the mean length of a year is off by at most one.\<close>

definition YearFromDay :: "int \<Rightarrow> int" where
  "YearFromDay day =
     (let y = 1970 + 400 * day div 146097 in
      if day < DayFromYear y then y - 1 else if DayFromYear (y + 1) \<le> day then y + 1 else y)"

definition MonthFromDay :: "int \<Rightarrow> int \<Rightarrow> int" where
  "MonthFromDay y k = (case find (\<lambda>m. k < daysBeforeMonth y (m + 1)) [1..12] of None \<Rightarrow> 12 | Some m \<Rightarrow> m)"

definition dateOfTime :: "int \<Rightarrow> date_time" where
  "dateOfTime ms =
     (let day = ms div 86400000; tod = ms mod 86400000; y = YearFromDay day;
          k = day - DayFromYear y; m = MonthFromDay y k in
      \<lparr>dt_year = y, dt_month = m, dt_day = k - daysBeforeMonth y m + 1, dt_hour = tod div 3600000,
       dt_minute = tod div 60000 mod 60, dt_second = tod div 1000 mod 60, dt_milli = tod mod 1000\<rparr>)"

lemma div_bounds:
  fixes k x :: int
  assumes "0 < k"
  shows "k * (x div k) \<le> x" "x < k * (x div k) + k"
  using pos_mod_bound [OF assms, of x] pos_mod_sign [OF assms, of x] mult_div_mod_eq [of k x] by - linarith+

lemma DayFromYear_bounds:
  "400 * DayFromYear y \<le> 146097 * (y - 1970) + 593" "146097 * (y - 1970) - 600 \<le> 400 * DayFromYear y"
proof -
  note b = div_bounds [of 4 "y - 1969", simplified] div_bounds [of 100 "y - 1901", simplified]
    div_bounds [of 400 "y - 1601", simplified]
  show "400 * DayFromYear y \<le> 146097 * (y - 1970) + 593" "146097 * (y - 1970) - 600 \<le> 400 * DayFromYear y"
    unfolding DayFromYear_def using b by (simp_all add: algebra_simps)
qed

lemma YearFromDay_bounds:
  "DayFromYear (YearFromDay day) \<le> day \<and> day < DayFromYear (YearFromDay day + 1)"
proof -
  define y where "y = 1970 + 400 * day div 146097"
  have e: "146097 * (y - 1970) \<le> 400 * day" "400 * day < 146097 * (y - 1970) + 146097"
    using div_bounds [of 146097 "400 * day"] by (simp_all add: y_def)
  have "DayFromYear (y - 1) \<le> day" "day < DayFromYear (y + 2)"
    using e DayFromYear_bounds(1) [of "y - 1"] DayFromYear_bounds(2) [of "y + 2"] by (simp_all add: algebra_simps)
  then show ?thesis
    unfolding YearFromDay_def y_def [symmetric] Let_def by (auto simp: add.assoc)
qed

lemma MonthFromDay_bounds:
  assumes "0 \<le> k" "k < daysBeforeMonth y 13"
  shows "1 \<le> MonthFromDay y k \<and> MonthFromDay y k \<le> 12 \<and> daysBeforeMonth y (MonthFromDay y k) \<le> k \<and>
    k < daysBeforeMonth y (MonthFromDay y k + 1)"
proof -
  have m: "[1..12] = [1, 2, 3, 4, 5, 6, 7, 8, 9, 10, 11, 12::int]" by (simp add: upto_rec1)
  have "daysBeforeMonth y 1 = 0" by (simp add: daysBeforeMonth_def)
  then show ?thesis using assms by (auto simp: MonthFromDay_def m not_less)
qed

lemma clock_parts:
  fixes x :: int
  shows "x div 3600000 * 3600000 + x div 60000 mod 60 * 60000 + x div 1000 mod 60 * 1000 + x mod 1000 = x"
proof -
  have "x div 60000 = x div 1000 div 60" "x div 3600000 = x div 60000 div 60"
    by (simp_all flip: zdiv_zmult2_eq)
  moreover have "x = x div 1000 * 1000 + x mod 1000" "x div 1000 = x div 1000 div 60 * 60 + x div 1000 mod 60"
    "x div 60000 = x div 60000 div 60 * 60 + x div 60000 mod 60" by simp_all
  ultimately show ?thesis by linarith
qed

theorem timeValue_dateOfTime: "timeValue (dateOfTime ms) = ms"
proof -
  let ?tod = "ms mod 86400000"
  have "timeValue (dateOfTime ms) = ms div 86400000 * 86400000 + (?tod div 3600000 * 3600000 +
      ?tod div 60000 mod 60 * 60000 + ?tod div 1000 mod 60 * 1000 + ?tod mod 1000)"
    by (simp add: timeValue_def dateOfTime_def Let_def MakeDay_def)
  also have "\<dots> = ms div 86400000 * 86400000 + ?tod" by (simp only: clock_parts)
  also have "\<dots> = ms" by simp
  finally show ?thesis .
qed

lemma dateOfTime_day:
  fixes ms defines "t \<equiv> dateOfTime ms"
  shows "1 \<le> dt_month t" "dt_month t \<le> 12" "1 \<le> dt_day t" "dt_day t \<le> daysInMonth (dt_year t) (dt_month t)"
proof -
  define y where "y = YearFromDay (ms div 86400000)"
  define k where "k = ms div 86400000 - DayFromYear y"
  have "0 \<le> k" "k < daysBeforeMonth y 13"
    using YearFromDay_bounds [of "ms div 86400000"] DayFromYear_Suc [of y]
    by (auto simp: k_def y_def daysBeforeMonth_13)
  from MonthFromDay_bounds [OF this] show "1 \<le> dt_month t" "dt_month t \<le> 12" "1 \<le> dt_day t"
    "dt_day t \<le> daysInMonth (dt_year t) (dt_month t)"
    using daysBeforeMonth_Suc [of "MonthFromDay y k" y]
    by (simp_all add: t_def dateOfTime_def Let_def y_def [symmetric] k_def [symmetric])
qed

lemma dateOfTime_clock:
  fixes ms defines "t \<equiv> dateOfTime ms"
  shows "0 \<le> dt_hour t" "dt_hour t \<le> 23" "0 \<le> dt_minute t" "dt_minute t \<le> 59" "0 \<le> dt_second t"
    "dt_second t \<le> 59" "0 \<le> dt_milli t" "dt_milli t \<le> 999"
proof -
  have "0 \<le> ms mod 86400000" "ms mod 86400000 < 86400000" by simp_all
  with div_bounds [of 3600000 "ms mod 86400000"]
  have "0 \<le> ms mod 86400000 div 3600000" "ms mod 86400000 div 3600000 \<le> 23"
    by (simp_all add: pos_imp_zdiv_nonneg_iff)
  then show "0 \<le> dt_hour t" "dt_hour t \<le> 23" "0 \<le> dt_minute t" "dt_minute t \<le> 59" "0 \<le> dt_second t"
    "dt_second t \<le> 59" "0 \<le> dt_milli t" "dt_milli t \<le> 999"
    unfolding t_def dateOfTime_def Let_def by simp_all
qed

definition inTimeRange :: "int \<Rightarrow> bool" where
  "inTimeRange ms \<longleftrightarrow> - 8640000000000000 \<le> ms \<and> ms \<le> 8640000000000000"

lemma validDateTime_dateOfTime: "inTimeRange ms \<Longrightarrow> validDateTime (dateOfTime ms)"
  using dateOfTime_day [of ms] dateOfTime_clock [of ms]
  by (simp add: validDateTime_def inTimeRange_def timeValue_dateOfTime)

lemma fields_inject: "fields t = fields u \<Longrightarrow> t = u"
  by (cases t; cases u) (simp add: fields_def)

lemma dateOfTime_timeValue:
  assumes "validDateTime t"
  shows "dateOfTime (timeValue t) = t"
proof -
  have v: "validDateTime (dateOfTime (timeValue t))"
    using assms by (intro validDateTime_dateOfTime) (simp add: validDateTime_def inTimeRange_def)
  have "fields (dateOfTime (timeValue t)) = fields t"
    using fields_less_iff [OF v assms] fields_less_iff [OF assms v]
    by (metis timeValue_dateOfTime less_irrefl linorder_less_linear)
  then show ?thesis by (rule fields_inject)
qed

section \<open>The text of a date\<close>

fun padded :: "nat \<Rightarrow> int \<Rightarrow> jsstr" where
  "padded 0 v = []"
| "padded (Suc n) v = padded n (v div 10) @ [48 + word_of_int (v mod 10)]"

definition isoYear :: "int \<Rightarrow> jsstr" where
  "isoYear y = (if 0 \<le> y \<and> y \<le> 9999 then padded 4 y else if y < 0 then lit ''-'' @ padded 6 (- y) else lit ''+'' @ padded 6 y)"

definition isoTailChunks :: "date_time \<Rightarrow> jsstr list" where
  "isoTailChunks t =
     [lit ''-'', padded 2 (dt_month t), lit ''-'', padded 2 (dt_day t), lit ''T'', padded 2 (dt_hour t), lit '':'',
      padded 2 (dt_minute t), lit '':'', padded 2 (dt_second t), lit ''.'', padded 3 (dt_milli t), lit ''Z'']"

definition isoText :: "date_time \<Rightarrow> jsstr" where
  "isoText t = isoYear (dt_year t) @ concat (isoTailChunks t)"

text \<open>\<open>toISOString\<close> throws a \<open>RangeError\<close> outside the range of time values.\<close>

definition toISOString :: "int \<Rightarrow> jsstr option" where
  "toISOString ms = (if inTimeRange ms then Some (isoText (dateOfTime ms)) else None)"

lemma length_padded [simp]: "length (padded n v) = n"
  by (induction n arbitrary: v) auto

lemma unat_digit:
  fixes d :: int
  assumes "0 \<le> d" "d \<le> 9"
  shows "unat (48 + word_of_int d :: code_unit) = 48 + nat d"
proof -
  have "(48 + word_of_int d :: code_unit) = word_of_int (48 + d)" by simp
  moreover have "uint (word_of_int (48 + d) :: code_unit) = 48 + d"
    using assms by (simp add: uint_word_of_int del: of_int_add of_int_numeral)
  ultimately show ?thesis using assms by (metis unat_eq_nat_uint nat_add_distrib nat_numeral zero_le_numeral)
qed

lemma digit_padded: "isDigit (48 + word_of_int (v mod 10))" "digitOf (48 + word_of_int (v mod 10)) = v mod 10"
proof -
  have r: "0 \<le> v mod 10" "v mod 10 \<le> 9" by simp_all
  note u = unat_digit [OF r]
  show "isDigit (48 + word_of_int (v mod 10))" unfolding isDigit_def u using r by simp
  show "digitOf (48 + word_of_int (v mod 10)) = v mod 10" unfolding digitOf_def u using r by simp
qed

lemma padded_digits: "list_all isDigit (padded n v)"
  by (induction n arbitrary: v) (auto simp: digit_padded)

lemma digitsValue_snoc: "digitsValue (ds @ [c]) = digitsValue ds * 10 + digitOf c"
  by (simp add: digitsValue_def)

lemma digitsValue_padded: "0 \<le> v \<Longrightarrow> v < 10 ^ n \<Longrightarrow> digitsValue (padded n v) = v"
proof (induction n arbitrary: v)
  case (Suc n)
  then have "0 \<le> v div 10" "v div 10 < 10 ^ n" by auto
  with Suc.IH show ?case by (simp add: digitsValue_snoc digit_padded)
qed (simp add: digitsValue_def)

lemma padded_digitsValue: "list_all isDigit ds \<Longrightarrow> padded (length ds) (digitsValue ds) = ds"
  using digitsValue_range [of ds] digits_eq_iff [of "padded (length ds) (digitsValue ds)" ds]
  by (simp add: padded_digits digitsValue_padded)

lemma chunks_concat: "map length vs = ns \<Longrightarrow> chunks ns (concat vs) = Some vs"
  by (induction vs arbitrary: ns) auto

lemma isoTailChunks_widths: "map length (isoTailChunks t) = isoTailWidths"
  by (simp add: isoTailChunks_def isoTailWidths_def)

lemma isoTail_chunks: "isoTail (isoTailChunks t)"
  by (simp add: isoTail_def isoTailChunks_def padded_digits)

lemma isoTailFields_chunks:
  assumes "validDateTime t"
  shows "isoTailFields (dt_year t) (isoTailChunks t) = t"
proof -
  have "dt_day t \<le> 31" using assms by (auto simp: validDateTime_def daysInMonth_def split: if_splits)
  then show ?thesis using assms
    by (simp add: isoTailFields_def isoTailChunks_def validDateTime_def digitsValue_padded)
qed

text \<open>The year of a time value in range has at most six digits.\<close>

lemma dt_year_range:
  assumes "validDateTime t"
  shows "\<bar>dt_year t\<bar> < 10 ^ 6"
proof -
  have t: "1 \<le> dt_month t" "dt_month t \<le> 12" "1 \<le> dt_day t" "dt_day t \<le> daysInMonth (dt_year t) (dt_month t)"
    using assms by (simp_all add: validDateTime_def)
  have c: "0 \<le> clock t" "clock t < 86400000" using clock_range [OF assms] by auto
  have "daysInMonth (dt_year t) (dt_month t) \<le> 31" by (simp add: daysInMonth_def)
  moreover have "0 \<le> daysBeforeMonth (dt_year t) (dt_month t)" using t(1) by (rule daysBeforeMonth_nonneg)
  moreover have "daysBeforeMonth (dt_year t) (dt_month t) \<le> daysBeforeMonth (dt_year t) 13"
    using daysBeforeMonth_less [OF t(1), of 13 "dt_year t"] daysInMonth_pos [of "dt_year t" "dt_month t"] t(2) by simp
  ultimately have d: "DayFromYear (dt_year t) \<le> MakeDay (dt_year t) (dt_month t) (dt_day t)"
    "MakeDay (dt_year t) (dt_month t) (dt_day t) \<le> DayFromYear (dt_year t) + 400"
    using t by (auto simp: MakeDay_def daysBeforeMonth_13 split: if_splits)
  have "timeValue t = MakeDay (dt_year t) (dt_month t) (dt_day t) * 86400000 + clock t"
    by (simp add: timeValue_def clock_def)
  moreover have "- 8640000000000000 \<le> timeValue t" "timeValue t \<le> 8640000000000000"
    using assms by (simp_all add: validDateTime_def)
  ultimately have "\<bar>MakeDay (dt_year t) (dt_month t) (dt_day t)\<bar> \<le> 100000001" using c by linarith
  then show ?thesis using d DayFromYear_bounds [of "dt_year t"] by (simp add: abs_le_iff abs_less_iff)
qed

theorem parseIso_isoText:
  assumes "validDateTime t"
  shows "parseIso (isoText t) = Some t"
proof -
  note y = dt_year_range [OF assms]
  note tail = isoTailChunks_widths isoTail_chunks isoTailFields_chunks [OF assms]
  consider "0 \<le> dt_year t" "dt_year t \<le> 9999" | "dt_year t < 0" | "9999 < dt_year t" by linarith
  then show ?thesis
  proof cases
    case 1
    have "chunks (4 # isoTailWidths) (concat (padded 4 (dt_year t) # isoTailChunks t)) = Some (padded 4 (dt_year t) # isoTailChunks t)"
      by (rule chunks_concat) (simp add: tail)
    then have "parseShortIso (isoText t) = Some t"
      using 1 by (simp add: parseShortIso_def isoText_def isoYear_def tail padded_digits digitsValue_padded del: chunks.simps)
    then show ?thesis by (simp add: parseIso_def)
  next
    case 2
    have c: "chunks (1 # 6 # isoTailWidths) (concat (lit ''-'' # padded 6 (- dt_year t) # isoTailChunks t)) =
        Some (lit ''-'' # padded 6 (- dt_year t) # isoTailChunks t)"
      by (rule chunks_concat) (simp add: tail)
    have t: "isoText t = concat (lit ''-'' # padded 6 (- dt_year t) # isoTailChunks t)"
      using 2 by (simp add: isoText_def isoYear_def)
    have "parseShortIso (isoText t) = None"
      using parseShortIso_length [of "isoText t"] by (cases "parseShortIso (isoText t)") (auto simp: t isoTailChunks_def)
    moreover have "parseLongIso (isoText t) = Some t"
      using 2 y c tail(3) by (simp add: parseLongIso_def t tail padded_digits digitsValue_padded del: chunks.simps concat.simps)
    ultimately show ?thesis by (simp add: parseIso_def)
  next
    case 3
    have c: "chunks (1 # 6 # isoTailWidths) (concat (lit ''+'' # padded 6 (dt_year t) # isoTailChunks t)) =
        Some (lit ''+'' # padded 6 (dt_year t) # isoTailChunks t)"
      by (rule chunks_concat) (simp add: tail)
    have t: "isoText t = concat (lit ''+'' # padded 6 (dt_year t) # isoTailChunks t)"
      using 3 by (simp add: isoText_def isoYear_def)
    have "parseShortIso (isoText t) = None"
      using parseShortIso_length [of "isoText t"] by (cases "parseShortIso (isoText t)") (auto simp: t isoTailChunks_def)
    moreover have "parseLongIso (isoText t) = Some t"
      using 3 y c tail(3) by (simp add: parseLongIso_def t tail padded_digits digitsValue_padded del: chunks.simps concat.simps)
    ultimately show ?thesis by (simp add: parseIso_def)
  qed
qed

theorem toISOString_iso:
  assumes "toISOString ms = Some v"
  shows "isIsoString v \<and> momentOf v = ms"
  using assms parseIso_isoText [OF validDateTime_dateOfTime, of ms]
  by (auto simp: toISOString_def isIsoString_def momentOf_def timeValue_dateOfTime validDateTime_dateOfTime
      split: if_splits)

lemma isoTailChunks_fields:
  assumes "map length cs = isoTailWidths" "isoTail cs"
  shows "isoTailChunks (isoTailFields y cs) = cs"
proof -
  obtain c0 c1 c2 c3 c4 c5 c6 c7 c8 c9 c10 c11 c12 where
    c: "cs = [c0, c1, c2, c3, c4, c5, c6, c7, c8, c9, c10, c11, c12]" using length_13 [OF assms(1)] by blast
  have w: "length c1 = 2" "length c3 = 2" "length c5 = 2" "length c7 = 2" "length c9 = 2" "length c11 = 3"
    using assms(1) by (simp_all add: isoTailWidths_def c)
  have d: "list_all isDigit c1" "list_all isDigit c3" "list_all isDigit c5" "list_all isDigit c7"
    "list_all isDigit c9" "list_all isDigit c11" using assms(2) by (simp_all add: isoTail_def c)
  note p = d [THEN padded_digitsValue, unfolded w]
  show ?thesis
    using assms(2) p padded_digitsValue [OF d(6), unfolded w] padded_digitsValue [OF d(1), unfolded w]
      padded_digitsValue [OF d(2), unfolded w] padded_digitsValue [OF d(3), unfolded w]
      padded_digitsValue [OF d(4), unfolded w] padded_digitsValue [OF d(5), unfolded w]
    by (simp add: isoTailChunks_def isoTailFields_def c isoTail_def)
qed

lemma parseLongIso_Some:
  assumes "parseLongIso v = Some t"
  obtains sign y cs where "v = concat (sign # y # cs)" "length y = 6" "map length cs = isoTailWidths" "list_all isDigit y"
    "isoTail cs" "sign = lit ''+'' \<and> digitsValue y > 9999 \<and> t = isoTailFields (digitsValue y) cs \<or>
      sign = lit ''-'' \<and> digitsValue y > 0 \<and> t = isoTailFields (- digitsValue y) cs"
proof -
  from assms obtain sign y cs where c: "chunks (1 # 6 # isoTailWidths) v = Some (sign # y # cs)"
    and "list_all isDigit y" "isoTail cs" "sign = lit ''+'' \<and> digitsValue y > 9999 \<and> t = isoTailFields (digitsValue y) cs \<or>
      sign = lit ''-'' \<and> digitsValue y > 0 \<and> t = isoTailFields (- digitsValue y) cs"
    unfolding parseLongIso_def by (auto simp del: chunks.simps split: option.splits list.splits if_splits)
  then show thesis using chunks_Some [OF c] by (intro that [of sign y cs]) auto
qed

lemma isoText_parseIso:
  assumes "parseIso v = Some t"
  shows "isoText t = v"
proof (cases "parseShortIso v")
  case (Some u)
  with assms have t: "parseShortIso v = Some t" by (simp add: parseIso_def)
  then obtain y cs where v: "v = concat (y # cs)" "length y = 4" "map length cs = isoTailWidths" "list_all isDigit y"
    "isoTail cs" "t = isoTailFields (digitsValue y) cs" by (rule parseShortIso_Some)
  have "padded 4 (digitsValue y) = y" using padded_digitsValue [OF v(4)] v(2) by simp
  moreover have "0 \<le> digitsValue y" "digitsValue y \<le> 9999" using digitsValue_range [OF v(4)] v(2) by simp_all
  ultimately show ?thesis
    using isoTailChunks_fields [OF v(3,5)] v(1) by (simp add: isoText_def v(6) isoYear_def isoTailFields_def)
next
  case None
  with assms have "parseLongIso v = Some t" by (simp add: parseIso_def)
  then obtain sign y cs where v: "v = concat (sign # y # cs)" "length y = 6" "map length cs = isoTailWidths"
    "list_all isDigit y" "isoTail cs" and sign: "sign = lit ''+'' \<and> digitsValue y > 9999 \<and> t = isoTailFields (digitsValue y) cs \<or>
      sign = lit ''-'' \<and> digitsValue y > 0 \<and> t = isoTailFields (- digitsValue y) cs" by (rule parseLongIso_Some)
  have "padded 6 (digitsValue y) = y" using padded_digitsValue [OF v(4)] v(2) by simp
  then show ?thesis
    using sign isoTailChunks_fields [OF v(3,5)] v(1) by (auto simp: isoText_def isoYear_def isoTailFields_def)
qed

text \<open>The accepted timestamps are the texts of the time values.\<close>

theorem isIsoString_iff_toISOString: "isIsoString v \<longleftrightarrow> toISOString (momentOf v) = Some v \<and> parseIso v \<noteq> None"
proof
  assume "isIsoString v"
  then obtain t where t: "parseIso v = Some t" "validDateTime t" by (auto simp: isIsoString_def split: option.splits)
  then have "inTimeRange (timeValue t)" by (simp add: validDateTime_def inTimeRange_def)
  then show "toISOString (momentOf v) = Some v \<and> parseIso v \<noteq> None"
    using t isoText_parseIso [OF t(1)] by (simp add: toISOString_def momentOf_def dateOfTime_timeValue)
qed (use toISOString_iso in blast)

section \<open>Windows\<close>

text \<open>
  \<open>new Date(new Date(now).valueOf() + milliseconds).toISOString()\<close>, the end of a window that
  starts at a timestamp.
\<close>

definition shiftTimestamp :: "jsstr \<Rightarrow> int \<Rightarrow> jsstr option" where
  "shiftTimestamp now milliseconds = toISOString (momentOf now + milliseconds)"

definition days :: "int \<Rightarrow> int" where
  "days n = n * 24 * 60 * 60 * 1000"

lemma shiftTimestamp_moment: "shiftTimestamp now k = Some v \<Longrightarrow> isIsoString v \<and> momentOf v = momentOf now + k"
  unfolding shiftTimestamp_def by (rule toISOString_iso)

lemma toISOString_Some: "inTimeRange ms \<Longrightarrow> \<exists>v. toISOString ms = Some v"
  by (simp add: toISOString_def)

end
