(* ===== verification/Repository.thy ===== *)
theory Repository
  imports Domain_Complete
begin

text \<open>
  Persistence of the Domain snapshot (\<^verbatim>\<open>src/persistence/repository.ts\<close>): Projects, Tasks and
  dependency edges as rows of three SQLite tables, the decoding of the rows, and the
  compare-and-swap write of a Domain mutation. SQLite is modelled by the part of its
  behaviour that the code uses: primary keys, the \<open>CHECK\<close> constraints of
  \<^verbatim>\<open>migrations/0001-current-baseline.sql\<close>, the number of changed rows, and the storage of text
  as UTF-8. Deferred foreign keys and I/O failures are not modelled. \<open>canonicalJson(a) !==
  canonicalJson(b)\<close> is inequality of the data.
\<close>

section \<open>Exceptions\<close>

datatype persistence_error_code =
    INTEGRITY_ERROR | CORRUPT_ROW | REVISION_CONFLICT | PERSISTENCE_INVALID_INPUT | STORE_CLOSED

text \<open>What a function of the source throws, with its message.\<close>

datatype thrown = RangeError | TypeError string | PersistenceError persistence_error_code string | HookError string

definition persistenceFailure :: "persistence_error_code \<Rightarrow> string \<Rightarrow> thrown + 'a" where
  "persistenceFailure code message = Inl (PersistenceError code message)"

definition normalizeSqliteFailure :: "persistence_error_code \<Rightarrow> thrown + 'a \<Rightarrow> thrown + 'a" where
  "normalizeSqliteFailure fallback result =
     (case result of
        Inr x \<Rightarrow> Inr x
      | Inl (PersistenceError code message) \<Rightarrow> Inl (PersistenceError code message)
      | Inl _ \<Rightarrow> persistenceFailure fallback ''SQLite persistence operation failed'')"

text \<open>An error raised by SQLite itself.\<close>

definition sqliteError :: "thrown + 'a" where
  "sqliteError = Inl (TypeError ''ERR_SQLITE_ERROR'')"

section \<open>Rows\<close>

datatype sql_value = SqlNull | SqlInteger int | SqlText jsstr

text \<open>Text is stored as UTF-8; a lone surrogate is stored as the replacement character.\<close>

fun toWellFormed :: "jsstr \<Rightarrow> jsstr" where
  "toWellFormed [] = []"
| "toWellFormed [c] = [if isHighSurrogate c \<or> isLowSurrogate c then 0xfffd else c]"
| "toWellFormed (c # d # cs) =
     (if isHighSurrogate c
      then (if isLowSurrogate d then c # d # toWellFormed cs else 0xfffd # toWellFormed (d # cs))
      else (if isLowSurrogate c then 0xfffd else c) # toWellFormed (d # cs))"

definition bindText :: "jsstr \<Rightarrow> sql_value" where
  "bindText s = SqlText (toWellFormed s)"

definition bindNullable :: "('a \<Rightarrow> sql_value) \<Rightarrow> 'a option \<Rightarrow> sql_value" where
  "bindNullable f x = (case x of None \<Rightarrow> SqlNull | Some y \<Rightarrow> f y)"

definition bindBoolean :: "bool \<Rightarrow> sql_value" where
  "bindBoolean b = SqlInteger (if b then 1 else 0)"

record task_row =
  c_task_id :: sql_value
  c_project_id :: sql_value
  c_state :: sql_value
  c_revision :: sql_value
  c_body :: sql_value
  c_parent_id :: sql_value
  c_waiting_reason :: sql_value
  c_waiting_phase :: sql_value
  c_waiting_required_action :: sql_value
  c_waiting_last_error_code :: sql_value
  c_waiting_last_error_summary :: sql_value
  c_waiting_retryable :: sql_value
  c_waiting_retry_count :: sql_value
  c_waiting_retry_after :: sql_value
  c_waiting_execution_id :: sql_value
  c_waiting_workspace_revision :: sql_value
  c_waiting_backend_thread_id :: sql_value
  c_waiting_task_revision :: sql_value
  c_completion_decision_id :: sql_value
  c_completion_accepted_task_revision :: sql_value
  c_cancellation_event :: sql_value
  c_cancellation_reason :: sql_value
  c_cancellation_verification_id :: sql_value
  c_cancellation_accepted_task_revision :: sql_value
  c_supersedes_task_id :: sql_value

record domain_tables =
  tb_initialized :: bool
  tb_projects :: "(sql_value \<times> sql_value) list"
  tb_tasks :: "task_row list"
  tb_dependencies :: "(sql_value \<times> sql_value) list"

text \<open>A column of an optional fact: \<open>fact?.field ?? null\<close>.\<close>

definition factColumn :: "'f option \<Rightarrow> ('f \<Rightarrow> sql_value) \<Rightarrow> sql_value" where
  "factColumn value column = (case value of None \<Rightarrow> SqlNull | Some f \<Rightarrow> column f)"

definition bindTask :: "task \<Rightarrow> task_row" where
  "bindTask task =
     (let waiting = map_option wm_input (t_waiting task) in
      \<lparr>c_task_id = bindText (t_id task),
       c_project_id = bindText (t_projectId task),
       c_state = bindText (lit (stateName (t_state task))),
       c_revision = SqlInteger (t_revision task),
       c_body = bindText (t_body task),
       c_parent_id = bindNullable bindText (t_parentId task),
       c_waiting_reason = factColumn waiting (\<lambda>w. bindText (lit (waitingReasonName (w_reason w)))),
       c_waiting_phase = factColumn waiting (\<lambda>w. bindText (w_phase w)),
       c_waiting_required_action = factColumn waiting (\<lambda>w. bindText (w_requiredAction w)),
       c_waiting_last_error_code = factColumn waiting (\<lambda>w. bindText (w_lastErrorCode w)),
       c_waiting_last_error_summary = factColumn waiting (\<lambda>w. bindNullable bindText (w_lastErrorSummary w)),
       c_waiting_retryable = factColumn waiting (\<lambda>w. bindBoolean (w_retryable w)),
       c_waiting_retry_count = factColumn waiting (\<lambda>w. SqlInteger (w_retryCount w)),
       c_waiting_retry_after = factColumn waiting (\<lambda>w. bindNullable SqlInteger (w_retryAfter w)),
       c_waiting_execution_id = factColumn waiting (\<lambda>w. bindNullable bindText (w_executionId w)),
       c_waiting_workspace_revision = factColumn waiting (\<lambda>w. bindNullable bindText (w_workspaceRevision w)),
       c_waiting_backend_thread_id = factColumn waiting (\<lambda>w. bindNullable bindText (w_backendThreadId w)),
       c_waiting_task_revision = factColumn (t_waiting task) (\<lambda>w. SqlInteger (wm_waitingTaskRevision w)),
       c_completion_decision_id = factColumn (t_completion task) (\<lambda>c. bindText (c_decisionId c)),
       c_completion_accepted_task_revision = factColumn (t_completion task) (\<lambda>c. SqlInteger (c_acceptedTaskRevision c)),
       c_cancellation_event = factColumn (t_cancellation task) (\<lambda>x. bindText (lit (cancellationEventName (x_event x)))),
       c_cancellation_reason = factColumn (t_cancellation task) (\<lambda>x. bindText (x_reason x)),
       c_cancellation_verification_id = factColumn (t_cancellation task) (\<lambda>x. bindNullable bindText (x_verificationId x)),
       c_cancellation_accepted_task_revision =
         factColumn (t_cancellation task) (\<lambda>x. SqlInteger (x_acceptedTaskRevision x)),
       c_supersedes_task_id = bindNullable bindText (t_supersedesTaskId task)\<rparr>)"

definition bindProject :: "project \<Rightarrow> sql_value \<times> sql_value" where
  "bindProject project = (bindText (p_id project), bindBoolean (p_enabled project))"

section \<open>Decoding\<close>

definition sqliteText :: "sql_value \<Rightarrow> string \<Rightarrow> thrown + jsstr" where
  "sqliteText v label =
     (case v of SqlText s \<Rightarrow> Inr s | _ \<Rightarrow> persistenceFailure CORRUPT_ROW (label @ '' is not SQLite TEXT''))"

definition sqliteNullableText :: "sql_value \<Rightarrow> string \<Rightarrow> thrown + jsstr option" where
  "sqliteNullableText v label = (if v = SqlNull then Inr None else ebind (sqliteText v label) (\<lambda>s. Inr (Some s)))"

definition sqliteRowInteger :: "sql_value \<Rightarrow> string \<Rightarrow> thrown + int" where
  "sqliteRowInteger v label =
     (case v of
        SqlInteger n \<Rightarrow>
          (if - MAX_SAFE_INTEGER \<le> n \<and> n \<le> MAX_SAFE_INTEGER then Inr n
           else persistenceFailure CORRUPT_ROW (label @ '' is not a safe SQLite INTEGER''))
      | _ \<Rightarrow> persistenceFailure CORRUPT_ROW (label @ '' is not a safe SQLite INTEGER''))"

definition sqliteNullableInteger :: "sql_value \<Rightarrow> string \<Rightarrow> thrown + int option" where
  "sqliteNullableInteger v label =
     (if v = SqlNull then Inr None else ebind (sqliteRowInteger v label) (\<lambda>n. Inr (Some n)))"

definition sqliteBoolean :: "sql_value \<Rightarrow> string \<Rightarrow> thrown + bool" where
  "sqliteBoolean v label =
     ebind (sqliteRowInteger v label) (\<lambda>n.
     if n \<noteq> 0 \<and> n \<noteq> 1 then persistenceFailure CORRUPT_ROW (label @ '' is not a stored boolean'')
     else Inr (n = 1))"

definition decodeWaiting :: "task_row \<Rightarrow> thrown + jsval" where
  "decodeWaiting row =
     ebind (sqliteNullableText (c_waiting_reason row) ''tasks.waiting_reason'') (\<lambda>waitingReason.
     case waitingReason of
       None \<Rightarrow> Inr JNull
     | Some reason \<Rightarrow>
         ebind (sqliteText (c_waiting_phase row) ''tasks.waiting_phase'') (\<lambda>phase.
         ebind (sqliteText (c_waiting_required_action row) ''tasks.waiting_required_action'') (\<lambda>requiredAction.
         ebind (sqliteText (c_waiting_last_error_code row) ''tasks.waiting_last_error_code'') (\<lambda>lastErrorCode.
         ebind (sqliteNullableText (c_waiting_last_error_summary row) ''tasks.waiting_last_error_summary'') (\<lambda>lastErrorSummary.
         ebind (sqliteBoolean (c_waiting_retryable row) ''tasks.waiting_retryable'') (\<lambda>retryable.
         ebind (sqliteRowInteger (c_waiting_retry_count row) ''tasks.waiting_retry_count'') (\<lambda>retryCount.
         ebind (sqliteNullableInteger (c_waiting_retry_after row) ''tasks.waiting_retry_after'') (\<lambda>retryAfter.
         ebind (sqliteNullableText (c_waiting_execution_id row) ''tasks.waiting_execution_id'') (\<lambda>executionId.
         ebind (sqliteNullableText (c_waiting_workspace_revision row) ''tasks.waiting_workspace_revision'') (\<lambda>workspaceRevision.
         ebind (sqliteNullableText (c_waiting_backend_thread_id row) ''tasks.waiting_backend_thread_id'') (\<lambda>backendThreadId.
         ebind (sqliteRowInteger (c_waiting_task_revision row) ''tasks.waiting_task_revision'') (\<lambda>waitingTaskRevision.
         Inr (jsObj [(''reason'', JStr reason), (''phase'', JStr phase), (''requiredAction'', JStr requiredAction),
           (''lastErrorCode'', JStr lastErrorCode), (''lastErrorSummary'', jsNullable JStr lastErrorSummary),
           (''retryable'', JBool retryable), (''retryCount'', jsInt retryCount),
           (''retryAfter'', jsNullable jsInt retryAfter), (''executionId'', jsNullable JStr executionId),
           (''workspaceRevision'', jsNullable JStr workspaceRevision),
           (''backendThreadId'', jsNullable JStr backendThreadId),
           (''waitingTaskRevision'', jsInt waitingTaskRevision)])))))))))))))"

definition decodeCompletion :: "task_row \<Rightarrow> thrown + jsval" where
  "decodeCompletion row =
     ebind (sqliteNullableText (c_completion_decision_id row) ''tasks.completion_decision_id'') (\<lambda>completionDecisionId.
     case completionDecisionId of
       None \<Rightarrow> Inr JNull
     | Some decisionId \<Rightarrow>
         ebind (sqliteRowInteger (c_completion_accepted_task_revision row) ''tasks.completion_accepted_task_revision'')
           (\<lambda>acceptedTaskRevision.
         Inr (jsObj [(''decisionId'', JStr decisionId), (''acceptedTaskRevision'', jsInt acceptedTaskRevision)])))"

definition decodeCancellation :: "task_row \<Rightarrow> thrown + jsval" where
  "decodeCancellation row =
     ebind (sqliteNullableText (c_cancellation_event row) ''tasks.cancellation_event'') (\<lambda>cancellationEvent.
     case cancellationEvent of
       None \<Rightarrow> Inr JNull
     | Some ev \<Rightarrow>
         ebind (sqliteText (c_cancellation_reason row) ''tasks.cancellation_reason'') (\<lambda>reason.
         ebind (sqliteNullableText (c_cancellation_verification_id row) ''tasks.cancellation_verification_id'')
           (\<lambda>verificationId.
         ebind (sqliteRowInteger (c_cancellation_accepted_task_revision row) ''tasks.cancellation_accepted_task_revision'')
           (\<lambda>acceptedTaskRevision.
         Inr (jsObj [(''event'', JStr ev), (''reason'', JStr reason),
           (''verificationId'', jsNullable JStr verificationId),
           (''acceptedTaskRevision'', jsInt acceptedTaskRevision)])))))"

definition decodeTask :: "(jsstr \<times> jsstr) list \<Rightarrow> task_row \<Rightarrow> thrown + jsval" where
  "decodeTask edges row =
     ebind (sqliteText (c_task_id row) ''tasks.task_id'') (\<lambda>taskId.
     ebind (decodeWaiting row) (\<lambda>waiting.
     ebind (decodeCompletion row) (\<lambda>completion.
     ebind (decodeCancellation row) (\<lambda>cancellation.
     ebind (sqliteText (c_project_id row) ''tasks.project_id'') (\<lambda>projectId.
     ebind (sqliteText (c_state row) ''tasks.state'') (\<lambda>state.
     ebind (sqliteRowInteger (c_revision row) ''tasks.revision'') (\<lambda>revision.
     ebind (sqliteText (c_body row) ''tasks.body'') (\<lambda>body.
     ebind (sqliteNullableText (c_parent_id row) ''tasks.parent_id'') (\<lambda>parentId.
     ebind (sqliteNullableText (c_supersedes_task_id row) ''tasks.supersedes_task_id'') (\<lambda>supersedesTaskId.
     Inr (jsObj [(''id'', JStr taskId), (''projectId'', JStr projectId), (''state'', JStr state),
       (''revision'', jsInt revision), (''body'', JStr body), (''parentId'', jsNullable JStr parentId),
       (''dependencyIds'', jsArr (map JStr (sort (map snd (filter (\<lambda>(t, d). t = taskId) edges))))),
       (''waiting'', waiting), (''completion'', completion), (''cancellation'', cancellation),
       (''supersedesTaskId'', jsNullable JStr supersedesTaskId)])))))))))))"

definition decodeProject :: "sql_value \<times> sql_value \<Rightarrow> thrown + jsval" where
  "decodeProject row =
     ebind (sqliteText (fst row) ''projects.project_id'') (\<lambda>projectId.
     ebind (sqliteBoolean (snd row) ''projects.enabled'') (\<lambda>enabled.
     Inr (jsObj [(''id'', JStr projectId), (''enabled'', JBool enabled)])))"

definition decodeEdge :: "sql_value \<times> sql_value \<Rightarrow> thrown + jsstr \<times> jsstr" where
  "decodeEdge row =
     ebind (sqliteText (fst row) ''task_dependencies.task_id'') (\<lambda>taskId.
     ebind (sqliteText (snd row) ''task_dependencies.dependency_id'') (\<lambda>dependencyId.
     Inr (taskId, dependencyId)))"

fun etraverse :: "('a \<Rightarrow> 'e + 'b) \<Rightarrow> 'a list \<Rightarrow> 'e + 'b list" where
  "etraverse f [] = Inr []"
| "etraverse f (x # xs) = ebind (f x) (\<lambda>y. ebind (etraverse f xs) (\<lambda>ys. Inr (y # ys)))"

text \<open>\<open>ORDER BY\<close> a text column: the byte order of UTF-8 is the order of the code points.\<close>

fun sqlOrder :: "sql_value \<Rightarrow> nat list" where
  "sqlOrder (SqlText s) = codePoints s"
| "sqlOrder _ = []"

definition validateDecodedSnapshot :: "(jsstr \<Rightarrow> jsstr) \<Rightarrow> jsval \<Rightarrow> thrown + snapshot" where
  "validateDecodedSnapshot nfc value =
     (case createDomainSnapshot nfc value of
        Inl _ \<Rightarrow> persistenceFailure CORRUPT_ROW ''Persisted Project/Task graph violates the Domain Core''
      | Inr (snapshot, _) \<Rightarrow> Inr snapshot)"

definition readDomainSnapshotUntransactional :: "(jsstr \<Rightarrow> jsstr) \<Rightarrow> domain_tables \<Rightarrow> thrown + snapshot" where
  "readDomainSnapshotUntransactional nfc tables =
     (let projectRows = sort_key (sqlOrder \<circ> fst) (tb_projects tables);
          taskRows = sort_key (sqlOrder \<circ> c_task_id) (tb_tasks tables);
          dependencyRows = sort_key (sqlOrder \<circ> fst) (sort_key (sqlOrder \<circ> snd) (tb_dependencies tables)) in
      ebind (etraverse decodeProject projectRows) (\<lambda>projects.
      ebind (etraverse decodeEdge dependencyRows) (\<lambda>edges.
      ebind (etraverse (\<lambda>row. sqliteText (c_task_id row) ''tasks.task_id'') taskRows) (\<lambda>taskIds.
      if list_ex (\<lambda>(taskId, _). taskId \<notin> set taskIds) edges
      then persistenceFailure CORRUPT_ROW ''Dependency edge refers to an absent Task''
      else
        ebind (etraverse (decodeTask edges) taskRows) (\<lambda>tasks.
        validateDecodedSnapshot nfc (jsObj [(''projects'', jsArr projects), (''tasks'', jsArr tasks)]))))))"

section \<open>Table updates\<close>

text \<open>SQLite's \<open>length\<close> counts the characters before the first NUL.\<close>

definition sqlNonempty :: "sql_value \<Rightarrow> bool" where
  "sqlNonempty v \<longleftrightarrow> (case v of SqlText s \<Rightarrow> s \<noteq> [] \<and> hd s \<noteq> 0 | _ \<Rightarrow> False)"

definition isPositive :: "sql_value \<Rightarrow> bool" where
  "isPositive v \<longleftrightarrow> (case v of SqlInteger n \<Rightarrow> n > 0 | _ \<Rightarrow> False)"

definition isText :: "sql_value \<Rightarrow> string \<Rightarrow> bool" where
  "isText v s \<longleftrightarrow> v = SqlText (lit s)"

text \<open>The \<open>CHECK\<close> and \<open>NOT NULL\<close> constraints of the table \<open>tasks\<close>.\<close>

definition taskRowChecks :: "task_row \<Rightarrow> bool" where
  "taskRowChecks row \<longleftrightarrow>
     sqlNonempty (c_task_id row) \<and> c_project_id row \<noteq> SqlNull \<and>
     list_ex (\<lambda>s. isText (c_state row) (stateName s)) TASK_STATES \<and> isPositive (c_revision row) \<and>
     c_body row \<noteq> SqlNull \<and>
     (c_parent_id row = SqlNull \<or> sqlNonempty (c_parent_id row)) \<and>
     (c_supersedes_task_id row = SqlNull \<or> sqlNonempty (c_supersedes_task_id row)) \<and>
     (if isText (c_state row) ''waiting''
      then c_waiting_reason row \<noteq> SqlNull \<and> c_waiting_phase row \<noteq> SqlNull \<and>
        c_waiting_required_action row \<noteq> SqlNull \<and> c_waiting_last_error_code row \<noteq> SqlNull \<and>
        c_waiting_retryable row \<in> {SqlInteger 0, SqlInteger 1} \<and>
        (case c_waiting_retry_count row of SqlInteger n \<Rightarrow> n \<ge> 0 | _ \<Rightarrow> False) \<and> isPositive (c_waiting_task_revision row)
      else list_all (\<lambda>v. v = SqlNull)
        [c_waiting_reason row, c_waiting_phase row, c_waiting_required_action row, c_waiting_last_error_code row,
         c_waiting_last_error_summary row, c_waiting_retryable row, c_waiting_retry_count row, c_waiting_retry_after row,
         c_waiting_execution_id row, c_waiting_workspace_revision row, c_waiting_backend_thread_id row,
         c_waiting_task_revision row]) \<and>
     (if isText (c_state row) ''completed''
      then c_completion_decision_id row \<noteq> SqlNull \<and> isPositive (c_completion_accepted_task_revision row)
      else c_completion_decision_id row = SqlNull \<and> c_completion_accepted_task_revision row = SqlNull) \<and>
     (if isText (c_state row) ''cancelled''
      then (isText (c_cancellation_event row) ''cancel'' \<or> isText (c_cancellation_event row) ''interruption_verified'') \<and>
        c_cancellation_reason row \<noteq> SqlNull \<and> isPositive (c_cancellation_accepted_task_revision row)
      else list_all (\<lambda>v. v = SqlNull)
        [c_cancellation_event row, c_cancellation_reason row, c_cancellation_verification_id row,
         c_cancellation_accepted_task_revision row])"

definition insertTask :: "task \<Rightarrow> domain_tables \<Rightarrow> thrown + domain_tables" where
  "insertTask task tables =
     (let row = bindTask task in
      if c_task_id row \<in> c_task_id ` set (tb_tasks tables) \<or> \<not> taskRowChecks row then sqliteError
      else Inr (tables\<lparr>tb_tasks := tb_tasks tables @ [row]\<rparr>))"

definition updateTask :: "task \<Rightarrow> int \<Rightarrow> domain_tables \<Rightarrow> thrown + domain_tables" where
  "updateTask task previousRevision tables =
     (let row = bindTask task;
          matches = (\<lambda>r. c_task_id r = c_task_id row \<and> c_revision r = SqlInteger previousRevision) in
      if list_ex matches (tb_tasks tables) \<and> \<not> taskRowChecks row then sqliteError
      else if length (filter matches (tb_tasks tables)) \<noteq> 1
      then persistenceFailure REVISION_CONFLICT ''Task revision compare-and-swap failed''
      else Inr (tables\<lparr>tb_tasks := map (\<lambda>r. if matches r then row else r) (tb_tasks tables)\<rparr>))"

definition deleteDependencies :: "jsstr \<Rightarrow> domain_tables \<Rightarrow> domain_tables" where
  "deleteDependencies taskId tables =
     tables\<lparr>tb_dependencies := filter (\<lambda>(t, d). t \<noteq> bindText taskId) (tb_dependencies tables)\<rparr>"

fun writeDependencies :: "jsstr \<Rightarrow> jsstr list \<Rightarrow> domain_tables \<Rightarrow> thrown + domain_tables" where
  "writeDependencies taskId [] tables = Inr tables"
| "writeDependencies taskId (dependencyId # dependencyIds) tables =
     (let row = (bindText taskId, bindText dependencyId) in
      if row \<in> set (tb_dependencies tables) \<or> fst row = snd row then sqliteError
      else writeDependencies taskId dependencyIds (tables\<lparr>tb_dependencies := tb_dependencies tables @ [row]\<rparr>))"

section \<open>Domain mutations\<close>

definition validateCallerSnapshot :: "(jsstr \<Rightarrow> jsstr) \<Rightarrow> snapshot \<Rightarrow> string \<Rightarrow> thrown + snapshot" where
  "validateCallerSnapshot nfc value label =
     (case createDomainSnapshot nfc (snapshotToJs value) of
        Inl _ \<Rightarrow> persistenceFailure PERSISTENCE_INVALID_INPUT (label @ '' violates the Domain Core'')
      | Inr (snapshot, _) \<Rightarrow> Inr snapshot)"

definition parseMutation :: "(jsstr \<Rightarrow> jsstr) \<Rightarrow> domain_mutation \<Rightarrow> thrown + domain_mutation" where
  "parseMutation nfc value =
     (let changed = m_changedTaskIds value in
      if list_ex (\<lambda>item. item = []) changed
      then persistenceFailure PERSISTENCE_INVALID_INPUT ''changedTaskIds must contain only nonempty identifiers''
      else if length (remdups (sort changed)) \<noteq> length (sort changed) \<or> sort changed \<noteq> changed
      then persistenceFailure PERSISTENCE_INVALID_INPUT ''changedTaskIds must be sorted and unique''
      else ebind (validateCallerSnapshot nfc (m_snapshot value) ''Mutation snapshot'') (\<lambda>snapshot.
        Inr \<lparr>m_snapshot = snapshot, m_changedTaskIds = changed\<rparr>))"

fun changedOf :: "snapshot \<Rightarrow> task list \<Rightarrow> thrown + jsstr list" where
  "changedOf expected [] = Inr []"
| "changedOf expected (task # tasks) =
     (case taskById expected (t_id task) of
        None \<Rightarrow>
          (if t_revision task \<noteq> 1
           then persistenceFailure REVISION_CONFLICT ''A new Task must start at revision 1''
           else ebind (changedOf expected tasks) (\<lambda>changed. Inr (t_id task # changed)))
      | Some previous \<Rightarrow>
          if previous \<noteq> task then
            (if t_revision task \<noteq> t_revision previous + 1
             then persistenceFailure REVISION_CONFLICT ''A changed Task must increment its exact prior revision''
             else ebind (changedOf expected tasks) (\<lambda>changed. Inr (t_id task # changed)))
          else changedOf expected tasks)"

definition changedTaskIds :: "snapshot \<Rightarrow> snapshot \<Rightarrow> thrown + jsstr list" where
  "changedTaskIds expected nextSnapshot =
     (if list_ex (\<lambda>task. taskById nextSnapshot (t_id task) = None) (s_tasks expected)
      then persistenceFailure PERSISTENCE_INVALID_INPUT ''Persistence mutation must not delete Tasks''
      else ebind (changedOf expected (s_tasks nextSnapshot)) (\<lambda>changed. Inr (sort changed)))"

fun writeTasks :: "snapshot \<Rightarrow> snapshot \<Rightarrow> jsstr list \<Rightarrow> domain_tables \<Rightarrow> thrown + domain_tables" where
  "writeTasks expected nextSnapshot [] tables = Inr tables"
| "writeTasks expected nextSnapshot (taskId # taskIds) tables =
     (case taskById nextSnapshot taskId of
        None \<Rightarrow> persistenceFailure PERSISTENCE_INVALID_INPUT ''Changed Task is absent from the mutation snapshot''
      | Some task \<Rightarrow>
          ebind (case taskById expected taskId of
                   None \<Rightarrow> insertTask task tables
                 | Some previous \<Rightarrow> updateTask task (t_revision previous) tables) (\<lambda>tables1.
          ebind (writeDependencies taskId (t_dependencyIds task) (deleteDependencies taskId tables1)) (\<lambda>tables2.
          writeTasks expected nextSnapshot taskIds tables2)))"

definition writeDomainMutationUntransactional ::
  "(jsstr \<Rightarrow> jsstr) \<Rightarrow> domain_tables \<Rightarrow> snapshot \<Rightarrow> domain_mutation \<Rightarrow> thrown + domain_tables" where
  "writeDomainMutationUntransactional nfc tables expectedInput mutationInput =
     ebind (validateCallerSnapshot nfc expectedInput ''Expected snapshot'') (\<lambda>expected.
     ebind (parseMutation nfc mutationInput) (\<lambda>parsed.
     if s_projects expected \<noteq> s_projects (m_snapshot parsed)
     then persistenceFailure PERSISTENCE_INVALID_INPUT ''Domain mutations must not change the Project registry''
     else
       ebind (changedTaskIds expected (m_snapshot parsed)) (\<lambda>actualChanged.
       if actualChanged \<noteq> m_changedTaskIds parsed \<or> length actualChanged = 0
       then persistenceFailure PERSISTENCE_INVALID_INPUT ''changedTaskIds does not exactly bind the Domain mutation''
       else normalizeSqliteFailure INTEGRITY_ERROR
         (if \<not> tb_initialized tables
          then persistenceFailure REVISION_CONFLICT ''Persistence store has not been initialized''
          else
            ebind (readDomainSnapshotUntransactional nfc tables) (\<lambda>current.
            if current \<noteq> expected
            then persistenceFailure REVISION_CONFLICT ''Persisted snapshot no longer matches the expected revision set''
            else
              ebind (writeTasks expected (m_snapshot parsed) (m_changedTaskIds parsed) tables) (\<lambda>written.
              ebind (readDomainSnapshotUntransactional nfc written) (\<lambda>readback.
              if readback \<noteq> m_snapshot parsed
              then persistenceFailure INTEGRITY_ERROR ''Mutation terminal readback did not match the Domain result''
              else Inr written)))))))"

section \<open>Project mutations\<close>

definition writeProjectRow :: "project option \<Rightarrow> project \<Rightarrow> domain_tables \<Rightarrow> thrown + domain_tables" where
  "writeProjectRow previous project tables =
     (let row = bindProject project in
      case previous of
        None \<Rightarrow>
          if fst row \<in> fst ` set (tb_projects tables) \<or> \<not> sqlNonempty (fst row) then sqliteError
          else Inr (tables\<lparr>tb_projects := tb_projects tables @ [row], tb_initialized := True\<rparr>)
      | Some prior \<Rightarrow>
          let matches = (\<lambda>r. r = (fst row, bindBoolean (p_enabled prior))) in
          if length (filter matches (tb_projects tables)) \<noteq> 1
          then persistenceFailure REVISION_CONFLICT ''Project enablement compare-and-swap failed''
          else Inr (tables\<lparr>tb_projects := map (\<lambda>r. if matches r then row else r) (tb_projects tables)\<rparr>))"

definition changedProjects :: "snapshot \<Rightarrow> snapshot \<Rightarrow> jsstr list" where
  "changedProjects expected nextSnapshot =
     map p_id (filter (\<lambda>project. projectById expected (p_id project) \<noteq> Some project) (s_projects nextSnapshot))"

definition writeProjectMutationUntransactional ::
  "(jsstr \<Rightarrow> jsstr) \<Rightarrow> domain_tables \<Rightarrow> snapshot \<Rightarrow> project_domain_mutation \<Rightarrow> thrown + domain_tables" where
  "writeProjectMutationUntransactional nfc tables expectedInput mutationInput =
     ebind (validateCallerSnapshot nfc expectedInput ''Expected snapshot'') (\<lambda>expected.
     ebind (validateCallerSnapshot nfc (pm_snapshot mutationInput) ''Project mutation snapshot'') (\<lambda>nextSnapshot.
     case pm_changedProjectIds mutationInput of
       [projectId] \<Rightarrow>
         if projectId = []
         then persistenceFailure PERSISTENCE_INVALID_INPUT ''Project mutation must bind one changed Project''
         else if s_tasks expected \<noteq> s_tasks nextSnapshot
         then persistenceFailure PERSISTENCE_INVALID_INPUT ''Project mutation must not change Tasks''
         else if list_ex (\<lambda>project. projectById nextSnapshot (p_id project) = None) (s_projects expected) \<or>
            changedProjects expected nextSnapshot \<noteq> [projectId]
         then persistenceFailure PERSISTENCE_INVALID_INPUT ''changedProjectIds does not exactly bind the Project mutation''
         else
           ebind (readDomainSnapshotUntransactional nfc tables) (\<lambda>current.
           if current \<noteq> expected
           then persistenceFailure REVISION_CONFLICT ''Persisted snapshot no longer matches the expected Project set''
           else (case projectById nextSnapshot projectId of
             None \<Rightarrow> persistenceFailure PERSISTENCE_INVALID_INPUT ''Changed Project is absent from the Project mutation''
           | Some project \<Rightarrow>
               normalizeSqliteFailure INTEGRITY_ERROR
                 (ebind (writeProjectRow (projectById expected projectId) project tables) (\<lambda>written.
                  ebind (readDomainSnapshotUntransactional nfc written) (\<lambda>readback.
                  if readback \<noteq> nextSnapshot
                  then persistenceFailure INTEGRITY_ERROR ''Project mutation terminal readback did not match the Domain result''
                  else Inr written)))))
     | _ \<Rightarrow> persistenceFailure PERSISTENCE_INVALID_INPUT ''Project mutation must bind one changed Project''))"

end
