(* ===== verification/Application_Policy.thy ===== *)
theory Application_Policy
  imports Project_Registry Authorization_Facts Js_Date_Format Repository
begin

text \<open>
  The decisions of the application layer (\<^verbatim>\<open>src/application-policy.ts\<close>): who may renew or
  upgrade the capability set, which target a command addresses, whether the command is
  authorized, and the records that document the decision. A function that may throw returns
  \<open>Inl\<close> what it throws.
\<close>

section \<open>Identities\<close>

definition registryProjectById :: "application_state \<Rightarrow> jsstr \<Rightarrow> registered_project option" where
  "registryProjectById state projectId = find (\<lambda>project. rp_projectId project = projectId) (st_projects state)"

definition sameLocalIdentity ::
  "application_state \<Rightarrow> operation_identity \<Rightarrow> 'a project_root_identity_scheme \<Rightarrow> bool" where
  "sameLocalIdentity state identity root \<longleftrightarrow>
     (case st_identity state of
        None \<Rightarrow> False
      | Some local \<Rightarrow>
          li_actorId local = ta_actorId (oi_actor identity) \<and>
          li_principalSha256 local = ta_principal (oi_actor identity) \<and>
          li_platform local = ri_platform root \<and> li_runtimeRootKey local = ri_rootKey root)"

text \<open>
  \<open>sha256(canonicalJson(actions))\<close>: the digest is Node's and is a parameter; the canonical
  JSON text of a list of action names.
\<close>

definition quoted :: "string \<Rightarrow> string" where
  "quoted s = CHR 0x22 # s @ [CHR 0x22]"

fun commaSeparated :: "string list \<Rightarrow> string" where
  "commaSeparated [] = []"
| "commaSeparated [s] = quoted s"
| "commaSeparated (s # t # ss) = quoted s @ '','' @ commaSeparated (t # ss)"

definition actionSetSha256 :: "(jsstr \<Rightarrow> jsstr) \<Rightarrow> int \<Rightarrow> jsstr" where
  "actionSetSha256 sha256 version =
     sha256 (lit (''['' @ commaSeparated (actionsForVocabulary version) @ '']'' @ [CHR 0x0A]))"

section \<open>Renewal and upgrade\<close>

definition latestEpoch :: "application_state \<Rightarrow> capability_epoch option" where
  "latestEpoch state = (if st_epochs state = [] then None else Some (last (st_epochs state)))"

definition nextEpochRevisionOf :: "application_state \<Rightarrow> int" where
  "nextEpochRevisionOf state = (case latestEpoch state of None \<Rightarrow> 0 | Some epoch \<Rightarrow> ce_epochRevision epoch) + 1"

text \<open>The grants of the current capability set: those the bootstrap or the latest epoch created.\<close>

definition currentOriginOf :: "application_state \<Rightarrow> authorization_bootstrap \<Rightarrow> jsstr \<Rightarrow> authorization_grant list" where
  "currentOriginOf state bootstrap actorId =
     (let originCreatedAt = (case latestEpoch state of None \<Rightarrow> ab_createdAt bootstrap | Some epoch \<Rightarrow> ce_createdAt epoch);
          originExpiresAt = (case latestEpoch state of None \<Rightarrow> ab_expiresAt bootstrap | Some epoch \<Rightarrow> ce_expiresAt epoch) in
      filter (\<lambda>grant. g_actorId grant = actorId \<and> g_issuerGrantId grant = None \<and> g_sourceGrantId grant = None \<and>
        g_notBefore grant = originCreatedAt \<and> g_expiresAt grant = originExpiresAt) (st_grants state))"

definition coversActions :: "string list \<Rightarrow> authorization_grant list \<Rightarrow> bool" where
  "coversActions actions grants \<longleftrightarrow>
     list_all (\<lambda>action. list_ex (\<lambda>grant. g_action grant = lit action) grants) actions"

datatype renewal_assessment =
    Renewed (ra_nextEpochRevision: int) (ra_vocabularyVersion: int)
  | RenewalAuthorizationDenied | RenewalNotDue | RenewalNotInitialized

definition assessRenewal ::
  "application_state \<Rightarrow> operation_identity \<Rightarrow> 'a project_root_identity_scheme \<Rightarrow> thrown + renewal_assessment" where
  "assessRenewal state identity root =
     (case st_bootstrap state of
        None \<Rightarrow> Inr RenewalNotInitialized
      | Some bootstrap \<Rightarrow>
          if \<not> sameRootIdentity bootstrap root then Inr RenewalAuthorizationDenied
          else (case st_identity state of
             None \<Rightarrow> Inr RenewalAuthorizationDenied
           | Some localIdentity \<Rightarrow>
               if \<not> sameLocalIdentity state identity root then Inr RenewalAuthorizationDenied
               else
                 let vocabularyVersion = (case latestEpoch state of None \<Rightarrow> 1 | Some epoch \<Rightarrow> ce_vocabularyVersion epoch);
                     currentActions = actionsForVocabulary vocabularyVersion;
                     originExpiresAt = (case latestEpoch state of None \<Rightarrow> ab_expiresAt bootstrap | Some epoch \<Rightarrow> ce_expiresAt epoch);
                     currentOrigin = currentOriginOf state bootstrap (li_actorId localIdentity) in
                 if length currentOrigin \<noteq> length currentActions then Inr RenewalAuthorizationDenied
                 else if \<not> coversActions currentActions currentOrigin then Inr RenewalAuthorizationDenied
                 else (case shiftTimestamp (oi_now identity) (days 7) of
                    None \<Rightarrow> Inl RangeError
                  | Some renewalThreshold \<Rightarrow>
                      if originExpiresAt > renewalThreshold then Inr RenewalNotDue
                      else if originExpiresAt > oi_now identity \<and> list_ex (\<lambda>grant. g_revokedAt grant \<noteq> None) currentOrigin
                      then Inr RenewalNotDue
                      else Inr (Renewed (nextEpochRevisionOf state) vocabularyVersion))))"

datatype upgrade_assessment =
    Upgradable (ua_nextEpochRevision: int) (ua_currentVocabularyVersion: int) (ua_targetVocabularyVersion: int)
  | UpgradeAuthorizationDenied | UpgradeNotInitialized | UpgradeNotEligible

definition assessCapabilityUpgrade ::
  "application_state \<Rightarrow> operation_identity \<Rightarrow> 'a project_root_identity_scheme \<Rightarrow> upgrade_assessment" where
  "assessCapabilityUpgrade state identity root =
     (case st_bootstrap state of
        None \<Rightarrow> UpgradeNotInitialized
      | Some bootstrap \<Rightarrow>
          if \<not> sameRootIdentity bootstrap root \<or> \<not> sameLocalIdentity state identity root
          then UpgradeAuthorizationDenied
          else
            let currentVocabulary = (case latestEpoch state of
                   None \<Rightarrow> ab_vocabularyVersion bootstrap | Some epoch \<Rightarrow> ce_vocabularyVersion epoch) in
            if currentVocabulary \<notin> {1, 2, 3, 4, 5, 6, 7} then UpgradeNotEligible
            else
              let currentOrigin = currentOriginOf state bootstrap (ta_actorId (oi_actor identity));
                  currentActions = actionsForVocabulary currentVocabulary in
              if length currentOrigin \<noteq> length currentActions \<or> \<not> coversActions currentActions currentOrigin \<or>
                 list_ex (\<lambda>grant. g_revokedAt grant \<noteq> None \<or> g_notBefore grant > oi_now identity \<or>
                   g_expiresAt grant \<le> oi_now identity) currentOrigin
              then UpgradeNotEligible
              else Upgradable (nextEpochRevisionOf state) currentVocabulary (currentVocabulary + 1))"

definition sameProjectBinding :: "registered_project \<Rightarrow> registered_project \<Rightarrow> bool" where
  "sameProjectBinding current preflight \<longleftrightarrow>
     rp_projectId current = rp_projectId preflight \<and> rp_configRevision current = rp_configRevision preflight \<and>
     rp_resourceRevision current = rp_resourceRevision preflight \<and> sameRootIdentity current preflight"

section \<open>Records of a decision\<close>

definition requestRecord ::
  "operation_identity \<Rightarrow> string \<Rightarrow> bound_target \<Rightarrow> request_result \<Rightarrow> request_record" where
  "requestRecord identity action target result =
     \<lparr>rr_requestId = oi_requestId identity, rr_correlationId = oi_correlationId identity,
      rr_actorId = ta_actorId (oi_actor identity), rr_action = action, rr_targetKind = bt_kind target,
      rr_targetId = bt_id target, rr_targetRevision = bt_revision target, rr_result = result,
      rr_createdAt = oi_now identity\<rparr>"

definition decisionRecord ::
  "operation_identity \<Rightarrow> string \<Rightarrow> bound_target \<Rightarrow> authorization_evaluation \<Rightarrow> decision_record" where
  "decisionRecord identity action target evaluated =
     \<lparr>dr_decisionId = oi_decisionId identity, dr_requestId = oi_requestId identity,
      dr_actorId = ta_actorId (oi_actor identity), dr_action = action, dr_allow = ae_allowed evaluated,
      dr_reason = ae_reason evaluated, dr_policy = ae_policy evaluated, dr_grantId = ae_grantId evaluated,
      dr_grantRevision = ae_grantRevision evaluated,
      dr_projectId = map_option rp_projectId (bt_project target),
      dr_resourceRevision = map_option rp_resourceRevision (bt_project target), dr_createdAt = oi_now identity\<rparr>"

definition auditRecord ::
  "operation_identity \<Rightarrow> bound_target \<Rightarrow> string \<Rightarrow> bool \<Rightarrow> string \<Rightarrow> jsstr option \<Rightarrow> audit_record" where
  "auditRecord identity target eventKind accepted reason decisionId =
     \<lparr>ar_auditId = oi_auditId identity, ar_requestId = oi_requestId identity, ar_decisionId = decisionId,
      ar_eventKind = eventKind, ar_accepted = accepted, ar_actorId = ta_actorId (oi_actor identity),
      ar_correlationId = oi_correlationId identity, ar_targetKind = bt_kind target, ar_targetId = bt_id target,
      ar_targetRevision = bt_revision target, ar_reason = reason, ar_createdAt = oi_now identity\<rparr>"

section \<open>Authorization of a command\<close>

definition policyFor :: "jsstr \<Rightarrow> registered_project option \<Rightarrow> application_state \<Rightarrow> authorization_policy_result" where
  "policyFor action project state =
     (if suffix (lit ''.inspect'') action \<or> action = lit ''policy.evaluate'' \<or> prefix (lit ''authorization.'') action \<or>
         prefix (lit ''runtime.'') action then PolicyReadNotApplicable
      else if action = lit ''project.register'' \<or> action = lit ''project.update'' \<or> action = lit ''project.disable''
      then PolicyAllow
      else case project of
        None \<Rightarrow> PolicyAllow
      | Some p \<Rightarrow>
          (case find (\<lambda>candidate. p_id candidate = rp_projectId p) (s_projects (st_domain state)) of
             None \<Rightarrow> PolicyDeny
           | Some candidate \<Rightarrow> if p_enabled candidate then PolicyAllow else PolicyDeny))"

definition authorize ::
  "operation_identity \<Rightarrow> string \<Rightarrow> bound_target \<Rightarrow> application_state \<Rightarrow> bool \<Rightarrow> scope_kind option \<Rightarrow>
    authorization_evaluation" where
  "authorize identity action target state confirmed requiredScopeKind =
     evaluateAuthorization (requestToJs
       \<lparr>rq_actorId = ta_actorId (oi_actor identity), rq_action = lit action,
        rq_target = \<lparr>at_projectId = map_option rp_projectId (bt_project target),
          at_resourceRevision = map_option rp_resourceRevision (bt_project target),
          at_configRevision = map_option rp_configRevision (bt_project target)\<rparr>,
        rq_now = oi_now identity, rq_policy = policyFor (lit action) (bt_project target) state,
        rq_confirmed = confirmed,
        rq_grants = (case requiredScopeKind of
           None \<Rightarrow> st_grants state
         | Some kind \<Rightarrow> filter (\<lambda>grant. as_kind (g_scope grant) = kind) (st_grants state))\<rparr>)"

definition authorizeCommand ::
  "operation_identity \<Rightarrow> application_command \<Rightarrow> bound_target \<Rightarrow> application_state \<Rightarrow> bool \<Rightarrow>
    thrown + command_authorization" where
  "authorizeCommand identity command target state confirmed =
     (let initial = authorize identity (commandKind command) target state confirmed None in
      case command of
        GrantIssue actorId action scope notBefore expiresAt \<Rightarrow>
          if \<not> ae_allowed initial \<and> ae_reason initial \<noteq> ConfirmationRequired
          then Inr \<lparr>ca_evaluation = initial, ca_issuanceProof = None\<rparr>
          else
            let candidate = \<lparr>gc_actorId = actorId, gc_action = action, gc_scope = scope, gc_notBefore = notBefore,
                  gc_expiresAt = expiresAt\<rparr> in
            (case canIssueGrant (ta_actorId (oi_actor identity)) (st_grants state) candidate (oi_now identity) of
               None \<Rightarrow> Inr \<lparr>ca_evaluation = initial\<lparr>ae_allowed := False, ae_reason := ScopeMismatch\<rparr>,
                            ca_issuanceProof = None\<rparr>
             | Some issuanceProof \<Rightarrow>
                 (case find (\<lambda>grant. g_grantId grant = gp_administrativeGrantId issuanceProof) (st_grants state) of
                    None \<Rightarrow> Inl (TypeError ''Grant issuance proof selected an absent administrative grant'')
                  | Some administrative \<Rightarrow>
                      if g_action administrative \<noteq> lit ''authorization.grant.issue''
                      then Inl (TypeError ''Grant issuance proof selected an absent administrative grant'')
                      else Inr \<lparr>ca_evaluation = initial\<lparr>ae_grantId := Some (g_grantId administrative),
                                   ae_grantRevision := Some (g_revision administrative)\<rparr>,
                                ca_issuanceProof = Some issuanceProof\<rparr>))
      | _ \<Rightarrow> Inr \<lparr>ca_evaluation = initial, ca_issuanceProof = None\<rparr>)"

definition staleEvaluation :: "authorization_policy_result \<Rightarrow> authorization_evaluation" where
  "staleEvaluation policy =
     \<lparr>ae_allowed = False, ae_reason = ScopeRevisionStale, ae_policy = policy, ae_grantId = None, ae_grantRevision = None\<rparr>"

section \<open>Targets\<close>

definition ensureCurrentProject ::
  "application_state \<Rightarrow> jsstr \<Rightarrow> int \<Rightarrow> int option \<Rightarrow> application_failure + registered_project" where
  "ensureCurrentProject state projectId resourceRevision configRevision =
     (case registryProjectById state projectId of
        None \<Rightarrow> Inl (failed ProjectNotFound ''Project is not registered in ProjectRegistry'' None
                  [(''projectId'', DetailStr projectId)])
      | Some project \<Rightarrow>
          if rp_resourceRevision project \<noteq> resourceRevision \<or>
             (configRevision \<noteq> None \<and> Some (rp_configRevision project) \<noteq> configRevision)
          then Inl (failed StaleRevision ''Project resource or config revision is stale'' None
                  [(''projectId'', DetailStr projectId)])
          else Inr project)"

fun isExistingProjectCommand :: "application_command \<Rightarrow> bool" where
  "isExistingProjectCommand (ProjectUpdate _ _ _) = True"
| "isExistingProjectCommand (ProjectDisable _ _ _) = True"
| "isExistingProjectCommand (ProjectInspect _ _) = True"
| "isExistingProjectCommand _ = False"

fun isDomainApplicationCommand :: "application_command \<Rightarrow> bool" where
  "isDomainApplicationCommand (TaskCreate _ _ _ _ _) = True"
| "isDomainApplicationCommand (TaskUpdate _ _ _ _ _) = True"
| "isDomainApplicationCommand (TaskMarkReady _ _ _ _) = True"
| "isDomainApplicationCommand (TaskCancel _ _ _ _ _) = True"
| "isDomainApplicationCommand (TaskInspect _ _ _ _) = True"
| "isDomainApplicationCommand (DependencyAdd _ _ _ _ _ _) = True"
| "isDomainApplicationCommand (DependencyRemove _ _ _ _ _ _) = True"
| "isDomainApplicationCommand _ = False"

definition boundTarget :: "target_kind \<Rightarrow> jsstr \<Rightarrow> int option \<Rightarrow> registered_project option \<Rightarrow> bound_target" where
  "boundTarget kind targetId expected project = \<lparr>bt_kind = kind, bt_id = targetId, bt_revision = expected, bt_project = project\<rparr>"

text \<open>The Project that a scope names, if it is registered.\<close>

definition scopeProject :: "application_state \<Rightarrow> authorization_scope \<Rightarrow> registered_project option" where
  "scopeProject state scope =
     (case (as_kind scope, as_projectId scope) of
        (ProjectScope, Some projectId) \<Rightarrow> registryProjectById state projectId
      | _ \<Rightarrow> None)"

definition projectTarget ::
  "application_state \<Rightarrow> jsstr \<Rightarrow> target_kind \<Rightarrow> jsstr \<Rightarrow> int option \<Rightarrow> application_failure + bound_target" where
  "projectTarget state projectId kind targetId expected =
     (case registryProjectById state projectId of
        None \<Rightarrow> Inl (failed ProjectNotFound ''Project is not registered in ProjectRegistry'' None
                  [(''projectId'', DetailStr projectId)])
      | Some project \<Rightarrow> Inr (boundTarget kind targetId expected (Some project)))"

definition grantTarget :: "application_state \<Rightarrow> jsstr \<Rightarrow> int \<Rightarrow> application_failure + bound_target" where
  "grantTarget state grantId expectedGrantRevision =
     (case find (\<lambda>candidate. g_grantId candidate = grantId) (st_grants state) of
        None \<Rightarrow> Inl (failed GrantNotFound ''Grant is not registered'' None [])
      | Some grant \<Rightarrow> Inr (boundTarget TargetGrant (g_grantId grant) (Some expectedGrantRevision)
                          (scopeProject state (g_scope grant))))"

fun targetForCommand :: "application_command \<Rightarrow> application_state \<Rightarrow> application_failure + bound_target" where
  "targetForCommand (GrantIssue _ _ scope _ _) state =
     Inr (boundTarget TargetGrant (lit ''new-grant'') None (scopeProject state scope))"
| "targetForCommand (GrantInspect grantId expected) state = grantTarget state grantId expected"
| "targetForCommand (GrantRevoke grantId expected) state = grantTarget state grantId expected"
| "targetForCommand (GrantList _ _) state = Inr (boundTarget TargetRuntime (lit ''runtime'') None None)"
| "targetForCommand RuntimeStatus state = Inr (boundTarget TargetRuntime (lit ''runtime'') None None)"
| "targetForCommand (RuntimeBackup generation) state = Inr (boundTarget TargetBackup generation None None)"
| "targetForCommand (RuntimeRestore generation) state = Inr (boundTarget TargetBackup generation None None)"
| "targetForCommand (ProjectRegister projectId _) state = Inr (boundTarget TargetProject projectId None None)"
| "targetForCommand (ProjectUpdate projectId expected _) state = projectTarget state projectId TargetProject projectId (Some expected)"
| "targetForCommand (ProjectDisable projectId expected _) state = projectTarget state projectId TargetProject projectId (Some expected)"
| "targetForCommand (ProjectInspect projectId expected) state = projectTarget state projectId TargetProject projectId (Some expected)"
| "targetForCommand (PolicyEvaluate projectId expected _ _) state = projectTarget state projectId TargetProject projectId (Some expected)"
| "targetForCommand (TaskCreate projectId _ taskId _ _) state = projectTarget state projectId TargetTask taskId None"
| "targetForCommand (TaskUpdate projectId _ taskId expected _) state = projectTarget state projectId TargetTask taskId (Some expected)"
| "targetForCommand (TaskMarkReady projectId _ taskId expected) state = projectTarget state projectId TargetTask taskId (Some expected)"
| "targetForCommand (TaskCancel projectId _ taskId expected _) state = projectTarget state projectId TargetTask taskId (Some expected)"
| "targetForCommand (TaskInspect projectId _ taskId expected) state = projectTarget state projectId TargetTask taskId (Some expected)"
| "targetForCommand (DependencyAdd projectId _ taskId expected _ _) state = projectTarget state projectId TargetTask taskId (Some expected)"
| "targetForCommand (DependencyRemove projectId _ taskId expected _ _) state = projectTarget state projectId TargetTask taskId (Some expected)"

end
