(* ===== verification/Application_Domain.thy ===== *)
theory Application_Domain
  imports Application_Policy
begin

text \<open>
  The bridge from application commands to the Domain Core (\<^verbatim>\<open>src/application-domain.ts\<close>):
  which Domain operation a command performs, with which command object, and what a command
  answers.
\<close>

section \<open>Names of Domain errors\<close>

fun domainCodeName :: "domain_error_code \<Rightarrow> string" where
  "domainCodeName INVALID_INPUT = ''INVALID_INPUT''"
| "domainCodeName INVALID_SNAPSHOT = ''INVALID_SNAPSHOT''"
| "domainCodeName TASK_NOT_FOUND = ''TASK_NOT_FOUND''"
| "domainCodeName PROJECT_NOT_FOUND = ''PROJECT_NOT_FOUND''"
| "domainCodeName PROJECT_ALREADY_EXISTS = ''PROJECT_ALREADY_EXISTS''"
| "domainCodeName TASK_ALREADY_EXISTS = ''TASK_ALREADY_EXISTS''"
| "domainCodeName ILLEGAL_TRANSITION = ''ILLEGAL_TRANSITION''"
| "domainCodeName TERMINAL_IMMUTABLE = ''TERMINAL_IMMUTABLE''"
| "domainCodeName MUTATION_NOT_ALLOWED = ''MUTATION_NOT_ALLOWED''"
| "domainCodeName NO_OP = ''NO_OP''"
| "domainCodeName REVISION_EXHAUSTED = ''REVISION_EXHAUSTED''"
| "domainCodeName PROJECT_DISABLED = ''PROJECT_DISABLED''"
| "domainCodeName TASK_NOT_ELIGIBLE = ''TASK_NOT_ELIGIBLE''"
| "domainCodeName DEPENDENCY_NOT_FOUND = ''DEPENDENCY_NOT_FOUND''"
| "domainCodeName DEPENDENCY_CANCELLED = ''DEPENDENCY_CANCELLED''"
| "domainCodeName DEPENDENCY_SELF = ''DEPENDENCY_SELF''"
| "domainCodeName DEPENDENCY_DUPLICATE = ''DEPENDENCY_DUPLICATE''"
| "domainCodeName DEPENDENCY_CYCLE = ''DEPENDENCY_CYCLE''"
| "domainCodeName PARENT_NOT_FOUND = ''PARENT_NOT_FOUND''"
| "domainCodeName PARENT_SELF = ''PARENT_SELF''"
| "domainCodeName PARENT_PROJECT_MISMATCH = ''PARENT_PROJECT_MISMATCH''"
| "domainCodeName PARENT_CYCLE = ''PARENT_CYCLE''"
| "domainCodeName SUPERSESSION_NOT_FOUND = ''SUPERSESSION_NOT_FOUND''"
| "domainCodeName SUPERSESSION_SELF = ''SUPERSESSION_SELF''"
| "domainCodeName EXTERNAL_PRECONDITION_FAILED = ''EXTERNAL_PRECONDITION_FAILED''"
| "domainCodeName CONTINUATION_NOT_ELIGIBLE = ''CONTINUATION_NOT_ELIGIBLE''"

definition domainCodeDetail :: "domain_error_code \<Rightarrow> details" where
  "domainCodeDetail code = [(''domainCode'', DetailStr (lit (domainCodeName code)))]"

section \<open>Projects\<close>

definition domainProject :: "application_state \<Rightarrow> jsstr \<Rightarrow> project option" where
  "domainProject state projectId = find (\<lambda>project. p_id project = projectId) (s_projects (st_domain state))"

definition projectCommandResult :: "application_state \<Rightarrow> jsstr \<Rightarrow> thrown + project_command_result" where
  "projectCommandResult state projectId =
     (case (registryProjectById state projectId, domainProject state projectId) of
        (Some project, Some domProject) \<Rightarrow>
          Inr \<lparr>pc_projectId = rp_projectId project, pc_enabled = p_enabled domProject,
               pc_configRevision = rp_configRevision project, pc_resourceRevision = rp_resourceRevision project\<rparr>
      | _ \<Rightarrow> Inl (TypeError ''Project terminal projection is absent''))"

fun affectedProjects :: "snapshot \<Rightarrow> jsstr list \<Rightarrow> jsstr list \<Rightarrow> thrown + jsstr list" where
  "affectedProjects snapshot [] projectIds = Inr projectIds"
| "affectedProjects snapshot (taskId # taskIds) projectIds =
     (case find (\<lambda>candidate. t_id candidate = taskId) (s_tasks snapshot) of
        None \<Rightarrow> Inl (TypeError ''Domain mutation changed an absent Task'')
      | Some task \<Rightarrow> affectedProjects snapshot taskIds (set_add (t_projectId task) projectIds))"

definition affectedProjectIds :: "domain_mutation \<Rightarrow> thrown + jsstr list" where
  "affectedProjectIds m =
     ebind (affectedProjects (m_snapshot m) (m_changedTaskIds m) []) (\<lambda>projectIds. Inr (sort projectIds))"

definition sameProjectIds :: "jsstr list \<Rightarrow> jsstr list \<Rightarrow> bool" where
  "sameProjectIds left right \<longleftrightarrow> length left = length right \<and> list_all2 (=) left right"

fun projectDomainMutation ::
  "(jsstr \<Rightarrow> jsstr) \<Rightarrow> application_command \<Rightarrow> application_state \<Rightarrow> operation_identity \<Rightarrow>
    application_failure + project_domain_mutation option" where
  "projectDomainMutation nfc (ProjectDisable projectId _ _) state identity =
     (case domainProject state projectId of
        None \<Rightarrow> Inl (failed ProjectNotFound ''Domain Project is not registered'' (Some identity)
                  [(''projectId'', DetailStr projectId)])
      | Some project \<Rightarrow>
          if p_enabled project then
            (case setProjectEnabled nfc (snapshotToJs (st_domain state))
                    (jsObj [(''projectId'', JStr projectId), (''enabled'', JBool False)]) of
               Inr (value, _) \<Rightarrow> Inr (Some value)
             | Inl error \<Rightarrow> Inl (failed DomainRejected ''Domain Core rejected Project enablement'' (Some identity)
                 (domainCodeDetail (err_code error))))
          else Inl (failed DomainRejected ''Domain Core rejected Project disablement'' (Some identity)
                 (domainCodeDetail NO_OP)))"
| "projectDomainMutation nfc (ProjectUpdate projectId _ _) state identity =
     (case domainProject state projectId of
        None \<Rightarrow> Inl (failed ProjectNotFound ''Domain Project is not registered'' (Some identity)
                  [(''projectId'', DetailStr projectId)])
      | Some project \<Rightarrow>
          if \<not> p_enabled project then
            (case setProjectEnabled nfc (snapshotToJs (st_domain state))
                    (jsObj [(''projectId'', JStr projectId), (''enabled'', JBool True)]) of
               Inr (value, _) \<Rightarrow> Inr (Some value)
             | Inl error \<Rightarrow> Inl (failed DomainRejected ''Domain Core rejected Project enablement'' (Some identity)
                 (domainCodeDetail (err_code error))))
          else Inr None)"
| "projectDomainMutation nfc _ state identity = Inr None"

definition projectRegistrationMutation ::
  "(jsstr \<Rightarrow> jsstr) \<Rightarrow> application_state \<Rightarrow> jsstr \<Rightarrow> thrown + project_domain_mutation option" where
  "projectRegistrationMutation nfc state projectId =
     (case domainProject state projectId of
        Some _ \<Rightarrow> Inr None
      | None \<Rightarrow>
          (case registerProject nfc (snapshotToJs (st_domain state)) (jsObj [(''projectId'', JStr projectId)]) of
             Inl error \<Rightarrow> Inl (TypeError (''Domain Project registration failed: '' @ domainCodeName (err_code error)))
           | Inr (value, _) \<Rightarrow> Inr (Some value)))"

section \<open>Tasks\<close>

text \<open>The waiting metadata that a cancellation gives to the ready dependents of the cancelled Task.\<close>

definition dependencyCancelledWaiting :: waiting_input where
  "dependencyCancelledWaiting =
     \<lparr>w_reason = DependencyCancelledReason, w_phase = lit ''task_management'',
      w_requiredAction = lit ''review_dependency'', w_lastErrorCode = lit ''DEPENDENCY_CANCELLED'',
      w_lastErrorSummary = None, w_retryable = False, w_retryCount = 0, w_retryAfter = None,
      w_executionId = None, w_workspaceRevision = None, w_backendThreadId = None\<rparr>"

definition readyDependents :: "snapshot \<Rightarrow> jsstr \<Rightarrow> task list" where
  "readyDependents snapshot taskId =
     filter (\<lambda>task. t_state task = Ready \<and> taskId \<in> set (t_dependencyIds task)) (s_tasks snapshot)"

definition cancelCommand :: "snapshot \<Rightarrow> jsstr \<Rightarrow> jsstr \<Rightarrow> jsval" where
  "cancelCommand snapshot taskId reason =
     jsObj [(''taskId'', JStr taskId), (''event'', JStr (lit ''cancel'')), (''targetState'', JStr (lit ''cancelled'')),
       (''payload'', jsObj [(''reason'', JStr reason), (''executionDisposition'', JNull),
          (''dependentWaiting'', jsArr (map (\<lambda>task. jsObj [(''taskId'', JStr (t_id task)),
             (''waiting'', waitingInputToJs dependencyCancelledWaiting)]) (readyDependents snapshot taskId)))])]"

definition markReadyCommand :: "jsstr \<Rightarrow> jsval" where
  "markReadyCommand taskId =
     jsObj [(''taskId'', JStr taskId), (''event'', JStr (lit ''mark_ready'')), (''targetState'', JStr (lit ''ready'')),
       (''payload'', jsObj [])]"

definition dependencyCommandObject :: "jsstr \<Rightarrow> jsstr \<Rightarrow> jsval" where
  "dependencyCommandObject taskId dependencyId = jsObj [(''taskId'', JStr taskId), (''dependencyId'', JStr dependencyId)]"

text \<open>The checks of the addressed Task, for every command but \<open>task.create\<close>.\<close>

definition staleTask :: "application_state \<Rightarrow> jsstr \<Rightarrow> jsstr \<Rightarrow> int \<Rightarrow> application_failure option" where
  "staleTask state projectId taskId expectedTaskRevision =
     (case taskById (st_domain state) taskId of
        None \<Rightarrow> Some (failed TaskNotFound ''Task is not registered'' None [(''taskId'', DetailStr taskId)])
      | Some task \<Rightarrow>
          if t_projectId task \<noteq> projectId \<or> t_revision task \<noteq> expectedTaskRevision
          then Some (failed StaleRevision ''Task identity, Project, or revision is stale'' None
                 [(''taskId'', DetailStr taskId)])
          else None)"

definition staleDependency :: "application_state \<Rightarrow> jsstr \<Rightarrow> int \<Rightarrow> application_failure option" where
  "staleDependency state dependencyId expectedDependencyRevision =
     (case taskById (st_domain state) dependencyId of
        Some dependency \<Rightarrow>
          (if t_revision dependency \<noteq> expectedDependencyRevision
           then Some (failed StaleRevision ''Dependency identity or revision is stale'' None
                  [(''dependencyId'', DetailStr dependencyId)])
           else None)
      | None \<Rightarrow> Some (failed StaleRevision ''Dependency identity or revision is stale'' None
                  [(''dependencyId'', DetailStr dependencyId)]))"

definition domainOutcome :: "domain_mutation domain_result \<Rightarrow> application_failure + domain_mutation option" where
  "domainOutcome result =
     (case result of
        Inr (value, _) \<Rightarrow> Inr (Some value)
      | Inl error \<Rightarrow> Inl (failed DomainRejected ''Domain Core rejected the command'' None
          (domainCodeDetail (err_code error))))"

definition unless :: "application_failure option \<Rightarrow> (application_failure + 'a) \<Rightarrow> application_failure + 'a" where
  "unless stale result = (case stale of Some failure \<Rightarrow> Inl failure | None \<Rightarrow> result)"

fun domainMutation ::
  "(jsstr \<Rightarrow> jsstr) \<Rightarrow> application_command \<Rightarrow> application_state \<Rightarrow> application_failure + domain_mutation option" where
  "domainMutation nfc (TaskCreate projectId _ taskId body supersedesTaskId) state =
     domainOutcome (createTask nfc (snapshotToJs (st_domain state))
       (jsObj [(''id'', JStr taskId), (''projectId'', JStr projectId), (''body'', JStr body),
               (''supersedesTaskId'', jsNullable JStr supersedesTaskId)]))"
| "domainMutation nfc (TaskUpdate projectId _ taskId expected (BodyChange body)) state =
     unless (staleTask state projectId taskId expected)
       (domainOutcome (updateTaskBody nfc (snapshotToJs (st_domain state))
         (jsObj [(''taskId'', JStr taskId), (''body'', JStr body)])))"
| "domainMutation nfc (TaskUpdate projectId _ taskId expected (ParentChange parentId)) state =
     unless (staleTask state projectId taskId expected)
       (domainOutcome (setTaskParent nfc (snapshotToJs (st_domain state))
         (jsObj [(''taskId'', JStr taskId), (''parentId'', jsNullable JStr parentId)])))"
| "domainMutation nfc (TaskMarkReady projectId _ taskId expected) state =
     unless (staleTask state projectId taskId expected)
       (domainOutcome (transitionTask nfc (snapshotToJs (st_domain state)) (markReadyCommand taskId)))"
| "domainMutation nfc (TaskCancel projectId _ taskId expected reason) state =
     unless (staleTask state projectId taskId expected)
       (if list_ex (\<lambda>execution. xa_taskId execution = taskId \<and> xa_status execution = ActiveAttempt) (st_executions state)
        then Inl (failed DomainRejected
               ''An active execution claim requires a later verified interruption path before Task cancellation'' None
               (domainCodeDetail EXTERNAL_PRECONDITION_FAILED))
        else domainOutcome (transitionTask nfc (snapshotToJs (st_domain state))
               (cancelCommand (st_domain state) taskId reason)))"
| "domainMutation nfc (TaskInspect projectId _ taskId expected) state =
     unless (staleTask state projectId taskId expected) (Inr None)"
| "domainMutation nfc (DependencyAdd projectId _ taskId expected dependencyId expectedDependency) state =
     unless (staleTask state projectId taskId expected)
       (unless (staleDependency state dependencyId expectedDependency)
         (domainOutcome (addTaskDependency nfc (snapshotToJs (st_domain state))
           (dependencyCommandObject taskId dependencyId))))"
| "domainMutation nfc (DependencyRemove projectId _ taskId expected dependencyId expectedDependency) state =
     unless (staleTask state projectId taskId expected)
       (unless (staleDependency state dependencyId expectedDependency)
         (domainOutcome (removeTaskDependency nfc (snapshotToJs (st_domain state))
           (dependencyCommandObject taskId dependencyId))))"
| "domainMutation nfc _ state = Inr None"

section \<open>Answers\<close>

record runtime_status =
  rs_initialized :: bool
  rs_schemaVersion :: int
  rs_projectCount :: nat
  rs_taskCount :: nat
  rs_dependencyCount :: nat
  rs_grantCount :: nat
  rs_auditCount :: nat

datatype application_output =
    GrantOutput "authorization_grant option"
  | GrantListOutput "authorization_grant list" "jsstr option"
  | StatusOutput runtime_status
  | PolicyOutput jsstr authorization_policy_result jsstr "int option"
  | ProjectOutput project_command_result
  | TaskOutput "task option"
  | LifecycleOutput lifecycle_authorization

definition lastOption :: "'a list \<Rightarrow> 'a option" where
  "lastOption xs = (if xs = [] then None else Some (last xs))"

definition grantById :: "application_state \<Rightarrow> jsstr \<Rightarrow> authorization_grant option" where
  "grantById state grantId = find (\<lambda>grant. g_grantId grant = grantId) (st_grants state)"

definition grantPage :: "application_state \<Rightarrow> int \<Rightarrow> jsstr option \<Rightarrow> application_output" where
  "grantPage state limit afterGrantId =
     (let actorId = (case st_identity state of Some local \<Rightarrow> li_actorId local
            | None \<Rightarrow> (case st_bootstrap state of Some bootstrap \<Rightarrow> ab_actorId bootstrap | None \<Rightarrow> []));
          matches = sort_key g_grantId (filter (\<lambda>grant. g_actorId grant = actorId \<and>
            (case afterGrantId of None \<Rightarrow> True | Some after \<Rightarrow> g_grantId grant > after)) (st_grants state));
          grants = take (nat limit) matches in
      GrantListOutput grants
        (if int (length matches) > limit then map_option g_grantId (lastOption grants) else None))"

definition statusOf :: "application_state \<Rightarrow> int \<Rightarrow> runtime_status" where
  "statusOf state schemaVersion =
     \<lparr>rs_initialized = True, rs_schemaVersion = schemaVersion, rs_projectCount = length (st_projects state),
      rs_taskCount = length (s_tasks (st_domain state)),
      rs_dependencyCount = fold (\<lambda>task count. count + length (t_dependencyIds task)) (s_tasks (st_domain state)) 0,
      rs_grantCount = length (st_grants state), rs_auditCount = length (st_audit state)\<rparr>"

fun outputFor :: "application_command \<Rightarrow> application_state \<Rightarrow> int \<Rightarrow> thrown + application_output" where
  "outputFor (GrantIssue _ _ _ _ _) state schemaVersion = Inr (GrantOutput (lastOption (st_grants state)))"
| "outputFor (GrantInspect grantId _) state schemaVersion = Inr (GrantOutput (grantById state grantId))"
| "outputFor (GrantRevoke grantId _) state schemaVersion = Inr (GrantOutput (grantById state grantId))"
| "outputFor (GrantList limit afterGrantId) state schemaVersion = Inr (grantPage state limit afterGrantId)"
| "outputFor RuntimeStatus state schemaVersion = Inr (StatusOutput (statusOf state schemaVersion))"
| "outputFor (RuntimeBackup _) state schemaVersion = Inl (TypeError ''Lifecycle output requires an exact authorization identity'')"
| "outputFor (RuntimeRestore _) state schemaVersion = Inl (TypeError ''Lifecycle output requires an exact authorization identity'')"
| "outputFor (PolicyEvaluate projectId _ _ action) state schemaVersion =
     (let project = registryProjectById state projectId in
      Inr (PolicyOutput action (policyFor action project state) projectId (map_option rp_resourceRevision project)))"
| "outputFor (ProjectRegister projectId _) state schemaVersion = ebind (projectCommandResult state projectId) (\<lambda>r. Inr (ProjectOutput r))"
| "outputFor (ProjectUpdate projectId _ _) state schemaVersion = ebind (projectCommandResult state projectId) (\<lambda>r. Inr (ProjectOutput r))"
| "outputFor (ProjectDisable projectId _ _) state schemaVersion = ebind (projectCommandResult state projectId) (\<lambda>r. Inr (ProjectOutput r))"
| "outputFor (ProjectInspect projectId _) state schemaVersion = ebind (projectCommandResult state projectId) (\<lambda>r. Inr (ProjectOutput r))"
| "outputFor (TaskCreate _ _ taskId _ _) state schemaVersion = Inr (TaskOutput (taskById (st_domain state) taskId))"
| "outputFor (TaskUpdate _ _ taskId _ _) state schemaVersion = Inr (TaskOutput (taskById (st_domain state) taskId))"
| "outputFor (TaskMarkReady _ _ taskId _) state schemaVersion = Inr (TaskOutput (taskById (st_domain state) taskId))"
| "outputFor (TaskCancel _ _ taskId _ _) state schemaVersion = Inr (TaskOutput (taskById (st_domain state) taskId))"
| "outputFor (TaskInspect _ _ taskId _) state schemaVersion = Inr (TaskOutput (taskById (st_domain state) taskId))"
| "outputFor (DependencyAdd _ _ taskId _ _ _) state schemaVersion = Inr (TaskOutput (taskById (st_domain state) taskId))"
| "outputFor (DependencyRemove _ _ taskId _ _ _) state schemaVersion = Inr (TaskOutput (taskById (st_domain state) taskId))"

end
