(* ===== verification/Application_Store.thy ===== *)
theory Application_Store
  imports Application_Domain
begin

text \<open>
  The application transaction (\<^verbatim>\<open>src/persistence/application-repository-transaction.ts\<close>,
  the operations of the application service): a program runs on the tables and on an
  environment, and throws, fails with an application failure, or returns. A write transaction
  commits what a program that fails or returns has written, provided the state reads back,
  and rolls back what a program that throws has written.

  The tables of the authorization records keep decoded rows. Modelled of the schema: primary
  keys and \<open>UNIQUE\<close> constraints, and those \<open>CHECK\<close> constraints that the admission of commands
  does not already guarantee. The integrity checks of \<open>readApplicationStateUntransactional\<close> on
  these tables are a parameter, \<open>sv_check\<close>.
\<close>

section \<open>Tables\<close>

record grant_row =
  gr_grant :: authorization_grant
  gr_capabilityEpochId :: "jsstr option"
  gr_createdRequestId :: jsstr
  gr_revokedRequestId :: "jsstr option"

record database =
  db_domain :: domain_tables
  db_projects :: "registered_project list"
  db_bootstrap :: "authorization_bootstrap option"
  db_identity :: "local_identity option"
  db_grants :: "grant_row list"
  db_epochs :: "capability_epoch list"
  db_requests :: "request_record list"
  db_decisions :: "decision_record list"
  db_audit :: "audit_record list"
  db_lifecycle :: "lifecycle_authorization list"
  db_sequences :: "task_execution_sequence list"
  db_executions :: "execution_attempt list"
  db_intents :: "intent_summary list"
  db_terminals :: "terminal_summary list"
  db_manualTurns :: "jsstr list"
  db_schedulerDecisionTimes :: "jsstr list"

text \<open>The rows in the order in which the readers select them.\<close>

definition stateOf :: "snapshot \<Rightarrow> database \<Rightarrow> application_state" where
  "stateOf domain db =
     \<lparr>st_domain = domain, st_projects = sort_key (\<lambda>r. codePoints (rp_projectId r)) (db_projects db),
      st_bootstrap = db_bootstrap db, st_identity = db_identity db,
      st_grants = sort_key (\<lambda>g. codePoints (g_grantId g)) (map gr_grant (db_grants db)),
      st_epochs = sort_key ce_epochRevision (db_epochs db),
      st_requests = sort_key (\<lambda>r. codePoints (rr_requestId r)) (db_requests db),
      st_decisions = sort_key (\<lambda>r. codePoints (dr_decisionId r)) (db_decisions db),
      st_audit = sort_key (\<lambda>r. codePoints (ar_auditId r)) (db_audit db),
      st_lifecycle = sort_key (\<lambda>r. codePoints (la_authorizationId r)) (db_lifecycle db),
      st_executionSequences = sort_key (\<lambda>r. codePoints (es_taskId r)) (db_sequences db),
      st_executions = sort_key (\<lambda>r. codePoints (xa_taskId r)) (sort_key xa_attemptNumber (db_executions db)),
      st_executionIntents = db_intents db, st_executionTerminalStates = db_terminals db, st_manualTurns = db_manualTurns db,
      st_schedulerDecisionTimes = db_schedulerDecisionTimes db\<rparr>"

section \<open>The service and its surroundings\<close>

text \<open>
  The parameters of the service: the ingress, the filesystem as each look finds it, the root of
  the store and its schema version, what happens between the preflight and the transaction
  (the hook \<open>beforeTransaction\<close> and the commits of other processes), the hook \<open>afterStage\<close>,
  whether the store is open and writable, the integrity checks, the digests, and Unicode
  normalization.
\<close>

record 'e service =
  sv_ingress :: "'e ingress"
  sv_files :: "'e \<Rightarrow> filesystem \<times> 'e"
  sv_root :: jsstr
  sv_schemaVersion :: int
  sv_before :: "database \<Rightarrow> 'e \<Rightarrow> thrown option \<times> database \<times> 'e"
  sv_after :: "string \<Rightarrow> 'e \<Rightarrow> thrown option \<times> 'e"
  sv_open :: "'e \<Rightarrow> thrown option"
  sv_writable :: "'e \<Rightarrow> thrown option"
  sv_check :: "database \<Rightarrow> thrown option"
  sv_stateSha256 :: "application_state \<Rightarrow> jsstr"
  sv_sha256 :: "jsstr \<Rightarrow> jsstr"
  sv_nfc :: "jsstr \<Rightarrow> jsstr"

section \<open>Programs\<close>

text \<open>The services differ in the type of their failures.\<close>

datatype ('f, 'a) outcome = Throws thrown | Fails 'f | Returns 'a

type_synonym ('e, 'f, 'a) program = "database \<times> 'e \<Rightarrow> ('f, 'a) outcome \<times> database \<times> 'e"

type_synonym ('e, 'a) prog = "('e, application_failure, 'a) program"

definition ret :: "'a \<Rightarrow> ('e, 'f, 'a) program" where
  "ret x = (\<lambda>s. (Returns x, s))"

definition fails :: "'f \<Rightarrow> ('e, 'f, 'a) program" where
  "fails f = (\<lambda>s. (Fails f, s))"

definition throws :: "thrown \<Rightarrow> ('e, 'f, 'a) program" where
  "throws t = (\<lambda>s. (Throws t, s))"

definition pbind :: "('e, 'f, 'a) program \<Rightarrow> ('a \<Rightarrow> ('e, 'f, 'b) program) \<Rightarrow> ('e, 'f, 'b) program" where
  "pbind m f = (\<lambda>s. case m s of
      (Returns x, s') \<Rightarrow> f x s'
    | (Fails e, s') \<Rightarrow> (Fails e, s')
    | (Throws t, s') \<Rightarrow> (Throws t, s'))"

lemma pbind_cong [fundef_cong]:
  "m = m' \<Longrightarrow> s = s' \<Longrightarrow> (\<And>x s''. m' s' = (Returns x, s'') \<Longrightarrow> f x s'' = f' x s'') \<Longrightarrow> pbind m f s = pbind m' f' s'"
  by (simp add: pbind_def split: prod.split outcome.split)

definition pseq :: "('e, 'f, unit) program \<Rightarrow> ('e, 'f, 'b) program \<Rightarrow> ('e, 'f, 'b) program" where
  "pseq m k = pbind m (\<lambda>_. k)"

definition ofThrown :: "thrown + 'a \<Rightarrow> ('e, 'f, 'a) program" where
  "ofThrown r = (case r of Inl t \<Rightarrow> throws t | Inr x \<Rightarrow> ret x)"

definition ofFailure :: "'f + 'a \<Rightarrow> ('e, 'f, 'a) program" where
  "ofFailure r = (case r of Inl f \<Rightarrow> fails f | Inr x \<Rightarrow> ret x)"

definition guard :: "bool \<Rightarrow> 'f \<Rightarrow> ('e, 'f, unit) program" where
  "guard b f = (if b then ret () else fails f)"

text \<open>A step of the environment, and an access to the tables.\<close>

definition inEnv :: "('e \<Rightarrow> 'a \<times> 'e) \<Rightarrow> ('e, 'f, 'a) program" where
  "inEnv f = (\<lambda>(db, e). case f e of (x, e') \<Rightarrow> (Returns x, (db, e')))"

definition onTables :: "(database \<Rightarrow> thrown + database) \<Rightarrow> ('e, 'f, unit) program" where
  "onTables f = (\<lambda>(db, e). case f db of Inl t \<Rightarrow> (Throws t, (db, e)) | Inr db' \<Rightarrow> (Returns (), (db', e)))"

definition stage :: "'e service \<Rightarrow> string \<Rightarrow> ('e, 'f, unit) program" where
  "stage sv name = (\<lambda>(db, e). case sv_after sv name e of
      (None, e') \<Rightarrow> (Returns (), (db, e')) | (Some t, e') \<Rightarrow> (Throws t, (db, e')))"

section \<open>Reads\<close>

definition readState :: "'e service \<Rightarrow> database \<Rightarrow> thrown + application_state" where
  "readState sv db =
     ebind (readDomainSnapshotUntransactional (sv_nfc sv) (db_domain db)) (\<lambda>domain.
     case sv_check sv db of Some t \<Rightarrow> Inl t | None \<Rightarrow> Inr (stateOf domain db))"

definition readTx :: "'e service \<Rightarrow> ('e, 'f, application_state) program" where
  "readTx sv = (\<lambda>(db, e). ofThrown (readState sv db) (db, e))"

definition stateSha256 :: "'e service \<Rightarrow> ('e, 'f, jsstr) program" where
  "stateSha256 sv = pbind (readTx sv) (\<lambda>state. ret (sv_stateSha256 sv state))"

section \<open>Writes\<close>

text \<open>A row whose keys are new: \<open>keys\<close> are the columns under a uniqueness constraint.\<close>

definition insertRow :: "('r \<Rightarrow> 'k) list \<Rightarrow> 'r \<Rightarrow> 'r list \<Rightarrow> thrown + 'r list" where
  "insertRow keys row rows =
     (if list_ex (\<lambda>key. key row \<in> key ` set rows) keys then sqliteError else Inr (rows @ [row]))"

definition insertRequest :: "request_record \<Rightarrow> ('e, 'f, unit) program" where
  "insertRequest record = onTables (\<lambda>db.
     if \<not> sqlNonempty (bindText (rr_targetId record)) then sqliteError
     else ebind (insertRow [rr_requestId] (record\<lparr>rr_targetId := toWellFormed (rr_targetId record)\<rparr>) (db_requests db))
       (\<lambda>rows. Inr (db\<lparr>db_requests := rows\<rparr>)))"

definition insertDecision :: "decision_record \<Rightarrow> ('e, 'f, unit) program" where
  "insertDecision record = onTables (\<lambda>db.
     ebind (insertRow [dr_decisionId, dr_requestId] record (db_decisions db)) (\<lambda>rows. Inr (db\<lparr>db_decisions := rows\<rparr>)))"

definition insertAudit :: "audit_record \<Rightarrow> ('e, 'f, unit) program" where
  "insertAudit record = onTables (\<lambda>db.
     if ar_decisionId record \<noteq> None \<and> ar_decisionId record \<in> ar_decisionId ` set (db_audit db) then sqliteError
     else ebind (insertRow [ar_auditId, ar_requestId] (record\<lparr>ar_targetId := toWellFormed (ar_targetId record)\<rparr>) (db_audit db))
       (\<lambda>rows. Inr (db\<lparr>db_audit := rows\<rparr>)))"

definition insertBootstrap :: "authorization_bootstrap \<Rightarrow> ('e, 'f, unit) program" where
  "insertBootstrap record = onTables (\<lambda>db.
     if db_bootstrap db \<noteq> None then sqliteError else Inr (db\<lparr>db_bootstrap := Some record\<rparr>))"

text \<open>\<open>principal_sha256\<close> holds 64 upper-case hexadecimal digits.\<close>

definition sha256Text :: "jsstr \<Rightarrow> bool" where
  "sha256Text s \<longleftrightarrow> length s = 64 \<and> list_all (\<lambda>c. c \<in> set (lit ''0123456789ABCDEF'')) s"

definition insertLocalIdentity :: "local_identity \<Rightarrow> ('e, 'f, unit) program" where
  "insertLocalIdentity record = onTables (\<lambda>db.
     if db_identity db \<noteq> None \<or> \<not> sha256Text (li_principalSha256 record) then sqliteError
     else Inr (db\<lparr>db_identity := Some record\<rparr>))"

definition insertCapabilityEpoch :: "capability_epoch \<Rightarrow> ('e, 'f, unit) program" where
  "insertCapabilityEpoch record = onTables (\<lambda>db.
     if list_ex (\<lambda>epoch. ce_epochRevision epoch = ce_epochRevision record) (db_epochs db) \<or>
        \<not> sha256Text (ce_actionSetSha256 record) then sqliteError
     else ebind (insertRow [ce_epochId, ce_requestId] record (db_epochs db)) (\<lambda>rows. Inr (db\<lparr>db_epochs := rows\<rparr>)))"

definition insertGrant :: "grant_row \<Rightarrow> ('e, 'f, unit) program" where
  "insertGrant record = onTables (\<lambda>db.
     if gr_capabilityEpochId record \<noteq> None \<and>
        list_ex (\<lambda>row. gr_capabilityEpochId row = gr_capabilityEpochId record \<and>
          g_action (gr_grant row) = g_action (gr_grant record)) (db_grants db) then sqliteError
     else ebind (insertRow [g_grantId \<circ> gr_grant] record (db_grants db)) (\<lambda>rows. Inr (db\<lparr>db_grants := rows\<rparr>)))"

definition insertLifecycleAuthorization :: "lifecycle_authorization \<Rightarrow> ('e, 'f, unit) program" where
  "insertLifecycleAuthorization record = onTables (\<lambda>db.
     if \<not> sha256Text (la_authorizedStateSha256 record) then sqliteError
     else ebind (insertRow [la_authorizationId, la_requestId, la_decisionId, la_auditId] record (db_lifecycle db))
       (\<lambda>rows. Inr (db\<lparr>db_lifecycle := rows\<rparr>)))"

definition revokedGrant :: "jsstr \<Rightarrow> jsstr \<Rightarrow> grant_row \<Rightarrow> grant_row" where
  "revokedGrant revokedAt requestId row =
     row\<lparr>gr_grant := (gr_grant row)\<lparr>g_revision := g_revision (gr_grant row) + 1, g_revokedAt := Some revokedAt\<rparr>,
       gr_revokedRequestId := Some requestId\<rparr>"

definition revokeGrant :: "jsstr \<Rightarrow> int \<Rightarrow> jsstr \<Rightarrow> jsstr \<Rightarrow> ('e, 'f, unit) program" where
  "revokeGrant grantId expectedRevision revokedAt requestId = onTables (\<lambda>db.
     let matches = (\<lambda>row. g_grantId (gr_grant row) = grantId \<and> g_revision (gr_grant row) = expectedRevision \<and>
           g_revokedAt (gr_grant row) = None) in
     if length (filter matches (db_grants db)) \<noteq> 1
     then persistenceFailure REVISION_CONFLICT ''Grant revocation CAS failed''
     else Inr (db\<lparr>db_grants := map (\<lambda>row. if matches row then revokedGrant revokedAt requestId row else row) (db_grants db)\<rparr>))"

definition insertProject :: "registered_project \<Rightarrow> ('e, 'f, unit) program" where
  "insertProject project = onTables (\<lambda>db.
     ebind (insertRow [rp_projectId, ri_rootKey] project (db_projects db)) (\<lambda>rows. Inr (db\<lparr>db_projects := rows\<rparr>)))"

definition updateProject :: "registered_project \<Rightarrow> int \<Rightarrow> int \<Rightarrow> ('e, 'f, unit) program" where
  "updateProject project expectedConfigRevision expectedResourceRevision = onTables (\<lambda>db.
     let matches = (\<lambda>row. rp_projectId row = rp_projectId project \<and> rp_configRevision row = expectedConfigRevision \<and>
           rp_resourceRevision row = expectedResourceRevision);
         others = filter (\<lambda>row. \<not> matches row) (db_projects db) in
     if list_ex matches (db_projects db) \<and> ri_rootKey project \<in> ri_rootKey ` set others then sqliteError
     else if length (filter matches (db_projects db)) \<noteq> 1
     then persistenceFailure REVISION_CONFLICT ''ProjectRegistry revision CAS failed''
     else Inr (db\<lparr>db_projects := map (\<lambda>row. if matches row then project\<lparr>rp_createdAt := rp_createdAt row\<rparr> else row)
       (db_projects db)\<rparr>))"

definition writeDomain :: "'e service \<Rightarrow> snapshot \<Rightarrow> domain_mutation \<Rightarrow> ('e, 'f, unit) program" where
  "writeDomain sv expected m = onTables (\<lambda>db.
     ebind (writeDomainMutationUntransactional (sv_nfc sv) (db_domain db) expected m) (\<lambda>tables.
       Inr (db\<lparr>db_domain := tables\<rparr>)))"

definition writeProjectDomain :: "'e service \<Rightarrow> snapshot \<Rightarrow> project_domain_mutation \<Rightarrow> ('e, 'f, unit) program" where
  "writeProjectDomain sv expected m = onTables (\<lambda>db.
     ebind (writeProjectMutationUntransactional (sv_nfc sv) (db_domain db) expected m) (\<lambda>tables.
       Inr (db\<lparr>db_domain := tables\<rparr>)))"

section \<open>Transactions\<close>

definition normalized :: "thrown \<Rightarrow> thrown" where
  "normalized t =
     (case t of PersistenceError code message \<Rightarrow> PersistenceError code message
      | _ \<Rightarrow> PersistenceError INTEGRITY_ERROR ''SQLite persistence operation failed'')"

definition runWriteTransaction :: "('e, 'f, 'a) program \<Rightarrow> ('e, 'f, 'a) program" where
  "runWriteTransaction callback = (\<lambda>(db, e).
     case callback (db, e) of
       (Throws t, (_, e')) \<Rightarrow> (Throws t, (db, e'))
     | (result, s') \<Rightarrow> (result, s'))"

text \<open>The callback of the transaction, with the state read at its end.\<close>

definition checkedCallback :: "'e service \<Rightarrow> ('e, 'f, 'a) program \<Rightarrow> ('e, 'f, 'a) program" where
  "checkedCallback sv callback = (\<lambda>s.
     case callback s of
       (Throws t, s') \<Rightarrow> (Throws (normalized t), s')
     | (result, (db, e)) \<Rightarrow>
         (case readState sv db of
            Inl t \<Rightarrow> (Throws (normalized t), (db, e))
          | Inr _ \<Rightarrow> (result, (db, e))))"

definition withApplicationTransaction :: "'e service \<Rightarrow> ('e, 'f, 'a) program \<Rightarrow> ('e, 'f, 'a) program" where
  "withApplicationTransaction sv callback = (\<lambda>(db, e).
     case sv_open sv e of
       Some t \<Rightarrow> (Throws t, (db, e))
     | None \<Rightarrow>
         (case sv_writable sv e of
            Some t \<Rightarrow> (Throws t, (db, e))
          | None \<Rightarrow> runWriteTransaction (checkedCallback sv callback) (db, e)))"

definition readApplicationStateForOwner :: "'e service \<Rightarrow> ('e, 'f, application_state) program" where
  "readApplicationStateForOwner sv = (\<lambda>(db, e).
     case sv_open sv e of Some t \<Rightarrow> (Throws t, (db, e)) | None \<Rightarrow> readTx sv (db, e))"

definition beforeTransaction :: "'e service \<Rightarrow> ('e, 'f, unit) program" where
  "beforeTransaction sv = (\<lambda>(db, e). case sv_before sv db e of
      (None, s') \<Rightarrow> (Returns (), s') | (Some t, s') \<Rightarrow> (Throws t, s'))"

section \<open>Denials\<close>

fun reasonName :: "authorization_reason \<Rightarrow> string" where
  "reasonName Allowed = ''allowed''"
| "reasonName ActorMismatch = ''actor_mismatch''"
| "reasonName ActionMismatch = ''action_mismatch''"
| "reasonName ScopeMismatch = ''scope_mismatch''"
| "reasonName ScopeRevisionStale = ''scope_revision_stale''"
| "reasonName GrantExpired = ''grant_expired''"
| "reasonName GrantNotYetValid = ''grant_not_yet_valid''"
| "reasonName GrantRevoked = ''grant_revoked''"
| "reasonName GrantMissing = ''grant_missing''"
| "reasonName PolicyDenied = ''policy_denied''"
| "reasonName ConfirmationRequired = ''confirmation_required''"

definition recordDenied ::
  "'e service \<Rightarrow> operation_identity \<Rightarrow> string \<Rightarrow> bound_target \<Rightarrow> authorization_evaluation \<Rightarrow> ('e, application_failure) prog" where
  "recordDenied sv identity action target evaluated =
     pseq (insertRequest (requestRecord identity action target RequestDeny)) (
     pseq (stage sv ''request'') (
     pseq (insertDecision (decisionRecord identity action target evaluated)) (
     pseq (stage sv ''decision'') (
     pseq (insertAudit (auditRecord identity target ''authorization.denied'' False (reasonName (ae_reason evaluated))
        (Some (oi_decisionId identity)))) (
     pseq (stage sv ''audit'') (
     ret (failed AuthorizationDenied ''Current explicit authorization did not permit the operation'' (Some identity)
        [(''reason'', DetailStr (lit (reasonName (ae_reason evaluated))))])))))))"

end
