(* ===== verification/Application_Service.thy ===== *)
theory Application_Service
  imports Application_Store
begin

text \<open>
  The application service (\<^verbatim>\<open>src/application-service.ts\<close>): the one-time bootstrap of the
  capability set, its upgrade and renewal, and the execution of a command. Each operation
  checks its input, its identity and the filesystem first, and then decides and writes in one
  transaction on the state that the transaction reads.
\<close>

section \<open>Shared steps\<close>

definition authorizationMutationTimeIsCurrent :: "application_state \<Rightarrow> jsstr \<Rightarrow> bool" where
  "authorizationMutationTimeIsCurrent state now =
     (let schedulerFloor = fold (\<lambda>createdAt latest.
            case latest of None \<Rightarrow> Some createdAt | Some l \<Rightarrow> if createdAt > l then Some createdAt else latest)
            (st_schedulerDecisionTimes state) None in
      case schedulerFloor of None \<Rightarrow> True | Some floor \<Rightarrow> now \<ge> floor)"

fun changesAuthorizationGrants :: "application_command \<Rightarrow> bool" where
  "changesAuthorizationGrants (GrantIssue _ _ _ _ _) = True"
| "changesAuthorizationGrants (GrantRevoke _ _) = True"
| "changesAuthorizationGrants _ = False"

definition refreshed :: "'e service \<Rightarrow> operation_identity \<Rightarrow> string \<Rightarrow> ('e, operation_identity) prog" where
  "refreshed sv identity message =
     pbind (inEnv (refreshOperationTime identity (sv_ingress sv))) (\<lambda>result.
     case result of None \<Rightarrow> fails (failed InvalidInput message (Some identity) []) | Some refreshedIdentity \<Rightarrow> ret refreshedIdentity)"

definition shifted :: "jsstr \<Rightarrow> int \<Rightarrow> ('e, 'f, jsstr) program" where
  "shifted now amount = (case shiftTimestamp now amount of None \<Rightarrow> throws RangeError | Some t \<Rightarrow> ret t)"

definition runtimeRootNow :: "'e service \<Rightarrow> operation_identity \<Rightarrow> ('e, project_root_identity) prog" where
  "runtimeRootNow sv identity =
     pbind (inEnv (sv_files sv)) (\<lambda>fs. ofFailure (checkedRuntimeRoot fs (sv_root sv) identity))"

definition projectRootNow ::
  "'e service \<Rightarrow> 'a project_root_identity_scheme \<Rightarrow> operation_identity \<Rightarrow> ('e, project_root_identity) prog" where
  "projectRootNow sv receipt identity =
     pbind (inEnv (sv_files sv)) (\<lambda>fs. ofFailure (checkedProjectRoot fs receipt (sv_root sv) identity))"

text \<open>An identifier from the ingress; \<open>message\<close> is that of the surrounding handler.\<close>

definition nextIdentity :: "'e service \<Rightarrow> string \<Rightarrow> operation_identity \<Rightarrow> string \<Rightarrow> ('e, jsval) prog" where
  "nextIdentity sv kind identity message =
     pbind (inEnv (ig_nextId (sv_ingress sv) kind)) (\<lambda>result.
     case result of None \<Rightarrow> fails (failed InvalidInput message (Some identity) []) | Some v \<Rightarrow> ret v)"

fun grantIdentities ::
  "'e service \<Rightarrow> operation_identity \<Rightarrow> string \<Rightarrow> string \<Rightarrow> jsval option \<Rightarrow> string list \<Rightarrow> jsstr list \<Rightarrow>
    ('e, jsstr list) prog" where
  "grantIdentities sv identity invalidFor unobtained epochId [] grantIds = ret grantIds"
| "grantIdentities sv identity invalidFor unobtained epochId (action # actions) grantIds =
     pbind (nextIdentity sv ''grant'' identity unobtained) (\<lambda>grantId.
     if \<not> operationalIdentifier grantId \<or> strOf grantId \<in> set grantIds \<or> epochId = Some grantId
     then fails (failed InvalidInput (invalidFor @ action) (Some identity) [])
     else grantIdentities sv identity invalidFor unobtained epochId actions (grantIds @ [strOf grantId]))"

definition runtimeScope :: authorization_scope where
  "runtimeScope = \<lparr>as_kind = RuntimeScope, as_projectId = None, as_resourceRevision = None, as_configRevision = None\<rparr>"

definition runtimeTarget :: bound_target where
  "runtimeTarget = boundTarget TargetRuntime (lit ''runtime'') None None"

definition capabilityGrant ::
  "operation_identity \<Rightarrow> jsstr \<Rightarrow> jsstr option \<Rightarrow> string \<Rightarrow> jsstr \<Rightarrow> grant_row" where
  "capabilityGrant identity expiresAt epochId action grantId =
     \<lparr>gr_grant = \<lparr>g_grantId = grantId, g_revision = 1, g_actorId = ta_actorId (oi_actor identity), g_action = lit action,
        g_scope = runtimeScope, g_notBefore = oi_now identity, g_expiresAt = expiresAt, g_revokedAt = None,
        g_issuerGrantId = None, g_sourceGrantId = None\<rparr>,
      gr_capabilityEpochId = epochId, gr_createdRequestId = oi_requestId identity, gr_revokedRequestId = None\<rparr>"

fun insertCapabilityGrants ::
  "'e service \<Rightarrow> operation_identity \<Rightarrow> jsstr \<Rightarrow> jsstr option \<Rightarrow> string \<Rightarrow> string list \<Rightarrow> jsstr list \<Rightarrow> ('e, unit) prog" where
  "insertCapabilityGrants sv identity expiresAt epochId absent [] grantIds = ret ()"
| "insertCapabilityGrants sv identity expiresAt epochId absent (action # actions) [] = throws (TypeError absent)"
| "insertCapabilityGrants sv identity expiresAt epochId absent (action # actions) (grantId # grantIds) =
     pseq (insertGrant (capabilityGrant identity expiresAt epochId action grantId)) (
     pseq (stage sv (''grant:'' @ action)) (
     insertCapabilityGrants sv identity expiresAt epochId absent actions grantIds))"

definition holdsGrants :: "application_state \<Rightarrow> jsstr list \<Rightarrow> bool" where
  "holdsGrants state grantIds \<longleftrightarrow>
     list_all (\<lambda>grantId. list_ex (\<lambda>grant. g_grantId grant = grantId) (st_grants state)) grantIds"

section \<open>Bootstrap\<close>

record bootstrap_result =
  br_actorId :: jsstr
  br_grantIds :: "jsstr list"

definition bootstrapRecord :: "operation_identity \<Rightarrow> project_root_identity \<Rightarrow> jsstr \<Rightarrow> authorization_bootstrap" where
  "bootstrapRecord identity root expiresAt =
     \<lparr>ri_canonicalRoot = ri_canonicalRoot root, ri_rootKey = ri_rootKey root, ri_platform = ri_platform root,
      ri_device = ri_device root, ri_inode = ri_inode root, ri_mode = ri_mode root,
      ab_actorId = ta_actorId (oi_actor identity), ab_trustedPrincipal = ta_principal (oi_actor identity),
      ab_requestId = oi_requestId identity, ab_createdAt = oi_now identity, ab_expiresAt = expiresAt,
      ab_vocabularyVersion = 1\<rparr>"

definition localIdentityRecord :: "operation_identity \<Rightarrow> project_root_identity \<Rightarrow> local_identity" where
  "localIdentityRecord identity root =
     \<lparr>li_identityVersion = 1, li_actorId = ta_actorId (oi_actor identity),
      li_principalSha256 = ta_principal (oi_actor identity), li_platform = ri_platform root,
      li_runtimeRootKey = ri_rootKey root, li_bootstrapRequestId = oi_requestId identity,
      li_createdAt = oi_now identity\<rparr>"

definition bootstrapTransaction ::
  "'e service \<Rightarrow> operation_identity \<Rightarrow> jsstr \<Rightarrow> jsstr list \<Rightarrow> project_root_identity \<Rightarrow>
    ('e, bootstrap_result application_success) prog" where
  "bootstrapTransaction sv identity expiresAt grantIds runtimeIdentity =
     pbind (readTx sv) (\<lambda>state.
     if st_bootstrap state \<noteq> None
     then fails (failed BootstrapAlreadyConsumed ''Authorization bootstrap has already been consumed'' (Some identity) [])
     else
       pseq (insertRequest (requestRecord identity ''authorization.grant.issue'' runtimeTarget RequestBootstrap)) (
       pseq (stage sv ''request'') (
       pseq (insertBootstrap (bootstrapRecord identity runtimeIdentity expiresAt)) (
       pseq (stage sv ''bootstrap'') (
       pseq (insertLocalIdentity (localIdentityRecord identity runtimeIdentity)) (
       pseq (stage sv ''identity'') (
       pseq (insertCapabilityGrants sv identity expiresAt None ''Trusted bootstrap grant identity is absent''
         BASE_AUTHORIZATION_ACTIONS grantIds) (
       pseq (insertAudit (auditRecord identity runtimeTarget ''bootstrap'' True ''bootstrap'' None)) (
       pseq (stage sv ''audit'') (
       pbind (readTx sv) (\<lambda>readback.
       if map_option ab_requestId (st_bootstrap readback) \<noteq> Some (oi_requestId identity) \<or> \<not> holdsGrants readback grantIds
       then throws (TypeError ''Bootstrap terminal readback did not match'')
       else ret (succeeded \<lparr>br_actorId = ta_actorId (oi_actor identity), br_grantIds = grantIds\<rparr> identity))))))))))))"

definition bootstrap :: "'e service \<Rightarrow> jsval \<Rightarrow> ('e, bootstrap_result application_success) prog" where
  "bootstrap sv input =
     pbind (inEnv (operationIdentity (sv_ingress sv))) (\<lambda>identity0.
     case (parseBootstrap input, identity0) of
       (Some expiresAt, Some identity1) \<Rightarrow>
         pbind (inEnv (confirmHighRisk identity1 ''authorization.grant.issue'' (sv_ingress sv))) (\<lambda>confirmed.
         pseq (guard confirmed (failed AuthorizationDenied ''Trusted bootstrap confirmation is required'' (Some identity1)
           [(''reason'', DetailStr (lit ''confirmation_required''))])) (
         pbind (refreshed sv identity1 ''Trusted bootstrap time could not be refreshed'') (\<lambda>identity.
         pbind (shifted (oi_now identity) (days 31)) (\<lambda>maximumExpiry.
         pseq (guard (\<not> (expiresAt \<le> oi_now identity \<or> expiresAt > maximumExpiry))
           (failed InvalidInput ''Bootstrap expiry must be finite and no more than 31 days'' (Some identity) [])) (
         pbind (grantIdentities sv identity ''Trusted grant identity is invalid or repeated for ''
           ''Trusted bootstrap grant identities could not be obtained'' None BASE_AUTHORIZATION_ACTIONS []) (\<lambda>grantIds.
         pbind (runtimeRootNow sv identity) (\<lambda>runtimeIdentity.
         withApplicationTransaction sv (bootstrapTransaction sv identity expiresAt grantIds runtimeIdentity))))))))
     | _ \<Rightarrow> fails (failed InvalidInput ''Bootstrap input or trusted ingress is invalid'' None []))"

section \<open>Upgrade and renewal\<close>

record capability_epoch_result =
  cp_mode :: string
  cp_expiresAt :: jsstr
  cp_capabilityCount :: nat
  cp_epochRevision :: int

definition latestEpochRevision :: "application_state \<Rightarrow> int" where
  "latestEpochRevision state = (case latestEpoch state of None \<Rightarrow> 0 | Some epoch \<Rightarrow> ce_epochRevision epoch)"

text \<open>The identities of a new epoch: its own and one for each of its grants.\<close>

definition epochIdentities ::
  "'e service \<Rightarrow> operation_identity \<Rightarrow> string \<Rightarrow> string \<Rightarrow> string list \<Rightarrow> ('e, jsstr \<times> jsstr list) prog" where
  "epochIdentities sv identity invalidFor unobtained actions =
     pbind (nextIdentity sv ''epoch'' identity unobtained) (\<lambda>epochId.
     pbind (grantIdentities sv identity invalidFor unobtained (Some epochId) actions []) (\<lambda>grantIds.
     pseq (guard (operationalIdentifier epochId)
       (failed InvalidInput ''Trusted capability epoch identity is invalid'' (Some identity) [])) (
     ret (strOf epochId, grantIds))))"

definition allowedDecision :: "operation_identity \<Rightarrow> string \<Rightarrow> decision_record" where
  "allowedDecision identity action =
     \<lparr>dr_decisionId = oi_decisionId identity, dr_requestId = oi_requestId identity,
      dr_actorId = ta_actorId (oi_actor identity), dr_action = action, dr_allow = True, dr_reason = Allowed,
      dr_policy = PolicyAllow, dr_grantId = None, dr_grantRevision = None, dr_projectId = None,
      dr_resourceRevision = None, dr_createdAt = oi_now identity\<rparr>"

text \<open>The writes of a new epoch, which upgrade and renewal share but for names.\<close>

definition writeEpoch ::
  "'e service \<Rightarrow> operation_identity \<Rightarrow> project_root_identity \<Rightarrow> jsstr \<Rightarrow> jsstr \<Rightarrow> jsstr list \<Rightarrow> int \<Rightarrow> int \<Rightarrow>
    string \<Rightarrow> request_result \<Rightarrow> string \<Rightarrow> string \<Rightarrow> ('e, unit) prog" where
  "writeEpoch sv identity runtimeIdentity expiresAt epochId grantIds epochRevision vocabularyVersion action requestResult
     eventKind absent =
     pseq (insertRequest (requestRecord identity action runtimeTarget requestResult)) (
     pseq (stage sv ''request'') (
     pseq (insertCapabilityEpoch \<lparr>ce_epochId = epochId, ce_epochRevision = epochRevision,
       ce_actorId = ta_actorId (oi_actor identity), ce_runtimeRootKey = ri_rootKey runtimeIdentity,
       ce_vocabularyVersion = vocabularyVersion, ce_actionSetSha256 = actionSetSha256 (sv_sha256 sv) vocabularyVersion,
       ce_requestId = oi_requestId identity, ce_createdAt = oi_now identity, ce_expiresAt = expiresAt\<rparr>) (
     pseq (stage sv ''epoch'') (
     pseq (insertCapabilityGrants sv identity expiresAt (Some epochId) absent (actionsForVocabulary vocabularyVersion) grantIds) (
     pseq (insertDecision (allowedDecision identity action)) (
     pseq (stage sv ''decision'') (
     pseq (insertAudit (auditRecord identity runtimeTarget eventKind True ''accepted'' (Some (oi_decisionId identity)))) (
     stage sv ''audit''))))))))"

definition epochResult ::
  "'e service \<Rightarrow> operation_identity \<Rightarrow> string \<Rightarrow> jsstr \<Rightarrow> jsstr list \<Rightarrow> int \<Rightarrow> int \<Rightarrow> int option \<Rightarrow> string \<Rightarrow>
    ('e, capability_epoch_result application_success) prog" where
  "epochResult sv identity mode epochId grantIds epochRevision vocabularyVersion requiredVocabulary mismatch =
     pbind (readTx sv) (\<lambda>readback.
     case find (\<lambda>candidate. ce_epochId candidate = epochId) (st_epochs readback) of
       None \<Rightarrow> throws (TypeError mismatch)
     | Some epoch \<Rightarrow>
         if (requiredVocabulary \<noteq> None \<and> Some (ce_vocabularyVersion epoch) \<noteq> requiredVocabulary) \<or>
            ce_epochRevision epoch \<noteq> epochRevision \<or> \<not> holdsGrants readback grantIds
         then throws (TypeError mismatch)
         else ret (succeeded \<lparr>cp_mode = mode, cp_expiresAt = ce_expiresAt epoch,
           cp_capabilityCount = length (actionsForVocabulary vocabularyVersion), cp_epochRevision = ce_epochRevision epoch\<rparr>
           identity))"

definition upgradeRefusal :: "upgrade_assessment \<Rightarrow> operation_identity \<Rightarrow> application_failure" where
  "upgradeRefusal assessment identity =
     (case assessment of
        UpgradeNotInitialized \<Rightarrow>
          failed BootstrapRequired ''Trusted authorization bootstrap has not been completed'' (Some identity) []
      | UpgradeAuthorizationDenied \<Rightarrow>
          failed AuthorizationDenied ''Trusted local identity does not match the initialized runtime'' (Some identity) []
      | _ \<Rightarrow> failed CapabilityUpgradeNotEligible ''Current capability origin is not eligible for upgrade'' (Some identity) [])"

definition upgradeTransaction ::
  "'e service \<Rightarrow> operation_identity \<Rightarrow> jsstr \<Rightarrow> project_root_identity \<Rightarrow> upgrade_assessment \<Rightarrow> jsstr \<Rightarrow> int \<Rightarrow> jsstr \<Rightarrow>
    jsstr list \<Rightarrow> ('e, capability_epoch_result application_success) prog" where
  "upgradeTransaction sv identity expiresAt runtimeIdentity preflightAssessment preflightSha256 preflightEpochRevision epochId
     grantIds =
     pbind (readTx sv) (\<lambda>state.
     pseq (guard (authorizationMutationTimeIsCurrent state (oi_now identity)) (failed StaleRevision
       ''Trusted capability-upgrade time precedes durable scheduler authorization evidence'' (Some identity) [])) (
     pseq (guard (sv_stateSha256 sv state = preflightSha256 \<and> latestEpochRevision state = preflightEpochRevision)
       (failed StaleRevision ''Capability upgrade preflight is stale'' (Some identity) [])) (
     let assessment = assessCapabilityUpgrade state identity runtimeIdentity in
     case assessment of
       Upgradable nextEpochRevision currentVocabularyVersion targetVocabularyVersion \<Rightarrow>
         pseq (guard (assessment = preflightAssessment)
           (failed StaleRevision ''Capability upgrade lineage is stale'' (Some identity) [])) (
         pseq (writeEpoch sv identity runtimeIdentity expiresAt epochId grantIds nextEpochRevision targetVocabularyVersion
           ''authorization.capability.upgrade'' RequestUpgrade ''capability.upgraded''
           ''Trusted upgrade grant identity is absent'') (
         epochResult sv identity ''upgraded'' epochId grantIds nextEpochRevision targetVocabularyVersion
           (Some targetVocabularyVersion) ''Capability upgrade terminal readback did not match''))
     | _ \<Rightarrow> fails (upgradeRefusal assessment identity))))"

text \<open>The checks of upgrade and renewal before they read the state: confirmation, time and expiry window.\<close>

definition confirmedWindow ::
  "'e service \<Rightarrow> operation_identity \<Rightarrow> string \<Rightarrow> jsstr \<Rightarrow> string \<Rightarrow> string \<Rightarrow> string \<Rightarrow> ('e, operation_identity) prog" where
  "confirmedWindow sv identity1 action expiresAt unconfirmed unrefreshed outside =
     pbind (inEnv (confirmHighRisk identity1 action (sv_ingress sv))) (\<lambda>confirmed.
     pseq (guard confirmed (failed AuthorizationDenied unconfirmed (Some identity1)
       [(''reason'', DetailStr (lit ''confirmation_required''))])) (
     pbind (refreshed sv identity1 unrefreshed) (\<lambda>identity.
     pbind (shifted (oi_now identity) (days 7)) (\<lambda>minimumExpiry.
     pbind (shifted (oi_now identity) (days 31)) (\<lambda>maximumExpiry.
     pseq (guard (\<not> (expiresAt \<le> minimumExpiry \<or> expiresAt > maximumExpiry))
       (failed InvalidInput outside (Some identity) [])) (ret identity))))))"

definition upgrade :: "'e service \<Rightarrow> jsval \<Rightarrow> ('e, capability_epoch_result application_success) prog" where
  "upgrade sv input =
     (case parseCapabilityUpgrade input of
        None \<Rightarrow> fails (failed InvalidInput ''Capability upgrade input is invalid'' None [])
      | Some expiresAt \<Rightarrow>
          pbind (inEnv (operationIdentity (sv_ingress sv))) (\<lambda>identity0.
          case identity0 of
            None \<Rightarrow> fails (failed InvalidInput ''Trusted capability upgrade ingress is invalid'' None [])
          | Some identity1 \<Rightarrow>
              pbind (confirmedWindow sv identity1 ''authorization.capability.upgrade'' expiresAt
                ''Trusted capability upgrade confirmation is required'' ''Trusted capability upgrade time could not be refreshed''
                ''Capability upgrade expiry is outside the finite window'') (\<lambda>identity.
              pbind (runtimeRootNow sv identity) (\<lambda>runtimeIdentity.
              pbind (readApplicationStateForOwner sv) (\<lambda>preflightState.
              pseq (guard (authorizationMutationTimeIsCurrent preflightState (oi_now identity)) (failed StaleRevision
                ''Trusted capability-upgrade time precedes durable scheduler authorization evidence'' (Some identity) [])) (
              let assessment = assessCapabilityUpgrade preflightState identity runtimeIdentity in
              case assessment of
                Upgradable nextEpochRevision currentVocabularyVersion targetVocabularyVersion \<Rightarrow>
                  pbind (epochIdentities sv identity ''Trusted upgrade grant identity is invalid or repeated for ''
                    ''Trusted capability upgrade identities could not be obtained''
                    (actionsForVocabulary targetVocabularyVersion)) (\<lambda>(epochId, grantIds).
                  pseq (beforeTransaction sv) (
                  withApplicationTransaction sv (upgradeTransaction sv identity expiresAt runtimeIdentity assessment
                    (sv_stateSha256 sv preflightState) (latestEpochRevision preflightState) epochId grantIds)))
              | _ \<Rightarrow> fails (upgradeRefusal assessment identity)))))))"

definition renewalRefusal :: "renewal_assessment \<Rightarrow> operation_identity \<Rightarrow> application_failure" where
  "renewalRefusal assessment identity =
     (case assessment of
        RenewalNotInitialized \<Rightarrow>
          failed BootstrapRequired ''Trusted authorization bootstrap has not been completed'' (Some identity) []
      | RenewalAuthorizationDenied \<Rightarrow>
          failed AuthorizationDenied ''Trusted local identity does not match the initialized runtime'' (Some identity) []
      | _ \<Rightarrow> failed CapabilityRenewalNotDue ''Current capability origin is not eligible for renewal'' (Some identity) [])"

definition renewTransaction ::
  "'e service \<Rightarrow> operation_identity \<Rightarrow> jsstr \<Rightarrow> project_root_identity \<Rightarrow> renewal_assessment \<Rightarrow> jsstr \<Rightarrow> bool \<Rightarrow> int \<Rightarrow>
    jsstr \<Rightarrow> jsstr list \<Rightarrow> ('e, capability_epoch_result application_success) prog" where
  "renewTransaction sv identity expiresAt runtimeIdentity preflightAssessment preflightSha256 preflightIdentityPresent
     preflightEpochRevision epochId grantIds =
     pbind (readTx sv) (\<lambda>state.
     pseq (guard (authorizationMutationTimeIsCurrent state (oi_now identity)) (failed StaleRevision
       ''Trusted capability-renewal time precedes durable scheduler authorization evidence'' (Some identity) [])) (
     pseq (guard (sv_stateSha256 sv state = preflightSha256 \<and> (st_identity state \<noteq> None) = preflightIdentityPresent \<and>
         latestEpochRevision state = preflightEpochRevision)
       (failed StaleRevision ''Capability renewal preflight is stale'' (Some identity) [])) (
     pbind (ofThrown (assessRenewal state identity runtimeIdentity)) (\<lambda>assessment.
     case assessment of
       Renewed nextEpochRevision vocabularyVersion \<Rightarrow>
         pseq (guard (assessment = preflightAssessment)
           (failed StaleRevision ''Capability renewal lineage is stale'' (Some identity) [])) (
         pseq (writeEpoch sv identity runtimeIdentity expiresAt epochId grantIds nextEpochRevision vocabularyVersion
           ''authorization.capability.renew'' RequestRenewal ''capability.renewed''
           ''Trusted renewal grant identity is absent'') (
         epochResult sv identity ''renewed'' epochId grantIds nextEpochRevision vocabularyVersion None
           ''Capability renewal terminal readback did not match''))
     | _ \<Rightarrow> fails (renewalRefusal assessment identity)))))"

definition renew :: "'e service \<Rightarrow> jsval \<Rightarrow> ('e, capability_epoch_result application_success) prog" where
  "renew sv input =
     pbind (inEnv (operationIdentity (sv_ingress sv))) (\<lambda>identity0.
     case (parseRenewal input, identity0) of
       (Some expiresAt, Some identity1) \<Rightarrow>
         pbind (confirmedWindow sv identity1 ''authorization.capability.renew'' expiresAt
           ''Trusted capability renewal confirmation is required'' ''Trusted renewal time could not be refreshed''
           ''Capability renewal expiry is outside the finite window'') (\<lambda>identity.
         pbind (runtimeRootNow sv identity) (\<lambda>runtimeIdentity.
         pbind (readApplicationStateForOwner sv) (\<lambda>preflightState.
         pseq (guard (authorizationMutationTimeIsCurrent preflightState (oi_now identity)) (failed StaleRevision
           ''Trusted capability-renewal time precedes durable scheduler authorization evidence'' (Some identity) [])) (
         pbind (ofThrown (assessRenewal preflightState identity runtimeIdentity)) (\<lambda>assessment.
         case assessment of
           Renewed nextEpochRevision vocabularyVersion \<Rightarrow>
             pbind (epochIdentities sv identity ''Trusted renewal grant identity is invalid or repeated for ''
               ''Trusted renewal identities could not be obtained'' (actionsForVocabulary vocabularyVersion))
               (\<lambda>(epochId, grantIds).
             pseq (beforeTransaction sv) (
             withApplicationTransaction sv (renewTransaction sv identity expiresAt runtimeIdentity assessment
               (sv_stateSha256 sv preflightState) (st_identity preflightState \<noteq> None) (latestEpochRevision preflightState)
               epochId grantIds)))
         | _ \<Rightarrow> fails (renewalRefusal assessment identity))))))
     | _ \<Rightarrow> fails (failed InvalidInput ''Capability renewal input or trusted ingress is invalid'' None []))"

end
