(* ===== verification/Application_Execute.thy ===== *)
theory Application_Execute
  imports Application_Service
begin

text \<open>
  The execution of a command (\<open>execute\<close> of \<^verbatim>\<open>src/application-service.ts\<close>): the preflight on
  the state before the transaction, and the transaction, which decides again on the state that
  it reads itself.
\<close>

section \<open>Preflight\<close>

record preflight_facts =
  pf_identity :: operation_identity
  pf_confirmed :: bool
  pf_issuedGrantId :: "jsstr option"
  pf_lifecycleId :: "jsstr option"
  pf_cancelProjectIds :: "jsstr list option"
  pf_runtime :: project_root_identity
  pf_localIdentityRequired :: bool
  pf_registration :: "project_root_identity option"
  pf_project :: "project_root_identity option"
  pf_affected :: "(jsstr \<times> registered_project \<times> project_root_identity) list"

definition identified :: "operation_identity \<Rightarrow> application_failure + 'a \<Rightarrow> application_failure + 'a" where
  "identified identity result =
     (case result of
        Inl failure \<Rightarrow> Inl (failure\<lparr>apf_requestId := Some (oi_requestId identity),
                                 apf_correlationId := Some (oi_correlationId identity)\<rparr>)
      | Inr x \<Rightarrow> Inr x)"

definition bootstrapRequired :: "operation_identity \<Rightarrow> application_failure" where
  "bootstrapRequired identity =
     failed BootstrapRequired ''Trusted authorization bootstrap has not been completed'' (Some identity) []"

definition grantTimeStale :: "operation_identity \<Rightarrow> application_failure" where
  "grantTimeStale identity =
     failed StaleRevision ''Trusted grant-mutation time precedes durable scheduler authorization evidence'' (Some identity) []"

definition otherRuntime :: "operation_identity \<Rightarrow> application_failure" where
  "otherRuntime identity =
     failed AuthorizationDenied ''Authorization bootstrap is bound to another runtime-root identity'' (Some identity)
       [(''reason'', DetailStr (lit ''scope_mismatch''))]"

definition actorMismatch :: "string \<Rightarrow> operation_identity \<Rightarrow> application_failure" where
  "actorMismatch message identity =
     failed AuthorizationDenied message (Some identity) [(''reason'', DetailStr (lit ''actor_mismatch''))]"

definition registryRejected :: "string \<Rightarrow> operation_identity \<Rightarrow> string \<Rightarrow> jsstr option \<Rightarrow> application_failure" where
  "registryRejected message identity code projectId =
     failed ProjectRegistryRejected message (Some identity)
       ((''registryCode'', DetailStr (lit code)) #
        (case projectId of None \<Rightarrow> [] | Some p \<Rightarrow> [(''projectId'', DetailStr p)]))"

fun isGrantIssue :: "application_command \<Rightarrow> bool" where
  "isGrantIssue (GrantIssue _ _ _ _ _) = True"
| "isGrantIssue _ = False"

fun lifecycleGeneration :: "application_command \<Rightarrow> jsstr option" where
  "lifecycleGeneration (RuntimeBackup generation) = Some generation"
| "lifecycleGeneration (RuntimeRestore generation) = Some generation"
| "lifecycleGeneration _ = None"

fun isTaskCancel :: "application_command \<Rightarrow> bool" where
  "isTaskCancel (TaskCancel _ _ _ _ _) = True"
| "isTaskCancel _ = False"

definition confirmedFor ::
  "'e service \<Rightarrow> application_command \<Rightarrow> operation_identity \<Rightarrow> authorization_evaluation \<Rightarrow> ('e, bool) prog" where
  "confirmedFor sv command identity preflightAuthorization =
     (if isHighRiskAction (lit (commandKind command))
      then (if ae_allowed preflightAuthorization
            then inEnv (confirmHighRisk identity (commandKind command) (sv_ingress sv)) else ret False)
      else ret True)"

definition operationTimeFor :: "'e service \<Rightarrow> application_command \<Rightarrow> operation_identity \<Rightarrow> ('e, operation_identity) prog" where
  "operationTimeFor sv command identity =
     (if isHighRiskAction (lit (commandKind command))
      then refreshed sv identity ''Trusted operation time could not be refreshed'' else ret identity)"

text \<open>An identifier that only some commands need.\<close>

definition identityWhen ::
  "bool \<Rightarrow> 'e service \<Rightarrow> string \<Rightarrow> operation_identity \<Rightarrow> string \<Rightarrow> string \<Rightarrow> ('e, jsstr option) prog" where
  "identityWhen needed sv kind identity unobtained invalidMessage =
     (if needed then
        pbind (nextIdentity sv kind identity unobtained) (\<lambda>v.
        pseq (guard (operationalIdentifier v) (failed InvalidInput invalidMessage (Some identity) [])) (
        ret (Some (strOf v))))
      else ret None)"

definition cancelProjects ::
  "(jsstr \<Rightarrow> jsstr) \<Rightarrow> application_command \<Rightarrow> application_state \<Rightarrow> bool \<Rightarrow> ('e, jsstr list option) prog" where
  "cancelProjects nfc command state allowed =
     (if isTaskCancel command \<and> allowed then
        (case domainMutation nfc command state of
           Inr (Some prospective) \<Rightarrow> pbind (ofThrown (affectedProjectIds prospective)) (\<lambda>projectIds. ret (Some projectIds))
         | _ \<Rightarrow> ret None)
      else ret None)"

definition localIdentityRequiredFor :: "application_command \<Rightarrow> operation_identity \<Rightarrow> application_state \<Rightarrow> bool" where
  "localIdentityRequiredFor command identity state \<longleftrightarrow>
     prefix (lit ''local-v1:'') (ta_actorId (oi_actor identity)) \<or>
     Some (ta_actorId (oi_actor identity)) = map_option li_actorId (st_identity state) \<or>
     commandKind command \<in> {''authorization.grant.list'', ''runtime.status'', ''runtime.backup'', ''runtime.restore''}"

fun registrationRoot :: "'e service \<Rightarrow> application_command \<Rightarrow> operation_identity \<Rightarrow> ('e, project_root_identity option) prog" where
  "registrationRoot sv (ProjectRegister projectId root) identity =
     pbind (inEnv (sv_files sv)) (\<lambda>fs.
     case inspectProjectRoot fs (JStr root) (JStr (sv_root sv)) of
       Inl error \<Rightarrow> fails (projectRegistryFailure error identity)
     | Inr found \<Rightarrow> pbind (projectRootNow sv found identity) (\<lambda>checked. ret (Some checked)))"
| "registrationRoot sv _ identity = ret None"

definition projectRootOf ::
  "'e service \<Rightarrow> registered_project option \<Rightarrow> operation_identity \<Rightarrow> ('e, project_root_identity option) prog" where
  "projectRootOf sv project identity =
     (case project of
        None \<Rightarrow> ret None
      | Some p \<Rightarrow> pbind (projectRootNow sv p identity) (\<lambda>checked. ret (Some checked)))"

fun affectedPreflights ::
  "'e service \<Rightarrow> operation_identity \<Rightarrow> application_state \<Rightarrow> registered_project option \<Rightarrow> project_root_identity option \<Rightarrow>
    jsstr list \<Rightarrow> ('e, (jsstr \<times> registered_project \<times> project_root_identity) list) prog" where
  "affectedPreflights sv identity state targetProject targetIdentity [] = ret []"
| "affectedPreflights sv identity state targetProject targetIdentity (projectId # projectIds) =
     (case registryProjectById state projectId of
        None \<Rightarrow> fails (registryRejected ''An affected Domain Project is not registered in ProjectRegistry'' identity
                  ''PROJECT_IDENTITY_UNCERTAIN'' (Some projectId))
      | Some project \<Rightarrow>
          pbind (case targetIdentity of
                   Some known \<Rightarrow>
                     if map_option rp_projectId targetProject = Some projectId then ret known
                     else projectRootNow sv project identity
                 | None \<Rightarrow> projectRootNow sv project identity) (\<lambda>checked.
          pbind (affectedPreflights sv identity state targetProject targetIdentity projectIds) (\<lambda>rest.
          ret ((projectId, project, checked) # rest))))"

definition preflight ::
  "'e service \<Rightarrow> application_command \<Rightarrow> operation_identity \<Rightarrow> ('e, preflight_facts) prog" where
  "preflight sv command identity0 =
     pbind (readApplicationStateForOwner sv) (\<lambda>state.
     case st_bootstrap state of
       None \<Rightarrow> fails (bootstrapRequired identity0)
     | Some boot \<Rightarrow>
         pbind (ofFailure (identified identity0 (targetForCommand command state))) (\<lambda>target.
         pbind (ofThrown (authorizeCommand identity0 command target state True)) (\<lambda>authorization.
         pbind (confirmedFor sv command identity0 (ca_evaluation authorization)) (\<lambda>confirmed.
         pbind (operationTimeFor sv command identity0) (\<lambda>identity.
         pseq (guard (\<not> changesAuthorizationGrants command \<or> authorizationMutationTimeIsCurrent state (oi_now identity))
           (grantTimeStale identity)) (
         pbind (identityWhen (isGrantIssue command) sv ''grant'' identity ''Trusted grant identity could not be obtained''
           ''Trusted grant identity is invalid'') (\<lambda>issuedGrantId.
         pbind (identityWhen (lifecycleGeneration command \<noteq> None) sv ''lifecycle'' identity
           ''Trusted lifecycle authorization identity could not be obtained''
           ''Trusted lifecycle authorization identity is invalid'') (\<lambda>lifecycleId.
         pbind (cancelProjects (sv_nfc sv) command state (ae_allowed (ca_evaluation authorization))) (\<lambda>cancelProjectIds.
         pbind (runtimeRootNow sv identity) (\<lambda>runtimeIdentity.
         pseq (guard (sameRootIdentity boot runtimeIdentity) (otherRuntime identity)) (
         let localIdentityRequired = localIdentityRequiredFor command identity state in
         pseq (guard (\<not> localIdentityRequired \<or> sameLocalIdentity state identity runtimeIdentity)
           (actorMismatch ''Trusted local identity does not match the initialized runtime'' identity)) (
         pbind (registrationRoot sv command identity) (\<lambda>registrationIdentity.
         pbind (projectRootOf sv (bt_project target) identity) (\<lambda>projectIdentity.
         pbind (case cancelProjectIds of
                  None \<Rightarrow> ret []
                | Some projectIds \<Rightarrow> affectedPreflights sv identity state (bt_project target) projectIdentity projectIds) (\<lambda>affected.
         ret \<lparr>pf_identity = identity, pf_confirmed = confirmed, pf_issuedGrantId = issuedGrantId,
           pf_lifecycleId = lifecycleId, pf_cancelProjectIds = cancelProjectIds, pf_runtime = runtimeIdentity,
           pf_localIdentityRequired = localIdentityRequired, pf_registration = registrationIdentity,
           pf_project = projectIdentity, pf_affected = affected\<rparr>)))))))))))))))"

section \<open>The target in the transaction\<close>

definition deny ::
  "'e service \<Rightarrow> operation_identity \<Rightarrow> string \<Rightarrow> bound_target \<Rightarrow> authorization_evaluation \<Rightarrow> ('e, 'a) prog" where
  "deny sv identity action target evaluated = pbind (recordDenied sv identity action target evaluated) fails"

definition atProject :: "bound_target \<Rightarrow> registered_project \<Rightarrow> bound_target" where
  "atProject target project = target\<lparr>bt_project := Some project\<rparr>"

text \<open>The Project of the target at the revisions that the command expects, or a recorded denial.\<close>

definition atCurrentProject ::
  "'e service \<Rightarrow> operation_identity \<Rightarrow> string \<Rightarrow> application_state \<Rightarrow> jsstr \<Rightarrow> int \<Rightarrow> int option \<Rightarrow>
    authorization_policy_result \<Rightarrow> bound_target \<Rightarrow> ('e, bound_target) prog" where
  "atCurrentProject sv identity action state projectId resourceRevision configRevision policy target =
     (case ensureCurrentProject state projectId resourceRevision configRevision of
        Inl _ \<Rightarrow> deny sv identity action target (staleEvaluation policy)
      | Inr current \<Rightarrow> ret (atProject target current))"

definition atDomainProject ::
  "'e service \<Rightarrow> operation_identity \<Rightarrow> string \<Rightarrow> application_state \<Rightarrow> jsstr \<Rightarrow> int \<Rightarrow> bound_target \<Rightarrow> ('e, bound_target) prog" where
  "atDomainProject sv identity action state projectId resourceRevision target =
     atCurrentProject sv identity action state projectId resourceRevision None
       (policyFor (lit action) (bt_project target) state) target"

definition grantRevisionChecked ::
  "'e service \<Rightarrow> operation_identity \<Rightarrow> string \<Rightarrow> application_state \<Rightarrow> jsstr \<Rightarrow> int \<Rightarrow> bound_target \<Rightarrow> ('e, bound_target) prog" where
  "grantRevisionChecked sv identity action state grantId expectedGrantRevision target =
     (case grantById state grantId of
        None \<Rightarrow> fails (failed GrantNotFound ''Grant is not registered'' (Some identity) [])
      | Some grant \<Rightarrow>
          if g_revision grant \<noteq> expectedGrantRevision
          then deny sv identity action target (staleEvaluation PolicyReadNotApplicable) else ret target)"

fun currentTarget ::
  "'e service \<Rightarrow> operation_identity \<Rightarrow> application_state \<Rightarrow> bound_target \<Rightarrow> application_command \<Rightarrow> ('e, bound_target) prog" where
  "currentTarget sv identity state target (GrantIssue actorId action scope notBefore expiresAt) =
     (if as_kind scope = ProjectScope then
        (case (case as_projectId scope of None \<Rightarrow> None | Some projectId \<Rightarrow> registryProjectById state projectId) of
           None \<Rightarrow> deny sv identity ''authorization.grant.issue'' target (staleEvaluation PolicyReadNotApplicable)
         | Some current \<Rightarrow>
             if Some (rp_resourceRevision current) \<noteq> as_resourceRevision scope \<or>
                Some (rp_configRevision current) \<noteq> as_configRevision scope
             then deny sv identity ''authorization.grant.issue'' target (staleEvaluation PolicyReadNotApplicable)
             else ret (atProject target current))
      else ret target)"
| "currentTarget sv identity state target (ProjectUpdate projectId resourceRevision configRevision) =
     atCurrentProject sv identity ''project.update'' state projectId resourceRevision (Some configRevision) PolicyAllow target"
| "currentTarget sv identity state target (ProjectDisable projectId resourceRevision configRevision) =
     atCurrentProject sv identity ''project.disable'' state projectId resourceRevision (Some configRevision) PolicyAllow target"
| "currentTarget sv identity state target (ProjectInspect projectId resourceRevision) =
     atCurrentProject sv identity ''project.inspect'' state projectId resourceRevision None PolicyReadNotApplicable target"
| "currentTarget sv identity state target (PolicyEvaluate projectId resourceRevision configRevision action) =
     atCurrentProject sv identity ''policy.evaluate'' state projectId resourceRevision (Some configRevision)
       PolicyReadNotApplicable target"
| "currentTarget sv identity state target (TaskCreate projectId resourceRevision taskId body supersedes) =
     atDomainProject sv identity ''task.create'' state projectId resourceRevision target"
| "currentTarget sv identity state target (TaskUpdate projectId resourceRevision taskId expected change) =
     atDomainProject sv identity ''task.update'' state projectId resourceRevision target"
| "currentTarget sv identity state target (TaskMarkReady projectId resourceRevision taskId expected) =
     atDomainProject sv identity ''task.mark_ready'' state projectId resourceRevision target"
| "currentTarget sv identity state target (TaskCancel projectId resourceRevision taskId expected reason) =
     atDomainProject sv identity ''task.cancel'' state projectId resourceRevision target"
| "currentTarget sv identity state target (TaskInspect projectId resourceRevision taskId expected) =
     atDomainProject sv identity ''task.inspect'' state projectId resourceRevision target"
| "currentTarget sv identity state target (DependencyAdd projectId resourceRevision taskId expected dependencyId expectedDependency) =
     atDomainProject sv identity ''dependency.add'' state projectId resourceRevision target"
| "currentTarget sv identity state target (DependencyRemove projectId resourceRevision taskId expected dependencyId expectedDependency) =
     atDomainProject sv identity ''dependency.remove'' state projectId resourceRevision target"
| "currentTarget sv identity state target (GrantInspect grantId expected) =
     grantRevisionChecked sv identity ''authorization.grant.inspect'' state grantId expected target"
| "currentTarget sv identity state target (GrantRevoke grantId expected) =
     grantRevisionChecked sv identity ''authorization.grant.revoke'' state grantId expected target"
| "currentTarget sv identity state target _ = ret target"

section \<open>The Projects of a cancellation\<close>

fun checkAffected ::
  "'e service \<Rightarrow> preflight_facts \<Rightarrow> application_state \<Rightarrow> bound_target \<Rightarrow> authorization_evaluation \<Rightarrow> jsstr list \<Rightarrow>
    ('e, unit) prog" where
  "checkAffected sv pf state target evaluated [] = ret ()"
| "checkAffected sv pf state target evaluated (projectId # projectIds) =
     (case (map_of (pf_affected pf) projectId, registryProjectById state projectId) of
        (Some (project, checked), Some current) \<Rightarrow>
          if rp_configRevision current \<noteq> rp_configRevision project \<or> rp_resourceRevision current \<noteq> rp_resourceRevision project
          then deny sv (pf_identity pf) ''task.cancel'' target (staleEvaluation (ae_policy evaluated))
          else if \<not> sameProjectBinding current project \<or> \<not> sameRootIdentity current checked
          then fails (registryRejected ''An affected Project identity changed after trusted preflight'' (pf_identity pf)
                 ''PROJECT_IDENTITY_CHANGED'' (Some projectId))
          else if policyFor (lit ''task.cancel'') (Some current) state \<noteq> PolicyAllow
          then deny sv (pf_identity pf) ''task.cancel'' target
                 (evaluated\<lparr>ae_allowed := False, ae_reason := PolicyDenied, ae_policy := PolicyDeny\<rparr>)
          else checkAffected sv pf state target evaluated projectIds
      | _ \<Rightarrow> fails (registryRejected ''An affected ProjectRegistry binding is absent after trusted preflight''
               (pf_identity pf) ''PROJECT_IDENTITY_UNCERTAIN'' (Some projectId)))"

fun cancelEvaluation ::
  "'e service \<Rightarrow> preflight_facts \<Rightarrow> application_state \<Rightarrow> bound_target \<Rightarrow> authorization_evaluation \<Rightarrow> application_command \<Rightarrow>
    domain_mutation option \<Rightarrow> ('e, authorization_evaluation) prog" where
  "cancelEvaluation sv pf state target evaluated (TaskCancel commandProject resourceRevision taskId expected reason) (Some m) =
     pbind (ofThrown (affectedProjectIds m)) (\<lambda>changedProjectIds.
     if (case pf_cancelProjectIds pf of None \<Rightarrow> True | Some projectIds \<Rightarrow> \<not> sameProjectIds changedProjectIds projectIds)
     then deny sv (pf_identity pf) ''task.cancel'' target (staleEvaluation (ae_policy evaluated))
     else
       pseq (checkAffected sv pf state target evaluated changedProjectIds) (
       if changedProjectIds \<noteq> [commandProject] then
         let runtimeEvaluation = authorize (pf_identity pf) ''task.cancel'' target state (pf_confirmed pf) (Some RuntimeScope) in
         if \<not> ae_allowed runtimeEvaluation
         then deny sv (pf_identity pf) ''task.cancel'' target
           (if ae_reason runtimeEvaluation \<in> {ActorMismatch, ActionMismatch, GrantMissing, ScopeMismatch}
            then evaluated\<lparr>ae_allowed := False, ae_reason := ScopeMismatch\<rparr> else runtimeEvaluation)
         else ret runtimeEvaluation
       else ret evaluated))"
| "cancelEvaluation sv pf state target evaluated command m = ret evaluated"

section \<open>Effects\<close>

definition issuedGrant :: "operation_identity \<Rightarrow> jsstr \<Rightarrow> grant_issue_proof \<Rightarrow> application_command \<Rightarrow> grant_row" where
  "issuedGrant identity grantId issuanceProof command =
     \<lparr>gr_grant = \<lparr>g_grantId = grantId, g_revision = 1, g_actorId = issue_actorId command, g_action = issue_action command,
        g_scope = issue_scope command, g_notBefore = issue_notBefore command, g_expiresAt = issue_expiresAt command,
        g_revokedAt = None, g_issuerGrantId = Some (gp_administrativeGrantId issuanceProof),
        g_sourceGrantId = Some (gp_sourceGrantId issuanceProof)\<rparr>,
      gr_capabilityEpochId = None, gr_createdRequestId = oi_requestId identity, gr_revokedRequestId = None\<rparr>"

definition projectDomainWritten ::
  "'e service \<Rightarrow> application_state \<Rightarrow> project_domain_mutation option \<Rightarrow> ('e, unit) prog" where
  "projectDomainWritten sv state projectMut =
     (case projectMut of
        None \<Rightarrow> ret ()
      | Some m \<Rightarrow> pseq (writeProjectDomain sv (st_domain state) m) (stage sv ''domain''))"

definition domainWritten :: "'e service \<Rightarrow> application_state \<Rightarrow> domain_mutation option \<Rightarrow> ('e, unit) prog" where
  "domainWritten sv state m =
     (case m of None \<Rightarrow> ret () | Some x \<Rightarrow> pseq (writeDomain sv (st_domain state) x) (stage sv ''domain''))"

definition nextProject :: "'a project_root_identity_scheme \<Rightarrow> registered_project \<Rightarrow> jsstr \<Rightarrow> registered_project" where
  "nextProject root current now =
     \<lparr>ri_canonicalRoot = ri_canonicalRoot root, ri_rootKey = ri_rootKey root, ri_platform = ri_platform root,
      ri_device = ri_device root, ri_inode = ri_inode root, ri_mode = ri_mode root,
      rp_projectId = rp_projectId current, rp_configRevision = rp_configRevision current + 1,
      rp_resourceRevision = rp_resourceRevision current + 1, rp_createdAt = rp_createdAt current, rp_updatedAt = now\<rparr>"

definition newProject :: "project_root_identity \<Rightarrow> jsstr \<Rightarrow> jsstr \<Rightarrow> registered_project" where
  "newProject root projectId now =
     \<lparr>ri_canonicalRoot = ri_canonicalRoot root, ri_rootKey = ri_rootKey root, ri_platform = ri_platform root,
      ri_device = ri_device root, ri_inode = ri_inode root, ri_mode = ri_mode root,
      rp_projectId = projectId, rp_configRevision = 1, rp_resourceRevision = 1, rp_createdAt = now, rp_updatedAt = now\<rparr>"

definition registryUpdated :: "'e service \<Rightarrow> registered_project \<Rightarrow> registered_project \<Rightarrow> ('e, unit) prog" where
  "registryUpdated sv project current =
     pseq (updateProject project (rp_configRevision current) (rp_resourceRevision current)) (stage sv ''registry'')"

fun applyEffect ::
  "'e service \<Rightarrow> preflight_facts \<Rightarrow> application_state \<Rightarrow> bound_target \<Rightarrow> grant_issue_proof option \<Rightarrow>
    project_domain_mutation option \<Rightarrow> domain_mutation option \<Rightarrow> application_command \<Rightarrow> ('e, unit) prog" where
  "applyEffect sv pf state target issuanceProof projectMut m (GrantIssue actorId action scope notBefore expiresAt) =
     (case (pf_issuedGrantId pf, issuanceProof) of
        (None, _) \<Rightarrow> throws (TypeError ''Trusted grant identity is absent'')
      | (Some _, None) \<Rightarrow> throws (TypeError ''Grant issuance proof is absent'')
      | (Some grantId, Some issue) \<Rightarrow>
          pseq (insertGrant (issuedGrant (pf_identity pf) grantId issue (GrantIssue actorId action scope notBefore expiresAt)))
            (stage sv ''grant''))"
| "applyEffect sv pf state target issuanceProof projectMut m (GrantRevoke grantId expected) =
     pseq (revokeGrant grantId expected (oi_now (pf_identity pf)) (oi_requestId (pf_identity pf))) (stage sv ''grant'')"
| "applyEffect sv pf state target issuanceProof projectMut m (ProjectRegister projectId root) =
     (case pf_registration pf of
        None \<Rightarrow> throws (TypeError ''Project identity preflight is absent'')
      | Some registration \<Rightarrow>
          pbind (ofThrown (projectRegistrationMutation (sv_nfc sv) state projectId)) (\<lambda>projectResult.
          pseq (projectDomainWritten sv state projectResult) (
          pseq (insertProject (newProject registration projectId (oi_now (pf_identity pf)))) (
          stage sv ''registry''))))"
| "applyEffect sv pf state target issuanceProof projectMut m (ProjectUpdate projectId resourceRevision configRevision) =
     (case (bt_project target, pf_project pf) of
        (Some current, Some root) \<Rightarrow>
          pseq (projectDomainWritten sv state projectMut)
            (registryUpdated sv (nextProject root current (oi_now (pf_identity pf))) current)
      | _ \<Rightarrow> throws (TypeError ''Project identity preflight is absent''))"
| "applyEffect sv pf state target issuanceProof projectMut m (ProjectDisable projectId resourceRevision configRevision) =
     (case (bt_project target, projectMut) of
        (Some current, Some pm) \<Rightarrow>
          pseq (projectDomainWritten sv state (Some pm))
            (registryUpdated sv (nextProject current current (oi_now (pf_identity pf))) current)
      | _ \<Rightarrow> throws (TypeError ''Project disablement mutation is absent''))"
| "applyEffect sv pf state target issuanceProof projectMut m _ = domainWritten sv state m"

section \<open>Evidence and results\<close>

fun auditKind :: "application_command \<Rightarrow> string" where
  "auditKind (GrantIssue _ _ _ _ _) = ''grant.issued''"
| "auditKind (GrantInspect _ _) = ''grant.inspected''"
| "auditKind (GrantRevoke _ _) = ''grant.revoked''"
| "auditKind (PolicyEvaluate _ _ _ _) = ''policy.evaluated''"
| "auditKind (ProjectRegister _ _) = ''project.registered''"
| "auditKind (ProjectUpdate _ _ _) = ''project.updated''"
| "auditKind (ProjectDisable _ _ _) = ''project.disabled''"
| "auditKind (ProjectInspect _ _) = ''project.inspected''"
| "auditKind (TaskCreate _ _ _ _ _) = ''task.created''"
| "auditKind (TaskUpdate _ _ _ _ _) = ''task.updated''"
| "auditKind (TaskMarkReady _ _ _ _) = ''task.ready''"
| "auditKind (TaskCancel _ _ _ _ _) = ''task.cancelled''"
| "auditKind (TaskInspect _ _ _ _) = ''task.inspected''"
| "auditKind (DependencyAdd _ _ _ _ _ _) = ''dependency.added''"
| "auditKind (DependencyRemove _ _ _ _ _ _) = ''dependency.removed''"
| "auditKind (GrantList _ _) = ''grant.listed''"
| "auditKind RuntimeStatus = ''runtime.status.inspected''"
| "auditKind (RuntimeBackup _) = ''backup.authorized''"
| "auditKind (RuntimeRestore _) = ''restore.authorized''"

definition lifecycleRecord ::
  "operation_identity \<Rightarrow> string \<Rightarrow> jsstr \<Rightarrow> jsstr \<Rightarrow> application_state \<Rightarrow> local_identity \<Rightarrow> authorization_grant \<Rightarrow> jsstr \<Rightarrow> jsstr \<Rightarrow>
    lifecycle_authorization" where
  "lifecycleRecord identity kind generation authorizationId state local grant sha fiveMinutes =
     \<lparr>la_authorizationId = authorizationId, la_operation = kind, la_backupGenerationId = generation,
      la_actorId = ta_actorId (oi_actor identity), la_runtimeRootKey = li_runtimeRootKey local,
      la_grantId = g_grantId grant, la_grantRevision = g_revision grant, la_requestId = oi_requestId identity,
      la_decisionId = oi_decisionId identity, la_auditId = oi_auditId identity, la_authorizedStateSha256 = sha,
      la_expectedRequestCount = length (st_requests state), la_expectedDecisionCount = length (st_decisions state),
      la_expectedAuditCount = length (st_audit state), la_issuedAt = oi_now identity,
      la_expiresAt = (if g_expiresAt grant < fiveMinutes then g_expiresAt grant else fiveMinutes)\<rparr>"

definition lifecycleWritten ::
  "'e service \<Rightarrow> preflight_facts \<Rightarrow> application_command \<Rightarrow> jsstr \<Rightarrow> jsstr \<Rightarrow> int \<Rightarrow> application_state \<Rightarrow> local_identity \<Rightarrow>
    authorization_grant \<Rightarrow> ('e, unit) prog" where
  "lifecycleWritten sv pf command generation authorizationId grantRevision state local grant =
     (if li_actorId local \<noteq> ta_actorId (oi_actor (pf_identity pf)) \<or> g_revision grant \<noteq> grantRevision \<or> g_revokedAt grant \<noteq> None
      then throws (TypeError ''Lifecycle authorization changed before durable handoff'')
      else
        pbind (shifted (oi_now (pf_identity pf)) (5 * 60 * 1000)) (\<lambda>fiveMinutes.
        pbind (stateSha256 sv) (\<lambda>sha.
        pseq (insertLifecycleAuthorization (lifecycleRecord (pf_identity pf) (commandKind command) generation authorizationId
          state local grant sha fiveMinutes)) (stage sv ''lifecycle''))))"

definition lifecycleAuthorized ::
  "'e service \<Rightarrow> preflight_facts \<Rightarrow> application_command \<Rightarrow> authorization_evaluation \<Rightarrow> ('e, unit) prog" where
  "lifecycleAuthorized sv pf command evaluated =
     (case lifecycleGeneration command of
        None \<Rightarrow> ret ()
      | Some generation \<Rightarrow>
          (case (pf_lifecycleId pf, ae_grantId evaluated, ae_grantRevision evaluated) of
             (Some authorizationId, Some grantId, Some grantRevision) \<Rightarrow>
               pbind (readTx sv) (\<lambda>state.
               case (st_identity state, grantById state grantId) of
                 (Some local, Some grant) \<Rightarrow>
                   lifecycleWritten sv pf command generation authorizationId grantRevision state local grant
               | _ \<Rightarrow> throws (TypeError ''Lifecycle authorization changed before durable handoff''))
           | _ \<Rightarrow> throws (TypeError ''Lifecycle authorization evidence is incomplete'')))"

definition terminalResult ::
  "'e service \<Rightarrow> preflight_facts \<Rightarrow> application_command \<Rightarrow> ('e, application_output application_success) prog" where
  "terminalResult sv pf command =
     pbind (readTx sv) (\<lambda>readback.
     case pf_lifecycleId pf of
       Some authorizationId \<Rightarrow>
         (case find (\<lambda>candidate. la_authorizationId candidate = authorizationId) (st_lifecycle readback) of
            None \<Rightarrow> throws (TypeError ''Lifecycle terminal readback is absent'')
          | Some authorization \<Rightarrow> ret (succeeded (LifecycleOutput authorization) (pf_identity pf)))
     | None \<Rightarrow>
         (case pf_issuedGrantId pf of
            Some grantId \<Rightarrow>
              (case grantById readback grantId of
                 None \<Rightarrow> throws (TypeError ''Grant terminal readback is absent'')
               | Some grant \<Rightarrow> ret (succeeded (GrantOutput (Some grant)) (pf_identity pf)))
          | None \<Rightarrow>
              pbind (ofThrown (outputFor command readback (sv_schemaVersion sv))) (\<lambda>result.
              ret (succeeded result (pf_identity pf)))))"

section \<open>The transaction\<close>

definition alreadyRegistered :: "application_state \<Rightarrow> preflight_facts \<Rightarrow> application_command \<Rightarrow> bool" where
  "alreadyRegistered state pf command \<longleftrightarrow>
     (case command of
        ProjectRegister projectId root \<Rightarrow>
          list_ex (\<lambda>project. rp_projectId project = projectId \<or>
            Some (ri_rootKey project) = map_option ri_rootKey (pf_registration pf)) (st_projects state)
      | _ \<Rightarrow> False)"

definition issuedTarget :: "preflight_facts \<Rightarrow> application_command \<Rightarrow> bound_target \<Rightarrow> ('e, bound_target) prog" where
  "issuedTarget pf command target =
     (if isGrantIssue command then
        (case pf_issuedGrantId pf of
           None \<Rightarrow> throws (TypeError ''Trusted grant identity is absent'')
         | Some grantId \<Rightarrow> ret (target\<lparr>bt_id := grantId\<rparr>))
      else ret target)"

text \<open>What the transaction writes once the command is authorized.\<close>

definition commitCommand ::
  "'e service \<Rightarrow> preflight_facts \<Rightarrow> application_command \<Rightarrow> application_state \<Rightarrow> bound_target \<Rightarrow> authorization_evaluation \<Rightarrow>
    grant_issue_proof option \<Rightarrow> project_domain_mutation option \<Rightarrow> domain_mutation option \<Rightarrow>
    ('e, application_output application_success) prog" where
  "commitCommand sv pf command state target evaluated issuanceProof projectMut m =
     pseq (insertRequest (requestRecord (pf_identity pf) (commandKind command) target RequestAllow)) (
     pseq (stage sv ''request'') (
     pseq (applyEffect sv pf state target issuanceProof projectMut m command) (
     pseq (insertDecision (decisionRecord (pf_identity pf) (commandKind command) target evaluated)) (
     pseq (stage sv ''decision'') (
     pseq (insertAudit (auditRecord (pf_identity pf) target (auditKind command) True ''accepted''
       (Some (oi_decisionId (pf_identity pf))))) (
     pseq (stage sv ''audit'') (
     pseq (lifecycleAuthorized sv pf command evaluated) (
     terminalResult sv pf command))))))))"

text \<open>The decision on an authorized command, up to the first write.\<close>

definition authorizedCommand ::
  "'e service \<Rightarrow> preflight_facts \<Rightarrow> application_command \<Rightarrow> application_state \<Rightarrow> bound_target \<Rightarrow> command_authorization \<Rightarrow>
    ('e, application_output application_success) prog" where
  "authorizedCommand sv pf command state target authorization =
     pbind (ofFailure (identified (pf_identity pf) (domainMutation (sv_nfc sv) command state))) (\<lambda>m.
     pbind (cancelEvaluation sv pf state target (ca_evaluation authorization) command m) (\<lambda>evaluated.
     pbind (ofFailure (projectDomainMutation (sv_nfc sv) command state (pf_identity pf))) (\<lambda>projectMut.
     pseq (guard (\<not> alreadyRegistered state pf command) (failed ProjectAlreadyRegistered
       ''Project identity or canonical root is already registered'' (Some (pf_identity pf)) [])) (
     pbind (issuedTarget pf command target) (\<lambda>finalTarget.
     commitCommand sv pf command state finalTarget evaluated (ca_issuanceProof authorization) projectMut m)))))"

text \<open>The decision on the authorization: a recorded denial, or the command.\<close>

definition decidedCommand ::
  "'e service \<Rightarrow> preflight_facts \<Rightarrow> application_command \<Rightarrow> application_state \<Rightarrow> bound_target \<Rightarrow> command_authorization \<Rightarrow>
    ('e, application_output application_success) prog" where
  "decidedCommand sv pf command state target authorization =
     (if \<not> ae_allowed (ca_evaluation authorization) then
        pbind (recordDenied sv (pf_identity pf) (commandKind command) target (ca_evaluation authorization)) (\<lambda>denial.
        if isGrantIssue command \<and> ae_reason (ca_evaluation authorization) = ScopeMismatch
        then fails (failed ScopeExpansionDenied ''Requested grant exceeds the current issuance authority''
          (Some (pf_identity pf)) [])
        else fails denial)
      else authorizedCommand sv pf command state target authorization)"

text \<open>The transaction on an initialized state.\<close>

definition executeOn ::
  "'e service \<Rightarrow> preflight_facts \<Rightarrow> application_command \<Rightarrow> application_state \<Rightarrow> authorization_bootstrap \<Rightarrow>
    ('e, application_output application_success) prog" where
  "executeOn sv pf command state boot =
     pseq (guard (\<not> changesAuthorizationGrants command \<or>
         authorizationMutationTimeIsCurrent state (oi_now (pf_identity pf))) (grantTimeStale (pf_identity pf))) (
     pseq (guard (sameRootIdentity boot (pf_runtime pf)) (otherRuntime (pf_identity pf))) (
     pseq (guard (\<not> pf_localIdentityRequired pf \<or> sameLocalIdentity state (pf_identity pf) (pf_runtime pf))
       (actorMismatch ''Trusted local identity changed after preflight'' (pf_identity pf))) (
     pbind (ofFailure (identified (pf_identity pf) (targetForCommand command state))) (\<lambda>found.
     pseq (guard (case (bt_project found, pf_project pf) of
                    (None, _) \<Rightarrow> True | (Some project, Some root) \<Rightarrow> sameRootIdentity project root | _ \<Rightarrow> False)
       (registryRejected ''Project identity changed after trusted preflight'' (pf_identity pf)
         ''PROJECT_IDENTITY_CHANGED'' None)) (
     pbind (currentTarget sv (pf_identity pf) state found command) (\<lambda>target.
     pbind (ofThrown (authorizeCommand (pf_identity pf) command target state (pf_confirmed pf))) (\<lambda>authorization.
     decidedCommand sv pf command state target authorization)))))))"

definition executeTransaction ::
  "'e service \<Rightarrow> preflight_facts \<Rightarrow> application_command \<Rightarrow> ('e, application_output application_success) prog" where
  "executeTransaction sv pf command =
     pbind (readTx sv) (\<lambda>state.
     case st_bootstrap state of
       None \<Rightarrow> fails (bootstrapRequired (pf_identity pf))
     | Some boot \<Rightarrow> executeOn sv pf command state boot)"

definition execute :: "'e service \<Rightarrow> jsval \<Rightarrow> ('e, application_output application_success) prog" where
  "execute sv input =
     (case parseCommand (sv_nfc sv) input of
        None \<Rightarrow> fails (failed InvalidInput ''Command or trusted ingress is invalid'' None [])
      | Some command \<Rightarrow>
          pbind (inEnv (operationIdentity (sv_ingress sv))) (\<lambda>identity0.
          case identity0 of
            None \<Rightarrow> fails (failed InvalidInput ''Command or trusted ingress is invalid'' None [])
          | Some identity \<Rightarrow>
              pbind (preflight sv command identity) (\<lambda>pf.
              pseq (beforeTransaction sv) (
              withApplicationTransaction sv (executeTransaction sv pf command)))))"

end
