(* ===== verification/Application_Logic.thy ===== *)
theory Application_Logic
  imports Application_Execute
begin

text \<open>
  A calculus for programs on the tables: \<open>triple P m Q F\<close> says that \<open>m\<close>, started on tables that
  satisfy \<open>P\<close>, ends with \<open>Q\<close> when it returns and with \<open>F\<close> when it fails; nothing is claimed when
  it throws, since the transaction is then rolled back. The environment is arbitrary.
\<close>

definition triple ::
  "(database \<Rightarrow> bool) \<Rightarrow> ('e, 'f, 'a) program \<Rightarrow> ('a \<Rightarrow> database \<Rightarrow> bool) \<Rightarrow> ('f \<Rightarrow> database \<Rightarrow> bool) \<Rightarrow> bool" where
  "triple P m Q F \<longleftrightarrow>
     (\<forall>db e out db' e'. P db \<longrightarrow> m (db, e) = (out, (db', e')) \<longrightarrow>
        (\<forall>x. out = Returns x \<longrightarrow> Q x db') \<and> (\<forall>f. out = Fails f \<longrightarrow> F f db'))"

lemma tripleD:
  assumes "triple P m Q F" "P db" "m (db, e) = (out, (db', e'))"
  shows "out = Returns x \<Longrightarrow> Q x db'" "out = Fails f \<Longrightarrow> F f db'"
  using assms unfolding triple_def by blast+

lemma tripleI:
  assumes "\<And>db e out db' e'. P db \<Longrightarrow> m (db, e) = (out, (db', e')) \<Longrightarrow>
    case out of Returns x \<Rightarrow> Q x db' | Fails f \<Rightarrow> F f db' | Throws t \<Rightarrow> True"
  shows "triple P m Q F"
  unfolding triple_def
proof (intro allI impI conjI)
  fix db e out db' e' x
  assume "P db" "m (db, e) = (out, (db', e'))" "out = Returns x"
  then show "Q x db'" using assms [of db e out db' e'] by simp
next
  fix db e out db' e' f
  assume "P db" "m (db, e) = (out, (db', e'))" "out = Fails f"
  then show "F f db'" using assms [of db e out db' e'] by simp
qed

lemma triple_bind:
  assumes "triple P m R F" "\<And>x. triple (R x) (f x) Q F"
  shows "triple P (pbind m f) Q F"
proof (rule tripleI)
  fix db e out db' e'
  assume "P db" and run: "pbind m f (db, e) = (out, (db', e'))"
  obtain out1 db1 e1 where m: "m (db, e) = (out1, (db1, e1))" by (metis prod.exhaust)
  show "case out of Returns x \<Rightarrow> Q x db' | Fails f \<Rightarrow> F f db' | Throws t \<Rightarrow> True"
  proof (cases out1)
    case (Returns x)
    then have "R x db1" using tripleD(1) [OF assms(1) \<open>P db\<close> m] by simp
    moreover have "f x (db1, e1) = (out, (db', e'))" using run m Returns by (simp add: pbind_def)
    ultimately show ?thesis using tripleD [OF assms(2)] by (cases out) auto
  next
    case (Fails g)
    then show ?thesis using tripleD(2) [OF assms(1) \<open>P db\<close> m] m run by (auto simp: pbind_def)
  qed (use m run in \<open>auto simp: pbind_def\<close>)
qed

lemma triple_seq:
  assumes "triple P m R F" "triple (R ()) k Q F"
  shows "triple P (pseq m k) Q F"
  unfolding pseq_def by (rule triple_bind [OF assms(1)]) (use assms(2) in simp)

lemma triple_weaken:
  assumes "triple P' m Q' F'" "\<And>db. P db \<Longrightarrow> P' db" "\<And>x db. Q' x db \<Longrightarrow> Q x db" "\<And>f db. F' f db \<Longrightarrow> F f db"
  shows "triple P m Q F"
proof (rule tripleI)
  fix db e out db' e'
  assume "P db" "m (db, e) = (out, (db', e'))"
  then show "case out of Returns x \<Rightarrow> Q x db' | Fails f \<Rightarrow> F f db' | Throws t \<Rightarrow> True"
    using tripleD [OF assms(1) assms(2)] assms(3,4) by (cases out) auto
qed

text \<open>From a fact about every start to the strongest postcondition.\<close>

lemma triple_lift:
  assumes "\<And>db0. triple (\<lambda>db. db = db0) m (Q db0) F"
  shows "triple P m (\<lambda>x db'. \<exists>db. P db \<and> Q db x db') F"
proof (rule tripleI)
  fix db e out db' e'
  assume p: "P db" and m: "m (db, e) = (out, (db', e'))"
  show "case out of Returns x \<Rightarrow> \<exists>db. P db \<and> Q db x db' | Fails f \<Rightarrow> F f db' | Throws t \<Rightarrow> True"
    using p tripleD [OF assms [of db] refl m] by (cases out) auto
qed

lemma triple_assume: "(A \<Longrightarrow> triple P m Q F) \<Longrightarrow> triple (\<lambda>db. P db \<and> A) m Q F"
  unfolding triple_def by blast

lemma triple_if:
  "(b \<Longrightarrow> triple P m Q F) \<Longrightarrow> (\<not> b \<Longrightarrow> triple P k Q F) \<Longrightarrow> triple P (if b then m else k) Q F"
  by simp

lemma triple_ret: "(\<And>db. P db \<Longrightarrow> Q x db) \<Longrightarrow> triple P (ret x) Q F"
  by (simp add: triple_def ret_def)

lemma triple_fails: "(\<And>db. P db \<Longrightarrow> F f db) \<Longrightarrow> triple P (fails f) Q F"
  by (simp add: triple_def fails_def)

lemma triple_throws: "triple P (throws t) Q F"
  by (simp add: triple_def throws_def)

lemma triple_guard:
  assumes "\<And>db. \<not> b \<Longrightarrow> P db \<Longrightarrow> F f db" "b \<Longrightarrow> triple P k Q F"
  shows "triple P (pseq (guard b f) k) Q F"
proof (cases b)
  case True
  then have "pseq (guard b f) k = k" by (simp add: pseq_def guard_def pbind_def ret_def)
  then show ?thesis using assms(2) True by simp
next
  case False
  then have "pseq (guard b f) k = fails f" by (auto simp: pseq_def guard_def pbind_def fails_def)
  then show ?thesis using assms(1) False by (simp add: triple_fails)
qed

lemma triple_ofThrown:
  assumes "\<And>x. r = Inr x \<Longrightarrow> triple P (f x) Q F"
  shows "triple P (pbind (ofThrown r) f) Q F"
  using assms by (cases r) (auto simp: triple_def ofThrown_def pbind_def throws_def ret_def)

lemma triple_ofFailure:
  assumes "\<And>g db. r = Inl g \<Longrightarrow> P db \<Longrightarrow> F g db" "\<And>x. r = Inr x \<Longrightarrow> triple P (f x) Q F"
  shows "triple P (pbind (ofFailure r) f) Q F"
  using assms by (cases r) (auto simp: triple_def ofFailure_def pbind_def fails_def ret_def)

lemma triple_shifted:
  assumes "\<And>t. shiftTimestamp now n = Some t \<Longrightarrow> triple P (f t) Q F"
  shows "triple P (pbind (shifted now n) f) Q F"
  using assms by (cases "shiftTimestamp now n") (auto simp: triple_def shifted_def pbind_def throws_def ret_def)

lemma triple_inEnv: "triple P (inEnv f) (\<lambda>_. P) F"
  by (simp add: triple_def inEnv_def split: prod.split)

lemma triple_stage: "triple P (stage sv name) (\<lambda>_. P) F"
  by (auto simp: triple_def stage_def split: prod.split option.split)

lemma triple_onTables: "triple P (onTables f) (\<lambda>_ db'. \<exists>db. P db \<and> f db = Inr db') F"
  by (auto simp: triple_def onTables_def split: prod.split sum.split)

lemma triple_onTablesI: "(\<And>db db'. P db \<Longrightarrow> f db = Inr db' \<Longrightarrow> Q () db') \<Longrightarrow> triple P (onTables f) Q F"
  by (auto simp: triple_def onTables_def split: sum.splits)

lemma triple_read: "triple P (readTx sv) (\<lambda>state db. P db \<and> readState sv db = Inr state) F"
  by (auto simp: triple_def readTx_def ofThrown_def throws_def ret_def split: sum.split prod.split)

lemma triple_readTx:
  assumes "\<And>state. triple (\<lambda>db. P db \<and> readState sv db = Inr state) (f state) Q F"
  shows "triple P (pbind (readTx sv) f) Q F"
  by (rule triple_bind [OF triple_read assms])

lemma triple_readAt:
  assumes "\<And>state. readState sv db0 = Inr state \<Longrightarrow> triple (\<lambda>db. db = db0) (f state) Q F"
  shows "triple (\<lambda>db. db = db0) (pbind (readTx sv) f) Q F"
proof (rule triple_readTx)
  fix state
  show "triple (\<lambda>db. db = db0 \<and> readState sv db = Inr state) (f state) Q F"
    by (rule triple_weaken [where P' = "\<lambda>db. db = db0 \<and> readState sv db0 = Inr state"], rule triple_assume, rule assms) auto
qed

text \<open>A program that only reads: it returns or fails on the tables that it was started on.\<close>

definition readOnly :: "('e, 'f, 'a) program \<Rightarrow> bool" where
  "readOnly m \<longleftrightarrow> (\<forall>db e. fst (snd (m (db, e))) = db)"

lemma readOnly_triple:
  assumes "readOnly m" "\<And>f db. P db \<Longrightarrow> F f db"
  shows "triple P m (\<lambda>_. P) F"
proof (rule tripleI)
  fix db e out db' e'
  assume "P db" "m (db, e) = (out, (db', e'))"
  moreover from this have "db' = db" using assms(1) by (metis fst_conv readOnly_def snd_conv)
  ultimately show "case out of Returns x \<Rightarrow> P db' | Fails f \<Rightarrow> F f db' | Throws t \<Rightarrow> True"
    using assms(2) by (cases out) auto
qed

named_theorems read_only

lemma readOnly_basic [read_only]:
  "readOnly (ret x)" "readOnly (fails f)" "readOnly (throws t)" "readOnly (inEnv g)" "readOnly (stage sv name)"
  "readOnly (readTx sv)" "readOnly (readApplicationStateForOwner sv)" "readOnly (ofThrown r)" "readOnly (ofFailure s)"
  "readOnly (guard b f)" "readOnly (shifted now n)"
  by (auto simp: readOnly_def ret_def fails_def throws_def inEnv_def stage_def readTx_def readApplicationStateForOwner_def
      ofThrown_def ofFailure_def guard_def shifted_def split: prod.split option.split sum.split)

lemma readOnly_bind [read_only]:
  assumes "readOnly m" "\<And>x. readOnly (f x)"
  shows "readOnly (pbind m f)"
  unfolding readOnly_def
proof (intro allI)
  fix db e
  obtain out db1 e1 where m: "m (db, e) = (out, (db1, e1))" by (metis prod.exhaust)
  then have "db1 = db" using assms(1) by (metis fst_conv readOnly_def snd_conv)
  then show "fst (snd (pbind m f (db, e))) = db"
    using m assms(2) by (auto simp: pbind_def readOnly_def split: outcome.split)
qed

lemma readOnly_seq [read_only]: "readOnly m \<Longrightarrow> readOnly k \<Longrightarrow> readOnly (pseq m k)"
  by (simp add: pseq_def readOnly_bind)

lemma readOnly_if [read_only]: "readOnly m \<Longrightarrow> readOnly k \<Longrightarrow> readOnly (if b then m else k)"
  by simp

lemma readOnly_shared [read_only]:
  "readOnly (refreshed sv identity message)" "readOnly (runtimeRootNow sv identity)"
  "readOnly (projectRootNow sv receipt identity)" "readOnly (nextIdentity sv kind identity message)"
  by (auto simp: refreshed_def runtimeRootNow_def projectRootNow_def nextIdentity_def intro!: read_only split: option.split)

lemma readOnly_grantIdentities [read_only]:
  "readOnly (grantIdentities sv identity a b c actions acc)"
  by (induction actions arbitrary: acc) (auto intro!: read_only)

lemma readOnly_epochs [read_only]:
  "readOnly (epochIdentities sv identity a b actions)" "readOnly (confirmedWindow sv identity a t m1 m2 m3)"
  by (auto simp: epochIdentities_def confirmedWindow_def intro!: read_only)

lemma readOnly_affected [read_only]: "readOnly (affectedPreflights sv identity state p r projectIds)"
  by (induction projectIds) (auto intro!: read_only split: option.split)

lemma readOnly_preflight_parts [read_only]:
  "readOnly (confirmedFor sv command identity a)" "readOnly (operationTimeFor sv command identity)"
  "readOnly (identityWhen needed sv kind identity m1 m2)" "readOnly (cancelProjects nfc command state b)"
  "readOnly (registrationRoot sv command identity)" "readOnly (projectRootOf sv project identity)"
  by (auto simp: confirmedFor_def operationTimeFor_def identityWhen_def cancelProjects_def projectRootOf_def
      intro!: read_only split: option.split sum.split)
    (cases command; auto intro!: read_only split: sum.split)

theorem readOnly_preflight [read_only]: "readOnly (preflight sv command identity)"
  by (auto simp: preflight_def Let_def intro!: read_only split: option.split)

section \<open>Transactions\<close>

text \<open>
  A transaction that throws leaves the tables as they were; one that fails or returns has run
  the callback to its end, and the state reads back.
\<close>

theorem transaction_cases:
  assumes "withApplicationTransaction sv callback (db, e) = (out, (db', e'))"
  shows "(\<exists>t. out = Throws t) \<and> db' = db \<or>
    (\<nexists>t. out = Throws t) \<and> callback (db, e) = (out, (db', e')) \<and> (\<exists>state. readState sv db' = Inr state)"
  using assms
  by (auto simp: withApplicationTransaction_def runWriteTransaction_def checkedCallback_def
      split: option.splits prod.splits outcome.splits sum.splits)

end
