(* ===== verification/Application_Evidence.thy ===== *)
theory Application_Evidence
  imports Application_Logic
begin

text \<open>
  Every execution of a command is accounted for: a transaction that returns has appended one
  request, one allowing decision and one audit event; a transaction that fails has changed
  nothing or appended the three records of a denial.
\<close>

section \<open>Insertions\<close>

lemma insertRow_Inr: "insertRow keys row rows = Inr rows' \<longleftrightarrow> rows' = rows @ [row] \<and> \<not> list_ex (\<lambda>key. key row \<in> key ` set rows) keys"
  by (auto simp: insertRow_def sqliteError_def)

lemma triple_insertRequest:
  "triple P (insertRequest r) (\<lambda>_ db'. \<exists>db. P db \<and> rr_requestId r \<notin> rr_requestId ` set (db_requests db) \<and>
     db' = db\<lparr>db_requests := db_requests db @ [r\<lparr>rr_targetId := toWellFormed (rr_targetId r)\<rparr>]\<rparr>) F"
  unfolding insertRequest_def
  by (rule triple_onTablesI) (auto simp: sqliteError_def ebind_eq_Inr insertRow_Inr split: if_splits)

lemma triple_insertDecision:
  "triple P (insertDecision r) (\<lambda>_ db'. \<exists>db. P db \<and> dr_decisionId r \<notin> dr_decisionId ` set (db_decisions db) \<and>
     dr_requestId r \<notin> dr_requestId ` set (db_decisions db) \<and> db' = db\<lparr>db_decisions := db_decisions db @ [r]\<rparr>) F"
  unfolding insertDecision_def
  by (rule triple_onTablesI) (auto simp: ebind_eq_Inr insertRow_Inr)

lemma triple_insertAudit:
  "triple P (insertAudit r) (\<lambda>_ db'. \<exists>db. P db \<and> ar_auditId r \<notin> ar_auditId ` set (db_audit db) \<and>
     ar_requestId r \<notin> ar_requestId ` set (db_audit db) \<and> db' = db\<lparr>db_audit := db_audit db @ [r\<lparr>ar_targetId := toWellFormed (ar_targetId r)\<rparr>]\<rparr>) F"
  unfolding insertAudit_def
  by (rule triple_onTablesI) (auto simp: sqliteError_def ebind_eq_Inr insertRow_Inr split: if_splits)

section \<open>The records of an operation\<close>

text \<open>The tables with the three records of an operation appended, and everything else as \<open>f\<close> leaves it.\<close>

definition withRecords ::
  "operation_identity \<Rightarrow> string \<Rightarrow> bound_target \<Rightarrow> request_result \<Rightarrow> authorization_evaluation \<Rightarrow> string \<Rightarrow> bool \<Rightarrow> string \<Rightarrow>
    database \<Rightarrow> database" where
  "withRecords identity action target result evaluated eventKind accepted reason db =
     db\<lparr>db_requests := db_requests db @
          [(requestRecord identity action target result)\<lparr>rr_targetId := toWellFormed (bt_id target)\<rparr>],
        db_decisions := db_decisions db @ [decisionRecord identity action target evaluated],
        db_audit := db_audit db @ [(auditRecord identity target eventKind accepted reason (Some (oi_decisionId identity)))
          \<lparr>ar_targetId := toWellFormed (bt_id target)\<rparr>]\<rparr>"

abbreviation deniedRecords ::
  "operation_identity \<Rightarrow> string \<Rightarrow> bound_target \<Rightarrow> authorization_evaluation \<Rightarrow> database \<Rightarrow> database" where
  "deniedRecords identity action target evaluated \<equiv>
     withRecords identity action target RequestDeny evaluated ''authorization.denied'' False (reasonName (ae_reason evaluated))"

text \<open>The identities of the operation name no record yet.\<close>

definition freshRequest :: "operation_identity \<Rightarrow> database \<Rightarrow> bool" where
  "freshRequest identity db \<longleftrightarrow>
     oi_requestId identity \<notin> rr_requestId ` set (db_requests db) \<and> oi_auditId identity \<notin> ar_auditId ` set (db_audit db) \<and>
     oi_requestId identity \<notin> ar_requestId ` set (db_audit db)"

definition freshRecords :: "operation_identity \<Rightarrow> database \<Rightarrow> bool" where
  "freshRecords identity db \<longleftrightarrow> freshRequest identity db \<and>
     oi_decisionId identity \<notin> dr_decisionId ` set (db_decisions db) \<and> oi_requestId identity \<notin> dr_requestId ` set (db_decisions db)"

lemma triple_recordDenied:
  "triple (\<lambda>db. db = db0) (recordDenied sv identity action target evaluated)
     (\<lambda>f db. freshRecords identity db0 \<and> db = deniedRecords identity action target evaluated db0) F"
  unfolding recordDenied_def
  by (rule triple_seq, rule triple_insertRequest triple_insertDecision triple_insertAudit triple_stage)+
    (rule triple_ret, auto simp: withRecords_def requestRecord_def decisionRecord_def auditRecord_def freshRecords_def freshRequest_def)

text \<open>The outcome of a failed transaction: nothing, or the records of a denial.\<close>

definition refused :: "operation_identity \<Rightarrow> string \<Rightarrow> database \<Rightarrow> database \<Rightarrow> bool" where
  "refused identity action db db' \<longleftrightarrow> db' = db \<or> freshRecords identity db \<and>
     (\<exists>target evaluated. \<not> ae_allowed evaluated \<and> db' = deniedRecords identity action target evaluated db)"

lemma refused_refl [simp]: "refused identity action db db"
  by (simp add: refused_def)

lemma triple_deny:
  assumes "\<not> ae_allowed evaluated" "\<And>f db. refused identity action db0 db \<Longrightarrow> F f db"
  shows "triple (\<lambda>db. db = db0) (deny sv identity action target evaluated) Q F"
  unfolding deny_def
  by (rule triple_bind [OF triple_recordDenied triple_fails]) (use assms in \<open>auto simp: refused_def\<close>)

section \<open>Up to the first write\<close>

lemma staleEvaluation_denied [simp]: "\<not> ae_allowed (staleEvaluation policy)"
  by (simp add: staleEvaluation_def)

abbreviation refusal :: "operation_identity \<Rightarrow> string \<Rightarrow> database \<Rightarrow> application_failure \<Rightarrow> database \<Rightarrow> bool" where
  "refusal identity action db0 \<equiv> (\<lambda>f db. refused identity action db0 db)"

lemma triple_atCurrentProject:
  "triple (\<lambda>db. db = db0) (atCurrentProject sv identity action state p r c policy target)
     (\<lambda>t db. db = db0 \<and> (\<exists>project. t = atProject target project \<and> registryProjectById state p = Some project \<and>
        rp_resourceRevision project = r \<and> (\<forall>k. c = Some k \<longrightarrow> rp_configRevision project = k)))
     (refusal identity action db0)"
  unfolding atCurrentProject_def
  by (auto simp: ensureCurrentProject_def intro!: triple_deny triple_ret split: option.split)

text \<open>The revisions of the Project and of the grant that a command expects.\<close>

fun expectedProject :: "application_command \<Rightarrow> (jsstr \<times> int \<times> int option) option" where
  "expectedProject (ProjectUpdate p r c) = Some (p, r, Some c)"
| "expectedProject (ProjectDisable p r c) = Some (p, r, Some c)"
| "expectedProject (ProjectInspect p r) = Some (p, r, None)"
| "expectedProject (PolicyEvaluate p r c _) = Some (p, r, Some c)"
| "expectedProject (TaskCreate p r _ _ _) = Some (p, r, None)"
| "expectedProject (TaskUpdate p r _ _ _) = Some (p, r, None)"
| "expectedProject (TaskMarkReady p r _ _) = Some (p, r, None)"
| "expectedProject (TaskCancel p r _ _ _) = Some (p, r, None)"
| "expectedProject (TaskInspect p r _ _) = Some (p, r, None)"
| "expectedProject (DependencyAdd p r _ _ _ _) = Some (p, r, None)"
| "expectedProject (DependencyRemove p r _ _ _ _) = Some (p, r, None)"
| "expectedProject _ = None"

fun expectedGrant :: "application_command \<Rightarrow> (jsstr \<times> int) option" where
  "expectedGrant (GrantInspect i n) = Some (i, n)"
| "expectedGrant (GrantRevoke i n) = Some (i, n)"
| "expectedGrant _ = None"

definition revisionsCurrent :: "application_state \<Rightarrow> application_command \<Rightarrow> bool" where
  "revisionsCurrent state command \<longleftrightarrow>
     (\<forall>p r c. expectedProject command = Some (p, r, c) \<longrightarrow>
        (\<exists>project. registryProjectById state p = Some project \<and> rp_resourceRevision project = r \<and>
           (\<forall>k. c = Some k \<longrightarrow> rp_configRevision project = k))) \<and>
     (\<forall>i n. expectedGrant command = Some (i, n) \<longrightarrow> (\<exists>g. grantById state i = Some g \<and> g_revision g = n))"

lemma targetForCommand_project:
  assumes "targetForCommand command state = Inr target"
  shows "expectedProject command = Some (p, r, c) \<Longrightarrow> bt_project target = registryProjectById state p"
  using assms by (cases command) (auto simp: projectTarget_def boundTarget_def split: option.splits)

lemma atProject_same: "bt_project target = Some project \<Longrightarrow> atProject target project = target"
  by (simp add: atProject_def)

text \<open>The target stays the one that the command names; the revisions it expects are current.\<close>

lemma triple_currentTarget:
  assumes found: "targetForCommand command state = Inr target"
  shows "triple (\<lambda>db. db = db0) (currentTarget sv identity state target command)
     (\<lambda>t db. db = db0 \<and> t = target \<and> revisionsCurrent state command) (refusal identity (commandKind command) db0)"
proof -
  have at: "triple (\<lambda>db. db = db0) (atCurrentProject sv identity (commandKind command) state p r c policy target)
     (\<lambda>t db. db = db0 \<and> t = target \<and> revisionsCurrent state command) (refusal identity (commandKind command) db0)"
    if "expectedProject command = Some (p, r, c)" "expectedGrant command = None" for p r c policy
    by (rule triple_weaken [OF triple_atCurrentProject])
      (use that targetForCommand_project [OF found that(1)] in \<open>auto simp: revisionsCurrent_def atProject_same\<close>)
  have grant: "triple (\<lambda>db. db = db0) (grantRevisionChecked sv identity (commandKind command) state i n target)
     (\<lambda>t db. db = db0 \<and> t = target \<and> revisionsCurrent state command) (refusal identity (commandKind command) db0)"
    if "expectedProject command = None" "expectedGrant command = Some (i, n)" for i n
    using that unfolding grantRevisionChecked_def
    by (auto simp: revisionsCurrent_def intro!: triple_if triple_deny triple_ret triple_fails split: option.split)
  have "bt_project target = Some project"
    if "command = GrantIssue a b scope d e" "as_kind scope = ProjectScope" "as_projectId scope = Some p"
      "registryProjectById state p = Some project" for a b scope d e p project
    using found that by (auto simp: boundTarget_def scopeProject_def)
  with at grant show ?thesis
    by (cases command)
      (auto simp: atDomainProject_def revisionsCurrent_def atProject_same intro!: triple_deny triple_ret split: option.split)
qed

lemma triple_checkAffected:
  "triple (\<lambda>db. db = db0) (checkAffected sv pf state target evaluated projectIds) (\<lambda>_ db. db = db0)
     (refusal (pf_identity pf) ''task.cancel'' db0)"
  by (induction projectIds)
    (auto intro!: triple_ret triple_fails triple_deny split: option.split)

text \<open>
  The evaluation under which a command is committed: that of its authorization, and for a
  cancellation that reaches other Projects one by a grant on the whole runtime.
\<close>

definition finalEvaluation ::
  "preflight_facts \<Rightarrow> application_state \<Rightarrow> bound_target \<Rightarrow> authorization_evaluation \<Rightarrow> application_command \<Rightarrow>
    domain_mutation option \<Rightarrow> authorization_evaluation \<Rightarrow> bool" where
  "finalEvaluation pf state target evaluated command m final \<longleftrightarrow> ae_allowed final \<and>
     (final = evaluated \<or> final = authorize (pf_identity pf) ''task.cancel'' target state (pf_confirmed pf) (Some RuntimeScope)) \<and>
     (\<forall>p r i n reason x. command = TaskCancel p r i n reason \<and> m = Some x \<longrightarrow>
        (\<exists>ids. affectedProjectIds x = Inr ids \<and> (ids = [p] \<or>
           final = authorize (pf_identity pf) ''task.cancel'' target state (pf_confirmed pf) (Some RuntimeScope))))"

lemma triple_cancelEvaluation_Some:
  assumes "ae_allowed evaluated"
  shows "triple (\<lambda>db. db = db0) (cancelEvaluation sv pf state target evaluated (TaskCancel p r i n reason) (Some m))
     (\<lambda>ev db. db = db0 \<and> finalEvaluation pf state target evaluated (TaskCancel p r i n reason) (Some m) ev)
     (refusal (pf_identity pf) ''task.cancel'' db0)"
  unfolding cancelEvaluation.simps Let_def
proof (rule triple_ofThrown, rule triple_if)
  let ?Q = "\<lambda>ev db. db = db0 \<and> finalEvaluation pf state target evaluated (TaskCancel p r i n reason) (Some m) ev"
  show "triple (\<lambda>db. db = db0) (deny sv (pf_identity pf) ''task.cancel'' target (staleEvaluation (ae_policy evaluated)))
    ?Q (refusal (pf_identity pf) ''task.cancel'' db0)"
    by (rule triple_deny) simp_all
  let ?runtime = "authorize (pf_identity pf) ''task.cancel'' target state (pf_confirmed pf) (Some RuntimeScope)"
  fix x
  assume x: "affectedProjectIds m = Inr x"
  show "triple (\<lambda>db. db = db0) (pseq (checkAffected sv pf state target evaluated x)
      (if x \<noteq> [p] then
         if \<not> ae_allowed ?runtime
         then deny sv (pf_identity pf) ''task.cancel'' target
           (if ae_reason ?runtime \<in> {ActorMismatch, ActionMismatch, GrantMissing, ScopeMismatch}
            then evaluated\<lparr>ae_allowed := False, ae_reason := ScopeMismatch\<rparr> else ?runtime)
         else ret ?runtime
       else ret evaluated)) ?Q (refusal (pf_identity pf) ''task.cancel'' db0)"
    by (rule triple_seq [OF triple_checkAffected], intro triple_if triple_deny triple_ret)
      (use assms x in \<open>auto simp: finalEvaluation_def\<close>)
qed

lemma triple_cancelEvaluation:
  assumes "ae_allowed evaluated"
  shows "triple (\<lambda>db. db = db0) (cancelEvaluation sv pf state target evaluated command m)
     (\<lambda>ev db. db = db0 \<and> finalEvaluation pf state target evaluated command m ev)
     (refusal (pf_identity pf) (commandKind command) db0)"
  using triple_cancelEvaluation_Some [OF assms] assms
  by (cases command; cases m) (simp_all del: cancelEvaluation.simps(1) add: triple_ret finalEvaluation_def)

section \<open>The effect of a command\<close>

text \<open>
  What a command may do to the tables: the Domain tables are left alone or written from one
  mutation, grants change only under \<open>grant.issue\<close> and \<open>grant.revoke\<close>, the registry only under
  the commands on Projects, and no record of an earlier operation changes.
\<close>

definition revocable :: "jsstr \<Rightarrow> int \<Rightarrow> grant_row \<Rightarrow> bool" where
  "revocable i n row \<longleftrightarrow> g_grantId (gr_grant row) = i \<and> g_revision (gr_grant row) = n \<and> g_revokedAt (gr_grant row) = None"

definition sameRevisions :: "registered_project \<Rightarrow> registered_project \<Rightarrow> bool" where
  "sameRevisions current row \<longleftrightarrow> rp_projectId row = rp_projectId current \<and> rp_configRevision row = rp_configRevision current \<and>
     rp_resourceRevision row = rp_resourceRevision current"

fun grantEffect ::
  "preflight_facts \<Rightarrow> grant_issue_proof option \<Rightarrow> application_command \<Rightarrow> grant_row list \<Rightarrow> grant_row list \<Rightarrow> bool" where
  "grantEffect pf issue (GrantIssue a b c d e) rows rows' \<longleftrightarrow>
     (\<exists>i x. pf_issuedGrantId pf = Some i \<and> issue = Some x \<and> i \<notin> (\<lambda>row. g_grantId (gr_grant row)) ` set rows \<and>
        rows' = rows @ [issuedGrant (pf_identity pf) i x (GrantIssue a b c d e)])"
| "grantEffect pf issue (GrantRevoke i n) rows rows' \<longleftrightarrow>
     (\<exists>row\<in>set rows. revocable i n row) \<and>
     rows' = map (\<lambda>row. if revocable i n row
       then revokedGrant (oi_now (pf_identity pf)) (oi_requestId (pf_identity pf)) row else row) rows"
| "grantEffect pf issue command rows rows' \<longleftrightarrow> rows' = rows"

definition newRoot :: "registered_project \<Rightarrow> 'a project_root_identity_scheme \<Rightarrow> registered_project list \<Rightarrow> bool" where
  "newRoot current root rows \<longleftrightarrow> (\<exists>row\<in>set rows. sameRevisions current row) \<and>
     ri_rootKey root \<notin> ri_rootKey ` {row \<in> set rows. \<not> sameRevisions current row}"

text \<open>The row of the Project \<open>current\<close> gives way to \<open>project\<close>, created when \<open>current\<close> was.\<close>

definition replacedProject :: "registered_project \<Rightarrow> registered_project \<Rightarrow> registered_project list \<Rightarrow> registered_project list" where
  "replacedProject current project rows =
     map (\<lambda>row. if sameRevisions current row then project\<lparr>rp_createdAt := rp_createdAt row\<rparr> else row) rows"

fun projectEffect ::
  "preflight_facts \<Rightarrow> bound_target \<Rightarrow> application_command \<Rightarrow> registered_project list \<Rightarrow> registered_project list \<Rightarrow> bool" where
  "projectEffect pf target (ProjectRegister p root) rows rows' \<longleftrightarrow>
     (\<exists>found. pf_registration pf = Some found \<and> p \<notin> rp_projectId ` set rows \<and> ri_rootKey found \<notin> ri_rootKey ` set rows \<and>
        rows' = rows @ [newProject found p (oi_now (pf_identity pf))])"
| "projectEffect pf target (ProjectUpdate p r c) rows rows' \<longleftrightarrow>
     (\<exists>current root. bt_project target = Some current \<and> pf_project pf = Some root \<and> newRoot current root rows \<and>
        rows' = replacedProject current (nextProject root current (oi_now (pf_identity pf))) rows)"
| "projectEffect pf target (ProjectDisable p r c) rows rows' \<longleftrightarrow>
     (\<exists>current. bt_project target = Some current \<and> newRoot current current rows \<and>
        rows' = replacedProject current (nextProject current current (oi_now (pf_identity pf))) rows)"
| "projectEffect pf target command rows rows' \<longleftrightarrow> rows' = rows"

definition domainEffect ::
  "(jsstr \<Rightarrow> jsstr) \<Rightarrow> application_state \<Rightarrow> project_domain_mutation option \<Rightarrow> domain_mutation option \<Rightarrow> application_command \<Rightarrow>
    domain_tables \<Rightarrow> domain_tables \<Rightarrow> bool" where
  "domainEffect nfc state pm m command tb tb' \<longleftrightarrow>
     tb' = tb \<or>
     (\<exists>x. m = Some x \<and> writeDomainMutationUntransactional nfc tb (st_domain state) x = Inr tb') \<or>
     (\<exists>x. (pm = Some x \<or> (\<exists>p root. command = ProjectRegister p root \<and> projectRegistrationMutation nfc state p = Inr (Some x))) \<and>
        writeProjectMutationUntransactional nfc tb (st_domain state) x = Inr tb')"

definition effect ::
  "'e service \<Rightarrow> preflight_facts \<Rightarrow> bound_target \<Rightarrow> grant_issue_proof option \<Rightarrow> application_state \<Rightarrow>
    project_domain_mutation option \<Rightarrow> domain_mutation option \<Rightarrow> application_command \<Rightarrow> database \<Rightarrow> database \<Rightarrow> bool" where
  "effect sv pf target issue state pm m command db db' \<longleftrightarrow>
     (\<exists>domain projects grants. db' = db\<lparr>db_domain := domain, db_projects := projects, db_grants := grants\<rparr> \<and>
        domainEffect (sv_nfc sv) state pm m command (db_domain db) domain \<and>
        projectEffect pf target command (db_projects db) projects \<and> grantEffect pf issue command (db_grants db) grants)"

lemma effectI:
  assumes "domainEffect (sv_nfc sv) state pm m command (db_domain db) (db_domain db')"
    "projectEffect pf target command (db_projects db) (db_projects db')"
    "grantEffect pf issue command (db_grants db) (db_grants db')"
    "db' = db\<lparr>db_domain := db_domain db', db_projects := db_projects db', db_grants := db_grants db'\<rparr>"
  shows "effect sv pf target issue state pm m command db db'"
  unfolding effect_def using assms by blast

lemma triple_projectDomainWritten:
  assumes "\<And>x. px = Some x \<Longrightarrow> pm = Some x \<or> (\<exists>p root. command = ProjectRegister p root \<and>
    projectRegistrationMutation (sv_nfc sv) state p = Inr (Some x))"
  shows "triple (\<lambda>db. db = db0) (projectDomainWritten sv state px)
    (\<lambda>_ db. \<exists>tb. db = db0\<lparr>db_domain := tb\<rparr> \<and> domainEffect (sv_nfc sv) state pm m command (db_domain db0) tb) F"
proof (cases px)
  case None
  then show ?thesis by (auto simp: projectDomainWritten_def domainEffect_def intro!: triple_ret exI [of _ "db_domain db0"])
next
  case (Some x)
  have "triple (\<lambda>db. db = db0) (writeProjectDomain sv (st_domain state) x)
    (\<lambda>_ db. \<exists>tb. db = db0\<lparr>db_domain := tb\<rparr> \<and> domainEffect (sv_nfc sv) state pm m command (db_domain db0) tb) F"
    unfolding writeProjectDomain_def
  proof (rule triple_onTablesI)
    fix db db'
    assume "db = db0" "ebind (writeProjectMutationUntransactional (sv_nfc sv) (db_domain db) (st_domain state) x)
        (\<lambda>tables. Inr (db\<lparr>db_domain := tables\<rparr>)) = Inr db'"
    then obtain tb where "writeProjectMutationUntransactional (sv_nfc sv) (db_domain db0) (st_domain state) x = Inr tb"
      "db' = db0\<lparr>db_domain := tb\<rparr>" by (auto simp: ebind_eq_Inr)
    then show "\<exists>tb. db' = db0\<lparr>db_domain := tb\<rparr> \<and> domainEffect (sv_nfc sv) state pm m command (db_domain db0) tb"
      using assms [OF Some] unfolding domainEffect_def by blast
  qed
  then show ?thesis unfolding projectDomainWritten_def Some option.case by (rule triple_seq [OF _ triple_stage])
qed

lemma triple_domainWritten:
  "triple (\<lambda>db. db = db0) (domainWritten sv state m)
    (\<lambda>_ db. \<exists>tb. db = db0\<lparr>db_domain := tb\<rparr> \<and> domainEffect (sv_nfc sv) state pm m command (db_domain db0) tb) F"
proof (cases m)
  case None
  then show ?thesis by (auto simp: domainWritten_def domainEffect_def intro!: triple_ret exI [of _ "db_domain db0"])
next
  case (Some x)
  have "triple (\<lambda>db. db = db0) (writeDomain sv (st_domain state) x)
    (\<lambda>_ db. \<exists>tb. db = db0\<lparr>db_domain := tb\<rparr> \<and> domainEffect (sv_nfc sv) state pm m command (db_domain db0) tb) F"
    unfolding writeDomain_def by (intro triple_onTablesI) (auto simp: ebind_eq_Inr domainEffect_def Some)
  then show ?thesis unfolding domainWritten_def Some option.case by (rule triple_seq [OF _ triple_stage])
qed

lemma length_one_ex: "length (filter Q xs) = Suc 0 \<Longrightarrow> \<exists>x\<in>set xs. Q x"
  by (induction xs) (auto split: if_splits)

lemma triple_updateProject:
  assumes "rp_projectId project = rp_projectId current"
  shows "triple P (updateProject project (rp_configRevision current) (rp_resourceRevision current))
    (\<lambda>_ db'. \<exists>db. P db \<and> newRoot current project (db_projects db) \<and>
       db' = db\<lparr>db_projects := replacedProject current project (db_projects db)\<rparr>) F"
  unfolding updateProject_def
  by (intro triple_onTablesI)
    (auto simp: Let_def assms sqliteError_def persistenceFailure_def sameRevisions_def replacedProject_def
      newRoot_def list_ex_iff dest!: length_one_ex split: if_splits)

lemma triple_insertProject:
  "triple P (insertProject project) (\<lambda>_ db'. \<exists>db. P db \<and> rp_projectId project \<notin> rp_projectId ` set (db_projects db) \<and>
     ri_rootKey project \<notin> ri_rootKey ` set (db_projects db) \<and> db' = db\<lparr>db_projects := db_projects db @ [project]\<rparr>) F"
  unfolding insertProject_def by (intro triple_onTablesI) (auto simp: ebind_eq_Inr insertRow_Inr)

abbreviation grantIdOf :: "grant_row \<Rightarrow> jsstr" where
  "grantIdOf row \<equiv> g_grantId (gr_grant row)"

lemma triple_insertGrant:
  "triple P (insertGrant row) (\<lambda>_ db'. \<exists>db. P db \<and>
     g_grantId (gr_grant row) \<notin> (\<lambda>row. g_grantId (gr_grant row)) ` set (db_grants db) \<and>
     db' = db\<lparr>db_grants := db_grants db @ [row]\<rparr>) F"
  unfolding insertGrant_def
  by (rule triple_onTablesI) (auto simp: sqliteError_def ebind_eq_Inr insertRow_Inr split: if_splits)

lemma triple_revokeGrant:
  "triple P (revokeGrant i n now q) (\<lambda>_ db'. \<exists>db. P db \<and> (\<exists>row\<in>set (db_grants db). revocable i n row) \<and>
     db' = db\<lparr>db_grants := map (\<lambda>row. if revocable i n row then revokedGrant now q row else row) (db_grants db)\<rparr>) F"
  unfolding revokeGrant_def
  by (intro triple_onTablesI)
    (auto simp: Let_def persistenceFailure_def revocable_def dest!: length_one_ex split: if_splits)

lemma domainEffect_refl [simp]: "domainEffect nfc state pm m command tb tb"
  by (simp add: domainEffect_def)

lemma triple_domainOnly:
  assumes "triple (\<lambda>db. db = db0) p
    (\<lambda>_ db. \<exists>tb. db = db0\<lparr>db_domain := tb\<rparr> \<and> domainEffect (sv_nfc sv) state pm m command (db_domain db0) tb) F"
    and "\<And>rows. projectEffect pf target command rows rows" "\<And>rows. grantEffect pf issue command rows rows"
  shows "triple (\<lambda>db. db = db0) p (\<lambda>_ db. effect sv pf target issue state pm m command db0 db) F"
  by (rule triple_weaken [OF assms(1)]) (auto intro!: effectI assms(2,3))

text \<open>A write of the Domain tables and then of the registry.\<close>

lemma triple_thenRegistry:
  assumes "\<And>x. px = Some x \<Longrightarrow> pm = Some x \<or> (\<exists>p root. command = ProjectRegister p root \<and>
      projectRegistrationMutation (sv_nfc sv) state p = Inr (Some x))"
    and "\<And>P. triple P k (\<lambda>_ db'. \<exists>db. P db \<and> G (db_projects db) \<and> db' = db\<lparr>db_projects := change (db_projects db)\<rparr>) F"
    and "\<And>rows. G rows \<Longrightarrow> projectEffect pf target command rows (change rows)"
    and "\<And>rows. grantEffect pf issue command rows rows"
  shows "triple (\<lambda>db. db = db0) (pseq (projectDomainWritten sv state px) (pseq k (stage sv name)))
    (\<lambda>_ db. effect sv pf target issue state pm m command db0 db) F"
  by (rule triple_seq [OF triple_projectDomainWritten [where pm = pm and m = m and command = command, OF assms(1)]], assumption,
      rule triple_seq [OF assms(2) triple_weaken [OF triple_stage]])
    (use assms(3,4) in \<open>auto intro!: effectI\<close>)

theorem triple_applyEffect:
  "triple (\<lambda>db. db = db0) (applyEffect sv pf state target issue pm m command)
     (\<lambda>_ db. effect sv pf target issue state pm m command db0 db) F"
proof (cases command)
  case (GrantIssue a b c d e)
  have "triple (\<lambda>db. db = db0) (pseq (insertGrant (issuedGrant (pf_identity pf) i x (GrantIssue a b c d e))) (stage sv ''grant''))
      (\<lambda>_ db. effect sv pf target issue state pm m command db0 db) F"
    if "pf_issuedGrantId pf = Some i" "issue = Some x" for i x
    by (rule triple_seq [OF triple_insertGrant triple_weaken [OF triple_stage]])
      (use that in \<open>auto intro!: effectI simp: GrantIssue issuedGrant_def\<close>)
  then show ?thesis unfolding GrantIssue applyEffect.simps by (auto intro!: triple_throws split: option.split)
next
  case (GrantRevoke i n)
  show ?thesis unfolding GrantRevoke applyEffect.simps
    by (rule triple_seq [OF triple_revokeGrant triple_weaken [OF triple_stage]]) (auto intro!: effectI)
next
  case (ProjectRegister p root)
  have "triple (\<lambda>db. db = db0) (pseq (projectDomainWritten sv state px)
      (pseq (insertProject (newProject found p (oi_now (pf_identity pf)))) (stage sv ''registry'')))
     (\<lambda>_ db. effect sv pf target issue state pm m command db0 db) F"
    if "projectRegistrationMutation (sv_nfc sv) state p = Inr px" "pf_registration pf = Some found" for px found
    by (rule triple_thenRegistry [where change = "\<lambda>rows. rows @ [newProject found p (oi_now (pf_identity pf))]"
          and G = "\<lambda>rows. p \<notin> rp_projectId ` set rows \<and> ri_rootKey found \<notin> ri_rootKey ` set rows"],
        use that ProjectRegister in simp, rule triple_weaken [OF triple_insertProject])
      (use that in \<open>auto simp: ProjectRegister newProject_def\<close>)
  then show ?thesis unfolding ProjectRegister applyEffect.simps
    by (cases "pf_registration pf") (auto intro!: triple_throws triple_ofThrown)
next
  case (ProjectUpdate p r c)
  have "triple (\<lambda>db. db = db0) (pseq (projectDomainWritten sv state pm)
      (registryUpdated sv (nextProject root current (oi_now (pf_identity pf))) current))
     (\<lambda>_ db. effect sv pf target issue state pm m command db0 db) F"
    if "bt_project target = Some current" "pf_project pf = Some root" for root current
    unfolding registryUpdated_def
    by (rule triple_thenRegistry [OF _ triple_updateProject]) (use that in \<open>auto simp: ProjectUpdate nextProject_def newRoot_def\<close>)
  then show ?thesis unfolding ProjectUpdate applyEffect.simps
    by (auto intro!: triple_throws split: option.split)
next
  case (ProjectDisable p r c)
  have "triple (\<lambda>db. db = db0) (pseq (projectDomainWritten sv state (Some x))
      (registryUpdated sv (nextProject current current (oi_now (pf_identity pf))) current))
     (\<lambda>_ db. effect sv pf target issue state pm m command db0 db) F" if "pm = Some x" "bt_project target = Some current" for current x
    unfolding registryUpdated_def
    by (rule triple_thenRegistry [OF _ triple_updateProject]) (use that in \<open>auto simp: ProjectDisable nextProject_def newRoot_def\<close>)
  then show ?thesis unfolding ProjectDisable applyEffect.simps
    by (auto intro!: triple_throws split: option.split)
qed (simp_all add: triple_domainOnly [OF triple_domainWritten])

end
