(* ===== verification/Application_Accounting.thy ===== *)
theory Application_Accounting
  imports Application_Evidence
begin

text \<open>
  What a transaction of \<open>execute\<close> has done when it returns: the command was authorized on the
  state that the transaction read, its effect is the one of the command, and the three records
  of the operation and, for a backup or a restore, one bounded lifecycle authorization were
  appended.
\<close>

section \<open>Lifecycle authorizations\<close>

definition lifecycleEffect ::
  "preflight_facts \<Rightarrow> application_command \<Rightarrow> authorization_evaluation \<Rightarrow> authorization_grant set \<Rightarrow> lifecycle_authorization list \<Rightarrow> bool" where
  "lifecycleEffect pf command evaluated grants ls \<longleftrightarrow>
     (case lifecycleGeneration command of
        None \<Rightarrow> ls = []
      | Some generation \<Rightarrow>
          (\<exists>l five. ls = [l] \<and> la_operation l = commandKind command \<and> la_backupGenerationId l = generation \<and>
             la_actorId l = ta_actorId (oi_actor (pf_identity pf)) \<and> la_requestId l = oi_requestId (pf_identity pf) \<and>
             la_decisionId l = oi_decisionId (pf_identity pf) \<and> la_auditId l = oi_auditId (pf_identity pf) \<and>
             ae_grantId evaluated = Some (la_grantId l) \<and> ae_grantRevision evaluated = Some (la_grantRevision l) \<and>
             la_issuedAt l = oi_now (pf_identity pf) \<and>
             shiftTimestamp (oi_now (pf_identity pf)) (5 * 60 * 1000) = Some five \<and> la_expiresAt l \<le> five \<and>
             (\<exists>g\<in>grants. g_grantId g = la_grantId l \<and> g_revision g = la_grantRevision l \<and> g_revokedAt g = None \<and>
                la_expiresAt l \<le> g_expiresAt g)))"

lemma triple_insertLifecycle:
  "triple P (insertLifecycleAuthorization l)
     (\<lambda>_ db'. \<exists>db. P db \<and> db' = db\<lparr>db_lifecycle := db_lifecycle db @ [l]\<rparr>) F"
  unfolding insertLifecycleAuthorization_def
  by (rule triple_onTablesI) (auto simp: sqliteError_def ebind_eq_Inr insertRow_Inr split: if_splits)

lemma grantById_id: "grantById state i = Some g \<Longrightarrow> g_grantId g = i"
  by (auto simp: grantById_def dest: find_eq_Some_D)

lemma triple_stateSha256: "triple P (stateSha256 sv) (\<lambda>_. P) F"
  unfolding stateSha256_def by (rule triple_readTx) (auto intro: triple_ret)

definition lifecyclePost ::
  "(database \<Rightarrow> bool) \<Rightarrow> preflight_facts \<Rightarrow> application_command \<Rightarrow> authorization_evaluation \<Rightarrow> unit \<Rightarrow> database \<Rightarrow> bool" where
  "lifecyclePost P pf command evaluated = (\<lambda>_ db'. \<exists>db ls. P db \<and> db' = db\<lparr>db_lifecycle := db_lifecycle db @ ls\<rparr> \<and>
     lifecycleEffect pf command evaluated (gr_grant ` set (db_grants db)) ls)"

lemma triple_lifecycleWritten:
  assumes "lifecycleGeneration command = Some generation" "ae_grantId evaluated = Some (g_grantId grant)"
    "ae_grantRevision evaluated = Some grantRevision" "\<And>db. P db \<Longrightarrow> grant \<in> gr_grant ` set (db_grants db)"
  shows "triple P (lifecycleWritten sv pf command generation authorizationId grantRevision state local grant)
    (lifecyclePost P pf command evaluated) F"
  unfolding lifecycleWritten_def
proof (intro triple_if triple_throws triple_shifted triple_bind [OF triple_stateSha256])
  fix five sha
  let ?l = "lifecycleRecord (pf_identity pf) (commandKind command) generation authorizationId state local grant sha five"
  assume "\<not> (li_actorId local \<noteq> ta_actorId (oi_actor (pf_identity pf)) \<or> g_revision grant \<noteq> grantRevision \<or>
      g_revokedAt grant \<noteq> None)" "shiftTimestamp (oi_now (pf_identity pf)) (5 * 60 * 1000) = Some five"
  then have l: "lifecycleEffect pf command evaluated (gr_grant ` set (db_grants db)) [?l]" if "P db" for db
    using assms(1-3) assms(4) [OF that] by (auto simp: lifecycleEffect_def lifecycleRecord_def intro!: bexI [of _ grant])
  show "triple P (pseq (insertLifecycleAuthorization ?l) (stage sv ''lifecycle'')) (lifecyclePost P pf command evaluated) F"
    by (intro triple_seq [OF triple_insertLifecycle triple_weaken [OF triple_stage]])
      (assumption, unfold lifecyclePost_def, use l in blast, assumption)
qed

lemma st_grants_set: "readState sv db = Inr state \<Longrightarrow> set (st_grants state) = gr_grant ` set (db_grants db)"
  by (auto simp: readState_def ebind_eq_Inr stateOf_def split: option.splits)

lemma triple_lifecycleAuthorized:
  "triple P (lifecycleAuthorized sv pf command evaluated) (lifecyclePost P pf command evaluated) F"
proof (cases "lifecycleGeneration command")
  case None
  then show ?thesis
    by (auto simp: lifecycleAuthorized_def lifecycleEffect_def lifecyclePost_def intro!: triple_ret exI [of _ "[]"])
next
  case (Some generation)
  have granted: "triple (\<lambda>db. P db \<and> readState sv db = Inr state)
      (lifecycleWritten sv pf command generation authorizationId r state local grant) (lifecyclePost P pf command evaluated) F"
    if "grantById state i = Some grant" "ae_grantId evaluated = Some i" "ae_grantRevision evaluated = Some r"
    for authorizationId state local grant i r
  proof (rule triple_weaken [OF triple_lifecycleWritten [OF Some, where P = "\<lambda>db. P db \<and> readState sv db = Inr state"]])
    show "ae_grantId evaluated = Some (g_grantId grant)" using that(2) grantById_id [OF that(1)] by simp
    have "grant \<in> set (st_grants state)" using that(1) by (auto simp: grantById_def dest: find_eq_Some_D)
    then show "grant \<in> gr_grant ` set (db_grants db)" if "P db \<and> readState sv db = Inr state" for db
      using st_grants_set that by blast
  qed (use that in \<open>auto simp: lifecyclePost_def\<close>)
  show ?thesis
    unfolding lifecycleAuthorized_def Some option.case
    by (cases "pf_lifecycleId pf"; cases "ae_grantId evaluated"; cases "ae_grantRevision evaluated")
      (auto intro!: triple_throws triple_readTx granted split: option.split)
qed

lemma triple_terminalResult: "triple P (terminalResult sv pf command) (\<lambda>_. P) F"
  unfolding terminalResult_def
  by (rule triple_readTx) (auto intro!: triple_throws triple_ret triple_ofThrown split: option.split)

section \<open>The committed command\<close>

lemma effect_requests:
  assumes "effect sv pf target issue state pm m command (db\<lparr>db_requests := rs\<rparr>) db'"
  shows "\<exists>db1. effect sv pf target issue state pm m command db db1 \<and> db' = db1\<lparr>db_requests := rs\<rparr> \<and> db_requests db1 = db_requests db \<and>
    db_decisions db1 = db_decisions db \<and> db_audit db1 = db_audit db"
proof -
  obtain domain projects grants where e: "db' = db\<lparr>db_requests := rs\<rparr>\<lparr>db_domain := domain, db_projects := projects, db_grants := grants\<rparr>"
    "domainEffect (sv_nfc sv) state pm m command (db_domain db) domain" "projectEffect pf target command (db_projects db) projects"
    "grantEffect pf issue command (db_grants db) grants"
    using assms unfolding effect_def by auto
  let ?db1 = "db\<lparr>db_domain := domain, db_projects := projects, db_grants := grants\<rparr>"
  have "effect sv pf target issue state pm m command db ?db1" unfolding effect_def using e(2-4) by blast
  then show ?thesis using e(1) by (intro exI [of _ ?db1]) simp
qed

text \<open>The tables after the transaction of an accepted command.\<close>

definition committed ::
  "'e service \<Rightarrow> preflight_facts \<Rightarrow> application_command \<Rightarrow> application_state \<Rightarrow> bound_target \<Rightarrow> authorization_evaluation \<Rightarrow>
    grant_issue_proof option \<Rightarrow> project_domain_mutation option \<Rightarrow> domain_mutation option \<Rightarrow> database \<Rightarrow> database \<Rightarrow> bool" where
  "committed sv pf command state target evaluated issue pm m db db' \<longleftrightarrow>
     (\<exists>db1 ls. freshRecords (pf_identity pf) db \<and> effect sv pf target issue state pm m command db db1 \<and> lifecycleEffect pf command evaluated (gr_grant ` set (db_grants db1)) ls \<and>
        db' = (withRecords (pf_identity pf) (commandKind command) target RequestAllow evaluated (auditKind command) True
          ''accepted'' db1)\<lparr>db_lifecycle := db_lifecycle db1 @ ls\<rparr>)"

theorem triple_commitCommand:
  "triple (\<lambda>db. db = db0) (commitCommand sv pf command state target evaluated issue pm m)
     (\<lambda>_ db. committed sv pf command state target evaluated issue pm m db0 db) F"
proof -
  let ?id = "pf_identity pf"
  let ?req = "(requestRecord ?id (commandKind command) target RequestAllow)\<lparr>rr_targetId := toWellFormed (bt_id target)\<rparr>"
  let ?start = "db0\<lparr>db_requests := db_requests db0 @ [?req]\<rparr>"
  let ?new = "oi_requestId ?id \<notin> rr_requestId ` set (db_requests db0)"
  have request: "triple (\<lambda>db. db = db0) (insertRequest (requestRecord ?id (commandKind command) target RequestAllow))
    (\<lambda>_ db. db = ?start \<and> ?new) F"
    by (rule triple_weaken [OF triple_insertRequest [of "\<lambda>db. db = db0"]]) (auto simp: requestRecord_def)
  let ?dec = "decisionRecord ?id (commandKind command) target evaluated"
  let ?aud = "auditRecord ?id target (auditKind command) True ''accepted'' (Some (oi_decisionId ?id))"
  have final: "committed sv pf command state target evaluated issue pm m db0 db'"
    if e: "effect sv pf target issue state pm m command ?start db2" and l: "lifecycleEffect pf command evaluated (gr_grant ` set (db_grants db4)) ls"
      and d: "dr_decisionId ?dec \<notin> dr_decisionId ` set (db_decisions db2)" "dr_requestId ?dec \<notin> dr_requestId ` set (db_decisions db2)"
        "db3 = db2\<lparr>db_decisions := db_decisions db2 @ [?dec]\<rparr>"
      and a: "ar_auditId ?aud \<notin> ar_auditId ` set (db_audit db3)" "ar_requestId ?aud \<notin> ar_requestId ` set (db_audit db3)"
        "db4 = db3\<lparr>db_audit := db_audit db3 @ [?aud\<lparr>ar_targetId := toWellFormed (ar_targetId ?aud)\<rparr>]\<rparr>"
      and db': "db' = db4\<lparr>db_lifecycle := db_lifecycle db4 @ ls\<rparr>" and ?new
    for db2 db3 db4 db' ls
  proof -
    obtain db1 where "effect sv pf target issue state pm m command db0 db1" "db2 = db1\<lparr>db_requests := db_requests db0 @ [?req]\<rparr>"
      and same: "db_requests db1 = db_requests db0" "db_decisions db1 = db_decisions db0" "db_audit db1 = db_audit db0"
      using effect_requests [OF e] by blast
    moreover from this have "freshRecords ?id db0"
      using d a \<open>?new\<close> by (simp add: freshRecords_def freshRequest_def decisionRecord_def auditRecord_def)
    ultimately show ?thesis
      using l d(3) a(3) db' unfolding committed_def
      by (intro exI [of _ db1] exI [of _ ls]) (simp add: withRecords_def auditRecord_def)
  qed
  have effect: "triple (\<lambda>db. db = ?start \<and> ?new) (applyEffect sv pf state target issue pm m command)
    (\<lambda>_ db. effect sv pf target issue state pm m command ?start db \<and> ?new) F"
    by (rule triple_assume, rule triple_weaken [OF triple_applyEffect]) auto
  show ?thesis
    unfolding commitCommand_def
    apply (rule triple_seq [OF request])
    apply (rule triple_seq [OF triple_stage])
    apply (rule triple_seq [OF effect])
    apply (rule triple_seq [OF triple_insertDecision])
    apply (rule triple_seq [OF triple_stage])
    apply (rule triple_seq [OF triple_insertAudit])
    apply (rule triple_seq [OF triple_stage])
    apply (rule triple_seq [OF triple_lifecycleAuthorized])
    apply (rule triple_weaken [OF triple_terminalResult])
      apply assumption
     apply (unfold lifecyclePost_def, blast intro: final)
    apply assumption
    done
qed

section \<open>The transaction\<close>

definition accepted :: "'e service \<Rightarrow> preflight_facts \<Rightarrow> application_command \<Rightarrow> database \<Rightarrow> database \<Rightarrow> bool" where
  "accepted sv pf command db db' \<longleftrightarrow>
     (\<exists>state boot target authorization finalTarget evaluated pm m.
        readState sv db = Inr state \<and> st_bootstrap state = Some boot \<and> sameRootIdentity boot (pf_runtime pf) \<and>
        targetForCommand command state = Inr target \<and> revisionsCurrent state command \<and>
        authorizeCommand (pf_identity pf) command target state (pf_confirmed pf) = Inr authorization \<and>
        ae_allowed (ca_evaluation authorization) \<and>
        domainMutation (sv_nfc sv) command state = Inr m \<and>
        finalEvaluation pf state target (ca_evaluation authorization) command m evaluated \<and>
        projectDomainMutation (sv_nfc sv) command state (pf_identity pf) = Inr pm \<and>
        finalTarget = target\<lparr>bt_id := bt_id finalTarget\<rparr> \<and> (isGrantIssue command \<or> finalTarget = target) \<and>
        committed sv pf command state finalTarget evaluated (ca_issuanceProof authorization) pm m db db')"

lemma identified_Inr [simp]: "identified identity r = Inr x \<longleftrightarrow> r = Inr x"
  by (auto simp: identified_def split: sum.splits)

lemma triple_issuedTarget:
  "triple P (issuedTarget pf command target)
     (\<lambda>t db. P db \<and> t = target\<lparr>bt_id := bt_id t\<rparr> \<and> (isGrantIssue command \<or> t = target)) F"
  unfolding issuedTarget_def by (auto intro!: triple_if triple_throws triple_ret split: option.split)

theorem triple_authorizedCommand:
  assumes ok: "readState sv db0 = Inr state" "st_bootstrap state = Some boot" "sameRootIdentity boot (pf_runtime pf)"
    "targetForCommand command state = Inr target" "revisionsCurrent state command"
    "authorizeCommand (pf_identity pf) command target state (pf_confirmed pf) = Inr authorization"
    "ae_allowed (ca_evaluation authorization)"
  shows "triple (\<lambda>db. db = db0) (authorizedCommand sv pf command state target authorization)
    (\<lambda>_ db. accepted sv pf command db0 db) (refusal (pf_identity pf) (commandKind command) db0)"
  unfolding authorizedCommand_def
proof (rule triple_ofFailure, simp, rule triple_bind [OF triple_cancelEvaluation [OF ok(7)]], rule triple_ofFailure, simp,
    rule triple_guard, simp, rule triple_bind [OF triple_issuedTarget])
  fix m evaluated pm finalTarget
  assume m: "identified (pf_identity pf) (domainMutation (sv_nfc sv) command state) = Inr m"
    and pm: "projectDomainMutation (sv_nfc sv) command state (pf_identity pf) = Inr pm"
  let ?final = "finalEvaluation pf state target (ca_evaluation authorization) command m evaluated"
  let ?target = "finalTarget = target\<lparr>bt_id := bt_id finalTarget\<rparr> \<and> (isGrantIssue command \<or> finalTarget = target)"
  have "triple (\<lambda>db. db = db0) (commitCommand sv pf command state finalTarget evaluated (ca_issuanceProof authorization) pm m)
    (\<lambda>_ db. accepted sv pf command db0 db) (refusal (pf_identity pf) (commandKind command) db0)" if ?final ?target
    by (rule triple_weaken [OF triple_commitCommand])
      (assumption, unfold accepted_def, use ok m pm that in \<open>auto simp del: ex_simps\<close>)
  then show "triple (\<lambda>db. (db = db0 \<and> ?final) \<and> ?target)
    (commitCommand sv pf command state finalTarget evaluated (ca_issuanceProof authorization) pm m)
    (\<lambda>_ db. accepted sv pf command db0 db) (refusal (pf_identity pf) (commandKind command) db0)"
    unfolding triple_def by blast
qed

lemma triple_decidedCommand:
  assumes "readState sv db0 = Inr state" "st_bootstrap state = Some boot" "sameRootIdentity boot (pf_runtime pf)"
    "targetForCommand command state = Inr target" "revisionsCurrent state command"
    "authorizeCommand (pf_identity pf) command target state (pf_confirmed pf) = Inr authorization"
  shows "triple (\<lambda>db. db = db0) (decidedCommand sv pf command state target authorization)
    (\<lambda>_ db. accepted sv pf command db0 db) (refusal (pf_identity pf) (commandKind command) db0)"
  unfolding decidedCommand_def
proof (rule triple_if)
  let ?ev = "ca_evaluation authorization"
  assume "\<not> ae_allowed ?ev"
  then have "refused (pf_identity pf) (commandKind command) db0
      (deniedRecords (pf_identity pf) (commandKind command) target ?ev db0)" if "freshRecords (pf_identity pf) db0"
    using that unfolding refused_def by blast
  then show "triple (\<lambda>db. db = db0)
    (pbind (recordDenied sv (pf_identity pf) (commandKind command) target ?ev) (\<lambda>denial.
      if isGrantIssue command \<and> ae_reason ?ev = ScopeMismatch
      then fails (failed ScopeExpansionDenied ''Requested grant exceeds the current issuance authority'' (Some (pf_identity pf)) [])
      else fails denial))
    (\<lambda>_ db. accepted sv pf command db0 db) (refusal (pf_identity pf) (commandKind command) db0)"
    by (intro triple_bind [OF triple_recordDenied] triple_if triple_fails) auto
qed (use triple_authorizedCommand [OF assms] in simp)

theorem triple_executeTransaction:
  "triple (\<lambda>db. db = db0) (executeTransaction sv pf command)
    (\<lambda>_ db. accepted sv pf command db0 db) (refusal (pf_identity pf) (commandKind command) db0)"
proof -
  let ?Q = "\<lambda>_ db. accepted sv pf command db0 db" and ?F = "refusal (pf_identity pf) (commandKind command) db0"
  have on: "triple (\<lambda>db. db = db0) (executeOn sv pf command state boot) ?Q ?F"
    if s: "readState sv db0 = Inr state" "st_bootstrap state = Some boot" for state boot
    unfolding executeOn_def
  proof (rule triple_guard, simp, rule triple_guard, simp, rule triple_guard, simp, rule triple_ofFailure, simp, rule triple_guard, simp)
    fix found
    assume root: "sameRootIdentity boot (pf_runtime pf)"
      and f: "identified (pf_identity pf) (targetForCommand command state) = Inr found"
    have f': "targetForCommand command state = Inr found" using f by simp
    have "triple (\<lambda>db. db = db0 \<and> target = found \<and> revisionsCurrent state command)
        (pbind (ofThrown (authorizeCommand (pf_identity pf) command target state (pf_confirmed pf)))
          (\<lambda>authorization. decidedCommand sv pf command state target authorization)) ?Q ?F" for target
      by (rule triple_ofThrown, rule triple_assume, rule triple_decidedCommand [OF s root]) (use f' in auto)
    then show "triple (\<lambda>db. db = db0) (pbind (currentTarget sv (pf_identity pf) state found command) (\<lambda>target.
        pbind (ofThrown (authorizeCommand (pf_identity pf) command target state (pf_confirmed pf)))
          (\<lambda>authorization. decidedCommand sv pf command state target authorization))) ?Q ?F"
      by (rule triple_bind [OF triple_currentTarget [OF f']])
  qed
  show ?thesis unfolding executeTransaction_def
    by (rule triple_readAt) (auto intro: on triple_fails split: option.split)
qed

end
