(* ===== verification/Repository_Facts.thy ===== *)
theory Repository_Facts
  imports Repository "HOL-Library.Multiset"
begin

text \<open>
  The tables of a snapshot read back as that snapshot, and the write of a Domain mutation
  takes the tables of the expected snapshot to the tables of the new one. Both hold for
  \<^emph>\<open>storable\<close> data: text without lone surrogates and identifiers that do not start with NUL,
  which is what SQLite stores unchanged and its \<open>CHECK\<close> constraints admit.
\<close>

section \<open>Storable data\<close>

definition storableId :: "jsstr \<Rightarrow> bool" where
  "storableId s \<longleftrightarrow> wellFormedText s \<and> s \<noteq> [] \<and> hd s \<noteq> 0"

definition storableWaiting :: "waiting_input \<Rightarrow> bool" where
  "storableWaiting w \<longleftrightarrow>
     wellFormedText (w_phase w) \<and> wellFormedText (w_requiredAction w) \<and> wellFormedText (w_lastErrorCode w) \<and>
     pred_option wellFormedText (w_lastErrorSummary w) \<and> pred_option wellFormedText (w_executionId w) \<and>
     pred_option wellFormedText (w_workspaceRevision w) \<and> pred_option wellFormedText (w_backendThreadId w)"

definition storableTask :: "task \<Rightarrow> bool" where
  "storableTask t \<longleftrightarrow>
     storableId (t_id t) \<and> storableId (t_projectId t) \<and> wellFormedText (t_body t) \<and>
     pred_option storableId (t_parentId t) \<and> pred_option storableId (t_supersedesTaskId t) \<and>
     (\<forall>d\<in>set (t_dependencyIds t). storableId d) \<and>
     pred_option (\<lambda>w. storableWaiting (wm_input w)) (t_waiting t) \<and>
     pred_option (\<lambda>c. wellFormedText (c_decisionId c)) (t_completion t) \<and>
     pred_option (\<lambda>x. wellFormedText (x_reason x) \<and> pred_option wellFormedText (x_verificationId x)) (t_cancellation t)"

definition storable :: "snapshot \<Rightarrow> bool" where
  "storable s \<longleftrightarrow> (\<forall>t\<in>set (s_tasks s). storableTask t) \<and> (\<forall>p\<in>set (s_projects s). storableId (p_id p))"

lemma toWellFormed_id: "wellFormedText s \<Longrightarrow> toWellFormed s = s"
  by (induction s rule: toWellFormed.induct) (auto split: if_splits)

lemma bindText_wf: "wellFormedText s \<Longrightarrow> bindText s = SqlText s"
  by (simp add: bindText_def toWellFormed_id)

lemma not_surrogate_char: "\<not> isHighSurrogate (of_char c)" "\<not> isLowSurrogate (of_char c)"
proof -
  have b: "of_char c < (256 :: nat)" by (rule nat_of_char_less_256)
  have "\<not> 55296 \<le> (of_char c :: nat)" using b by linarith
  moreover have "\<not> 56320 \<le> (of_char c :: nat)" using b by linarith
  ultimately show "\<not> isHighSurrogate (of_char c)" "\<not> isLowSurrogate (of_char c)"
    by (simp_all add: isHighSurrogate_def isLowSurrogate_def word_le_nat_alt)
qed

lemma wellFormedText_lit: "wellFormedText (lit s)"
proof (induction s)
  case (Cons c s)
  then show ?case by (cases s) (auto simp: lit_def not_surrogate_char)
qed simp

lemma bindText_lit [simp]: "bindText (lit s) = SqlText (lit s)"
  by (simp add: bindText_wf wellFormedText_lit)

lemma bindText_id: "storableId s \<Longrightarrow> bindText s = SqlText s"
  by (simp add: storableId_def bindText_wf)

section \<open>Columns\<close>

lemma sqliteText_simps [simp]: "sqliteText (SqlText s) label = Inr s"
  by (simp add: sqliteText_def)

lemma sqliteNullableText_simps [simp]:
  "sqliteNullableText SqlNull label = Inr None" "sqliteNullableText (SqlText s) label = Inr (Some s)"
  by (simp_all add: sqliteNullableText_def)

lemma sqliteRowInteger_safe: "safeInt n \<Longrightarrow> sqliteRowInteger (SqlInteger n) label = Inr n"
  by (simp add: sqliteRowInteger_def safeInt_def)

lemma safeInt_revision: "wf_revision n \<Longrightarrow> safeInt n"
  by (simp add: wf_revision_def safeInt_def MAX_SAFE_INTEGER_def)

lemma sqliteBoolean_bind [simp]: "sqliteBoolean (bindBoolean b) label = Inr b"
  by (simp add: sqliteBoolean_def bindBoolean_def sqliteRowInteger_def MAX_SAFE_INTEGER_def)

lemma sqliteNullableInteger_bind:
  "pred_option safeInt n \<Longrightarrow> sqliteNullableInteger (bindNullable SqlInteger n) label = Inr n"
  by (cases n) (simp_all add: sqliteNullableInteger_def bindNullable_def sqliteRowInteger_safe)

lemma sqliteNullableText_bind:
  "pred_option wellFormedText x \<Longrightarrow> sqliteNullableText (bindNullable bindText x) label = Inr x"
  by (cases x) (simp_all add: bindNullable_def bindText_wf)

lemma sqliteText_bind: "wellFormedText s \<Longrightarrow> sqliteText (bindText s) label = Inr s"
  by (simp add: bindText_wf)

lemma pred_storableId: "pred_option storableId x \<Longrightarrow> pred_option wellFormedText x"
  by (cases x) (simp_all add: storableId_def)

lemmas column_simps = sqliteNullableInteger_bind sqliteNullableText_bind sqliteText_bind sqliteRowInteger_safe
  safeInt_revision pred_storableId

section \<open>Facts and Tasks\<close>

lemma pred_safe: "(case x of None \<Rightarrow> True | Some n \<Rightarrow> safeInt n) \<longleftrightarrow> pred_option safeInt x"
  by (cases x) simp_all

lemma decodeWaiting_bindTask:
  assumes "pred_option (\<lambda>w. storableWaiting (wm_input w)) (t_waiting t)" "pred_option wf_waiting (t_waiting t)"
  shows "decodeWaiting (bindTask t) = Inr (jsNullable waitingToJs (t_waiting t))"
proof (cases "t_waiting t")
  case None
  then show ?thesis by (simp add: decodeWaiting_def bindTask_def Let_def factColumn_def)
next
  case (Some w)
  then have s: "storableWaiting (wm_input w)" and w: "wf_waiting w" using assms by simp_all
  then have "safeInt (w_retryCount (wm_input w))" "pred_option safeInt (w_retryAfter (wm_input w))"
    "safeInt (wm_waitingTaskRevision w)"
    by (auto simp: wf_waiting_def wf_waiting_input_def wf_revision_def pred_safe safeInt_def MAX_SAFE_INTEGER_def)
  with s Some show ?thesis
    by (simp add: decodeWaiting_def bindTask_def Let_def factColumn_def column_simps storableWaiting_def waitingToJs_def
        waitingInputFields_def)
qed

lemma decodeCompletion_bindTask:
  assumes "pred_option (\<lambda>c. wellFormedText (c_decisionId c)) (t_completion t)" "pred_option wf_completion (t_completion t)"
  shows "decodeCompletion (bindTask t) = Inr (jsNullable completionToJs (t_completion t))"
  using assms by (cases "t_completion t")
    (simp_all add: decodeCompletion_def bindTask_def Let_def factColumn_def bindText_wf column_simps completionToJs_def wf_completion_def)

lemma decodeCancellation_bindTask:
  assumes "pred_option (\<lambda>x. wellFormedText (x_reason x) \<and> pred_option wellFormedText (x_verificationId x)) (t_cancellation t)"
    "pred_option (wf_cancellation nfc) (t_cancellation t)"
  shows "decodeCancellation (bindTask t) = Inr (jsNullable cancellationToJs (t_cancellation t))"
  using assms by (cases "t_cancellation t")
    (simp_all add: decodeCancellation_def bindTask_def Let_def factColumn_def column_simps cancellationToJs_def wf_cancellation_def)

lemma wf_task_options:
  assumes "wf_task nfc t"
  shows "pred_option wf_waiting (t_waiting t)" "pred_option wf_completion (t_completion t)"
    "pred_option (wf_cancellation nfc) (t_cancellation t)" "wf_revision (t_revision t)"
  using assms by (auto simp: wf_task_def pred_option_def split: option.splits)

theorem decodeTask_bindTask:
  assumes wf: "wf_task nfc t" and st: "storableTask t"
    and edges: "sort (map snd (filter (\<lambda>(u, d). u = t_id t) edges)) = t_dependencyIds t"
  shows "decodeTask edges (bindTask t) = Inr (taskToJs t)"
proof -
  have id: "c_task_id (bindTask t) = SqlText (t_id t)" using st by (simp add: bindTask_def Let_def bindText_id storableTask_def)
  have cols: "sqliteText (c_project_id (bindTask t)) l = Inr (t_projectId t)"
    "sqliteText (c_state (bindTask t)) l = Inr (lit (stateName (t_state t)))"
    "sqliteRowInteger (c_revision (bindTask t)) l = Inr (t_revision t)"
    "sqliteText (c_body (bindTask t)) l = Inr (t_body t)"
    "sqliteNullableText (c_parent_id (bindTask t)) l = Inr (t_parentId t)"
    "sqliteNullableText (c_supersedes_task_id (bindTask t)) l = Inr (t_supersedesTaskId t)" for l
    using st wf_task_options(4) [OF wf]
    by (simp_all add: bindTask_def Let_def storableTask_def bindText_id column_simps)
  have "decodeWaiting (bindTask t) = Inr (jsNullable waitingToJs (t_waiting t))"
    "decodeCompletion (bindTask t) = Inr (jsNullable completionToJs (t_completion t))"
    "decodeCancellation (bindTask t) = Inr (jsNullable cancellationToJs (t_cancellation t))"
    using st wf_task_options [OF wf] decodeCancellation_bindTask [where nfc = nfc]
    by (auto simp: storableTask_def decodeWaiting_bindTask decodeCompletion_bindTask)
  then show ?thesis
    unfolding decodeTask_def id cols sqliteText_simps ebind_Inr edges taskToJs_def by simp
qed

section \<open>Tables that hold a snapshot\<close>

text \<open>
  The tables hold a set of Tasks and a set of Projects: one row for each, keyed by the
  identifier, and one row for each dependency edge.
\<close>

definition edgeRows :: "task set \<Rightarrow> (sql_value \<times> sql_value) set" where
  "edgeRows T = {(bindText (t_id t), bindText d) | t d. t \<in> T \<and> d \<in> set (t_dependencyIds t)}"

definition holds :: "domain_tables \<Rightarrow> task set \<Rightarrow> project set \<Rightarrow> bool" where
  "holds tb T P \<longleftrightarrow>
     distinct (map c_task_id (tb_tasks tb)) \<and> set (tb_tasks tb) = bindTask ` T \<and>
     distinct (tb_dependencies tb) \<and> set (tb_dependencies tb) = edgeRows T \<and>
     distinct (map fst (tb_projects tb)) \<and> set (tb_projects tb) = bindProject ` P"

definition represents :: "domain_tables \<Rightarrow> snapshot \<Rightarrow> bool" where
  "represents tb s \<longleftrightarrow> holds tb (set (s_tasks s)) (set (s_projects s))"

text \<open>The tables that a snapshot fills.\<close>

definition tablesOf :: "snapshot \<Rightarrow> domain_tables" where
  "tablesOf s =
     \<lparr>tb_initialized = True, tb_projects = map bindProject (s_projects s), tb_tasks = map bindTask (s_tasks s),
      tb_dependencies = concat (map (\<lambda>t. map (\<lambda>d. (bindText (t_id t), bindText d)) (t_dependencyIds t)) (s_tasks s))\<rparr>"

lemma c_task_id_bindTask [simp]: "c_task_id (bindTask t) = bindText (t_id t)"
  by (simp add: bindTask_def Let_def)

lemma c_revision_bindTask [simp]: "c_revision (bindTask t) = SqlInteger (t_revision t)"
  by (simp add: bindTask_def Let_def)

lemma bindText_inject: "storableId a \<Longrightarrow> storableId b \<Longrightarrow> bindText a = bindText b \<longleftrightarrow> a = b"
  by (simp add: bindText_id)

lemma storableTask_id: "storableTask t \<Longrightarrow> storableId (t_id t)" "storableTask t \<Longrightarrow> d \<in> set (t_dependencyIds t) \<Longrightarrow> storableId d"
  by (auto simp: storableTask_def)

lemma etraverse_map:
  "\<forall>x\<in>set xs. f (g x) = Inr (h x) \<Longrightarrow> etraverse f (map g xs) = Inr (map h xs)"
  by (induction xs) auto

lemma distinct_of_map: "distinct (map f xs) \<Longrightarrow> distinct xs"
  by (simp add: distinct_map)

lemma filter_eq_singleton: "x \<in> set xs \<Longrightarrow> distinct xs \<Longrightarrow> filter (\<lambda>y. y = x) xs = [x]"
  by (induction xs) (auto simp: filter_empty_conv)

lemma preimage_list:
  assumes "set rows = f ` A" "inj_on f A" "distinct rows"
  obtains xs where "rows = map f xs" "set xs = A" "distinct xs"
proof -
  define xs where "xs = map (inv_into A f) rows"
  have "map f xs = rows" unfolding xs_def map_map using assms(1)
    by (intro map_idI) (auto simp: f_inv_into_f)
  moreover have "set xs = A" unfolding xs_def using assms(1,2) by (simp add: image_inv_into_cancel image_image)
  moreover have "distinct xs" using \<open>map f xs = rows\<close> assms(3) distinct_of_map by blast
  ultimately show thesis using that by metis
qed

lemma sort_key_set_eq:
  assumes "distinct (map f xs)" "sorted (map f xs)" "set ys = set xs" "distinct ys"
  shows "sort_key f ys = xs"
proof (rule sort_key_inj_key_eq)
  have "distinct xs" using assms(1) by (rule distinct_of_map)
  with assms show "mset ys = mset xs" by (metis set_eq_iff_mset_eq_distinct)
  show "inj_on f (set ys)" using assms(1,3) by (simp add: distinct_map)
qed (use assms in simp)

lemma createDomainSnapshot_Inr:
  "parseSnapshot nfc v CompleteMode None = Inr s \<Longrightarrow> createDomainSnapshot nfc v = Inr (s, [])"
  by (simp add: createDomainSnapshot_def guardPublicResult_def success_def)

lemma holds_edges:
  assumes T: "\<forall>t\<in>T. storableTask t \<and> wf_task nfc t" "inj_on t_id T"
    and rows: "distinct rows" "set rows = edgeRows T"
  obtains edges where "etraverse decodeEdge rows = Inr edges" "fst ` set edges \<subseteq> t_id ` T"
    "\<And>t. t \<in> T \<Longrightarrow> sort (map snd (filter (\<lambda>(u, d). u = t_id t) edges)) = t_dependencyIds t"
proof -
  let ?E = "{(t_id t, d) | t d. t \<in> T \<and> d \<in> set (t_dependencyIds t)}"
  let ?b = "\<lambda>(u, d). (SqlText u, SqlText d)"
  have "edgeRows T = {(SqlText (t_id t), SqlText d) | t d. t \<in> T \<and> d \<in> set (t_dependencyIds t)}"
    using T(1) bindText_id storableTask_id unfolding edgeRows_def by metis
  also have "\<dots> = ?b ` ?E" by (auto intro!: image_eqI)
  finally have "edgeRows T = ?b ` ?E" .
  moreover have "inj_on ?b ?E" by (auto simp: inj_on_def)
  ultimately obtain edges where e: "rows = map ?b edges" "set edges = ?E" "distinct edges"
    using rows by (elim preimage_list [of rows ?b ?E, rotated -1]) simp_all
  have "\<forall>x\<in>set edges. decodeEdge (?b x) = Inr x" by (auto simp: decodeEdge_def)
  then have "etraverse decodeEdge rows = Inr edges"
    unfolding e(1) using etraverse_map [of edges decodeEdge ?b "\<lambda>x. x"] by simp
  moreover have "fst ` set edges \<subseteq> t_id ` T" by (auto simp: e(2))
  moreover have "sort (map snd (filter (\<lambda>(u, d). u = t_id t) edges)) = t_dependencyIds t" if t: "t \<in> T" for t
  proof (rule sort_key_set_eq [where f = "\<lambda>x. x", simplified])
    show "distinct (t_dependencyIds t)" "sorted (t_dependencyIds t)" using T(1) t by (auto simp: wf_task_def)
    show "set (map snd (filter (\<lambda>(u, d). u = t_id t) edges)) = set (t_dependencyIds t)"
      using t T(2) by (force simp: e(2) inj_on_def)
    show "distinct (map snd (filter (\<lambda>(u, d). u = t_id t) edges))"
      using e(3) by (auto simp: distinct_map inj_on_def)
  qed
  ultimately show thesis by (rule that)
qed

theorem read_represents:
  assumes rep: "represents tb s" and wf: "wf_snapshot nfc s" and st: "storable s"
  shows "readDomainSnapshotUntransactional nfc tb = Inr s"
proof -
  let ?T = "set (s_tasks s)" and ?P = "set (s_projects s)"
  have T: "\<forall>t\<in>?T. storableTask t \<and> wf_task nfc t" "inj_on t_id ?T"
    and P: "\<forall>p\<in>?P. storableId (p_id p)" "inj_on p_id ?P"
    using wf st by (auto simp: wf_snapshot_in_def storable_def distinct_map)
  define prows trows drows where rows_def: "prows = sort_key (sqlOrder \<circ> fst) (tb_projects tb)"
    "trows = sort_key (sqlOrder \<circ> c_task_id) (tb_tasks tb)"
    "drows = sort_key (sqlOrder \<circ> fst) (sort_key (sqlOrder \<circ> snd) (tb_dependencies tb))"
  have rows: "distinct (map c_task_id trows)" "set trows = bindTask ` ?T" "distinct drows" "set drows = edgeRows ?T"
    "distinct (map fst prows)" "set prows = bindProject ` ?P"
    using rep by (auto simp: represents_def holds_def rows_def distinct_map distinct_sort)
  have injT: "inj_on bindTask ?T"
  proof (rule inj_onI)
    fix t u
    assume tu: "t \<in> ?T" "u \<in> ?T" "bindTask t = bindTask u"
    then have "bindText (t_id t) = bindText (t_id u)" by (metis c_task_id_bindTask)
    with tu T show "t = u" by (metis bindText_inject storableTask_id(1) inj_onD)
  qed
  obtain ts where ts: "trows = map bindTask ts" "set ts = ?T" "distinct ts"
    using preimage_list [OF rows(2) injT distinct_of_map [OF rows(1)]] by blast
  have injP: "inj_on bindProject ?P"
    using P by (auto simp: inj_on_def bindProject_def bindText_inject)
  obtain ps where ps: "prows = map bindProject ps" "set ps = ?P" "distinct ps"
    using preimage_list [OF rows(6) injP distinct_of_map [OF rows(5)]] by blast
  obtain edges where edges: "etraverse decodeEdge drows = Inr edges" "fst ` set edges \<subseteq> t_id ` ?T"
    "\<And>t. t \<in> ?T \<Longrightarrow> sort (map snd (filter (\<lambda>(u, d). u = t_id t) edges)) = t_dependencyIds t"
    using holds_edges [OF T rows(3,4)] by blast
  have "etraverse decodeProject prows = Inr (map projectToJs ps)"
    unfolding ps(1) using P(1) ps(2)
    by (intro etraverse_map) (simp add: decodeProject_def bindProject_def bindText_id projectToJs_def)
  moreover have "etraverse (\<lambda>row. sqliteText (c_task_id row) ''tasks.task_id'') trows = Inr (map t_id ts)"
    unfolding ts(1) using T(1) ts(2) by (intro etraverse_map) (simp add: bindText_id storableTask_id)
  moreover have "etraverse (decodeTask edges) trows = Inr (map taskToJs ts)"
    unfolding ts(1) using T(1) ts(2) edges(3) by (intro etraverse_map) (auto intro!: decodeTask_bindTask)
  moreover have "\<not> list_ex (\<lambda>(taskId, _). taskId \<notin> set (map t_id ts)) edges"
    using edges(2) ts(2) by (auto simp: list_ex_iff)
  moreover have "parseSnapshot nfc (snapshotToJs \<lparr>s_projects = ps, s_tasks = ts\<rparr>) CompleteMode None = Inr s"
  proof -
    have "sort_key p_id ps = s_projects s" "sort_key t_id ts = s_tasks s"
      using ts ps wf by (auto intro!: sort_key_set_eq simp: wf_snapshot_in_def)
    then show ?thesis using parseSnapshot_build [of nfc CompleteMode None ps ts] wf by (cases s) simp
  qed
  then have "createDomainSnapshot nfc (jsObj [(''projects'', jsArr (map projectToJs ps)), (''tasks'', jsArr (map taskToJs ts))])
      = Inr (s, [])"
    by (intro createDomainSnapshot_Inr) (simp add: snapshotToJs_def)
  ultimately show ?thesis
    unfolding readDomainSnapshotUntransactional_def Let_def rows_def [symmetric] validateDecodedSnapshot_def
    by (simp add: edges(1))
qed

section \<open>Writing Tasks\<close>

lemma sqlNonempty_id: "storableId s \<Longrightarrow> sqlNonempty (bindText s)"
  by (simp add: bindText_id) (simp add: sqlNonempty_def storableId_def)

lemma bindNullable_check:
  "pred_option storableId x \<Longrightarrow> bindNullable bindText x = SqlNull \<or> sqlNonempty (bindNullable bindText x)"
  by (cases x) (simp_all add: bindNullable_def sqlNonempty_id)

lemma bindText_not_null [simp]: "bindText s \<noteq> SqlNull" "bindBoolean b \<noteq> SqlNull"
  by (simp_all add: bindText_def bindBoolean_def)

text \<open>The constraints of the schema admit every well-formed storable Task.\<close>

lemma taskRowChecks_bindTask:
  assumes "wf_task nfc t" "storableTask t"
  shows "taskRowChecks (bindTask t)"
proof -
  have ids: "sqlNonempty (bindText (t_id t))"
    "bindNullable bindText (t_parentId t) = SqlNull \<or> sqlNonempty (bindNullable bindText (t_parentId t))"
    "bindNullable bindText (t_supersedesTaskId t) = SqlNull \<or> sqlNonempty (bindNullable bindText (t_supersedesTaskId t))"
    using assms(2) by (simp_all add: storableTask_def sqlNonempty_id bindNullable_check)
  have facts: "facts_of_state t" "0 < t_revision t" "pred_option wf_waiting (t_waiting t)"
    "pred_option wf_completion (t_completion t)" "pred_option (wf_cancellation nfc) (t_cancellation t)"
    using assms(1) wf_task_options [OF assms(1)] by (simp_all add: wf_task_def wf_revision_def)
  note defs = taskRowChecks_def bindTask_def Let_def factColumn_def isText_def isPositive_def TASK_STATES_def
    facts_of_state_def wf_waiting_def wf_waiting_input_def wf_completion_def wf_cancellation_def wf_revision_def
    bindBoolean_def
  show ?thesis
    using ids facts
    by (cases "t_state t"; cases "t_waiting t"; cases "t_completion t"; cases "t_cancellation t")
      (simp_all add: defs, (metis cancellationEventName.simps cancellation_event.exhaust)+)
qed

lemma writeDependencies_Inr:
  assumes "distinct ds" "storableId i" "\<forall>d\<in>set ds. storableId d \<and> d \<noteq> i \<and> (bindText i, bindText d) \<notin> set (tb_dependencies tb)"
  shows "writeDependencies i ds tb =
    Inr (tb\<lparr>tb_dependencies := tb_dependencies tb @ map (\<lambda>d. (bindText i, bindText d)) ds\<rparr>)"
  using assms
proof (induction ds arbitrary: tb)
  case (Cons d ds)
  then have "bindText i \<noteq> bindText d" "(bindText i, bindText d) \<notin> set (tb_dependencies tb)"
    by (auto simp: bindText_inject)
  moreover have "\<forall>d'\<in>set ds. (bindText i, bindText d') \<noteq> (bindText i, bindText d)"
    using Cons.prems by (auto simp: bindText_inject)
  ultimately show ?case using Cons by simp
qed simp

text \<open>Tasks of a set replaced by one with the same identifier.\<close>

definition putIn :: "task \<Rightarrow> task set \<Rightarrow> task set" where
  "putIn t T = insert t {u \<in> T. t_id u \<noteq> t_id t}"

definition taskKeyed :: "(jsstr \<Rightarrow> jsstr) \<Rightarrow> task set \<Rightarrow> bool" where
  "taskKeyed nfc T \<longleftrightarrow> (\<forall>t\<in>T. storableTask t \<and> wf_task nfc t) \<and> inj_on t_id T"

lemma taskKeyed_putIn: "taskKeyed nfc T \<Longrightarrow> storableTask t \<Longrightarrow> wf_task nfc t \<Longrightarrow> taskKeyed nfc (putIn t T)"
  by (auto simp: taskKeyed_def putIn_def inj_on_def)

lemma bindTask_image_put:
  assumes "taskKeyed nfc T" "storableTask t"
  shows "bindTask ` putIn t T = insert (bindTask t) {r \<in> bindTask ` T. c_task_id r \<noteq> c_task_id (bindTask t)}"
  using assms by (auto simp: putIn_def taskKeyed_def bindText_inject storableTask_id)

lemma edgeRows_put:
  assumes "taskKeyed nfc T" "storableTask t"
  shows "edgeRows (putIn t T) = {(u, d) \<in> edgeRows T. u \<noteq> bindText (t_id t)} \<union>
    (\<lambda>d. (bindText (t_id t), bindText d)) ` set (t_dependencyIds t)"
  using assms by (auto simp: edgeRows_def putIn_def taskKeyed_def bindText_inject storableTask_id) blast

lemma dependencies_put:
  assumes T: "taskKeyed nfc T" and t: "storableTask t" "wf_task nfc t"
    and tb: "distinct (tb_dependencies tb)" "set (tb_dependencies tb) = edgeRows T"
  obtains tb' where "writeDependencies (t_id t) (t_dependencyIds t) (deleteDependencies (t_id t) tb) = Inr tb'"
    "tb_tasks tb' = tb_tasks tb" "tb_projects tb' = tb_projects tb" "tb_initialized tb' = tb_initialized tb"
    "distinct (tb_dependencies tb')" "set (tb_dependencies tb') = edgeRows (putIn t T)"
proof -
  let ?tb = "deleteDependencies (t_id t) tb"
  have del: "set (tb_dependencies ?tb) = {(u, d) \<in> edgeRows T. u \<noteq> bindText (t_id t)}" "distinct (tb_dependencies ?tb)"
    using tb by (auto simp: deleteDependencies_def)
  have ds: "distinct (t_dependencyIds t)" "t_id t \<notin> set (t_dependencyIds t)" using t(2) by (simp_all add: wf_task_def)
  have w: "writeDependencies (t_id t) (t_dependencyIds t) ?tb =
      Inr (?tb\<lparr>tb_dependencies := tb_dependencies ?tb @ map (\<lambda>d. (bindText (t_id t), bindText d)) (t_dependencyIds t)\<rparr>)"
    using ds t(1) by (intro writeDependencies_Inr) (auto simp: del(1) storableTask_id)
  have "inj_on (\<lambda>d. (bindText (t_id t), bindText d)) (set (t_dependencyIds t))"
    using t(1) by (auto simp: inj_on_def bindText_inject storableTask_id)
  then have "distinct (tb_dependencies ?tb @ map (\<lambda>d. (bindText (t_id t), bindText d)) (t_dependencyIds t))"
    using del ds(1) by (auto simp: distinct_map)
  moreover have "set (tb_dependencies ?tb @ map (\<lambda>d. (bindText (t_id t), bindText d)) (t_dependencyIds t)) = edgeRows (putIn t T)"
    unfolding edgeRows_put [OF T t(1)] by (simp add: del(1))
  ultimately show thesis by (intro that [OF w]) (simp_all add: deleteDependencies_def)
qed

lemma row_unique:
  assumes "holds tb T P" "taskKeyed nfc T" "u \<in> T"
  shows "filter (\<lambda>r. c_task_id r = bindText (t_id u) \<and> c_revision r = SqlInteger (t_revision u)) (tb_tasks tb) = [bindTask u]"
proof -
  have d: "distinct (map c_task_id (tb_tasks tb))" and r: "bindTask u \<in> set (tb_tasks tb)"
    using assms by (auto simp: holds_def)
  have "filter (\<lambda>r. c_task_id r = bindText (t_id u) \<and> c_revision r = SqlInteger (t_revision u)) (tb_tasks tb) =
      filter (\<lambda>r. r = bindTask u) (tb_tasks tb)"
  proof (rule filter_cong [OF refl])
    fix r assume "r \<in> set (tb_tasks tb)"
    then show "(c_task_id r = bindText (t_id u) \<and> c_revision r = SqlInteger (t_revision u)) = (r = bindTask u)"
      using distinct_key_eq [OF d, of r "bindTask u"] r by auto
  qed
  also have "\<dots> = [bindTask u]"
    using r distinct_of_map [OF d] by (rule filter_eq_singleton)
  finally show ?thesis .
qed

lemma holds_image_filter:
  assumes "holds tb T P"
  shows "{r \<in> bindTask ` T. c_task_id r \<noteq> i} = {r \<in> set (tb_tasks tb). c_task_id r \<noteq> i}"
  using assms by (simp add: holds_def)

text \<open>The row of a new Task, and the row of a changed Task whose stored revision is the expected one.\<close>

lemma insertTask_holds:
  assumes h: "holds tb T P" and T: "taskKeyed nfc T" and t: "storableTask t" "wf_task nfc t" "t_id t \<notin> t_id ` T"
  obtains tb1 where "insertTask t tb = Inr tb1" "tb_dependencies tb1 = tb_dependencies tb" "tb_projects tb1 = tb_projects tb"
    "tb_initialized tb1 = tb_initialized tb" "distinct (map c_task_id (tb_tasks tb1))" "set (tb_tasks tb1) = bindTask ` putIn t T"
proof -
  have n: "bindText (t_id t) \<notin> c_task_id ` bindTask ` T"
    using t T by (auto simp: taskKeyed_def bindText_inject storableTask_id image_iff)
  have "t_id u \<noteq> t_id t" if "u \<in> T" for u using t(3) that by (metis imageI)
  then have "putIn t T = insert t T" by (auto simp: putIn_def)
  then show thesis
    using h n taskRowChecks_bindTask [OF t(2,1)]
    by (intro that [of "tb\<lparr>tb_tasks := tb_tasks tb @ [bindTask t]\<rparr>"]) (auto simp: insertTask_def holds_def Let_def)
qed

lemma updateTask_holds:
  assumes h: "holds tb T P" and T: "taskKeyed nfc T" and t: "storableTask t" "wf_task nfc t"
    and u: "u \<in> T" "t_id u = t_id t"
  obtains tb1 where "updateTask t (t_revision u) tb = Inr tb1" "tb_dependencies tb1 = tb_dependencies tb"
    "tb_projects tb1 = tb_projects tb" "tb_initialized tb1 = tb_initialized tb"
    "distinct (map c_task_id (tb_tasks tb1))" "set (tb_tasks tb1) = bindTask ` putIn t T"
proof -
  let ?m = "\<lambda>r. c_task_id r = bindText (t_id t) \<and> c_revision r = SqlInteger (t_revision u)"
  let ?rows = "map (\<lambda>r. if ?m r then bindTask t else r) (tb_tasks tb)"
  have f: "filter ?m (tb_tasks tb) = [bindTask u]" using row_unique [OF h T u(1)] u(2) by simp
  have d: "distinct (map c_task_id (tb_tasks tb))" and s: "set (tb_tasks tb) = bindTask ` T" using h by (simp_all add: holds_def)
  have ub: "bindTask u \<in> set (tb_tasks tb)" using s u(1) by simp
  have m: "?m r \<longleftrightarrow> c_task_id r = bindText (t_id t)" if "r \<in> set (tb_tasks tb)" for r
    using distinct_key_eq [OF d that ub] u(2) by auto
  have "map c_task_id ?rows = map c_task_id (tb_tasks tb)" by simp
  then have d': "distinct (map c_task_id ?rows)" using d by (simp only:)
  have "set ?rows = insert (bindTask t) {r \<in> set (tb_tasks tb). c_task_id r \<noteq> bindText (t_id t)}"
    using m ub u(2) by (auto simp: image_iff intro: bexI [of _ "bindTask u"])
  also have "\<dots> = bindTask ` putIn t T"
    unfolding bindTask_image_put [OF T t(1)] s by simp
  finally have s': "set ?rows = bindTask ` putIn t T" .
  have "updateTask t (t_revision u) tb = Inr (tb\<lparr>tb_tasks := ?rows\<rparr>)"
    using taskRowChecks_bindTask [OF t(2,1)] f by (simp add: updateTask_def Let_def)
  then show thesis using d' s' by (intro that [of "tb\<lparr>tb_tasks := ?rows\<rparr>"]) simp_all
qed

lemma write_one:
  assumes h: "holds tb T P" and T: "taskKeyed nfc T" and t: "storableTask t" "wf_task nfc t"
    and previous: "case before of None \<Rightarrow> t_id t \<notin> t_id ` T | Some u \<Rightarrow> u \<in> T \<and> t_id u = t_id t"
  obtains tb1 tb2 where
    "(case before of None \<Rightarrow> insertTask t tb | Some u \<Rightarrow> updateTask t (t_revision u) tb) = Inr tb1"
    "writeDependencies (t_id t) (t_dependencyIds t) (deleteDependencies (t_id t) tb1) = Inr tb2"
    "holds tb2 (putIn t T) P" "tb_initialized tb2 = tb_initialized tb"
proof -
  obtain tb1 where 1: "(case before of None \<Rightarrow> insertTask t tb | Some u \<Rightarrow> updateTask t (t_revision u) tb) = Inr tb1"
    "tb_dependencies tb1 = tb_dependencies tb" "tb_projects tb1 = tb_projects tb" "tb_initialized tb1 = tb_initialized tb"
    "distinct (map c_task_id (tb_tasks tb1))" "set (tb_tasks tb1) = bindTask ` putIn t T"
  proof (cases before)
    case None
    with previous have "t_id t \<notin> t_id ` T" by simp
    from insertTask_holds [OF h T t this] show ?thesis using that None by simp blast
  next
    case (Some u)
    with previous have "u \<in> T" "t_id u = t_id t" by simp_all
    from updateTask_holds [OF h T t this] show ?thesis using that Some by simp blast
  qed
  have "distinct (tb_dependencies tb1)" "set (tb_dependencies tb1) = edgeRows T" using h 1(2) by (simp_all add: holds_def)
  then obtain tb2 where 2: "writeDependencies (t_id t) (t_dependencyIds t) (deleteDependencies (t_id t) tb1) = Inr tb2"
    "tb_tasks tb2 = tb_tasks tb1" "tb_projects tb2 = tb_projects tb1" "tb_initialized tb2 = tb_initialized tb1"
    "distinct (tb_dependencies tb2)" "set (tb_dependencies tb2) = edgeRows (putIn t T)"
    using dependencies_put [OF T t] by blast
  have "holds tb2 (putIn t T) P" using h 1 2 by (simp add: holds_def)
  then show thesis using that [OF 1(1) 2(1)] 1(4) 2(4) by simp
qed

end
