(* ===== verification/Repository_Commit.thy ===== *)
theory Repository_Commit
  imports Repository_Facts
begin

text \<open>
  The compare-and-swap write of a mutation: on the tables of the expected snapshot it ends
  with the tables of the new snapshot; on the tables of any other snapshot it reports a
  conflict. Refinement: the tables implement the snapshot that the Domain Core works on.
\<close>

lemma taskById_iff:
  assumes "distinct (map t_id (s_tasks s))"
  shows "taskById s i = Some t \<longleftrightarrow> t \<in> set (s_tasks s) \<and> t_id t = i"
  using assms by (simp add: taskById_def find_key_iff)

lemma taskById_None: "taskById s i = None \<longleftrightarrow> i \<notin> t_id ` set (s_tasks s)"
  by (simp add: taskById_def find_key_None_iff)

section \<open>The loop over the changed Tasks\<close>

text \<open>The Tasks after the rows of the identifiers \<open>ids\<close> were replaced by those of \<open>s\<close>.\<close>

definition replacedBy :: "snapshot \<Rightarrow> jsstr set \<Rightarrow> task set \<Rightarrow> task set" where
  "replacedBy s I T = {u \<in> T. t_id u \<notin> I} \<union> {t \<in> set (s_tasks s). t_id t \<in> I}"

lemma replacedBy_Cons:
  assumes "distinct (map t_id (s_tasks s))" "taskById s i = Some t" "i \<notin> I"
  shows "replacedBy s I (putIn t T) = replacedBy s (insert i I) T"
proof -
  have t: "t \<in> set (s_tasks s)" "t_id t = i" using assms taskById_iff by auto
  have "u = t" if "u \<in> set (s_tasks s)" "t_id u = i" for u
    using distinct_key_eq [OF assms(1) that(1) t(1)] t(2) that(2) by metis
  then have "{u \<in> set (s_tasks s). t_id u \<in> insert i I} = insert t {u \<in> set (s_tasks s). t_id u \<in> I}"
    using t by blast
  then show ?thesis using t assms(3) unfolding replacedBy_def putIn_def by auto
qed

lemma writeTasks_holds:
  assumes "holds tb T P" "taskKeyed nfc T" "distinct is" "distinct (map t_id (s_tasks s'))"
    and "\<forall>i\<in>set is. \<exists>t. taskById s' i = Some t \<and> storableTask t \<and> wf_task nfc t \<and>
      (case taskById s i of None \<Rightarrow> i \<notin> t_id ` T | Some u \<Rightarrow> u \<in> T \<and> t_id u = i)"
  shows "\<exists>tb'. writeTasks s s' is tb = Inr tb' \<and> holds tb' (replacedBy s' (set is) T) P \<and>
    tb_initialized tb' = tb_initialized tb"
  using assms
proof (induction "is" arbitrary: tb T)
  case Nil
  then show ?case by (auto simp: replacedBy_def)
next
  case (Cons i "is")
  obtain t where t: "taskById s' i = Some t" "storableTask t" "wf_task nfc t"
    "case taskById s i of None \<Rightarrow> i \<notin> t_id ` T | Some u \<Rightarrow> u \<in> T \<and> t_id u = i"
    using Cons.prems(5) by auto
  have i: "t_id t = i" using t(1) Cons.prems(4) taskById_iff by blast
  obtain tb1 tb2 where w: "(case taskById s i of None \<Rightarrow> insertTask t tb | Some u \<Rightarrow> updateTask t (t_revision u) tb) = Inr tb1"
    "writeDependencies i (t_dependencyIds t) (deleteDependencies i tb1) = Inr tb2"
    "holds tb2 (putIn t T) P" "tb_initialized tb2 = tb_initialized tb"
    using write_one [OF Cons.prems(1,2) t(2,3), of "taskById s i"] t(4) unfolding i by blast
  have "case taskById s j of None \<Rightarrow> j \<notin> t_id ` putIn t T | Some u \<Rightarrow> u \<in> putIn t T \<and> t_id u = j"
    if "j \<in> set is" "case taskById s j of None \<Rightarrow> j \<notin> t_id ` T | Some u \<Rightarrow> u \<in> T \<and> t_id u = j" for j
    using that Cons.prems(3) i by (auto simp: putIn_def split: option.splits)
  then have rest: "\<forall>j\<in>set is. \<exists>t'. taskById s' j = Some t' \<and> storableTask t' \<and> wf_task nfc t' \<and>
      (case taskById s j of None \<Rightarrow> j \<notin> t_id ` putIn t T | Some u \<Rightarrow> u \<in> putIn t T \<and> t_id u = j)"
    using Cons.prems(5) by (meson list.set_intros(2))
  obtain tb' where "writeTasks s s' is tb2 = Inr tb'" "holds tb' (replacedBy s' (set is) (putIn t T)) P"
    "tb_initialized tb' = tb_initialized tb2"
    using Cons.IH [OF w(3) taskKeyed_putIn [OF Cons.prems(2) t(2,3)] _ Cons.prems(4) rest] Cons.prems(3) by auto
  moreover have "replacedBy s' (set is) (putIn t T) = replacedBy s' (set (i # is)) T"
    using replacedBy_Cons [OF Cons.prems(4) t(1)] Cons.prems(3) by simp
  ultimately show ?case using t(1) w by simp
qed

section \<open>Changed Tasks\<close>

lemma changedOf_Inr:
  assumes "changedOf s ts = Inr changed"
  shows "changed = map t_id (filter (\<lambda>t. taskById s (t_id t) \<noteq> Some t) ts)"
  using assms by (induction ts arbitrary: changed) (auto simp: ebind_eq_Inr persistenceFailure_def split: option.splits if_splits)

lemma changedTaskIds_Inr:
  assumes "changedTaskIds s s' = Inr changed"
  shows "changed = sort (map t_id (filter (\<lambda>t. taskById s (t_id t) \<noteq> Some t) (s_tasks s')))"
    "t_id ` set (s_tasks s) \<subseteq> t_id ` set (s_tasks s')"
  using assms
  by (auto simp: changedTaskIds_def list_ex_iff taskById_None ebind_eq_Inr persistenceFailure_def split: if_splits
      dest!: changedOf_Inr)

lemma replacedBy_changed:
  assumes d: "distinct (map t_id (s_tasks s))" "distinct (map t_id (s_tasks s'))"
    and "changedTaskIds s s' = Inr changed"
  shows "replacedBy s' (set changed) (set (s_tasks s)) = set (s_tasks s')"
proof -
  note c = changedTaskIds_Inr [OF assms(3)]
  have ch: "i \<in> set changed \<longleftrightarrow> (\<exists>t\<in>set (s_tasks s'). t_id t = i \<and> t \<notin> set (s_tasks s))" for i
    unfolding c(1) using taskById_iff [OF d(1)] by auto
  show ?thesis
  proof (intro equalityI subsetI)
    fix t assume "t \<in> replacedBy s' (set changed) (set (s_tasks s))"
    then consider "t \<in> set (s_tasks s')" | "t \<in> set (s_tasks s)" "t_id t \<notin> set changed" by (auto simp: replacedBy_def)
    then show "t \<in> set (s_tasks s')"
    proof cases
      case 2
      then obtain v where v: "v \<in> set (s_tasks s')" "t_id v = t_id t" using c(2) by (metis imageE imageI subsetD)
      then have "v \<in> set (s_tasks s)" using 2(2) ch by metis
      then show ?thesis using v distinct_key_eq [OF d(1), of v t] 2(1) by metis
    qed
  next
    fix t assume t: "t \<in> set (s_tasks s')"
    show "t \<in> replacedBy s' (set changed) (set (s_tasks s))"
    proof (cases "t_id t \<in> set changed")
      case False
      then have "t \<in> set (s_tasks s)" using t ch by metis
      with False show ?thesis by (simp add: replacedBy_def)
    qed (use t in \<open>simp add: replacedBy_def\<close>)
  qed
qed

section \<open>The write of a Domain mutation\<close>

lemma validateCallerSnapshot_wf: "wf_snapshot nfc s \<Longrightarrow> validateCallerSnapshot nfc s label = Inr s"
  by (simp add: validateCallerSnapshot_def createDomainSnapshot_Inr parseSnapshot_roundtrip)

lemma validateCallerSnapshot_Inr: "validateCallerSnapshot nfc s label = Inr s' \<Longrightarrow> wf_snapshot nfc s'"
  by (auto simp: validateCallerSnapshot_def createDomainSnapshot_def guardPublicResult_def success_def ebind_eq_Inr
      persistenceFailure_def dest: parseSnapshot_wf split: sum.splits option.splits if_splits)

lemma taskKeyed_snapshot: "wf_snapshot nfc s \<Longrightarrow> storable s \<Longrightarrow> taskKeyed nfc (set (s_tasks s))"
  by (auto simp: taskKeyed_def wf_snapshot_in_def storable_def distinct_map)

lemma parseMutation_wf:
  assumes "wf_snapshot nfc s" "distinct changed" "sorted changed" "[] \<notin> set changed"
  shows "parseMutation nfc \<lparr>m_snapshot = s, m_changedTaskIds = changed\<rparr> = Inr \<lparr>m_snapshot = s, m_changedTaskIds = changed\<rparr>"
  using assms by (auto simp: parseMutation_def Let_def list_ex_iff validateCallerSnapshot_wf sorted_sort_id
      distinct_remdups_id)

lemma changed_ids:
  assumes "wf_snapshot nfc s'" "changedTaskIds s s' = Inr changed"
  shows "distinct changed" "sorted changed" "[] \<notin> set changed" "set changed \<subseteq> t_id ` set (s_tasks s')"
proof -
  let ?ts = "filter (\<lambda>t. taskById s (t_id t) \<noteq> Some t) (s_tasks s')"
  have c: "changed = sort (map t_id ?ts)" by (rule changedTaskIds_Inr(1) [OF assms(2)])
  have "distinct (map t_id (s_tasks s'))" using assms(1) by (simp add: wf_snapshot_in_def)
  then show "distinct changed" unfolding c by (simp add: distinct_map_filter)
  show "sorted changed" "set changed \<subseteq> t_id ` set (s_tasks s')" unfolding c by auto
  moreover have "\<forall>t\<in>set (s_tasks s'). t_id t \<noteq> []" using assms(1) by (simp add: wf_snapshot_in_def wf_task_def)
  ultimately show "[] \<notin> set changed" by (metis (no_types, lifting) imageE subsetD)
qed

theorem write_commits:
  assumes rep: "represents tb s" "tb_initialized tb" and wf: "wf_snapshot nfc s" "storable s" "wf_snapshot nfc s'" "storable s'"
    and projects: "s_projects s' = s_projects s" and changed: "changedTaskIds s s' = Inr changed" "changed \<noteq> []"
  shows "\<exists>tb'. writeDomainMutationUntransactional nfc tb s \<lparr>m_snapshot = s', m_changedTaskIds = changed\<rparr> = Inr tb' \<and>
    represents tb' s' \<and> tb_initialized tb'"
proof -
  have d: "distinct (map t_id (s_tasks s))" "distinct (map t_id (s_tasks s'))" using wf by (simp_all add: wf_snapshot_in_def)
  note c = changed_ids [OF wf(3) changed(1)]
  have "\<exists>t. taskById s' i = Some t \<and> storableTask t \<and> wf_task nfc t \<and>
      (case taskById s i of None \<Rightarrow> i \<notin> t_id ` set (s_tasks s) | Some u \<Rightarrow> u \<in> set (s_tasks s) \<and> t_id u = i)"
    if "i \<in> set changed" for i
  proof -
    obtain t where t: "t \<in> set (s_tasks s')" "t_id t = i" using c(4) \<open>i \<in> set changed\<close> by auto
    then have "taskById s' i = Some t" "storableTask t" "wf_task nfc t"
      using taskById_iff [OF d(2)] wf(3,4) by (auto simp: wf_snapshot_in_def storable_def)
    then show ?thesis by (auto simp: taskById_None taskById_iff [OF d(1)] split: option.splits)
  qed
  then obtain tb' where w: "writeTasks s s' changed tb = Inr tb'" "tb_initialized tb'"
    "holds tb' (replacedBy s' (set changed) (set (s_tasks s))) (set (s_projects s))"
    using writeTasks_holds [OF rep(1) [unfolded represents_def] taskKeyed_snapshot [OF wf(1,2)] c(1) d(2), of s] rep(2) by auto
  then have r: "represents tb' s'"
    unfolding represents_def projects replacedBy_changed [OF d changed(1)] by simp
  show ?thesis
    using read_represents [OF rep(1) wf(1,2)] read_represents [OF r wf(3,4)] w r changed rep(2)
    by (simp add: writeDomainMutationUntransactional_def validateCallerSnapshot_wf [OF wf(1)] parseMutation_wf [OF wf(3) c(1-3)]
        projects normalizeSqliteFailure_def)
qed

text \<open>
  The converse: whatever the tables hold, a write that succeeds found the expected snapshot
  in them and leaves tables that read as the new one.
\<close>

lemma normalizeSqliteFailure_Inr [simp]: "normalizeSqliteFailure c r = Inr x \<longleftrightarrow> r = Inr x"
  by (auto simp: normalizeSqliteFailure_def persistenceFailure_def split: sum.splits thrown.splits)

lemma persistenceFailure_Inr [simp]: "persistenceFailure c m \<noteq> Inr x"
  by (simp add: persistenceFailure_def)

theorem write_sound:
  assumes "writeDomainMutationUntransactional nfc tb s m = Inr tb'" "wf_snapshot nfc s" "wf_snapshot nfc (m_snapshot m)"
  shows "readDomainSnapshotUntransactional nfc tb = Inr s" "readDomainSnapshotUntransactional nfc tb' = Inr (m_snapshot m)"
    "changedTaskIds s (m_snapshot m) = Inr (m_changedTaskIds m)" "s_projects (m_snapshot m) = s_projects s"
  using assms
  by (auto simp: writeDomainMutationUntransactional_def parseMutation_def Let_def ebind_eq_Inr validateCallerSnapshot_wf
      split: if_splits)

theorem write_conflict:
  assumes "represents tb r" "wf_snapshot nfc r" "storable r" "tb_initialized tb"
    and "wf_snapshot nfc s" "wf_snapshot nfc s'" "r \<noteq> s" "s_projects s' = s_projects s"
    and "changedTaskIds s s' = Inr changed" "changed \<noteq> []"
  shows "\<exists>message. writeDomainMutationUntransactional nfc tb s \<lparr>m_snapshot = s', m_changedTaskIds = changed\<rparr> =
    Inl (PersistenceError REVISION_CONFLICT message)"
  using assms changed_ids [OF assms(6,9)]
  by (simp add: writeDomainMutationUntransactional_def validateCallerSnapshot_wf parseMutation_wf read_represents [OF assms(1-3)]
      normalizeSqliteFailure_def persistenceFailure_def)

section \<open>The write of a Project mutation\<close>

lemma projectById_iff:
  assumes "wf_snapshot nfc s"
  shows "projectById s i = Some p \<longleftrightarrow> p \<in> set (s_projects s) \<and> p_id p = i"
  by (rule projects.lookup_iff [OF assms])

text \<open>A mutation that registers or switches the Project \<open>p\<close> and changes nothing else.\<close>

definition changesProject :: "snapshot \<Rightarrow> snapshot \<Rightarrow> project \<Rightarrow> bool" where
  "changesProject s s' p \<longleftrightarrow> s_tasks s' = s_tasks s \<and> p \<notin> set (s_projects s) \<and>
     set (s_projects s') = insert p {q \<in> set (s_projects s). p_id q \<noteq> p_id p}"

lemma changedProjects_iff:
  assumes wf: "wf_snapshot nfc s" "wf_snapshot nfc s'" and "changesProject s s' p"
  shows "changedProjects s s' = [p_id p]" "projectById s' (p_id p) = Some p"
    "\<not> list_ex (\<lambda>q. projectById s' (p_id q) = None) (s_projects s)"
proof -
  have s': "set (s_projects s') = insert p {q \<in> set (s_projects s). p_id q \<noteq> p_id p}" and p: "p \<notin> set (s_projects s)"
    using assms(3) by (simp_all add: changesProject_def)
  have d: "distinct (s_projects s')" using wf(2) by (simp add: wf_snapshot_in_def distinct_map)
  have "filter (\<lambda>q. projectById s (p_id q) \<noteq> Some q) (s_projects s') = filter (\<lambda>q. q = p) (s_projects s')"
    by (rule filter_cong) (use s' p projectById_iff [OF wf(1)] in auto)
  also have "\<dots> = [p]" using s' d by (intro filter_eq_singleton) simp_all
  finally show "changedProjects s s' = [p_id p]" by (simp add: changedProjects_def)
  show "projectById s' (p_id p) = Some p" using s' by (simp add: projectById_iff [OF wf(2)])
  show "\<not> list_ex (\<lambda>q. projectById s' (p_id q) = None) (s_projects s)"
    using s' by (auto simp: list_ex_iff projects.lookup_None_iff)
qed

lemma fst_bindProject: "fst (bindProject p) = bindText (p_id p)"
  by (simp add: bindProject_def)

lemma writeProjectRow_holds:
  assumes h: "holds tb T (set (s_projects s))" and wf: "wf_snapshot nfc s" and st: "storable s" "storableId (p_id p)"
    and p: "p \<notin> set (s_projects s)" and P: "P = insert p {q \<in> set (s_projects s). p_id q \<noteq> p_id p}"
  shows "\<exists>tb'. writeProjectRow (projectById s (p_id p)) p tb = Inr tb' \<and> holds tb' T P \<and>
    tb_initialized tb' = (tb_initialized tb \<or> projectById s (p_id p) = None)"
proof -
  have rows: "set (tb_projects tb) = bindProject ` set (s_projects s)" "distinct (map fst (tb_projects tb))"
    using h by (simp_all add: holds_def)
  have inj: "bindText (p_id q) = bindText (p_id p) \<longleftrightarrow> p_id q = p_id p" if "q \<in> set (s_projects s)" for q
    using that st by (simp add: storable_def bindText_inject)
  show ?thesis
  proof (cases "projectById s (p_id p)")
    case None
    then have n: "p_id q \<noteq> p_id p" if "q \<in> set (s_projects s)" for q
      using that by (metis imageI projects.lookup_None_iff)
    then have "bindText (p_id q) \<noteq> bindText (p_id p)" if "q \<in> set (s_projects s)" for q using inj that by blast
    then have "fst (bindProject p) \<notin> fst ` set (tb_projects tb)" by (force simp: rows(1) bindProject_def)
    moreover have "P = insert p (set (s_projects s))" using n P by blast
    ultimately show ?thesis
      using None h sqlNonempty_id [OF st(2)] by (simp add: writeProjectRow_def holds_def bindProject_def)
  next
    case (Some q)
    then have q: "q \<in> set (s_projects s)" "p_id q = p_id p" by (simp_all add: projectById_iff [OF wf])
    have row: "(bindText (p_id p), bindBoolean (p_enabled q)) = bindProject q" by (simp add: bindProject_def q(2))
    let ?rows = "map (\<lambda>r. if r = bindProject q then bindProject p else r) (tb_projects tb)"
    have f: "filter (\<lambda>r. r = bindProject q) (tb_projects tb) = [bindProject q]"
      using q(1) rows by (intro filter_eq_singleton distinct_of_map [OF rows(2)]) simp
    have "map fst ?rows = map fst (tb_projects tb)" using q(2) by (simp add: bindProject_def)
    then have d: "distinct (map fst ?rows)" using rows(2) by (simp only:)
    have "q' = q" if "q' \<in> set (s_projects s)" "p_id q' = p_id p" for q'
      using that q projects.entry_unique [OF wf] by metis
    then have "P = insert p (set (s_projects s) - {q})" using P q by blast
    moreover have "inj_on bindProject (set (s_projects s))"
      using wf st(1) by (auto simp: inj_on_def wf_snapshot_in_def storable_def bindProject_def bindText_inject distinct_map)
    then have "bindProject ` (set (s_projects s) - {q}) = bindProject ` set (s_projects s) - {bindProject q}"
      using q(1) by (simp add: inj_on_image_set_diff)
    moreover have "set ?rows = insert (bindProject p) (bindProject ` set (s_projects s) - {bindProject q})"
      using q(1) by (auto simp: rows(1))
    ultimately have "set ?rows = bindProject ` P" by simp
    with d h have "holds (tb\<lparr>tb_projects := ?rows\<rparr>) T P" by (simp add: holds_def)
    then show ?thesis using Some f row by (simp add: writeProjectRow_def fst_bindProject)
  qed
qed

theorem project_write_commits:
  assumes rep: "represents tb s" and wf: "wf_snapshot nfc s" "storable s" "wf_snapshot nfc s'" "storable s'"
    and p: "changesProject s s' p"
  shows "\<exists>tb'. writeProjectMutationUntransactional nfc tb s \<lparr>pm_snapshot = s', pm_changedProjectIds = [p_id p]\<rparr> = Inr tb' \<and>
    represents tb' s' \<and> tb_initialized tb' = (tb_initialized tb \<or> projectById s (p_id p) = None)"
proof -
  note c = changedProjects_iff [OF wf(1,3) p]
  have p': "p \<in> set (s_projects s')" "p \<notin> set (s_projects s)" "s_tasks s' = s_tasks s"
    "set (s_projects s') = insert p {q \<in> set (s_projects s). p_id q \<noteq> p_id p}" using p by (auto simp: changesProject_def)
  then have id: "storableId (p_id p)" "p_id p \<noteq> []" using wf(4) by (auto simp: storable_def storableId_def)
  obtain tb' where w: "writeProjectRow (projectById s (p_id p)) p tb = Inr tb'"
    "tb_initialized tb' = (tb_initialized tb \<or> projectById s (p_id p) = None)"
    and "holds tb' (set (s_tasks s)) (set (s_projects s'))"
    using writeProjectRow_holds [OF rep [unfolded represents_def] wf(1,2) id(1) p'(2,4)] by (elim exE conjE)
  then have r: "represents tb' s'" by (simp add: represents_def p'(3))
  have "writeProjectMutationUntransactional nfc tb s \<lparr>pm_snapshot = s', pm_changedProjectIds = [p_id p]\<rparr> = Inr tb'"
    unfolding writeProjectMutationUntransactional_def project_domain_mutation.simps list.case c(1,2) p'(3)
      validateCallerSnapshot_wf [OF wf(1)] validateCallerSnapshot_wf [OF wf(3)] ebind_Inr
      read_represents [OF rep wf(1,2)] option.case w(1) read_represents [OF r wf(3,4)]
    using id(2) c(3) by (simp only: if_False if_True simp_thms normalizeSqliteFailure_def sum.case)
  then show ?thesis using r w(2) by (intro exI conjI)
qed

end
