(* ===== verification/Application_Guarantees.thy ===== *)
theory Application_Guarantees
  imports Application_Accounting Repository_Commit
begin

text \<open>
  What an accepted command means: a grant of the actor was in force for it, and the stored
  Domain snapshot made the step of the command or stayed as it was.
\<close>

section \<open>Authorization\<close>

lemma parseScope_dec: "parseScope (scopeToJs s) = Some s' \<Longrightarrow> s' = s"
  by (cases s; cases "as_kind s"; cases "as_projectId s"; cases "as_resourceRevision s"; cases "as_configRevision s")
    (auto simp: parseScope_def scopeToJs_def exactRecord_def readExactRecord_jsObj domainIdentifier_iff revision_iff isLit_def
      nullable_def split: if_splits)

lemma nullableId_jsNullable: "nullable strOf (jsNullable JStr x) = x" "nullable numOf (jsNullable jsInt n) = n"
  by (cases x; simp add: nullable_def) (cases n; simp add: nullable_def)

lemma parseAuthorizationGrant_dec: "parseAuthorizationGrant (grantToJs g) = Some g' \<Longrightarrow> g' = g"
  by (auto simp: parseAuthorizationGrant_def grantToJs_def exactRecord_def readExactRecord_jsObj nullableId_jsNullable
      dest!: parseScope_dec split: option.splits if_splits)

lemma readAuthorizationInput_dec: "readAuthorizationInput (requestToJs rq) = Some rq' \<Longrightarrow> rq' = rq"
proof -
  assume r: "readAuthorizationInput (requestToJs rq) = Some rq'"
  have "map (the \<circ> (parseAuthorizationGrant \<circ> grantToJs)) gs = gs"
    if "\<not> list_ex (\<lambda>grant. grant = None) (map (parseAuthorizationGrant \<circ> grantToJs) gs)" for gs
    using that by (induction gs) (auto dest: parseAuthorizationGrant_dec)
  then show "rq' = rq" using r
    by (auto simp: readAuthorizationInput_def requestToJs_def targetToJs_def exactRecord_def readExactRecord_jsObj
        canonicalArray_def nullableId_jsNullable parsePolicyResult_name Let_def comp_assoc split: if_splits)
qed

definition targetOf :: "bound_target \<Rightarrow> authorization_target" where
  "targetOf target = \<lparr>at_projectId = map_option rp_projectId (bt_project target),
     at_resourceRevision = map_option rp_resourceRevision (bt_project target),
     at_configRevision = map_option rp_configRevision (bt_project target)\<rparr>"

text \<open>A grant of the actor for the action is in force at the time of the operation on its target.\<close>

definition granted :: "operation_identity \<Rightarrow> string \<Rightarrow> bound_target \<Rightarrow> application_state \<Rightarrow> bool \<Rightarrow> bool" where
  "granted identity action target state confirmed \<longleftrightarrow>
     (\<exists>g\<in>set (st_grants state). g_actorId g = ta_actorId (oi_actor identity) \<and> g_action g = lit action \<and>
        in_force (oi_now identity) (targetOf target) g) \<and>
     policyFor (lit action) (bt_project target) state \<noteq> PolicyDeny \<and> (isHighRiskAction (lit action) \<longrightarrow> confirmed)"

lemma authorize_granted:
  assumes "ae_allowed (authorize identity action target state confirmed kind)"
  shows "granted identity action target state confirmed"
  using assms unfolding authorize_def evaluateAuthorization_iff
  by (auto dest!: readAuthorizationInput_dec simp: authorized_def granted_def targetOf_def split: option.splits)

lemma authorize_kind:
  assumes "ae_allowed (authorize identity action target state confirmed (Some kind))"
  shows "\<exists>g\<in>set (st_grants state). as_kind (g_scope g) = kind \<and> g_actorId g = ta_actorId (oi_actor identity) \<and>
    g_action g = lit action \<and> in_force (oi_now identity) (targetOf target) g"
  using assms unfolding authorize_def evaluateAuthorization_iff
  by (auto dest!: readAuthorizationInput_dec simp: authorized_def targetOf_def)

theorem authorizeCommand_granted:
  assumes "authorizeCommand identity command target state confirmed = Inr authorization" "ae_allowed (ca_evaluation authorization)"
  shows "granted identity (commandKind command) target state confirmed"
proof -
  have "ae_allowed (authorize identity (commandKind command) target state confirmed None)"
    using assms by (cases command) (auto simp: authorizeCommand_def Let_def split: if_splits option.splits)
  then show ?thesis by (rule authorize_granted)
qed

section \<open>The stored snapshot\<close>

lemma createDomainSnapshot_wf: "createDomainSnapshot nfc v = Inr r \<Longrightarrow> wf_snapshot nfc (fst r)"
  by (auto simp: createDomainSnapshot_def guardPublicResult_def success_def ebind_eq_Inr dest: parseSnapshot_wf)

lemma validateDecodedSnapshot_wf: "validateDecodedSnapshot nfc v = Inr s \<Longrightarrow> wf_snapshot nfc s"
  by (cases "createDomainSnapshot nfc v") (auto simp: validateDecodedSnapshot_def dest: createDomainSnapshot_wf)

lemma readDomain_wf: "readDomainSnapshotUntransactional nfc tb = Inr s \<Longrightarrow> wf_snapshot nfc s"
  by (auto simp: readDomainSnapshotUntransactional_def Let_def ebind_eq_Inr dest: validateDecodedSnapshot_wf split: if_splits)

lemma readState_domain:
  assumes "readState sv db = Inr state"
  shows "readDomainSnapshotUntransactional (sv_nfc sv) (db_domain db) = Inr (st_domain state)"
    "state = stateOf (st_domain state) db" "wf_snapshot (sv_nfc sv) (st_domain state)"
proof -
  show d: "readDomainSnapshotUntransactional (sv_nfc sv) (db_domain db) = Inr (st_domain state)"
    and "state = stateOf (st_domain state) db"
    using assms by (auto simp: readState_def ebind_eq_Inr stateOf_def split: option.splits)
  show "wf_snapshot (sv_nfc sv) (st_domain state)" by (rule readDomain_wf [OF d])
qed

lemma project_write_sound:
  assumes w: "writeProjectMutationUntransactional nfc tb s pm = Inr tb'" and wf: "wf_snapshot nfc (pm_snapshot pm)"
  shows "readDomainSnapshotUntransactional nfc tb' = Inr (pm_snapshot pm)"
proof (cases "pm_changedProjectIds pm")
  case Nil
  with w show ?thesis by (auto simp: writeProjectMutationUntransactional_def ebind_eq_Inr)
next
  case (Cons p ps)
  show ?thesis
  proof (cases ps)
    case Nil
    with w Cons show ?thesis
      by (auto simp: writeProjectMutationUntransactional_def ebind_eq_Inr validateCallerSnapshot_wf [OF wf]
          split: if_splits option.splits)
  qed (use w Cons in \<open>auto simp: writeProjectMutationUntransactional_def ebind_eq_Inr\<close>)
qed

section \<open>The step of a command\<close>

fun actionOf :: "application_command \<Rightarrow> action option" where
  "actionOf (TaskCreate p _ i b x) = Some (CreateTask i p b x)"
| "actionOf (TaskUpdate _ _ i _ (BodyChange b)) = Some (SetBody i b)"
| "actionOf (TaskUpdate _ _ i _ (ParentChange q)) = Some (SetParent i q)"
| "actionOf (TaskMarkReady _ _ i _) = Some (Transition i Ready MarkReady)"
| "actionOf (TaskCancel _ _ i _ _) = Some (Transition i Cancelled Cancel)"
| "actionOf (DependencyAdd _ _ i _ d _) = Some (AddDependency i d)"
| "actionOf (DependencyRemove _ _ i _ d _) = Some (RemoveDependency i d)"
| "actionOf (ProjectRegister p _) = Some (RegisterProject p)"
| "actionOf (ProjectUpdate p _ _) = Some (SetProjectEnabled p True)"
| "actionOf (ProjectDisable p _ _) = Some (SetProjectEnabled p False)"
| "actionOf _ = None"

lemma domainOutcome_Inr: "domainOutcome r = Inr (Some m) \<longleftrightarrow> (\<exists>es. r = Inr (m, es))"
  by (auto simp: domainOutcome_def split: sum.splits)

lemma unless_Inr: "unless stale r = Inr x \<longleftrightarrow> stale = None \<and> r = Inr x"
  by (auto simp: unless_def split: option.splits)

text \<open>The Domain operations as the application calls them, on the stored snapshot.\<close>

lemma operation_steps:
  assumes wf: "wf_snapshot nfc s"
  shows "createTask nfc (snapshotToJs s) (jsObj [(''id'', JStr i), (''projectId'', JStr p), (''body'', JStr b),
      (''supersedesTaskId'', jsNullable JStr x)]) = Inr (m, es) \<Longrightarrow> domain_step nfc s (CreateTask i p b x) (m_snapshot m)"
    "updateTaskBody nfc (snapshotToJs s) (jsObj [(''taskId'', JStr i), (''body'', JStr b)]) = Inr (m, es) \<Longrightarrow>
      domain_step nfc s (SetBody i b) (m_snapshot m)"
    "setTaskParent nfc (snapshotToJs s) (jsObj [(''taskId'', JStr i), (''parentId'', jsNullable JStr q)]) = Inr (m, es) \<Longrightarrow>
      domain_step nfc s (SetParent i q) (m_snapshot m)"
    "addTaskDependency nfc (snapshotToJs s) (dependencyCommandObject i d) = Inr (m, es) \<Longrightarrow>
      domain_step nfc s (AddDependency i d) (m_snapshot m)"
    "removeTaskDependency nfc (snapshotToJs s) (dependencyCommandObject i d) = Inr (m, es) \<Longrightarrow>
      domain_step nfc s (RemoveDependency i d) (m_snapshot m)"
  by (rule iffD1 [OF runAction_iff [OF wf]]; simp add: dependencyCommandObject_def)+

lemma transition_steps:
  assumes wf: "wf_snapshot nfc s"
  shows "transitionTask nfc (snapshotToJs s) (markReadyCommand i) = Inr (m, es) \<Longrightarrow>
      domain_step nfc s (Transition i Ready MarkReady) (m_snapshot m)"
    "transitionTask nfc (snapshotToJs s) (cancelCommand s i reason) = Inr (m, es) \<Longrightarrow>
      domain_step nfc s (Transition i Cancelled Cancel) (m_snapshot m)"
  by (auto simp: markReadyCommand_def cancelCommand_def readExactRecord_jsObj parseSnapshot_roundtrip [OF wf]
      isTransitionEvent_lit [of MarkReady, simplified] isTransitionEvent_lit [of Cancel, simplified]
      isTaskState_lit [of Ready, simplified] isTaskState_lit [of Cancelled, simplified]
      dest!: transitionTask_implements implements_unique)

theorem domainMutation_step:
  assumes wf: "wf_snapshot nfc (st_domain state)" and m: "domainMutation nfc command state = Inr (Some m)"
  shows "\<exists>a. actionOf command = Some a \<and> domain_step nfc (st_domain state) a (m_snapshot m)"
proof (cases command)
  case (TaskUpdate p r i n change)
  then show ?thesis
    using m operation_steps [OF wf] transition_steps [OF wf] by (cases change) (auto simp: domainOutcome_Inr unless_Inr)
qed (use m operation_steps [OF wf] transition_steps [OF wf] in \<open>auto simp: domainOutcome_Inr unless_Inr split: if_splits\<close>)

theorem projectDomainMutation_step:
  assumes wf: "wf_snapshot nfc (st_domain state)" and pm: "projectDomainMutation nfc command state identity = Inr (Some pm)"
  shows "\<exists>a. actionOf command = Some a \<and> domain_step nfc (st_domain state) a (pm_snapshot pm)"
proof -
  have step: "domain_step nfc (st_domain state) (SetProjectEnabled p b) (pm_snapshot pm)"
    if "setProjectEnabled nfc (snapshotToJs (st_domain state)) (jsObj [(''projectId'', JStr p), (''enabled'', JBool b)]) = Inr (pm, es)"
    for p b es
    by (rule iffD1 [OF runAction_iff [OF wf]]) (simp_all add: that projectResultSnapshot_def)
  show ?thesis
    using pm step by (cases command) (auto split: option.splits if_splits sum.splits)
qed

theorem projectRegistrationMutation_step:
  assumes wf: "wf_snapshot nfc (st_domain state)" and pm: "projectRegistrationMutation nfc state p = Inr (Some pm)"
  shows "domain_step nfc (st_domain state) (RegisterProject p) (pm_snapshot pm)"
proof -
  obtain es where "registerProject nfc (snapshotToJs (st_domain state)) (jsObj [(''projectId'', JStr p)]) = Inr (pm, es)"
    using pm by (auto simp: projectRegistrationMutation_def split: option.splits sum.splits)
  then show ?thesis
    by (intro iffD1 [OF runAction_iff [OF wf]]) (simp_all add: projectResultSnapshot_def)
qed

theorem domainEffect_step:
  assumes r: "readDomainSnapshotUntransactional nfc tb = Inr (st_domain state)"
    and m: "domainMutation nfc command state = Inr m" "projectDomainMutation nfc command state identity = Inr pm"
    and e: "domainEffect nfc state pm m command tb tb'"
  shows "tb' = tb \<or> (\<exists>a s'. actionOf command = Some a \<and> domain_step nfc (st_domain state) a s' \<and>
    readDomainSnapshotUntransactional nfc tb' = Inr s')"
proof -
  have wf: "wf_snapshot nfc (st_domain state)" by (rule readDomain_wf [OF r])
  consider "tb' = tb"
    | x where "m = Some x" "writeDomainMutationUntransactional nfc tb (st_domain state) x = Inr tb'"
    | x where "pm = Some x" "writeProjectMutationUntransactional nfc tb (st_domain state) x = Inr tb'"
    | x p root where "command = ProjectRegister p root" "projectRegistrationMutation nfc state p = Inr (Some x)"
        "writeProjectMutationUntransactional nfc tb (st_domain state) x = Inr tb'"
    using e unfolding domainEffect_def by blast
  then show ?thesis
  proof cases
    case (2 x)
    obtain a where a: "actionOf command = Some a" "domain_step nfc (st_domain state) a (m_snapshot x)"
      using domainMutation_step [OF wf] m(1) 2(1) by blast
    from write_sound(2) [OF 2(2) wf domain_step_wf [OF a(2) wf]] a show ?thesis by blast
  next
    case (3 x)
    obtain a where a: "actionOf command = Some a" "domain_step nfc (st_domain state) a (pm_snapshot x)"
      using projectDomainMutation_step [OF wf] m(2) 3(1) by blast
    from project_write_sound [OF 3(2) domain_step_wf [OF a(2) wf]] a show ?thesis by blast
  next
    case (4 x p root)
    note step = projectRegistrationMutation_step [OF wf 4(2)]
    from project_write_sound [OF 4(3) domain_step_wf [OF step wf]] step 4(1) show ?thesis by auto
  qed blast
qed

end
