(* ===== verification/Application_Capabilities.thy ===== *)
theory Application_Capabilities
  imports Application_Accounting
begin

text \<open>
  Bootstrap, upgrade and renewal: what each transaction writes when it returns, and that a
  refused one leaves the tables as they were.
\<close>

section \<open>The grants of a capability set\<close>

definition capabilityRows ::
  "operation_identity \<Rightarrow> jsstr \<Rightarrow> jsstr option \<Rightarrow> string list \<Rightarrow> jsstr list \<Rightarrow> grant_row list" where
  "capabilityRows identity expiresAt epochId actions grantIds =
     map (\<lambda>(action, grantId). capabilityGrant identity expiresAt epochId action grantId) (zip actions grantIds)"

lemma capabilityRows_simps [simp]:
  "capabilityRows identity expiresAt epochId [] grantIds = []"
  "capabilityRows identity expiresAt epochId (a # actions) (g # grantIds) =
     capabilityGrant identity expiresAt epochId a g # capabilityRows identity expiresAt epochId actions grantIds"
  by (simp_all add: capabilityRows_def)

lemma capabilityRows_ids:
  "length actions = length grantIds \<Longrightarrow> map grantIdOf (capabilityRows identity expiresAt epochId actions grantIds) = grantIds"
  by (induction actions grantIds rule: list_induct2) (simp_all add: capabilityGrant_def)

text \<open>The identifiers of the new grants are new and distinct.\<close>

definition freshGrants :: "grant_row list \<Rightarrow> grant_row list \<Rightarrow> bool" where
  "freshGrants rows new \<longleftrightarrow> distinct (map grantIdOf new) \<and> set (map grantIdOf new) \<inter> set (map grantIdOf rows) = {}"

lemma freshGrants_Nil [simp]: "freshGrants rows []"
  by (simp add: freshGrants_def)

lemma freshGrants_Cons: "freshGrants rows (row # new) \<longleftrightarrow> grantIdOf row \<notin> grantIdOf ` set rows \<and> freshGrants (rows @ [row]) new"
  by (auto simp: freshGrants_def)

lemma triple_insertCapabilityGrants:
  "triple (\<lambda>db. db = db0) (insertCapabilityGrants sv identity expiresAt epochId absent actions grantIds)
     (\<lambda>_ db. length actions \<le> length grantIds \<and>
        freshGrants (db_grants db0) (capabilityRows identity expiresAt epochId actions grantIds) \<and>
        db = db0\<lparr>db_grants := db_grants db0 @ capabilityRows identity expiresAt epochId actions grantIds\<rparr>) F"
proof (induction actions arbitrary: grantIds db0)
  case Nil
  show ?case by (auto intro!: triple_ret)
next
  case (Cons a actions)
  show ?case
  proof (cases grantIds)
    case Nil
    then show ?thesis by (simp add: triple_throws)
  next
    case c: (Cons g gs)
    let ?row = "capabilityGrant identity expiresAt epochId a g"
    let ?db1 = "db0\<lparr>db_grants := db_grants db0 @ [?row]\<rparr>"
    let ?new = "grantIdOf ?row \<notin> grantIdOf ` set (db_grants db0)"
    have "triple (\<lambda>db. db = db0) (insertGrant ?row) (\<lambda>_ db. db = ?db1 \<and> ?new) F"
      by (rule triple_weaken [OF triple_insertGrant [of "\<lambda>db. db = db0"]]) auto
    moreover have "triple (\<lambda>db. db = ?db1 \<and> ?new) (insertCapabilityGrants sv identity expiresAt epochId absent actions gs)
      (\<lambda>_ db. length (a # actions) \<le> length grantIds \<and>
        freshGrants (db_grants db0) (capabilityRows identity expiresAt epochId (a # actions) grantIds) \<and>
        db = db0\<lparr>db_grants := db_grants db0 @ capabilityRows identity expiresAt epochId (a # actions) grantIds\<rparr>) F"
      by (rule triple_assume, rule triple_weaken [OF Cons.IH]) (auto simp: c freshGrants_Cons)
    ultimately show ?thesis unfolding c insertCapabilityGrants.simps
      by (intro triple_seq [OF _ triple_seq [OF triple_stage]])
  qed
qed

lemma triple_capabilities:
  "triple P (insertCapabilityGrants sv identity expiresAt epochId absent actions grantIds)
     (\<lambda>_ db'. \<exists>db. P db \<and> length actions \<le> length grantIds \<and>
        freshGrants (db_grants db) (capabilityRows identity expiresAt epochId actions grantIds) \<and>
        db' = db\<lparr>db_grants := db_grants db @ capabilityRows identity expiresAt epochId actions grantIds\<rparr>) F"
  by (rule triple_lift [OF triple_insertCapabilityGrants])

section \<open>Bootstrap\<close>

lemma triple_insertBootstrap:
  "triple P (insertBootstrap r) (\<lambda>_ db'. \<exists>db. P db \<and> db_bootstrap db = None \<and> db' = db\<lparr>db_bootstrap := Some r\<rparr>) F"
  unfolding insertBootstrap_def by (rule triple_onTablesI) (auto simp: sqliteError_def split: if_splits)

lemma triple_insertLocalIdentity:
  "triple P (insertLocalIdentity r) (\<lambda>_ db'. \<exists>db. P db \<and> db_identity db = None \<and> db' = db\<lparr>db_identity := Some r\<rparr>) F"
  unfolding insertLocalIdentity_def by (rule triple_onTablesI) (auto simp: sqliteError_def split: if_splits)

text \<open>The tables after the bootstrap.\<close>

definition bootstrappedTables ::
  "operation_identity \<Rightarrow> project_root_identity \<Rightarrow> jsstr \<Rightarrow> jsstr list \<Rightarrow> database \<Rightarrow> database" where
  "bootstrappedTables identity root expiresAt grantIds db =
     db\<lparr>db_requests := db_requests db @ [(requestRecord identity ''authorization.grant.issue'' runtimeTarget RequestBootstrap)
          \<lparr>rr_targetId := toWellFormed (bt_id runtimeTarget)\<rparr>],
        db_bootstrap := Some (bootstrapRecord identity root expiresAt),
        db_identity := Some (localIdentityRecord identity root),
        db_grants := db_grants db @ capabilityRows identity expiresAt None BASE_AUTHORIZATION_ACTIONS grantIds,
        db_audit := db_audit db @ [(auditRecord identity runtimeTarget ''bootstrap'' True ''bootstrap'' None)
          \<lparr>ar_targetId := toWellFormed (bt_id runtimeTarget)\<rparr>]\<rparr>"

theorem triple_bootstrapTransaction:
  "triple (\<lambda>db. db = db0) (bootstrapTransaction sv identity expiresAt grantIds root)
     (\<lambda>r db. r = succeeded \<lparr>br_actorId = ta_actorId (oi_actor identity), br_grantIds = grantIds\<rparr> identity \<and>
        db_bootstrap db0 = None \<and> length BASE_AUTHORIZATION_ACTIONS \<le> length grantIds \<and>
        freshRequest identity db0 \<and>
        freshGrants (db_grants db0) (capabilityRows identity expiresAt None BASE_AUTHORIZATION_ACTIONS grantIds) \<and>
        db = bootstrappedTables identity root expiresAt grantIds db0) (\<lambda>f db. db = db0)"
  unfolding bootstrapTransaction_def
  apply (rule triple_readTx, rule triple_if, rule triple_fails, simp)
  apply (rule triple_seq, rule triple_insertRequest triple_insertBootstrap triple_insertLocalIdentity triple_capabilities
      triple_insertAudit triple_stage)+
  apply (rule triple_readTx, rule triple_if, rule triple_throws, rule triple_ret)
  by (auto simp: bootstrappedTables_def requestRecord_def auditRecord_def freshRequest_def)

section \<open>Epochs\<close>

lemma triple_insertCapabilityEpoch:
  "triple P (insertCapabilityEpoch r) (\<lambda>_ db'. \<exists>db. P db \<and> (\<forall>e\<in>set (db_epochs db). ce_epochRevision e \<noteq> ce_epochRevision r) \<and> db' = db\<lparr>db_epochs := db_epochs db @ [r]\<rparr>) F"
  unfolding insertCapabilityEpoch_def
  by (rule triple_onTablesI) (auto simp: sqliteError_def ebind_eq_Inr insertRow_Inr list_ex_iff split: if_splits)

text \<open>The identities of the operation, of its grants and the revision of its epoch are new.\<close>

definition freshEpoch :: "operation_identity \<Rightarrow> jsstr \<Rightarrow> jsstr \<Rightarrow> jsstr list \<Rightarrow> int \<Rightarrow> int \<Rightarrow> database \<Rightarrow> bool" where
  "freshEpoch identity expiresAt epochId grantIds epochRevision vocabularyVersion db \<longleftrightarrow> freshRecords identity db \<and>
     (\<forall>e\<in>set (db_epochs db). ce_epochRevision e \<noteq> epochRevision) \<and>
     length (actionsForVocabulary vocabularyVersion) \<le> length grantIds \<and>
     freshGrants (db_grants db)
       (capabilityRows identity expiresAt (Some epochId) (actionsForVocabulary vocabularyVersion) grantIds)"

definition epochRecord ::
  "'e service \<Rightarrow> operation_identity \<Rightarrow> project_root_identity \<Rightarrow> jsstr \<Rightarrow> jsstr \<Rightarrow> int \<Rightarrow> int \<Rightarrow> capability_epoch" where
  "epochRecord sv identity root expiresAt epochId epochRevision vocabularyVersion =
     \<lparr>ce_epochId = epochId, ce_epochRevision = epochRevision, ce_actorId = ta_actorId (oi_actor identity),
      ce_runtimeRootKey = ri_rootKey root, ce_vocabularyVersion = vocabularyVersion,
      ce_actionSetSha256 = actionSetSha256 (sv_sha256 sv) vocabularyVersion, ce_requestId = oi_requestId identity,
      ce_createdAt = oi_now identity, ce_expiresAt = expiresAt\<rparr>"

definition epochTables ::
  "'e service \<Rightarrow> operation_identity \<Rightarrow> project_root_identity \<Rightarrow> jsstr \<Rightarrow> jsstr \<Rightarrow> jsstr list \<Rightarrow> int \<Rightarrow> int \<Rightarrow> string \<Rightarrow>
    request_result \<Rightarrow> string \<Rightarrow> database \<Rightarrow> database" where
  "epochTables sv identity root expiresAt epochId grantIds epochRevision vocabularyVersion action result eventKind db =
     db\<lparr>db_requests := db_requests db @ [(requestRecord identity action runtimeTarget result)
          \<lparr>rr_targetId := toWellFormed (bt_id runtimeTarget)\<rparr>],
        db_epochs := db_epochs db @ [epochRecord sv identity root expiresAt epochId epochRevision vocabularyVersion],
        db_grants := db_grants db @ capabilityRows identity expiresAt (Some epochId) (actionsForVocabulary vocabularyVersion) grantIds,
        db_decisions := db_decisions db @ [allowedDecision identity action],
        db_audit := db_audit db @ [(auditRecord identity runtimeTarget eventKind True ''accepted'' (Some (oi_decisionId identity)))
          \<lparr>ar_targetId := toWellFormed (bt_id runtimeTarget)\<rparr>]\<rparr>"

lemma triple_writeEpoch:
  "triple (\<lambda>db. db = db0) (writeEpoch sv identity root expiresAt epochId grantIds epochRevision vocabularyVersion action result
       eventKind absent)
     (\<lambda>_ db. freshEpoch identity expiresAt epochId grantIds epochRevision vocabularyVersion db0 \<and>
        db = epochTables sv identity root expiresAt epochId grantIds epochRevision vocabularyVersion action result eventKind db0) F"
  unfolding writeEpoch_def
  apply (rule triple_seq, rule triple_insertRequest triple_insertCapabilityEpoch triple_capabilities triple_insertDecision
      triple_insertAudit triple_stage)+
  apply (rule triple_weaken [OF triple_stage], assumption)
  by (auto simp: epochTables_def epochRecord_def requestRecord_def auditRecord_def allowedDecision_def freshEpoch_def
      freshRecords_def freshRequest_def)

lemma triple_epochResult:
  "triple P (epochResult sv identity mode epochId grantIds epochRevision vocabularyVersion required mismatch)
     (\<lambda>r db. P db \<and> cp_mode (aps_value r) = mode \<and> cp_epochRevision (aps_value r) = epochRevision) F"
  unfolding epochResult_def
  by (rule triple_readTx) (auto simp: succeeded_def intro!: triple_throws triple_ret split: option.split)

lemma triple_epoch:
  "triple (\<lambda>db. db = db0) (pseq (guard b f) (pseq
      (writeEpoch sv identity root expiresAt epochId grantIds n v action result eventKind absent)
      (epochResult sv identity mode epochId grantIds n v required mismatch)))
     (\<lambda>r db. b \<and> freshEpoch identity expiresAt epochId grantIds n v db0 \<and> cp_epochRevision (aps_value r) = n \<and>
        db = epochTables sv identity root expiresAt epochId grantIds n v action result eventKind db0) (\<lambda>f db. db = db0)"
  by (rule triple_guard, simp, rule triple_seq [OF triple_writeEpoch], rule triple_weaken [OF triple_epochResult], assumption) auto

text \<open>An upgrade: the next epoch holds the actions of the next vocabulary.\<close>

definition upgraded ::
  "'e service \<Rightarrow> operation_identity \<Rightarrow> project_root_identity \<Rightarrow> jsstr \<Rightarrow> jsstr \<Rightarrow> jsstr list \<Rightarrow> upgrade_assessment \<Rightarrow> database \<Rightarrow>
    capability_epoch_result application_success \<Rightarrow> database \<Rightarrow> bool" where
  "upgraded sv identity root expiresAt epochId grantIds assessment db0 r db \<longleftrightarrow>
     (\<exists>state n current.
        readState sv db0 = Inr state \<and> assessment = Upgradable n current (current + 1) \<and>
        assessCapabilityUpgrade state identity root = assessment \<and>
        n = latestEpochRevision state + 1 \<and> freshEpoch identity expiresAt epochId grantIds n (current + 1) db0 \<and>
        cp_epochRevision (aps_value r) = n \<and>
        db = epochTables sv identity root expiresAt epochId grantIds n (current + 1) ''authorization.capability.upgrade''
          RequestUpgrade ''capability.upgraded'' db0)"

lemma assessCapabilityUpgrade_plus:
  "assessCapabilityUpgrade state identity root = Upgradable n c t \<Longrightarrow> t = c + 1 \<and> n = latestEpochRevision state + 1"
  by (auto simp: assessCapabilityUpgrade_def Let_def nextEpochRevisionOf_def latestEpochRevision_def
      split: option.splits if_splits)

theorem triple_upgradeTransaction:
  "triple (\<lambda>db. db = db0) (upgradeTransaction sv identity expiresAt root assessment sha epochRevision epochId grantIds)
     (\<lambda>r db. upgraded sv identity root expiresAt epochId grantIds assessment db0 r db) (\<lambda>f db. db = db0)"
  unfolding upgradeTransaction_def Let_def
proof (rule triple_readAt, rule triple_guard, simp, rule triple_guard, simp)
  fix state
  let ?a = "assessCapabilityUpgrade state identity root"
  assume s: "readState sv db0 = Inr state"
  show "triple (\<lambda>db. db = db0) (case ?a of
      Upgradable n c t \<Rightarrow> pseq (guard (?a = assessment)
           (failed StaleRevision ''Capability upgrade lineage is stale'' (Some identity) []))
        (pseq (writeEpoch sv identity root expiresAt epochId grantIds n t ''authorization.capability.upgrade'' RequestUpgrade
          ''capability.upgraded'' ''Trusted upgrade grant identity is absent'')
        (epochResult sv identity ''upgraded'' epochId grantIds n t (Some t) ''Capability upgrade terminal readback did not match''))
    | _ \<Rightarrow> fails (upgradeRefusal ?a identity))
    (\<lambda>r db. upgraded sv identity root expiresAt epochId grantIds assessment db0 r db) (\<lambda>f db. db = db0)"
  proof (cases ?a)
    case (Upgradable n c t)
    show ?thesis unfolding Upgradable upgrade_assessment.case
      by (rule triple_weaken [OF triple_epoch], assumption)
        (unfold upgraded_def, use s Upgradable assessCapabilityUpgrade_plus [OF Upgradable] in metis, simp)
  qed (simp_all add: triple_fails)
qed

text \<open>A renewal: the next epoch holds the actions of the current vocabulary.\<close>

definition renewed ::
  "'e service \<Rightarrow> operation_identity \<Rightarrow> project_root_identity \<Rightarrow> jsstr \<Rightarrow> jsstr \<Rightarrow> jsstr list \<Rightarrow> renewal_assessment \<Rightarrow> database \<Rightarrow>
    capability_epoch_result application_success \<Rightarrow> database \<Rightarrow> bool" where
  "renewed sv identity root expiresAt epochId grantIds assessment db0 r db \<longleftrightarrow>
     (\<exists>state n current.
        readState sv db0 = Inr state \<and> assessment = Renewed n current \<and>
        assessRenewal state identity root = Inr assessment \<and>
        n = latestEpochRevision state + 1 \<and> freshEpoch identity expiresAt epochId grantIds n current db0 \<and>
        cp_epochRevision (aps_value r) = n \<and>
        db = epochTables sv identity root expiresAt epochId grantIds n current ''authorization.capability.renew''
          RequestRenewal ''capability.renewed'' db0)"

lemma assessRenewal_plus:
  "assessRenewal state identity root = Inr (Renewed n v) \<Longrightarrow> n = latestEpochRevision state + 1"
  by (auto simp: assessRenewal_def Let_def nextEpochRevisionOf_def latestEpochRevision_def split: option.splits if_splits)

theorem triple_renewTransaction:
  "triple (\<lambda>db. db = db0) (renewTransaction sv identity expiresAt root assessment sha present epochRevision epochId grantIds)
     (\<lambda>r db. renewed sv identity root expiresAt epochId grantIds assessment db0 r db) (\<lambda>f db. db = db0)"
  unfolding renewTransaction_def
proof (rule triple_readAt, rule triple_guard, simp, rule triple_guard, simp, rule triple_ofThrown)
  fix state a
  assume s: "readState sv db0 = Inr state" and a: "assessRenewal state identity root = Inr a"
  show "triple (\<lambda>db. db = db0) (case a of
      Renewed n v \<Rightarrow> pseq (guard (a = assessment)
           (failed StaleRevision ''Capability renewal lineage is stale'' (Some identity) []))
        (pseq (writeEpoch sv identity root expiresAt epochId grantIds n v ''authorization.capability.renew'' RequestRenewal
          ''capability.renewed'' ''Trusted renewal grant identity is absent'')
        (epochResult sv identity ''renewed'' epochId grantIds n v None ''Capability renewal terminal readback did not match''))
    | _ \<Rightarrow> fails (renewalRefusal a identity))
    (\<lambda>r db. renewed sv identity root expiresAt epochId grantIds assessment db0 r db) (\<lambda>f db. db = db0)"
  proof (cases a)
    case (Renewed n v)
    show ?thesis unfolding Renewed renewal_assessment.case
      by (rule triple_weaken [OF triple_epoch], assumption)
        (unfold renewed_def, use s a Renewed assessRenewal_plus [OF a [unfolded Renewed]] in metis, simp)
  qed (simp_all add: triple_fails)
qed

end
