(* ===== verification/Application_Operations.thy ===== *)
theory Application_Operations
  imports Application_Guarantees Application_Capabilities
begin

text \<open>
  The operations of the service from end to end. Each reads first and writes in one
  transaction; between the two, other processes may commit. So an operation either leaves the
  tables as the others have left them, or does what its transaction does on those tables.
\<close>

section \<open>Operations as single transactions\<close>

text \<open>The tables after whatever happened before the transaction of the service.\<close>

definition others :: "'e service \<Rightarrow> database \<Rightarrow> database \<Rightarrow> bool" where
  "others sv db db1 \<longleftrightarrow> db1 = db \<or> (\<exists>e t e'. sv_before sv db e = (t, (db1, e')))"

lemma others_refl [simp]: "others sv db db"
  by (simp add: others_def)

definition served ::
  "(database \<Rightarrow> database \<Rightarrow> bool) \<Rightarrow> ('a \<Rightarrow> database \<Rightarrow> database \<Rightarrow> bool) \<Rightarrow> (database \<Rightarrow> database \<Rightarrow> bool) \<Rightarrow> ('e, 'f, 'a) program \<Rightarrow> database \<Rightarrow> bool" where
  "served oth Q F m db \<longleftrightarrow>
     (\<forall>e out db' e'. m (db, e) = (out, (db', e')) \<longrightarrow>
        (\<exists>db1. oth db db1 \<and>
           (case out of Returns x \<Rightarrow> Q x db1 db' | Fails f \<Rightarrow> F db1 db' | Throws t \<Rightarrow> db' = db1)))"

named_theorems serving

lemma served_fails [serving]: "F db db \<Longrightarrow> oth db db \<Longrightarrow> served oth Q F (fails f) db"
  by (auto simp: served_def fails_def)

lemma served_throws [serving]: "oth db db \<Longrightarrow> served oth Q F (throws t) db"
  by (auto simp: served_def throws_def)

lemma served_bind_run:
  assumes "readOnly m" "F db db" "oth db db" "\<And>x e e'. m (db, e) = (Returns x, (db, e')) \<Longrightarrow> served oth Q F (f x) db"
  shows "served oth Q F (pbind m f) db"
  unfolding served_def
proof (intro allI impI)
  fix e out db' e'
  assume run: "pbind m f (db, e) = (out, (db', e'))"
  obtain out1 db1 e1 where m: "m (db, e) = (out1, (db1, e1))" by (metis prod.exhaust)
  then have db1: "db1 = db" using assms(1) by (metis fst_conv readOnly_def snd_conv)
  show "\<exists>db1. oth db db1 \<and> (case out of Returns x \<Rightarrow> Q x db1 db' | Fails f \<Rightarrow> F db1 db' | Throws t \<Rightarrow> db' = db1)"
  proof (cases out1)
    case (Returns x)
    then have "f x (db, e1) = (out, (db', e'))" using run m db1 by (simp add: pbind_def)
    moreover have "served oth Q F (f x) db" using assms(4) m Returns db1 by blast
    ultimately show ?thesis unfolding served_def by blast
  qed (use run m db1 assms(2,3) in \<open>auto simp: pbind_def intro!: exI [of _ db]\<close>)
qed

lemma served_bind [serving]:
  "readOnly m \<Longrightarrow> F db db \<Longrightarrow> oth db db \<Longrightarrow> (\<And>x. served oth Q F (f x) db) \<Longrightarrow> served oth Q F (pbind m f) db"
  by (rule served_bind_run)

lemma served_guard [serving]:
  "F db db \<Longrightarrow> oth db db \<Longrightarrow> (b \<Longrightarrow> served oth Q F k db) \<Longrightarrow> served oth Q F (pseq (guard b f) k) db"
  by (cases b) (auto simp: pseq_def guard_def served_def pbind_def ret_def fails_def)

text \<open>A transaction on the tables \<open>db\<close>, and one after whatever others did.\<close>

lemma served_at:
  assumes "triple (\<lambda>d. d = db1) c (\<lambda>x. Q x db1) (\<lambda>f. F db1)" "oth db db1"
    and "withApplicationTransaction sv c (db1, e) = (out, (db', e'))"
  shows "\<exists>db1. oth db db1 \<and> (case out of Returns x \<Rightarrow> Q x db1 db' | Fails f \<Rightarrow> F db1 db' | Throws t \<Rightarrow> db' = db1)"
proof (intro exI [of _ db1] conjI)
  show "case out of Returns x \<Rightarrow> Q x db1 db' | Fails f \<Rightarrow> F db1 db' | Throws t \<Rightarrow> db' = db1"
    using transaction_cases [OF assms(3)] tripleD [OF assms(1) refl] by (cases out) auto
qed (rule assms(2))

lemma served_transaction:
  assumes "\<And>db0. triple (\<lambda>d. d = db0) c (\<lambda>x. Q x db0) (\<lambda>f. F db0)"
    and "oth db db"
  shows "served oth Q F (withApplicationTransaction sv c) db"
  unfolding served_def using served_at [where Q = Q and F = F and oth = oth, OF assms] by blast

lemma served_after:
  assumes "\<And>db0. triple (\<lambda>d. d = db0) c (\<lambda>x. Q x db0) (\<lambda>f. F db0)"
  shows "served (others sv) Q F (pseq (beforeTransaction sv) (withApplicationTransaction sv c)) db"
  unfolding served_def
proof (intro allI impI)
  fix e out db' e'
  assume run: "pseq (beforeTransaction sv) (withApplicationTransaction sv c) (db, e) = (out, (db', e'))"
  obtain t db1 e1 where b: "sv_before sv db e = (t, (db1, e1))" by (metis prod.exhaust)
  then have o: "others sv db db1" unfolding others_def by blast
  show "\<exists>db1. others sv db db1 \<and> (case out of Returns x \<Rightarrow> Q x db1 db' | Fails f \<Rightarrow> F db1 db' | Throws t \<Rightarrow> db' = db1)"
  proof (cases t)
    case None
    then have "withApplicationTransaction sv c (db1, e1) = (out, (db', e'))"
      using run b by (simp add: pseq_def pbind_def beforeTransaction_def)
    then show ?thesis by (rule served_at [where Q = Q and F = F and oth = "others sv", OF assms o])
  next
    case (Some u)
    then show ?thesis using run b o by (auto simp: pseq_def pbind_def beforeTransaction_def)
  qed
qed

section \<open>Execution\<close>

text \<open>The facts \<open>pf\<close> come from a preflight on the tables \<open>db\<close> for an identity that the ingress gave.\<close>

definition preflighted :: "'e service \<Rightarrow> application_command \<Rightarrow> database \<Rightarrow> preflight_facts \<Rightarrow> bool" where
  "preflighted sv command db pf \<longleftrightarrow>
     (\<exists>identity e0 e1 e2 e3. operationIdentity (sv_ingress sv) e0 = (Some identity, e1) \<and>
        preflight sv command identity (db, e2) = (Returns pf, (db, e3)))"

theorem served_execute:
  "served (others sv) (\<lambda>r db1 db'. \<exists>command pf. parseCommand (sv_nfc sv) input = Some command \<and> preflighted sv command db pf \<and>
       accepted sv pf command db1 db')
     (\<lambda>db1 db'. \<exists>identity action. refused identity action db1 db') (execute sv input) db"
proof (cases "parseCommand (sv_nfc sv) input")
  case None
  then show ?thesis by (auto simp: execute_def intro!: served_fails)
next
  case (Some command)
  show ?thesis unfolding execute_def Some option.case
  proof (rule served_bind_run [OF readOnly_basic(4)])
    fix identity0 e0 e1
    assume i: "inEnv (operationIdentity (sv_ingress sv)) (db, e0) = (Returns identity0, (db, e1))"
    then have from_ingress: "operationIdentity (sv_ingress sv) e0 = (identity0, e1)"
      by (auto simp: inEnv_def split: prod.splits)
    show "served (others sv) (\<lambda>r db1 db'. \<exists>command' pf. Some command = Some command' \<and> preflighted sv command' db pf \<and>
           accepted sv pf command' db1 db')
         (\<lambda>db1 db'. \<exists>identity action. refused identity action db1 db')
         (case identity0 of None \<Rightarrow> fails (failed InvalidInput ''Command or trusted ingress is invalid'' None [])
          | Some identity \<Rightarrow> pbind (preflight sv command identity) (\<lambda>pf. pseq (beforeTransaction sv)
              (withApplicationTransaction sv (executeTransaction sv pf command)))) db"
    proof (cases identity0)
      case (Some identity)
      show ?thesis unfolding Some option.case
      proof (rule served_bind_run [OF readOnly_preflight])
        fix pf e2 e3
        assume p: "preflight sv command identity (db, e2) = (Returns pf, (db, e3))"
        have "preflighted sv command db pf"
          using from_ingress p unfolding preflighted_def Some by blast
        then show "served (others sv) (\<lambda>r db1 db'. \<exists>command' pf. Some command = Some command' \<and> preflighted sv command' db pf \<and>
             accepted sv pf command' db1 db')
           (\<lambda>db1 db'. \<exists>identity action. refused identity action db1 db')
           (pseq (beforeTransaction sv) (withApplicationTransaction sv (executeTransaction sv pf command))) db"
          by (intro served_after triple_weaken [OF triple_executeTransaction]) auto
      qed auto
    qed (auto intro!: served_fails)
  qed auto
qed

section \<open>Values that the preparation yields\<close>

definition yields :: "('e, 'f, 'a) program \<Rightarrow> ('a \<Rightarrow> bool) \<Rightarrow> bool" where
  "yields m Q \<longleftrightarrow> triple (\<lambda>db. True) m (\<lambda>x db. Q x) (\<lambda>f db. True)"

lemma yieldsI: "triple (\<lambda>db. True) m (\<lambda>x db. Q x) (\<lambda>f db. True) \<Longrightarrow> yields m Q"
  by (simp add: yields_def)

lemma served_yields:
  assumes "readOnly m" "F db db" "oth db db" "yields m V" "\<And>x. V x \<Longrightarrow> served oth Q F (f x) db"
  shows "served oth Q F (pbind m f) db"
proof (rule served_bind_run [where F = F and db = db and m = m and oth = oth, OF assms(1-3)])
  fix x e e'
  assume "m (db, e) = (Returns x, (db, e'))"
  then show "served oth Q F (f x) db" using assms(5) tripleD(1) [OF assms(4) [unfolded yields_def] TrueI] by blast
qed

lemma yields_shifted: "yields (shifted now n) (\<lambda>t. shiftTimestamp now n = Some t)"
  by (auto simp: yields_def triple_def shifted_def throws_def ret_def split: option.splits)

lemma yields_grantIdentities:
  assumes "distinct acc"
  shows "yields (grantIdentities sv identity invalidFor unobtained epochId actions acc)
    (\<lambda>ids. distinct ids \<and> length ids = length acc + length actions)"
  using assms
proof (induction actions arbitrary: acc)
  case Nil
  then show ?case by (auto intro!: yieldsI triple_ret)
next
  case (Cons a actions)
  have "triple (\<lambda>db. True) (grantIdentities sv identity invalidFor unobtained epochId actions (acc @ [g]))
    (\<lambda>ids db. distinct ids \<and> length ids = length acc + length (a # actions)) (\<lambda>f db. True)" if "g \<notin> set acc" for g
    using Cons.IH [of "acc @ [g]"] Cons.prems that by (simp add: yields_def)
  then show ?case
    by (auto intro!: yieldsI triple_bind [where R = "\<lambda>_ _. True"] triple_fails simp: readOnly_triple [OF readOnly_shared(4)])
qed

lemma yields_epochIdentities:
  "yields (epochIdentities sv identity invalidFor unobtained actions)
    (\<lambda>(epochId, ids). distinct ids \<and> length ids = length actions)"
  unfolding epochIdentities_def
  by (rule yieldsI, rule triple_bind [where R = "\<lambda>_ _. True"], simp add: readOnly_triple [OF readOnly_shared(4)],
      rule triple_bind [OF yields_grantIdentities [unfolded yields_def]], simp, rule triple_guard, simp, rule triple_ret) simp

text \<open>An expiry more than \<open>least\<close> and at most \<open>most\<close> milliseconds after \<open>now\<close>.\<close>

definition withinWindow :: "jsstr \<Rightarrow> int \<Rightarrow> int \<Rightarrow> jsstr \<Rightarrow> bool" where
  "withinWindow now least most expiresAt \<longleftrightarrow>
     (\<exists>minimum maximum. shiftTimestamp now least = Some minimum \<and> shiftTimestamp now most = Some maximum \<and>
        minimum < expiresAt \<and> expiresAt \<le> maximum)"

lemma yields_confirmedWindow:
  "yields (confirmedWindow sv identity1 action expiresAt a b c)
    (\<lambda>identity. withinWindow (oi_now identity) (days 7) (days 31) expiresAt)"
  unfolding confirmedWindow_def
  by (rule yieldsI, rule triple_bind [OF triple_inEnv], rule triple_guard, simp,
      rule triple_bind [where R = "\<lambda>_ _. True"], simp add: readOnly_triple [OF readOnly_shared(1)],
      rule triple_shifted, rule triple_shifted, rule triple_guard, simp, rule triple_ret)
    (auto simp: withinWindow_def)

section \<open>Bootstrap, upgrade and renewal\<close>

definition bootstraps :: "jsval \<Rightarrow> bootstrap_result application_success \<Rightarrow> database \<Rightarrow> database \<Rightarrow> bool" where
  "bootstraps input r db db' \<longleftrightarrow>
     (\<exists>identity root expiresAt grantIds maximum.
        parseBootstrap input = Some expiresAt \<and> oi_now identity < expiresAt \<and>
        shiftTimestamp (oi_now identity) (days 31) = Some maximum \<and> expiresAt \<le> maximum \<and>
        db_bootstrap db = None \<and> distinct grantIds \<and> length grantIds = length BASE_AUTHORIZATION_ACTIONS \<and>
        freshRequest identity db \<and>
        freshGrants (db_grants db) (capabilityRows identity expiresAt None BASE_AUTHORIZATION_ACTIONS grantIds) \<and>
        r = succeeded \<lparr>br_actorId = ta_actorId (oi_actor identity), br_grantIds = grantIds\<rparr> identity \<and>
        db' = bootstrappedTables identity root expiresAt grantIds db)"

lemma bootstrapsI:
  assumes "parseBootstrap input = Some expiresAt" "oi_now identity < expiresAt"
    "shiftTimestamp (oi_now identity) (days 31) = Some maximum" "expiresAt \<le> maximum" "db_bootstrap db = None" "distinct grantIds"
    "length grantIds = length BASE_AUTHORIZATION_ACTIONS" "freshRequest identity db"
    "freshGrants (db_grants db) (capabilityRows identity expiresAt None BASE_AUTHORIZATION_ACTIONS grantIds)"
  shows "bootstraps input (succeeded \<lparr>br_actorId = ta_actorId (oi_actor identity), br_grantIds = grantIds\<rparr> identity) db
    (bootstrappedTables identity root expiresAt grantIds db)"
  unfolding bootstraps_def using assms by blast

theorem served_bootstrap: "served (=) (bootstraps input) (\<lambda>db1 db'. db' = db1) (bootstrap sv input) db"
  unfolding bootstrap_def
proof (rule served_bind [OF readOnly_basic(4) refl refl])
  fix identity0
  show "served (=) (bootstraps input) (\<lambda>db1 db'. db' = db1)
     (case (parseBootstrap input, identity0) of
       (Some expiresAt, Some identity1) \<Rightarrow>
         pbind (inEnv (confirmHighRisk identity1 ''authorization.grant.issue'' (sv_ingress sv))) (\<lambda>confirmed.
         pseq (guard confirmed (failed AuthorizationDenied ''Trusted bootstrap confirmation is required'' (Some identity1)
           [(''reason'', DetailStr (lit ''confirmation_required''))])) (
         pbind (refreshed sv identity1 ''Trusted bootstrap time could not be refreshed'') (\<lambda>identity.
         pbind (shifted (oi_now identity) (days 31)) (\<lambda>maximumExpiry.
         pseq (guard (\<not> (expiresAt \<le> oi_now identity \<or> expiresAt > maximumExpiry))
           (failed InvalidInput ''Bootstrap expiry must be finite and no more than 31 days'' (Some identity) [])) (
         pbind (grantIdentities sv identity ''Trusted grant identity is invalid or repeated for ''
           ''Trusted bootstrap grant identities could not be obtained'' None BASE_AUTHORIZATION_ACTIONS []) (\<lambda>grantIds.
         pbind (runtimeRootNow sv identity) (\<lambda>runtimeIdentity.
         withApplicationTransaction sv (bootstrapTransaction sv identity expiresAt grantIds runtimeIdentity))))))))
     | _ \<Rightarrow> fails (failed InvalidInput ''Bootstrap input or trusted ingress is invalid'' None [])) db"
  proof (cases "parseBootstrap input"; cases identity0)
    fix expiresAt identity1
    assume p: "parseBootstrap input = Some expiresAt" "identity0 = Some identity1"
    show ?thesis unfolding p option.case prod.case
      apply (rule served_bind [OF readOnly_basic(4) refl refl], rule served_guard [OF refl refl])
      apply (rule served_bind [OF readOnly_shared(1) refl refl])
      apply (rule served_yields [OF readOnly_basic(11) refl refl yields_shifted], rule served_guard [OF refl refl])
      apply (rule served_yields [OF readOnly_grantIdentities refl refl yields_grantIdentities], simp)
      apply (rule served_bind [OF readOnly_shared(2) refl refl], rule served_transaction [OF _ refl])
      apply (rule triple_weaken [OF triple_bootstrapTransaction], assumption)
      by (use p in \<open>auto intro!: bootstrapsI simp: not_le not_less\<close>)
  qed (auto intro!: served_fails)
qed

text \<open>
  An upgrade or a renewal: within the window of 7 to 31 days, the next epoch with a grant for
  every action of its vocabulary, written on the assessment that the preflight made.
\<close>

definition upgrades :: "'e service \<Rightarrow> jsval \<Rightarrow> capability_epoch_result application_success \<Rightarrow> database \<Rightarrow> database \<Rightarrow> bool" where
  "upgrades sv input r db db' \<longleftrightarrow>
     (\<exists>identity root expiresAt epochId grantIds n current.
        parseCapabilityUpgrade input = Some expiresAt \<and> withinWindow (oi_now identity) (days 7) (days 31) expiresAt \<and>
        distinct grantIds \<and> length grantIds = length (actionsForVocabulary (current + 1)) \<and>
        upgraded sv identity root expiresAt epochId grantIds (Upgradable n current (current + 1)) db r db')"

definition renews :: "'e service \<Rightarrow> jsval \<Rightarrow> capability_epoch_result application_success \<Rightarrow> database \<Rightarrow> database \<Rightarrow> bool" where
  "renews sv input r db db' \<longleftrightarrow>
     (\<exists>identity root expiresAt epochId grantIds n current.
        parseRenewal input = Some expiresAt \<and> withinWindow (oi_now identity) (days 7) (days 31) expiresAt \<and>
        distinct grantIds \<and> length grantIds = length (actionsForVocabulary current) \<and>
        renewed sv identity root expiresAt epochId grantIds (Renewed n current) db r db')"

lemma served_upgradeTransaction:
  assumes "parseCapabilityUpgrade input = Some expiresAt" "withinWindow (oi_now identity) (days 7) (days 31) expiresAt"
    and "distinct grantIds" "length grantIds = length (actionsForVocabulary t)"
  shows "served (others sv) (upgrades sv input) (\<lambda>db1 db'. db' = db1) (pseq (beforeTransaction sv) (withApplicationTransaction sv
    (upgradeTransaction sv identity expiresAt root (Upgradable n c t) sha rv epochId grantIds))) db"
proof (rule served_after, rule triple_weaken [OF triple_upgradeTransaction], assumption)
  fix db0 r db
  assume u: "upgraded sv identity root expiresAt epochId grantIds (Upgradable n c t) db0 r db"
  then have "t = c + 1" by (auto simp: upgraded_def)
  then show "upgrades sv input r db0 db" unfolding upgrades_def using assms u by blast
qed

lemma served_renewTransaction:
  assumes "parseRenewal input = Some expiresAt" "withinWindow (oi_now identity) (days 7) (days 31) expiresAt"
    and "distinct grantIds" "length grantIds = length (actionsForVocabulary v)"
  shows "served (others sv) (renews sv input) (\<lambda>db1 db'. db' = db1) (pseq (beforeTransaction sv) (withApplicationTransaction sv
    (renewTransaction sv identity expiresAt root (Renewed n v) sha present rv epochId grantIds))) db"
proof (rule served_after, rule triple_weaken [OF triple_renewTransaction], assumption)
  fix db0 r db
  assume "renewed sv identity root expiresAt epochId grantIds (Renewed n v) db0 r db"
  then show "renews sv input r db0 db" unfolding renews_def using assms by blast
qed

theorem served_upgrade: "served (others sv) (upgrades sv input) (\<lambda>db1 db'. db' = db1) (upgrade sv input) db"
proof (cases "parseCapabilityUpgrade input")
  case None
  then show ?thesis by (simp add: upgrade_def served_fails)
next
  case (Some expiresAt)
  show ?thesis unfolding upgrade_def Some option.case
    apply (rule served_bind [OF readOnly_basic(4) refl others_refl], rename_tac identity0, case_tac identity0)
     apply (simp add: served_fails)
    apply (simp only: option.case)
    apply (rule served_yields [OF readOnly_epochs(2) refl others_refl yields_confirmedWindow])
    apply (rule served_bind [OF readOnly_shared(2) refl others_refl], rule served_bind [OF readOnly_basic(7) refl others_refl])
    apply (rule served_guard [OF refl others_refl], unfold Let_def)
    apply (rename_tac identity root state, case_tac "assessCapabilityUpgrade state identity root")
       apply (simp_all only: upgrade_assessment.case)
       apply (rule served_yields [OF readOnly_epochs(1) refl others_refl yields_epochIdentities])
       apply (auto intro!: served_upgradeTransaction served_fails simp: Some)
    done
qed

theorem served_renew: "served (others sv) (renews sv input) (\<lambda>db1 db'. db' = db1) (renew sv input) db"
  unfolding renew_def
  apply (rule served_bind [OF readOnly_basic(4) refl others_refl], rename_tac identity0)
  apply (case_tac "parseRenewal input"; case_tac identity0; simp only: option.case prod.case)
     apply (intro served_fails refl others_refl)+
  apply (rule served_yields [OF readOnly_epochs(2) refl others_refl yields_confirmedWindow])
  apply (rule served_bind [OF readOnly_shared(2) refl others_refl], rule served_bind [OF readOnly_basic(7) refl others_refl])
  apply (rule served_guard [OF refl others_refl], rule served_bind [OF readOnly_basic(8) refl others_refl])
  apply (rename_tac assessment, case_tac assessment)
     apply (simp_all only: renewal_assessment.case)
     apply (rule served_yields [OF readOnly_epochs(1) refl others_refl yields_epochIdentities])
     apply (auto intro!: served_renewTransaction served_fails)
  done

section \<open>What a preflight establishes\<close>

text \<open>The ingress was asked to confirm the action of the actor for this request, and said yes.\<close>

definition confirmedBy :: "'e service \<Rightarrow> operation_identity \<Rightarrow> string \<Rightarrow> bool" where
  "confirmedBy sv identity action \<longleftrightarrow>
     (\<exists>w w'. ig_confirmHighRisk (sv_ingress sv) \<lparr>cr_actorId = ta_actorId (oi_actor identity), cr_action = lit action,
        cr_requestId = oi_requestId identity, cr_correlationId = oi_correlationId identity\<rparr> w = (Some (JBool True), w'))"

lemma confirmHighRisk_confirmed:
  assumes "confirmHighRisk identity action (sv_ingress sv) w = (True, w')" "isHighRiskAction (lit action)"
  shows "confirmedBy sv identity action"
  using assms unfolding confirmHighRisk_def ask_def confirmedBy_def by (auto split: prod.splits option.splits)

lemma yields_confirmedFor:
  "yields (confirmedFor sv command identity a)
    (\<lambda>b. isHighRiskAction (lit (commandKind command)) \<and> b \<longrightarrow> confirmedBy sv identity (commandKind command))"
  unfolding yields_def confirmedFor_def triple_def
  by (auto simp: inEnv_def ret_def split: prod.splits if_splits dest: confirmHighRisk_confirmed)

text \<open>The identity of the operation keeps its actor and its identifiers; its time may be refreshed.\<close>

definition refreshes :: "operation_identity \<Rightarrow> operation_identity \<Rightarrow> bool" where
  "refreshes identity identity' \<longleftrightarrow> identity' = identity\<lparr>oi_now := oi_now identity'\<rparr> \<and> oi_now identity \<le> oi_now identity'"

lemma yields_operationTimeFor: "yields (operationTimeFor sv command identity) (refreshes identity)"
  unfolding yields_def operationTimeFor_def refreshed_def triple_def
  by (auto simp: inEnv_def ret_def fails_def pbind_def refreshOperationTime_def ask_def refreshes_def
      split: prod.splits if_splits option.splits)

definition preflightSound :: "'e service \<Rightarrow> application_command \<Rightarrow> operation_identity \<Rightarrow> preflight_facts \<Rightarrow> bool" where
  "preflightSound sv command identity pf \<longleftrightarrow> refreshes identity (pf_identity pf) \<and>
     (isHighRiskAction (lit (commandKind command)) \<and> pf_confirmed pf \<longrightarrow> confirmedBy sv identity (commandKind command))"

lemma triple_any: "readOnly m \<Longrightarrow> triple (\<lambda>db. True) m (\<lambda>_ db. True) (\<lambda>f db. True)"
  by (rule readOnly_triple)

lemma triple_yields:
  assumes "yields m V" "\<And>x. V x \<Longrightarrow> triple (\<lambda>db. True) (f x) Q (\<lambda>f db. True)"
  shows "triple (\<lambda>db. True) (pbind m f) Q (\<lambda>f db. True)"
proof (rule triple_bind [OF assms(1) [unfolded yields_def]])
  fix x
  show "triple (\<lambda>db. V x) (f x) Q (\<lambda>f db. True)" using assms(2) [of x] unfolding triple_def by blast
qed

theorem yields_preflight: "yields (preflight sv command identity) (preflightSound sv command identity)"
proof (rule yieldsI)
  show "triple (\<lambda>db. True) (preflight sv command identity) (\<lambda>pf db. preflightSound sv command identity pf) (\<lambda>f db. True)"
    unfolding preflight_def
    apply (rule triple_bind [OF triple_any [OF readOnly_basic(7)]], rename_tac state, case_tac "st_bootstrap state")
     apply (simp add: triple_fails)
    apply (simp only: option.case)
    apply (rule triple_bind [OF triple_any [OF readOnly_basic(9)]], rule triple_bind [OF triple_any [OF readOnly_basic(8)]])
    apply (rule triple_yields [OF yields_confirmedFor], rule triple_yields [OF yields_operationTimeFor])
    apply (rule triple_guard, simp)
    apply (rule triple_bind [OF triple_any [OF readOnly_preflight_parts(3)]])+
    apply (rule triple_bind [OF triple_any [OF readOnly_preflight_parts(4)]])
    apply (rule triple_bind [OF triple_any [OF readOnly_shared(2)]])
    apply (rule triple_guard, simp, unfold Let_def, rule triple_guard, simp)
    apply (rule triple_bind [OF triple_any [OF readOnly_preflight_parts(5)]])
    apply (rule triple_bind [OF triple_any [OF readOnly_preflight_parts(6)]])
    apply (rule triple_bind [OF triple_any])
     apply (simp add: read_only split: option.split)
    apply (rule triple_ret)
    apply (simp add: preflightSound_def)
    done
qed

text \<open>So the facts of a preflight belong to an identity that the ingress gave.\<close>

definition preflightedFor :: "'e service \<Rightarrow> application_command \<Rightarrow> preflight_facts \<Rightarrow> bool" where
  "preflightedFor sv command pf \<longleftrightarrow>
     (\<exists>identity w w'. operationIdentity (sv_ingress sv) w = (Some identity, w') \<and> preflightSound sv command identity pf)"

lemma preflighted_for: "preflighted sv command db pf \<Longrightarrow> preflightedFor sv command pf"
proof -
  assume "preflighted sv command db pf"
  then obtain identity e0 e1 e2 e3 where i: "operationIdentity (sv_ingress sv) e0 = (Some identity, e1)"
    and p: "preflight sv command identity (db, e2) = (Returns pf, (db, e3))" unfolding preflighted_def by blast
  have "preflightSound sv command identity pf"
    by (rule tripleD(1) [OF yields_preflight [unfolded yields_def] TrueI p refl])
  with i show ?thesis unfolding preflightedFor_def by blast
qed

section \<open>Cancellations\<close>

lemma accepted_cancel:
  assumes "accepted sv pf (TaskCancel p r i n reason) db db'"
  shows "\<exists>state m ids. readState sv db = Inr state \<and> domainMutation (sv_nfc sv) (TaskCancel p r i n reason) state = Inr (Some m) \<and>
    affectedProjectIds m = Inr ids \<and>
    (ids = [p] \<or> (\<exists>g\<in>set (st_grants state). as_kind (g_scope g) = RuntimeScope \<and>
       g_actorId g = ta_actorId (oi_actor (pf_identity pf)) \<and> g_action g = lit ''task.cancel'' \<and>
       g_revokedAt g = None \<and> g_notBefore g \<le> oi_now (pf_identity pf) \<and> oi_now (pf_identity pf) < g_expiresAt g))"
proof -
  obtain state target initial evaluated m where a: "readState sv db = Inr state"
    "domainMutation (sv_nfc sv) (TaskCancel p r i n reason) state = Inr m"
    and f: "finalEvaluation pf state target initial (TaskCancel p r i n reason) m evaluated"
    using assms unfolding accepted_def by (elim exE conjE) (rule that)
  obtain x where x: "m = Some x" using a(2) by (auto simp: unless_Inr domainOutcome_def split: if_splits sum.splits)
  from f x obtain ids where "affectedProjectIds x = Inr ids" "ae_allowed evaluated"
    "ids = [p] \<or> evaluated = authorize (pf_identity pf) ''task.cancel'' target state (pf_confirmed pf) (Some RuntimeScope)"
    unfolding finalEvaluation_def by blast
  with a x show ?thesis
    using authorize_kind [of "pf_identity pf" "''task.cancel''" target state "pf_confirmed pf" RuntimeScope]
    unfolding in_force_def by blast
qed

end
