(* ===== verification/Application_History.thy ===== *)
theory Application_History
  imports Application_Operations Machines
begin

text \<open>
  Histories: the tables under any sequence of committed transactions, of any number of
  processes and in any order. What every transaction keeps, every history keeps: the records
  only grow, every request is answered by one audit event and, but for the bootstrap, by one
  decision, grants and registered Projects are never removed, a revocation is final, epochs
  are numbered consecutively, and every grant goes back to a confirmed capability grant.
\<close>

section \<open>Transactions as steps\<close>

inductive transacts :: "database \<Rightarrow> 'e service \<Rightarrow> database \<Rightarrow> bool" where
  transacts_accepted: "parseCommand (sv_nfc sv) input = Some command \<Longrightarrow> accepted sv pf command db db' \<Longrightarrow> transacts db sv db'"
| transacts_refused: "refused identity action db db' \<Longrightarrow> transacts db sv db'"
| transacts_bootstrap: "bootstraps input r db db' \<Longrightarrow> transacts db sv db'"
| transacts_upgrade: "upgrades sv input r db db' \<Longrightarrow> transacts db sv db'"
| transacts_renewal: "renews sv input r db db' \<Longrightarrow> transacts db sv db'"

text \<open>Every operation is at most one step on the tables that it finds at its transaction.\<close>

datatype service_call = CallBootstrap jsval | CallUpgrade jsval | CallRenew jsval | CallExecute jsval

fun tablesAfter :: "'e service \<Rightarrow> service_call \<Rightarrow> database \<Rightarrow> 'e \<Rightarrow> database" where
  "tablesAfter sv (CallBootstrap input) db e = fst (snd (bootstrap sv input (db, e)))"
| "tablesAfter sv (CallUpgrade input) db e = fst (snd (upgrade sv input (db, e)))"
| "tablesAfter sv (CallRenew input) db e = fst (snd (renew sv input (db, e)))"
| "tablesAfter sv (CallExecute input) db e = fst (snd (execute sv input (db, e)))"

lemma served_step:
  assumes "served oth Q F m db" "\<And>x db1 db'. Q x db1 db' \<Longrightarrow> transacts db1 sv db'" "\<And>db1 db'. F db1 db' \<Longrightarrow> transacts db1 sv db' \<or> db' = db1"
  shows "\<exists>db1. oth db db1 \<and> (fst (snd (m (db, e))) = db1 \<or> transacts db1 sv (fst (snd (m (db, e)))))"
proof -
  obtain out db' e' where run: "m (db, e) = (out, (db', e'))" by (metis prod.exhaust)
  then obtain db1 where "oth db db1"
    "case out of Returns x \<Rightarrow> Q x db1 db' | Fails f \<Rightarrow> F db1 db' | Throws t \<Rightarrow> db' = db1"
    using assms(1) unfolding served_def by blast
  then show ?thesis using run assms(2) assms(3) [of db1 db'] by (intro exI [of _ db1]) (cases out; auto)
qed

theorem operations_serialize:
  "\<exists>db1. others sv db db1 \<and> (tablesAfter sv call db e = db1 \<or> transacts db1 sv (tablesAfter sv call db e))"
proof (cases call)
  case (CallExecute input)
  show ?thesis unfolding CallExecute tablesAfter.simps
    by (rule served_step [OF served_execute]) (auto intro: transacts_accepted transacts_refused)
next
  case (CallBootstrap input)
  have "\<exists>db1. db = db1 \<and> (fst (snd (bootstrap sv input (db, e))) = db1 \<or> transacts db1 sv (fst (snd (bootstrap sv input (db, e)))))"
    by (rule served_step [OF served_bootstrap]) (auto intro: transacts_bootstrap)
  then show ?thesis by (auto simp: CallBootstrap intro: exI [of _ db])
qed (auto intro!: served_step [OF served_upgrade] served_step [OF served_renew] intro: transacts_upgrade transacts_renewal)

section \<open>Tables that only grow\<close>

text \<open>Every old row is kept, as far as \<open>R\<close> says, and new rows come after.\<close>

definition grows :: "('r \<Rightarrow> 'r \<Rightarrow> bool) \<Rightarrow> 'r list \<Rightarrow> 'r list \<Rightarrow> bool" where
  "grows R rows rows' \<longleftrightarrow> (\<exists>old new. rows' = old @ new \<and> list_all2 R rows old)"

lemma grows_append: "(\<And>r. R r r) \<Longrightarrow> grows R rows (rows @ new)"
  unfolding grows_def by (intro exI [of _ rows] exI [of _ new]) (simp add: list_all2_refl)

lemma grows_refl: "(\<And>r. R r r) \<Longrightarrow> grows R rows rows"
  using grows_append [of R rows "[]"] by simp

lemma grows_map: "(\<And>r. R r (f r)) \<Longrightarrow> grows R rows (map f rows)"
  unfolding grows_def by (intro exI [of _ "map f rows"] exI [of _ "[]"]) (simp add: list_all2_map2 list_all2_refl)

lemma grows_trans:
  assumes "\<And>a b c. R a b \<Longrightarrow> R b c \<Longrightarrow> R a c" "grows R xs ys" "grows R ys zs"
  shows "grows R xs zs"
proof -
  obtain old1 new1 old2 new2 where "ys = old1 @ new1" "list_all2 R xs old1" "zs = old2 @ new2" "list_all2 R ys old2"
    using assms(2,3) unfolding grows_def by blast
  moreover from this obtain x y where "old2 = x @ y" "list_all2 R old1 x" by (auto simp: list_all2_append1)
  moreover from calculation have "list_all2 R xs x" using list_all2_trans [of R R R] assms(1) by blast
  ultimately show ?thesis unfolding grows_def by (intro exI [of _ x] exI [of _ "y @ new2"]) simp
qed

lemma grows_member:
  assumes "grows R rows rows'" "r \<in> set rows"
  shows "\<exists>r'\<in>set rows'. R r r'"
proof -
  obtain old new where "rows' = old @ new" "list_all2 R rows old" using assms(1) unfolding grows_def by blast
  moreover obtain i where "i < length rows" "r = rows ! i" using assms(2) by (metis in_set_conv_nth)
  ultimately show ?thesis by (intro bexI [of _ "old ! i"]) (auto simp: list_all2_conv_all_nth)
qed

section \<open>What a transaction does to each table\<close>

text \<open>The request, its audit event and its decision.\<close>

definition answers :: "request_record \<Rightarrow> audit_record \<Rightarrow> bool" where
  "answers r a \<longleftrightarrow> ar_requestId a = rr_requestId r \<and> ar_actorId a = rr_actorId r \<and> ar_correlationId a = rr_correlationId r \<and>
     ar_createdAt a = rr_createdAt r \<and> ar_targetId a = rr_targetId r \<and> (ar_accepted a \<longleftrightarrow> rr_result r \<noteq> RequestDeny)"

definition decides :: "request_record \<Rightarrow> decision_record \<Rightarrow> bool" where
  "decides r d \<longleftrightarrow> dr_requestId d = rr_requestId r \<and> dr_actorId d = rr_actorId r \<and> dr_action d = rr_action r \<and>
     dr_createdAt d = rr_createdAt r \<and> (dr_allow d \<longleftrightarrow> rr_result r \<noteq> RequestDeny)"

abbreviation decidedRequests :: "request_record list \<Rightarrow> request_record list" where
  "decidedRequests \<equiv> filter (\<lambda>r. rr_result r \<noteq> RequestBootstrap)"

text \<open>One operation's records are appended, with identities of their own.\<close>

definition recorded :: "database \<Rightarrow> database \<Rightarrow> bool" where
  "recorded db db' \<longleftrightarrow>
     (\<exists>r a ds. db_requests db' = db_requests db @ [r] \<and> db_audit db' = db_audit db @ [a] \<and> db_decisions db' = db_decisions db @ ds \<and>
        answers r a \<and> list_all2 decides (decidedRequests [r]) ds \<and>
        rr_requestId r \<notin> rr_requestId ` set (db_requests db) \<and> ar_auditId a \<notin> ar_auditId ` set (db_audit db) \<and>
        dr_decisionId ` set ds \<inter> dr_decisionId ` set (db_decisions db) = {})"

lemma recorded_withRecords:
  assumes "freshRecords identity db" "ae_allowed evaluated \<longleftrightarrow> result \<noteq> RequestDeny" "acc \<longleftrightarrow> result \<noteq> RequestDeny" "result \<noteq> RequestBootstrap"
    and "db_requests db1 = db_requests db" "db_audit db1 = db_audit db" "db_decisions db1 = db_decisions db"
  shows "recorded db ((withRecords identity action target result evaluated kind acc reason db1)\<lparr>db_lifecycle := ls\<rparr>)"
    "recorded db (withRecords identity action target result evaluated kind acc reason db1)"
  using assms
  by (auto simp: recorded_def withRecords_def freshRecords_def freshRequest_def answers_def decides_def requestRecord_def
      auditRecord_def decisionRecord_def)

lemma refused_recorded: "refused identity action db db' \<Longrightarrow> db' = db \<or> recorded db db'"
  unfolding refused_def by (auto intro!: recorded_withRecords)

lemma accepted_recorded:
  assumes "accepted sv pf command db db'"
  shows "recorded db db'"
proof -
  obtain target evaluated state issue pm m db1 ls where c: "ae_allowed evaluated" "freshRecords (pf_identity pf) db"
    "effect sv pf target issue state pm m command db db1"
    "db' = (withRecords (pf_identity pf) (commandKind command) target RequestAllow evaluated (auditKind command) True
        ''accepted'' db1)\<lparr>db_lifecycle := db_lifecycle db1 @ ls\<rparr>"
    using assms unfolding accepted_def committed_def finalEvaluation_def by blast
  then show ?thesis by (auto simp: effect_def intro!: recorded_withRecords)
qed

lemma bootstraps_recorded: "bootstraps input r db db' \<Longrightarrow> recorded db db'"
  by (auto simp: bootstraps_def bootstrappedTables_def recorded_def freshRequest_def answers_def requestRecord_def auditRecord_def
      list_all2_Nil)

lemma epochTables_recorded:
  assumes "freshEpoch identity expiresAt epochId grantIds n v db" "result \<noteq> RequestDeny" "result \<noteq> RequestBootstrap"
  shows "recorded db (epochTables sv identity root expiresAt epochId grantIds n v action result kind db)"
  using assms
  by (auto simp: recorded_def epochTables_def freshEpoch_def freshRecords_def freshRequest_def answers_def decides_def
      requestRecord_def auditRecord_def allowedDecision_def)

lemma upgrades_recorded: "upgrades sv input r db db' \<Longrightarrow> recorded db db'"
  by (auto simp: upgrades_def upgraded_def intro!: epochTables_recorded)

lemma renews_recorded: "renews sv input r db db' \<Longrightarrow> recorded db db'"
  by (auto simp: renews_def renewed_def intro!: epochTables_recorded)

theorem transacts_recorded: "transacts db sv db' \<Longrightarrow> db' = db \<or> recorded db db'"
  by (induction rule: transacts.induct)
    (use refused_recorded in \<open>auto dest: accepted_recorded bootstraps_recorded upgrades_recorded renews_recorded\<close>)

section \<open>Grants\<close>

text \<open>A grant keeps everything but its revision and its revocation, which only happens once.\<close>

definition grantKept :: "authorization_grant \<Rightarrow> authorization_grant \<Rightarrow> bool" where
  "grantKept g g' \<longleftrightarrow> g' = g\<lparr>g_revision := g_revision g', g_revokedAt := g_revokedAt g'\<rparr> \<and> g_revision g \<le> g_revision g' \<and>
     (g_revokedAt g \<noteq> None \<longrightarrow> g' = g) \<and> (g_revision g = g_revision g' \<longrightarrow> g' = g)"

lemma grantKept_refl [simp]: "grantKept g g"
  by (simp add: grantKept_def)

lemma grantKept_trans: "grantKept a b \<Longrightarrow> grantKept b c \<Longrightarrow> grantKept a c"
  by (cases a; cases b; cases c) (auto simp: grantKept_def)

lemma grantKept_revoked: "g_revokedAt (gr_grant row) = None \<Longrightarrow> grantKept (gr_grant row) (gr_grant (revokedGrant now q row))"
  by (auto simp: grantKept_def revokedGrant_def)

lemma grantKept_fields:
  assumes "grantKept g g'"
  shows "g_grantId g' = g_grantId g" "g_actorId g' = g_actorId g" "g_action g' = g_action g" "g_scope g' = g_scope g"
    "g_notBefore g' = g_notBefore g" "g_expiresAt g' = g_expiresAt g" "g_issuerGrantId g' = g_issuerGrantId g"
    "g_sourceGrantId g' = g_sourceGrantId g"
  using assms by (cases g; cases g'; auto simp: grantKept_def)+

abbreviation rowKept :: "grant_row \<Rightarrow> grant_row \<Rightarrow> bool" where
  "rowKept r r' \<equiv> grantKept (gr_grant r) (gr_grant r')"

lemma grantEffect_grows: "grantEffect pf issue command rows rows' \<Longrightarrow> grows rowKept rows rows'"
  by (cases command) (auto simp: revocable_def intro!: grows_append grows_refl grows_map grantKept_revoked)

lemma accepted_grants:
  assumes "accepted sv pf command db db'"
  obtains state target authorization boot where "readState sv db = Inr state" "st_bootstrap state = Some boot"
    "authorizeCommand (pf_identity pf) command target state (pf_confirmed pf) = Inr authorization"
    "ae_allowed (ca_evaluation authorization)"
    "grantEffect pf (ca_issuanceProof authorization) command (db_grants db) (db_grants db')"
  using assms unfolding accepted_def committed_def effect_def withRecords_def by auto

theorem transacts_grants: "transacts db sv db' \<Longrightarrow> grows rowKept (db_grants db) (db_grants db')"
proof (induction rule: transacts.induct)
  case (transacts_accepted sv input command pf db db')
  then show ?case by (metis accepted_grants grantEffect_grows)
next
  case (transacts_refused identity action db db' sv)
  then show ?case by (auto simp: refused_def withRecords_def intro!: grows_refl)
qed (auto simp: bootstraps_def bootstrappedTables_def upgrades_def upgraded_def renews_def renewed_def epochTables_def
    intro!: grows_append)

subsection \<open>The origin of a grant\<close>

text \<open>A capability grant: without issuer, on the whole runtime, for at most 31 days.\<close>

definition capability :: "authorization_grant \<Rightarrow> bool" where
  "capability g \<longleftrightarrow> g_issuerGrantId g = None \<and> g_sourceGrantId g = None \<and> g_scope g = runtimeScope \<and>
     (\<exists>maximum. shiftTimestamp (g_notBefore g) (days 31) = Some maximum \<and> g_expiresAt g \<le> maximum)"

definition within :: "authorization_grant \<Rightarrow> authorization_grant \<Rightarrow> bool" where
  "within g origin \<longleftrightarrow> g_action g = g_action origin \<and> g_notBefore origin \<le> g_notBefore g \<and> g_expiresAt g \<le> g_expiresAt origin"

definition rooted :: "grant_row list \<Rightarrow> bool" where
  "rooted rows \<longleftrightarrow> (\<forall>row\<in>set rows. \<exists>c\<in>set rows. capability (gr_grant c) \<and> within (gr_grant row) (gr_grant c))"

lemma within_refl [simp]: "within g g"
  by (simp add: within_def)

lemma within_trans: "within a b \<Longrightarrow> within b c \<Longrightarrow> within a c"
  by (auto simp: within_def)

lemma rooted_append:
  assumes "rooted rows" "\<forall>row\<in>set new. capability (gr_grant row) \<or> (\<exists>s\<in>set rows. within (gr_grant row) (gr_grant s))"
  shows "rooted (rows @ new)"
  unfolding rooted_def
proof
  fix row
  assume "row \<in> set (rows @ new)"
  then consider "row \<in> set rows" | "row \<in> set new" "capability (gr_grant row)"
    | s where "s \<in> set rows" "within (gr_grant row) (gr_grant s)"
    using assms(2) by auto
  then show "\<exists>c\<in>set (rows @ new). capability (gr_grant c) \<and> within (gr_grant row) (gr_grant c)"
  proof cases
    case (3 s)
    then obtain o' where "o' \<in> set rows" "capability (gr_grant o')" "within (gr_grant s) (gr_grant o')"
      using assms(1) unfolding rooted_def by blast
    then show ?thesis using 3(2) within_trans by (intro bexI [of _ o']) auto
  qed (use assms(1) in \<open>auto simp: rooted_def\<close>)
qed

lemma rooted_map:
  assumes "rooted rows" "\<And>row. grantKept (gr_grant row) (gr_grant (f row))"
  shows "rooted (map f rows)"
proof -
  have same: "capability (gr_grant (f row)) = capability (gr_grant row)"
    "within (gr_grant (f row)) g = within (gr_grant row) g" "within g (gr_grant (f row)) = within g (gr_grant row)" for row g
    using grantKept_fields [OF assms(2) [of row]] unfolding capability_def within_def by simp_all
  show ?thesis using assms(1) unfolding rooted_def by (simp add: same)
qed

lemma canIssueGrant_within:
  assumes "canIssueGrant actor gs c now = Some x"
  shows "\<exists>g\<in>set gs. g_actorId g = actor \<and> g_action g = gc_action c \<and> g_grantId g = gp_sourceGrantId x \<and>
    g_notBefore g \<le> gc_notBefore c \<and> gc_expiresAt c \<le> g_expiresAt g"
  using assms
  by (auto simp: canIssueGrant_def Let_def coversIssue_def not_less split: if_splits dest!: firstCovering_Some)
    (blast intro: order_trans)

lemma authorizeCommand_issue:
  assumes "authorizeCommand identity (GrantIssue a b c d e) target state confirmed = Inr authorization"
    "ca_issuanceProof authorization = Some x"
  shows "canIssueGrant (ta_actorId (oi_actor identity)) (st_grants state)
    \<lparr>gc_actorId = a, gc_action = b, gc_scope = c, gc_notBefore = d, gc_expiresAt = e\<rparr> (oi_now identity) = Some x"
  using assms by (auto simp: authorizeCommand_def Let_def split: if_splits option.splits)

lemma issued_within:
  assumes "readState sv db = Inr state"
    "authorizeCommand identity (GrantIssue a b c d e) target state confirmed = Inr authorization"
    "ca_issuanceProof authorization = Some x"
  shows "\<exists>s\<in>set (db_grants db). within (gr_grant (issuedGrant identity i x (GrantIssue a b c d e))) (gr_grant s)"
  using canIssueGrant_within [OF authorizeCommand_issue [OF assms(2,3)]]
  by (auto simp: st_grants_set [OF assms(1)] within_def issuedGrant_def)

lemma capabilityRows_capability:
  assumes "shiftTimestamp (oi_now identity) (days 31) = Some maximum" "expiresAt \<le> maximum"
  shows "\<forall>row\<in>set (capabilityRows identity expiresAt epochId actions grantIds). capability (gr_grant row)"
  using assms by (auto simp: capabilityRows_def capabilityGrant_def capability_def)

lemma accepted_rooted:
  assumes "accepted sv pf command db db'" "rooted (db_grants db)"
  shows "rooted (db_grants db')"
proof -
  obtain state target authorization boot where a: "readState sv db = Inr state"
    "authorizeCommand (pf_identity pf) command target state (pf_confirmed pf) = Inr authorization"
    and e: "grantEffect pf (ca_issuanceProof authorization) command (db_grants db) (db_grants db')"
    using accepted_grants [OF assms(1)] by metis
  show ?thesis
  proof (cases command)
    case (GrantIssue u b c d t)
    then obtain i x where x: "ca_issuanceProof authorization = Some x"
      "db_grants db' = db_grants db @ [issuedGrant (pf_identity pf) i x (GrantIssue u b c d t)]" using e by auto
    have "\<exists>s\<in>set (db_grants db). within (gr_grant (issuedGrant (pf_identity pf) i x (GrantIssue u b c d t))) (gr_grant s)"
      by (rule issued_within [OF a(1) a(2) [unfolded GrantIssue] x(1)])
    then show ?thesis unfolding x(2) by (intro rooted_append [OF assms(2)]) auto
  next
    case (GrantRevoke i n)
    then show ?thesis using e assms(2) by (auto simp: revocable_def intro!: rooted_map grantKept_revoked)
  qed (use e assms(2) in auto)
qed

lemma capabilityRows_rooted:
  assumes "rooted rows" "shiftTimestamp (oi_now identity) (days 31) = Some maximum" "expiresAt \<le> maximum"
  shows "rooted (rows @ capabilityRows identity expiresAt epochId actions grantIds)"
  using capabilityRows_capability [OF assms(2,3)] by (intro rooted_append [OF assms(1)]) blast

theorem transacts_rooted: "transacts db sv db' \<Longrightarrow> rooted (db_grants db) \<Longrightarrow> rooted (db_grants db')"
proof (induction rule: transacts.induct)
  case (transacts_accepted sv input command pf db db')
  then show ?case by (metis accepted_rooted)
next
  case (transacts_refused identity action db db' sv)
  then show ?case by (auto simp: refused_def withRecords_def)
qed (auto simp: bootstraps_def bootstrappedTables_def upgrades_def upgraded_def renews_def renewed_def epochTables_def withinWindow_def
    intro!: capabilityRows_rooted)

subsection \<open>Identities of grants\<close>

definition grantsKeyed :: "grant_row list \<Rightarrow> bool" where
  "grantsKeyed rows \<longleftrightarrow> distinct (map grantIdOf rows)"

lemma grantsKeyed_append: "grantsKeyed rows \<Longrightarrow> freshGrants rows new \<Longrightarrow> grantsKeyed (rows @ new)"
  by (auto simp: grantsKeyed_def freshGrants_def)

lemma grantEffect_keyed: "grantEffect pf issue command rows rows' \<Longrightarrow> grantsKeyed rows \<Longrightarrow> grantsKeyed rows'"
proof (cases command)
  case (GrantRevoke i n)
  assume e: "grantEffect pf issue command rows rows'" "grantsKeyed rows"
  have "grantIdOf (if revocable i n row then revokedGrant now q row else row) = grantIdOf row" for row now q
    by (simp add: revokedGrant_def)
  then show ?thesis using e unfolding GrantRevoke by (auto simp: grantsKeyed_def comp_def)
qed (auto simp: grantsKeyed_def issuedGrant_def)

theorem transacts_keyed: "transacts db sv db' \<Longrightarrow> grantsKeyed (db_grants db) \<Longrightarrow> grantsKeyed (db_grants db')"
proof (induction rule: transacts.induct)
  case (transacts_accepted sv input command pf db db')
  then show ?case by (metis accepted_grants grantEffect_keyed)
next
  case (transacts_refused identity action db db' sv)
  then show ?case by (auto simp: refused_def withRecords_def)
qed (auto simp: bootstraps_def bootstrappedTables_def upgrades_def upgraded_def renews_def renewed_def epochTables_def freshEpoch_def
    intro!: grantsKeyed_append)

section \<open>The registry\<close>

definition projectKept :: "registered_project \<Rightarrow> registered_project \<Rightarrow> bool" where
  "projectKept p p' \<longleftrightarrow> rp_projectId p' = rp_projectId p \<and> rp_createdAt p' = rp_createdAt p \<and>
     rp_resourceRevision p \<le> rp_resourceRevision p' \<and> rp_configRevision p \<le> rp_configRevision p' \<and>
     (rp_resourceRevision p' = rp_resourceRevision p \<longrightarrow> p' = p)"

lemma projectKept_refl [simp]: "projectKept p p"
  by (simp add: projectKept_def)

lemma projectKept_trans: "projectKept a b \<Longrightarrow> projectKept b c \<Longrightarrow> projectKept a c"
  by (auto simp: projectKept_def)

lemma replacedProject_grows:
  assumes "rp_projectId project = rp_projectId current" "rp_configRevision project = rp_configRevision current + 1"
    "rp_resourceRevision project = rp_resourceRevision current + 1"
  shows "grows projectKept rows (replacedProject current project rows)"
  unfolding replacedProject_def by (rule grows_map) (use assms in \<open>auto simp: projectKept_def sameRevisions_def\<close>)

lemma projectEffect_grows: "projectEffect pf target command rows rows' \<Longrightarrow> grows projectKept rows rows'"
  by (cases command) (auto simp: nextProject_def intro!: grows_append grows_refl replacedProject_grows)

text \<open>Every Project has an identifier and a root of its own.\<close>

definition projectsKeyed :: "registered_project list \<Rightarrow> bool" where
  "projectsKeyed rows \<longleftrightarrow> distinct (map rp_projectId rows) \<and> distinct (map ri_rootKey rows)"

lemma distinct_replaced:
  assumes "distinct (map key rows)" "distinct (map idOf rows)" "\<And>row. P row \<Longrightarrow> idOf row = i" "\<And>row. P row \<Longrightarrow> key (f row) = k"
    and "k \<notin> key ` {row \<in> set rows. \<not> P row}"
  shows "distinct (map key (map (\<lambda>row. if P row then f row else row) rows))"
  using assms
proof (induction rows)
  case (Cons r rows)
  have "\<not> P s" if "P r" "s \<in> set rows" for s using that Cons.prems(2,3) by (metis distinct.simps(2) image_eqI list.set_map list.simps(9))
  moreover have "distinct (map key (map (\<lambda>row. if P row then f row else row) rows))" using Cons by auto
  ultimately show ?case using Cons.prems(1,4,5) by (auto simp: image_iff split: if_splits)
qed simp

lemma replacedProject_keyed:
  assumes "projectsKeyed rows" "newRoot current project rows" "rp_projectId project = rp_projectId current"
  shows "projectsKeyed (replacedProject current project rows)"
proof -
  let ?f = "\<lambda>row. project\<lparr>rp_createdAt := rp_createdAt row\<rparr>"
  have "map rp_projectId (replacedProject current project rows) = map rp_projectId rows"
    unfolding replacedProject_def using assms(3) by (simp add: sameRevisions_def)
  moreover have "distinct (map ri_rootKey (replacedProject current project rows))"
    unfolding replacedProject_def
    by (rule distinct_replaced [where idOf = rp_projectId and i = "rp_projectId current" and k = "ri_rootKey project"])
      (use assms in \<open>auto simp: projectsKeyed_def newRoot_def sameRevisions_def\<close>)
  ultimately show ?thesis using assms(1) by (simp add: projectsKeyed_def)
qed

lemma projectEffect_keyed: "projectEffect pf target command rows rows' \<Longrightarrow> projectsKeyed rows \<Longrightarrow> projectsKeyed rows'"
  by (cases command)
    (auto intro!: replacedProject_keyed simp: nextProject_def newRoot_def,
     auto simp: projectsKeyed_def newProject_def)

lemma accepted_projects:
  assumes "accepted sv pf command db db'"
  shows "\<exists>target. projectEffect pf target command (db_projects db) (db_projects db')"
  using assms unfolding accepted_def committed_def effect_def withRecords_def by auto

theorem transacts_projects:
  "transacts db sv db' \<Longrightarrow> grows projectKept (db_projects db) (db_projects db') \<and>
    (projectsKeyed (db_projects db) \<longrightarrow> projectsKeyed (db_projects db'))"
proof (induction rule: transacts.induct)
  case (transacts_accepted sv input command pf db db')
  then show ?case by (meson accepted_projects projectEffect_grows projectEffect_keyed)
qed (auto simp: refused_def withRecords_def bootstraps_def bootstrappedTables_def upgrades_def upgraded_def renews_def renewed_def
    epochTables_def intro!: grows_refl)

section \<open>Bootstrap, identity and epochs\<close>

definition epochsNumbered :: "capability_epoch list \<Rightarrow> bool" where
  "epochsNumbered epochs \<longleftrightarrow> map ce_epochRevision epochs = map int [1..<Suc (length epochs)]"

lemma latestEpochRevision_numbered:
  assumes "readState sv db = Inr state" "epochsNumbered (db_epochs db)"
  shows "latestEpochRevision state = int (length (db_epochs db))"
proof -
  have "sorted (map ce_epochRevision (db_epochs db))" using assms(2) by (simp add: epochsNumbered_def sorted_map del: upt_Suc)
  then have s: "st_epochs state = db_epochs db"
    using assms(1) by (auto simp: readState_def ebind_eq_Inr stateOf_def sorted_sort_id sort_key_id_if_sorted split: option.splits)
  show ?thesis
  proof (cases "db_epochs db" rule: rev_cases)
    case (snoc es e)
    then have "ce_epochRevision e = int (Suc (length es))" using assms(2) by (simp add: epochsNumbered_def)
    then show ?thesis using s snoc by (simp add: latestEpochRevision_def latestEpoch_def)
  qed (simp add: s latestEpochRevision_def latestEpoch_def)
qed

definition epochsContinue :: "database \<Rightarrow> database \<Rightarrow> bool" where
  "epochsContinue db db' \<longleftrightarrow> (\<exists>new. db_epochs db' = db_epochs db @ new) \<and> (epochsNumbered (db_epochs db) \<longrightarrow> epochsNumbered (db_epochs db')) \<and>
     (db_bootstrap db \<noteq> None \<longrightarrow> db_bootstrap db' = db_bootstrap db)"

lemma epochsNumbered_snoc:
  "epochsNumbered es \<Longrightarrow> ce_epochRevision e = int (length es) + 1 \<Longrightarrow> epochsNumbered (es @ [e])"
  by (simp add: epochsNumbered_def)

lemma epochTables_continue:
  assumes "readState sv db = Inr state" "n = latestEpochRevision state + 1"
  shows "epochsContinue db (epochTables sv identity root expiresAt epochId grantIds n v action result kind db)"
  using latestEpochRevision_numbered [OF assms(1)] assms(2)
  by (auto simp: epochsContinue_def epochTables_def epochRecord_def intro!: epochsNumbered_snoc)

theorem transacts_epochs: "transacts db sv db' \<Longrightarrow> epochsContinue db db'"
proof (induction rule: transacts.induct)
  case (transacts_accepted sv input command pf db db')
  then show ?case by (auto simp: epochsContinue_def accepted_def committed_def effect_def withRecords_def)
next
  case (transacts_upgrade sv input r db db')
  then show ?case by (auto simp: upgrades_def upgraded_def intro: epochTables_continue)
next
  case (transacts_renewal sv input r db db')
  then show ?case by (auto simp: renews_def renewed_def intro: epochTables_continue)
qed (auto simp: epochsContinue_def refused_def withRecords_def bootstraps_def bootstrappedTables_def)

section \<open>The invariant of a history\<close>

definition ledger :: "database \<Rightarrow> bool" where
  "ledger db \<longleftrightarrow>
     list_all2 answers (db_requests db) (db_audit db) \<and> list_all2 decides (decidedRequests (db_requests db)) (db_decisions db) \<and>
     distinct (map rr_requestId (db_requests db)) \<and> distinct (map ar_auditId (db_audit db)) \<and>
     distinct (map dr_decisionId (db_decisions db))"

lemma recorded_ledger:
  assumes "recorded db db'" "ledger db"
  shows "ledger db'"
proof -
  obtain r a ds where d: "db_requests db' = db_requests db @ [r]" "db_audit db' = db_audit db @ [a]" "db_decisions db' = db_decisions db @ ds"
    "answers r a" "list_all2 decides (decidedRequests [r]) ds"
    "rr_requestId r \<notin> rr_requestId ` set (db_requests db)" "ar_auditId a \<notin> ar_auditId ` set (db_audit db)"
    "dr_decisionId ` set ds \<inter> dr_decisionId ` set (db_decisions db) = {}"
    using assms(1) unfolding recorded_def by blast
  have "length ds \<le> 1" using list_all2_lengthD [OF d(5)] by (simp split: if_splits)
  then have "distinct (map dr_decisionId ds)" by (cases ds) auto
  then have "distinct (map dr_decisionId (db_decisions db'))" using d(3,8) assms(2) by (auto simp: ledger_def)
  with d(1-7) assms(2) show ?thesis unfolding ledger_def by (auto intro!: list_all2_appendI)
qed

definition consistent :: "database \<Rightarrow> bool" where
  "consistent db \<longleftrightarrow> ledger db \<and> grantsKeyed (db_grants db) \<and> rooted (db_grants db) \<and> projectsKeyed (db_projects db) \<and>
     epochsNumbered (db_epochs db)"

definition emptyTables :: "database \<Rightarrow> bool" where
  "emptyTables db \<longleftrightarrow> db_requests db = [] \<and> db_decisions db = [] \<and> db_audit db = [] \<and> db_grants db = [] \<and> db_projects db = [] \<and>
     db_epochs db = []"

lemma transacts_consistent: "consistent db \<Longrightarrow> transacts db sv db' \<Longrightarrow> consistent db'"
  using transacts_recorded [of db sv db'] recorded_ledger transacts_keyed [of db sv db'] transacts_rooted [of db sv db']
    transacts_projects [of db sv db'] transacts_epochs [of db sv db']
  by (auto simp: consistent_def epochsContinue_def)

interpretation histories: inductive_invariant emptyTables transacts consistent
proof
  show "emptyTables db \<Longrightarrow> consistent db" for db
    by (auto simp: emptyTables_def consistent_def ledger_def grantsKeyed_def rooted_def projectsKeyed_def epochsNumbered_def)
qed (rule transacts_consistent)

text \<open>What a later state of the tables keeps of an earlier one.\<close>

definition succeeds :: "database \<Rightarrow> database \<Rightarrow> bool" where
  "succeeds db db' \<longleftrightarrow>
     prefix (db_requests db) (db_requests db') \<and> prefix (db_audit db) (db_audit db') \<and> prefix (db_decisions db) (db_decisions db') \<and>
     grows rowKept (db_grants db) (db_grants db') \<and> grows projectKept (db_projects db) (db_projects db') \<and>
     prefix (db_epochs db) (db_epochs db') \<and> (db_bootstrap db \<noteq> None \<longrightarrow> db_bootstrap db' = db_bootstrap db)"

lemma succeeds_refl: "succeeds db db"
  by (auto simp: succeeds_def intro: grows_refl)

lemma succeeds_trans:
  assumes "succeeds a b" "succeeds b c"
  shows "succeeds a c"
proof -
  have "grows rowKept (db_grants a) (db_grants c)"
    by (rule grows_trans [of rowKept _ "db_grants b"]) (use assms in \<open>auto simp: succeeds_def intro: grantKept_trans\<close>)
  moreover have "grows projectKept (db_projects a) (db_projects c)"
    by (rule grows_trans [of projectKept _ "db_projects b"]) (use assms in \<open>auto simp: succeeds_def intro: projectKept_trans\<close>)
  ultimately show ?thesis using assms unfolding succeeds_def by (auto intro: prefix_order.trans)
qed

lemma transacts_succeeds: "transacts db sv db' \<Longrightarrow> succeeds db db'"
  using transacts_recorded [of db sv db'] transacts_grants [of db sv db'] transacts_projects [of db sv db'] transacts_epochs [of db sv db']
  by (auto simp: succeeds_def recorded_def epochsContinue_def)

theorem history_succeeds: "run transacts db svs db' \<Longrightarrow> consistent db \<Longrightarrow> succeeds db db'"
  by (rule histories.run_rel) (auto intro: succeeds_refl succeeds_trans transacts_succeeds)

section \<open>The stored snapshot\<close>

text \<open>
  Histories simulate the Domain machine: whatever the processes commit, the stored snapshot
  only makes steps of the Domain contract.
\<close>

abbreviation stored :: "(jsstr \<Rightarrow> jsstr) \<Rightarrow> database \<Rightarrow> snapshot \<Rightarrow> bool" where
  "stored nfc db s \<equiv> readDomainSnapshotUntransactional nfc (db_domain db) = Inr s"

lemma accepted_step:
  assumes "accepted sv pf command db db'" "stored (sv_nfc sv) db s"
  shows "stored (sv_nfc sv) db' s \<or> (\<exists>a s'. actionOf command = Some a \<and> domain_step (sv_nfc sv) s a s' \<and> stored (sv_nfc sv) db' s')"
proof -
  obtain state m pm where a: "readState sv db = Inr state" "domainMutation (sv_nfc sv) command state = Inr m"
    "projectDomainMutation (sv_nfc sv) command state (pf_identity pf) = Inr pm"
    "domainEffect (sv_nfc sv) state pm m command (db_domain db) (db_domain db')"
    using assms(1) unfolding accepted_def committed_def effect_def withRecords_def by auto
  have "st_domain state = s" using readState_domain(1) [OF a(1)] assms(2) by simp
  with domainEffect_step [OF readState_domain(1) [OF a(1)] a(2,3,4)] assms(2) show ?thesis by auto
qed

lemma transacts_domain:
  "refused identity action db db' \<Longrightarrow> db_domain db' = db_domain db"
  "bootstraps input r1 db db' \<Longrightarrow> db_domain db' = db_domain db"
  "upgrades sv input r2 db db' \<Longrightarrow> db_domain db' = db_domain db"
  "renews sv input r2 db db' \<Longrightarrow> db_domain db' = db_domain db"
  by (auto simp: refused_def withRecords_def bootstraps_def bootstrappedTables_def upgrades_def upgraded_def renews_def renewed_def
      epochTables_def)

lemma run_here: "stored nfc db s \<Longrightarrow> \<exists>as s'. run (domain_step nfc) s as s' \<and> stored nfc db s'"
  by (meson run_Nil)

lemma transacts_step:
  assumes "transacts db sv db'" "stored (sv_nfc sv) db s"
  shows "\<exists>as s'. run (domain_step (sv_nfc sv)) s as s' \<and> stored (sv_nfc sv) db' s'"
  using assms
proof (induction rule: transacts.induct)
  case (transacts_accepted sv input command pf db db')
  from accepted_step [OF transacts_accepted(2,3)] show ?case
  proof (elim disjE exE conjE)
    fix a s'
    assume "domain_step (sv_nfc sv) s a s'" "stored (sv_nfc sv) db' s'"
    then show ?thesis by (intro exI [of _ "[a]"] exI [of _ s']) (auto simp: run_Cons_simp)
  qed (rule run_here)
qed (auto simp: transacts_domain intro: run_Nil)

theorem history_simulates:
  assumes "run transacts db svs db'" "\<forall>sv\<in>set svs. sv_nfc sv = nfc" "stored nfc db s"
  shows "\<exists>as s'. run (domain_step nfc) s as s' \<and> stored nfc db' s'"
  using assms
proof (induction arbitrary: s rule: run.induct)
  case (run_Cons db sv db1 svs db')
  have nfc: "sv_nfc sv = nfc" using run_Cons.prems(1) by simp
  obtain as s1 where 1: "run (domain_step nfc) s as s1" "stored nfc db1 s1"
    using transacts_step [OF run_Cons(1), of s] run_Cons.prems(2) unfolding nfc by blast
  obtain bs s' where 2: "run (domain_step nfc) s1 bs s'" "stored nfc db' s'"
    using run_Cons.IH [of s1] run_Cons.prems(1) 1(2) by auto
  have "run (domain_step nfc) s (as @ bs) s'" unfolding run_append using 1(1) 2(1) by blast
  then show ?case using 2(2) by blast
qed (rule run_here)

end
