(* ===== verification/Application_Example.thy ===== *)
theory Application_Example
  imports Application_History Domain_Example
begin

text \<open>
  A concrete service and concrete tables on which the properties of the application layer are
  evaluated: an initialized runtime whose administrator may register a Project, an ingress that
  confirms and numbers its identifiers, and a file system of plain directories.
\<close>

definition demoFiles :: filesystem where
  "demoFiles = \<lparr>fs_platform = lit ''linux'', fs_cwd = lit ''/'',
     fs_lstat = (\<lambda>p. Inr \<lparr>fs_isDirectory = True, fs_isSymbolicLink = False, fs_dev = 1, fs_ino = length p, fs_mode = 448\<rparr>),
     fs_realpath = (\<lambda>p. Inr p)\<rparr>"

definition demoIngress :: "nat ingress" where
  "demoIngress = \<lparr>
     ig_currentActor = (\<lambda>e. (Some (jsObj [(''actorId'', JStr (lit ''admin'')), (''principal'', JStr (replicate 64 65))]), e)),
     ig_now = (\<lambda>e. (Some (JStr (lit ''2026-01-01T00:00:00.000Z'')), e)),
     ig_nextId = (\<lambda>kind e. (Some (JStr (replicate (Suc e) 65)), Suc e)),
     ig_confirmHighRisk = (\<lambda>r e. (Some (JBool True), e))\<rparr>"

definition demoService :: "nat service" where
  "demoService = \<lparr>sv_ingress = demoIngress, sv_files = (\<lambda>e. (demoFiles, e)), sv_root = lit ''/srv'', sv_schemaVersion = 1,
     sv_before = (\<lambda>db e. (None, (db, e))), sv_after = (\<lambda>name e. (None, e)), sv_open = (\<lambda>e. None), sv_writable = (\<lambda>e. None),
     sv_check = (\<lambda>db. None), sv_stateSha256 = (\<lambda>s. replicate 64 66), sv_sha256 = (\<lambda>s. replicate 64 67), sv_nfc = (\<lambda>s. s)\<rparr>"

definition noSnapshot :: snapshot where
  "noSnapshot = \<lparr>s_projects = [], s_tasks = []\<rparr>"

definition noTables :: database where
  "noTables = \<lparr>db_domain = tablesOf noSnapshot, db_projects = [], db_bootstrap = None,
    db_identity = None, db_grants = [], db_epochs = [], db_requests = [], db_decisions = [], db_audit = [], db_lifecycle = [],
    db_sequences = [], db_executions = [], db_intents = [], db_terminals = [], db_manualTurns = [], db_schedulerDecisionTimes = []\<rparr>"

definition demoRoot :: project_root_identity where
  "demoRoot = \<lparr>ri_canonicalRoot = lit ''/srv'', ri_rootKey = lit ''/srv'', ri_platform = lit ''linux'', ri_device = lit ''1'',
     ri_inode = lit ''4'', ri_mode = 448\<rparr>"

definition demoIdentity :: operation_identity where
  "demoIdentity = \<lparr>oi_actor = \<lparr>ta_actorId = lit ''admin'', ta_principal = replicate 64 65\<rparr>,
     oi_now = lit ''2026-01-01T00:00:00.000Z'', oi_requestId = lit ''r'', oi_correlationId = lit ''c'',
     oi_decisionId = lit ''d'', oi_auditId = lit ''u''\<rparr>"

definition demoTables :: database where
  "demoTables = noTables\<lparr>db_bootstrap := Some (bootstrapRecord demoIdentity demoRoot (lit ''2026-01-20T00:00:00.000Z'')),
     db_identity := Some (localIdentityRecord demoIdentity demoRoot),
     db_grants := [capabilityGrant demoIdentity (lit ''2026-01-20T00:00:00.000Z'') None ''project.register'' (lit ''g'')]\<rparr>"

definition demoRegister :: jsval where
  "demoRegister = jsObj [(''kind'', JStr (lit ''project.register'')), (''projectId'', JStr (lit ''p'')), (''root'', JStr (lit ''/work''))]"

text \<open>The administrator registers a Project; the whole operation is evaluated.\<close>

lemma demo_registers: "case fst (execute demoService demoRegister (demoTables, 0)) of Returns r \<Rightarrow> True | _ \<Rightarrow> False"
  by code_simp

lemma demo_run: "\<exists>r db' e'. execute demoService demoRegister (demoTables, 0) = (Returns r, (db', e'))"
  using demo_registers
  by (cases "execute demoService demoRegister (demoTables, 0)"; cases "fst (execute demoService demoRegister (demoTables, 0))") auto

lemma demo_others: "others demoService db db1 \<Longrightarrow> db1 = db"
  by (auto simp: others_def demoService_def)

lemma demo_nfc [simp]: "sv_nfc demoService = (\<lambda>s. s)"
  by (simp add: demoService_def)

lemma noSnapshot_stored: "stored (\<lambda>s. s) noTables noSnapshot" "stored (\<lambda>s. s) demoTables noSnapshot"
  by (simp_all add: noTables_def demoTables_def tablesOf_def noSnapshot_def) (code_simp)+

text \<open>It is a step of a history.\<close>

lemma demo_transacts: "\<exists>db'. transacts demoTables demoService db'
    \<and> length (db_requests db') = 1 \<and> tablesAfter demoService (CallExecute demoRegister) demoTables 0 = db'"
proof -
  obtain r db' e' where run: "execute demoService demoRegister (demoTables, 0) = (Returns r, (db', e'))" using demo_run by blast
  then obtain db1 command pf where o: "others demoService demoTables db1" and a: "accepted demoService pf command db1 db'"
    and c: "parseCommand (sv_nfc demoService) demoRegister = Some command"
    using served_execute [of demoService demoRegister demoTables, unfolded served_def] by fastforce
  have "transacts demoTables demoService db'" using transacts_accepted [OF c a] demo_others [OF o] by simp
  moreover have "recorded demoTables db'" using accepted_recorded [OF a] demo_others [OF o] by simp
  then have "length (db_requests db') = 1" by (auto simp: recorded_def demoTables_def noTables_def)
  ultimately show ?thesis using run by simp
qed

end
