(* ===== verification/Application_Listing.thy ===== *)
theory Application_Listing
  imports Application_Domain
begin

text \<open>
  The listing of grants (\<^verbatim>\<open>outputFor\<close>, \<open>authorization.grant.list\<close>): a client that follows the
  cursor from page to page reads every grant of the local actor once, in the order of the
  identifiers, and comes to an end.
\<close>

definition listingActor :: "application_state \<Rightarrow> jsstr" where
  "listingActor state = (case st_identity state of Some local \<Rightarrow> li_actorId local
     | None \<Rightarrow> (case st_bootstrap state of Some boot \<Rightarrow> ab_actorId boot | None \<Rightarrow> []))"

definition listedGrants :: "application_state \<Rightarrow> authorization_grant list" where
  "listedGrants state = sort_key g_grantId (filter (\<lambda>g. g_actorId g = listingActor state) (st_grants state))"

text \<open>The pages that a client reads, at most \<open>n\<close> of them.\<close>

fun pages :: "nat \<Rightarrow> application_state \<Rightarrow> int \<Rightarrow> jsstr option \<Rightarrow> authorization_grant list option" where
  "pages 0 state limit cursor = None"
| "pages (Suc n) state limit cursor =
     (case grantPage state limit cursor of
        GrantListOutput grants None \<Rightarrow> Some grants
      | GrantListOutput grants (Some next_cursor) \<Rightarrow> map_option ((@) grants) (pages n state limit (Some next_cursor))
      | _ \<Rightarrow> None)"

definition remaining :: "application_state \<Rightarrow> jsstr option \<Rightarrow> authorization_grant list" where
  "remaining state cursor =
     filter (\<lambda>g. case cursor of None \<Rightarrow> True | Some c \<Rightarrow> c < g_grantId g) (listedGrants state)"

lemma grantPage_remaining:
  "grantPage state limit cursor =
     GrantListOutput (take (nat limit) (remaining state cursor))
       (if int (length (remaining state cursor)) > limit
        then map_option g_grantId (lastOption (take (nat limit) (remaining state cursor))) else None)"
  by (simp add: grantPage_def remaining_def listedGrants_def listingActor_def filter_sort Let_def conj_commute
      cong: option.case_cong)

lemma listedGrants_sorted:
  assumes "distinct (map g_grantId (st_grants state))"
  shows "sorted_wrt (\<lambda>a b. g_grantId a < g_grantId b) (listedGrants state)"
proof -
  have "distinct (map g_grantId (listedGrants state))"
    using assms by (simp add: listedGrants_def distinct_map_filter)
  moreover have "sorted (map g_grantId (listedGrants state))" by (simp add: listedGrants_def)
  ultimately have "sorted_wrt (<) (map g_grantId (listedGrants state))" by (simp add: strict_sorted_iff)
  then show ?thesis by (simp add: sorted_wrt_map)
qed

lemma filter_after_take:
  fixes key :: "'a \<Rightarrow> 'k::linorder"
  assumes "sorted_wrt (\<lambda>a b. key a < key b) xs" "0 < k" "k \<le> length xs"
  shows "filter (\<lambda>x. key (last (take k xs)) < key x) xs = drop k xs"
proof -
  let ?l = "last (take k xs)"
  have s: "sorted_wrt (\<lambda>a b. key a < key b) (take k xs @ drop k xs)" using assms(1) by simp
  have ne: "take k xs \<noteq> []" using assms(2,3) by auto
  have "\<not> key ?l < key x" if "x \<in> set (take k xs)" for x
  proof -
    have split: "take k xs = butlast (take k xs) @ [?l]" using ne by simp
    have "sorted_wrt (\<lambda>a b. key a < key b) (butlast (take k xs) @ [?l])"
      using sorted_wrt_take [OF assms(1), of k] split by simp
    moreover have "x \<in> set (butlast (take k xs) @ [?l])" using that split by simp
    ultimately show ?thesis by (auto simp: sorted_wrt_append)
  qed
  moreover have "key ?l < key x" if "x \<in> set (drop k xs)" for x
    using s that last_in_set [OF ne] unfolding sorted_wrt_append by blast
  ultimately have "filter (\<lambda>x. key ?l < key x) (take k xs) = []" "filter (\<lambda>x. key ?l < key x) (drop k xs) = drop k xs"
    by (auto simp: filter_empty_conv intro!: filter_True)
  then show ?thesis by (metis append_Nil append_take_drop_id filter_append)
qed

lemma remaining_after:
  assumes "g \<in> set (remaining state cursor)"
  shows "remaining state (Some (g_grantId g)) = filter (\<lambda>h. g_grantId g < g_grantId h) (remaining state cursor)"
  using assms by (cases cursor) (auto simp: remaining_def intro!: filter_cong)

lemma remaining_next:
  assumes "distinct (map g_grantId (st_grants state))" "0 < k" "k < length (remaining state cursor)"
  shows "remaining state (Some (g_grantId (last (take k (remaining state cursor))))) = drop k (remaining state cursor)"
proof -
  let ?r = "remaining state cursor"
  have s: "sorted_wrt (\<lambda>a b. g_grantId a < g_grantId b) ?r"
    unfolding remaining_def using listedGrants_sorted [OF assms(1)] by (rule sorted_wrt_filter)
  have "take k ?r \<noteq> []" using assms(2,3) by auto
  then have "last (take k ?r) \<in> set ?r" by (meson in_set_takeD last_in_set)
  from remaining_after [OF this] show ?thesis using filter_after_take [OF s assms(2)] assms(3) by simp
qed

theorem pages_remaining:
  assumes "distinct (map g_grantId (st_grants state))" "1 \<le> limit" "length (remaining state cursor) < n"
  shows "pages n state limit cursor = Some (remaining state cursor)"
  using assms(3)
proof (induction n arbitrary: cursor)
  case (Suc n)
  let ?r = "remaining state cursor" and ?k = "nat limit"
  show ?case
  proof (cases "int (length ?r) > limit")
    case True
    then have k: "0 < ?k" "?k < length ?r" using assms(2) by auto
    then have "take ?k ?r \<noteq> []" by auto
    moreover have "pages n state limit (Some (g_grantId (last (take ?k ?r)))) = Some (drop ?k ?r)"
      using Suc.IH [of "Some (g_grantId (last (take ?k ?r)))"] Suc.prems k by (simp add: remaining_next [OF assms(1) k])
    ultimately show ?thesis using True by (simp add: grantPage_remaining lastOption_def)
  qed (use assms(2) in \<open>simp add: grantPage_remaining\<close>)
qed simp

end
