(* ===== verification/Application_Properties.thy ===== *)
theory Application_Properties
  imports Application_Example Application_Listing
begin

text \<open>
  The properties of the application service: what an execution does on every outcome, what
  its success presupposes, and what every history of committed transactions keeps.
\<close>

section \<open>Execution\<close>


text \<open>
  C7: No success without authority: when a command succeeds, the state that its transaction read
  held a grant of the actor that the ingress named, for this action, in force at the time of the
  operation on the target of the command; policy did not deny it, the revisions that the command
  expects were current, the runtime root is the one that was bootstrapped, and for a high-risk
  action the ingress confirmed this very request.
\<close>

theorem execute_authorized:
  assumes "execute sv input (db, e) = (Returns r, (db', e'))"
  shows "\<exists>db1 state command pf target boot. others sv db db1 \<and> readState sv db1 = Inr state \<and>
    parseCommand (sv_nfc sv) input = Some command \<and> preflightedFor sv command pf \<and> targetForCommand command state = Inr target \<and>
    granted (pf_identity pf) (commandKind command) target state (pf_confirmed pf) \<and> revisionsCurrent state command \<and>
    st_bootstrap state = Some boot \<and> sameRootIdentity boot (pf_runtime pf)"
proof -
  obtain db1 command pf where a: "others sv db db1" "parseCommand (sv_nfc sv) input = Some command" "preflighted sv command db pf"
    "accepted sv pf command db1 db'"
    using served_execute [of sv input db, unfolded served_def, rule_format, OF assms] by auto
  then obtain state boot target authorization where "readState sv db1 = Inr state" "st_bootstrap state = Some boot"
    "sameRootIdentity boot (pf_runtime pf)" "targetForCommand command state = Inr target" "revisionsCurrent state command"
    "authorizeCommand (pf_identity pf) command target state (pf_confirmed pf) = Inr authorization"
    "ae_allowed (ca_evaluation authorization)"
    unfolding accepted_def by (elim exE conjE) (rule that)
  with a show ?thesis using authorizeCommand_granted preflighted_for by blast
qed

theorem execute_authorized_witness:
  "\<exists>db1 state command (pf :: preflight_facts) (target :: bound_target). others demoService demoTables db1 \<and>
    readState demoService db1 = Inr state \<and> targetForCommand command state = Inr target \<and>
    granted (pf_identity pf) (commandKind command) target state (pf_confirmed pf)"
proof -
  obtain r db' e' where "execute demoService demoRegister (demoTables, 0) = (Returns r, (db', e'))" using demo_run by blast
  from execute_authorized [OF this] show ?thesis by blast
qed

text \<open>
  The stored Domain snapshot refines the Domain machine: through any sequence of committed
  transactions, of any number of processes in any order, the snapshot read from the tables only
  makes steps of the Domain contract.
\<close>

theorem history_refines_domain:
  assumes "run transacts db svs db'" and "\<forall>sv\<in>set svs. sv_nfc sv = nfc"
    and "readDomainSnapshotUntransactional nfc (db_domain db) = Inr s"
  shows "\<exists>as s'. run (domain_step nfc) s as s' \<and> readDomainSnapshotUntransactional nfc (db_domain db') = Inr s'"
  by (rule history_simulates [OF assms])

theorem history_refines_domain_witness:
  "\<exists>db' as s'. run transacts demoTables [demoService] db' \<and> length (db_requests db') = 1 \<and> run (domain_step (\<lambda>s. s)) noSnapshot as s' \<and>
    readDomainSnapshotUntransactional (\<lambda>s. s) (db_domain db') = Inr s'"
proof -
  obtain db' where "transacts demoTables demoService db'" "length (db_requests db') = 1" using demo_transacts by blast
  then have "run transacts demoTables [demoService] db'" by (simp add: run_Cons_simp)
  with history_refines_domain [OF this _ noSnapshot_stored(2)] \<open>length (db_requests db') = 1\<close> show ?thesis by auto
qed

text \<open>
  Every operation of the service is atomic: on the tables that it finds at its transaction,
  it changes nothing or makes one step of a history.
\<close>

theorem operations_atomic:
  "\<exists>db1. others sv db db1 \<and> (tablesAfter sv call db e = db1 \<or> transacts db1 sv (tablesAfter sv call db e))"
  by (rule operations_serialize)

text \<open>
  A history only adds: requests, audit events, decisions and epochs are appended; grants and
  Projects are never removed, keep what identifies them, and change only under a higher
  revision; a revoked grant never changes again; the bootstrap stays.
\<close>

theorem history_keeps:
  assumes "run transacts db svs db'"
  shows "succeeds db db'"
  using assms by (induction rule: run.induct) (auto intro: succeeds_refl succeeds_trans transacts_succeeds)

theorem history_keeps_witness:
  "\<exists>db'. run transacts demoTables [demoService] db' \<and> succeeds demoTables db' \<and> db_grants demoTables \<noteq> []"
proof -
  obtain db' where "transacts demoTables demoService db'" using demo_transacts by blast
  then have "run transacts demoTables [demoService] db'" by (simp add: run_Cons_simp)
  with history_keeps [OF this] show ?thesis by (auto simp: demoTables_def)
qed

text \<open>
  In every history from empty tables, each request is answered by one audit event and, but for
  the bootstrap, by one decision that agree with it; identities are unique; epochs are numbered
  1, 2, 3, \<dots>; and every grant lies, for its action and its time, within a capability grant that
  was confirmed for at most 31 days.
\<close>

theorem history_consistent:
  assumes "emptyTables db" and "run transacts db svs db'"
  shows "consistent db'"
  by (rule histories.run_inv [OF assms(2) histories.inv_init [OF assms(1)]])

theorem history_consistent_witness:
  "\<exists>db'. run transacts noTables [demoService] db' \<and> consistent db' \<and> length (db_audit db') = 1"
proof -
  let ?denied = "deniedRecords demoIdentity ''runtime.status'' runtimeTarget (staleEvaluation PolicyAllow) noTables"
  have "freshRecords demoIdentity noTables" by (simp add: freshRecords_def freshRequest_def noTables_def)
  then have "refused demoIdentity ''runtime.status'' noTables ?denied"
    unfolding refused_def using staleEvaluation_denied by blast
  then have "run transacts noTables [demoService] ?denied"
    by (auto simp: run_Cons_simp intro: transacts_refused)
  moreover have "emptyTables noTables" by (simp add: emptyTables_def noTables_def)
  ultimately show ?thesis using history_consistent
    by (intro exI [of _ ?denied]) (auto simp: withRecords_def noTables_def)
qed


section \<open>Capabilities\<close>

text \<open>
  C27: Bootstrap succeeds only on a runtime without a bootstrap, for an expiry after now and at most
  31 days away, and then writes exactly the bootstrap, the local identity, one grant on the whole
  runtime for each base action, one request and one audit event; otherwise nothing changes.
\<close>

theorem bootstrap_once:
  "case bootstrap sv input (db, e) of
     (Returns r, (db', e')) \<Rightarrow>
       \<exists>identity root expiresAt grantIds maximum. parseBootstrap input = Some expiresAt \<and> oi_now identity < expiresAt \<and>
         shiftTimestamp (oi_now identity) (days 31) = Some maximum \<and> expiresAt \<le> maximum \<and> db_bootstrap db = None \<and>
         distinct grantIds \<and> length grantIds = length BASE_AUTHORIZATION_ACTIONS \<and>
         db' = bootstrappedTables identity root expiresAt grantIds db
   | (out, (db', e')) \<Rightarrow> db' = db"
proof -
  obtain out db' e' where run: "bootstrap sv input (db, e) = (out, (db', e'))" by (metis prod.exhaust)
  from served_bootstrap [of input sv db, unfolded served_def, rule_format, OF this] show ?thesis
    unfolding run bootstraps_def by (cases out) (simp_all, metis)
qed

text \<open>
  C28: A successful upgrade opens the next epoch with the next vocabulary, a successful renewal the
  next epoch with the same vocabulary: for an expiry more than 7 and at most 31 days away, with
  one grant on the whole runtime for each action of the vocabulary, on the state that the
  assessment was made on. Otherwise nothing changes.
\<close>

theorem epochs_advance:
  "\<exists>db1. others sv db db1 \<and>
     (case upgrade sv input (db, e) of (Returns r, (db', e')) \<Rightarrow> upgrades sv input r db1 db' | (out, (db', e')) \<Rightarrow> db' = db1) \<and>
   (\<exists>db2. others sv db db2 \<and>
     (case renew sv input (db, e) of (Returns r, (db', e')) \<Rightarrow> renews sv input r db2 db' | (out, (db', e')) \<Rightarrow> db' = db2))"
proof -
  obtain out1 db1 e1 where 1: "upgrade sv input (db, e) = (out1, (db1, e1))" by (metis prod.exhaust)
  obtain out2 db2 e2 where 2: "renew sv input (db, e) = (out2, (db2, e2))" by (metis prod.exhaust)
  from served_upgrade [of sv input db, unfolded served_def, rule_format, OF 1]
    served_renew [of sv input db, unfolded served_def, rule_format, OF 2]
  show ?thesis unfolding 1 2 by (cases out1; cases out2) auto
qed

lemma accepted_lifecycle:
  assumes "accepted sv pf command db db'"
  shows "\<exists>evaluated ls request. db_lifecycle db' = db_lifecycle db @ ls \<and>
    lifecycleEffect pf command evaluated (gr_grant ` set (db_grants db')) ls \<and>
    db_requests db' = db_requests db @ [request] \<and> rr_requestId request = oi_requestId (pf_identity pf)"
proof -
  obtain state target evaluated issue pm m where "committed sv pf command state target evaluated issue pm m db db'"
    using assms unfolding accepted_def by blast
  then obtain db1 ls where db1: "effect sv pf target issue state pm m command db db1"
    "lifecycleEffect pf command evaluated (gr_grant ` set (db_grants db1)) ls"
    "db' = (withRecords (pf_identity pf) (commandKind command) target RequestAllow evaluated (auditKind command) True
       ''accepted'' db1)\<lparr>db_lifecycle := db_lifecycle db1 @ ls\<rparr>"
    unfolding committed_def by blast
  moreover have "db_lifecycle db1 = db_lifecycle db" "db_requests db1 = db_requests db"
    using db1(1) by (auto simp: effect_def)
  ultimately show ?thesis
    by (intro exI [of _ evaluated] exI [of _ ls]) (simp add: withRecords_def requestRecord_def)
qed

text \<open>
  C29: A backup or a restore that succeeds leaves one lifecycle authorization, bound to its request,
  that expires within five minutes of the operation and not after the grant it rests on, which
  is not revoked; no other command leaves one.
\<close>

theorem lifecycle_bounded:
  "case execute sv input (db, e) of
     (Returns r, (db', e')) \<Rightarrow>
       \<exists>db1 command pf evaluated ls request. others sv db db1 \<and> parseCommand (sv_nfc sv) input = Some command \<and>
         preflightedFor sv command pf \<and> db_lifecycle db' = db_lifecycle db1 @ ls \<and>
         lifecycleEffect pf command evaluated (gr_grant ` set (db_grants db')) ls \<and>
         db_requests db' = db_requests db1 @ [request] \<and> rr_requestId request = oi_requestId (pf_identity pf)
   | (out, (db', e')) \<Rightarrow> True"
proof -
  obtain out db' e' where run: "execute sv input (db, e) = (out, (db', e'))" by (metis prod.exhaust)
  show ?thesis
  proof (cases out)
    case (Returns r)
    then obtain db1 command pf where a: "others sv db db1" "parseCommand (sv_nfc sv) input = Some command"
      "preflighted sv command db pf" "accepted sv pf command db1 db'"
      using served_execute [of sv input db, unfolded served_def, rule_format, OF run] by auto
    with accepted_lifecycle [OF a(4)] preflighted_for [OF a(3)] show ?thesis unfolding run Returns prod.case outcome.case by blast
  qed (simp_all add: run)
qed

text \<open>
  C30: A cancellation that changes Tasks of other Projects than its own succeeds only under a grant
  of the actor on the whole runtime.
\<close>

theorem cancel_across_projects:
  "case (parseCommand (sv_nfc sv) input, execute sv input (db, e)) of
     (Some (TaskCancel p n i k reason), (Returns r, (db', e'))) \<Rightarrow>
       \<exists>db1 state pf m ids. others sv db db1 \<and> readState sv db1 = Inr state \<and> preflightedFor sv (TaskCancel p n i k reason) pf \<and>
         domainMutation (sv_nfc sv) (TaskCancel p n i k reason) state = Inr (Some m) \<and> affectedProjectIds m = Inr ids \<and>
         (ids = [p] \<or>
          (\<exists>g. g \<in> set (st_grants state) \<and> as_kind (g_scope g) = RuntimeScope \<and> g_actorId g = ta_actorId (oi_actor (pf_identity pf)) \<and>
             g_action g = lit ''task.cancel'' \<and> g_revokedAt g = None \<and> g_notBefore g \<le> oi_now (pf_identity pf) \<and>
             oi_now (pf_identity pf) < g_expiresAt g))
   | _ \<Rightarrow> True"
proof -
  obtain out db' e' where run: "execute sv input (db, e) = (out, (db', e'))" by (metis prod.exhaust)
  have "\<exists>db1 state pf m ids. others sv db db1 \<and> readState sv db1 = Inr state \<and> preflightedFor sv (TaskCancel p n i k reason) pf \<and>
       domainMutation (sv_nfc sv) (TaskCancel p n i k reason) state = Inr (Some m) \<and> affectedProjectIds m = Inr ids \<and>
       (ids = [p] \<or> (\<exists>g. g \<in> set (st_grants state) \<and> as_kind (g_scope g) = RuntimeScope \<and>
         g_actorId g = ta_actorId (oi_actor (pf_identity pf)) \<and> g_action g = lit ''task.cancel'' \<and> g_revokedAt g = None \<and>
         g_notBefore g \<le> oi_now (pf_identity pf) \<and> oi_now (pf_identity pf) < g_expiresAt g))"
    if c: "parseCommand (sv_nfc sv) input = Some (TaskCancel p n i k reason)" "out = Returns r" for p n i k reason r
  proof -
    obtain db1 pf where "others sv db db1" "preflighted sv (TaskCancel p n i k reason) db pf"
      "accepted sv pf (TaskCancel p n i k reason) db1 db'"
      using served_execute [of sv input db, unfolded served_def, rule_format, OF run] c by auto
    with accepted_cancel [OF this(3)] preflighted_for [OF this(2)] show ?thesis unfolding Bex_def by blast
  qed
  then show ?thesis unfolding run by (auto split: option.split application_command.split outcome.split)
qed

section \<open>Listing\<close>

text \<open>
  C31: Following the cursor through the pages of the grant listing ends and reads every grant of
  the local actor exactly once, in the order of the identifiers.
\<close>

theorem grant_listing_complete:
  assumes "distinct (map g_grantId (st_grants state))" and "1 \<le> limit"
  shows "pages (Suc (length (listedGrants state))) state limit None = Some (listedGrants state)"
  using pages_remaining [OF assms, of None "Suc (length (listedGrants state))"] by (simp add: remaining_def)

definition demoListing :: application_state where
  "demoListing = (stateOf noSnapshot demoTables)\<lparr>st_grants :=
     [gr_grant (capabilityGrant demoIdentity (lit ''2026-01-20T00:00:00.000Z'') None ''project.register'' (lit ''h'')),
      gr_grant (capabilityGrant demoIdentity (lit ''2026-01-20T00:00:00.000Z'') None ''runtime.status'' (lit ''g''))]\<rparr>"

theorem grant_listing_complete_witness:
  "pages (Suc (length (listedGrants demoListing))) demoListing 1 None = Some (listedGrants demoListing) \<and>
    map g_grantId (listedGrants demoListing) = [lit ''g'', lit ''h'']"
proof
  have "distinct (map g_grantId (st_grants demoListing))" by code_simp
  then show "pages (Suc (length (listedGrants demoListing))) demoListing 1 None = Some (listedGrants demoListing)"
    by (rule grant_listing_complete) simp
  show "map g_grantId (listedGrants demoListing) = [lit ''g'', lit ''h'']" by code_simp
qed

end
