(* ===== verification/Repository_Properties.thy ===== *)
theory Repository_Properties
  imports Repository_Commit Domain_Example Project_Registry Js_Date_Format
begin

text \<open>
  The properties of the Domain repository, of the project registry and of the timestamps that
  the services exchange.
\<close>

section \<open>The example as rows\<close>

lemma bindProject_demo: "bindProject \<lparr>p_id = lit ''p'', p_enabled = True\<rparr> = (SqlText (lit ''p''), SqlInteger 1)"
  by code_simp

lemma demo_storable: "storable demo"
  by (simp add: storable_def storableTask_def storableId_def demo_defs, code_simp)

lemma dependency_rows: "set (tb_dependencies (tablesOf s)) = edgeRows (set (s_tasks s))"
  unfolding tablesOf_def edgeRows_def by fastforce

lemma represents_tablesOf:
  assumes "distinct (map c_task_id (tb_tasks (tablesOf s)))" and "distinct (tb_dependencies (tablesOf s))"
    and "distinct (map fst (tb_projects (tablesOf s)))"
  shows "represents (tablesOf s) s"
  using assms dependency_rows [of s] by (simp add: represents_def holds_def tablesOf_def)

lemma demo_represents: "represents (tablesOf demo) demo"
  by (rule represents_tablesOf) code_simp+

text \<open>The ready Task of the example gets a new text.\<close>

definition demoEdited :: snapshot where
  "demoEdited = demo\<lparr>s_tasks := [demoDone, demoReady\<lparr>t_body := lit ''new'', t_revision := 3\<rparr>]\<rparr>"

lemmas demoEdited_defs = demoEdited_def demo_defs

lemma demoEdited_changed: "changedTaskIds demo demoEdited = Inr [lit ''b'']"
  by code_simp

lemma demoEdited_wf: "wf_snapshot (\<lambda>s. s) demoEdited"
proof -
  have "parentRel (s_tasks demoEdited) = {}"
    by (auto simp: parentRel_def demoEdited_defs)
  moreover have "depRel (s_tasks demoEdited) \<subseteq> {(lit ''b'', lit ''a'')}"
    by (auto simp: depRel_def demoEdited_defs)
  then have "acyclic (depRel (s_tasks demoEdited))"
    by (rule acyclic_mono [rotated]) (simp add: acyclic_insert_iff)
  ultimately show ?thesis
    unfolding wf_snapshot_in_def
    by (simp add: demoEdited_defs wf_task_def wf_references_def facts_of_state_def wf_revision_def MAX_SAFE_INTEGER_def
        wf_project_def wf_completion_def)
qed

lemma demoEdited_storable: "storable demoEdited"
  by (simp add: storable_def storableTask_def storableId_def demoEdited_defs, code_simp)

section \<open>The Domain repository\<close>

text \<open>
  C32: A Domain mutation is stored: on tables that hold the expected snapshot, writing a valid
  and storable successor with the Tasks it changes succeeds, and the tables then hold it.
\<close>

theorem mutation_commits:
  assumes "represents tb s" and "tb_initialized tb" and "wf_snapshot nfc s" and "storable s"
    and "wf_snapshot nfc s'" and "storable s'" and "s_projects s' = s_projects s"
    and "changedTaskIds s s' = Inr changed" and "changed \<noteq> []"
  shows "\<exists>tb'. writeDomainMutationUntransactional nfc tb s \<lparr>m_snapshot = s', m_changedTaskIds = changed\<rparr> = Inr tb' \<and>
    represents tb' s'"
  using write_commits [OF assms] by blast

theorem mutation_commits_witness:
  "\<exists>tb'. writeDomainMutationUntransactional (\<lambda>s. s) (tablesOf demo) demo
      \<lparr>m_snapshot = demoEdited, m_changedTaskIds = [lit ''b'']\<rparr> = Inr tb' \<and> represents tb' demoEdited"
  by (rule mutation_commits [OF demo_represents _ demo_wf demo_storable demoEdited_wf demoEdited_storable _ demoEdited_changed])
    (simp_all add: tablesOf_def demoEdited_def)

text \<open>
  C33: What the tables hold is what is read: rows that represent a valid, storable snapshot are
  decoded to exactly that snapshot, whatever order the rows are in.
\<close>

theorem tables_roundtrip:
  assumes "represents tb s" and "wf_snapshot nfc s" and "storable s"
  shows "readDomainSnapshotUntransactional nfc tb = Inr s"
  by (rule read_represents [OF assms])

theorem tables_roundtrip_witness: "readDomainSnapshotUntransactional (\<lambda>s. s) (tablesOf demo) = Inr demo"
  by (rule tables_roundtrip [OF demo_represents demo_wf demo_storable])

text \<open>
  C34: A lost update is refused: if the tables hold another snapshot than the one the mutation was
  made from, the write ends with \<open>REVISION_CONFLICT\<close>.
\<close>

theorem stale_write_conflicts:
  assumes "represents tb stored" and "wf_snapshot nfc stored" and "storable stored" and "tb_initialized tb"
    and "wf_snapshot nfc s" and "wf_snapshot nfc s'" and "stored \<noteq> s" and "s_projects s' = s_projects s"
    and "changedTaskIds s s' = Inr changed" and "changed \<noteq> []"
  shows "\<exists>message. writeDomainMutationUntransactional nfc tb s \<lparr>m_snapshot = s', m_changedTaskIds = changed\<rparr> =
    Inl (PersistenceError REVISION_CONFLICT message)"
  by (rule write_conflict [OF assms])

text \<open>The Task that another process has edited in the meantime.\<close>

definition demoOther :: snapshot where
  "demoOther = demo\<lparr>s_tasks := [demoDone]\<rparr>"

lemma demoOther_ok: "wf_snapshot (\<lambda>s. s) demoOther" "storable demoOther" "represents (tablesOf demoOther) demoOther"
proof -
  have "parentRel (s_tasks demoOther) = {}" "depRel (s_tasks demoOther) = {}"
    by (auto simp: parentRel_def depRel_def demoOther_def demo_defs)
  then show "wf_snapshot (\<lambda>s. s) demoOther"
    using demo_wf unfolding wf_snapshot_in_def
    by (simp add: demoOther_def demo_defs wf_task_def wf_references_def facts_of_state_def wf_revision_def MAX_SAFE_INTEGER_def
        wf_project_def wf_completion_def)
  show "storable demoOther" using demo_storable by (simp add: storable_def demoOther_def demo_def)
  show "represents (tablesOf demoOther) demoOther"
    by (rule represents_tablesOf) code_simp+
qed

theorem stale_write_conflicts_witness:
  "\<exists>message. writeDomainMutationUntransactional (\<lambda>s. s) (tablesOf demoOther) demo
      \<lparr>m_snapshot = demoEdited, m_changedTaskIds = [lit ''b'']\<rparr> = Inl (PersistenceError REVISION_CONFLICT message)"
  by (rule stale_write_conflicts [OF demoOther_ok(3,1,2) _ demo_wf demoEdited_wf _ _ demoEdited_changed])
    (simp_all add: tablesOf_def demoEdited_def demoOther_def demo_def)

section \<open>Project roots\<close>


section \<open>Timestamps\<close>

text \<open>
  C36: The timestamps that the program accepts are exactly the texts that
  \<open>Date.prototype.toISOString\<close> produces.
\<close>

theorem timestamp_exact: "timestamp (JStr v) \<longleftrightarrow> (\<exists>ms. toISOString ms = Some v)"
proof
  assume "timestamp (JStr v)"
  then show "\<exists>ms. toISOString ms = Some v" by (auto simp: timestamp_def isIsoString_iff_toISOString)
next
  assume "\<exists>ms. toISOString ms = Some v"
  then have "isIsoString v" using toISOString_iso by blast
  then show "timestamp (JStr v)" using isIsoString_length [of v] by (auto simp: timestamp_def)
qed

end
