(* ===== verification/Execution_Model.thy ===== *)
theory Execution_Model
  imports Application_Execute
begin

text \<open>
  The data of the execution service (\<^verbatim>\<open>src/execution-application.ts\<close>): its commands and their
  parsers, its failures and views, the questions put to its ingress, and the decisions that
  depend on the state only. The ingress is a parameter; each of its functions answers a value
  or throws (\<open>None\<close>). A principal that is not a string is refused.
\<close>

section \<open>Results\<close>

datatype execution_error_code =
    XInvalidInput | XAuthorizationDenied | XProjectNotFound | XProjectDisabled | XProjectIdentityChanged
  | XTaskNotFound | XTaskNotEligible | XExecutionNotFound | XIdempotencyConflict | XStaleRevision
  | XStaleFence | XLeaseNotRenewable | XLeaseNotExpired | XReconciliationRequired | XPersistenceFailure

record execution_failure =
  xf_code :: execution_error_code
  xf_message :: string
  xf_requestId :: "jsstr option"
  xf_correlationId :: "jsstr option"

record execution_claim_view =
  cv_executionId :: jsstr
  cv_taskId :: jsstr
  cv_attemptNumber :: int
  cv_status :: attempt_status
  cv_ownerId :: jsstr
  cv_leaseRevision :: int
  cv_leaseExpiresAt :: jsstr
  cv_expired :: bool
  cv_fencingToken :: int
  cv_revision :: int
  cv_taskRevision :: int
  cv_projectResourceRevision :: int
  cv_projectConfigRevision :: int
  cv_supersedesExecutionId :: "jsstr option"
  cv_supersededByExecutionId :: "jsstr option"

record execution_success =
  xs_value :: execution_claim_view
  xs_requestId :: jsstr
  xs_correlationId :: jsstr

definition executionFailed :: "execution_error_code \<Rightarrow> string \<Rightarrow> operation_identity option \<Rightarrow> execution_failure" where
  "executionFailed code message identity =
     \<lparr>xf_code = code, xf_message = message, xf_requestId = map_option oi_requestId identity,
      xf_correlationId = map_option oi_correlationId identity\<rparr>"

definition executionSucceeded :: "execution_claim_view \<Rightarrow> jsstr \<Rightarrow> jsstr \<Rightarrow> execution_success" where
  "executionSucceeded claimView requestId correlationId =
     \<lparr>xs_value = claimView, xs_requestId = requestId, xs_correlationId = correlationId\<rparr>"

section \<open>Commands\<close>

record project_expectation =
  pe_projectId :: jsstr
  pe_resourceRevision :: int
  pe_configRevision :: int

record claim_command =
  cl_project :: project_expectation
  cl_taskId :: jsstr
  cl_expectedTaskRevision :: int
  cl_idempotencyKey :: jsstr
  cl_leaseDurationSeconds :: int

record inspect_command =
  ic_project :: project_expectation
  ic_executionId :: jsstr
  ic_expectedExecutionRevision :: int
  ic_expectedTaskRevision :: int

record lease_expectation =
  le_executionId :: jsstr
  le_executionRevision :: int
  le_leaseRevision :: int
  le_fencingToken :: int
  le_taskRevision :: int

record renew_command =
  rc_project :: project_expectation
  rc_lease :: lease_expectation
  rc_leaseDurationSeconds :: int

record takeover_command =
  tc_project :: project_expectation
  tc_taskId :: jsstr
  tc_lease :: lease_expectation
  tc_idempotencyKey :: jsstr
  tc_leaseDurationSeconds :: int

definition executionIdentifier :: "jsval \<Rightarrow> bool" where
  "executionIdentifier v \<longleftrightarrow> nonempty v 1024"

definition leaseDuration :: "jsval \<Rightarrow> bool" where
  "leaseDuration v \<longleftrightarrow> isSafeInteger v \<and> numOf v \<ge> 30 \<and> numOf v \<le> 3600"

text \<open>The Project fields that every command has.\<close>

definition projectFields :: "jsrec \<Rightarrow> bool" where
  "projectFields r \<longleftrightarrow> executionIdentifier (fld r ''projectId'') \<and> revision (fld r ''expectedProjectResourceRevision'') \<and>
     revision (fld r ''expectedProjectConfigRevision'')"

definition projectExpectation :: "jsrec \<Rightarrow> project_expectation" where
  "projectExpectation r =
     \<lparr>pe_projectId = strOf (fld r ''projectId''), pe_resourceRevision = numOf (fld r ''expectedProjectResourceRevision''),
      pe_configRevision = numOf (fld r ''expectedProjectConfigRevision'')\<rparr>"

definition leaseFields :: "string \<Rightarrow> jsrec \<Rightarrow> bool" where
  "leaseFields executionKey r \<longleftrightarrow> operationalIdentifier (fld r executionKey) \<and> revision (fld r ''expectedExecutionRevision'') \<and>
     revision (fld r ''expectedLeaseRevision'') \<and> revision (fld r ''expectedFencingToken'') \<and> revision (fld r ''expectedTaskRevision'')"

definition leaseExpectation :: "string \<Rightarrow> jsrec \<Rightarrow> lease_expectation" where
  "leaseExpectation executionKey r =
     \<lparr>le_executionId = strOf (fld r executionKey), le_executionRevision = numOf (fld r ''expectedExecutionRevision''),
      le_leaseRevision = numOf (fld r ''expectedLeaseRevision''), le_fencingToken = numOf (fld r ''expectedFencingToken''),
      le_taskRevision = numOf (fld r ''expectedTaskRevision'')\<rparr>"

abbreviation projectKeys :: "string list" where
  "projectKeys \<equiv> [''kind'', ''projectId'', ''expectedProjectResourceRevision'', ''expectedProjectConfigRevision'']"

definition parseClaim :: "jsval \<Rightarrow> claim_command option" where
  "parseClaim v =
     (case exactRecord v (projectKeys @ [''taskId'', ''expectedTaskRevision'', ''idempotencyKey'', ''leaseDurationSeconds'']) of
        None \<Rightarrow> None
      | Some r \<Rightarrow>
          if \<not> isLit (fld r ''kind'') ''execution.claim'' \<or> \<not> projectFields r \<or> \<not> executionIdentifier (fld r ''taskId'') \<or>
             \<not> revision (fld r ''expectedTaskRevision'') \<or> \<not> operationalIdentifier (fld r ''idempotencyKey'') \<or>
             \<not> leaseDuration (fld r ''leaseDurationSeconds'') then None
          else Some \<lparr>cl_project = projectExpectation r, cl_taskId = strOf (fld r ''taskId''),
            cl_expectedTaskRevision = numOf (fld r ''expectedTaskRevision''), cl_idempotencyKey = strOf (fld r ''idempotencyKey''),
            cl_leaseDurationSeconds = numOf (fld r ''leaseDurationSeconds'')\<rparr>)"

definition parseInspect :: "jsval \<Rightarrow> inspect_command option" where
  "parseInspect v =
     (case exactRecord v (projectKeys @ [''executionId'', ''expectedExecutionRevision'', ''expectedTaskRevision'']) of
        None \<Rightarrow> None
      | Some r \<Rightarrow>
          if \<not> isLit (fld r ''kind'') ''execution.claim.inspect'' \<or> \<not> projectFields r \<or>
             \<not> operationalIdentifier (fld r ''executionId'') \<or> \<not> revision (fld r ''expectedExecutionRevision'') \<or>
             \<not> revision (fld r ''expectedTaskRevision'') then None
          else Some \<lparr>ic_project = projectExpectation r, ic_executionId = strOf (fld r ''executionId''),
            ic_expectedExecutionRevision = numOf (fld r ''expectedExecutionRevision''),
            ic_expectedTaskRevision = numOf (fld r ''expectedTaskRevision'')\<rparr>)"

definition parseRenew :: "jsval \<Rightarrow> renew_command option" where
  "parseRenew v =
     (case exactRecord v (projectKeys @ [''executionId'', ''expectedExecutionRevision'', ''expectedLeaseRevision'',
         ''expectedFencingToken'', ''expectedTaskRevision'', ''leaseDurationSeconds'']) of
        None \<Rightarrow> None
      | Some r \<Rightarrow>
          if \<not> isLit (fld r ''kind'') ''execution.lease.renew'' \<or> \<not> projectFields r \<or> \<not> leaseFields ''executionId'' r \<or>
             \<not> leaseDuration (fld r ''leaseDurationSeconds'') then None
          else Some \<lparr>rc_project = projectExpectation r, rc_lease = leaseExpectation ''executionId'' r,
            rc_leaseDurationSeconds = numOf (fld r ''leaseDurationSeconds'')\<rparr>)"

definition parseTakeover :: "jsval \<Rightarrow> takeover_command option" where
  "parseTakeover v =
     (case exactRecord v (projectKeys @ [''taskId'', ''expectedTaskRevision'', ''predecessorExecutionId'',
         ''expectedExecutionRevision'', ''expectedLeaseRevision'', ''expectedFencingToken'', ''idempotencyKey'',
         ''leaseDurationSeconds'']) of
        None \<Rightarrow> None
      | Some r \<Rightarrow>
          if \<not> isLit (fld r ''kind'') ''execution.lease.takeover'' \<or> \<not> projectFields r \<or> \<not> executionIdentifier (fld r ''taskId'') \<or>
             \<not> leaseFields ''predecessorExecutionId'' r \<or> \<not> operationalIdentifier (fld r ''idempotencyKey'') \<or>
             \<not> leaseDuration (fld r ''leaseDurationSeconds'') then None
          else Some \<lparr>tc_project = projectExpectation r, tc_taskId = strOf (fld r ''taskId''),
            tc_lease = leaseExpectation ''predecessorExecutionId'' r, tc_idempotencyKey = strOf (fld r ''idempotencyKey''),
            tc_leaseDurationSeconds = numOf (fld r ''leaseDurationSeconds'')\<rparr>)"

section \<open>The trusted ingress\<close>

record 'w execution_ingress =
  xg_currentActor :: "'w \<Rightarrow> jsval option \<times> 'w"
  xg_currentLeaseOwner :: "'w \<Rightarrow> jsval option \<times> 'w"
  xg_now :: "'w \<Rightarrow> jsval option \<times> 'w"
  xg_nextId :: "string \<Rightarrow> 'w \<Rightarrow> jsval option \<times> 'w"

record trusted_context =
  tx_actor :: trusted_actor
  tx_ownerId :: jsstr
  tx_now :: jsstr

definition parseExecutionActor :: "jsval \<Rightarrow> trusted_actor option" where
  "parseExecutionActor v =
     (case exactRecord v [''actorId'', ''principal''] of
        None \<Rightarrow> None
      | Some r \<Rightarrow>
          if operationalIdentifier (fld r ''actorId'') \<and> isString (fld r ''principal'') \<and> sha256Text (strOf (fld r ''principal''))
          then Some \<lparr>ta_actorId = strOf (fld r ''actorId''), ta_principal = strOf (fld r ''principal'')\<rparr> else None)"

definition trustedContext :: "'w execution_ingress \<Rightarrow> 'w \<Rightarrow> trusted_context option \<times> 'w" where
  "trustedContext ig =
     ask (xg_currentActor ig) None (\<lambda>actorValue.
     ask (xg_currentLeaseOwner ig) None (\<lambda>ownerId.
     ask (xg_now ig) None (\<lambda>now w.
       (case parseExecutionActor actorValue of
          None \<Rightarrow> None
        | Some actor \<Rightarrow>
            if operationalIdentifier ownerId \<and> timestamp now
            then Some \<lparr>tx_actor = actor, tx_ownerId = strOf ownerId, tx_now = strOf now\<rparr> else None, w))))"

definition executionOperationIdentity ::
  "trusted_context \<Rightarrow> 'w execution_ingress \<Rightarrow> 'w \<Rightarrow> operation_identity option \<times> 'w" where
  "executionOperationIdentity context ig =
     ask (xg_nextId ig ''request'') None (\<lambda>requestId.
     ask (xg_nextId ig ''correlation'') None (\<lambda>correlationId.
     ask (xg_nextId ig ''decision'') None (\<lambda>decisionId.
     ask (xg_nextId ig ''audit'') None (\<lambda>auditId w.
       (if list_all operationalIdentifier [requestId, correlationId, decisionId, auditId] \<and>
           distinct [requestId, correlationId, decisionId, auditId]
        then Some \<lparr>oi_actor = tx_actor context, oi_now = tx_now context, oi_requestId = strOf requestId,
               oi_correlationId = strOf correlationId, oi_decisionId = strOf decisionId, oi_auditId = strOf auditId\<rparr>
        else None, w)))))"

definition nextExecutionId :: "'w execution_ingress \<Rightarrow> 'w \<Rightarrow> jsstr option \<times> 'w" where
  "nextExecutionId ig =
     ask (xg_nextId ig ''execution'') None (\<lambda>v w. (if operationalIdentifier v then Some (strOf v) else None, w))"

section \<open>Decisions on a state\<close>

definition binding ::
  "application_state \<Rightarrow> project_expectation \<Rightarrow> jsstr \<Rightarrow> execution_failure + registered_project \<times> task" where
  "binding state expected taskId =
     (case find (\<lambda>candidate. rp_projectId candidate = pe_projectId expected) (st_projects state) of
        None \<Rightarrow> Inl (executionFailed XProjectNotFound ''Project is not registered'' None)
      | Some project \<Rightarrow>
          if rp_resourceRevision project \<noteq> pe_resourceRevision expected \<or> rp_configRevision project \<noteq> pe_configRevision expected
          then Inl (executionFailed XStaleRevision ''Project binding is stale'' None)
          else (case taskById (st_domain state) taskId of
             None \<Rightarrow> Inl (executionFailed XTaskNotFound ''Task is not registered'' None)
           | Some task \<Rightarrow>
               if t_projectId task \<noteq> pe_projectId expected
               then Inl (executionFailed XStaleRevision ''Task Project binding is stale'' None)
               else Inr (project, task)))"

definition sameProject :: "registered_project \<Rightarrow> registered_project \<Rightarrow> bool" where
  "sameProject left right \<longleftrightarrow>
     rp_projectId left = rp_projectId right \<and> rp_resourceRevision left = rp_resourceRevision right \<and>
     rp_configRevision left = rp_configRevision right \<and> ri_rootKey left = ri_rootKey right \<and>
     ri_platform left = ri_platform right \<and> ri_device left = ri_device right \<and> ri_inode left = ri_inode right \<and>
     ri_mode left = ri_mode right"

definition enabledProject :: "application_state \<Rightarrow> jsstr \<Rightarrow> bool" where
  "enabledProject state projectId =
     (case projectById (st_domain state) projectId of Some project \<Rightarrow> p_enabled project | None \<Rightarrow> False)"

definition executionPolicy :: "application_state \<Rightarrow> registered_project \<Rightarrow> string \<Rightarrow> authorization_policy_result" where
  "executionPolicy state project action =
     (if action = ''execution.claim.inspect'' then PolicyReadNotApplicable
      else if enabledProject state (rp_projectId project) then PolicyAllow else PolicyDeny)"

definition executionAuthorization ::
  "application_state \<Rightarrow> operation_identity \<Rightarrow> string \<Rightarrow> registered_project \<Rightarrow> authorization_policy_result \<Rightarrow>
    authorization_evaluation" where
  "executionAuthorization state identity action project policy =
     evaluateAuthorization (requestToJs
       \<lparr>rq_actorId = ta_actorId (oi_actor identity), rq_action = lit action,
        rq_target = \<lparr>at_projectId = Some (rp_projectId project), at_resourceRevision = Some (rp_resourceRevision project),
          at_configRevision = Some (rp_configRevision project)\<rparr>,
        rq_now = oi_now identity, rq_policy = policy, rq_confirmed = True, rq_grants = st_grants state\<rparr>)"

definition view :: "execution_attempt \<Rightarrow> jsstr \<Rightarrow> execution_claim_view" where
  "view attempt now =
     \<lparr>cv_executionId = xa_executionId attempt, cv_taskId = xa_taskId attempt, cv_attemptNumber = xa_attemptNumber attempt,
      cv_status = xa_status attempt, cv_ownerId = xa_ownerId attempt, cv_leaseRevision = xa_leaseRevision attempt,
      cv_leaseExpiresAt = xa_leaseExpiresAt attempt, cv_expired = (xa_leaseExpiresAt attempt \<le> now),
      cv_fencingToken = xa_fencingToken attempt, cv_revision = xa_revision attempt, cv_taskRevision = xa_postTaskRevision attempt,
      cv_projectResourceRevision = xa_projectResourceRevision attempt, cv_projectConfigRevision = xa_projectConfigRevision attempt,
      cv_supersedesExecutionId = xa_supersedesExecutionId attempt, cv_supersededByExecutionId = xa_supersededByExecutionId attempt\<rparr>"

definition executionProjectMatches :: "application_state \<Rightarrow> execution_attempt \<Rightarrow> jsstr \<Rightarrow> bool" where
  "executionProjectMatches state attempt projectId \<longleftrightarrow>
     (case taskById (st_domain state) (xa_taskId attempt) of Some task \<Rightarrow> t_projectId task = projectId | None \<Rightarrow> False)"

definition requiresReliabilityReconciliation :: "application_state \<Rightarrow> jsstr \<Rightarrow> bool" where
  "requiresReliabilityReconciliation state executionId \<longleftrightarrow>
     (if executionId \<in> ts_executionId ` set (st_executionTerminalStates state) then False
      else list_ex (\<lambda>intent. in_executionId intent = executionId \<and> \<not> in_finalized intent) (st_executionIntents state) \<or>
        executionId \<in> set (st_manualTurns state))"

definition claimTupleMatches :: "application_state \<Rightarrow> execution_attempt \<Rightarrow> claim_command \<Rightarrow> jsstr \<Rightarrow> bool" where
  "claimTupleMatches state attempt command ownerId \<longleftrightarrow>
     xa_operationKind attempt = ClaimAttempt \<and> executionProjectMatches state attempt (pe_projectId (cl_project command)) \<and>
     xa_taskId attempt = cl_taskId command \<and> xa_expectedTaskRevision attempt = cl_expectedTaskRevision command \<and>
     xa_projectResourceRevision attempt = pe_resourceRevision (cl_project command) \<and>
     xa_projectConfigRevision attempt = pe_configRevision (cl_project command) \<and>
     xa_ownerId attempt = ownerId \<and> xa_requestedLeaseSeconds attempt = cl_leaseDurationSeconds command \<and>
     xa_predecessorExecutionRevision attempt = None \<and> xa_predecessorLeaseRevision attempt = None \<and>
     xa_predecessorFencingToken attempt = None \<and> xa_supersedesExecutionId attempt = None"

definition takeoverTupleMatches :: "application_state \<Rightarrow> execution_attempt \<Rightarrow> takeover_command \<Rightarrow> jsstr \<Rightarrow> bool" where
  "takeoverTupleMatches state attempt command ownerId \<longleftrightarrow>
     xa_operationKind attempt = TakeoverAttempt \<and> executionProjectMatches state attempt (pe_projectId (tc_project command)) \<and>
     xa_taskId attempt = tc_taskId command \<and> xa_expectedTaskRevision attempt = le_taskRevision (tc_lease command) \<and>
     xa_projectResourceRevision attempt = pe_resourceRevision (tc_project command) \<and>
     xa_projectConfigRevision attempt = pe_configRevision (tc_project command) \<and>
     xa_ownerId attempt = ownerId \<and> xa_requestedLeaseSeconds attempt = tc_leaseDurationSeconds command \<and>
     xa_predecessorExecutionRevision attempt = Some (le_executionRevision (tc_lease command)) \<and>
     xa_predecessorLeaseRevision attempt = Some (le_leaseRevision (tc_lease command)) \<and>
     xa_predecessorFencingToken attempt = Some (le_fencingToken (tc_lease command)) \<and>
     xa_supersedesExecutionId attempt = Some (le_executionId (tc_lease command))"

fun mapPersistenceFailure :: "operation_identity option \<Rightarrow> thrown \<Rightarrow> execution_failure" where
  "mapPersistenceFailure identity (PersistenceError REVISION_CONFLICT message) =
     executionFailed XStaleFence ''Execution CAS, owner, lease, Task revision, or fence is stale'' identity"
| "mapPersistenceFailure identity _ = executionFailed XPersistenceFailure ''Execution persistence operation failed'' identity"

datatype runtime_actor_validation =
  TrustedRuntime | BootstrapAbsent | RuntimeRootUnavailable | RuntimeRootMismatch | LocalIdentityMismatch

definition trustedAt :: "application_state \<Rightarrow> authorization_bootstrap \<Rightarrow> trusted_actor \<Rightarrow> project_root_identity \<Rightarrow> runtime_actor_validation" where
  "trustedAt state boot actor current =
     (if \<not> sameRootIdentity boot current then RuntimeRootMismatch
      else
        let localIdentityRequired = prefix (lit ''local-v1:'') (ta_actorId actor) \<or>
              (case st_identity state of Some local \<Rightarrow> ta_actorId actor = li_actorId local | None \<Rightarrow> False) in
        if localIdentityRequired \<and>
           (case st_identity state of
              None \<Rightarrow> True
            | Some local \<Rightarrow> li_actorId local \<noteq> ta_actorId actor \<or> li_principalSha256 local \<noteq> ta_principal actor \<or>
                li_platform local \<noteq> ri_platform current \<or> li_runtimeRootKey local \<noteq> ri_rootKey current)
        then LocalIdentityMismatch
        else TrustedRuntime)"

text \<open>The failure that a validation ends with.\<close>

fun runtimeActorFailure :: "operation_identity \<Rightarrow> runtime_actor_validation \<Rightarrow> execution_failure option" where
  "runtimeActorFailure identity TrustedRuntime = None"
| "runtimeActorFailure identity RuntimeRootUnavailable =
     Some (executionFailed XProjectIdentityChanged ''Runtime root identity could not be revalidated'' (Some identity))"
| "runtimeActorFailure identity RuntimeRootMismatch =
     Some (executionFailed XAuthorizationDenied ''Authorization bootstrap is bound to another runtime root'' (Some identity))"
| "runtimeActorFailure identity LocalIdentityMismatch =
     Some (executionFailed XAuthorizationDenied ''Trusted local identity does not match the initialized runtime'' (Some identity))"
| "runtimeActorFailure identity BootstrapAbsent =
     Some (executionFailed XAuthorizationDenied ''Authorization bootstrap is absent'' (Some identity))"

end
