(* ===== verification/Execution_Service.thy ===== *)
theory Execution_Service
  imports Execution_Model
begin

text \<open>
  The execution service (\<^verbatim>\<open>src/execution-application.ts\<close>): claim, inspection, lease renewal
  and takeover of an execution, with the operations of the transaction that they use
  (\<^verbatim>\<open>src/persistence/application-repository-transaction.ts\<close>). Each operation looks ahead on the
  state that it reads, and decides and writes in one transaction on the state read there.

  Of the tables \<open>task_execution_sequences\<close> and \<open>execution_attempts\<close> the keys, the unique index
  over active attempts, the \<open>CHECK\<close> constraints that relate columns and the update guard are
  modelled. Task identifiers are those of stored Tasks, so binding them changes nothing.
\<close>

section \<open>Rows\<close>

definition insertExecutionSequence :: "task_execution_sequence \<Rightarrow> ('e, 'f, unit) program" where
  "insertExecutionSequence record = onTables (\<lambda>db.
     ebind (insertRow [es_taskId] record (db_sequences db)) (\<lambda>rows. Inr (db\<lparr>db_sequences := rows\<rparr>)))"

definition sequenceMatches :: "jsstr \<Rightarrow> int \<Rightarrow> int \<Rightarrow> int \<Rightarrow> task_execution_sequence \<Rightarrow> bool" where
  "sequenceMatches taskId expectedAttemptNumber expectedFencingToken expectedRevision row \<longleftrightarrow>
     es_taskId row = taskId \<and> es_lastAttemptNumber row = expectedAttemptNumber \<and>
     es_currentFencingToken row = expectedFencingToken \<and> es_revision row = expectedRevision"

definition advancedSequence :: "task_execution_sequence \<Rightarrow> task_execution_sequence" where
  "advancedSequence row = row\<lparr>es_lastAttemptNumber := es_lastAttemptNumber row + 1,
     es_currentFencingToken := es_currentFencingToken row + 1, es_revision := es_revision row + 1\<rparr>"

text \<open>\<open>decodeTaskExecutionSequenceRow\<close>: the three numbers are positive safe integers.\<close>

definition positiveNumber :: "int \<Rightarrow> bool" where
  "positiveNumber n \<longleftrightarrow> 0 < n \<and> n \<le> MAX_SAFE_INTEGER"

definition decodeTaskExecutionSequenceRow :: "task_execution_sequence \<Rightarrow> thrown + task_execution_sequence" where
  "decodeTaskExecutionSequenceRow row =
     (if positiveNumber (es_lastAttemptNumber row) \<and> positiveNumber (es_currentFencingToken row) \<and> positiveNumber (es_revision row)
      then Inr row else persistenceFailure CORRUPT_ROW ''task_execution_sequences is not a safe SQLite INTEGER'')"

definition advanceExecutionSequence :: "jsstr \<Rightarrow> int \<Rightarrow> int \<Rightarrow> int \<Rightarrow> ('e, 'f, task_execution_sequence) program" where
  "advanceExecutionSequence taskId expectedAttemptNumber expectedFencingToken expectedRevision =
     (let matches = sequenceMatches taskId expectedAttemptNumber expectedFencingToken expectedRevision in
      pseq (onTables (\<lambda>db.
        if length (filter matches (db_sequences db)) \<noteq> 1
        then persistenceFailure REVISION_CONFLICT ''Task execution sequence CAS failed''
        else Inr (db\<lparr>db_sequences := map (\<lambda>row. if matches row then advancedSequence row else row) (db_sequences db)\<rparr>))) (
      \<lambda>(db, e). ofThrown
        (case find (\<lambda>row. es_taskId row = taskId) (db_sequences db) of
           None \<Rightarrow> persistenceFailure INTEGRITY_ERROR ''Advanced execution sequence is absent''
         | Some row \<Rightarrow> decodeTaskExecutionSequenceRow row) (db, e)))"

text \<open>The \<open>CHECK\<close> constraints over several columns of \<open>execution_attempts\<close>.\<close>

definition attemptRowChecks :: "execution_attempt \<Rightarrow> bool" where
  "attemptRowChecks a \<longleftrightarrow>
     xa_expectedTaskRevision a = xa_preTaskRevision a \<and>
     (case xa_operationKind a of
        ClaimAttempt \<Rightarrow> xa_attemptNumber a = 1 \<and> xa_postTaskRevision a = xa_preTaskRevision a + 1 \<and>
          xa_supersedesExecutionId a = None \<and> xa_predecessorExecutionRevision a = None \<and>
          xa_predecessorLeaseRevision a = None \<and> xa_predecessorFencingToken a = None
      | TakeoverAttempt \<Rightarrow> xa_attemptNumber a > 1 \<and>
          xa_postTaskRevision a \<in> {xa_preTaskRevision a, xa_preTaskRevision a + 1} \<and>
          xa_supersedesExecutionId a \<noteq> None \<and> xa_predecessorExecutionRevision a \<noteq> None \<and>
          xa_predecessorLeaseRevision a \<noteq> None \<and> xa_predecessorFencingToken a \<noteq> None) \<and>
     (xa_status a = ActiveAttempt \<longleftrightarrow> xa_supersededByExecutionId a = None)"

text \<open>Two rows that violate a uniqueness constraint together.\<close>

definition attemptsConflict :: "execution_attempt \<Rightarrow> execution_attempt \<Rightarrow> bool" where
  "attemptsConflict a b \<longleftrightarrow>
     xa_executionId a = xa_executionId b \<or> xa_idempotencyKey a = xa_idempotencyKey b \<or>
     xa_requestId a = xa_requestId b \<or> xa_decisionId a = xa_decisionId b \<or>
     (xa_supersededByExecutionId a \<noteq> None \<and> xa_supersededByExecutionId a = xa_supersededByExecutionId b) \<or>
     (xa_taskId a = xa_taskId b \<and> (xa_attemptNumber a = xa_attemptNumber b \<or> xa_fencingToken a = xa_fencingToken b \<or>
        (xa_status a = ActiveAttempt \<and> xa_status b = ActiveAttempt)))"

definition insertExecutionAttempt :: "execution_attempt \<Rightarrow> ('e, 'f, unit) program" where
  "insertExecutionAttempt record = onTables (\<lambda>db.
     if \<not> attemptRowChecks record \<or> list_ex (attemptsConflict record) (db_executions db) then sqliteError
     else Inr (db\<lparr>db_executions := db_executions db @ [record]\<rparr>))"

text \<open>The rows that an update of an attempt is meant for: the compare-and-swap of the lease.\<close>

definition leaseMatches :: "jsstr \<Rightarrow> lease_expectation \<Rightarrow> execution_attempt \<Rightarrow> bool" where
  "leaseMatches ownerId expected row \<longleftrightarrow>
     xa_executionId row = le_executionId expected \<and> xa_ownerId row = ownerId \<and> xa_revision row = le_executionRevision expected \<and>
     xa_leaseRevision row = le_leaseRevision expected \<and> xa_fencingToken row = le_fencingToken expected \<and>
     xa_postTaskRevision row = le_taskRevision expected \<and> xa_status row = ActiveAttempt"

definition renewedAttempt :: "jsstr \<Rightarrow> jsstr \<Rightarrow> execution_attempt \<Rightarrow> execution_attempt" where
  "renewedAttempt now leaseExpiresAt row =
     row\<lparr>xa_leaseRevision := xa_leaseRevision row + 1, xa_revision := xa_revision row + 1, xa_leaseExpiresAt := leaseExpiresAt,
       xa_updatedAt := now\<rparr>"

definition renewable :: "jsstr \<Rightarrow> lease_expectation \<Rightarrow> jsstr \<Rightarrow> execution_attempt \<Rightarrow> bool" where
  "renewable ownerId expected now row \<longleftrightarrow> leaseMatches ownerId expected row \<and> now < xa_leaseExpiresAt row"

definition renewExecutionLease :: "jsstr \<Rightarrow> lease_expectation \<Rightarrow> jsstr \<Rightarrow> jsstr \<Rightarrow> ('e, 'f, unit) program" where
  "renewExecutionLease ownerId expected now leaseExpiresAt = onTables (\<lambda>db.
     let matches = renewable ownerId expected now in
     if list_ex (\<lambda>row. matches row \<and> \<not> (xa_leaseExpiresAt row < leaseExpiresAt \<and> xa_updatedAt row < now)) (db_executions db)
     then sqliteError
     else if length (filter matches (db_executions db)) \<noteq> 1
     then persistenceFailure REVISION_CONFLICT ''Execution lease CAS or fence check failed''
     else Inr (db\<lparr>db_executions := map (\<lambda>row. if matches row then renewedAttempt now leaseExpiresAt row else row) (db_executions db)\<rparr>))"

definition supersededAttempt :: "jsstr \<Rightarrow> jsstr \<Rightarrow> execution_attempt \<Rightarrow> execution_attempt" where
  "supersededAttempt by now row =
     row\<lparr>xa_status := SupersededAttempt, xa_supersededByExecutionId := Some by, xa_revision := xa_revision row + 1,
       xa_updatedAt := now\<rparr>"

definition supersedable :: "jsstr \<Rightarrow> lease_expectation \<Rightarrow> jsstr \<Rightarrow> execution_attempt \<Rightarrow> bool" where
  "supersedable ownerId expected observedAt row \<longleftrightarrow>
     leaseMatches ownerId expected row \<and> xa_supersededByExecutionId row = None \<and> xa_leaseExpiresAt row \<le> observedAt"

definition supersedeExecutionAttempt ::
  "jsstr \<Rightarrow> jsstr \<Rightarrow> lease_expectation \<Rightarrow> jsstr \<Rightarrow> ('e, 'f, unit) program" where
  "supersedeExecutionAttempt supersededBy ownerId expected observedAt = onTables (\<lambda>db.
     let matches = supersedable ownerId expected observedAt in
     if list_ex matches (db_executions db) \<and>
        (list_ex (\<lambda>row. matches row \<and> \<not> xa_updatedAt row < observedAt) (db_executions db) \<or>
         list_ex (\<lambda>row. xa_supersededByExecutionId row = Some supersededBy) (db_executions db))
     then sqliteError
     else if length (filter matches (db_executions db)) \<noteq> 1
     then persistenceFailure REVISION_CONFLICT ''Expired execution takeover CAS or fence check failed''
     else Inr (db\<lparr>db_executions := map (\<lambda>row. if matches row then supersededAttempt supersededBy observedAt row else row)
       (db_executions db)\<rparr>))"

section \<open>Shared steps\<close>

text \<open>A \<open>try\<close> block whose handler turns what was thrown into a failure.\<close>

definition caught :: "operation_identity option \<Rightarrow> ('e, execution_failure, 'a) program \<Rightarrow> ('e, execution_failure, 'a) program" where
  "caught identity m = (\<lambda>s. case m s of (Throws t, s') \<Rightarrow> (Fails (mapPersistenceFailure identity t), s') | r \<Rightarrow> r)"

definition identifiedBy :: "operation_identity \<Rightarrow> execution_failure + 'a \<Rightarrow> execution_failure + 'a" where
  "identifiedBy identity r =
     (case r of Inl failure \<Rightarrow> Inl (failure\<lparr>xf_requestId := Some (oi_requestId identity), xf_correlationId := Some (oi_correlationId identity)\<rparr>)
      | Inr x \<Rightarrow> Inr x)"

definition executionTarget :: "jsstr \<Rightarrow> int \<Rightarrow> registered_project \<Rightarrow> bound_target" where
  "executionTarget executionId executionRevision project =
     boundTarget TargetExecution executionId (Some executionRevision) (Some project)"

fun executionAuditKind :: "string \<Rightarrow> string" where
  "executionAuditKind action =
     (if action = ''execution.claim'' then ''execution.claimed''
      else if action = ''execution.claim.inspect'' then ''execution.claim.inspected''
      else if action = ''execution.lease.renew'' then ''execution.lease.renewed''
      else ''execution.lease.taken_over'')"

definition persistAuthorization ::
  "'e service \<Rightarrow> operation_identity \<Rightarrow> string \<Rightarrow> bound_target \<Rightarrow> authorization_evaluation \<Rightarrow> ('e, 'f, unit) program" where
  "persistAuthorization sv identity action target evaluated =
     pseq (insertRequest (requestRecord identity action target (if ae_allowed evaluated then RequestAllow else RequestDeny))) (
     pseq (stage sv ''request'') (
     pseq (insertDecision (decisionRecord identity action target evaluated)) (
     stage sv ''decision'')))"

definition persistAudit ::
  "'e service \<Rightarrow> operation_identity \<Rightarrow> string \<Rightarrow> bound_target \<Rightarrow> authorization_evaluation \<Rightarrow> ('e, 'f, unit) program" where
  "persistAudit sv identity action target evaluated =
     pseq (insertAudit (auditRecord identity target
       (if ae_allowed evaluated then executionAuditKind action else ''authorization.denied'') (ae_allowed evaluated)
       (if ae_allowed evaluated then ''accepted'' else reasonName (ae_reason evaluated)) (Some (oi_decisionId identity)))) (
     stage sv ''audit'')"

definition recordExecutionDenied ::
  "'e service \<Rightarrow> operation_identity \<Rightarrow> string \<Rightarrow> bound_target \<Rightarrow> authorization_evaluation \<Rightarrow> ('e, execution_failure, 'a) program" where
  "recordExecutionDenied sv identity action target evaluated =
     pseq (persistAuthorization sv identity action target evaluated) (
     pseq (persistAudit sv identity action target evaluated) (
     fails (executionFailed XAuthorizationDenied ''Current explicit authorization did not permit the execution operation''
       (Some identity))))"

definition validateTrustedRuntimeAndActor ::
  "'e service \<Rightarrow> application_state \<Rightarrow> trusted_actor \<Rightarrow> ('e, 'f, runtime_actor_validation) program" where
  "validateTrustedRuntimeAndActor sv state actor =
     (case st_bootstrap state of
        None \<Rightarrow> ret BootstrapAbsent
      | Some boot \<Rightarrow>
          pbind (inEnv (sv_files sv)) (\<lambda>fs.
          case inspectTrustedRuntimeRoot fs (JStr (sv_root sv)) of
            Inl error \<Rightarrow> ret RuntimeRootUnavailable
          | Inr current \<Rightarrow> ret (trustedAt state boot actor current)))"

definition validateRuntimeAndActor ::
  "'e service \<Rightarrow> application_state \<Rightarrow> operation_identity \<Rightarrow> ('e, execution_failure, unit) program" where
  "validateRuntimeAndActor sv state identity =
     pbind (validateTrustedRuntimeAndActor sv state (oi_actor identity)) (\<lambda>validation.
     case runtimeActorFailure identity validation of None \<Rightarrow> ret () | Some failure \<Rightarrow> fails failure)"

definition revalidateProject ::
  "'e service \<Rightarrow> operation_identity \<Rightarrow> registered_project \<Rightarrow> ('e, execution_failure, unit) program" where
  "revalidateProject sv identity project =
     pbind (inEnv (sv_files sv)) (\<lambda>fs.
     case revalidateProjectRoot fs project (sv_root sv) of
       Inl error \<Rightarrow> fails (executionFailed XProjectIdentityChanged
         ''Project root identity changed or could not be revalidated'' (Some identity))
     | Inr root \<Rightarrow> ret ())"

text \<open>The answer to a repeated command: the attempt that the first one made, if it was the same command.\<close>

definition replay :: "application_state \<Rightarrow> execution_attempt \<Rightarrow> jsstr \<Rightarrow> ('e, execution_failure, execution_success) program" where
  "replay state attempt now =
     (case find (\<lambda>candidate. rr_requestId candidate = xa_requestId attempt) (st_requests state) of
        None \<Rightarrow> throws (TypeError ''Persisted execution request is absent'')
      | Some request \<Rightarrow> ret (executionSucceeded (view attempt now) (rr_requestId request) (rr_correlationId request)))"

definition replayed ::
  "application_state \<Rightarrow> execution_attempt \<Rightarrow> bool \<Rightarrow> trusted_context \<Rightarrow> operation_identity option \<Rightarrow>
    ('e, execution_failure, execution_success) program" where
  "replayed state attempt same context identity =
     (if same \<and> (case find (\<lambda>candidate. rr_requestId candidate = xa_requestId attempt) (st_requests state) of
            None \<Rightarrow> False | Some request \<Rightarrow> rr_actorId request = ta_actorId (tx_actor context))
      then replay state attempt (tx_now context)
      else fails (executionFailed XIdempotencyConflict ''Execution idempotency identity is bound to another operation'' identity))"

definition attemptByKey :: "application_state \<Rightarrow> jsstr \<Rightarrow> execution_attempt option" where
  "attemptByKey state key = find (\<lambda>candidate. xa_idempotencyKey candidate = key) (st_executions state)"

definition attemptById :: "application_state \<Rightarrow> jsstr \<Rightarrow> execution_attempt option" where
  "attemptById state executionId = find (\<lambda>candidate. xa_executionId candidate = executionId) (st_executions state)"

definition sequenceOf :: "application_state \<Rightarrow> jsstr \<Rightarrow> task_execution_sequence option" where
  "sequenceOf state taskId = find (\<lambda>candidate. es_taskId candidate = taskId) (st_executionSequences state)"

end
