(* ===== verification/Execution_Commands.thy ===== *)
theory Execution_Commands
  imports Execution_Service
begin

text \<open>
  The four operations of the execution service (\<^verbatim>\<open>createExecutionApplicationServiceInternal\<close> of
  \<^verbatim>\<open>src/execution-application.ts\<close>), each with the callback of its transaction.
\<close>

section \<open>Claim\<close>

definition claimTransition :: "task \<Rightarrow> jsval" where
  "claimTransition task = jsObj [(''taskId'', JStr (t_id task)), (''event'', JStr (lit ''claim_accepted'')),
     (''targetState'', JStr (lit ''running'')),
     (''payload'', jsObj [(''externalAcceptance'', jsObj [(''taskId'', JStr (t_id task)), (''taskRevision'', jsInt (t_revision task)),
        (''authorization'', JStr (lit ''accepted'')), (''reliability'', JStr (lit ''accepted''))])])]"

text \<open>What claim checks on the state, before and in its transaction; the messages differ in one place.\<close>

definition claimable ::
  "string \<Rightarrow> application_state \<Rightarrow> claim_command \<Rightarrow> operation_identity \<Rightarrow> task \<Rightarrow> execution_failure option" where
  "claimable staleMessage state command identity task =
     (if t_revision task \<noteq> cl_expectedTaskRevision command
      then Some (executionFailed XStaleRevision staleMessage (Some identity))
      else if \<not> enabledProject state (pe_projectId (cl_project command))
      then Some (executionFailed XProjectDisabled ''Disabled Project cannot offer an execution claim'' (Some identity))
      else if t_state task \<noteq> Ready \<or> sequenceOf state (cl_taskId command) \<noteq> None
      then Some (executionFailed XTaskNotEligible ''Task is not eligible for an initial execution claim'' (Some identity))
      else None)"

definition unlessFailure :: "'f option \<Rightarrow> ('e, 'f, unit) program" where
  "unlessFailure failure = (case failure of None \<Rightarrow> ret () | Some f \<Rightarrow> fails f)"

definition claimMutation ::
  "'e service \<Rightarrow> application_state \<Rightarrow> operation_identity \<Rightarrow> task \<Rightarrow> execution_failure + domain_mutation" where
  "claimMutation sv state identity task =
     (case transitionTask (sv_nfc sv) (snapshotToJs (st_domain state)) (claimTransition task) of
        Inr (m, events) \<Rightarrow> Inr m
      | Inl error \<Rightarrow> Inl (if err_code error = PROJECT_DISABLED
          then executionFailed XProjectDisabled ''Disabled Project cannot offer an execution claim'' (Some identity)
          else executionFailed XTaskNotEligible ''Task is not domain-eligible for execution claim'' (Some identity)))"

definition claimedAttempt ::
  "claim_command \<Rightarrow> trusted_context \<Rightarrow> operation_identity \<Rightarrow> jsstr \<Rightarrow> registered_project \<Rightarrow> jsstr \<Rightarrow> execution_attempt" where
  "claimedAttempt command context identity executionId project leaseExpiresAt =
     \<lparr>xa_executionId = executionId, xa_taskId = cl_taskId command, xa_attemptNumber = 1, xa_operationKind = ClaimAttempt,
      xa_status = ActiveAttempt, xa_idempotencyKey = cl_idempotencyKey command, xa_ownerId = tx_ownerId context,
      xa_requestedLeaseSeconds = cl_leaseDurationSeconds command, xa_predecessorExecutionRevision = None,
      xa_predecessorLeaseRevision = None, xa_predecessorFencingToken = None, xa_leaseRevision = 1,
      xa_leaseExpiresAt = leaseExpiresAt, xa_fencingToken = 1, xa_revision = 1,
      xa_expectedTaskRevision = cl_expectedTaskRevision command, xa_preTaskRevision = cl_expectedTaskRevision command,
      xa_postTaskRevision = cl_expectedTaskRevision command + 1, xa_projectResourceRevision = rp_resourceRevision project,
      xa_projectConfigRevision = rp_configRevision project, xa_requestId = oi_requestId identity,
      xa_decisionId = oi_decisionId identity, xa_supersedesExecutionId = None, xa_supersededByExecutionId = None,
      xa_createdAt = oi_now identity, xa_updatedAt = oi_now identity\<rparr>"

definition claimReadback ::
  "'e service \<Rightarrow> claim_command \<Rightarrow> operation_identity \<Rightarrow> jsstr \<Rightarrow> ('e, execution_failure, execution_success) program" where
  "claimReadback sv command identity executionId =
     pbind (readTx sv) (\<lambda>readback.
     case (attemptById readback executionId, taskById (st_domain readback) (cl_taskId command)) of
       (Some claimed, Some task) \<Rightarrow>
         if t_state task \<noteq> Running \<or> t_revision task \<noteq> cl_expectedTaskRevision command + 1
         then throws (TypeError ''Execution claim terminal readback did not match'')
         else ret (executionSucceeded (view claimed (oi_now identity)) (oi_requestId identity) (oi_correlationId identity))
     | _ \<Rightarrow> throws (TypeError ''Execution claim terminal readback did not match''))"

text \<open>The effect of a claim that is authorized.\<close>

definition claimWritten ::
  "'e service \<Rightarrow> claim_command \<Rightarrow> trusted_context \<Rightarrow> operation_identity \<Rightarrow> jsstr \<Rightarrow> application_state \<Rightarrow> registered_project \<Rightarrow>
    domain_mutation \<Rightarrow> authorization_evaluation \<Rightarrow> ('e, execution_failure, execution_success) program" where
  "claimWritten sv command context identity executionId state project m evaluated =
     (let target = executionTarget executionId 1 project in
      pseq (persistAuthorization sv identity ''execution.claim'' target evaluated) (
      pseq (insertExecutionSequence \<lparr>es_taskId = cl_taskId command, es_lastAttemptNumber = 1, es_currentFencingToken = 1,
        es_revision = 1\<rparr>) (
      pseq (stage sv ''execution-sequence'') (
      pbind (shifted (oi_now identity) (cl_leaseDurationSeconds command * 1000)) (\<lambda>leaseExpiresAt.
      pseq (insertExecutionAttempt (claimedAttempt command context identity executionId project leaseExpiresAt)) (
      pseq (stage sv ''execution-attempt'') (
      pseq (writeDomain sv (st_domain state) m) (
      pseq (stage sv ''domain'') (
      pseq (persistAudit sv identity ''execution.claim'' target evaluated) (
      claimReadback sv command identity executionId))))))))))"

definition claimOn ::
  "'e service \<Rightarrow> claim_command \<Rightarrow> trusted_context \<Rightarrow> operation_identity \<Rightarrow> jsstr \<Rightarrow> registered_project \<Rightarrow> application_state \<Rightarrow>
    ('e, execution_failure, execution_success) program" where
  "claimOn sv command context identity executionId preflightProject state =
     pbind (ofFailure (identifiedBy identity (binding state (cl_project command) (cl_taskId command)))) (\<lambda>(project, task).
     pseq (guard (sameProject project preflightProject)
       (executionFailed XProjectIdentityChanged ''Project identity changed after trusted preflight'' (Some identity))) (
     pseq (unlessFailure (claimable ''Task revision changed after preflight'' state command identity task)) (
     pbind (ofFailure (claimMutation sv state identity task)) (\<lambda>m.
     let evaluated = executionAuthorization state identity ''execution.claim'' project
           (executionPolicy state project ''execution.claim'') in
     if \<not> ae_allowed evaluated
     then recordExecutionDenied sv identity ''execution.claim'' (executionTarget executionId 1 project) evaluated
     else claimWritten sv command context identity executionId state project m evaluated))))"

definition claimTransaction ::
  "'e service \<Rightarrow> claim_command \<Rightarrow> trusted_context \<Rightarrow> operation_identity \<Rightarrow> jsstr \<Rightarrow> registered_project \<Rightarrow>
    ('e, execution_failure, execution_success) program" where
  "claimTransaction sv command context identity executionId preflightProject =
     pbind (readTx sv) (\<lambda>state.
     case attemptByKey state (cl_idempotencyKey command) of
       Some attempt \<Rightarrow> replayed state attempt (claimTupleMatches state attempt command (tx_ownerId context)) context (Some identity)
     | None \<Rightarrow> claimOn sv command context identity executionId preflightProject state)"

definition claimFresh ::
  "'e service \<Rightarrow> claim_command \<Rightarrow> trusted_context \<Rightarrow> application_state \<Rightarrow> operation_identity option \<times> jsstr option \<Rightarrow>
    ('e, execution_failure, execution_success) program" where
  "claimFresh sv command context prior identities =
     (case identities of
        (Some identity, Some executionId) \<Rightarrow>
          pbind (ofFailure (identifiedBy identity (binding prior (cl_project command) (cl_taskId command)))) (\<lambda>(project, task).
          pseq (unlessFailure (claimable ''Task revision is stale'' prior command identity task)) (
          pseq (validateRuntimeAndActor sv prior identity) (
          pseq (revalidateProject sv identity project) (
          caught (Some identity) (pseq (beforeTransaction sv)
            (withApplicationTransaction sv (claimTransaction sv command context identity executionId project)))))))
      | (identity, executionId) \<Rightarrow>
          fails (executionFailed XInvalidInput ''Trusted execution identities could not be obtained'' identity))"

definition claim :: "'e service \<Rightarrow> 'e execution_ingress \<Rightarrow> jsval \<Rightarrow> ('e, execution_failure, execution_success) program" where
  "claim sv ig v =
     (case parseClaim v of
        None \<Rightarrow> fails (executionFailed XInvalidInput ''Execution claim input is invalid'' None)
      | Some command \<Rightarrow>
          pbind (inEnv (trustedContext ig)) (\<lambda>context0.
          case context0 of
            None \<Rightarrow> fails (executionFailed XInvalidInput ''Trusted execution claim ingress is invalid'' None)
          | Some context \<Rightarrow>
              pbind (caught None (readApplicationStateForOwner sv)) (\<lambda>prior.
              case attemptByKey prior (cl_idempotencyKey command) of
                Some attempt \<Rightarrow> replayed prior attempt (claimTupleMatches prior attempt command (tx_ownerId context)) context None
              | None \<Rightarrow>
                  pbind (inEnv (executionOperationIdentity context ig)) (\<lambda>identity.
                  pbind (inEnv (nextExecutionId ig)) (\<lambda>executionId.
                  claimFresh sv command context prior (identity, executionId))))))"

section \<open>Inspection\<close>

definition inspectOn ::
  "'e service \<Rightarrow> inspect_command \<Rightarrow> operation_identity \<Rightarrow> registered_project \<Rightarrow> application_state \<Rightarrow> execution_attempt \<Rightarrow>
    ('e, execution_failure, execution_success) program" where
  "inspectOn sv command identity preflightProject state attempt =
     pbind (ofFailure (identifiedBy identity (binding state (ic_project command) (xa_taskId attempt)))) (\<lambda>(project, task).
     pseq (guard (sameProject project preflightProject)
       (executionFailed XProjectIdentityChanged ''Project identity changed after trusted preflight'' (Some identity))) (
     pseq (guard (xa_revision attempt = ic_expectedExecutionRevision command \<and> t_revision task = ic_expectedTaskRevision command)
       (executionFailed XStaleRevision ''Execution or Task revision changed after preflight'' (Some identity))) (
     let evaluated = executionAuthorization state identity ''execution.claim.inspect'' project
           (executionPolicy state project ''execution.claim.inspect'');
         target = executionTarget (xa_executionId attempt) (xa_revision attempt) project in
     if \<not> ae_allowed evaluated
     then recordExecutionDenied sv identity ''execution.claim.inspect'' target evaluated
     else
       pseq (persistAuthorization sv identity ''execution.claim.inspect'' target evaluated) (
       pseq (persistAudit sv identity ''execution.claim.inspect'' target evaluated) (
       pbind (readTx sv) (\<lambda>readback.
       case attemptById readback (xa_executionId attempt) of
         None \<Rightarrow> throws (TypeError ''Execution inspection terminal readback is absent'')
       | Some found \<Rightarrow> ret (executionSucceeded (view found (oi_now identity)) (oi_requestId identity) (oi_correlationId identity))))))))"

definition executionAbsent :: "operation_identity \<Rightarrow> ('e, execution_failure, 'a) program" where
  "executionAbsent identity = fails (executionFailed XExecutionNotFound ''Execution attempt is not registered'' (Some identity))"

definition inspectTransaction ::
  "'e service \<Rightarrow> inspect_command \<Rightarrow> operation_identity \<Rightarrow> registered_project \<Rightarrow> ('e, execution_failure, execution_success) program" where
  "inspectTransaction sv command identity preflightProject =
     pbind (readTx sv) (\<lambda>state.
     case attemptById state (ic_executionId command) of
       None \<Rightarrow> executionAbsent identity
     | Some attempt \<Rightarrow> inspectOn sv command identity preflightProject state attempt)"

definition inspectExecution :: "'e service \<Rightarrow> 'e execution_ingress \<Rightarrow> jsval \<Rightarrow> ('e, execution_failure, execution_success) program" where
  "inspectExecution sv ig v =
     (case parseInspect v of
        None \<Rightarrow> fails (executionFailed XInvalidInput ''Execution inspection input is invalid'' None)
      | Some command \<Rightarrow>
          pbind (inEnv (trustedContext ig)) (\<lambda>context.
          pbind (case context of None \<Rightarrow> ret None | Some c \<Rightarrow> inEnv (executionOperationIdentity c ig)) (\<lambda>identity0.
          case identity0 of
            None \<Rightarrow> fails (executionFailed XInvalidInput ''Trusted execution inspection ingress is invalid'' None)
          | Some identity \<Rightarrow>
              pbind (caught (Some identity) (readApplicationStateForOwner sv)) (\<lambda>prior.
              case attemptById prior (ic_executionId command) of
                None \<Rightarrow> executionAbsent identity
              | Some attempt \<Rightarrow>
                  pbind (ofFailure (identifiedBy identity (binding prior (ic_project command) (xa_taskId attempt)))) (\<lambda>(project, task).
                  pseq (guard (xa_revision attempt = ic_expectedExecutionRevision command \<and> t_revision task = ic_expectedTaskRevision command)
                    (executionFailed XStaleRevision ''Execution or Task revision is stale'' (Some identity))) (
                  pseq (validateRuntimeAndActor sv prior identity) (
                  pseq (revalidateProject sv identity project) (
                  caught (Some identity) (pseq (beforeTransaction sv)
                    (withApplicationTransaction sv (inspectTransaction sv command identity project)))))))))))"

end
