(* ===== verification/Execution_Leases.thy ===== *)
theory Execution_Leases
  imports Execution_Commands
begin

text \<open>
  Renewal of a lease by its owner and takeover of an expired one (\<^verbatim>\<open>renew\<close> and \<^verbatim>\<open>takeover\<close> of
  \<^verbatim>\<open>src/execution-application.ts\<close>). The expiry that a renewal asks for is computed outside of every
  \<open>try\<close> block, so that a time beyond the range of \<open>Date\<close> is thrown to the caller.
\<close>

section \<open>Renewal\<close>

definition leaseCurrent :: "lease_expectation \<Rightarrow> execution_attempt \<Rightarrow> task \<Rightarrow> bool" where
  "leaseCurrent expected attempt task \<longleftrightarrow>
     xa_revision attempt = le_executionRevision expected \<and> xa_leaseRevision attempt = le_leaseRevision expected \<and>
     xa_fencingToken attempt = le_fencingToken expected \<and> t_revision task = le_taskRevision expected"

definition leaseHeld :: "trusted_context \<Rightarrow> jsstr \<Rightarrow> execution_attempt \<Rightarrow> bool" where
  "leaseHeld context now attempt \<longleftrightarrow>
     xa_status attempt = ActiveAttempt \<and> xa_ownerId attempt = tx_ownerId context \<and> \<not> xa_leaseExpiresAt attempt \<le> now \<and>
     \<not> xa_updatedAt attempt \<ge> now"

definition renewReadback ::
  "'e service \<Rightarrow> operation_identity \<Rightarrow> execution_attempt \<Rightarrow> ('e, execution_failure, execution_success) program" where
  "renewReadback sv identity attempt =
     pbind (readTx sv) (\<lambda>readback.
     case attemptById readback (xa_executionId attempt) of
       None \<Rightarrow> throws (TypeError ''Execution lease renewal terminal readback did not match'')
     | Some found \<Rightarrow>
         if xa_revision found \<noteq> xa_revision attempt + 1 \<or> xa_leaseRevision found \<noteq> xa_leaseRevision attempt + 1 \<or>
            xa_fencingToken found \<noteq> xa_fencingToken attempt \<or> xa_status found \<noteq> ActiveAttempt
         then throws (TypeError ''Execution lease renewal terminal readback did not match'')
         else ret (executionSucceeded (view found (oi_now identity)) (oi_requestId identity) (oi_correlationId identity)))"

definition renewWritten ::
  "'e service \<Rightarrow> renew_command \<Rightarrow> trusted_context \<Rightarrow> operation_identity \<Rightarrow> jsstr \<Rightarrow> execution_attempt \<Rightarrow> registered_project \<Rightarrow>
    authorization_evaluation \<Rightarrow> ('e, execution_failure, execution_success) program" where
  "renewWritten sv command context identity leaseExpiresAt attempt project evaluated =
     (let target = executionTarget (xa_executionId attempt) (xa_revision attempt) project in
      pseq (persistAuthorization sv identity ''execution.lease.renew'' target evaluated) (
      pseq (renewExecutionLease (tx_ownerId context) ((rc_lease command)\<lparr>le_executionId := xa_executionId attempt\<rparr>) (oi_now identity)
        leaseExpiresAt) (
      pseq (stage sv ''execution-lease'') (
      pseq (persistAudit sv identity ''execution.lease.renew'' target evaluated) (
      renewReadback sv identity attempt)))))"

definition renewOn ::
  "'e service \<Rightarrow> renew_command \<Rightarrow> trusted_context \<Rightarrow> operation_identity \<Rightarrow> jsstr \<Rightarrow> registered_project \<Rightarrow> application_state \<Rightarrow>
    execution_attempt \<Rightarrow> ('e, execution_failure, execution_success) program" where
  "renewOn sv command context identity leaseExpiresAt preflightProject state attempt =
     pbind (ofFailure (identifiedBy identity (binding state (rc_project command) (xa_taskId attempt)))) (\<lambda>(project, task).
     pseq (guard (sameProject project preflightProject)
       (executionFailed XProjectIdentityChanged ''Project identity changed after trusted preflight'' (Some identity))) (
     pseq (guard (leaseCurrent (rc_lease command) attempt task \<and> leaseHeld context (oi_now identity) attempt \<and>
         \<not> leaseExpiresAt \<le> xa_leaseExpiresAt attempt)
       (executionFailed XStaleFence ''Execution lease CAS, owner, Task revision, or fence changed after preflight'' (Some identity))) (
     let evaluated = executionAuthorization state identity ''execution.lease.renew'' project
           (executionPolicy state project ''execution.lease.renew'') in
     if \<not> ae_allowed evaluated
     then recordExecutionDenied sv identity ''execution.lease.renew''
       (executionTarget (xa_executionId attempt) (xa_revision attempt) project) evaluated
     else renewWritten sv command context identity leaseExpiresAt attempt project evaluated)))"

definition renewTransactionOf ::
  "'e service \<Rightarrow> renew_command \<Rightarrow> trusted_context \<Rightarrow> operation_identity \<Rightarrow> jsstr \<Rightarrow> registered_project \<Rightarrow>
    ('e, execution_failure, execution_success) program" where
  "renewTransactionOf sv command context identity leaseExpiresAt preflightProject =
     pbind (readTx sv) (\<lambda>state.
     case attemptById state (le_executionId (rc_lease command)) of
       None \<Rightarrow> executionAbsent identity
     | Some attempt \<Rightarrow> renewOn sv command context identity leaseExpiresAt preflightProject state attempt)"

definition renewLookahead ::
  "'e service \<Rightarrow> renew_command \<Rightarrow> trusted_context \<Rightarrow> operation_identity \<Rightarrow> application_state \<Rightarrow> execution_attempt \<Rightarrow>
    ('e, execution_failure, execution_success) program" where
  "renewLookahead sv command context identity prior attempt =
     pbind (ofFailure (identifiedBy identity (binding prior (rc_project command) (xa_taskId attempt)))) (\<lambda>(project, task).
     pseq (guard (leaseCurrent (rc_lease command) attempt task)
       (executionFailed XStaleFence ''Execution lease, Task revision, or fence is stale'' (Some identity))) (
     pseq (guard (leaseHeld context (oi_now identity) attempt)
       (executionFailed XStaleFence ''Execution lease is expired, superseded, or not owned by the caller'' (Some identity))) (
     pbind (shifted (oi_now identity) (rc_leaseDurationSeconds command * 1000)) (\<lambda>leaseExpiresAt.
     pseq (guard (\<not> leaseExpiresAt \<le> xa_leaseExpiresAt attempt)
       (executionFailed XLeaseNotRenewable ''Requested lease would not move expiry forward'' (Some identity))) (
     pseq (validateRuntimeAndActor sv prior identity) (
     pseq (revalidateProject sv identity project) (
     caught (Some identity) (pseq (beforeTransaction sv)
       (withApplicationTransaction sv (renewTransactionOf sv command context identity leaseExpiresAt project))))))))))"

definition renewLease :: "'e service \<Rightarrow> 'e execution_ingress \<Rightarrow> jsval \<Rightarrow> ('e, execution_failure, execution_success) program" where
  "renewLease sv ig v =
     (case parseRenew v of
        None \<Rightarrow> fails (executionFailed XInvalidInput ''Execution lease renewal input is invalid'' None)
      | Some command \<Rightarrow>
          pbind (inEnv (trustedContext ig)) (\<lambda>context0.
          case context0 of
            None \<Rightarrow> fails (executionFailed XInvalidInput ''Trusted execution lease renewal ingress is invalid'' None)
          | Some context \<Rightarrow>
              pbind (inEnv (executionOperationIdentity context ig)) (\<lambda>identity0.
              case identity0 of
                None \<Rightarrow> fails (executionFailed XInvalidInput ''Trusted execution lease renewal ingress is invalid'' None)
              | Some identity \<Rightarrow>
                  pbind (caught (Some identity) (readApplicationStateForOwner sv)) (\<lambda>prior.
                  case attemptById prior (le_executionId (rc_lease command)) of
                    None \<Rightarrow> executionAbsent identity
                  | Some attempt \<Rightarrow> renewLookahead sv command context identity prior attempt))))"

section \<open>Takeover\<close>

text \<open>The sequence of the Task stands at the attempt that is taken over.\<close>

definition sequenceStands :: "application_state \<Rightarrow> takeover_command \<Rightarrow> execution_attempt \<Rightarrow> bool" where
  "sequenceStands state command attempt \<longleftrightarrow>
     (case sequenceOf state (tc_taskId command) of
        None \<Rightarrow> False
      | Some sequence \<Rightarrow> es_lastAttemptNumber sequence = xa_attemptNumber attempt \<and>
          es_currentFencingToken sequence = xa_fencingToken attempt \<and> es_revision sequence = xa_attemptNumber attempt)"

definition takeoverAttempt ::
  "takeover_command \<Rightarrow> trusted_context \<Rightarrow> operation_identity \<Rightarrow> jsstr \<Rightarrow> registered_project \<Rightarrow> execution_attempt \<Rightarrow>
    task_execution_sequence \<Rightarrow> jsstr \<Rightarrow> execution_attempt" where
  "takeoverAttempt command context identity executionId project predecessor advanced leaseExpiresAt =
     \<lparr>xa_executionId = executionId, xa_taskId = tc_taskId command, xa_attemptNumber = es_lastAttemptNumber advanced,
      xa_operationKind = TakeoverAttempt, xa_status = ActiveAttempt, xa_idempotencyKey = tc_idempotencyKey command,
      xa_ownerId = tx_ownerId context, xa_requestedLeaseSeconds = tc_leaseDurationSeconds command,
      xa_predecessorExecutionRevision = Some (le_executionRevision (tc_lease command)),
      xa_predecessorLeaseRevision = Some (le_leaseRevision (tc_lease command)),
      xa_predecessorFencingToken = Some (le_fencingToken (tc_lease command)), xa_leaseRevision = 1,
      xa_leaseExpiresAt = leaseExpiresAt, xa_fencingToken = es_currentFencingToken advanced, xa_revision = 1,
      xa_expectedTaskRevision = le_taskRevision (tc_lease command), xa_preTaskRevision = le_taskRevision (tc_lease command),
      xa_postTaskRevision = le_taskRevision (tc_lease command), xa_projectResourceRevision = rp_resourceRevision project,
      xa_projectConfigRevision = rp_configRevision project, xa_requestId = oi_requestId identity,
      xa_decisionId = oi_decisionId identity, xa_supersedesExecutionId = Some (xa_executionId predecessor),
      xa_supersededByExecutionId = None, xa_createdAt = oi_now identity, xa_updatedAt = oi_now identity\<rparr>"

definition takeoverReadback ::
  "'e service \<Rightarrow> takeover_command \<Rightarrow> operation_identity \<Rightarrow> jsstr \<Rightarrow> execution_attempt \<Rightarrow>
    ('e, execution_failure, execution_success) program" where
  "takeoverReadback sv command identity executionId predecessor =
     pbind (readTx sv) (\<lambda>readback.
     case (attemptById readback executionId, attemptById readback (xa_executionId predecessor), sequenceOf readback (tc_taskId command)) of
       (Some replacement, Some superseded, Some sequence) \<Rightarrow>
         if xa_status replacement \<noteq> ActiveAttempt \<or> xa_fencingToken replacement \<noteq> xa_fencingToken predecessor + 1 \<or>
            xa_status superseded \<noteq> SupersededAttempt \<or> xa_supersededByExecutionId superseded \<noteq> Some executionId \<or>
            es_currentFencingToken sequence \<noteq> xa_fencingToken replacement
         then throws (TypeError ''Execution takeover terminal readback did not match'')
         else ret (executionSucceeded (view replacement (oi_now identity)) (oi_requestId identity) (oi_correlationId identity))
     | _ \<Rightarrow> throws (TypeError ''Execution takeover terminal readback did not match''))"

definition takeoverWritten ::
  "'e service \<Rightarrow> takeover_command \<Rightarrow> trusted_context \<Rightarrow> operation_identity \<Rightarrow> jsstr \<Rightarrow> execution_attempt \<Rightarrow>
    task_execution_sequence \<Rightarrow> registered_project \<Rightarrow> authorization_evaluation \<Rightarrow>
    ('e, execution_failure, execution_success) program" where
  "takeoverWritten sv command context identity executionId predecessor sequence project evaluated =
     (let target = executionTarget executionId 1 project in
      pseq (persistAuthorization sv identity ''execution.lease.takeover'' target evaluated) (
      pbind (advanceExecutionSequence (tc_taskId command) (es_lastAttemptNumber sequence) (es_currentFencingToken sequence)
        (es_revision sequence)) (\<lambda>advanced.
      pseq (stage sv ''execution-sequence'') (
      pseq (supersedeExecutionAttempt executionId (xa_ownerId predecessor)
        ((tc_lease command)\<lparr>le_executionId := xa_executionId predecessor\<rparr>) (oi_now identity)) (
      pseq (stage sv ''execution-superseded'') (
      pbind (shifted (oi_now identity) (tc_leaseDurationSeconds command * 1000)) (\<lambda>leaseExpiresAt.
      pseq (insertExecutionAttempt (takeoverAttempt command context identity executionId project predecessor advanced leaseExpiresAt)) (
      pseq (stage sv ''execution-attempt'') (
      pseq (persistAudit sv identity ''execution.lease.takeover'' target evaluated) (
      takeoverReadback sv command identity executionId predecessor))))))))))"

definition takeoverOn ::
  "'e service \<Rightarrow> takeover_command \<Rightarrow> trusted_context \<Rightarrow> operation_identity \<Rightarrow> jsstr \<Rightarrow> registered_project \<Rightarrow> application_state \<Rightarrow>
    execution_attempt \<Rightarrow> ('e, execution_failure, execution_success) program" where
  "takeoverOn sv command context identity executionId preflightProject state attempt =
     pbind (ofFailure (identifiedBy identity (binding state (tc_project command) (tc_taskId command)))) (\<lambda>(project, task).
     pseq (guard (sameProject project preflightProject)
       (executionFailed XProjectIdentityChanged ''Project identity changed after trusted preflight'' (Some identity))) (
     pseq (guard (xa_taskId attempt = tc_taskId command \<and> leaseCurrent (tc_lease command) attempt task \<and> t_state task = Running \<and>
         xa_status attempt = ActiveAttempt \<and> sequenceStands state command attempt)
       (executionFailed XStaleFence ''Predecessor execution, Task, sequence, or fence changed after preflight'' (Some identity))) (
     pseq (guard (\<not> xa_leaseExpiresAt attempt > oi_now identity)
       (executionFailed XLeaseNotExpired ''Predecessor execution lease has not expired'' (Some identity))) (
     pseq (guard (\<not> requiresReliabilityReconciliation state (xa_executionId attempt))
       (executionFailed XReconciliationRequired ''Effect-capable execution state must reconcile before takeover'' (Some identity))) (
     let evaluated = executionAuthorization state identity ''execution.lease.takeover'' project
           (executionPolicy state project ''execution.lease.takeover'') in
     if \<not> ae_allowed evaluated
     then recordExecutionDenied sv identity ''execution.lease.takeover'' (executionTarget executionId 1 project) evaluated
     else (case sequenceOf state (tc_taskId command) of
         None \<Rightarrow> fails (executionFailed XStaleFence ''Predecessor execution, Task, sequence, or fence changed after preflight''
           (Some identity))
       | Some sequence \<Rightarrow> takeoverWritten sv command context identity executionId attempt sequence project evaluated))))))"

definition predecessorAbsent :: "operation_identity \<Rightarrow> ('e, execution_failure, 'a) program" where
  "predecessorAbsent identity =
     fails (executionFailed XExecutionNotFound ''Predecessor execution attempt is not registered'' (Some identity))"

definition takeoverTransaction ::
  "'e service \<Rightarrow> takeover_command \<Rightarrow> trusted_context \<Rightarrow> operation_identity \<Rightarrow> jsstr \<Rightarrow> registered_project \<Rightarrow>
    ('e, execution_failure, execution_success) program" where
  "takeoverTransaction sv command context identity executionId preflightProject =
     pbind (readTx sv) (\<lambda>state.
     case attemptByKey state (tc_idempotencyKey command) of
       Some attempt \<Rightarrow> replayed state attempt (takeoverTupleMatches state attempt command (tx_ownerId context)) context (Some identity)
     | None \<Rightarrow>
         (case attemptById state (le_executionId (tc_lease command)) of
            None \<Rightarrow> predecessorAbsent identity
          | Some attempt \<Rightarrow> takeoverOn sv command context identity executionId preflightProject state attempt))"

definition takeoverLookahead ::
  "'e service \<Rightarrow> takeover_command \<Rightarrow> trusted_context \<Rightarrow> operation_identity \<Rightarrow> jsstr \<Rightarrow> application_state \<Rightarrow> execution_attempt \<Rightarrow>
    ('e, execution_failure, execution_success) program" where
  "takeoverLookahead sv command context identity executionId prior predecessor =
     pseq (guard (xa_taskId predecessor = tc_taskId command)
       (executionFailed XStaleRevision ''Predecessor Task binding is stale'' (Some identity))) (
     pbind (ofFailure (identifiedBy identity (binding prior (tc_project command) (tc_taskId command)))) (\<lambda>(project, task).
     pseq (guard (leaseCurrent (tc_lease command) predecessor task \<and> sequenceStands prior command predecessor)
       (executionFailed XStaleFence ''Predecessor execution, Task revision, sequence, or fence is stale'' (Some identity))) (
     pseq (guard (xa_status predecessor = ActiveAttempt)
       (executionFailed XStaleFence ''Predecessor execution is no longer active'' (Some identity))) (
     pseq (guard (\<not> xa_leaseExpiresAt predecessor > oi_now identity)
       (executionFailed XLeaseNotExpired ''Predecessor execution lease has not expired'' (Some identity))) (
     pseq (guard (\<not> requiresReliabilityReconciliation prior (xa_executionId predecessor))
       (executionFailed XReconciliationRequired ''Effect-capable execution state must reconcile before takeover'' (Some identity))) (
     pseq (guard (t_state task = Running)
       (executionFailed XTaskNotEligible ''Only a running Task can be taken over'' (Some identity))) (
     pseq (validateRuntimeAndActor sv prior identity) (
     pseq (revalidateProject sv identity project) (
     caught (Some identity) (pseq (beforeTransaction sv)
       (withApplicationTransaction sv (takeoverTransaction sv command context identity executionId project))))))))))))"

definition takeoverFresh ::
  "'e service \<Rightarrow> takeover_command \<Rightarrow> trusted_context \<Rightarrow> application_state \<Rightarrow> operation_identity option \<times> jsstr option \<Rightarrow>
    ('e, execution_failure, execution_success) program" where
  "takeoverFresh sv command context prior identities =
     (case identities of
        (Some identity, Some executionId) \<Rightarrow>
          (case attemptById prior (le_executionId (tc_lease command)) of
             None \<Rightarrow> predecessorAbsent identity
           | Some predecessor \<Rightarrow> takeoverLookahead sv command context identity executionId prior predecessor)
      | (identity, executionId) \<Rightarrow>
          fails (executionFailed XInvalidInput ''Trusted takeover identities could not be obtained'' identity))"

definition takeover :: "'e service \<Rightarrow> 'e execution_ingress \<Rightarrow> jsval \<Rightarrow> ('e, execution_failure, execution_success) program" where
  "takeover sv ig v =
     (case parseTakeover v of
        None \<Rightarrow> fails (executionFailed XInvalidInput ''Execution takeover input is invalid'' None)
      | Some command \<Rightarrow>
          pbind (inEnv (trustedContext ig)) (\<lambda>context0.
          case context0 of
            None \<Rightarrow> fails (executionFailed XInvalidInput ''Trusted execution takeover ingress is invalid'' None)
          | Some context \<Rightarrow>
              pbind (caught None (readApplicationStateForOwner sv)) (\<lambda>prior.
              case attemptByKey prior (tc_idempotencyKey command) of
                Some attempt \<Rightarrow> replayed prior attempt (takeoverTupleMatches prior attempt command (tx_ownerId context)) context None
              | None \<Rightarrow>
                  pbind (inEnv (executionOperationIdentity context ig)) (\<lambda>identity.
                  pbind (inEnv (nextExecutionId ig)) (\<lambda>executionId.
                  takeoverFresh sv command context prior (identity, executionId))))))"

end
