(* ===== verification/Execution_Effects.thy ===== *)
theory Execution_Effects
  imports Execution_Leases Application_Operations
begin

text \<open>
  What the operations of the execution service do: a transaction that fails has changed nothing
  or appended the three records of a denial; one that returns has found the command already
  carried out and changed nothing, or has made exactly one claim, renewal, takeover or
  inspection, authorized on the state that it read.
\<close>

section \<open>Authority\<close>

text \<open>A grant of the actor for the action is in force on the Project, and the Project may be worked on.\<close>

definition executionGranted :: "application_state \<Rightarrow> operation_identity \<Rightarrow> string \<Rightarrow> registered_project \<Rightarrow> bool" where
  "executionGranted state identity action project \<longleftrightarrow>
     (\<exists>g\<in>set (st_grants state). g_actorId g = ta_actorId (oi_actor identity) \<and> g_action g = lit action \<and>
        in_force (oi_now identity) \<lparr>at_projectId = Some (rp_projectId project), at_resourceRevision = Some (rp_resourceRevision project),
          at_configRevision = Some (rp_configRevision project)\<rparr> g) \<and>
     (action = ''execution.claim.inspect'' \<or> enabledProject state (rp_projectId project))"

lemma executionAuthorization_granted:
  assumes "ae_allowed (executionAuthorization state identity action project (executionPolicy state project action))"
  shows "executionGranted state identity action project"
  using assms unfolding executionAuthorization_def evaluateAuthorization_iff
  by (auto dest!: readAuthorizationInput_dec simp: authorized_def executionGranted_def executionPolicy_def split: if_splits)

section \<open>Records\<close>

abbreviation executionRecords ::
  "operation_identity \<Rightarrow> string \<Rightarrow> bound_target \<Rightarrow> authorization_evaluation \<Rightarrow> database \<Rightarrow> database" where
  "executionRecords identity action target evaluated \<equiv>
     withRecords identity action target RequestAllow evaluated (executionAuditKind action) True ''accepted''"

text \<open>The first two records, before the effect of the operation.\<close>

definition authorizedTables ::
  "operation_identity \<Rightarrow> string \<Rightarrow> bound_target \<Rightarrow> authorization_evaluation \<Rightarrow> database \<Rightarrow> database" where
  "authorizedTables identity action target evaluated db =
     db\<lparr>db_requests := db_requests db @ [(requestRecord identity action target (if ae_allowed evaluated then RequestAllow else RequestDeny))
          \<lparr>rr_targetId := toWellFormed (bt_id target)\<rparr>],
        db_decisions := db_decisions db @ [decisionRecord identity action target evaluated]\<rparr>"

definition freshDecision :: "operation_identity \<Rightarrow> database \<Rightarrow> bool" where
  "freshDecision identity db \<longleftrightarrow> oi_requestId identity \<notin> rr_requestId ` set (db_requests db) \<and>
     oi_decisionId identity \<notin> dr_decisionId ` set (db_decisions db) \<and> oi_requestId identity \<notin> dr_requestId ` set (db_decisions db)"

definition freshAudit :: "operation_identity \<Rightarrow> database \<Rightarrow> bool" where
  "freshAudit identity db \<longleftrightarrow> oi_auditId identity \<notin> ar_auditId ` set (db_audit db) \<and> oi_requestId identity \<notin> ar_requestId ` set (db_audit db)"

lemma freshRecords_split: "freshRecords identity db \<longleftrightarrow> freshDecision identity db \<and> freshAudit identity db"
  by (auto simp: freshRecords_def freshRequest_def freshDecision_def freshAudit_def)

lemma triple_persistAuthorization:
  "triple (\<lambda>db. db = db0) (persistAuthorization sv identity action target evaluated)
     (\<lambda>_ db. freshDecision identity db0 \<and> db = authorizedTables identity action target evaluated db0) F"
  unfolding persistAuthorization_def
  by (rule triple_seq, rule triple_insertRequest triple_stage triple_insertDecision)+
    (rule triple_weaken [OF triple_stage], assumption,
     auto simp: authorizedTables_def freshDecision_def requestRecord_def decisionRecord_def)

definition auditedTables ::
  "operation_identity \<Rightarrow> string \<Rightarrow> bound_target \<Rightarrow> authorization_evaluation \<Rightarrow> database \<Rightarrow> database" where
  "auditedTables identity action target evaluated db =
     db\<lparr>db_audit := db_audit db @ [(auditRecord identity target
       (if ae_allowed evaluated then executionAuditKind action else ''authorization.denied'') (ae_allowed evaluated)
       (if ae_allowed evaluated then ''accepted'' else reasonName (ae_reason evaluated)) (Some (oi_decisionId identity)))
         \<lparr>ar_targetId := toWellFormed (bt_id target)\<rparr>]\<rparr>"

lemma triple_persistAudit:
  "triple P (persistAudit sv identity action target evaluated)
     (\<lambda>_ db'. \<exists>db. P db \<and> freshAudit identity db \<and> db' = auditedTables identity action target evaluated db) F"
  unfolding persistAudit_def
  by (rule triple_seq [OF triple_insertAudit], rule triple_weaken [OF triple_stage], assumption)
    (auto simp: auditedTables_def freshAudit_def auditRecord_def)

lemma audited_authorized:
  "ae_allowed evaluated \<Longrightarrow> auditedTables identity action target evaluated (authorizedTables identity action target evaluated db) =
     executionRecords identity action target evaluated db"
  "\<not> ae_allowed evaluated \<Longrightarrow> auditedTables identity action target evaluated (authorizedTables identity action target evaluated db) =
     deniedRecords identity action target evaluated db"
  by (simp_all add: auditedTables_def authorizedTables_def withRecords_def)

lemma freshAudit_authorized [simp]:
  "freshAudit identity (authorizedTables i a t e db) = freshAudit identity db"
  by (simp add: freshAudit_def authorizedTables_def)

abbreviation executionRefusal :: "operation_identity \<Rightarrow> string \<Rightarrow> database \<Rightarrow> execution_failure \<Rightarrow> database \<Rightarrow> bool" where
  "executionRefusal identity action db0 \<equiv> (\<lambda>f db. refused identity action db0 db)"

lemma triple_recordExecutionDenied:
  assumes "\<not> ae_allowed evaluated"
  shows "triple (\<lambda>db. db = db0) (recordExecutionDenied sv identity action target evaluated) Q (executionRefusal identity action db0)"
  unfolding recordExecutionDenied_def
  apply (rule triple_seq [OF triple_persistAuthorization])
  apply (rule triple_seq [OF triple_persistAudit])
  apply (rule triple_fails)
  using assms by (auto simp: refused_def audited_authorized freshRecords_split)

text \<open>An authorization that is denied is recorded; otherwise the operation goes on.\<close>

lemma triple_decided:
  assumes "ae_allowed evaluated \<Longrightarrow> triple (\<lambda>db. db = db0) k Q (executionRefusal identity action db0)"
  shows "triple (\<lambda>db. db = db0)
    (if \<not> ae_allowed evaluated then recordExecutionDenied sv identity action target evaluated else k) Q
    (executionRefusal identity action db0)"
  using assms triple_recordExecutionDenied by (cases "ae_allowed evaluated") auto

section \<open>Lookups\<close>

lemma stateOf_sets:
  "set (st_executions (stateOf domain db)) = set (db_executions db)"
  "set (st_executionSequences (stateOf domain db)) = set (db_sequences db)"
  "set (st_requests (stateOf domain db)) = set (db_requests db)" "set (st_projects (stateOf domain db)) = set (db_projects db)"
  by (simp_all add: stateOf_def)

lemma readState_tables:
  assumes "readState sv db = Inr state"
  shows "set (st_executions state) = set (db_executions db)" "set (st_executionSequences state) = set (db_sequences db)"
    "set (st_requests state) = set (db_requests db)" "set (st_projects state) = set (db_projects db)"
proof -
  obtain domain where state: "state = stateOf domain db" using readState_domain(2) [OF assms] ..
  show "set (st_executions state) = set (db_executions db)" "set (st_executionSequences state) = set (db_sequences db)"
    "set (st_requests state) = set (db_requests db)" "set (st_projects state) = set (db_projects db)"
    unfolding state by (rule stateOf_sets)+
qed

lemma find_unique: "a \<in> set xs \<Longrightarrow> p a \<Longrightarrow> (\<And>b. b \<in> set xs \<Longrightarrow> p b \<Longrightarrow> b = a) \<Longrightarrow> find p xs = Some a"
  by (metis find_None_iff find_eq_Some_D not_Some_eq)

lemma attemptById_D: "attemptById state i = Some a \<Longrightarrow> a \<in> set (st_executions state) \<and> xa_executionId a = i"
  by (auto simp: attemptById_def dest: find_eq_Some_D)

lemma attemptByKey_D: "attemptByKey state k = Some a \<Longrightarrow> a \<in> set (st_executions state) \<and> xa_idempotencyKey a = k"
  by (auto simp: attemptByKey_def dest: find_eq_Some_D)

lemma sequenceOf_D: "sequenceOf state i = Some q \<Longrightarrow> q \<in> set (st_executionSequences state) \<and> es_taskId q = i"
  by (auto simp: sequenceOf_def dest: find_eq_Some_D)

lemma sequenceOf_None: "sequenceOf state i = None \<longleftrightarrow> i \<notin> es_taskId ` set (st_executionSequences state)"
  by (auto simp: sequenceOf_def find_None_iff)

lemma attemptById_new:
  assumes "readState sv db = Inr state" "db_executions db = rows @ [a]" "xa_executionId a \<notin> xa_executionId ` set rows"
  shows "attemptById state (xa_executionId a) = Some a"
  unfolding attemptById_def
  by (rule find_unique) (use readState_tables(1) [OF assms(1)] assms(2,3) in \<open>auto simp: image_iff\<close>)

lemma binding_Inr:
  "binding state expected taskId = Inr (project, task) \<longleftrightarrow>
     find (\<lambda>candidate. rp_projectId candidate = pe_projectId expected) (st_projects state) = Some project \<and>
     rp_resourceRevision project = pe_resourceRevision expected \<and> rp_configRevision project = pe_configRevision expected \<and>
     taskById (st_domain state) taskId = Some task \<and> t_projectId task = pe_projectId expected"
  by (auto simp: binding_def split: option.splits if_splits)

lemma identifiedBy_Inr [simp]: "identifiedBy identity r = Inr x \<longleftrightarrow> r = Inr x"
  by (auto simp: identifiedBy_def split: sum.splits)

section \<open>Claims\<close>

text \<open>The state of the tables on which a claim may be made.\<close>

definition mayClaim :: "claim_command \<Rightarrow> application_state \<Rightarrow> registered_project \<Rightarrow> task \<Rightarrow> bool" where
  "mayClaim command state project task \<longleftrightarrow>
     binding state (cl_project command) (cl_taskId command) = Inr (project, task) \<and>
     t_revision task = cl_expectedTaskRevision command \<and> t_state task = Ready \<and>
     enabledProject state (pe_projectId (cl_project command)) \<and> sequenceOf state (cl_taskId command) = None"

abbreviation firstSequence :: "jsstr \<Rightarrow> task_execution_sequence" where
  "firstSequence taskId \<equiv> \<lparr>es_taskId = taskId, es_lastAttemptNumber = 1, es_currentFencingToken = 1, es_revision = 1\<rparr>"

definition claims ::
  "'e service \<Rightarrow> claim_command \<Rightarrow> trusted_context \<Rightarrow> operation_identity \<Rightarrow> jsstr \<Rightarrow> database \<Rightarrow> execution_attempt \<Rightarrow> database \<Rightarrow> bool" where
  "claims sv command context identity executionId db attempt db' \<longleftrightarrow>
     (\<exists>state project task m evaluated leaseExpiresAt domain.
        readState sv db = Inr state \<and> attemptByKey state (cl_idempotencyKey command) = None \<and> mayClaim command state project task \<and>
        claimMutation sv state identity task = Inr m \<and>
        writeDomainMutationUntransactional (sv_nfc sv) (db_domain db) (st_domain state) m = Inr domain \<and>
        executionGranted state identity ''execution.claim'' project \<and> ae_allowed evaluated \<and>
        shiftTimestamp (oi_now identity) (cl_leaseDurationSeconds command * 1000) = Some leaseExpiresAt \<and>
        attempt = claimedAttempt command context identity executionId project leaseExpiresAt \<and>
        \<not> list_ex (attemptsConflict attempt) (db_executions db) \<and> freshRecords identity db \<and>
        db' = (executionRecords identity ''execution.claim'' (executionTarget executionId 1 project) evaluated db)
          \<lparr>db_sequences := db_sequences db @ [firstSequence (cl_taskId command)], db_executions := db_executions db @ [attempt],
           db_domain := domain\<rparr>)"

lemma triple_insertExecutionSequence:
  "triple P (insertExecutionSequence q) (\<lambda>_ db'. \<exists>db. P db \<and> es_taskId q \<notin> es_taskId ` set (db_sequences db) \<and>
     db' = db\<lparr>db_sequences := db_sequences db @ [q]\<rparr>) F"
  unfolding insertExecutionSequence_def
  by (rule triple_onTablesI) (auto simp: ebind_eq_Inr insertRow_Inr)

lemma triple_insertExecutionAttempt:
  "triple P (insertExecutionAttempt a) (\<lambda>_ db'. \<exists>db. P db \<and> attemptRowChecks a \<and> \<not> list_ex (attemptsConflict a) (db_executions db) \<and>
     db' = db\<lparr>db_executions := db_executions db @ [a]\<rparr>) F"
  unfolding insertExecutionAttempt_def
  by (rule triple_onTablesI) (auto simp: sqliteError_def split: if_splits)

lemma triple_writeDomain:
  "triple P (writeDomain sv expected m) (\<lambda>_ db'. \<exists>db domain. P db \<and>
     writeDomainMutationUntransactional (sv_nfc sv) (db_domain db) expected m = Inr domain \<and> db' = db\<lparr>db_domain := domain\<rparr>) F"
  unfolding writeDomain_def by (rule triple_onTablesI) (auto simp: ebind_eq_Inr)

lemma triple_claimReadback:
  assumes "\<And>db. P db \<Longrightarrow> db_executions db = rows @ [a] \<and> xa_executionId a = executionId \<and> executionId \<notin> xa_executionId ` set rows"
    and "\<And>db. P db \<Longrightarrow> Q (executionSucceeded (view a (oi_now identity)) (oi_requestId identity) (oi_correlationId identity)) db"
  shows "triple P (claimReadback sv command identity executionId) Q F"
  unfolding claimReadback_def
proof (rule triple_readTx)
  fix readback
  show "triple (\<lambda>db. P db \<and> readState sv db = Inr readback)
     (case (attemptById readback executionId, taskById (st_domain readback) (cl_taskId command)) of
       (Some attempt, Some task) \<Rightarrow>
         if t_state task \<noteq> Running \<or> t_revision task \<noteq> cl_expectedTaskRevision command + 1
         then throws (TypeError ''Execution claim terminal readback did not match'')
         else ret (executionSucceeded (view attempt (oi_now identity)) (oi_requestId identity) (oi_correlationId identity))
     | _ \<Rightarrow> throws (TypeError ''Execution claim terminal readback did not match'')) Q F"
    using assms attemptById_new [of sv _ readback rows a]
    by (auto intro!: triple_throws triple_ret split: option.split)
qed

lemma claimedAttempt_fields [simp]:
  "xa_executionId (claimedAttempt command context identity executionId project expiry) = executionId"
  "xa_taskId (claimedAttempt command context identity executionId project expiry) = cl_taskId command"
  "xa_attemptNumber (claimedAttempt command context identity executionId project expiry) = 1"
  "xa_fencingToken (claimedAttempt command context identity executionId project expiry) = 1"
  "xa_status (claimedAttempt command context identity executionId project expiry) = ActiveAttempt"
  "xa_supersededByExecutionId (claimedAttempt command context identity executionId project expiry) = None"
  "xa_ownerId (claimedAttempt command context identity executionId project expiry) = tx_ownerId context"
  "xa_leaseExpiresAt (claimedAttempt command context identity executionId project expiry) = expiry"
  "xa_idempotencyKey (claimedAttempt command context identity executionId project expiry) = cl_idempotencyKey command"
  by (simp_all add: claimedAttempt_def)

lemma conflict_id: "\<not> list_ex (attemptsConflict a) rows \<Longrightarrow> xa_executionId a \<notin> xa_executionId ` set rows"
  by (auto simp: list_ex_iff attemptsConflict_def)

lemma claimsI:
  assumes "readState sv db = Inr state" "attemptByKey state (cl_idempotencyKey command) = None" "mayClaim command state project task"
    "claimMutation sv state identity task = Inr m" "executionGranted state identity ''execution.claim'' project" "ae_allowed evaluated"
    "writeDomainMutationUntransactional (sv_nfc sv) (db_domain db) (st_domain state) m = Inr domain"
    "shiftTimestamp (oi_now identity) (cl_leaseDurationSeconds command * 1000) = Some leaseExpiresAt"
    "attempt = claimedAttempt command context identity executionId project leaseExpiresAt"
    "\<not> list_ex (attemptsConflict attempt) (db_executions db)" "freshRecords identity db"
    "db' = (executionRecords identity ''execution.claim'' (executionTarget executionId 1 project) evaluated db)
       \<lparr>db_sequences := db_sequences db @ [firstSequence (cl_taskId command)], db_executions := db_executions db @ [attempt],
        db_domain := domain\<rparr>"
  shows "claims sv command context identity executionId db attempt db'"
  unfolding claims_def using assms by blast

lemma triple_claimWritten:
  assumes state: "readState sv db0 = Inr state" "attemptByKey state (cl_idempotencyKey command) = None" "mayClaim command state project task"
    "claimMutation sv state identity task = Inr m" "executionGranted state identity ''execution.claim'' project" "ae_allowed evaluated"
  shows "triple (\<lambda>db. db = db0) (claimWritten sv command context identity executionId state project m evaluated)
    (\<lambda>r db. \<exists>attempt. claims sv command context identity executionId db0 attempt db \<and>
       r = executionSucceeded (view attempt (oi_now identity)) (oi_requestId identity) (oi_correlationId identity)) F"
proof -
  let ?target = "executionTarget executionId 1 project"
  let ?start = "authorizedTables identity ''execution.claim'' ?target evaluated db0"
  let ?a = "claimedAttempt command context identity executionId project"
  let ?db = "\<lambda>expiry domain. ?start\<lparr>db_sequences := db_sequences db0 @ [firstSequence (cl_taskId command)],
    db_executions := db_executions db0 @ [?a expiry], db_domain := domain\<rparr>"
  let ?ok = "\<lambda>expiry domain. \<not> list_ex (attemptsConflict (?a expiry)) (db_executions db0) \<and> freshDecision identity db0 \<and>
    writeDomainMutationUntransactional (sv_nfc sv) (db_domain db0) (st_domain state) m = Inr domain"
  have effect: "triple (\<lambda>db. db = ?start \<and> freshDecision identity db0)
      (pseq (insertExecutionSequence (firstSequence (cl_taskId command))) (
       pseq (stage sv ''execution-sequence'') (
       pbind (shifted (oi_now identity) (cl_leaseDurationSeconds command * 1000)) (\<lambda>leaseExpiresAt.
       pseq (insertExecutionAttempt (?a leaseExpiresAt)) (
       pseq (stage sv ''execution-attempt'') (
       pseq (writeDomain sv (st_domain state) m) (
       pseq (stage sv ''domain'') (
       pseq (persistAudit sv identity ''execution.claim'' ?target evaluated) (
       claimReadback sv command identity executionId)))))))))
      (\<lambda>r db. \<exists>attempt. claims sv command context identity executionId db0 attempt db \<and>
         r = executionSucceeded (view attempt (oi_now identity)) (oi_requestId identity) (oi_correlationId identity)) F"
    apply (rule triple_seq [OF triple_insertExecutionSequence], rule triple_seq [OF triple_stage], rule triple_shifted)
    subgoal for expiry
      apply (rule triple_seq [OF triple_insertExecutionAttempt], rule triple_seq [OF triple_stage])
      apply (rule triple_seq [OF triple_writeDomain], rule triple_seq [OF triple_stage], rule triple_seq [OF triple_persistAudit])
      apply (rule triple_claimReadback [where rows = "db_executions db0" and a = "?a expiry"])
       apply (auto simp: authorizedTables_def auditedTables_def dest: conflict_id) [1]
      apply (elim conjE exE, intro exI conjI, rule claimsI [OF state])
           apply (auto simp: authorizedTables_def auditedTables_def withRecords_def freshRecords_split freshAudit_def state(6))
      done
    done
  show ?thesis unfolding claimWritten_def Let_def by (rule triple_seq [OF triple_persistAuthorization], rule triple_weaken [OF effect]) auto
qed

lemma triple_unlessFailure:
  assumes "\<And>f db. failure = Some f \<Longrightarrow> P db \<Longrightarrow> F f db" "failure = None \<Longrightarrow> triple P k Q F"
  shows "triple P (pseq (unlessFailure failure) k) Q F"
  using assms by (cases failure) (auto simp: unlessFailure_def triple_def pseq_def pbind_def ret_def fails_def)

lemma claimable_None:
  "claimable message state command identity task = None \<longleftrightarrow>
     t_revision task = cl_expectedTaskRevision command \<and> enabledProject state (pe_projectId (cl_project command)) \<and>
     t_state task = Ready \<and> sequenceOf state (cl_taskId command) = None"
  by (auto simp: claimable_def)

abbreviation claimResult ::
  "'e service \<Rightarrow> claim_command \<Rightarrow> trusted_context \<Rightarrow> operation_identity \<Rightarrow> jsstr \<Rightarrow> database \<Rightarrow> execution_success \<Rightarrow> database \<Rightarrow> bool" where
  "claimResult sv command context identity executionId db r db' \<equiv> \<exists>attempt. claims sv command context identity executionId db attempt db' \<and>
     r = executionSucceeded (view attempt (oi_now identity)) (oi_requestId identity) (oi_correlationId identity)"

lemma triple_claimOn:
  assumes state: "readState sv db0 = Inr state" "attemptByKey state (cl_idempotencyKey command) = None"
  shows "triple (\<lambda>db. db = db0) (claimOn sv command context identity executionId prior state)
    (claimResult sv command context identity executionId db0) (executionRefusal identity ''execution.claim'' db0)"
  unfolding claimOn_def
proof (rule triple_ofFailure, simp, clarify)
  fix project task
  assume "identifiedBy identity (binding state (cl_project command) (cl_taskId command)) = Inr (project, task)"
  then have bound: "binding state (cl_project command) (cl_taskId command) = Inr (project, task)" by simp
  show "triple (\<lambda>db. db = db0)
    (pseq (guard (sameProject project prior)
       (executionFailed XProjectIdentityChanged ''Project identity changed after trusted preflight'' (Some identity))) (
     pseq (unlessFailure (claimable ''Task revision changed after preflight'' state command identity task)) (
     pbind (ofFailure (claimMutation sv state identity task)) (\<lambda>m.
     let evaluated = executionAuthorization state identity ''execution.claim'' project (executionPolicy state project ''execution.claim'') in
     if \<not> ae_allowed evaluated
     then recordExecutionDenied sv identity ''execution.claim'' (executionTarget executionId 1 project) evaluated
     else claimWritten sv command context identity executionId state project m evaluated))))
    (claimResult sv command context identity executionId db0) (executionRefusal identity ''execution.claim'' db0)"
    apply (rule triple_guard, simp, rule triple_unlessFailure, simp, rule triple_ofFailure, simp, unfold Let_def, rule triple_decided)
    apply (rule triple_claimWritten [OF state])
    by (auto simp: mayClaim_def bound claimable_None intro: executionAuthorization_granted)
qed

section \<open>Repetitions\<close>

text \<open>The command was carried out before: the same actor gets the answer again, and nothing changes.\<close>

definition repeats ::
  "'e service \<Rightarrow> (application_state \<Rightarrow> execution_attempt \<Rightarrow> bool) \<Rightarrow> trusted_context \<Rightarrow> jsstr \<Rightarrow> database \<Rightarrow> execution_success \<Rightarrow> database \<Rightarrow> bool" where
  "repeats sv same context key db r db' \<longleftrightarrow> db' = db \<and>
     (\<exists>state attempt request. readState sv db = Inr state \<and> attemptByKey state key = Some attempt \<and> same state attempt \<and>
        request \<in> set (st_requests state) \<and> rr_requestId request = xa_requestId attempt \<and>
        rr_actorId request = ta_actorId (tx_actor context) \<and>
        r = executionSucceeded (view attempt (tx_now context)) (rr_requestId request) (rr_correlationId request))"

lemma replayed_cases:
  "replayed state attempt same context identity =
     (case find (\<lambda>candidate. rr_requestId candidate = xa_requestId attempt) (st_requests state) of
        Some request \<Rightarrow>
          if same \<and> rr_actorId request = ta_actorId (tx_actor context)
          then ret (executionSucceeded (view attempt (tx_now context)) (rr_requestId request) (rr_correlationId request))
          else fails (executionFailed XIdempotencyConflict ''Execution idempotency identity is bound to another operation'' identity)
      | None \<Rightarrow> fails (executionFailed XIdempotencyConflict ''Execution idempotency identity is bound to another operation'' identity))"
  by (simp add: replayed_def replay_def split: option.split)

lemma triple_replayed:
  assumes "readState sv db0 = Inr state" "attemptByKey state key = Some attempt"
  shows "triple (\<lambda>db. db = db0) (replayed state attempt (same state attempt) context identity)
    (repeats sv same context key db0) (\<lambda>f db. db = db0)"
proof (cases "find (\<lambda>candidate. rr_requestId candidate = xa_requestId attempt) (st_requests state)")
  case (Some request)
  then have "request \<in> set (st_requests state)" "rr_requestId request = xa_requestId attempt" by (auto dest: find_eq_Some_D)
  with assms show ?thesis unfolding replayed_cases Some option.case
    by (intro triple_if triple_ret triple_fails) (auto simp: repeats_def)
qed (auto simp: replayed_cases intro: triple_fails)

lemma triple_keyed:
  assumes "readState sv db0 = Inr state" "attemptByKey state key = None \<Longrightarrow> triple (\<lambda>db. db = db0) k Q F" "\<And>f. F f db0"
  shows "triple (\<lambda>db. db = db0)
    (case attemptByKey state key of Some attempt \<Rightarrow> replayed state attempt (same state attempt) context identity | None \<Rightarrow> k)
    (\<lambda>r db. repeats sv same context key db0 r db \<or> Q r db) F"
proof (cases "attemptByKey state key")
  case None
  show ?thesis unfolding None option.case by (rule triple_weaken [OF assms(2) [OF None]]) auto
next
  case (Some attempt)
  show ?thesis unfolding Some option.case
    by (rule triple_weaken [OF triple_replayed [OF assms(1) Some, where same = same]]) (use assms(3) in auto)
qed

theorem triple_claimTransaction:
  "triple (\<lambda>db. db = db0) (claimTransaction sv command context identity executionId prior)
    (\<lambda>r db. repeats sv (\<lambda>state attempt. claimTupleMatches state attempt command (tx_ownerId context)) context (cl_idempotencyKey command) db0 r db \<or>
       claimResult sv command context identity executionId db0 r db)
    (executionRefusal identity ''execution.claim'' db0)"
  unfolding claimTransaction_def
  by (rule triple_readAt, rule triple_keyed [where same = "\<lambda>state attempt. claimTupleMatches state attempt command (tx_ownerId context)"])
    (auto intro: triple_claimOn)

section \<open>Inspections\<close>

definition inspects :: "'e service \<Rightarrow> inspect_command \<Rightarrow> operation_identity \<Rightarrow> database \<Rightarrow> execution_success \<Rightarrow> database \<Rightarrow> bool" where
  "inspects sv command identity db r db' \<longleftrightarrow>
     (\<exists>state attempt project task evaluated.
        readState sv db = Inr state \<and> attemptById state (ic_executionId command) = Some attempt \<and>
        binding state (ic_project command) (xa_taskId attempt) = Inr (project, task) \<and>
        xa_revision attempt = ic_expectedExecutionRevision command \<and> t_revision task = ic_expectedTaskRevision command \<and>
        executionGranted state identity ''execution.claim.inspect'' project \<and> ae_allowed evaluated \<and> freshRecords identity db \<and>
        db' = executionRecords identity ''execution.claim.inspect'' (executionTarget (xa_executionId attempt) (xa_revision attempt) project)
          evaluated db \<and>
        r = executionSucceeded (view attempt (oi_now identity)) (oi_requestId identity) (oi_correlationId identity))"

lemma attemptById_same:
  assumes "readState sv db = Inr state" "readState sv db' = Inr state'" "db_executions db' = db_executions db"
  shows "attemptById state' i = attemptById state i"
proof -
  have "st_executions state = sort_key (\<lambda>r. codePoints (xa_taskId r)) (sort_key xa_attemptNumber (db_executions db))"
    "st_executions state' = sort_key (\<lambda>r. codePoints (xa_taskId r)) (sort_key xa_attemptNumber (db_executions db'))"
    using readState_domain(2) [OF assms(1)] readState_domain(2) [OF assms(2)]
    by (metis (no_types) application_state.select_convs(12) stateOf_def)+
  with assms(3) show ?thesis by (simp add: attemptById_def)
qed

lemma records_executions [simp]:
  "db_executions (auditedTables i a t e db) = db_executions db" "db_executions (authorizedTables i a t e db) = db_executions db"
  by (simp_all add: auditedTables_def authorizedTables_def)

lemma triple_inspectOn:
  assumes state: "readState sv db0 = Inr state" "attemptById state (ic_executionId command) = Some attempt"
  shows "triple (\<lambda>db. db = db0) (inspectOn sv command identity prior state attempt)
    (inspects sv command identity db0) (executionRefusal identity ''execution.claim.inspect'' db0)"
proof -
  have result: "inspects sv command identity db0
      (executionSucceeded (view a (oi_now identity)) (oi_requestId identity) (oi_correlationId identity)) db"
    if "binding state (ic_project command) (xa_taskId attempt) = Inr (project, task)"
      "xa_revision attempt = ic_expectedExecutionRevision command \<and> t_revision task = ic_expectedTaskRevision command"
      "evaluated = executionAuthorization state identity ''execution.claim.inspect'' project (executionPolicy state project ''execution.claim.inspect'')"
      "ae_allowed evaluated" "freshDecision identity db0" "freshAudit identity db1"
      "db1 = authorizedTables identity ''execution.claim.inspect'' (executionTarget (xa_executionId attempt) (xa_revision attempt) project) evaluated db0"
      "db = auditedTables identity ''execution.claim.inspect'' (executionTarget (xa_executionId attempt) (xa_revision attempt) project) evaluated db1"
      "readState sv db = Inr state'" "attemptById state' (xa_executionId attempt) = Some a"
    for project task evaluated db db1 state' a
  proof -
    have "attemptById state' (xa_executionId attempt) = attemptById state (xa_executionId attempt)"
      by (rule attemptById_same [OF state(1) that(9)]) (simp add: that)
    then have "a = attempt" using that(10) state(2) attemptById_D [OF state(2)] by simp
    with that state executionAuthorization_granted show ?thesis
      unfolding inspects_def by (auto simp: audited_authorized freshRecords_split)
  qed
  show ?thesis unfolding inspectOn_def
    apply (rule triple_ofFailure, simp, clarify)
    apply (rule triple_guard, simp, rule triple_guard, simp, unfold Let_def, rule triple_decided)
    apply (rule triple_seq [OF triple_persistAuthorization], rule triple_seq [OF triple_persistAudit], rule triple_readTx)
    apply (rename_tac state', case_tac "attemptById state' (xa_executionId attempt)")
     apply (simp add: triple_throws)
    apply (simp only: option.case)
    apply (rule triple_ret, elim exE conjE, rule result)
    by (simp_all only: identifiedBy_Inr)
qed

theorem triple_inspectTransaction:
  "triple (\<lambda>db. db = db0) (inspectTransaction sv command identity prior)
    (inspects sv command identity db0) (executionRefusal identity ''execution.claim.inspect'' db0)"
  unfolding inspectTransaction_def executionAbsent_def
  by (rule triple_readAt) (auto intro!: triple_fails triple_inspectOn split: option.split)

end
