(* ===== verification/Execution_Lease_Effects.thy ===== *)
theory Execution_Lease_Effects
  imports Execution_Effects
begin

text \<open>
  What a renewal and a takeover do: the rows that the compare-and-swap of the lease selects, and
  the conditions under which the transaction selects them.
\<close>

section \<open>Renewals\<close>

definition renewsLease ::
  "'e service \<Rightarrow> renew_command \<Rightarrow> trusted_context \<Rightarrow> operation_identity \<Rightarrow> database \<Rightarrow> execution_success \<Rightarrow> database \<Rightarrow> bool" where
  "renewsLease sv command context identity db r db' \<longleftrightarrow>
     (\<exists>state attempt project task evaluated expiry found.
        readState sv db = Inr state \<and> attemptById state (le_executionId (rc_lease command)) = Some attempt \<and>
        binding state (rc_project command) (xa_taskId attempt) = Inr (project, task) \<and>
        leaseCurrent (rc_lease command) attempt task \<and> leaseHeld context (oi_now identity) attempt \<and> xa_leaseExpiresAt attempt < expiry \<and>
        shiftTimestamp (oi_now identity) (rc_leaseDurationSeconds command * 1000) = Some expiry \<and>
        executionGranted state identity ''execution.lease.renew'' project \<and> ae_allowed evaluated \<and> freshRecords identity db \<and>
        length (filter (renewable (tx_ownerId context) (rc_lease command) (oi_now identity)) (db_executions db)) = 1 \<and>
        (\<forall>row\<in>set (db_executions db). renewable (tx_ownerId context) (rc_lease command) (oi_now identity) row \<longrightarrow>
           xa_updatedAt row < oi_now identity) \<and>
        db' = (executionRecords identity ''execution.lease.renew''
            (executionTarget (xa_executionId attempt) (xa_revision attempt) project) evaluated db)
          \<lparr>db_executions := map (\<lambda>row. if renewable (tx_ownerId context) (rc_lease command) (oi_now identity) row
             then renewedAttempt (oi_now identity) expiry row else row) (db_executions db)\<rparr> \<and>
        found \<in> set (db_executions db') \<and> xa_executionId found = xa_executionId attempt \<and>
        xa_fencingToken found = xa_fencingToken attempt \<and> xa_status found = ActiveAttempt \<and>
        r = executionSucceeded (view found (oi_now identity)) (oi_requestId identity) (oi_correlationId identity))"

lemma triple_renewExecutionLease:
  "triple P (renewExecutionLease ownerId expected now expiry) (\<lambda>_ db'. \<exists>db. P db \<and>
     length (filter (renewable ownerId expected now) (db_executions db)) = 1 \<and>
     (\<forall>row\<in>set (db_executions db). renewable ownerId expected now row \<longrightarrow> xa_updatedAt row < now) \<and>
     db' = db\<lparr>db_executions := map (\<lambda>row. if renewable ownerId expected now row then renewedAttempt now expiry row else row) (db_executions db)\<rparr>) F"
  unfolding renewExecutionLease_def Let_def
  by (rule triple_onTablesI) (auto simp: sqliteError_def persistenceFailure_def list_ex_iff split: if_splits)

lemma triple_renewReadback:
  assumes "\<And>db found. P db \<Longrightarrow> found \<in> set (db_executions db) \<Longrightarrow> xa_executionId found = xa_executionId attempt \<Longrightarrow>
      xa_fencingToken found = xa_fencingToken attempt \<Longrightarrow> xa_status found = ActiveAttempt \<Longrightarrow>
      Q (executionSucceeded (view found (oi_now identity)) (oi_requestId identity) (oi_correlationId identity)) db"
  shows "triple P (renewReadback sv identity attempt) Q F"
  unfolding renewReadback_def
  by (intro triple_readTx) (auto intro!: triple_throws triple_ret assms dest!: attemptById_D readState_tables(1) split: option.split)

lemma triple_renewWritten:
  assumes state: "readState sv db0 = Inr state" "attemptById state (le_executionId (rc_lease command)) = Some attempt"
    "binding state (rc_project command) (xa_taskId attempt) = Inr (project, task)"
    "leaseCurrent (rc_lease command) attempt task \<and> leaseHeld context (oi_now identity) attempt \<and> \<not> expiry \<le> xa_leaseExpiresAt attempt"
    "shiftTimestamp (oi_now identity) (rc_leaseDurationSeconds command * 1000) = Some expiry"
    "executionGranted state identity ''execution.lease.renew'' project" "ae_allowed evaluated"
  shows "triple (\<lambda>db. db = db0) (renewWritten sv command context identity expiry attempt project evaluated)
    (renewsLease sv command context identity db0) F"
proof -
  have lease: "(rc_lease command)\<lparr>le_executionId := xa_executionId attempt\<rparr> = rc_lease command"
    using attemptById_D [OF state(2)] by simp
  show ?thesis
    unfolding renewWritten_def Let_def lease
    apply (rule triple_seq [OF triple_persistAuthorization], rule triple_seq [OF triple_renewExecutionLease], rule triple_seq [OF triple_stage])
    apply (rule triple_seq [OF triple_persistAudit], rule triple_renewReadback)
    unfolding renewsLease_def
    apply (rule exI [of _ state], rule exI [of _ attempt], rule exI [of _ project], rule exI [of _ task], rule exI [of _ evaluated], rule exI [of _ expiry])
    subgoal for db found
      apply (rule exI [of _ found])
      using state by (auto simp: authorizedTables_def auditedTables_def withRecords_def freshRecords_split freshAudit_def)
    done
qed

lemma triple_renewOn:
  assumes state: "readState sv db0 = Inr state" "attemptById state (le_executionId (rc_lease command)) = Some attempt"
    "shiftTimestamp (oi_now identity) (rc_leaseDurationSeconds command * 1000) = Some expiry"
  shows "triple (\<lambda>db. db = db0) (renewOn sv command context identity expiry prior state attempt)
    (renewsLease sv command context identity db0) (executionRefusal identity ''execution.lease.renew'' db0)"
  unfolding renewOn_def
  apply (rule triple_ofFailure, simp, clarify)
  apply (rule triple_guard, simp, rule triple_guard, simp, unfold Let_def, rule triple_decided)
  by (rule triple_renewWritten [OF state(1,2) _ _ state(3)]) (auto intro: executionAuthorization_granted)

theorem triple_renewTransactionOf:
  assumes "shiftTimestamp (oi_now identity) (rc_leaseDurationSeconds command * 1000) = Some expiry"
  shows "triple (\<lambda>db. db = db0) (renewTransactionOf sv command context identity expiry prior)
    (renewsLease sv command context identity db0) (executionRefusal identity ''execution.lease.renew'' db0)"
  unfolding renewTransactionOf_def executionAbsent_def
  by (rule triple_readAt) (auto intro!: triple_fails triple_renewOn assms split: option.split)

section \<open>Takeovers\<close>

text \<open>The state of the tables on which an attempt may be taken over.\<close>

definition mayTakeOver ::
  "takeover_command \<Rightarrow> jsstr \<Rightarrow> application_state \<Rightarrow> execution_attempt \<Rightarrow> registered_project \<Rightarrow> task \<Rightarrow> task_execution_sequence \<Rightarrow> bool" where
  "mayTakeOver command now state attempt project task sequence \<longleftrightarrow>
     attemptById state (le_executionId (tc_lease command)) = Some attempt \<and>
     binding state (tc_project command) (tc_taskId command) = Inr (project, task) \<and> xa_taskId attempt = tc_taskId command \<and>
     leaseCurrent (tc_lease command) attempt task \<and> t_state task = Running \<and> xa_status attempt = ActiveAttempt \<and>
     sequenceStands state command attempt \<and> sequenceOf state (tc_taskId command) = Some sequence \<and>
     xa_leaseExpiresAt attempt \<le> now \<and> \<not> requiresReliabilityReconciliation state (xa_executionId attempt)"

definition advancedRows :: "task_execution_sequence \<Rightarrow> task_execution_sequence list \<Rightarrow> task_execution_sequence list" where
  "advancedRows q rows =
     map (\<lambda>row. if sequenceMatches (es_taskId q) (es_lastAttemptNumber q) (es_currentFencingToken q) (es_revision q) row
       then advancedSequence row else row) rows"

definition supersededRows :: "jsstr \<Rightarrow> jsstr \<Rightarrow> lease_expectation \<Rightarrow> jsstr \<Rightarrow> execution_attempt list \<Rightarrow> execution_attempt list" where
  "supersededRows by ownerId expected now rows =
     map (\<lambda>row. if supersedable ownerId expected now row then supersededAttempt by now row else row) rows"

definition takesOver ::
  "'e service \<Rightarrow> takeover_command \<Rightarrow> trusted_context \<Rightarrow> operation_identity \<Rightarrow> jsstr \<Rightarrow> database \<Rightarrow> execution_attempt \<Rightarrow> database \<Rightarrow> bool" where
  "takesOver sv command context identity executionId db attempt db' \<longleftrightarrow>
     (\<exists>state predecessor project task sequence advanced evaluated expiry.
        readState sv db = Inr state \<and> attemptByKey state (tc_idempotencyKey command) = None \<and>
        mayTakeOver command (oi_now identity) state predecessor project task sequence \<and>
        executionGranted state identity ''execution.lease.takeover'' project \<and> ae_allowed evaluated \<and> freshRecords identity db \<and>
        shiftTimestamp (oi_now identity) (tc_leaseDurationSeconds command * 1000) = Some expiry \<and>
        find (\<lambda>row. es_taskId row = tc_taskId command) (advancedRows sequence (db_sequences db)) = Some advanced \<and>
        length (filter (supersedable (xa_ownerId predecessor) (tc_lease command) (oi_now identity)) (db_executions db)) = 1 \<and>
        (\<forall>row\<in>set (db_executions db). supersedable (xa_ownerId predecessor) (tc_lease command) (oi_now identity) row \<longrightarrow>
           xa_updatedAt row < oi_now identity) \<and>
        attempt = takeoverAttempt command context identity executionId project predecessor advanced expiry \<and>
        \<not> list_ex (attemptsConflict attempt)
           (supersededRows executionId (xa_ownerId predecessor) (tc_lease command) (oi_now identity) (db_executions db)) \<and>
        db' = (executionRecords identity ''execution.lease.takeover'' (executionTarget executionId 1 project) evaluated db)
          \<lparr>db_sequences := advancedRows sequence (db_sequences db),
           db_executions := supersededRows executionId (xa_ownerId predecessor) (tc_lease command) (oi_now identity) (db_executions db) @ [attempt]\<rparr>)"

abbreviation takeoverResult ::
  "'e service \<Rightarrow> takeover_command \<Rightarrow> trusted_context \<Rightarrow> operation_identity \<Rightarrow> jsstr \<Rightarrow> database \<Rightarrow> execution_success \<Rightarrow> database \<Rightarrow> bool" where
  "takeoverResult sv command context identity executionId db r db' \<equiv> \<exists>attempt. takesOver sv command context identity executionId db attempt db' \<and>
     r = executionSucceeded (view attempt (oi_now identity)) (oi_requestId identity) (oi_correlationId identity)"

lemma triple_advanceExecutionSequence:
  "triple P (advanceExecutionSequence (es_taskId q) (es_lastAttemptNumber q) (es_currentFencingToken q) (es_revision q))
     (\<lambda>advanced db'. \<exists>db. P db \<and> find (\<lambda>row. es_taskId row = es_taskId q) (advancedRows q (db_sequences db)) = Some advanced \<and>
        db' = db\<lparr>db_sequences := advancedRows q (db_sequences db)\<rparr>) F"
  unfolding advanceExecutionSequence_def Let_def
  apply (rule triple_seq, rule triple_onTables)
  by (auto simp: triple_def ofThrown_def throws_def ret_def persistenceFailure_def decodeTaskExecutionSequenceRow_def
      advancedRows_def [symmetric] split: sum.splits option.splits if_splits)

lemma triple_supersedeExecutionAttempt:
  "triple P (supersedeExecutionAttempt by ownerId expected now)
     (\<lambda>_ db'. \<exists>db. P db \<and> length (filter (supersedable ownerId expected now) (db_executions db)) = 1 \<and>
        (\<forall>row\<in>set (db_executions db). supersedable ownerId expected now row \<longrightarrow> xa_updatedAt row < now) \<and>
        db' = db\<lparr>db_executions := supersededRows by ownerId expected now (db_executions db)\<rparr>) F"
  unfolding supersedeExecutionAttempt_def Let_def
  by (rule triple_onTablesI) (auto simp: sqliteError_def persistenceFailure_def supersededRows_def list_ex_iff split: if_splits)

lemma triple_takeoverReadback:
  assumes "\<And>db. P db \<Longrightarrow> db_executions db = rows @ [a] \<and> xa_executionId a = executionId \<and> executionId \<notin> xa_executionId ` set rows"
    and "\<And>db. P db \<Longrightarrow> Q (executionSucceeded (view a (oi_now identity)) (oi_requestId identity) (oi_correlationId identity)) db"
  shows "triple P (takeoverReadback sv command identity executionId predecessor) Q F"
  unfolding takeoverReadback_def
proof (rule triple_readTx)
  fix readback
  show "triple (\<lambda>db. P db \<and> readState sv db = Inr readback)
     (case (attemptById readback executionId, attemptById readback (xa_executionId predecessor), sequenceOf readback (tc_taskId command)) of
       (Some replacement, Some superseded, Some sequence) \<Rightarrow>
         if xa_status replacement \<noteq> ActiveAttempt \<or> xa_fencingToken replacement \<noteq> xa_fencingToken predecessor + 1 \<or>
            xa_status superseded \<noteq> SupersededAttempt \<or> xa_supersededByExecutionId superseded \<noteq> Some executionId \<or>
            es_currentFencingToken sequence \<noteq> xa_fencingToken replacement
         then throws (TypeError ''Execution takeover terminal readback did not match'')
         else ret (executionSucceeded (view replacement (oi_now identity)) (oi_requestId identity) (oi_correlationId identity))
     | _ \<Rightarrow> throws (TypeError ''Execution takeover terminal readback did not match'')) Q F"
    using assms attemptById_new [of sv _ readback rows a]
    by (auto intro!: triple_throws triple_ret split: option.split)
qed

lemma takesOverI:
  assumes "readState sv db = Inr state" "attemptByKey state (tc_idempotencyKey command) = None"
    "mayTakeOver command (oi_now identity) state predecessor project task sequence"
    "executionGranted state identity ''execution.lease.takeover'' project" "ae_allowed evaluated" "freshRecords identity db"
    "shiftTimestamp (oi_now identity) (tc_leaseDurationSeconds command * 1000) = Some expiry"
    "find (\<lambda>row. es_taskId row = tc_taskId command) (advancedRows sequence (db_sequences db)) = Some advanced"
    "length (filter (supersedable (xa_ownerId predecessor) (tc_lease command) (oi_now identity)) (db_executions db)) = 1"
    "\<forall>row\<in>set (db_executions db). supersedable (xa_ownerId predecessor) (tc_lease command) (oi_now identity) row \<longrightarrow>
       xa_updatedAt row < oi_now identity"
    "attempt = takeoverAttempt command context identity executionId project predecessor advanced expiry"
    "\<not> list_ex (attemptsConflict attempt)
       (supersededRows executionId (xa_ownerId predecessor) (tc_lease command) (oi_now identity) (db_executions db))"
    "db' = (executionRecords identity ''execution.lease.takeover'' (executionTarget executionId 1 project) evaluated db)
      \<lparr>db_sequences := advancedRows sequence (db_sequences db),
       db_executions := supersededRows executionId (xa_ownerId predecessor) (tc_lease command) (oi_now identity) (db_executions db) @ [attempt]\<rparr>"
  shows "takesOver sv command context identity executionId db attempt db'"
  unfolding takesOver_def using assms by blast

lemma takeoverAttempt_fields [simp]:
  "xa_executionId (takeoverAttempt command context identity executionId project p advanced expiry) = executionId"
  "xa_taskId (takeoverAttempt command context identity executionId project p advanced expiry) = tc_taskId command"
  "xa_attemptNumber (takeoverAttempt command context identity executionId project p advanced expiry) = es_lastAttemptNumber advanced"
  "xa_fencingToken (takeoverAttempt command context identity executionId project p advanced expiry) = es_currentFencingToken advanced"
  "xa_status (takeoverAttempt command context identity executionId project p advanced expiry) = ActiveAttempt"
  "xa_supersededByExecutionId (takeoverAttempt command context identity executionId project p advanced expiry) = None"
  "xa_supersedesExecutionId (takeoverAttempt command context identity executionId project p advanced expiry) = Some (xa_executionId p)"
  "xa_ownerId (takeoverAttempt command context identity executionId project p advanced expiry) = tx_ownerId context"
  "xa_leaseExpiresAt (takeoverAttempt command context identity executionId project p advanced expiry) = expiry"
  "xa_idempotencyKey (takeoverAttempt command context identity executionId project p advanced expiry) = tc_idempotencyKey command"
  by (simp_all add: takeoverAttempt_def)

lemma triple_takeoverWritten:
  assumes state: "readState sv db0 = Inr state" "attemptByKey state (tc_idempotencyKey command) = None"
    "mayTakeOver command (oi_now identity) state predecessor project task sequence"
    "executionGranted state identity ''execution.lease.takeover'' project" "ae_allowed evaluated"
  shows "triple (\<lambda>db. db = db0) (takeoverWritten sv command context identity executionId predecessor sequence project evaluated)
    (takeoverResult sv command context identity executionId db0) F"
proof -
  have lease: "(tc_lease command)\<lparr>le_executionId := xa_executionId predecessor\<rparr> = tc_lease command" "es_taskId sequence = tc_taskId command"
    using state(3) by (auto simp: mayTakeOver_def dest!: attemptById_D sequenceOf_D)
  let ?rows = "supersededRows executionId (xa_ownerId predecessor) (tc_lease command) (oi_now identity) (db_executions db0)"
  show ?thesis
    unfolding takeoverWritten_def Let_def lease(1) lease(2) [symmetric]
    apply (rule triple_seq [OF triple_persistAuthorization], rule triple_bind [OF triple_advanceExecutionSequence])
    subgoal for advanced
      apply (rule triple_seq [OF triple_stage], rule triple_seq [OF triple_supersedeExecutionAttempt], rule triple_seq [OF triple_stage])
      apply (rule triple_shifted)
      subgoal for expiry
        apply (rule triple_seq [OF triple_insertExecutionAttempt], rule triple_seq [OF triple_stage], rule triple_seq [OF triple_persistAudit])
        apply (rule triple_takeoverReadback [where rows = ?rows and
            a = "takeoverAttempt command context identity executionId project predecessor advanced expiry"])
         apply (auto simp: authorizedTables_def auditedTables_def dest: conflict_id) [1]
        apply (elim conjE exE, intro exI conjI, rule takesOverI [OF state])
              apply (auto simp: authorizedTables_def auditedTables_def withRecords_def freshRecords_split freshAudit_def state(5) lease(2))
        done
      done
    done
qed

lemma triple_takeoverOn:
  assumes state: "readState sv db0 = Inr state" "attemptByKey state (tc_idempotencyKey command) = None"
    "attemptById state (le_executionId (tc_lease command)) = Some attempt"
  shows "triple (\<lambda>db. db = db0) (takeoverOn sv command context identity executionId prior state attempt)
    (takeoverResult sv command context identity executionId db0) (executionRefusal identity ''execution.lease.takeover'' db0)"
  unfolding takeoverOn_def
  apply (rule triple_ofFailure, simp, clarify)
  apply (rule triple_guard, simp, rule triple_guard, simp, rule triple_guard, simp, rule triple_guard, simp, unfold Let_def, rule triple_decided)
  subgoal for project task
    apply (split option.split, intro conjI impI allI)
     apply (rule triple_fails, simp)
    apply (rule triple_takeoverWritten [OF state(1,2)])
    using state(3) by (auto simp: mayTakeOver_def intro: executionAuthorization_granted)
  done

theorem triple_takeoverTransaction:
  "triple (\<lambda>db. db = db0) (takeoverTransaction sv command context identity executionId prior)
    (\<lambda>r db. repeats sv (\<lambda>state attempt. takeoverTupleMatches state attempt command (tx_ownerId context)) context (tc_idempotencyKey command) db0 r db \<or>
       takeoverResult sv command context identity executionId db0 r db)
    (executionRefusal identity ''execution.lease.takeover'' db0)"
  unfolding takeoverTransaction_def predecessorAbsent_def
  by (rule triple_readAt, rule triple_keyed [where same = "\<lambda>state attempt. takeoverTupleMatches state attempt command (tx_ownerId context)"])
    (auto intro!: triple_fails triple_takeoverOn split: option.split)

end
