(* ===== verification/Execution_Operations.thy ===== *)
theory Execution_Operations
  imports Execution_Lease_Effects
begin

text \<open>
  The operations of the execution service from end to end: what the look ahead reads may be
  outdated when the transaction begins, so every operation either leaves the tables as others
  have left them, or does what its transaction does on those tables.
\<close>

section \<open>Steps that only read\<close>

lemma served_ret: "Q x db db \<Longrightarrow> oth db db \<Longrightarrow> served oth Q F (ret x) db"
  by (auto simp: served_def ret_def)

lemma served_caught:
  assumes "served oth Q F m db" "\<And>d. F d d"
  shows "served oth Q F (caught identity m) db"
  unfolding served_def
proof (intro allI impI)
  fix e out db' e'
  assume run: "caught identity m (db, e) = (out, (db', e'))"
  obtain out1 db1 e1 where m: "m (db, e) = (out1, (db1, e1))" by (metis prod.exhaust)
  then obtain d where "oth db d" "case out1 of Returns x \<Rightarrow> Q x d db1 | Fails f \<Rightarrow> F d db1 | Throws t \<Rightarrow> db1 = d"
    using assms(1) unfolding served_def by blast
  then show "\<exists>d. oth db d \<and> (case out of Returns x \<Rightarrow> Q x d db' | Fails f \<Rightarrow> F d db' | Throws t \<Rightarrow> db' = d)"
    using run m assms(2) by (intro exI [of _ d]) (cases out1; auto simp: caught_def)
qed

lemma readOnly_caught [read_only]: "readOnly m \<Longrightarrow> readOnly (caught identity m)"
proof -
  assume m: "readOnly m"
  have "fst (snd (caught identity m s)) = fst (snd (m s))" for s
    by (cases "m s"; cases "fst (m s)") (auto simp: caught_def)
  with m show ?thesis unfolding readOnly_def by simp
qed

lemma readOnly_validate [read_only]:
  "readOnly (validateTrustedRuntimeAndActor sv state actor)" "readOnly (validateRuntimeAndActor sv state identity)"
  "readOnly (revalidateProject sv identity project)" "readOnly (unlessFailure failure)"
  by (auto simp: validateTrustedRuntimeAndActor_def validateRuntimeAndActor_def revalidateProject_def unlessFailure_def
      intro!: read_only split: option.split sum.split)

lemma served_seq: "readOnly m \<Longrightarrow> F db db \<Longrightarrow> oth db db \<Longrightarrow> served oth Q F k db \<Longrightarrow> served oth Q F (pseq m k) db"
  unfolding pseq_def by (rule served_bind)

text \<open>The answer of the ingress is one that it can give.\<close>

lemma yields_inEnv: "yields (inEnv f) (\<lambda>x. \<exists>w w'. f w = (x, w'))"
  by (auto simp: yields_def triple_def inEnv_def split: prod.splits)

lemma served_env:
  assumes "F db db" "oth db db" "\<And>x w w'. f w = (x, w') \<Longrightarrow> served oth Q F (k x) db"
  shows "served oth Q F (pbind (inEnv f) k) db"
  by (rule served_yields [where F = F and oth = oth and db = db, OF readOnly_basic(4) assms(1,2) yields_inEnv]) (use assms(3) in blast)

text \<open>A read of the state, with its errors turned into failures.\<close>

lemma served_lookahead:
  assumes "F db db" "oth db db" "\<And>state. readState sv db = Inr state \<Longrightarrow> served oth Q F (k state) db"
  shows "served oth Q F (pbind (caught identity (readApplicationStateForOwner sv)) k) db"
proof (rule served_bind_run [where F = F and oth = oth and db = db])
  fix state e e'
  assume "caught identity (readApplicationStateForOwner sv) (db, e) = (Returns state, (db, e'))"
  then have "readState sv db = Inr state"
    by (auto simp: caught_def readApplicationStateForOwner_def readTx_def ofThrown_def throws_def ret_def
        split: option.splits sum.splits prod.splits outcome.splits)
  then show "served oth Q F (k state) db" by (rule assms(3))
qed (auto intro!: read_only assms(1,2))

lemma served_keyed:
  assumes "readState sv db = Inr state" "\<And>r. repeats sv same context key db r db \<Longrightarrow> Q r db db" "F db db" "oth db db"
    and "served oth Q F k db"
  shows "served oth Q F
    (case attemptByKey state key of Some attempt \<Rightarrow> replayed state attempt (same state attempt) context identity | None \<Rightarrow> k) db"
proof (cases "attemptByKey state key")
  case None
  then show ?thesis using assms(5) by simp
next
  case (Some attempt)
  show ?thesis
  proof (cases "find (\<lambda>candidate. rr_requestId candidate = xa_requestId attempt) (st_requests state)")
    case (Some request)
    then have "request \<in> set (st_requests state)" "rr_requestId request = xa_requestId attempt" by (auto dest: find_eq_Some_D)
    then have "Q (executionSucceeded (view attempt (tx_now context)) (rr_requestId request) (rr_correlationId request)) db db"
      if "same state attempt" "rr_actorId request = ta_actorId (tx_actor context)"
      using that assms(1) \<open>attemptByKey state key = Some attempt\<close> by (intro assms(2)) (auto simp: repeats_def)
    with assms(3,4) show ?thesis
      unfolding \<open>attemptByKey state key = Some attempt\<close> option.case replayed_cases Some by (auto intro!: served_ret served_fails)
  qed (use assms(3,4) Some in \<open>auto simp: replayed_cases intro!: served_fails\<close>)
qed

lemma served_ofFailure:
  assumes "F db db" "oth db db" "\<And>x. r = Inr x \<Longrightarrow> served oth Q F (k x) db"
  shows "served oth Q F (pbind (ofFailure r) k) db"
proof (cases r)
  case (Inl f)
  then have "pbind (ofFailure r) k = fails f" by (auto simp: pbind_def ofFailure_def fails_def)
  then show ?thesis using assms(1,2) by (simp add: served_fails)
next
  case (Inr x)
  then have "pbind (ofFailure r) k = k x" by (auto simp: pbind_def ofFailure_def ret_def)
  then show ?thesis using assms(3) Inr by simp
qed

section \<open>The operations\<close>

text \<open>The ingress gave the context, and the identity of the operation for it.\<close>

definition operating :: "'e execution_ingress \<Rightarrow> trusted_context \<Rightarrow> operation_identity \<Rightarrow> bool" where
  "operating ig context identity \<longleftrightarrow> (\<exists>w w'. trustedContext ig w = (Some context, w')) \<and>
     (\<exists>w w'. executionOperationIdentity context ig w = (Some identity, w'))"

text \<open>The ingress gave the identifier of the new execution.\<close>

definition issues :: "'e execution_ingress \<Rightarrow> jsstr \<Rightarrow> bool" where
  "issues ig executionId \<longleftrightarrow> (\<exists>w w'. nextExecutionId ig w = (Some executionId, w'))"

lemma issuesI: "nextExecutionId ig w = (Some executionId, w') \<Longrightarrow> issues ig executionId"
  unfolding issues_def by blast

lemma operatingI:
  "trustedContext ig w = (Some c, w') \<Longrightarrow> executionOperationIdentity c ig x = (Some identity, x') \<Longrightarrow> operating ig c identity"
  unfolding operating_def by blast

abbreviation sameClaim :: "claim_command \<Rightarrow> trusted_context \<Rightarrow> application_state \<Rightarrow> execution_attempt \<Rightarrow> bool" where
  "sameClaim command context \<equiv> \<lambda>state attempt. claimTupleMatches state attempt command (tx_ownerId context)"

abbreviation sameTakeover :: "takeover_command \<Rightarrow> trusted_context \<Rightarrow> application_state \<Rightarrow> execution_attempt \<Rightarrow> bool" where
  "sameTakeover command context \<equiv> \<lambda>state attempt. takeoverTupleMatches state attempt command (tx_ownerId context)"

definition claimAnswers ::
  "'e service \<Rightarrow> 'e execution_ingress \<Rightarrow> jsval \<Rightarrow> execution_success \<Rightarrow> database \<Rightarrow> database \<Rightarrow> bool" where
  "claimAnswers sv ig v r db db' \<longleftrightarrow>
     (\<exists>command context. parseClaim v = Some command \<and>
        (repeats sv (sameClaim command context) context (cl_idempotencyKey command) db r db' \<or>
         (\<exists>identity executionId. operating ig context identity \<and> issues ig executionId \<and>
            claimResult sv command context identity executionId db r db')))"

definition inspectAnswers ::
  "'e service \<Rightarrow> 'e execution_ingress \<Rightarrow> jsval \<Rightarrow> execution_success \<Rightarrow> database \<Rightarrow> database \<Rightarrow> bool" where
  "inspectAnswers sv ig v r db db' \<longleftrightarrow>
     (\<exists>command context identity. parseInspect v = Some command \<and> operating ig context identity \<and> inspects sv command identity db r db')"

definition renewAnswers ::
  "'e service \<Rightarrow> 'e execution_ingress \<Rightarrow> jsval \<Rightarrow> execution_success \<Rightarrow> database \<Rightarrow> database \<Rightarrow> bool" where
  "renewAnswers sv ig v r db db' \<longleftrightarrow>
     (\<exists>command context identity. parseRenew v = Some command \<and> operating ig context identity \<and>
        renewsLease sv command context identity db r db')"

definition takeoverAnswers ::
  "'e service \<Rightarrow> 'e execution_ingress \<Rightarrow> jsval \<Rightarrow> execution_success \<Rightarrow> database \<Rightarrow> database \<Rightarrow> bool" where
  "takeoverAnswers sv ig v r db db' \<longleftrightarrow>
     (\<exists>command context. parseTakeover v = Some command \<and>
        (repeats sv (sameTakeover command context) context (tc_idempotencyKey command) db r db' \<or>
         (\<exists>identity executionId. operating ig context identity \<and> issues ig executionId \<and>
            takeoverResult sv command context identity executionId db r db')))"

abbreviation denied :: "string \<Rightarrow> database \<Rightarrow> database \<Rightarrow> bool" where
  "denied action \<equiv> \<lambda>db db'. \<exists>identity. refused identity action db db'"

lemma denied_refl: "denied action db db"
  by simp

text \<open>The transaction after whatever others did, with its errors turned into failures.\<close>

lemma served_attempted:
  assumes "\<And>db0. triple (\<lambda>d. d = db0) c (\<lambda>x. Q x db0) (executionRefusal identity action db0)"
  shows "served (others sv) Q (denied action) (caught i (pseq (beforeTransaction sv) (withApplicationTransaction sv c))) db"
  by (rule served_caught, rule served_after, rule triple_weaken [OF assms]) auto

theorem served_claim: "served (others sv) (claimAnswers sv ig v) (denied ''execution.claim'') (claim sv ig v) db"
proof (cases "parseClaim v")
  case (Some command)
  have fresh: "served (others sv) (claimAnswers sv ig v) (denied ''execution.claim'')
      (claimFresh sv command ctx state (identity, executionId)) db"
    if c: "trustedContext ig w = (Some ctx, w')" and i: "executionOperationIdentity ctx ig x = (identity, x')"
      and n: "nextExecutionId ig y = (executionId, y')"
    for ctx state identity executionId w w' x x' y y'
  proof (cases identity; cases executionId)
    fix j k
    assume ids: "identity = Some j" "executionId = Some k"
    have op: "operating ig ctx j" "issues ig k" using c i n ids unfolding operating_def issues_def by blast+
    show ?thesis unfolding claimFresh_def ids prod.case option.case
      apply (rule served_ofFailure, simp, simp, clarify)
      apply (rule served_seq, rule read_only, simp, simp)+
      apply (rule served_attempted, rule triple_weaken [OF triple_claimTransaction], assumption)
      using op Some by (auto simp: claimAnswers_def)
  qed (auto simp: claimFresh_def intro!: served_fails split: option.split)
  show ?thesis unfolding claim_def Some option.case
    apply (rule served_env, simp, simp, rename_tac ctx0 w w', case_tac ctx0)
     apply (simp add: served_fails)
    apply (simp only: option.case)
    apply (rule served_lookahead, simp, simp, rename_tac ctx state)
    apply (rule_tac same = "sameClaim command ctx" in served_keyed, assumption)
       apply (use Some in \<open>auto simp: claimAnswers_def\<close>) [3]
    apply (rule served_env, simp, simp, rule served_env, simp, simp)
    by (rule fresh)
qed (simp add: claim_def served_fails)

theorem served_inspect: "served (others sv) (inspectAnswers sv ig v) (denied ''execution.claim.inspect'') (inspectExecution sv ig v) db"
proof (cases "parseInspect v")
  case (Some command)
  have absent: "served (others sv) (inspectAnswers sv ig v) (denied ''execution.claim.inspect'') (executionAbsent identity) db" for identity
    by (simp add: executionAbsent_def served_fails)
  have go: "served (others sv) (inspectAnswers sv ig v) (denied ''execution.claim.inspect'')
      (caught (Some identity) (pseq (beforeTransaction sv) (withApplicationTransaction sv (inspectTransaction sv command identity project)))) db"
    if "operating ig ctx identity" for ctx identity project
    by (rule served_attempted, rule triple_weaken [OF triple_inspectTransaction]) (use that Some in \<open>auto simp: inspectAnswers_def\<close>)
  show ?thesis unfolding inspectExecution_def Some option.case
  proof (rule served_env)
    fix ctx0 w w'
    assume c: "trustedContext ig w = (ctx0, w')"
    show "served (others sv) (inspectAnswers sv ig v) (denied ''execution.claim.inspect'')
      (pbind (case ctx0 of None \<Rightarrow> ret None | Some c \<Rightarrow> inEnv (executionOperationIdentity c ig)) (\<lambda>identity0.
          case identity0 of
            None \<Rightarrow> fails (executionFailed XInvalidInput ''Trusted execution inspection ingress is invalid'' None)
          | Some identity \<Rightarrow>
              pbind (caught (Some identity) (readApplicationStateForOwner sv)) (\<lambda>prior.
              case attemptById prior (ic_executionId command) of
                None \<Rightarrow> executionAbsent identity
              | Some attempt \<Rightarrow>
                  pbind (ofFailure (identifiedBy identity (binding prior (ic_project command) (xa_taskId attempt)))) (\<lambda>(project, task).
                  pseq (guard (xa_revision attempt = ic_expectedExecutionRevision command \<and> t_revision task = ic_expectedTaskRevision command)
                    (executionFailed XStaleRevision ''Execution or Task revision is stale'' (Some identity))) (
                  pseq (validateRuntimeAndActor sv prior identity) (
                  pseq (revalidateProject sv identity project) (
                  caught (Some identity) (pseq (beforeTransaction sv)
                    (withApplicationTransaction sv (inspectTransaction sv command identity project)))))))))) db"
    proof (cases ctx0)
      case None
      show ?thesis unfolding None option.case
        by (rule served_yields [OF readOnly_basic(1) denied_refl others_refl, where V = "\<lambda>x. x = None"])
          (auto simp: yields_def triple_def ret_def intro!: served_fails)
    next
      case (Some ctx)
      show ?thesis unfolding Some option.case
        apply (rule served_env, simp, simp, rename_tac identity0 x x', case_tac identity0)
         apply (simp add: served_fails)
        apply (simp only: option.case)
        apply (rule served_lookahead, simp, simp)
        apply (split option.split, intro conjI impI allI)
         apply (rule absent)
        apply (rule served_ofFailure, simp, simp, clarify)
        apply (rule served_guard, simp, simp)
        apply (rule served_seq, rule read_only, simp, simp)+
        by (rule go, rule operatingI [OF c [unfolded Some]])
    qed
  qed auto
qed (simp add: inspectExecution_def served_fails)

theorem served_renewLease: "served (others sv) (renewAnswers sv ig v) (denied ''execution.lease.renew'') (renewLease sv ig v) db"
proof (cases "parseRenew v")
  case (Some command)
  have ahead: "served (others sv) (renewAnswers sv ig v) (denied ''execution.lease.renew'')
      (renewLookahead sv command ctx identity state attempt) db"
    if "operating ig ctx identity" for ctx identity state attempt
    unfolding renewLookahead_def
    apply (rule served_ofFailure, simp, simp, clarify)
    apply (rule served_guard, simp, simp, rule served_guard, simp, simp)
    apply (rule served_yields [OF readOnly_basic(11) denied_refl others_refl yields_shifted])
    apply (rule served_guard, simp, simp)
    apply (rule served_seq, rule read_only, simp, simp)+
    apply (rule served_attempted, rule triple_weaken [OF triple_renewTransactionOf], assumption, assumption)
    using that Some by (auto simp: renewAnswers_def)
  show ?thesis unfolding renewLease_def Some option.case
    apply (rule served_env, simp, simp, rename_tac ctx0 w w', case_tac ctx0)
     apply (simp add: served_fails)
    apply (simp only: option.case)
    apply (rule served_env, simp, simp, rename_tac identity0 x x', case_tac identity0)
     apply (simp add: served_fails)
    apply (simp only: option.case)
    apply (rule served_lookahead, simp, simp)
    apply (split option.split, intro conjI impI allI)
     apply (simp add: executionAbsent_def served_fails)
    by (rule ahead, rule operatingI)
qed (simp add: renewLease_def served_fails)

theorem served_takeover: "served (others sv) (takeoverAnswers sv ig v) (denied ''execution.lease.takeover'') (takeover sv ig v) db"
proof (cases "parseTakeover v")
  case (Some command)
  have ahead: "served (others sv) (takeoverAnswers sv ig v) (denied ''execution.lease.takeover'')
      (takeoverLookahead sv command ctx identity executionId state predecessor) db"
    if "operating ig ctx identity" "issues ig executionId" for ctx identity executionId state predecessor
    unfolding takeoverLookahead_def
    apply (rule served_guard, simp, simp, rule served_ofFailure, simp, simp, clarify)
    apply (rule served_guard, simp, simp)+
    apply (rule served_seq, rule read_only, simp, simp)+
    apply (rule served_attempted, rule triple_weaken [OF triple_takeoverTransaction], assumption)
    using that Some by (auto simp: takeoverAnswers_def)
  have fresh: "served (others sv) (takeoverAnswers sv ig v) (denied ''execution.lease.takeover'')
      (takeoverFresh sv command ctx state (identity, executionId)) db"
    if "trustedContext ig w = (Some ctx, w')" "executionOperationIdentity ctx ig x = (identity, x')"
      "nextExecutionId ig y = (executionId, y')"
    for ctx state identity executionId w w' x x' y y'
    unfolding takeoverFresh_def predecessorAbsent_def
    by (cases identity; cases executionId)
      (use that in \<open>auto intro!: served_fails ahead operatingI issuesI split: option.split\<close>)
  show ?thesis unfolding takeover_def Some option.case
    apply (rule served_env, simp, simp, rename_tac ctx0 w w', case_tac ctx0)
     apply (simp add: served_fails)
    apply (simp only: option.case)
    apply (rule served_lookahead, simp, simp, rename_tac ctx state)
    apply (rule_tac same = "sameTakeover command ctx" in served_keyed, assumption)
       apply (use Some in \<open>auto simp: takeoverAnswers_def\<close>) [3]
    apply (rule served_env, simp, simp, rule served_env, simp, simp)
    by (rule fresh)
qed (simp add: takeover_def served_fails)

end
