(* ===== verification/Execution_History.thy ===== *)
theory Execution_History
  imports Execution_Operations Application_History
begin

text \<open>
  Histories of the application service and the execution service together: the tables under any
  sequence of their committed transactions, of any number of processes and in any order. The
  records grow as before, the stored snapshot still only makes steps of the Domain contract,
  and a Task is running from the claim on.
\<close>

section \<open>Transactions of both services\<close>

inductive system_step :: "database \<Rightarrow> 'e service \<Rightarrow> database \<Rightarrow> bool" where
  via_application: "transacts db sv db' \<Longrightarrow> system_step db sv db'"
| via_claim: "parseClaim v = Some command \<Longrightarrow> operating (ig :: 'e execution_ingress) ctx identity \<Longrightarrow> issues ig executionId \<Longrightarrow>
    claims sv command ctx identity executionId db attempt db' \<Longrightarrow> system_step db sv db'"
| via_inspection: "inspects sv inspection identity db r db' \<Longrightarrow> system_step db sv db'"
| via_renewal: "parseRenew v = Some renewal \<Longrightarrow> renewsLease sv renewal ctx identity db r db' \<Longrightarrow> system_step db sv db'"
| via_takeover: "parseTakeover v = Some replacement \<Longrightarrow> operating (ig :: 'e execution_ingress) ctx identity \<Longrightarrow> issues ig executionId \<Longrightarrow>
    takesOver sv replacement ctx identity executionId db attempt db' \<Longrightarrow> system_step db sv db'"

text \<open>Every operation of the execution service is at most one step on the tables that it finds at its transaction.\<close>

datatype execution_call = CallClaim jsval | CallInspect jsval | CallRenewLease jsval | CallTakeover jsval

fun executionTablesAfter :: "'e service \<Rightarrow> 'e execution_ingress \<Rightarrow> execution_call \<Rightarrow> database \<Rightarrow> 'e \<Rightarrow> database" where
  "executionTablesAfter sv ig (CallClaim v) db e = fst (snd (claim sv ig v (db, e)))"
| "executionTablesAfter sv ig (CallInspect v) db e = fst (snd (inspectExecution sv ig v (db, e)))"
| "executionTablesAfter sv ig (CallRenewLease v) db e = fst (snd (renewLease sv ig v (db, e)))"
| "executionTablesAfter sv ig (CallTakeover v) db e = fst (snd (takeover sv ig v (db, e)))"

lemma served_system_step:
  assumes "served oth Q (denied action) m db" "\<And>x db1 db'. Q x db1 db' \<Longrightarrow> db' = db1 \<or> system_step db1 sv db'"
  shows "\<exists>db1. oth db db1 \<and> (fst (snd (m (db, e))) = db1 \<or> system_step db1 sv (fst (snd (m (db, e)))))"
proof -
  obtain out db' e' where run: "m (db, e) = (out, (db', e'))" by (metis prod.exhaust)
  then obtain db1 where "oth db db1"
    "case out of Returns x \<Rightarrow> Q x db1 db' | Fails f \<Rightarrow> denied action db1 db' | Throws t \<Rightarrow> db' = db1"
    using assms(1) unfolding served_def by blast
  then show ?thesis using run assms(2)
    by (intro exI [of _ db1]) (cases out; auto intro: via_application transacts_refused)
qed

theorem executions_serialize:
  "\<exists>db1. others sv db db1 \<and>
     (executionTablesAfter sv ig call db e = db1 \<or> system_step db1 sv (executionTablesAfter sv ig call db e))"
proof (cases call)
  case (CallClaim v)
  show ?thesis unfolding CallClaim executionTablesAfter.simps
    by (rule served_system_step [OF served_claim]) (auto simp: claimAnswers_def repeats_def intro: via_claim)
next
  case (CallInspect v)
  show ?thesis unfolding CallInspect executionTablesAfter.simps
    by (rule served_system_step [OF served_inspect]) (auto simp: inspectAnswers_def intro: via_inspection)
next
  case (CallRenewLease v)
  show ?thesis unfolding CallRenewLease executionTablesAfter.simps
    by (rule served_system_step [OF served_renewLease]) (auto simp: renewAnswers_def intro: via_renewal)
next
  case (CallTakeover v)
  show ?thesis unfolding CallTakeover executionTablesAfter.simps
    by (rule served_system_step [OF served_takeover]) (auto simp: takeoverAnswers_def repeats_def intro: via_takeover)
qed

section \<open>Records\<close>

text \<open>What the steps of the execution service have in common: an accepted request, and the tables they may change.\<close>

definition executes :: "operation_identity \<Rightarrow> string \<Rightarrow> bound_target \<Rightarrow> database \<Rightarrow> database \<Rightarrow> bool" where
  "executes identity action target db db' \<longleftrightarrow> freshRecords identity db \<and>
     (\<exists>evaluated domain sequences executions. ae_allowed evaluated \<and>
        db' = (executionRecords identity action target evaluated db)
          \<lparr>db_sequences := sequences, db_executions := executions, db_domain := domain\<rparr>)"

lemma executesI:
  assumes "freshRecords identity db" "ae_allowed evaluated"
    "db' = (executionRecords identity action target evaluated db)
      \<lparr>db_sequences := sequences, db_executions := executions, db_domain := domain\<rparr>"
  shows "executes identity action target db db'"
  unfolding executes_def using assms by blast

lemma claims_executes:
  "claims sv command ctx identity executionId db attempt db' \<Longrightarrow>
     \<exists>project. executes identity ''execution.claim'' (executionTarget executionId 1 project) db db'"
  unfolding claims_def by (elim exE conjE, rule exI, rule executesI)

lemma inspects_executes:
  "inspects sv command identity db r db' \<Longrightarrow>
     \<exists>(attempt :: execution_attempt) project. executes identity ''execution.claim.inspect'' (executionTarget (xa_executionId attempt) (xa_revision attempt) project) db db'"
  unfolding inspects_def
  apply (elim exE conjE)
  subgoal for state attempt project task evaluated
    by (rule exI [of _ attempt], rule exI [of _ project],
      rule executesI [where evaluated = evaluated and domain = "db_domain db" and sequences = "db_sequences db" and executions = "db_executions db"])
      (auto simp: withRecords_def)
  done

lemma renewsLease_executes:
  "renewsLease sv command ctx identity db r db' \<Longrightarrow>
     \<exists>(attempt :: execution_attempt) project. executes identity ''execution.lease.renew'' (executionTarget (xa_executionId attempt) (xa_revision attempt) project) db db'"
  unfolding renewsLease_def
  apply (elim exE conjE)
  subgoal for state attempt project task evaluated
    by (rule exI [of _ attempt], rule exI [of _ project],
      rule executesI [where evaluated = evaluated and domain = "db_domain db" and sequences = "db_sequences db" and executions = "db_executions db'"])
      (auto simp: withRecords_def)
  done

lemma takesOver_executes:
  "takesOver sv command ctx identity executionId db attempt db' \<Longrightarrow>
     \<exists>project. executes identity ''execution.lease.takeover'' (executionTarget executionId 1 project) db db'"
  unfolding takesOver_def
  apply (elim exE conjE)
  subgoal for state predecessor project task sequence advanced evaluated
    by (rule exI [of _ project],
      rule executesI [where evaluated = evaluated and domain = "db_domain db" and sequences = "db_sequences db'" and executions = "db_executions db'"])
      (auto simp: withRecords_def)
  done

lemma executes_tables:
  assumes "executes identity action target db db'"
  shows "db_projects db' = db_projects db" "db_bootstrap db' = db_bootstrap db" "db_grants db' = db_grants db"
    "db_epochs db' = db_epochs db" "db_terminals db' = db_terminals db" "db_intents db' = db_intents db"
    "db_manualTurns db' = db_manualTurns db"
  using assms by (auto simp: executes_def withRecords_def)

lemma executes_recorded: "executes identity action target db db' \<Longrightarrow> recorded db db'"
  by (auto simp: executes_def recorded_def withRecords_def freshRecords_def freshRequest_def answers_def decides_def
      requestRecord_def auditRecord_def decisionRecord_def)

text \<open>Every step is one of the application service, or appends the records of an accepted execution request.\<close>

lemma system_step_cases:
  assumes "system_step db sv db'"
  obtains "transacts db sv db'" | identity action target where "executes identity action target db db'"
  using assms by (cases rule: system_step.cases)
    (metis claims_executes inspects_executes renewsLease_executes takesOver_executes)+

lemma system_step_consistent: "consistent db \<Longrightarrow> system_step db sv db' \<Longrightarrow> consistent db'"
proof (erule system_step_cases)
  fix identity action target
  assume "consistent db" "executes identity action target db db'"
  then show "consistent db'"
    using recorded_ledger [OF executes_recorded] executes_tables [of identity action target db db'] by (simp add: consistent_def)
qed (rule transacts_consistent)

lemma executes_succeeds: "executes identity action target db db' \<Longrightarrow> succeeds db db'"
  using executes_recorded [of identity action target db db'] executes_tables [of identity action target db db']
  by (auto simp: succeeds_def recorded_def intro: grows_refl)

lemma system_step_succeeds: "system_step db sv db' \<Longrightarrow> succeeds db db'"
  by (erule system_step_cases) (erule transacts_succeeds executes_succeeds)+

interpretation systems: inductive_invariant emptyTables system_step consistent
  by unfold_locales (auto intro: histories.inv_init system_step_consistent)

theorem system_succeeds: "run system_step db svs db' \<Longrightarrow> consistent db \<Longrightarrow> succeeds db db'"
  by (rule systems.run_rel) (auto intro: succeeds_refl succeeds_trans system_step_succeeds)

section \<open>The stored snapshot\<close>

text \<open>The steps that the application service makes leave the set of running Tasks alone.\<close>

fun quiet :: "action \<Rightarrow> bool" where
  "quiet (Transition i state e) \<longleftrightarrow> (state, e) \<in> {(Ready, MarkReady), (Cancelled, Cancel)}"
| "quiet a \<longleftrightarrow> True"

definition isRunning :: "snapshot \<Rightarrow> jsstr \<Rightarrow> bool" where
  "isRunning s i \<longleftrightarrow> (\<exists>t. taskById s i = Some t \<and> t_state t = Running)"

lemma actionOf_quiet: "actionOf command = Some a \<Longrightarrow> quiet a"
  by (induction command rule: actionOf.induct) auto

lemma quiet_replaced:
  assumes "task_step nfc s a repl" "quiet a" "wf_snapshot nfc s" "(k, t') \<in> set repl"
  shows "\<exists>t. taskById s k = Some t \<and> (t_state t' = Running \<longleftrightarrow> t_state t = Running)"
  using assms(1)
proof cases
  case (step_cancel i t reason v ws)
  then consider "(k, t') = (t_id t, moveCancelled CancelEvent reason v t)"
    | d w where "d \<in> set (affectedDependents s (t_id t))" "k = t_id d" "t' = moveWaiting w d"
    using assms(4) by (auto simp: cancellation_def)
  then show ?thesis
  proof cases
    case (2 d w)
    then have "d \<in> set (s_tasks s)" "t_state d = Ready" by (simp_all add: affectedDependents_def)
    then show ?thesis using 2 tasks.lookup_iff [OF assms(3), of "t_id d" d] by auto
  next
    case 1
    then show ?thesis using step_cancel(3,4) live_wf(2) [OF assms(3) step_cancel(3)] by (auto simp: live_def)
  qed
qed (use assms(2,4) in \<open>auto simp: live_def\<close>)

lemma quiet_running:
  assumes "domain_step nfc s a s'" "quiet a" "wf_snapshot nfc s"
  shows "isRunning s' i \<longleftrightarrow> isRunning s i"
  using assms(1)
proof cases
  case (step_create j p x b)
  then have "t_id (newTask j p b x) \<notin> ids (s_tasks s)" by (simp add: newTask_def tasks.lookup_None_iff)
  with taskById_sort_snoc [OF assms(3) this] step_create show ?thesis by (auto simp: isRunning_def newTask_def)
next
  case (step_task repl)
  have ok: "step_ok nfc s repl" by (rule task_step_ok [OF step_task(2) assms(3)])
  show ?thesis
  proof (cases "map_of repl i")
    case (Some t')
    then obtain t where "taskById s i = Some t" "t_state t' = Running \<longleftrightarrow> t_state t = Running"
      using quiet_replaced [OF step_task(2) assms(2,3) map_of_SomeD] by blast
    then show ?thesis using Some by (auto simp: isRunning_def step_task taskById_putTasks [OF assms(3) ok])
  qed (simp add: isRunning_def step_task taskById_putTasks [OF assms(3) ok])
qed (auto simp: isRunning_def taskById_def)

lemma claim_task:
  assumes "domain_step nfc s (Transition j Running ClaimAccepted) s'" "wf_snapshot nfc s"
  obtains t where "taskById s j = Some t" "t_state t = Ready"
    "\<forall>i. taskById s' i = (if i = j then Some (moveTo Running t) else taskById s i)"
  using assms(1)
proof cases
  case (step_task repl)
  have ok: "step_ok nfc s repl" by (rule task_step_ok [OF step_task(2) assms(2)])
  from step_task(2) show ?thesis
  proof cases
    case (step_claim t)
    have "taskById s' i = (if i = j then Some (moveTo Running t) else taskById s i)" for i
      using taskById_putTasks [OF assms(2) ok, of i] by (simp add: step_task(1) step_claim(1))
    then show ?thesis using that [of t] step_claim(2,3) by (simp add: live_def eligible_def)
  qed
qed

lemma claimMutation_step:
  assumes "wf_snapshot nfc s" "transitionTask nfc (snapshotToJs s) (claimTransition t) = Inr (m, es)"
  shows "domain_step nfc s (Transition (t_id t) Running ClaimAccepted) (m_snapshot m)"
  using assms(2)
  by (auto simp: claimTransition_def readExactRecord_jsObj parseSnapshot_roundtrip [OF assms(1)]
      isTransitionEvent_lit [of ClaimAccepted, simplified] isTaskState_lit [of Running, simplified]
      dest!: transitionTask_implements implements_unique)

lemma claims_step:
  assumes "claims sv command ctx identity executionId db attempt db'" "stored (sv_nfc sv) db s"
  shows "\<exists>s'. domain_step (sv_nfc sv) s (Transition (cl_taskId command) Running ClaimAccepted) s' \<and> stored (sv_nfc sv) db' s'"
proof -
  obtain state project task m domain where c: "readState sv db = Inr state" "mayClaim command state project task"
    "claimMutation sv state identity task = Inr m"
    "writeDomainMutationUntransactional (sv_nfc sv) (db_domain db) (st_domain state) m = Inr domain" "db_domain db' = domain"
    using assms(1) unfolding claims_def by auto
  have s: "st_domain state = s" using readState_domain(1) [OF c(1)] assms(2) by simp
  have wf: "wf_snapshot (sv_nfc sv) s" using readDomain_wf assms(2) by blast
  have id: "t_id task = cl_taskId command"
    using c(2) tasks.lookup_SomeD [of s "cl_taskId command" task] by (auto simp: mayClaim_def binding_Inr s)
  obtain es where "transitionTask (sv_nfc sv) (snapshotToJs s) (claimTransition task) = Inr (m, es)"
    using c(3) by (auto simp: claimMutation_def s split: sum.splits prod.splits)
  from claimMutation_step [OF wf this] have step: "domain_step (sv_nfc sv) s (Transition (cl_taskId command) Running ClaimAccepted) (m_snapshot m)"
    by (simp add: id)
  have "stored (sv_nfc sv) db' (m_snapshot m)"
    using write_sound(2) [OF c(4) [unfolded s] wf domain_step_wf [OF step wf]] c(5) by simp
  with step show ?thesis by blast
qed

lemma transacts_quiet:
  assumes "transacts db sv db'" "stored (sv_nfc sv) db s"
  shows "\<exists>s'. stored (sv_nfc sv) db' s' \<and> evolves s s' \<and> (\<forall>i. isRunning s' i \<longleftrightarrow> isRunning s i)"
  using assms
proof (induction rule: transacts.induct)
  case (transacts_accepted sv input command pf db db')
  have wf: "wf_snapshot (sv_nfc sv) s" using readDomain_wf transacts_accepted(3) by blast
  from accepted_step [OF transacts_accepted(2,3)] show ?case
    using evolves_refl evolves_step [OF wf] quiet_running [OF _ actionOf_quiet wf] by blast
qed (auto simp: transacts_domain intro: evolves_refl)

lemma executes_domain:
  "inspects sv inspection identity db r db' \<Longrightarrow> db_domain db' = db_domain db"
  "renewsLease sv renewal ctx identity db r db' \<Longrightarrow> db_domain db' = db_domain db"
  "takesOver sv replacement ctx identity executionId db attempt db' \<Longrightarrow> db_domain db' = db_domain db"
  by (auto simp: inspects_def renewsLease_def takesOver_def withRecords_def)

theorem system_step_simulates:
  assumes "system_step db sv db'" "stored (sv_nfc sv) db s"
  shows "\<exists>as s'. run (domain_step (sv_nfc sv)) s as s' \<and> stored (sv_nfc sv) db' s'"
  using assms
proof (induction rule: system_step.induct)
  case (via_application db sv db')
  then show ?case by (rule transacts_step)
next
  case (via_claim v command ig ctx identity executionId sv db attempt db')
  from claims_step [OF via_claim(4,5)] show ?case
    by (metis run_Cons_simp run_Nil_simp)
qed (auto simp: executes_domain intro: run_Nil)

end
