(* ===== verification/Execution_Inventory.thy ===== *)
theory Execution_Inventory
  imports Execution_Service
begin

text \<open>
  The integrity checks of a state that is read on its executions
  (\<^verbatim>\<open>readApplicationStateUntransactional\<close> of \<^verbatim>\<open>src/persistence/application-repository-state.ts\<close>):
  every sequence of a Task has its attempts, exactly one of them active, and every attempt is
  bound to its request, its decision, its Project and its neighbours in the sequence.
\<close>

section \<open>Loops and maps\<close>

text \<open>A loop whose body may throw.\<close>

primrec checkAll :: "('a \<Rightarrow> thrown + unit) \<Rightarrow> 'a list \<Rightarrow> thrown + unit" where
  "checkAll f [] = Inr ()"
| "checkAll f (x # xs) = ebind (f x) (\<lambda>_. checkAll f xs)"

text \<open>\<open>new Map(xs.map((x) => [key(x), x])).get(k)\<close>: of several entries the last one counts.\<close>

definition mapGet :: "('a \<Rightarrow> 'k) \<Rightarrow> 'a list \<Rightarrow> 'k \<Rightarrow> 'a option" where
  "mapGet key xs k = find (\<lambda>x. key x = k) (rev xs)"

text \<open>A condition on something that must be there: \<open>x !== undefined && p(x)\<close>.\<close>

definition present :: "'a option \<Rightarrow> ('a \<Rightarrow> bool) \<Rightarrow> bool" where
  "present x p = (case x of None \<Rightarrow> False | Some y \<Rightarrow> p y)"

definition corruptUnless :: "bool \<Rightarrow> string \<Rightarrow> thrown + unit" where
  "corruptUnless condition message = (if condition then Inr () else persistenceFailure CORRUPT_ROW message)"

section \<open>A sequence\<close>

definition taskStateMatchesExecution :: "task \<Rightarrow> terminal_summary option \<Rightarrow> bool" where
  "taskStateMatchesExecution task terminal \<longleftrightarrow>
     (if t_state task = Running \<or> t_state task = Waiting then terminal = None
      else (t_state task = Completed \<and> present terminal (\<lambda>t. ts_status t = Completed)) \<or>
           (t_state task = Cancelled \<and> present terminal (\<lambda>t. ts_status t = Cancelled)))"

definition sequenceComplete ::
  "terminal_summary list \<Rightarrow> task option \<Rightarrow> task_execution_sequence \<Rightarrow> execution_attempt list \<Rightarrow> bool" where
  "sequenceComplete terminals task0 sequence attempts \<longleftrightarrow>
     (let active = filter (\<lambda>execution. xa_status execution = ActiveAttempt) attempts;
          terminal = (case active of [] \<Rightarrow> None | a # _ \<Rightarrow> mapGet ts_executionId terminals (xa_executionId a)) in
      present task0 (\<lambda>task. taskStateMatchesExecution task terminal) \<and>
      int (length attempts) = es_lastAttemptNumber sequence \<and> es_revision sequence = es_lastAttemptNumber sequence \<and>
      (case active of [a] \<Rightarrow> xa_attemptNumber a = es_lastAttemptNumber sequence \<and> xa_fencingToken a = es_currentFencingToken sequence
       | _ \<Rightarrow> False))"

section \<open>An attempt\<close>

text \<open>The columns of the attempt, up to the date that the check computes.\<close>

definition attemptNumbers :: "nat \<Rightarrow> execution_attempt \<Rightarrow> bool" where
  "attemptNumbers index a \<longleftrightarrow>
     xa_attemptNumber a = int index + 1 \<and> xa_fencingToken a = int index + 1 \<and> xa_revision a \<ge> 1 \<and> xa_leaseRevision a \<ge> 1 \<and>
     30 \<le> xa_requestedLeaseSeconds a \<and> xa_requestedLeaseSeconds a \<le> 3600 \<and> xa_createdAt a \<le> xa_updatedAt a"

definition attemptTimes :: "execution_attempt \<Rightarrow> bool" where
  "attemptTimes a \<longleftrightarrow>
     (xa_leaseRevision a = 1 \<longrightarrow> shiftTimestamp (xa_createdAt a) (xa_requestedLeaseSeconds a * 1000) = Some (xa_leaseExpiresAt a)) \<and>
     (xa_status a = ActiveAttempt \<longrightarrow> xa_updatedAt a < xa_leaseExpiresAt a) \<and> xa_expectedTaskRevision a = xa_preTaskRevision a"

definition attemptAction :: "execution_attempt \<Rightarrow> string" where
  "attemptAction a = (case xa_operationKind a of ClaimAttempt \<Rightarrow> ''execution.claim'' | TakeoverAttempt \<Rightarrow> ''execution.lease.takeover'')"

definition attemptBound ::
  "task \<Rightarrow> registered_project option \<Rightarrow> request_record option \<Rightarrow> decision_record option \<Rightarrow> execution_attempt \<Rightarrow> bool" where
  "attemptBound task project request decision a \<longleftrightarrow>
     xa_postTaskRevision a \<le> t_revision task \<and>
     present project (\<lambda>p. xa_projectResourceRevision a \<le> rp_resourceRevision p \<and> xa_projectConfigRevision a \<le> rp_configRevision p) \<and>
     present request (\<lambda>r. rr_requestId r = xa_requestId a \<and> rr_action r = attemptAction a \<and> rr_result r = RequestAllow \<and>
        rr_targetKind r = TargetExecution \<and> rr_targetId r = xa_executionId a \<and> rr_targetRevision r = Some 1 \<and>
        rr_createdAt r = xa_createdAt a) \<and>
     present decision (\<lambda>d. dr_decisionId d = xa_decisionId a \<and> dr_requestId d = xa_requestId a \<and>
        dr_projectId d = Some (t_projectId task) \<and> dr_resourceRevision d = Some (xa_projectResourceRevision a))"

definition attemptLinked :: "nat \<Rightarrow> execution_attempt option \<Rightarrow> execution_attempt option \<Rightarrow> execution_attempt \<Rightarrow> bool" where
  "attemptLinked index previous following a \<longleftrightarrow>
     (case xa_operationKind a of
        ClaimAttempt \<Rightarrow> index = 0 \<and> xa_postTaskRevision a = xa_preTaskRevision a + 1 \<and> xa_supersedesExecutionId a = None \<and>
          xa_predecessorExecutionRevision a = None \<and> xa_predecessorLeaseRevision a = None \<and> xa_predecessorFencingToken a = None
      | TakeoverAttempt \<Rightarrow> index \<noteq> 0 \<and> xa_preTaskRevision a \<le> xa_postTaskRevision a \<and>
          xa_postTaskRevision a \<le> xa_preTaskRevision a + 1 \<and>
          present previous (\<lambda>p. xa_supersedesExecutionId a = Some (xa_executionId p) \<and>
             xa_predecessorExecutionRevision a = Some (xa_revision p - 1) \<and>
             xa_predecessorLeaseRevision a = Some (xa_leaseRevision p) \<and>
             xa_predecessorFencingToken a = Some (xa_fencingToken p))) \<and>
     (case xa_status a of
        ActiveAttempt \<Rightarrow> following = None \<and> xa_supersededByExecutionId a = None
      | SupersededAttempt \<Rightarrow> present following (\<lambda>n. xa_supersededByExecutionId a = Some (xa_executionId n)))"

definition checkAttempt :: "application_state \<Rightarrow> task \<Rightarrow> execution_attempt list \<Rightarrow> nat \<Rightarrow> thrown + unit" where
  "checkAttempt state task attempts index =
     (let attempt = attempts ! index;
          previous = (if index = 0 then None else Some (attempts ! (index - 1)));
          following = (if index + 1 < length attempts then Some (attempts ! (index + 1)) else None);
          request = mapGet rr_requestId (st_requests state) (xa_requestId attempt);
          decision = mapGet dr_requestId (st_decisions state) (xa_requestId attempt);
          project = find (\<lambda>candidate. rp_projectId candidate = t_projectId task) (st_projects state);
          message = ''Execution attempt lineage or authorization binding is inconsistent'' in
      ebind (corruptUnless (attemptNumbers index attempt) message) (\<lambda>_.
      if xa_leaseRevision attempt = 1 \<and> shiftTimestamp (xa_createdAt attempt) (xa_requestedLeaseSeconds attempt * 1000) = None
      then Inl RangeError
      else corruptUnless (attemptTimes attempt \<and> attemptBound task project request decision attempt \<and>
             attemptLinked index previous following attempt) message))"

definition checkSequence :: "application_state \<Rightarrow> task_execution_sequence \<Rightarrow> thrown + unit" where
  "checkSequence state sequence =
     (let task0 = mapGet t_id (s_tasks (st_domain state)) (es_taskId sequence);
          attempts = filter (\<lambda>execution. xa_taskId execution = es_taskId sequence) (st_executions state) in
      ebind (corruptUnless (sequenceComplete (st_executionTerminalStates state) task0 sequence attempts)
        ''Task execution sequence is incomplete or has no unique active attempt'') (\<lambda>_.
      case task0 of
        None \<Rightarrow> Inr ()
      | Some task \<Rightarrow> checkAll (checkAttempt state task attempts) [0..<length attempts]))"

section \<open>The inventory\<close>

definition checkExecutionRequest :: "application_state \<Rightarrow> request_record \<Rightarrow> thrown + unit" where
  "checkExecutionRequest state request =
     (if take (length ''execution.'') (rr_action request) \<noteq> ''execution.'' \<or> rr_result request \<noteq> RequestAllow then Inr ()
      else corruptUnless
        (present (mapGet xa_executionId (st_executions state) (rr_targetId request)) (\<lambda>execution.
           present (rr_targetRevision request) (\<lambda>n. n \<le> xa_revision execution)))
        ''Accepted execution request refers to an absent or stale execution revision'')"

definition checkExecutions :: "application_state \<Rightarrow> thrown + unit" where
  "checkExecutions state =
     ebind (corruptUnless (distinct (map xa_executionId (st_executions state)) \<and> distinct (map es_taskId (st_executionSequences state)))
       ''Execution identity inventory is not unique'') (\<lambda>_.
     ebind (checkAll (checkSequence state) (st_executionSequences state)) (\<lambda>_.
     ebind (corruptUnless
         (list_all (\<lambda>execution. xa_taskId execution \<in> es_taskId ` set (st_executionSequences state)) (st_executions state))
       ''Execution attempt exists without its Task sequence'') (\<lambda>_.
     checkAll (checkExecutionRequest state) (st_requests state))))"

section \<open>When the checks pass\<close>

lemma checkAll_Inr: "checkAll f xs = Inr () \<longleftrightarrow> (\<forall>x\<in>set xs. f x = Inr ())"
  by (induction xs) (auto simp: ebind_eq_Inr)

lemma present_iff: "present x p \<longleftrightarrow> (\<exists>y. x = Some y \<and> p y)"
  by (simp add: present_def split: option.split)

lemma present_Some [simp]: "present (Some y) p = p y"
  by (simp add: present_def)

lemma corruptUnless_Inr [simp]: "corruptUnless c m = Inr u \<longleftrightarrow> c"
  by (simp add: corruptUnless_def persistenceFailure_def)

lemma mapGet_None: "mapGet key xs k = None \<longleftrightarrow> k \<notin> key ` set xs"
  by (auto simp: mapGet_def find_None_iff)

lemma mapGet_D: "mapGet key xs k = Some x \<Longrightarrow> x \<in> set xs \<and> key x = k"
  by (auto simp: mapGet_def dest: find_eq_Some_D)

lemma mapGet_unique:
  assumes "distinct (map key xs)" "x \<in> set xs" "key x = k"
  shows "mapGet key xs k = Some x"
proof (cases "mapGet key xs k")
  case None
  then show ?thesis using assms(2,3) unfolding mapGet_None by blast
next
  case (Some y)
  then show ?thesis using assms mapGet_D [OF Some] by (auto simp: distinct_map dest: inj_onD)
qed

theorem checkAttempt_Inr:
  "checkAttempt state task attempts index = Inr () \<longleftrightarrow>
     attemptNumbers index (attempts ! index) \<and> attemptTimes (attempts ! index) \<and>
     attemptBound task (find (\<lambda>candidate. rp_projectId candidate = t_projectId task) (st_projects state))
       (mapGet rr_requestId (st_requests state) (xa_requestId (attempts ! index)))
       (mapGet dr_requestId (st_decisions state) (xa_requestId (attempts ! index))) (attempts ! index) \<and>
     attemptLinked index (if index = 0 then None else Some (attempts ! (index - 1)))
       (if index + 1 < length attempts then Some (attempts ! (index + 1)) else None) (attempts ! index)"
  unfolding checkAttempt_def Let_def ebind_eq_Inr by (auto simp: attemptTimes_def)

end
