(* ===== verification/Execution_Lineage.thy ===== *)
theory Execution_Lineage
  imports Execution_History Execution_Inventory
begin

text \<open>
  The lineage of executions: in every history of the application and execution services, the
  Tasks that are running are those with a sequence of attempts, and the attempts of a Task form
  a chain whose last one, and only it, is active and carries the greatest fencing token.
\<close>

section \<open>The invariant\<close>

abbreviation attemptsOf :: "database \<Rightarrow> jsstr \<Rightarrow> execution_attempt list" where
  "attemptsOf db i \<equiv> filter (\<lambda>a. xa_taskId a = i) (db_executions db)"

abbreviation previousOf :: "'a list \<Rightarrow> nat \<Rightarrow> 'a option" where
  "previousOf xs k \<equiv> (if k = 0 then None else Some (xs ! (k - 1)))"

abbreviation followingOf :: "'a list \<Rightarrow> nat \<Rightarrow> 'a option" where
  "followingOf xs k \<equiv> (if k + 1 < length xs then Some (xs ! (k + 1)) else None)"

text \<open>Of the times of an attempt, what holds in every year.\<close>

definition leaseTimes :: "execution_attempt \<Rightarrow> bool" where
  "leaseTimes a \<longleftrightarrow>
     (xa_leaseRevision a = 1 \<longrightarrow> shiftTimestamp (xa_createdAt a) (xa_requestedLeaseSeconds a * 1000) = Some (xa_leaseExpiresAt a)) \<and>
     (xa_status a = ActiveAttempt \<longrightarrow>
        (if xa_leaseRevision a = 1 then xa_updatedAt a = xa_createdAt a else xa_updatedAt a < xa_leaseExpiresAt a)) \<and>
     xa_expectedTaskRevision a = xa_preTaskRevision a"

definition authorizedIn :: "database \<Rightarrow> task \<Rightarrow> execution_attempt \<Rightarrow> bool" where
  "authorizedIn db task a \<longleftrightarrow>
     (\<exists>p\<in>set (db_projects db). \<exists>r\<in>set (db_requests db). \<exists>d\<in>set (db_decisions db).
        rp_projectId p = t_projectId task \<and> attemptBound task (Some p) (Some r) (Some d) a)"

definition attemptStands :: "database \<Rightarrow> task \<Rightarrow> execution_attempt list \<Rightarrow> nat \<Rightarrow> bool" where
  "attemptStands db task xs k \<longleftrightarrow>
     attemptNumbers k (xs ! k) \<and> leaseTimes (xs ! k) \<and> authorizedIn db task (xs ! k) \<and>
     attemptLinked k (previousOf xs k) (followingOf xs k) (xs ! k)"

definition sequenceHolds :: "database \<Rightarrow> snapshot \<Rightarrow> task_execution_sequence \<Rightarrow> bool" where
  "sequenceHolds db s q \<longleftrightarrow>
     es_revision q = es_lastAttemptNumber q \<and> es_currentFencingToken q = es_lastAttemptNumber q \<and>
     attemptsOf db (es_taskId q) \<noteq> [] \<and> int (length (attemptsOf db (es_taskId q))) = es_lastAttemptNumber q \<and>
     (\<exists>task. taskById s (es_taskId q) = Some task \<and>
        (\<forall>k<length (attemptsOf db (es_taskId q)). attemptStands db task (attemptsOf db (es_taskId q)) k))"

definition servedRequest :: "database \<Rightarrow> request_record \<Rightarrow> bool" where
  "servedRequest db r \<longleftrightarrow>
     (take 10 (rr_action r) = ''execution.'' \<and> rr_result r = RequestAllow \<longrightarrow>
        (\<exists>a\<in>set (db_executions db). \<exists>n. xa_executionId a = rr_targetId r \<and> rr_targetRevision r = Some n \<and> n \<le> xa_revision a))"

definition lineage :: "database \<Rightarrow> snapshot \<Rightarrow> bool" where
  "lineage db s \<longleftrightarrow>
     distinct (map es_taskId (db_sequences db)) \<and> distinct (map xa_executionId (db_executions db)) \<and>
     distinct (map xa_idempotencyKey (db_executions db)) \<and> (\<forall>q\<in>set (db_sequences db). sequenceHolds db s q) \<and>
     (\<forall>a\<in>set (db_executions db). xa_taskId a \<in> es_taskId ` set (db_sequences db) \<and> wellFormedText (xa_executionId a)) \<and>
     (\<forall>r\<in>set (db_requests db). servedRequest db r) \<and>
     (\<forall>i. isRunning s i \<longleftrightarrow> i \<in> es_taskId ` set (db_sequences db)) \<and> db_terminals db = []"

section \<open>What others do leaves an attempt standing\<close>

lemma succeeds_sets:
  "succeeds db db' \<Longrightarrow> set (db_requests db) \<subseteq> set (db_requests db')" "succeeds db db' \<Longrightarrow> set (db_decisions db) \<subseteq> set (db_decisions db')"
  by (simp_all add: succeeds_def set_mono_prefix)

lemma authorizedIn_mono:
  assumes "authorizedIn db task a" "succeeds db db'" "t_projectId task' = t_projectId task" "t_revision task \<le> t_revision task'"
  shows "authorizedIn db' task' a"
proof -
  obtain p r d where x: "p \<in> set (db_projects db)" "r \<in> set (db_requests db)" "d \<in> set (db_decisions db)"
    "rp_projectId p = t_projectId task" "attemptBound task (Some p) (Some r) (Some d) a"
    using assms(1) unfolding authorizedIn_def by blast
  obtain p' where p': "p' \<in> set (db_projects db')" "projectKept p p'"
    using grows_member [OF _ x(1), of projectKept "db_projects db'"] assms(2) by (auto simp: succeeds_def)
  have "r \<in> set (db_requests db')" "d \<in> set (db_decisions db')"
    using succeeds_sets [OF assms(2)] x(2,3) by auto
  moreover have "attemptBound task' (Some p') (Some r) (Some d) a"
    using x(5) p'(2) assms(3,4) by (auto simp: attemptBound_def projectKept_def)
  moreover have "rp_projectId p' = t_projectId task'" using p'(2) x(4) assms(3) by (simp add: projectKept_def)
  ultimately show ?thesis unfolding authorizedIn_def using p'(1) by blast
qed

lemma attemptStands_mono:
  assumes "attemptStands db task xs k" "succeeds db db'" "t_projectId task' = t_projectId task" "t_revision task \<le> t_revision task'"
  shows "attemptStands db' task' xs k"
  using assms authorizedIn_mono [OF _ assms(2-4)] unfolding attemptStands_def by blast

lemma sequenceHolds_mono:
  assumes "sequenceHolds db s q" "attemptsOf db' (es_taskId q) = attemptsOf db (es_taskId q)" "succeeds db db'"
    and "\<And>t. taskById s (es_taskId q) = Some t \<Longrightarrow>
      \<exists>t'. taskById s' (es_taskId q) = Some t' \<and> t_projectId t' = t_projectId t \<and> t_revision t \<le> t_revision t'"
  shows "sequenceHolds db' s' q"
  using assms(1,2,4) attemptStands_mono [OF _ assms(3)] unfolding sequenceHolds_def by metis

lemma evolvesD:
  "evolves s s' \<Longrightarrow> taskById s i = Some t \<Longrightarrow> \<exists>t'. taskById s' i = Some t' \<and> t_projectId t' = t_projectId t \<and> t_revision t \<le> t_revision t'"
  unfolding evolves_def by blast

section \<open>Steps of the application service\<close>

definition otherRequest :: "request_record \<Rightarrow> bool" where
  "otherRequest r \<longleftrightarrow> take 10 (rr_action r) \<noteq> ''execution.'' \<or> rr_result r \<noteq> RequestAllow"

lemma commandKind_other: "take 10 (commandKind command) \<noteq> ''execution.''"
  by (cases command) simp_all

lemma transacts_executions:
  assumes "transacts db sv db'"
  shows "db_executions db' = db_executions db \<and> db_sequences db' = db_sequences db \<and> db_terminals db' = db_terminals db \<and>
    (\<forall>r\<in>set (db_requests db'). r \<in> set (db_requests db) \<or> otherRequest r)"
  using assms
proof (induction rule: transacts.induct)
  case (transacts_accepted sv input command pf db db')
  then show ?case
    by (auto simp: accepted_def committed_def effect_def withRecords_def otherRequest_def requestRecord_def commandKind_other)
qed (auto simp: refused_def withRecords_def bootstraps_def bootstrappedTables_def upgrades_def upgraded_def renews_def renewed_def
    epochTables_def otherRequest_def requestRecord_def)

lemma transacts_lineage:
  assumes "lineage db s" "transacts db sv db'" "stored (sv_nfc sv) db s"
  shows "\<exists>s'. stored (sv_nfc sv) db' s' \<and> lineage db' s'"
proof -
  obtain s' where s': "stored (sv_nfc sv) db' s'" "evolves s s'" "\<forall>i. isRunning s' i \<longleftrightarrow> isRunning s i"
    using transacts_quiet [OF assms(2,3)] by blast
  note same = transacts_executions [OF assms(2)]
  have "sequenceHolds db' s' q" if "sequenceHolds db s q" for q
    by (rule sequenceHolds_mono [OF that _ transacts_succeeds [OF assms(2)] evolvesD [OF s'(2)]]) (simp add: same)
  moreover have "servedRequest db' r" if "r \<in> set (db_requests db')" for r
    using same that assms(1) by (auto simp: lineage_def servedRequest_def otherRequest_def)
  ultimately have "lineage db' s'" using assms(1) s'(3) same by (simp add: lineage_def)
  with s'(1) show ?thesis by blast
qed

section \<open>Records of an accepted execution request\<close>

lemma operationalText_wellFormed:
  assumes "operationalText v"
  shows "wellFormedText v"
proof -
  have c: "\<not> isHighSurrogate c \<and> \<not> isLowSurrogate c" if "alphanumeric c \<or> c \<in> set (lit ''._:-'')" for c
  proof (cases "alphanumeric c")
    case True
    then have "unat c \<le> 122" by (auto simp: alphanumeric_def Let_def)
    then show ?thesis by (simp add: isHighSurrogate_def isLowSurrogate_def word_le_nat_alt)
  qed (use that in \<open>auto simp: lit_def isHighSurrogate_def isLowSurrogate_def\<close>)
  have "list_all (\<lambda>c. alphanumeric c \<or> c \<in> set (lit ''._:-'')) v" using assms by (cases v) auto
  then show ?thesis by (induction v rule: wellFormedText.induct) (use c in auto)
qed

lemma issues_wellFormed: "issues ig executionId \<Longrightarrow> wellFormedText executionId"
proof (rule operationalText_wellFormed)
  assume "issues ig executionId"
  then obtain w w' where w: "nextExecutionId ig w = (Some executionId, w')" unfolding issues_def by blast
  obtain r w1 where "xg_nextId ig ''execution'' w = (r, w1)" by fastforce
  with w obtain v where "operationalIdentifier v" "executionId = strOf v"
    by (auto simp: nextExecutionId_def ask_def split: option.splits if_splits)
  then show "operationalText executionId" by (cases v) (auto simp: operationalIdentifier_def)
qed

lemma executes_requests:
  assumes "executes identity action (executionTarget i n project) db db'" "wellFormedText i"
  shows "db_requests db' = db_requests db @ [requestRecord identity action (executionTarget i n project) RequestAllow]"
  using assms toWellFormed_id [of i] by (auto simp: executes_def withRecords_def executionTarget_def boundTarget_def requestRecord_def)

lemma executes_decisions:
  "executes identity action target db db' \<Longrightarrow>
     \<exists>evaluated. db_decisions db' = db_decisions db @ [decisionRecord identity action target evaluated]"
  unfolding executes_def by (elim exE conjE, rule exI) (simp add: withRecords_def)

lemma authorizedIn_new:
  assumes "executes identity (attemptAction a) (executionTarget (xa_executionId a) 1 project) db db'" "wellFormedText (xa_executionId a)"
    and "project \<in> set (db_projects db)" "rp_projectId project = t_projectId task"
    and "xa_requestId a = oi_requestId identity" "xa_decisionId a = oi_decisionId identity" "xa_createdAt a = oi_now identity"
    and "xa_projectResourceRevision a = rp_resourceRevision project" "xa_projectConfigRevision a = rp_configRevision project"
    and "xa_postTaskRevision a \<le> t_revision task"
  shows "authorizedIn db' task a"
proof -
  let ?t = "executionTarget (xa_executionId a) 1 project"
  obtain evaluated where "db_decisions db' = db_decisions db @ [decisionRecord identity (attemptAction a) ?t evaluated]"
    using executes_decisions [OF assms(1)] ..
  then have "decisionRecord identity (attemptAction a) ?t evaluated \<in> set (db_decisions db')" by simp
  moreover have "requestRecord identity (attemptAction a) ?t RequestAllow \<in> set (db_requests db')"
    using executes_requests [OF assms(1,2)] by simp
  moreover have "project \<in> set (db_projects db')" using assms(1,3) executes_tables(1) by metis
  moreover have "attemptBound task (Some project) (Some (requestRecord identity (attemptAction a) ?t RequestAllow))
      (Some (decisionRecord identity (attemptAction a) ?t evaluated)) a"
    using assms(4-10) by (simp add: attemptBound_def requestRecord_def decisionRecord_def executionTarget_def boundTarget_def)
  ultimately show ?thesis unfolding authorizedIn_def using assms(4) by blast
qed

text \<open>The request of a step is served by an attempt that the step leaves.\<close>

lemma servedRequest_mono:
  assumes "servedRequest db r" "\<And>a. a \<in> set (db_executions db) \<Longrightarrow>
    \<exists>a'\<in>set (db_executions db'). xa_executionId a' = xa_executionId a \<and> xa_revision a \<le> xa_revision a'"
  shows "servedRequest db' r"
  unfolding servedRequest_def
proof (intro impI)
  assume "take 10 (rr_action r) = ''execution.'' \<and> rr_result r = RequestAllow"
  then obtain a n where a: "a \<in> set (db_executions db)" "xa_executionId a = rr_targetId r" "rr_targetRevision r = Some n" "n \<le> xa_revision a"
    using assms(1) unfolding servedRequest_def by blast
  with assms(2) [OF a(1)] show "\<exists>a\<in>set (db_executions db'). \<exists>n. xa_executionId a = rr_targetId r \<and> rr_targetRevision r = Some n \<and> n \<le> xa_revision a"
    by fastforce
qed

lemma executes_served:
  assumes "executes identity action (executionTarget i n project) db db'" "wellFormedText i"
    and "\<forall>r\<in>set (db_requests db). servedRequest db r"
    and "\<And>a. a \<in> set (db_executions db) \<Longrightarrow>
      \<exists>a'\<in>set (db_executions db'). xa_executionId a' = xa_executionId a \<and> xa_revision a \<le> xa_revision a'"
    and "\<exists>a\<in>set (db_executions db'). xa_executionId a = i \<and> n \<le> xa_revision a"
  shows "\<forall>r\<in>set (db_requests db'). servedRequest db' r"
proof
  fix r
  assume "r \<in> set (db_requests db')"
  then consider "r \<in> set (db_requests db)" | "r = requestRecord identity action (executionTarget i n project) RequestAllow"
    using executes_requests [OF assms(1,2)] by auto
  then show "servedRequest db' r"
  proof cases
    case 1
    then show ?thesis using assms(3) servedRequest_mono [OF _ assms(4)] by blast
  next
    case 2
    then show ?thesis using assms(5) by (auto simp: servedRequest_def requestRecord_def executionTarget_def boundTarget_def)
  qed
qed

section \<open>Claims\<close>

lemma parseClaim_lease:
  "parseClaim v = Some command \<Longrightarrow> 30 \<le> cl_leaseDurationSeconds command \<and> cl_leaseDurationSeconds command \<le> 3600"
  by (auto simp: parseClaim_def leaseDuration_def split: option.splits if_splits)

lemma claims_data:
  assumes "claims sv command ctx identity executionId db attempt db'" "stored (sv_nfc sv) db s"
  obtains project task expiry where
    "project \<in> set (db_projects db)" "rp_projectId project = t_projectId task" "taskById s (cl_taskId command) = Some task"
    "t_revision task = cl_expectedTaskRevision command" "cl_taskId command \<notin> es_taskId ` set (db_sequences db)"
    "executes identity ''execution.claim'' (executionTarget executionId 1 project) db db'"
    "shiftTimestamp (oi_now identity) (cl_leaseDurationSeconds command * 1000) = Some expiry"
    "attempt = claimedAttempt command ctx identity executionId project expiry"
    "\<not> list_ex (attemptsConflict attempt) (db_executions db)"
    "db_executions db' = db_executions db @ [attempt]" "db_sequences db' = db_sequences db @ [firstSequence (cl_taskId command)]"
proof -
  obtain state project task m evaluated expiry domain where
    c: "readState sv db = Inr state" "mayClaim command state project task" "ae_allowed evaluated" "freshRecords identity db"
    "shiftTimestamp (oi_now identity) (cl_leaseDurationSeconds command * 1000) = Some expiry"
    "attempt = claimedAttempt command ctx identity executionId project expiry"
    "\<not> list_ex (attemptsConflict attempt) (db_executions db)"
    "db' = (executionRecords identity ''execution.claim'' (executionTarget executionId 1 project) evaluated db)
       \<lparr>db_sequences := db_sequences db @ [firstSequence (cl_taskId command)], db_executions := db_executions db @ [attempt],
        db_domain := domain\<rparr>"
    using assms(1) unfolding claims_def by (elim exE conjE) (rule that)
  have s: "st_domain state = s" using readState_domain(1) [OF c(1)] assms(2) by simp
  have "project \<in> set (db_projects db)" "rp_projectId project = t_projectId task" "taskById s (cl_taskId command) = Some task"
    "t_revision task = cl_expectedTaskRevision command" "cl_taskId command \<notin> es_taskId ` set (db_sequences db)"
    using c(2) readState_tables [OF c(1)]
    by (auto simp: mayClaim_def binding_Inr sequenceOf_None s dest: find_eq_Some_D)
  then show thesis using c executesI [OF c(4,3,8)] by (intro that) (auto simp: c(8))
qed

lemma conflict_key: "\<not> list_ex (attemptsConflict a) rows \<Longrightarrow> xa_idempotencyKey a \<notin> xa_idempotencyKey ` set rows"
  by (auto simp: list_ex_iff attemptsConflict_def)

lemma claimed_stands:
  assumes "attempt = claimedAttempt command ctx identity executionId project expiry"
    and "shiftTimestamp (oi_now identity) (cl_leaseDurationSeconds command * 1000) = Some expiry"
    and "30 \<le> cl_leaseDurationSeconds command \<and> cl_leaseDurationSeconds command \<le> 3600" "authorizedIn db task attempt"
  shows "attemptStands db task [attempt] 0"
  using assms(2-4) unfolding attemptStands_def
  by (simp add: assms(1)) (simp add: claimedAttempt_def attemptNumbers_def leaseTimes_def attemptLinked_def)

lemma claims_lineage:
  assumes "lineage db s" "parseClaim v = Some command" "issues ig executionId"
    and "claims sv command ctx identity executionId db attempt db'" "stored (sv_nfc sv) db s"
  shows "\<exists>s'. stored (sv_nfc sv) db' s' \<and> lineage db' s'"
proof -
  obtain project task expiry where c: "project \<in> set (db_projects db)" "rp_projectId project = t_projectId task"
    "taskById s (cl_taskId command) = Some task" "t_revision task = cl_expectedTaskRevision command"
    "cl_taskId command \<notin> es_taskId ` set (db_sequences db)"
    "executes identity ''execution.claim'' (executionTarget executionId 1 project) db db'"
    "shiftTimestamp (oi_now identity) (cl_leaseDurationSeconds command * 1000) = Some expiry"
    "attempt = claimedAttempt command ctx identity executionId project expiry"
    "\<not> list_ex (attemptsConflict attempt) (db_executions db)"
    "db_executions db' = db_executions db @ [attempt]" "db_sequences db' = db_sequences db @ [firstSequence (cl_taskId command)]"
    by (rule claims_data [OF assms(4,5)])
  let ?i = "cl_taskId command"
  have fields: "xa_executionId attempt = executionId" "xa_taskId attempt = ?i" "xa_revision attempt = 1"
    by (simp_all add: c(8)) (simp add: claimedAttempt_def)
  obtain s' where s': "domain_step (sv_nfc sv) s (Transition ?i Running ClaimAccepted) s'" "stored (sv_nfc sv) db' s'"
    using claims_step [OF assms(4,5)] by blast
  have wf: "wf_snapshot (sv_nfc sv) s" using readDomain_wf assms(5) by blast
  obtain t where t: "taskById s ?i = Some t" "t_state t = Ready"
    "\<forall>j. taskById s' j = (if j = ?i then Some (moveTo Running t) else taskById s j)"
    by (rule claim_task [OF s'(1) wf])
  have "t = task" using t(1) c(3) by simp
  note grow = executes_succeeds [OF c(6)]
  have none: "attemptsOf db ?i = []" using assms(1) c(5) unfolding lineage_def filter_empty_conv by metis
  have old: "sequenceHolds db' s' q" if "q \<in> set (db_sequences db)" for q
  proof (rule sequenceHolds_mono [OF _ _ grow])
    have "es_taskId q \<noteq> ?i" using that c(5) by (metis imageI)
    then show "attemptsOf db' (es_taskId q) = attemptsOf db (es_taskId q)"
      "\<And>t. taskById s (es_taskId q) = Some t \<Longrightarrow>
        \<exists>t'. taskById s' (es_taskId q) = Some t' \<and> t_projectId t' = t_projectId t \<and> t_revision t \<le> t_revision t'"
      using t(3) by (simp_all add: c(10) fields)
  qed (use assms(1) that in \<open>simp add: lineage_def\<close>)
  have "authorizedIn db' (moveTo Running t) attempt"
    by (rule authorizedIn_new [where project = project and db = db and identity = identity])
      (use c \<open>t = task\<close> issues_wellFormed [OF assms(3)] in \<open>simp_all add: fields attemptAction_def\<close>,
       simp_all add: claimedAttempt_def)
  then have "attemptStands db' (moveTo Running t) [attempt] 0" by (rule claimed_stands [OF c(8,7) parseClaim_lease [OF assms(2)]])
  then have new: "sequenceHolds db' s' (firstSequence ?i)" using none t(3) by (simp add: sequenceHolds_def c(10) fields)
  have run: "isRunning s' i \<longleftrightarrow> i = ?i \<or> isRunning s i" for i using t by (auto simp: isRunning_def)
  have "\<forall>r\<in>set (db_requests db'). servedRequest db' r"
    by (rule executes_served [OF c(6) issues_wellFormed [OF assms(3)]]) (use assms(1) in \<open>auto simp: lineage_def c(10) fields\<close>)
  then have "lineage db' s'"
    using assms(1) old new run c(5) conflict_id [OF c(9)] conflict_key [OF c(9)] issues_wellFormed [OF assms(3)] executes_tables(5) [OF c(6)]
    unfolding lineage_def c(10,11) by (auto simp: fields)
  with s'(2) show ?thesis by blast
qed

end
