(* ===== verification/Execution_Succession.thy ===== *)
theory Execution_Succession
  imports Execution_Lineage
begin

text \<open>
  Inspections, renewals and takeovers keep the lineage of executions: an inspection changes no
  attempt, a renewal only the lease of the active one, and a takeover supersedes the active one
  by an attempt with the next number and fencing token.
\<close>

section \<open>Inspections\<close>

lemma inspects_data:
  assumes "inspects sv command identity db r db'"
  obtains attempt project where "attempt \<in> set (db_executions db)" "db_executions db' = db_executions db" "db_sequences db' = db_sequences db"
    "executes identity ''execution.claim.inspect'' (executionTarget (xa_executionId attempt) (xa_revision attempt) project) db db'"
proof -
  obtain state attempt project evaluated where
    c: "readState sv db = Inr state" "attemptById state (ic_executionId command) = Some attempt" "ae_allowed evaluated" "freshRecords identity db"
    "db' = executionRecords identity ''execution.claim.inspect'' (executionTarget (xa_executionId attempt) (xa_revision attempt) project)
       evaluated db"
    using assms unfolding inspects_def by (elim exE conjE) (rule that)
  let ?db = "(executionRecords identity ''execution.claim.inspect'' (executionTarget (xa_executionId attempt) (xa_revision attempt) project)
    evaluated db)\<lparr>db_sequences := db_sequences db, db_executions := db_executions db, db_domain := db_domain db\<rparr>"
  have "executes identity ''execution.claim.inspect'' (executionTarget (xa_executionId attempt) (xa_revision attempt) project) db ?db"
    by (rule executesI [OF c(4,3) refl])
  moreover have "?db = db'" by (simp add: c(5) withRecords_def)
  ultimately show thesis
    using that [of attempt project] attemptById_D [OF c(2)] readState_tables(1) [OF c(1)] by (simp add: c(5) withRecords_def)
qed

lemma inspects_lineage:
  assumes "lineage db s" "inspects sv command identity db r db'" "stored (sv_nfc sv) db s"
  shows "stored (sv_nfc sv) db' s \<and> lineage db' s"
proof -
  obtain attempt project where c: "attempt \<in> set (db_executions db)" "db_executions db' = db_executions db" "db_sequences db' = db_sequences db"
    "executes identity ''execution.claim.inspect'' (executionTarget (xa_executionId attempt) (xa_revision attempt) project) db db'"
    by (rule inspects_data [OF assms(2)])
  have "wellFormedText (xa_executionId attempt)" using assms(1) c(1) by (simp add: lineage_def)
  then have "\<forall>r\<in>set (db_requests db'). servedRequest db' r"
    by (rule executes_served [OF c(4)]) (use assms(1) c(1) in \<open>auto simp: lineage_def c(2)\<close>)
  moreover have "sequenceHolds db' s q" if "sequenceHolds db s q" for q
    by (rule sequenceHolds_mono [OF that _ executes_succeeds [OF c(4)]]) (simp_all add: c(2))
  ultimately have "lineage db' s" using assms(1) executes_tables(5) [OF c(4)] by (simp add: lineage_def c(2,3))
  then show ?thesis using assms(2,3) by (simp add: executes_domain)
qed

section \<open>Renewals\<close>

text \<open>What a link asks of the attempt after it.\<close>

lemma attemptLinked_following:
  "map_option xa_executionId n = map_option xa_executionId n' \<Longrightarrow> attemptLinked k p n a = attemptLinked k p n' a"
  unfolding attemptLinked_def by (cases n; cases n') (auto split: attempt_kind.split attempt_status.split)

lemma attemptLinked_active: "attemptLinked k p (Some n) a \<Longrightarrow> xa_status a = SupersededAttempt"
  by (cases "xa_status a") (auto simp: attemptLinked_def)

lemma renewed_simps [simp]:
  "attemptLinked k p n (renewedAttempt now e a) = attemptLinked k p n a"
  "authorizedIn db task (renewedAttempt now e a) = authorizedIn db task a"
  "xa_executionId (renewedAttempt now e a) = xa_executionId a" "xa_taskId (renewedAttempt now e a) = xa_taskId a"
  "xa_idempotencyKey (renewedAttempt now e a) = xa_idempotencyKey a" "xa_revision (renewedAttempt now e a) = xa_revision a + 1"
  by (simp_all add: renewedAttempt_def attemptLinked_def authorizedIn_def attemptBound_def attemptAction_def
      split: attempt_kind.split attempt_status.split)

lemma renewed_stands:
  assumes "attemptNumbers k a" "leaseTimes a" "xa_updatedAt a < now" "now < e"
  shows "attemptNumbers k (renewedAttempt now e a) \<and> leaseTimes (renewedAttempt now e a)"
  using assms by (auto simp: attemptNumbers_def leaseTimes_def renewedAttempt_def)

text \<open>A change of active attempts that keeps identities leaves the links intact.\<close>

lemma attemptLinked_map:
  assumes "\<forall>k<length xs. attemptLinked k (previousOf xs k) (followingOf xs k) (xs ! k)" "k < length xs"
    and "\<And>a. xa_executionId (f a) = xa_executionId a" "\<And>a. xa_status a = SupersededAttempt \<Longrightarrow> f a = a"
  shows "attemptLinked k (previousOf (map f xs) k) (followingOf (map f xs) k) (xs ! k)"
proof -
  have "previousOf (map f xs) k = previousOf xs k"
  proof (cases k)
    case (Suc j)
    then have "j + 1 < length xs" using assms(2) by simp
    then have "attemptLinked j (previousOf xs j) (Some (xs ! (j + 1))) (xs ! j)" using spec [OF assms(1), of j] by (simp split del: if_split)
    then have "f (xs ! j) = xs ! j" by (intro assms(4) attemptLinked_active)
    then show ?thesis using Suc assms(2) by simp
  qed simp
  moreover have "map_option xa_executionId (followingOf (map f xs) k) = map_option xa_executionId (followingOf xs k)"
    using assms(3) by simp
  note attemptLinked_following [OF this, of k "previousOf xs k" "xs ! k"]
  ultimately show ?thesis using assms(1,2) by simp
qed

lemma attemptsStand_renewed:
  assumes "\<forall>k<length xs. attemptStands db task xs k"
    and "\<And>a. P a \<Longrightarrow> a \<in> set xs \<Longrightarrow> xa_status a = ActiveAttempt \<and> xa_updatedAt a < now \<and> now < e" "\<And>a. P a \<Longrightarrow> xa_status a = ActiveAttempt"
    and "k < length xs"
  shows "attemptStands db task (map (\<lambda>a. if P a then renewedAttempt now e a else a) xs) k"
proof -
  let ?f = "\<lambda>a. if P a then renewedAttempt now e a else a"
  have "attemptLinked k (previousOf (map ?f xs) k) (followingOf (map ?f xs) k) (xs ! k)"
    by (rule attemptLinked_map) (use assms in \<open>auto simp: attemptStands_def\<close>)
  moreover have "attemptNumbers k (?f (xs ! k)) \<and> leaseTimes (?f (xs ! k)) \<and> authorizedIn db task (?f (xs ! k))"
    using assms(1) assms(2) [of "xs ! k"] assms(4) renewed_stands [of k "xs ! k" now e] by (auto simp: attemptStands_def)
  ultimately show ?thesis using assms(4) unfolding attemptStands_def by (simp add: nth_map)
qed

abbreviation renewedRows :: "jsstr \<Rightarrow> lease_expectation \<Rightarrow> jsstr \<Rightarrow> jsstr \<Rightarrow> execution_attempt list \<Rightarrow> execution_attempt list" where
  "renewedRows ownerId expected now expiry \<equiv> map (\<lambda>row. if renewable ownerId expected now row then renewedAttempt now expiry row else row)"

lemma renewsLease_data:
  assumes "renewsLease sv command ctx identity db r db'"
  obtains attempt project expiry where "attempt \<in> set (db_executions db)" "xa_executionId attempt = le_executionId (rc_lease command)"
    "xa_leaseExpiresAt attempt < expiry" "db_sequences db' = db_sequences db"
    "executes identity ''execution.lease.renew'' (executionTarget (xa_executionId attempt) (xa_revision attempt) project) db db'"
    "db_executions db' = renewedRows (tx_ownerId ctx) (rc_lease command) (oi_now identity) expiry (db_executions db)"
    "\<forall>row\<in>set (db_executions db). renewable (tx_ownerId ctx) (rc_lease command) (oi_now identity) row \<longrightarrow> xa_updatedAt row < oi_now identity"
proof -
  obtain state attempt project evaluated expiry where
    c: "readState sv db = Inr state" "attemptById state (le_executionId (rc_lease command)) = Some attempt" "xa_leaseExpiresAt attempt < expiry"
    "ae_allowed evaluated" "freshRecords identity db"
    "\<forall>row\<in>set (db_executions db). renewable (tx_ownerId ctx) (rc_lease command) (oi_now identity) row \<longrightarrow> xa_updatedAt row < oi_now identity"
    "db' = (executionRecords identity ''execution.lease.renew'' (executionTarget (xa_executionId attempt) (xa_revision attempt) project)
       evaluated db)\<lparr>db_executions := renewedRows (tx_ownerId ctx) (rc_lease command) (oi_now identity) expiry (db_executions db)\<rparr>"
    using assms unfolding renewsLease_def by (elim exE conjE) (rule that)
  let ?db = "(executionRecords identity ''execution.lease.renew'' (executionTarget (xa_executionId attempt) (xa_revision attempt) project)
    evaluated db)\<lparr>db_sequences := db_sequences db, db_executions := db_executions db', db_domain := db_domain db\<rparr>"
  have "executes identity ''execution.lease.renew'' (executionTarget (xa_executionId attempt) (xa_revision attempt) project) db ?db"
    by (rule executesI [OF c(5,4) refl])
  moreover have "?db = db'" by (simp add: c(7) withRecords_def)
  ultimately show thesis
    using that [of attempt expiry project] attemptById_D [OF c(2)] readState_tables(1) [OF c(1)] c(3,6) by (simp add: c(7) withRecords_def)
qed

lemma same_execution:
  "lineage db s \<Longrightarrow> a \<in> set (db_executions db) \<Longrightarrow> b \<in> set (db_executions db) \<Longrightarrow> xa_executionId a = xa_executionId b \<Longrightarrow> a = b"
  by (auto simp: lineage_def distinct_map dest: inj_onD)

lemma attemptsOf_map:
  assumes "\<And>a. xa_taskId (f a) = xa_taskId a"
  shows "filter (\<lambda>a. xa_taskId a = i) (map f rows) = map f (filter (\<lambda>a. xa_taskId a = i) rows)"
  using assms by (induction rows) auto

lemma renewsLease_lineage:
  assumes "lineage db s" "renewsLease sv command ctx identity db r db'" "stored (sv_nfc sv) db s"
  shows "stored (sv_nfc sv) db' s \<and> lineage db' s"
proof -
  obtain attempt project expiry where c: "attempt \<in> set (db_executions db)" "xa_executionId attempt = le_executionId (rc_lease command)"
    "xa_leaseExpiresAt attempt < expiry" "db_sequences db' = db_sequences db"
    "executes identity ''execution.lease.renew'' (executionTarget (xa_executionId attempt) (xa_revision attempt) project) db db'"
    "db_executions db' = renewedRows (tx_ownerId ctx) (rc_lease command) (oi_now identity) expiry (db_executions db)"
    "\<forall>row\<in>set (db_executions db). renewable (tx_ownerId ctx) (rc_lease command) (oi_now identity) row \<longrightarrow> xa_updatedAt row < oi_now identity"
    by (rule renewsLease_data [OF assms(2)])
  let ?P = "renewable (tx_ownerId ctx) (rc_lease command) (oi_now identity)" and ?now = "oi_now identity"
  let ?f = "\<lambda>row. if ?P row then renewedAttempt ?now expiry row else row"
  have active: "xa_status a = ActiveAttempt" if "?P a" for a using that by (simp add: renewable_def leaseMatches_def)
  have row: "xa_status a = ActiveAttempt \<and> xa_updatedAt a < ?now \<and> ?now < expiry" if "?P a" "a \<in> set (db_executions db)" for a
  proof -
    have "a = attempt" using that c(1,2) same_execution [OF assms(1)] by (simp add: renewable_def leaseMatches_def)
    then show ?thesis using that c(3,7) active by (auto simp: renewable_def)
  qed
  have f: "xa_executionId (?f a) = xa_executionId a" "xa_taskId (?f a) = xa_taskId a" "xa_idempotencyKey (?f a) = xa_idempotencyKey a"
    "xa_revision a \<le> xa_revision (?f a)" for a by simp_all
  have attempts: "attemptsOf db' i = map ?f (attemptsOf db i)" for i unfolding c(6) by (rule attemptsOf_map) simp
  have "sequenceHolds db' s q" if q: "sequenceHolds db s q" for q
  proof -
    obtain task where t: "taskById s (es_taskId q) = Some task"
      "\<forall>k<length (attemptsOf db (es_taskId q)). attemptStands db task (attemptsOf db (es_taskId q)) k"
      using q unfolding sequenceHolds_def by blast
    have "attemptStands db task (map ?f (attemptsOf db (es_taskId q))) k" if "k < length (attemptsOf db (es_taskId q))" for k
      by (rule attemptsStand_renewed [OF t(2) _ active that]) (use row in auto)
    then have "attemptStands db' task (attemptsOf db' (es_taskId q)) k" if "k < length (attemptsOf db (es_taskId q))" for k
      unfolding attempts using that attemptStands_mono [OF _ executes_succeeds [OF c(5)] refl order_refl] by blast
    then show ?thesis using q t(1) by (simp add: sequenceHolds_def attempts)
  qed
  moreover have kept: "\<exists>a'\<in>set (db_executions db'). xa_executionId a' = xa_executionId a \<and> xa_revision a \<le> xa_revision a'"
    if "a \<in> set (db_executions db)" for a
    by (rule bexI [of _ "?f a"]) (use that f in \<open>auto simp only: c(6) set_map\<close>)
  moreover have "\<forall>r\<in>set (db_requests db'). servedRequest db' r"
    by (rule executes_served [OF c(5)]) (use assms(1) c(1) kept in \<open>auto simp: lineage_def\<close>)
  moreover have "map xa_executionId (db_executions db') = map xa_executionId (db_executions db)"
    "map xa_idempotencyKey (db_executions db') = map xa_idempotencyKey (db_executions db)" by (simp_all add: c(6) f cong: if_cong)
  moreover have "\<forall>a\<in>set (db_executions db'). xa_taskId a \<in> es_taskId ` set (db_sequences db) \<and> wellFormedText (xa_executionId a)"
    using assms(1) by (auto simp: lineage_def c(6))
  ultimately have "lineage db' s" using assms(1) executes_tables(5) [OF c(5)] by (simp add: lineage_def c(4))
  then show ?thesis using assms(2,3) by (simp add: executes_domain)
qed

section \<open>Takeovers\<close>

lemma parseTakeover_lease:
  "parseTakeover v = Some command \<Longrightarrow> 30 \<le> tc_leaseDurationSeconds command \<and> tc_leaseDurationSeconds command \<le> 3600"
  by (auto simp: parseTakeover_def leaseDuration_def split: option.splits if_splits)

text \<open>The sequence that advances is the one of the Task.\<close>

lemma advancedRows_eq:
  assumes "distinct (map es_taskId rows)" "q \<in> set rows"
  shows "advancedRows q rows = map (\<lambda>row. if row = q then advancedSequence row else row) rows"
  unfolding advancedRows_def
proof (rule map_cong [OF refl])
  fix row
  assume "row \<in> set rows"
  then have "sequenceMatches (es_taskId q) (es_lastAttemptNumber q) (es_currentFencingToken q) (es_revision q) row \<longleftrightarrow> row = q"
    using assms by (auto simp: sequenceMatches_def distinct_map dest: inj_onD)
  then show "(if sequenceMatches (es_taskId q) (es_lastAttemptNumber q) (es_currentFencingToken q) (es_revision q) row
    then advancedSequence row else row) = (if row = q then advancedSequence row else row)" by simp
qed

lemma advancedSequence_fields [simp]:
  "es_taskId (advancedSequence q) = es_taskId q" "es_lastAttemptNumber (advancedSequence q) = es_lastAttemptNumber q + 1"
  "es_currentFencingToken (advancedSequence q) = es_currentFencingToken q + 1" "es_revision (advancedSequence q) = es_revision q + 1"
  by (simp_all add: advancedSequence_def)

lemma advancedRows_taskIds [simp]: "map es_taskId (advancedRows q rows) = map es_taskId rows"
  by (simp add: advancedRows_def)

lemma find_advanced:
  assumes "distinct (map es_taskId rows)" "q \<in> set rows"
  shows "find (\<lambda>row. es_taskId row = es_taskId q) (advancedRows q rows) = Some (advancedSequence q)"
proof (rule find_unique)
  show m: "advancedSequence q \<in> set (advancedRows q rows)" using assms(2) unfolding advancedRows_eq [OF assms] by force
  have "inj_on es_taskId (set (advancedRows q rows))" using assms(1) by (metis advancedRows_taskIds distinct_map)
  then show "b = advancedSequence q" if "b \<in> set (advancedRows q rows)" "es_taskId b = es_taskId q" for b
    using m that by (metis advancedSequence_fields(1) inj_onD)
qed simp

lemma takesOver_data:
  assumes "takesOver sv command ctx identity executionId db attempt db'" "stored (sv_nfc sv) db s"
  obtains predecessor project task sequence advanced expiry where
    "predecessor \<in> set (db_executions db)" "xa_executionId predecessor = le_executionId (tc_lease command)"
    "xa_taskId predecessor = tc_taskId command" "leaseCurrent (tc_lease command) predecessor task" "xa_status predecessor = ActiveAttempt"
    "project \<in> set (db_projects db)" "rp_projectId project = t_projectId task" "taskById s (tc_taskId command) = Some task"
    "sequence \<in> set (db_sequences db)" "es_taskId sequence = tc_taskId command" "es_lastAttemptNumber sequence = xa_attemptNumber predecessor"
    "executes identity ''execution.lease.takeover'' (executionTarget executionId 1 project) db db'"
    "shiftTimestamp (oi_now identity) (tc_leaseDurationSeconds command * 1000) = Some expiry"
    "attempt = takeoverAttempt command ctx identity executionId project predecessor advanced expiry"
    "find (\<lambda>row. es_taskId row = tc_taskId command) (advancedRows sequence (db_sequences db)) = Some advanced"
    "length (filter (supersedable (xa_ownerId predecessor) (tc_lease command) (oi_now identity)) (db_executions db)) = 1"
    "\<forall>row\<in>set (db_executions db). supersedable (xa_ownerId predecessor) (tc_lease command) (oi_now identity) row \<longrightarrow>
       xa_updatedAt row < oi_now identity"
    "\<not> list_ex (attemptsConflict attempt)
       (supersededRows executionId (xa_ownerId predecessor) (tc_lease command) (oi_now identity) (db_executions db))"
    "db_sequences db' = advancedRows sequence (db_sequences db)"
    "db_executions db' = supersededRows executionId (xa_ownerId predecessor) (tc_lease command) (oi_now identity) (db_executions db) @ [attempt]"
proof -
  obtain state predecessor project task sequence advanced evaluated expiry where
    c: "readState sv db = Inr state" "mayTakeOver command (oi_now identity) state predecessor project task sequence" "ae_allowed evaluated"
    "freshRecords identity db" "shiftTimestamp (oi_now identity) (tc_leaseDurationSeconds command * 1000) = Some expiry"
    "find (\<lambda>row. es_taskId row = tc_taskId command) (advancedRows sequence (db_sequences db)) = Some advanced"
    "length (filter (supersedable (xa_ownerId predecessor) (tc_lease command) (oi_now identity)) (db_executions db)) = 1"
    "\<forall>row\<in>set (db_executions db). supersedable (xa_ownerId predecessor) (tc_lease command) (oi_now identity) row \<longrightarrow>
       xa_updatedAt row < oi_now identity"
    "attempt = takeoverAttempt command ctx identity executionId project predecessor advanced expiry"
    "\<not> list_ex (attemptsConflict attempt)
       (supersededRows executionId (xa_ownerId predecessor) (tc_lease command) (oi_now identity) (db_executions db))"
    "db' = (executionRecords identity ''execution.lease.takeover'' (executionTarget executionId 1 project) evaluated db)
      \<lparr>db_sequences := advancedRows sequence (db_sequences db),
       db_executions := supersededRows executionId (xa_ownerId predecessor) (tc_lease command) (oi_now identity) (db_executions db) @ [attempt]\<rparr>"
    using assms(1) unfolding takesOver_def by (elim exE conjE) (rule that)
  have s: "st_domain state = s" using readState_domain(1) [OF c(1)] assms(2) by simp
  let ?db = "(executionRecords identity ''execution.lease.takeover'' (executionTarget executionId 1 project) evaluated db)
    \<lparr>db_sequences := db_sequences db', db_executions := db_executions db', db_domain := db_domain db\<rparr>"
  have "executes identity ''execution.lease.takeover'' (executionTarget executionId 1 project) db ?db"
    by (rule executesI [OF c(4,3) refl])
  moreover have "?db = db'" by (simp add: c(11) withRecords_def)
  ultimately have e: "executes identity ''execution.lease.takeover'' (executionTarget executionId 1 project) db db'" by simp
  have p: "predecessor \<in> set (db_executions db)" "xa_executionId predecessor = le_executionId (tc_lease command)"
    "sequence \<in> set (db_sequences db)" "es_taskId sequence = tc_taskId command"
    using c(2) readState_tables [OF c(1)] by (auto simp: mayTakeOver_def dest: attemptById_D sequenceOf_D)
  have "project \<in> set (db_projects db)" "rp_projectId project = t_projectId task" "taskById s (tc_taskId command) = Some task"
    "xa_taskId predecessor = tc_taskId command" "leaseCurrent (tc_lease command) predecessor task" "xa_status predecessor = ActiveAttempt"
    "es_lastAttemptNumber sequence = xa_attemptNumber predecessor"
    using c(2) readState_tables [OF c(1)]
    by (auto simp: mayTakeOver_def binding_Inr sequenceStands_def s dest: find_eq_Some_D)
  then show thesis using c(5-10) e p by (intro that) (auto simp: c(11))
qed

text \<open>The predecessor is the last attempt of its Task.\<close>

lemma active_last:
  assumes "\<forall>k<length xs. attemptStands db task xs k" "k < length xs" "xa_status (xs ! k) = ActiveAttempt"
  shows "k + 1 = length xs"
proof (rule ccontr)
  assume "k + 1 \<noteq> length xs"
  then have n: "k + 1 < length xs" using assms(2) by simp
  have "attemptLinked k (previousOf xs k) (followingOf xs k) (xs ! k)" using assms(1,2) unfolding attemptStands_def by blast
  then have "attemptLinked k (previousOf xs k) (Some (xs ! (k + 1))) (xs ! k)" using n by (simp split del: if_split)
  then show False using assms(3) attemptLinked_active by fastforce
qed

lemma superseded_simps [simp]:
  "xa_executionId (supersededAttempt i now a) = xa_executionId a" "xa_taskId (supersededAttempt i now a) = xa_taskId a"
  "xa_idempotencyKey (supersededAttempt i now a) = xa_idempotencyKey a" "xa_revision (supersededAttempt i now a) = xa_revision a + 1"
  "xa_leaseRevision (supersededAttempt i now a) = xa_leaseRevision a" "xa_fencingToken (supersededAttempt i now a) = xa_fencingToken a"
  "authorizedIn db task (supersededAttempt i now a) = authorizedIn db task a"
  by (simp_all add: supersededAttempt_def authorizedIn_def attemptBound_def attemptAction_def)

lemma superseded_stands:
  assumes "attemptNumbers k a" "leaseTimes a" "attemptLinked k p None a" "xa_updatedAt a < now"
  shows "attemptNumbers k (supersededAttempt (xa_executionId n) now a) \<and> leaseTimes (supersededAttempt (xa_executionId n) now a) \<and>
    attemptLinked k p (Some n) (supersededAttempt (xa_executionId n) now a)"
  using assms
  by (auto simp: attemptNumbers_def leaseTimes_def attemptLinked_def supersededAttempt_def split: attempt_kind.splits attempt_status.splits)

lemma attemptStandsI:
  assumes "ys ! k = a" "previousOf ys k = p" "followingOf ys k = n"
    and "attemptNumbers k a" "leaseTimes a" "authorizedIn db task a" "attemptLinked k p n a"
  shows "attemptStands db task ys k"
  using assms(4-7) unfolding attemptStands_def assms(1-3) by blast

text \<open>An attempt that takes over the last one.\<close>

definition follows :: "execution_attempt \<Rightarrow> jsstr \<Rightarrow> execution_attempt \<Rightarrow> bool" where
  "follows p now n \<longleftrightarrow> attemptNumbers (nat (xa_attemptNumber p)) n \<and> leaseTimes n \<and>
     attemptLinked (nat (xa_attemptNumber p)) (Some (supersededAttempt (xa_executionId n) now p)) None n"

lemma attemptsStand_superseded:
  assumes old: "\<forall>k<length xs. attemptStands db task xs k" and p: "p \<in> set xs" "xa_status p = ActiveAttempt" "xa_updatedAt p < now"
    and P: "\<And>a. a \<in> set xs \<Longrightarrow> P a \<longleftrightarrow> a = p" and n: "follows p now n" "authorizedIn db task n"
    and k: "k < length xs + 1"
  shows "attemptStands db task (map (\<lambda>a. if P a then supersededAttempt (xa_executionId n) now a else a) xs @ [n]) k"
proof -
  let ?g = "\<lambda>a. if P a then supersededAttempt (xa_executionId n) now a else a"
  let ?ys = "map ?g xs @ [n]"
  obtain j where j: "j < length xs" "xs ! j = p" using p(1) by (metis in_set_conv_nth)
  have last: "j + 1 = length xs" by (rule active_last [OF old j(1)]) (simp add: j p(2))
  have stands: "attemptNumbers i (xs ! i)" "leaseTimes (xs ! i)" "authorizedIn db task (xs ! i)"
    "attemptLinked i (previousOf xs i) (followingOf xs i) (xs ! i)" if "i < length xs" for i
    using old that unfolding attemptStands_def by blast+
  have early: "?g (xs ! i) = xs ! i" if "i + 1 < length xs" for i
    using P [of "xs ! i"] active_last [OF old, of i] that p(2) by auto
  have ys: "?ys ! i = ?g (xs ! i)" if "i < length xs" for i using that by (simp add: nth_append)
  have previous: "previousOf ?ys i = previousOf xs i" if "i < length xs" for i
    using that early [of "i - 1"] ys [of "i - 1"] by (cases i) auto
  consider "k + 1 < length xs" | "k + 1 = length xs" | "k = length xs" using k by linarith
  then show ?thesis
  proof cases
    case 1
    have "followingOf ?ys k = Some (?g (xs ! (k + 1)))" using 1 ys [of "k + 1"] by (simp split del: if_split add: if_P)
    then have "map_option xa_executionId (followingOf ?ys k) = map_option xa_executionId (followingOf xs k)" using 1 by simp
    note following = attemptLinked_following [OF this, THEN iffD2]
    have kk: "k < length xs" using 1 by simp
    have "?ys ! k = xs ! k" using ys [OF kk] early [OF 1] by simp
    then show ?thesis by (rule attemptStandsI [OF _ previous [OF kk] refl stands(1-3) [OF kk] following [OF stands(4) [OF kk]]])
  next
    case 2
    then have "k = j" using last by simp
    then have g: "?g (xs ! k) = supersededAttempt (xa_executionId n) now p" using P [of p] p(1) j by simp
    have "followingOf ?ys k = Some n" using 2 by (simp add: nth_append)
    moreover have "attemptLinked k (previousOf xs k) None p" using stands(4) [of k] 2 j \<open>k = j\<close> by (simp split del: if_split add: if_not_P)
    moreover have "?ys ! k = supersededAttempt (xa_executionId n) now p" using ys [of k] g j \<open>k = j\<close> by simp
    moreover have "attemptNumbers k p" "leaseTimes p" "authorizedIn db task p" using stands [of k] j \<open>k = j\<close> by simp_all
    ultimately show ?thesis using superseded_stands [of k p "previousOf xs k" now n] p(3) previous [of k] j(1) \<open>k = j\<close>
      by (intro attemptStandsI [of _ k "supersededAttempt (xa_executionId n) now p" "previousOf xs k" "Some n"]) simp_all
  next
    case 3
    have "xa_attemptNumber p = int (length xs)" using stands(1) [OF j(1)] j last by (simp add: attemptNumbers_def)
    moreover have "previousOf ?ys k = Some (supersededAttempt (xa_executionId n) now p)"
    proof -
      have "k - 1 = j" "k \<noteq> 0" using 3 last by linarith+
      moreover have "?ys ! j = supersededAttempt (xa_executionId n) now p" using ys [OF j(1)] j(2) P [OF p(1)] by simp
      ultimately show ?thesis by simp
    qed
    ultimately show ?thesis using 3 n unfolding attemptStands_def follows_def by (simp add: nth_append)
  qed
qed

lemma supersededRows_keys [simp]:
  "map xa_executionId (supersededRows i owner e now rows) = map xa_executionId rows"
  "map xa_idempotencyKey (supersededRows i owner e now rows) = map xa_idempotencyKey rows"
  "map xa_taskId (supersededRows i owner e now rows) = map xa_taskId rows"
  by (simp_all add: supersededRows_def)

lemma supersededRows_images [simp]:
  "xa_executionId ` set (supersededRows i owner e now rows) = xa_executionId ` set rows"
  "xa_idempotencyKey ` set (supersededRows i owner e now rows) = xa_idempotencyKey ` set rows"
  "xa_taskId ` set (supersededRows i owner e now rows) = xa_taskId ` set rows"
  by (metis supersededRows_keys list.set_map)+

lemma supersedable_predecessor:
  assumes "lineage db s" "predecessor \<in> set (db_executions db)" "xa_executionId predecessor = le_executionId expected"
    and "length (filter (supersedable ownerId expected now) (db_executions db)) = 1" "row \<in> set (db_executions db)"
  shows "supersedable ownerId expected now row \<longleftrightarrow> row = predecessor"
proof -
  have only: "row = predecessor" if "supersedable ownerId expected now row" "row \<in> set (db_executions db)" for row
    using that assms(2,3) same_execution [OF assms(1)] by (simp add: supersedable_def leaseMatches_def)
  obtain r where "filter (supersedable ownerId expected now) (db_executions db) = [r]"
    using assms(4) by (metis One_nat_def length_0_conv length_Suc_conv)
  then have "r \<in> set (filter (supersedable ownerId expected now) (db_executions db))" by simp
  then have "r \<in> set (db_executions db)" "supersedable ownerId expected now r" by simp_all
  with only show ?thesis using assms(5) by metis
qed

lemma takeover_follows:
  assumes "attempt = takeoverAttempt command ctx identity executionId project predecessor advanced expiry"
    and "attemptNumbers j predecessor" "0 < int j + 1" "leaseCurrent (tc_lease command) predecessor task"
    and "es_lastAttemptNumber advanced = int j + 2" "es_currentFencingToken advanced = int j + 2"
    and "shiftTimestamp (oi_now identity) (tc_leaseDurationSeconds command * 1000) = Some expiry"
    and "30 \<le> tc_leaseDurationSeconds command \<and> tc_leaseDurationSeconds command \<le> 3600"
  shows "follows predecessor (oi_now identity) attempt"
proof -
  have n: "nat (xa_attemptNumber predecessor) = j + 1" using assms(2) by (simp add: attemptNumbers_def)
  show ?thesis unfolding follows_def n assms(1)
    using assms(4-8)
    by (simp add: takeoverAttempt_def attemptNumbers_def leaseTimes_def attemptLinked_def leaseCurrent_def)
qed

lemma takesOver_lineage:
  assumes "lineage db s" "parseTakeover v = Some command" "issues ig executionId"
    and "takesOver sv command ctx identity executionId db attempt db'" "stored (sv_nfc sv) db s"
  shows "stored (sv_nfc sv) db' s \<and> lineage db' s"
proof -
  let ?i = "tc_taskId command" and ?now = "oi_now identity"
  obtain predecessor project task sequence advanced expiry where
    c: "predecessor \<in> set (db_executions db)" "xa_executionId predecessor = le_executionId (tc_lease command)"
    "xa_taskId predecessor = ?i" "leaseCurrent (tc_lease command) predecessor task" "xa_status predecessor = ActiveAttempt"
    "project \<in> set (db_projects db)" "rp_projectId project = t_projectId task" "taskById s ?i = Some task"
    "sequence \<in> set (db_sequences db)" "es_taskId sequence = ?i" "es_lastAttemptNumber sequence = xa_attemptNumber predecessor"
    "executes identity ''execution.lease.takeover'' (executionTarget executionId 1 project) db db'"
    "shiftTimestamp ?now (tc_leaseDurationSeconds command * 1000) = Some expiry"
    "attempt = takeoverAttempt command ctx identity executionId project predecessor advanced expiry"
    "find (\<lambda>row. es_taskId row = ?i) (advancedRows sequence (db_sequences db)) = Some advanced"
    "length (filter (supersedable (xa_ownerId predecessor) (tc_lease command) ?now) (db_executions db)) = 1"
    "\<forall>row\<in>set (db_executions db). supersedable (xa_ownerId predecessor) (tc_lease command) ?now row \<longrightarrow> xa_updatedAt row < ?now"
    "\<not> list_ex (attemptsConflict attempt) (supersededRows executionId (xa_ownerId predecessor) (tc_lease command) ?now (db_executions db))"
    "db_sequences db' = advancedRows sequence (db_sequences db)"
    "db_executions db' = supersededRows executionId (xa_ownerId predecessor) (tc_lease command) ?now (db_executions db) @ [attempt]"
    by (rule takesOver_data [OF assms(4,5)])
  let ?P = "supersedable (xa_ownerId predecessor) (tc_lease command) ?now"
  let ?g = "\<lambda>a. if ?P a then supersededAttempt executionId ?now a else a"
  have P: "?P row \<longleftrightarrow> row = predecessor" if "row \<in> set (db_executions db)" for row
    by (rule supersedable_predecessor [OF assms(1) c(1,2,16) that])
  have fields: "xa_executionId attempt = executionId" "xa_taskId attempt = ?i" "xa_revision attempt = 1" "xa_idempotencyKey attempt = tc_idempotencyKey command"
    by (simp_all add: c(14)) (simp add: takeoverAttempt_def)
  have d: "distinct (map es_taskId (db_sequences db))" using assms(1) by (simp add: lineage_def)
  have advanced: "advanced = advancedSequence sequence" using find_advanced [OF d c(9)] c(10,15) by simp
  note rows = advancedRows_eq [OF d c(9)]
  note mono = attemptStands_mono [OF _ executes_succeeds [OF c(12)] refl order_refl]
  have wfId: "wellFormedText executionId" by (rule issues_wellFormed [OF assms(3)])
  have keys: "executionId \<notin> xa_executionId ` set (db_executions db)" "tc_idempotencyKey command \<notin> xa_idempotencyKey ` set (db_executions db)"
    using conflict_id [OF c(18)] conflict_key [OF c(18)] by (simp_all add: fields)
  have other: "attemptsOf db' i = attemptsOf db i" if "i \<noteq> ?i" for i
  proof -
    have "map ?g (attemptsOf db i) = attemptsOf db i" using P c(3) that by (intro map_idI) auto
    then show ?thesis unfolding c(20) supersededRows_def using that attemptsOf_map [of ?g i] fields(2) by simp
  qed
  have mine: "attemptsOf db' ?i = map ?g (attemptsOf db ?i) @ [attempt]"
    unfolding c(20) supersededRows_def using attemptsOf_map [of ?g ?i] fields(2) by simp
  have held: "sequenceHolds db s sequence" using assms(1) c(9) by (simp add: lineage_def)
  then have stands: "\<forall>k<length (attemptsOf db ?i). attemptStands db task (attemptsOf db ?i) k"
    and count: "int (length (attemptsOf db ?i)) = es_lastAttemptNumber sequence" "es_revision sequence = es_lastAttemptNumber sequence"
      "es_currentFencingToken sequence = es_lastAttemptNumber sequence"
    using c(8) unfolding sequenceHolds_def c(10) by auto
  obtain j where j: "j < length (attemptsOf db ?i)" "attemptsOf db ?i ! j = predecessor"
    using c(1,3) by (metis (mono_tags, lifting) filter_set in_set_conv_nth mem_Collect_eq set_filter)
  have number: "attemptNumbers j predecessor" using stands j unfolding attemptStands_def by metis
  have last: "int j + 1 = es_lastAttemptNumber sequence" using number c(11) by (simp add: attemptNumbers_def)
  have next_attempt: "follows predecessor ?now attempt"
    by (rule takeover_follows [OF c(14) number _ c(4) _ _ c(13) parseTakeover_lease [OF assms(2)]]) (use last count in \<open>simp_all add: advanced\<close>)
  have authorized: "authorizedIn db' task attempt"
    by (rule authorizedIn_new [where project = project and db = db and identity = identity])
      (use c wfId in \<open>simp_all add: fields attemptAction_def\<close>, simp_all add: takeoverAttempt_def leaseCurrent_def)
  have chain: "attemptStands db' task (attemptsOf db' ?i) k" if "k < length (attemptsOf db ?i) + 1" for k
    unfolding mine fields(1) [symmetric]
    by (rule attemptsStand_superseded [OF _ _ c(5) _ _ next_attempt authorized that])
      (use stands mono c(1,3,17) P in auto)
  have new: "sequenceHolds db' s (advancedSequence sequence)"
    using chain c(8,10) count mine by (auto simp: sequenceHolds_def)
  have sequences: "sequenceHolds db' s q" if "q \<in> set (db_sequences db')" for q
  proof -
    obtain row where row: "row \<in> set (db_sequences db)" "q = (if row = sequence then advancedSequence row else row)"
      using \<open>q \<in> set (db_sequences db')\<close> unfolding c(19) rows by auto
    have "es_taskId row \<noteq> ?i" if "row \<noteq> sequence" using that row(1) c(9,10) d by (metis distinct_map inj_onD)
    moreover have "sequenceHolds db s row" using assms(1) row(1) by (simp add: lineage_def)
    ultimately show ?thesis using row(2) new other [of "es_taskId row"]
      sequenceHolds_mono [OF _ _ executes_succeeds [OF c(12)], of s row s] by (cases "row = sequence") auto
  qed
  have kept: "\<exists>a'\<in>set (db_executions db'). xa_executionId a' = xa_executionId a \<and> xa_revision a \<le> xa_revision a'"
    if "a \<in> set (db_executions db)" for a
    by (rule bexI [of _ "?g a"]) (use that in \<open>auto simp: c(20) supersededRows_def\<close>)
  have "\<forall>r\<in>set (db_requests db'). servedRequest db' r"
    by (rule executes_served [OF c(12) wfId]) (use assms(1) kept fields in \<open>auto simp: lineage_def c(20)\<close>)
  moreover have "es_taskId ` set (db_sequences db') = es_taskId ` set (db_sequences db)"
    unfolding c(19) by (metis advancedRows_taskIds list.set_map)
  moreover have "\<forall>a\<in>set (db_executions db'). xa_taskId a \<in> es_taskId ` set (db_sequences db) \<and> wellFormedText (xa_executionId a)"
  proof -
    have "?i \<in> es_taskId ` set (db_sequences db)" using c(9,10) by (metis imageI)
    then show ?thesis using assms(1) wfId fields by (auto simp: lineage_def c(20) supersededRows_def)
  qed
  ultimately have "lineage db' s"
    using assms(1) keys executes_tables(5) [OF c(12)] sequences unfolding lineage_def c(20) by (simp add: fields c(19))
  then show ?thesis using assms(4,5) by (simp add: executes_domain)
qed

section \<open>Every history keeps the lineage\<close>

text \<open>The steps of services that normalize text alike, from a store that nobody has used.\<close>

abbreviation services :: "(jsstr \<Rightarrow> jsstr) \<Rightarrow> database \<Rightarrow> 'e service \<Rightarrow> database \<Rightarrow> bool" where
  "services nfc db sv db' \<equiv> sv_nfc sv = nfc \<and> system_step db sv db'"

definition unused :: "(jsstr \<Rightarrow> jsstr) \<Rightarrow> database \<Rightarrow> bool" where
  "unused nfc db \<longleftrightarrow> emptyTables db \<and> db_sequences db = [] \<and> db_executions db = [] \<and> db_terminals db = [] \<and>
     stored nfc db \<lparr>s_projects = [], s_tasks = []\<rparr>"

definition sound :: "(jsstr \<Rightarrow> jsstr) \<Rightarrow> database \<Rightarrow> bool" where
  "sound nfc db \<longleftrightarrow> consistent db \<and> (\<exists>s. stored nfc db s \<and> lineage db s)"

lemma soundE:
  assumes "sound nfc db" "stored nfc db s"
  shows "consistent db" "lineage db s"
  using assms by (auto simp: sound_def)

theorem system_step_lineage:
  assumes "system_step db sv db'" "lineage db s" "stored (sv_nfc sv) db s"
  shows "\<exists>s'. stored (sv_nfc sv) db' s' \<and> lineage db' s'"
  using assms
proof (induction rule: system_step.induct)
  case (via_application db sv db')
  then show ?case using transacts_lineage by blast
next
  case (via_claim v command ig ctx identity executionId sv db attempt db')
  then show ?case using claims_lineage by blast
next
  case (via_inspection sv inspection identity db r db')
  then show ?case using inspects_lineage by blast
next
  case (via_renewal v renewal sv ctx identity db r db')
  then show ?case using renewsLease_lineage by blast
next
  case (via_takeover v replacement ig ctx identity executionId sv db attempt db')
  then show ?case using takesOver_lineage by blast
qed

interpretation executions: inductive_invariant "unused nfc" "services nfc" "sound nfc" for nfc
proof
  show "unused nfc db \<Longrightarrow> sound nfc db" for db
    using histories.inv_init
    by (auto simp: unused_def sound_def lineage_def isRunning_def taskById_def emptyTables_def)
  show "sound nfc db \<Longrightarrow> services nfc db sv db' \<Longrightarrow> sound nfc db'" for db sv db'
    using system_step_consistent system_step_lineage unfolding sound_def by blast
qed

end
