(* ===== verification/Execution_Guarantees.thy ===== *)
theory Execution_Guarantees
  imports Execution_Succession
begin

text \<open>
  What histories of the application and execution services guarantee: the integrity checks of
  executions never reject their tables, at most one attempt of a Task is active, and the lease
  of a Task is granted, renewed and taken over one at a time, under a fencing token that grows.
\<close>

section \<open>The integrity checks\<close>

lemma distinct_map_sort: "distinct (map f (sort_key k xs)) \<longleftrightarrow> distinct (map f xs)"
  by (simp add: distinct_map)

lemma attempts_of_state:
  assumes "\<And>k. k < length (attemptsOf db i) \<Longrightarrow> xa_attemptNumber (attemptsOf db i ! k) = int k + 1"
  shows "filter (\<lambda>a. xa_taskId a = i) (st_executions (stateOf s db)) = attemptsOf db i"
proof -
  have "sorted (map xa_attemptNumber (attemptsOf db i))" using assms by (simp add: sorted_iff_nth_mono)
  then have "sort_key xa_attemptNumber (attemptsOf db i) = attemptsOf db i" by (rule sort_key_id_if_sorted)
  moreover have "sort_key (\<lambda>a. codePoints (xa_taskId a)) (attemptsOf db i) = attemptsOf db i"
  proof (rule sort_key_id_if_sorted)
    have "xa_taskId (attemptsOf db i ! k) = i" if "k < length (attemptsOf db i)" for k using nth_mem [OF that] by simp
    then show "sorted (map (\<lambda>a. codePoints (xa_taskId a)) (attemptsOf db i))" by (simp add: sorted_iff_nth_mono)
  qed
  ultimately show ?thesis by (simp add: stateOf_def filter_sort)
qed

lemma mapGet_task: "wf_snapshot nfc s \<Longrightarrow> mapGet t_id (s_tasks s) i = taskById s i"
proof (rule option_eq_via_Some)
  fix t
  assume wf: "wf_snapshot nfc s"
  then have d: "distinct (map t_id (s_tasks s))" by (simp add: wf_snapshot_in_def)
  show "mapGet t_id (s_tasks s) i = Some t \<longleftrightarrow> taskById s i = Some t"
    using mapGet_unique [OF d, of t i] mapGet_D [of t_id "s_tasks s" i t] tasks.lookup_iff [OF wf, of i t] by blast
qed

lemma attemptStands_linked:
  "attemptStands db task xs k \<Longrightarrow> previousOf xs k = p \<Longrightarrow> followingOf xs k = n \<Longrightarrow> attemptLinked k p n (xs ! k)"
  by (simp only: attemptStands_def)

text \<open>Only the last attempt of a chain is active.\<close>

lemma active_attempts:
  assumes stands: "\<forall>k<length xs. attemptStands db task xs k" and ne: "xs \<noteq> []"
  shows "filter (\<lambda>a. xa_status a = ActiveAttempt) xs = [last xs]"
proof -
  let ?n = "length xs - 1"
  have n: "?n < length xs" "?n + 1 = length xs" using ne by simp_all
  have "attemptStands db task xs ?n" using stands n(1) by blast
  then have "attemptLinked ?n (previousOf xs ?n) None (xs ! ?n)" by (rule attemptStands_linked) (use n(2) in simp_all)
  then have last: "xa_status (last xs) = ActiveAttempt"
    using ne by (cases "xa_status (last xs)") (auto simp: attemptLinked_def last_conv_nth present_def)
  have "filter (\<lambda>a. xa_status a = ActiveAttempt) (butlast xs) = []"
  proof (rule ccontr)
    assume "filter (\<lambda>a. xa_status a = ActiveAttempt) (butlast xs) \<noteq> []"
    then obtain a where a: "a \<in> set (butlast xs)" "xa_status a = ActiveAttempt" unfolding filter_empty_conv by blast
    then obtain k where k: "k < length (butlast xs)" "xa_status (butlast xs ! k) = ActiveAttempt" unfolding in_set_conv_nth by blast
    moreover from k have "k < length xs" "xa_status (xs ! k) = ActiveAttempt" by (simp_all add: nth_butlast)
    ultimately show False using active_last [OF stands, of k] by simp
  qed
  then have "filter (\<lambda>a. xa_status a = ActiveAttempt) (butlast xs @ [last xs]) = [last xs]" using last by simp
  then show ?thesis using ne by (metis append_butlast_last_id)
qed

lemma lease_after_start:
  assumes "leaseTimes a" "attemptNumbers k a" "shortTimestamp (xa_createdAt a)" "shortTimestamp (xa_leaseExpiresAt a)"
  shows "attemptTimes a"
proof -
  have "xa_createdAt a < xa_leaseExpiresAt a" if "xa_leaseRevision a = 1"
    using assms that shortTimestamp_less_iff [OF assms(3,4)] shiftTimestamp_moment [of "xa_createdAt a"]
    by (fastforce simp: leaseTimes_def attemptNumbers_def)
  then show ?thesis using assms(1) by (auto simp: leaseTimes_def attemptTimes_def split: if_splits)
qed

lemma decides_requestIds: "list_all2 decides rs ds \<Longrightarrow> map dr_requestId ds = map rr_requestId rs"
  by (induction rule: list_all2_induct) (auto simp: decides_def)

lemma decisionRequests_distinct: "ledger db \<Longrightarrow> distinct (map dr_requestId (db_decisions db))"
proof -
  assume l: "ledger db"
  then have "map dr_requestId (db_decisions db) = map rr_requestId (decidedRequests (db_requests db))"
    unfolding ledger_def using decides_requestIds by blast
  moreover have "distinct (map rr_requestId (decidedRequests (db_requests db)))" using l by (simp add: ledger_def distinct_map_filter)
  ultimately show ?thesis by simp
qed

lemma authorizedIn_bound:
  assumes "authorizedIn db task a" "consistent db"
  shows "attemptBound task (find (\<lambda>candidate. rp_projectId candidate = t_projectId task) (st_projects (stateOf s db)))
    (mapGet rr_requestId (st_requests (stateOf s db)) (xa_requestId a)) (mapGet dr_requestId (st_decisions (stateOf s db)) (xa_requestId a)) a"
proof -
  obtain p r d where x: "p \<in> set (db_projects db)" "r \<in> set (db_requests db)" "d \<in> set (db_decisions db)"
    "rp_projectId p = t_projectId task" "attemptBound task (Some p) (Some r) (Some d) a"
    using assms(1) unfolding authorizedIn_def by blast
  have l: "ledger db" "distinct (map rp_projectId (db_projects db))" using assms(2) by (simp_all add: consistent_def projectsKeyed_def)
  have "find (\<lambda>candidate. rp_projectId candidate = t_projectId task) (st_projects (stateOf s db)) = Some p"
  proof (rule find_unique)
    show "b = p" if "b \<in> set (st_projects (stateOf s db))" "rp_projectId b = t_projectId task" for b
      using that x(1,4) l(2) by (metis distinct_map inj_onD stateOf_sets(4))
  qed (use x(1,4) in \<open>simp_all add: stateOf_sets\<close>)
  moreover have "mapGet rr_requestId (st_requests (stateOf s db)) (xa_requestId a) = Some r"
    by (rule mapGet_unique) (use x(2,5) l(1) in \<open>auto simp: stateOf_def ledger_def distinct_map_sort attemptBound_def\<close>)
  moreover have "mapGet dr_requestId (st_decisions (stateOf s db)) (xa_requestId a) = Some d"
    by (rule mapGet_unique) (use x(3,5) decisionRequests_distinct [OF l(1)] in \<open>auto simp: stateOf_def distinct_map_sort attemptBound_def\<close>)
  ultimately show ?thesis using x(5) by simp
qed

lemma checkSequence_lineage:
  assumes "lineage db s" "consistent db" "wf_snapshot nfc s" "q \<in> set (db_sequences db)"
    and "\<forall>a\<in>set (db_executions db). shortTimestamp (xa_createdAt a) \<and> shortTimestamp (xa_leaseExpiresAt a)"
  shows "checkSequence (stateOf s db) q = Inr ()"
proof -
  let ?xs = "attemptsOf db (es_taskId q)"
  obtain task where q: "es_revision q = es_lastAttemptNumber q" "es_currentFencingToken q = es_lastAttemptNumber q" "?xs \<noteq> []"
    "int (length ?xs) = es_lastAttemptNumber q" "taskById s (es_taskId q) = Some task" "\<forall>k<length ?xs. attemptStands db task ?xs k"
    using assms(1,4) unfolding lineage_def sequenceHolds_def by blast
  have numbers: "attemptNumbers k (?xs ! k)" if "k < length ?xs" for k using q(6) that unfolding attemptStands_def by blast
  have attempts: "filter (\<lambda>a. xa_taskId a = es_taskId q) (st_executions (stateOf s db)) = ?xs"
    by (rule attempts_of_state) (use numbers in \<open>simp add: attemptNumbers_def\<close>)
  have state: "st_domain (stateOf s db) = s" "st_executionTerminalStates (stateOf s db) = []"
    using assms(1) by (simp_all add: stateOf_def lineage_def)
  have task: "mapGet t_id (s_tasks s) (es_taskId q) = Some task" using mapGet_task [OF assms(3)] q(5) by simp
  have "isRunning s (es_taskId q)" using assms(1,4) unfolding lineage_def by blast
  then have running: "t_state task = Running" using q(5) by (simp add: isRunning_def)
  have "attemptNumbers (length ?xs - 1) (last ?xs)" using numbers [of "length ?xs - 1"] q(3) by (simp add: last_conv_nth)
  then have "xa_attemptNumber (last ?xs) = es_lastAttemptNumber q" "xa_fencingToken (last ?xs) = es_currentFencingToken q"
    using q(2,3,4) by (auto simp: attemptNumbers_def of_nat_diff Suc_le_eq)
  then have "sequenceComplete [] (Some task) q ?xs"
    using q(1,4) running unfolding sequenceComplete_def active_attempts [OF q(6,3)] Let_def
    by (simp add: taskStateMatchesExecution_def mapGet_def)
  moreover have "checkAttempt (stateOf s db) task ?xs k = Inr ()" if "k < length ?xs" for k
  proof -
    have k: "leaseTimes (?xs ! k)" "authorizedIn db task (?xs ! k)" "attemptLinked k (previousOf ?xs k) (followingOf ?xs k) (?xs ! k)"
      using q(6) that unfolding attemptStands_def by blast+
    have "?xs ! k \<in> set (db_executions db)" using nth_mem [OF that] by simp
    then have "attemptTimes (?xs ! k)" using lease_after_start [OF k(1) numbers [OF that]] assms(5) by blast
    then show ?thesis using k(3) numbers [OF that] authorizedIn_bound [OF k(2) assms(2), of s] unfolding checkAttempt_Inr by blast
  qed
  ultimately have "ebind (corruptUnless (sequenceComplete [] (Some task) q ?xs) message) (\<lambda>_.
      checkAll (checkAttempt (stateOf s db) task ?xs) [0..<length ?xs]) = Inr ()" for message
    unfolding ebind_eq_Inr by (auto simp: checkAll_Inr)
  then show ?thesis unfolding checkSequence_def Let_def state task attempts by simp
qed

theorem checkExecutions_lineage:
  assumes "lineage db s" "consistent db" "wf_snapshot nfc s"
    and "\<forall>a\<in>set (db_executions db). shortTimestamp (xa_createdAt a) \<and> shortTimestamp (xa_leaseExpiresAt a)"
  shows "checkExecutions (stateOf s db) = Inr ()"
proof -
  have keyed: "distinct (map xa_executionId (st_executions (stateOf s db)))" "distinct (map es_taskId (st_executionSequences (stateOf s db)))"
    using assms(1) by (simp_all add: stateOf_def distinct_map_sort lineage_def)
  have prefix: "length ''execution.'' = 10" by simp
  have "checkExecutionRequest (stateOf s db) r = Inr ()" if "r \<in> set (db_requests db)" for r
  proof (cases "take 10 (rr_action r) = ''execution.'' \<and> rr_result r = RequestAllow")
    case True
    moreover have "servedRequest db r" using assms(1) that by (simp add: lineage_def)
    ultimately obtain a n where a: "a \<in> set (db_executions db)" "xa_executionId a = rr_targetId r" "rr_targetRevision r = Some n" "n \<le> xa_revision a"
      unfolding servedRequest_def by blast
    have "mapGet xa_executionId (st_executions (stateOf s db)) (rr_targetId r) = Some a"
      by (rule mapGet_unique [OF keyed(1)]) (use a in \<open>simp_all add: stateOf_sets\<close>)
    then show ?thesis using a unfolding checkExecutionRequest_def prefix by simp
  next
    case False
    then show ?thesis unfolding checkExecutionRequest_def prefix by auto
  qed
  moreover have "checkSequence (stateOf s db) q = Inr ()" if "q \<in> set (db_sequences db)" for q
    by (rule checkSequence_lineage [OF assms(1,2,3) that assms(4)])
  moreover have "\<forall>a\<in>set (db_executions db). xa_taskId a \<in> es_taskId ` set (db_sequences db)" using assms(1) by (simp add: lineage_def)
  ultimately show ?thesis
    using keyed by (simp add: checkExecutions_def ebind_eq_Inr checkAll_Inr stateOf_sets list_all_iff)
qed

end
