(* ===== verification/Execution_Fencing.thy ===== *)
theory Execution_Fencing
  imports Execution_Guarantees
begin

text \<open>
  The lease of a Task as an abstract machine: it is granted once, renewed by its holder before
  it expires, and passes to another execution after it has expired, with the next fencing
  token. The histories of the services simulate it, so that a holder that was superseded is
  fenced off for good.
\<close>

section \<open>One holder at a time\<close>

lemma attempt_place:
  assumes "lineage db s" "a \<in> set (db_executions db)"
  obtains task k where "\<forall>k<length (attemptsOf db (xa_taskId a)). attemptStands db task (attemptsOf db (xa_taskId a)) k"
    "k < length (attemptsOf db (xa_taskId a))" "attemptsOf db (xa_taskId a) ! k = a"
    "xa_attemptNumber a = int k + 1" "xa_fencingToken a = int k + 1"
proof -
  obtain q where q: "q \<in> set (db_sequences db)" "es_taskId q = xa_taskId a" using assms unfolding lineage_def by (metis imageE)
  let ?xs = "attemptsOf db (xa_taskId a)"
  obtain task where stands: "\<forall>k<length ?xs. attemptStands db task ?xs k"
    using assms(1) q unfolding lineage_def sequenceHolds_def by metis
  have "a \<in> set ?xs" using assms(2) by simp
  then obtain k where k: "k < length ?xs" "?xs ! k = a" unfolding in_set_conv_nth by blast
  have "attemptStands db task ?xs k" using stands k(1) by blast
  then have "attemptNumbers k (?xs ! k)" unfolding attemptStands_def by blast
  then have "attemptNumbers k a" unfolding k(2) .
  then show thesis using that [OF stands k] by (simp add: attemptNumbers_def)
qed

lemma active_unique:
  assumes "lineage db s" "a \<in> set (db_executions db)" "b \<in> set (db_executions db)" "xa_taskId b = xa_taskId a"
    and "xa_status a = ActiveAttempt"
  shows "xa_fencingToken b \<le> xa_fencingToken a" "xa_status b = ActiveAttempt \<Longrightarrow> b = a"
    "xa_fencingToken b = xa_fencingToken a \<Longrightarrow> b = a"
proof -
  let ?xs = "attemptsOf db (xa_taskId a)"
  obtain task j where j: "\<forall>k<length ?xs. attemptStands db task ?xs k" "j < length ?xs" "?xs ! j = a" "xa_fencingToken a = int j + 1"
    by (rule attempt_place [OF assms(1,2)])
  obtain k where k: "k < length ?xs" "?xs ! k = b" "xa_fencingToken b = int k + 1"
    by (rule attempt_place [OF assms(1,3), unfolded assms(4)])
  have last: "j + 1 = length ?xs" by (rule active_last [OF j(1,2)]) (simp add: j(3) assms(5))
  show "xa_fencingToken b \<le> xa_fencingToken a" using j(4) k(1,3) last by simp
  have same: "b = a" if "k = j" using j(3) k(2) that by simp
  show "b = a" if "xa_fencingToken b = xa_fencingToken a" using same j(4) k(3) that by simp
  show "b = a" if "xa_status b = ActiveAttempt"
  proof -
    have "k + 1 = length ?xs" by (rule active_last [OF j(1) k(1)]) (simp add: k(2) that)
    then show ?thesis using same last by simp
  qed
qed

lemma running_active:
  assumes "lineage db s"
  shows "isRunning s i \<longleftrightarrow> (\<exists>a\<in>set (db_executions db). xa_taskId a = i \<and> xa_status a = ActiveAttempt)"
proof
  assume "isRunning s i"
  then obtain q where q: "q \<in> set (db_sequences db)" "es_taskId q = i" using assms unfolding lineage_def by (metis imageE)
  then have "sequenceHolds db s q" using assms by (simp add: lineage_def)
  then obtain task where "\<forall>k<length (attemptsOf db i). attemptStands db task (attemptsOf db i) k" "attemptsOf db i \<noteq> []"
    using q(2) unfolding sequenceHolds_def by metis
  from active_attempts [OF this] have "last (attemptsOf db i) \<in> set (filter (\<lambda>a. xa_status a = ActiveAttempt) (attemptsOf db i))" by simp
  then show "\<exists>a\<in>set (db_executions db). xa_taskId a = i \<and> xa_status a = ActiveAttempt" by auto
qed (use assms in \<open>auto simp: lineage_def\<close>)

section \<open>The abstract lease\<close>

record lease =
  ls_executionId :: jsstr
  ls_ownerId :: jsstr
  ls_fencingToken :: int
  ls_expiresAt :: jsstr

definition leaseOf :: "database \<Rightarrow> jsstr \<Rightarrow> lease option" where
  "leaseOf db i =
     map_option (\<lambda>a. \<lparr>ls_executionId = xa_executionId a, ls_ownerId = xa_ownerId a, ls_fencingToken = xa_fencingToken a,
         ls_expiresAt = xa_leaseExpiresAt a\<rparr>)
       (find (\<lambda>a. xa_taskId a = i \<and> xa_status a = ActiveAttempt) (db_executions db))"

inductive lease_step :: "lease option \<Rightarrow> lease option \<Rightarrow> bool" where
  lease_granted: "ls_fencingToken l = 1 \<Longrightarrow> lease_step None (Some l)"
| lease_renewed: "now < ls_expiresAt l \<Longrightarrow> ls_expiresAt l < expiry \<Longrightarrow> lease_step (Some l) (Some (l\<lparr>ls_expiresAt := expiry\<rparr>))"
| lease_taken: "ls_expiresAt l \<le> now \<Longrightarrow> ls_executionId l' \<noteq> ls_executionId l \<Longrightarrow> ls_fencingToken l' = ls_fencingToken l + 1 \<Longrightarrow>
    lease_step (Some l) (Some l')"

inductive_simps lease_step_None [simp]: "lease_step l None"
inductive_cases lease_step_SomeE: "lease_step (Some l) l'"

text \<open>Along any number of steps, the token grows with every change of the holder.\<close>

theorem lease_steps_token:
  assumes "lease_step\<^sup>*\<^sup>* (Some l) x"
  shows "\<exists>l'. x = Some l' \<and> ls_fencingToken l \<le> ls_fencingToken l' \<and>
    (ls_fencingToken l' = ls_fencingToken l \<longrightarrow>
       ls_executionId l' = ls_executionId l \<and> ls_ownerId l' = ls_ownerId l \<and> ls_expiresAt l \<le> ls_expiresAt l')"
  using assms
proof (induction rule: rtranclp_induct)
  case (step y z)
  then obtain l' where l': "y = Some l'" "ls_fencingToken l \<le> ls_fencingToken l'"
    "ls_fencingToken l' = ls_fencingToken l \<longrightarrow>
       ls_executionId l' = ls_executionId l \<and> ls_ownerId l' = ls_ownerId l \<and> ls_expiresAt l \<le> ls_expiresAt l'" by blast
  from step(2) [unfolded l'(1)] show ?case
    by (cases rule: lease_step_SomeE) (use l'(2,3) in \<open>auto intro: order.trans\<close>)
qed simp

section \<open>The steps of the services\<close>

lemma find_snoc: "find P (xs @ [x]) = (case find P xs of None \<Rightarrow> if P x then Some x else None | Some y \<Rightarrow> Some y)"
  by (induction xs) auto

lemma find_map_keeps: "(\<And>a. P (f a) = P a) \<Longrightarrow> find P (map f xs) = map_option f (find P xs)"
  by (induction xs) auto

lemma find_map_same: "(\<And>a. a \<in> set xs \<Longrightarrow> P (f a) = P a \<and> (P a \<longrightarrow> f a = a)) \<Longrightarrow> find P (map f xs) = find P xs"
  by (induction xs) auto

lemma find_map_none: "(\<And>a. a \<in> set xs \<Longrightarrow> \<not> P (f a)) \<Longrightarrow> find P (map f xs) = None"
  by (induction xs) auto

lemma leaseOf_same: "db_executions db' = db_executions db \<Longrightarrow> leaseOf db' i = leaseOf db i"
  by (simp add: leaseOf_def)

lemma claims_lease:
  assumes "lineage db s" "stored (sv_nfc sv) db s" "claims sv command ctx identity executionId db attempt db'"
  shows "leaseOf db' i = leaseOf db i \<or> lease_step (leaseOf db i) (leaseOf db' i)"
proof -
  obtain project task expiry where c: "cl_taskId command \<notin> es_taskId ` set (db_sequences db)"
    "attempt = claimedAttempt command ctx identity executionId project expiry" "db_executions db' = db_executions db @ [attempt]"
    by (rule claims_data [OF assms(3,2)])
  have "find (\<lambda>a. xa_taskId a = cl_taskId command \<and> xa_status a = ActiveAttempt) (db_executions db) = None"
    using c(1) assms(1) unfolding find_None_iff lineage_def by metis
  then show ?thesis by (cases "i = cl_taskId command") (auto simp: leaseOf_def c(2,3) find_snoc intro!: lease_granted split: option.split)
qed

lemma renewsLease_lease:
  assumes "lineage db s" "renewsLease sv command ctx identity db r db'"
  shows "leaseOf db' i = leaseOf db i \<or> lease_step (leaseOf db i) (leaseOf db' i)"
proof -
  obtain attempt expiry where c: "attempt \<in> set (db_executions db)" "xa_executionId attempt = le_executionId (rc_lease command)"
    "xa_leaseExpiresAt attempt < expiry"
    "db_executions db' = renewedRows (tx_ownerId ctx) (rc_lease command) (oi_now identity) expiry (db_executions db)"
    by (rule renewsLease_data [OF assms(2)])
  let ?P = "renewable (tx_ownerId ctx) (rc_lease command) (oi_now identity)"
  let ?f = "\<lambda>row. if ?P row then renewedAttempt (oi_now identity) expiry row else row"
  let ?A = "\<lambda>a. xa_taskId a = i \<and> xa_status a = ActiveAttempt"
  have f: "find ?A (db_executions db') = map_option ?f (find ?A (db_executions db))"
    unfolding c(4) by (rule find_map_keeps) (simp add: renewedAttempt_def)
  show ?thesis
  proof (cases "find ?A (db_executions db)")
    case (Some a)
    show ?thesis
    proof (cases "?P a")
      case True
      have "a = attempt" using find_eq_Some_D [OF Some] True c(1,2) same_execution [OF assms(1)] by (simp add: renewable_def leaseMatches_def)
      moreover from True have "oi_now identity < xa_leaseExpiresAt a" by (simp add: renewable_def)
      ultimately show ?thesis
        using lease_renewed [of "oi_now identity" "\<lparr>ls_executionId = xa_executionId a, ls_ownerId = xa_ownerId a,
          ls_fencingToken = xa_fencingToken a, ls_expiresAt = xa_leaseExpiresAt a\<rparr>" expiry] c(3) Some f True
        by (simp add: leaseOf_def renewedAttempt_def)
    qed (simp add: leaseOf_def f Some)
  qed (simp add: leaseOf_def f)
qed

lemma takesOver_lease:
  assumes "lineage db s" "stored (sv_nfc sv) db s" "takesOver sv command ctx identity executionId db attempt db'"
  shows "leaseOf db' i = leaseOf db i \<or> lease_step (leaseOf db i) (leaseOf db' i)"
proof -
  let ?now = "oi_now identity"
  obtain predecessor project task sequence advanced expiry where
    c: "predecessor \<in> set (db_executions db)" "xa_executionId predecessor = le_executionId (tc_lease command)"
    "xa_taskId predecessor = tc_taskId command" "xa_status predecessor = ActiveAttempt"
    "sequence \<in> set (db_sequences db)" "es_taskId sequence = tc_taskId command" "es_lastAttemptNumber sequence = xa_attemptNumber predecessor"
    "attempt = takeoverAttempt command ctx identity executionId project predecessor advanced expiry"
    "find (\<lambda>row. es_taskId row = tc_taskId command) (advancedRows sequence (db_sequences db)) = Some advanced"
    "length (filter (supersedable (xa_ownerId predecessor) (tc_lease command) ?now) (db_executions db)) = 1"
    "\<not> list_ex (attemptsConflict attempt) (supersededRows executionId (xa_ownerId predecessor) (tc_lease command) ?now (db_executions db))"
    "db_executions db' = supersededRows executionId (xa_ownerId predecessor) (tc_lease command) ?now (db_executions db) @ [attempt]"
    by (rule takesOver_data [OF assms(3,2)])
  let ?P = "supersedable (xa_ownerId predecessor) (tc_lease command) ?now"
  let ?A = "\<lambda>i a. xa_taskId a = i \<and> xa_status a = ActiveAttempt"
  have P: "?P row \<longleftrightarrow> row = predecessor" if "row \<in> set (db_executions db)" for row
    by (rule supersedable_predecessor [OF assms(1) c(1,2,10) that])
  have fields: "xa_executionId attempt = executionId" "xa_taskId attempt = tc_taskId command" "xa_status attempt = ActiveAttempt"
    "xa_fencingToken attempt = es_currentFencingToken advanced" by (simp_all add: c(8))
  have d: "distinct (map es_taskId (db_sequences db))" using assms(1) by (simp add: lineage_def)
  have advanced: "advanced = advancedSequence sequence" using find_advanced [OF d c(5)] c(6,9) by simp
  have held: "sequenceHolds db s sequence" using assms(1) c(5) by (simp add: lineage_def)
  then have "es_currentFencingToken sequence = es_lastAttemptNumber sequence" by (simp add: sequenceHolds_def)
  moreover have "xa_fencingToken predecessor = xa_attemptNumber predecessor" by (rule attempt_place [OF assms(1) c(1)]) simp
  ultimately have token: "xa_fencingToken attempt = xa_fencingToken predecessor + 1" by (simp add: fields advanced c(7))
  have fresh: "executionId \<noteq> xa_executionId predecessor" using conflict_id [OF c(11)] c(1) by (auto simp: fields)
  have "?P predecessor" using P [OF c(1)] by blast
  then have expired: "xa_leaseExpiresAt predecessor \<le> ?now" unfolding supersedable_def by blast
  have here: "find (?A (tc_taskId command)) (db_executions db) = Some predecessor"
  proof (rule find_unique [OF c(1)])
    show "b = predecessor" if "b \<in> set (db_executions db)" "?A (tc_taskId command) b" for b
      using active_unique(2) [OF assms(1) c(1) that(1)] that(2) c(3,4) by simp
  qed (simp add: c(3,4))
  show ?thesis
  proof (cases "i = tc_taskId command")
    case True
    have "find (?A i) (supersededRows executionId (xa_ownerId predecessor) (tc_lease command) ?now (db_executions db)) = None"
      unfolding supersededRows_def
    proof (rule find_map_none)
      fix a
      assume a: "a \<in> set (db_executions db)"
      show "\<not> ?A i (if ?P a then supersededAttempt executionId ?now a else a)"
      proof (cases "a = predecessor")
        case True
        then have "?P a" using P [OF a] by blast
        then show ?thesis by (simp add: supersededAttempt_def)
      next
        case False
        then have "\<not> ?P a" "\<not> ?A i a" using P [OF a] active_unique(2) [OF assms(1) c(1) a _ c(4)] c(3) \<open>i = _\<close> by auto
        then show ?thesis by simp
      qed
    qed
    then have "leaseOf db' i = Some \<lparr>ls_executionId = executionId, ls_ownerId = xa_ownerId attempt,
        ls_fencingToken = xa_fencingToken attempt, ls_expiresAt = xa_leaseExpiresAt attempt\<rparr>"
      using True by (simp add: leaseOf_def c(12) find_snoc fields)
    then show ?thesis using here True expired fresh token by (auto simp: leaseOf_def intro!: lease_taken)
  next
    case False
    have "find (?A i) (supersededRows executionId (xa_ownerId predecessor) (tc_lease command) ?now (db_executions db)) = find (?A i) (db_executions db)"
      unfolding supersededRows_def by (rule find_map_same) (use P c(3) False in auto)
    then show ?thesis using False by (simp add: leaseOf_def c(12) find_snoc fields split: option.split)
  qed
qed

theorem system_step_lease:
  assumes "system_step db sv db'" "lineage db s" "stored (sv_nfc sv) db s"
  shows "leaseOf db' i = leaseOf db i \<or> lease_step (leaseOf db i) (leaseOf db' i)"
  using assms
proof (induction rule: system_step.induct)
  case (via_application db sv db')
  then show ?case using transacts_executions leaseOf_same by blast
next
  case (via_claim v command ig ctx identity executionId sv db attempt db')
  show ?case by (rule claims_lease [OF via_claim(5,6,4)])
next
  case (via_inspection sv inspection identity db r db')
  obtain attempt project where "db_executions db' = db_executions db" by (rule inspects_data [OF via_inspection(1)])
  then show ?case using leaseOf_same by blast
next
  case (via_renewal v renewal sv ctx identity db r db')
  show ?case by (rule renewsLease_lease [OF via_renewal(3,2)])
next
  case (via_takeover v replacement ig ctx identity executionId sv db attempt db')
  show ?case by (rule takesOver_lease [OF via_takeover(5,6,4)])
qed

interpretation leases: simulation "unused nfc" "services nfc" "sound nfc" "\<lambda>db. leaseOf db i" lease_step for nfc i
proof unfold_locales
  show "leaseOf db' i = leaseOf db i \<or> lease_step (leaseOf db i) (leaseOf db' i)" if "sound nfc db" "services nfc db sv db'" for db sv db'
    using that system_step_lease [of db sv db'] by (auto simp: sound_def)
qed

section \<open>What becomes of an attempt\<close>

text \<open>An attempt is never removed, and changes only while it is active; its holder and its token never change.\<close>

definition attemptKept :: "execution_attempt \<Rightarrow> execution_attempt \<Rightarrow> bool" where
  "attemptKept a a' \<longleftrightarrow>
     a' = a\<lparr>xa_status := xa_status a', xa_supersededByExecutionId := xa_supersededByExecutionId a', xa_leaseRevision := xa_leaseRevision a',
       xa_leaseExpiresAt := xa_leaseExpiresAt a', xa_revision := xa_revision a', xa_updatedAt := xa_updatedAt a'\<rparr> \<and>
     xa_revision a \<le> xa_revision a' \<and> (xa_revision a' = xa_revision a \<or> xa_status a = SupersededAttempt \<longrightarrow> a' = a)"

lemma attemptKept_refl [simp]: "attemptKept a a"
  by (simp add: attemptKept_def)

lemma attemptKept_trans: "attemptKept a b \<Longrightarrow> attemptKept b c \<Longrightarrow> attemptKept a c"
  by (cases a; cases b; cases c) (auto simp: attemptKept_def)

lemma attemptKept_fields:
  assumes "attemptKept a a'"
  shows "xa_executionId a' = xa_executionId a" "xa_taskId a' = xa_taskId a" "xa_operationKind a' = xa_operationKind a"
    "xa_idempotencyKey a' = xa_idempotencyKey a" "xa_ownerId a' = xa_ownerId a" "xa_fencingToken a' = xa_fencingToken a"
    "xa_requestedLeaseSeconds a' = xa_requestedLeaseSeconds a" "xa_expectedTaskRevision a' = xa_expectedTaskRevision a"
    "xa_postTaskRevision a' = xa_postTaskRevision a" "xa_requestId a' = xa_requestId a"
    "xa_projectResourceRevision a' = xa_projectResourceRevision a" "xa_projectConfigRevision a' = xa_projectConfigRevision a"
    "xa_supersedesExecutionId a' = xa_supersedesExecutionId a" "xa_predecessorExecutionRevision a' = xa_predecessorExecutionRevision a"
    "xa_predecessorLeaseRevision a' = xa_predecessorLeaseRevision a" "xa_predecessorFencingToken a' = xa_predecessorFencingToken a"
  using assms by (cases a; cases a'; auto simp: attemptKept_def)+

lemma renewed_kept: "xa_status a = ActiveAttempt \<Longrightarrow> attemptKept a (renewedAttempt now e a)"
  by (simp add: attemptKept_def renewedAttempt_def)

lemma superseded_kept: "xa_status a = ActiveAttempt \<Longrightarrow> attemptKept a (supersededAttempt i now a)"
  by (simp add: attemptKept_def supersededAttempt_def)

lemma transacts_grow: "transacts db sv db' \<Longrightarrow> grows attemptKept (db_executions db) (db_executions db')"
  using transacts_executions [of db sv db'] by (simp add: grows_refl)

lemma claims_grow: "claims sv command ctx identity executionId db attempt db' \<Longrightarrow> grows attemptKept (db_executions db) (db_executions db')"
  unfolding claims_def by (elim exE conjE) (simp add: grows_append)

lemma inspects_grow: "inspects sv inspection identity db r db' \<Longrightarrow> grows attemptKept (db_executions db) (db_executions db')"
  by (erule inspects_data) (simp add: grows_refl)

lemma grows_map_append: "(\<And>r. R r (f r)) \<Longrightarrow> grows R rows (map f rows @ new)"
  unfolding grows_def by (intro exI [of _ "map f rows"] exI [of _ new]) (simp add: list_all2_map2 list_all2_refl)

lemma renewsLease_grow:
  assumes "renewsLease sv renewal ctx identity db r db'"
  shows "grows attemptKept (db_executions db) (db_executions db')"
proof -
  obtain attempt project expiry where
    "db_executions db' = renewedRows (tx_ownerId ctx) (rc_lease renewal) (oi_now identity) expiry (db_executions db)"
    by (rule renewsLease_data [OF assms])
  then show ?thesis by (simp add: grows_map renewable_def leaseMatches_def renewed_kept)
qed

lemma takesOver_rows:
  "takesOver sv replacement ctx identity executionId db attempt db' \<Longrightarrow>
     \<exists>owner. db_executions db' = supersededRows executionId owner (tc_lease replacement) (oi_now identity) (db_executions db) @ [attempt]"
  unfolding takesOver_def by (elim exE conjE, rule exI) (simp add: withRecords_def)

lemma takesOver_grow:
  assumes "takesOver sv replacement ctx identity executionId db attempt db'"
  shows "grows attemptKept (db_executions db) (db_executions db')"
  using takesOver_rows [OF assms]
  by (auto simp: supersededRows_def supersedable_def leaseMatches_def superseded_kept intro!: grows_map_append)

theorem system_step_attempts: "system_step db sv db' \<Longrightarrow> grows attemptKept (db_executions db) (db_executions db')"
  by (induction rule: system_step.induct) (blast intro: transacts_grow claims_grow inspects_grow renewsLease_grow takesOver_grow)+

theorem history_attempts: "run system_step db svs db' \<Longrightarrow> grows attemptKept (db_executions db) (db_executions db')"
proof (induction rule: run.induct)
  case (run_Cons db sv db1 svs db')
  show ?case by (rule grows_trans [OF attemptKept_trans system_step_attempts [OF run_Cons(1)] run_Cons.IH])
qed (simp add: grows_refl)

section \<open>Fencing\<close>

text \<open>Only the current holder renews, before the lease expires, and only an expired lease is taken over.\<close>

lemma renewsLease_holder:
  assumes "renewsLease sv command ctx identity db r db'"
  shows "\<exists>a\<in>set (db_executions db). xa_executionId a = le_executionId (rc_lease command) \<and> xa_status a = ActiveAttempt \<and>
    xa_ownerId a = tx_ownerId ctx \<and> xa_fencingToken a = le_fencingToken (rc_lease command) \<and> oi_now identity < xa_leaseExpiresAt a"
proof -
  obtain state attempt task where c: "readState sv db = Inr state"
    "attemptById state (le_executionId (rc_lease command)) = Some attempt" "leaseCurrent (rc_lease command) attempt task"
    "leaseHeld ctx (oi_now identity) attempt"
    using assms unfolding renewsLease_def by (elim exE conjE) (rule that)
  have "attempt \<in> set (db_executions db)" "xa_executionId attempt = le_executionId (rc_lease command)"
    using attemptById_D [OF c(2)] readState_tables(1) [OF c(1)] by simp_all
  then show ?thesis using c(3,4) by (intro bexI [of _ attempt]) (auto simp: leaseCurrent_def leaseHeld_def not_le)
qed

lemma takesOver_holder:
  assumes "takesOver sv command ctx identity executionId db attempt db'"
  shows "\<exists>a\<in>set (db_executions db). xa_executionId a = le_executionId (tc_lease command) \<and> xa_status a = ActiveAttempt \<and>
    xa_taskId a = tc_taskId command \<and> xa_fencingToken a = le_fencingToken (tc_lease command) \<and> xa_leaseExpiresAt a \<le> oi_now identity"
proof -
  obtain state predecessor project task sequence where c: "readState sv db = Inr state"
    "mayTakeOver command (oi_now identity) state predecessor project task sequence"
    using assms unfolding takesOver_def by (elim exE conjE) (rule that)
  have "predecessor \<in> set (db_executions db)" "xa_executionId predecessor = le_executionId (tc_lease command)"
    using c(2) readState_tables(1) [OF c(1)] by (auto simp: mayTakeOver_def dest: attemptById_D)
  then show ?thesis using c(2) by (intro bexI [of _ predecessor]) (simp_all add: mayTakeOver_def leaseCurrent_def)
qed

theorem superseded_fenced:
  assumes "run (services nfc) db svs db'" "sound nfc db" "a \<in> set (db_executions db)" "xa_status a = SupersededAttempt"
  shows "a \<in> set (db_executions db')"
    "le_executionId (rc_lease renewal) = xa_executionId a \<Longrightarrow> \<not> renewsLease sv renewal ctx identity db' r db''"
    "le_executionId (tc_lease replacement) = xa_executionId a \<Longrightarrow> \<not> takesOver sv replacement ctx identity executionId db' attempt db''"
proof -
  have "run system_step db svs db'" using assms(1) by (induction rule: run.induct) (auto intro: run.intros)
  from grows_member [OF history_attempts [OF this] assms(3)] obtain a' where "a' \<in> set (db_executions db')" "attemptKept a a'" by blast
  then show a': "a \<in> set (db_executions db')" using assms(4) by (simp add: attemptKept_def)
  obtain s where l: "lineage db' s" using executions.run_inv [OF assms(1,2)] by (auto simp: sound_def)
  have inactive: "xa_status b \<noteq> ActiveAttempt" if "b \<in> set (db_executions db')" "xa_executionId b = xa_executionId a" for b
    using same_execution [OF l that(1) a' that(2)] assms(4) by simp
  show "\<not> renewsLease sv renewal ctx identity db' r db''" if "le_executionId (rc_lease renewal) = xa_executionId a"
    using renewsLease_holder [of sv renewal ctx identity db' r db''] inactive that by metis
  show "\<not> takesOver sv replacement ctx identity executionId db' attempt db''" if "le_executionId (tc_lease replacement) = xa_executionId a"
    using takesOver_holder [of sv replacement ctx identity executionId db' attempt db''] inactive that by metis
qed

section \<open>Repeated claims\<close>

lemma same_key:
  "lineage db s \<Longrightarrow> a \<in> set (db_executions db) \<Longrightarrow> b \<in> set (db_executions db) \<Longrightarrow>
     xa_idempotencyKey a = xa_idempotencyKey b \<Longrightarrow> a = b"
  by (auto simp: lineage_def distinct_map dest: inj_onD)

lemma same_request:
  "consistent db \<Longrightarrow> a \<in> set (db_requests db) \<Longrightarrow> b \<in> set (db_requests db) \<Longrightarrow> rr_requestId a = rr_requestId b \<Longrightarrow> a = b"
  by (auto simp: consistent_def ledger_def distinct_map dest: inj_onD)

lemma lookahead_returns:
  "sv_open sv e = None \<Longrightarrow> readState sv db = Inr state \<Longrightarrow> caught identity (readApplicationStateForOwner sv) (db, e) = (Returns state, (db, e))"
  by (simp add: caught_def readApplicationStateForOwner_def readTx_def ofThrown_def ret_def)

lemma replayed_returns:
  assumes "same" "find (\<lambda>candidate. rr_requestId candidate = xa_requestId attempt) (st_requests state) = Some request"
    "rr_actorId request = ta_actorId (tx_actor context)"
  shows "replayed state attempt same context identity = ret (executionSucceeded (view attempt (tx_now context)) (rr_requestId request) (rr_correlationId request))"
  using assms by (simp add: replayed_def replay_def)

lemma run_services: "run (services nfc) db svs db' \<Longrightarrow> run system_step db svs db'"
  by (induction rule: run.induct) (auto intro: run.intros)

lemma services_simulates:
  assumes "run (services nfc) db svs db'" "stored nfc db s"
  shows "\<exists>as s'. run (domain_step nfc) s as s' \<and> stored nfc db' s'"
  using assms
proof (induction arbitrary: s rule: run.induct)
  case (run_Cons db sv db1 svs db')
  obtain as s1 where 1: "run (domain_step nfc) s as s1" "stored nfc db1 s1"
    using system_step_simulates [of db sv db1 s] run_Cons.hyps(1) run_Cons.prems by blast
  obtain bs s' where 2: "run (domain_step nfc) s1 bs s'" "stored nfc db' s'" using run_Cons.IH [OF 1(2)] by blast
  have "run (domain_step nfc) s (as @ bs) s'" unfolding run_append using 1(1) 2(1) by blast
  then show ?case using 2(2) by blast
qed (rule run_here)

lemma claims_project:
  assumes "claims sv command ctx identity executionId db attempt db'" "stored (sv_nfc sv) db s"
  shows "\<exists>project task expiry. attempt = claimedAttempt command ctx identity executionId project expiry \<and>
    rp_resourceRevision project = pe_resourceRevision (cl_project command) \<and> rp_configRevision project = pe_configRevision (cl_project command) \<and>
    taskById s (cl_taskId command) = Some task \<and> t_projectId task = pe_projectId (cl_project command)"
proof -
  obtain state project task expiry where c: "readState sv db = Inr state" "mayClaim command state project task"
    "attempt = claimedAttempt command ctx identity executionId project expiry"
    using assms(1) unfolding claims_def by (elim exE conjE) (rule that)
  have "st_domain state = s" using readState_domain(1) [OF c(1)] assms(2) by simp
  then show ?thesis using c(2,3) by (auto simp: mayClaim_def binding_Inr)
qed

lemma operating_actor: "operating ig ctx identity \<Longrightarrow> oi_actor identity = tx_actor ctx"
proof -
  assume "operating ig ctx identity"
  then obtain w w' where "executionOperationIdentity ctx ig w = (Some identity, w')" unfolding operating_def by blast
  then show ?thesis by (auto simp: executionOperationIdentity_def ask_def split: prod.splits option.splits if_splits)
qed

text \<open>A claim that was carried out, repeated by the same actor and owner at any later time, has the same answer and changes nothing.\<close>

theorem claim_idempotent:
  fixes ig0 ig :: "'e execution_ingress" and sv0 sv :: "'e service" and svs :: "'e service list"
  assumes parsed: "parseClaim v = Some command" "issues ig0 executionId"
    and first: "operating ig0 ctx0 identity" "claims sv0 command ctx0 identity executionId db0 attempt db1" "sv_nfc sv0 = sv_nfc sv"
    and later: "sound (sv_nfc sv) db0" "run (services (sv_nfc sv)) db1 svs db" "sv_open sv e' = None" "readState sv db = Inr state"
    and caller: "trustedContext ig e = (Some ctx, e')" "tx_ownerId ctx = tx_ownerId ctx0"
      "ta_actorId (tx_actor ctx) = ta_actorId (tx_actor ctx0)"
  shows "\<exists>a\<in>set (db_executions db). xa_executionId a = executionId \<and> attemptKept attempt a \<and>
    claim sv ig v (db, e) = (Returns (executionSucceeded (view a (tx_now ctx)) (oi_requestId identity) (oi_correlationId identity)), (db, e'))"
proof -
  obtain s0 where s0: "stored (sv_nfc sv) db0 s0" "lineage db0 s0" using later(1) by (auto simp: sound_def)
  then have st: "stored (sv_nfc sv0) db0 s0" using first(3) by simp
  obtain project task expiry where c: "attempt = claimedAttempt command ctx0 identity executionId project expiry"
    "rp_resourceRevision project = pe_resourceRevision (cl_project command)" "rp_configRevision project = pe_configRevision (cl_project command)"
    "taskById s0 (cl_taskId command) = Some task" "t_projectId task = pe_projectId (cl_project command)"
    using claims_project [OF first(2) st] by blast
  obtain project' where c': "executes identity ''execution.claim'' (executionTarget executionId 1 project') db0 db1"
    "db_executions db1 = db_executions db0 @ [attempt]" by (rule claims_data [OF first(2) st])
  have step: "system_step db0 sv0 db1" by (rule via_claim [OF parsed(1) first(1) parsed(2) first(2)])
  have run0: "run (services (sv_nfc sv)) db0 (sv0 # svs) db" by (rule run_Cons [OF _ later(2)]) (simp add: first(3) step)
  have sound: "sound (sv_nfc sv) db" by (rule executions.run_inv [OF run0 later(1)])
  obtain as where evolved: "evolves s0 (st_domain state)" and stored: "stored (sv_nfc sv) db (st_domain state)"
    using services_simulates [OF run0 s0(1)] run_evolves readDomain_wf [OF s0(1)] readState_domain(1) [OF later(4)] by fastforce
  have l: "lineage db (st_domain state)" "consistent db" using soundE [OF sound stored] by blast+
  have "attempt \<in> set (db_executions db1)" using c'(2) by simp
  then obtain a where a: "a \<in> set (db_executions db)" "attemptKept attempt a"
    using grows_member [OF history_attempts [OF run_services [OF later(2)]]] by blast
  note same = attemptKept_fields [OF a(2), unfolded c(1), simplified]
  have key: "attemptByKey state (cl_idempotencyKey command) = Some a"
    unfolding attemptByKey_def
  proof (rule find_unique)
    show "b = a" if "b \<in> set (st_executions state)" "xa_idempotencyKey b = cl_idempotencyKey command" for b
      by (rule same_key [OF l(1) _ a(1)]) (use that same(4) readState_tables(1) [OF later(4)] in simp_all)
  qed (use a(1) same(4) readState_tables(1) [OF later(4)] in simp_all)
  let ?r = "requestRecord identity ''execution.claim'' (executionTarget executionId 1 project') RequestAllow"
  have "?r \<in> set (db_requests db1)" using executes_requests [OF c'(1) issues_wellFormed [OF parsed(2)]] by simp
  moreover have "consistent db1" using system_step_consistent [OF _ step] later(1) by (simp add: sound_def)
  ultimately have r: "?r \<in> set (db_requests db)" using succeeds_sets(1) [OF system_succeeds [OF run_services [OF later(2)]]] by blast
  have request: "find (\<lambda>candidate. rr_requestId candidate = xa_requestId a) (st_requests state) = Some ?r"
  proof (rule find_unique)
    show "b = ?r" if "b \<in> set (st_requests state)" "rr_requestId b = xa_requestId a" for b
      by (rule same_request [OF l(2) _ r]) (use that same(10) readState_tables(3) [OF later(4)] in \<open>simp_all add: requestRecord_def claimedAttempt_def\<close>)
  qed (use r same(10) readState_tables(3) [OF later(4)] in \<open>simp_all add: requestRecord_def claimedAttempt_def\<close>)
  have tuple: "claimTupleMatches state a command (tx_ownerId ctx)"
    using evolvesD [OF evolved c(4)] c(2,3,5) same caller(2)
    by (auto simp: claimTupleMatches_def executionProjectMatches_def claimedAttempt_def)
  have actor: "rr_actorId ?r = ta_actorId (tx_actor ctx)" using caller(3) operating_actor [OF first(1)] by (simp add: requestRecord_def)
  have "claim sv ig v (db, e) = replayed state a True ctx None (db, e')"
    using parsed(1) caller(1) lookahead_returns [OF later(3,4)] key tuple by (simp add: claim_def pbind_def inEnv_def)
  also have "\<dots> = (Returns (executionSucceeded (view a (tx_now ctx)) (oi_requestId identity) (oi_correlationId identity)), (db, e'))"
    unfolding replayed_returns [OF TrueI request actor] by (simp add: ret_def requestRecord_def)
  finally show ?thesis using a same(1) by blast
qed

section \<open>A lease that nobody can move\<close>

text \<open>
  Renewal and takeover select the row whose post-claim Task revision is the current one. After
  any other change of the running Task (its body, say) neither finds the row: its attempt stays
  active, whatever the services do.
\<close>

definition stranded :: "execution_attempt \<Rightarrow> snapshot \<Rightarrow> database \<Rightarrow> bool" where
  "stranded a s db \<longleftrightarrow> a \<in> set (db_executions db) \<and> xa_status a = ActiveAttempt \<and>
     (\<exists>t. taskById s (xa_taskId a) = Some t \<and> xa_postTaskRevision a < t_revision t)"

lemma stranded_step:
  assumes "stranded a s db" "a \<in> set (db_executions db')" "evolves s s'"
  shows "stranded a s' db'"
  using assms unfolding stranded_def by (meson evolvesD order_less_le_trans)

lemma renewsLease_other:
  assumes "lineage db s" "stored (sv_nfc sv) db s" "renewsLease sv command ctx identity db r db'" "stranded a s db"
  shows "a \<in> set (db_executions db')"
proof -
  obtain attempt project expiry where rows:
    "db_executions db' = renewedRows (tx_ownerId ctx) (rc_lease command) (oi_now identity) expiry (db_executions db)"
    by (rule renewsLease_data [OF assms(3)])
  obtain state attempt project task where c: "readState sv db = Inr state" "attemptById state (le_executionId (rc_lease command)) = Some attempt"
    "binding state (rc_project command) (xa_taskId attempt) = Inr (project, task)" "leaseCurrent (rc_lease command) attempt task"
    using assms(3) unfolding renewsLease_def by (elim exE conjE) (rule that)
  have s: "st_domain state = s" using readState_domain(1) [OF c(1)] assms(2) by simp
  have found: "attempt \<in> set (db_executions db)" "xa_executionId attempt = le_executionId (rc_lease command)"
    using attemptById_D [OF c(2)] readState_tables(1) [OF c(1)] by simp_all
  have "\<not> renewable (tx_ownerId ctx) (rc_lease command) (oi_now identity) a"
  proof
    assume "renewable (tx_ownerId ctx) (rc_lease command) (oi_now identity) a"
    then have a: "xa_executionId a = xa_executionId attempt" "xa_postTaskRevision a = le_taskRevision (rc_lease command)"
      using found(2) by (simp_all add: renewable_def leaseMatches_def)
    then have "a = attempt" using same_execution [OF assms(1) _ found(1)] assms(4) by (simp add: stranded_def)
    then show False using a(2) c(3,4) assms(4) by (auto simp: stranded_def leaseCurrent_def binding_Inr s)
  qed
  then show ?thesis using assms(4) unfolding rows stranded_def by force
qed

lemma takesOver_other:
  assumes "lineage db s" "stored (sv_nfc sv) db s" "takesOver sv command ctx identity executionId db attempt db'" "stranded a s db"
  shows "a \<in> set (db_executions db')"
proof -
  obtain predecessor project task where c: "predecessor \<in> set (db_executions db)" "xa_executionId predecessor = le_executionId (tc_lease command)"
    "xa_taskId predecessor = tc_taskId command" "leaseCurrent (tc_lease command) predecessor task" "taskById s (tc_taskId command) = Some task"
    "length (filter (supersedable (xa_ownerId predecessor) (tc_lease command) (oi_now identity)) (db_executions db)) = 1"
    "db_executions db' = supersededRows executionId (xa_ownerId predecessor) (tc_lease command) (oi_now identity) (db_executions db) @ [attempt]"
    by (rule takesOver_data [OF assms(3,2)])
  note P = supersedable_predecessor [OF assms(1) c(1,2,6)]
  have "supersedable (xa_ownerId predecessor) (tc_lease command) (oi_now identity) predecessor" using P [OF c(1)] by blast
  then have "xa_postTaskRevision predecessor = t_revision task" using c(4) by (simp add: supersedable_def leaseMatches_def leaseCurrent_def)
  then have "a \<noteq> predecessor" using assms(4) c(3,5) by (auto simp: stranded_def)
  then have "\<not> supersedable (xa_ownerId predecessor) (tc_lease command) (oi_now identity) a" using P assms(4) unfolding stranded_def by blast
  then show ?thesis using assms(4) unfolding c(7) stranded_def supersededRows_def by force
qed

theorem system_step_stranded:
  assumes "system_step db sv db'" "lineage db s" "stored (sv_nfc sv) db s" "stored (sv_nfc sv) db' s'" "stranded a s db"
  shows "stranded a s' db'"
proof -
  obtain as s1 where "run (domain_step (sv_nfc sv)) s as s1" "stored (sv_nfc sv) db' s1"
    using system_step_simulates [OF assms(1,3)] by blast
  then have ev: "evolves s s'" using run_evolves readDomain_wf [OF assms(3)] assms(4) by (metis sum.inject(2))
  have "a \<in> set (db_executions db')"
    using assms(1)
  proof cases
    case via_application
    then show ?thesis using transacts_executions assms(5) unfolding stranded_def by metis
  next
    case via_claim
    then show ?thesis using claims_data [OF via_claim(4) assms(3)] assms(5) unfolding stranded_def by (metis UnI1 set_append)
  next
    case via_inspection
    then show ?thesis using inspects_data assms(5) unfolding stranded_def by metis
  next
    case via_renewal
    show ?thesis by (rule renewsLease_other [OF assms(2,3) via_renewal(2) assms(5)])
  next
    case via_takeover
    show ?thesis by (rule takesOver_other [OF assms(2,3) via_takeover(4) assms(5)])
  qed
  then show ?thesis by (rule stranded_step [OF assms(5) _ ev])
qed

theorem history_stranded:
  assumes "run (services nfc) db svs db'" "sound nfc db" "stored nfc db s" "stranded a s db"
  shows "\<exists>s'. stored nfc db' s' \<and> stranded a s' db'"
  using assms
proof (induction arbitrary: s rule: run.induct)
  case (run_Cons db sv db1 svs db')
  have step: "system_step db sv db1" "sv_nfc sv = nfc" using run_Cons.hyps(1) by blast+
  have s1: "sound nfc db1" by (rule executions.inv_step [OF run_Cons.prems(1)]) (use step in blast)
  then obtain s1 where st: "stored nfc db1 s1" unfolding sound_def by blast
  have "stranded a s1 db1"
    by (rule system_step_stranded [OF step(1) soundE(2) [OF run_Cons.prems(1,2)]]) (use run_Cons.prems st step(2) in simp_all)
  then show ?case by (rule run_Cons.IH [OF s1 st])
qed blast

end
