(* ===== verification/Execution_Example.thy ===== *)
theory Execution_Example
  imports Execution_Fencing Application_Example Repository_Properties
begin

text \<open>
  A concrete history of the execution service: on tables with a ready Task, a worker claims the
  Task for a minute, and a day later, the lease having expired, another operation takes it over.
  Every fact that the properties of the service assume is established on it.
\<close>

section \<open>The tables, the ingress and the commands\<close>

definition execProject :: registered_project where
  "execProject = \<lparr>ri_canonicalRoot = lit ''/work'', ri_rootKey = lit ''/work'', ri_platform = lit ''linux'', ri_device = lit ''1'',
     ri_inode = lit ''5'', ri_mode = 448, rp_projectId = lit ''p'', rp_configRevision = 1, rp_resourceRevision = 1,
     rp_createdAt = lit ''2026-01-01T00:00:00.000Z'', rp_updatedAt = lit ''2026-01-01T00:00:00.000Z''\<rparr>"

definition execTables :: database where
  "execTables = demoTables\<lparr>db_domain := tablesOf demo, db_projects := [execProject],
     db_grants := [capabilityGrant demoIdentity (lit ''2026-01-20T00:00:00.000Z'') None ''execution.claim'' (lit ''g''),
       capabilityGrant demoIdentity (lit ''2026-01-20T00:00:00.000Z'') None ''execution.lease.takeover'' (lit ''h'')]\<rparr>"

definition laterIdentity :: operation_identity where
  "laterIdentity = \<lparr>oi_actor = \<lparr>ta_actorId = lit ''admin'', ta_principal = replicate 64 65\<rparr>,
     oi_now = lit ''2026-01-02T00:00:00.000Z'', oi_requestId = lit ''r2'', oi_correlationId = lit ''c2'',
     oi_decisionId = lit ''d2'', oi_auditId = lit ''u2''\<rparr>"

text \<open>An ingress that gives an operation this identity and a new execution this identifier.\<close>

definition execIngress :: "operation_identity \<Rightarrow> string \<Rightarrow> nat execution_ingress" where
  "execIngress identity executionId = \<lparr>
     xg_currentActor = (\<lambda>e. (Some (jsObj [(''actorId'', JStr (lit ''admin'')), (''principal'', JStr (replicate 64 65))]), e)),
     xg_currentLeaseOwner = (\<lambda>e. (Some (JStr (lit ''worker'')), e)),
     xg_now = (\<lambda>e. (Some (JStr (oi_now identity)), e)),
     xg_nextId = (\<lambda>kind e. (Some (JStr (if kind = ''request'' then oi_requestId identity
       else if kind = ''correlation'' then oi_correlationId identity else if kind = ''decision'' then oi_decisionId identity
       else if kind = ''audit'' then oi_auditId identity else lit executionId)), e))\<rparr>"

definition execContext :: "operation_identity \<Rightarrow> trusted_context" where
  "execContext identity = \<lparr>tx_actor = oi_actor identity, tx_ownerId = lit ''worker'', tx_now = oi_now identity\<rparr>"

definition execClaim :: jsval where
  "execClaim = jsObj [(''kind'', JStr (lit ''execution.claim'')), (''projectId'', JStr (lit ''p'')),
     (''expectedProjectResourceRevision'', jsInt 1), (''expectedProjectConfigRevision'', jsInt 1),
     (''taskId'', JStr (lit ''b'')), (''expectedTaskRevision'', jsInt 2), (''idempotencyKey'', JStr (lit ''k'')),
     (''leaseDurationSeconds'', jsInt 60)]"

definition execExpectation :: project_expectation where
  "execExpectation = \<lparr>pe_projectId = lit ''p'', pe_resourceRevision = 1, pe_configRevision = 1\<rparr>"

definition execClaimCommand :: claim_command where
  "execClaimCommand = \<lparr>cl_project = execExpectation, cl_taskId = lit ''b'', cl_expectedTaskRevision = 2,
     cl_idempotencyKey = lit ''k'', cl_leaseDurationSeconds = 60\<rparr>"

definition execTakeover :: jsval where
  "execTakeover = jsObj [(''kind'', JStr (lit ''execution.lease.takeover'')), (''projectId'', JStr (lit ''p'')),
     (''expectedProjectResourceRevision'', jsInt 1), (''expectedProjectConfigRevision'', jsInt 1),
     (''taskId'', JStr (lit ''b'')), (''expectedTaskRevision'', jsInt 3), (''predecessorExecutionId'', JStr (lit ''x'')),
     (''expectedExecutionRevision'', jsInt 1), (''expectedLeaseRevision'', jsInt 1), (''expectedFencingToken'', jsInt 1),
     (''idempotencyKey'', JStr (lit ''l'')), (''leaseDurationSeconds'', jsInt 60)]"

definition execLease :: lease_expectation where
  "execLease = \<lparr>le_executionId = lit ''x'', le_executionRevision = 1, le_leaseRevision = 1, le_fencingToken = 1, le_taskRevision = 3\<rparr>"

definition execTakeoverCommand :: takeover_command where
  "execTakeoverCommand = \<lparr>tc_project = execExpectation, tc_taskId = lit ''b'', tc_lease = execLease,
     tc_idempotencyKey = lit ''l'', tc_leaseDurationSeconds = 60\<rparr>"

lemma exec_parsed: "parseClaim execClaim = Some execClaimCommand" "parseTakeover execTakeover = Some execTakeoverCommand"
  by code_simp+

lemma exec_context:
  "trustedContext (execIngress demoIdentity i) e = (Some (execContext demoIdentity), e)"
  "trustedContext (execIngress laterIdentity i) e = (Some (execContext laterIdentity), e)"
proof -
  have "timestamp (JStr (lit ''2026-01-01T00:00:00.000Z''))" "timestamp (JStr (lit ''2026-01-02T00:00:00.000Z''))"
    "parseExecutionActor (jsObj [(''actorId'', JStr (lit ''admin'')), (''principal'', JStr (replicate 64 65))]) =
       Some \<lparr>ta_actorId = lit ''admin'', ta_principal = replicate 64 65\<rparr>"
    "operationalIdentifier (JStr (lit ''worker''))"
    by code_simp+
  then show "trustedContext (execIngress demoIdentity i) e = (Some (execContext demoIdentity), e)"
    "trustedContext (execIngress laterIdentity i) e = (Some (execContext laterIdentity), e)"
    by (simp_all add: trustedContext_def execIngress_def ask_def execContext_def demoIdentity_def laterIdentity_def)
qed

lemma exec_identity:
  "executionOperationIdentity (execContext demoIdentity) (execIngress demoIdentity i) e = (Some demoIdentity, e)"
  "executionOperationIdentity (execContext laterIdentity) (execIngress laterIdentity i) e = (Some laterIdentity, e)"
proof -
  have "list_all operationalIdentifier (map (\<lambda>i. JStr (lit i)) [''r'', ''c'', ''d'', ''u'', ''r2'', ''c2'', ''d2'', ''u2''])"
    by code_simp
  then show "executionOperationIdentity (execContext demoIdentity) (execIngress demoIdentity i) e = (Some demoIdentity, e)"
    "executionOperationIdentity (execContext laterIdentity) (execIngress laterIdentity i) e = (Some laterIdentity, e)"
    by (simp_all add: executionOperationIdentity_def execIngress_def ask_def execContext_def demoIdentity_def laterIdentity_def)
qed

lemma exec_operating:
  "operating (execIngress demoIdentity i) (execContext demoIdentity) demoIdentity"
  "operating (execIngress laterIdentity i) (execContext laterIdentity) laterIdentity"
  using operatingI [OF exec_context(1) exec_identity(1)] operatingI [OF exec_context(2) exec_identity(2)] by blast+

lemma exec_issues: "issues (execIngress identity ''x'') (lit ''x'')" "issues (execIngress identity ''y'') (lit ''y'')"
proof -
  have "operationalIdentifier (JStr (lit ''x''))" "operationalIdentifier (JStr (lit ''y''))" by code_simp+
  then show "issues (execIngress identity ''x'') (lit ''x'')" "issues (execIngress identity ''y'') (lit ''y'')"
    by (auto intro!: issuesI [of _ 0] simp: nextExecutionId_def execIngress_def ask_def)
qed

section \<open>The claim\<close>

definition demoClaimed :: snapshot where
  "demoClaimed = demo\<lparr>s_tasks := [demoDone, demoRunning]\<rparr>"

lemmas demoClaimed_defs = demoClaimed_def demoRunning_def demo_defs

lemma demoClaimed_ok: "wf_snapshot (\<lambda>s. s) demoClaimed" "storable demoClaimed" "changedTaskIds demo demoClaimed = Inr [lit ''b'']"
proof -
  have "parentRel (s_tasks demoClaimed) = {}" by (auto simp: parentRel_def demoClaimed_defs)
  moreover have "depRel (s_tasks demoClaimed) \<subseteq> {(lit ''b'', lit ''a'')}" by (auto simp: depRel_def demoClaimed_defs)
  then have "acyclic (depRel (s_tasks demoClaimed))" by (rule acyclic_mono [rotated]) (simp add: acyclic_insert_iff)
  ultimately show "wf_snapshot (\<lambda>s. s) demoClaimed"
    unfolding wf_snapshot_in_def
    by (simp add: demoClaimed_defs wf_task_def wf_references_def facts_of_state_def wf_revision_def MAX_SAFE_INTEGER_def
        wf_project_def wf_completion_def)
  show "storable demoClaimed" by (simp add: storable_def storableTask_def storableId_def demoClaimed_defs, code_simp)
  show "changedTaskIds demo demoClaimed = Inr [lit ''b'']" by code_simp
qed

lemma demoClaimed_task: "taskById demoClaimed (lit ''b'') = Some demoRunning"
  by (simp add: taskById_def demoClaimed_defs)

lemma exec_write:
  "\<exists>tb. writeDomainMutationUntransactional (\<lambda>s. s) (tablesOf demo) demo
      \<lparr>m_snapshot = demoClaimed, m_changedTaskIds = [lit ''b'']\<rparr> = Inr tb \<and> represents tb demoClaimed"
  using write_commits [OF demo_represents _ demo_wf demo_storable demoClaimed_ok(1,2) _ demoClaimed_ok(3)]
  by (simp add: tablesOf_def demoClaimed_def) blast

lemma execTables_stored: "stored (\<lambda>s. s) execTables demo"
  by (simp add: execTables_def read_represents [OF demo_represents demo_wf demo_storable])

lemma demoService_reads: "stored (\<lambda>s. s) db s \<Longrightarrow> readState demoService db = Inr (stateOf s db)"
  by (simp add: readState_def) (simp add: demoService_def)

lemma exec_expiry:
  "shiftTimestamp (oi_now demoIdentity) (60 * 1000) = Some (lit ''2026-01-01T00:01:00.000Z'')"
  "shiftTimestamp (oi_now laterIdentity) (60 * 1000) = Some (lit ''2026-01-02T00:01:00.000Z'')"
  by code_simp+

lemma exec_times:
  "oi_now demoIdentity < oi_now laterIdentity" "lit ''2026-01-01T00:01:00.000Z'' \<le> oi_now laterIdentity"
  "oi_now laterIdentity < lit ''2026-01-20T00:00:00.000Z''"
  by code_simp+

definition execAttempt :: execution_attempt where
  "execAttempt = claimedAttempt execClaimCommand (execContext demoIdentity) demoIdentity (lit ''x'') execProject
     (lit ''2026-01-01T00:01:00.000Z'')"

definition allowedEvaluation :: authorization_evaluation where
  "allowedEvaluation = (staleEvaluation PolicyAllow)\<lparr>ae_allowed := True\<rparr>"

text \<open>The tables after the claim, with the rows of the Domain as the repository writes them.\<close>

definition claimedTables :: "domain_tables \<Rightarrow> database" where
  "claimedTables tb = (executionRecords demoIdentity ''execution.claim'' (executionTarget (lit ''x'') 1 execProject) allowedEvaluation execTables)
     \<lparr>db_sequences := [firstSequence (lit ''b'')], db_executions := [execAttempt], db_domain := tb\<rparr>"

lemma execGrants: "db_grants (claimedTables tb) = db_grants execTables"
  by (simp add: claimedTables_def withRecords_def)

lemma exec_granted:
  "executionGranted (stateOf demo execTables) demoIdentity ''execution.claim'' execProject"
  "executionGranted (stateOf demoClaimed (claimedTables tb)) laterIdentity ''execution.lease.takeover'' execProject"
proof -
  let ?grant = "\<lambda>action i. gr_grant (capabilityGrant demoIdentity (lit ''2026-01-20T00:00:00.000Z'') None action (lit i))"
  have grants: "?grant ''execution.claim'' ''g'' \<in> set (st_grants (stateOf s execTables))"
    "?grant ''execution.lease.takeover'' ''h'' \<in> set (st_grants (stateOf s execTables))" for s
    by (simp_all add: stateOf_def execTables_def)
  have same: "st_grants (stateOf s (claimedTables tb)) = st_grants (stateOf s execTables)" for s
    by (simp add: stateOf_def execGrants)
  have enabled: "enabledProject (stateOf demo db) (lit ''p'')" "enabledProject (stateOf demoClaimed db) (lit ''p'')" for db
    by (simp_all add: enabledProject_def stateOf_def) (simp add: projectById_def demoClaimed_defs)
  have now: "oi_now demoIdentity < lit ''2026-01-20T00:00:00.000Z''" using exec_times by order
  show "executionGranted (stateOf demo execTables) demoIdentity ''execution.claim'' execProject"
    unfolding executionGranted_def
    by (intro conjI bexI [OF _ grants(1)] disjI2) (use now enabled in \<open>simp_all add: capabilityGrant_def in_force_def runtimeScope_def scopeMatches_def execProject_def\<close>)
  show "executionGranted (stateOf demoClaimed (claimedTables tb)) laterIdentity ''execution.lease.takeover'' execProject"
    unfolding executionGranted_def same
    by (intro conjI bexI [OF _ grants(2)] disjI2) (use exec_times enabled in \<open>simp_all add: capabilityGrant_def in_force_def runtimeScope_def scopeMatches_def execProject_def laterIdentity_def demoIdentity_def\<close>)
qed

lemma exec_binding:
  "binding (stateOf demo execTables) execExpectation (lit ''b'') = Inr (execProject, demoReady)"
  "binding (stateOf demoClaimed (claimedTables tb)) execExpectation (lit ''b'') = Inr (execProject, demoRunning)"
proof -
  have "st_projects (stateOf s execTables) = [execProject]" "st_projects (stateOf s (claimedTables tb)) = [execProject]" for s
    by (simp_all add: stateOf_def claimedTables_def withRecords_def execTables_def)
  moreover have "t_projectId demoReady = lit ''p''" "t_projectId demoRunning = lit ''p''" by (simp_all add: demoRunning_def demoReady_def)
  ultimately show "binding (stateOf demo execTables) execExpectation (lit ''b'') = Inr (execProject, demoReady)"
    "binding (stateOf demoClaimed (claimedTables tb)) execExpectation (lit ''b'') = Inr (execProject, demoRunning)"
    by (simp_all add: binding_def execExpectation_def) (simp_all add: execProject_def stateOf_def demoClaimed_task)
qed

lemma exec_mutation:
  "claimMutation demoService (stateOf demo execTables) demoIdentity demoReady = Inr \<lparr>m_snapshot = demoClaimed, m_changedTaskIds = [lit ''b'']\<rparr>"
proof -
  have "claimTransition demoReady = demoClaim" by (simp add: claimTransition_def demoClaim_def demoReady_def)
  then show ?thesis using demo_claim by (simp add: claimMutation_def stateOf_def demoClaimed_def)
qed

lemma exec_claims:
  "\<exists>tb. claims demoService execClaimCommand (execContext demoIdentity) demoIdentity (lit ''x'') execTables execAttempt (claimedTables tb) \<and>
     represents tb demoClaimed"
proof -
  obtain tb where tb: "writeDomainMutationUntransactional (\<lambda>s. s) (tablesOf demo) demo
      \<lparr>m_snapshot = demoClaimed, m_changedTaskIds = [lit ''b'']\<rparr> = Inr tb" "represents tb demoClaimed"
    using exec_write by blast
  let ?st = "stateOf demo execTables"
  have empty: "st_executions ?st = []" "st_executionSequences ?st = []" "db_executions execTables = []" "db_sequences execTables = []"
    "db_requests execTables = []" "db_audit execTables = []" "db_decisions execTables = []"
    by (simp_all add: stateOf_def execTables_def demoTables_def noTables_def)
  have "mayClaim execClaimCommand ?st execProject demoReady"
    using exec_binding(1) by (simp add: mayClaim_def execClaimCommand_def sequenceOf_def empty)
      (simp add: demoReady_def execExpectation_def enabledProject_def stateOf_def)
  moreover have "attemptByKey ?st (cl_idempotencyKey execClaimCommand) = None" by (simp add: attemptByKey_def empty)
  moreover have "writeDomainMutationUntransactional (sv_nfc demoService) (db_domain execTables) (st_domain ?st)
      \<lparr>m_snapshot = demoClaimed, m_changedTaskIds = [lit ''b'']\<rparr> = Inr tb"
    using tb(1) by (simp add: stateOf_def execTables_def)
  moreover have "ae_allowed allowedEvaluation" by (simp add: allowedEvaluation_def)
  moreover have "freshRecords demoIdentity execTables" by (simp add: freshRecords_def freshRequest_def empty)
  moreover have "shiftTimestamp (oi_now demoIdentity) (cl_leaseDurationSeconds execClaimCommand * 1000) = Some (lit ''2026-01-01T00:01:00.000Z'')"
    using exec_expiry(1) by (simp add: execClaimCommand_def)
  ultimately have "claims demoService execClaimCommand (execContext demoIdentity) demoIdentity (lit ''x'') execTables execAttempt (claimedTables tb)"
    unfolding claims_def
    by (intro exI [of _ ?st] exI [of _ execProject] exI [of _ demoReady]
        exI [of _ "\<lparr>m_snapshot = demoClaimed, m_changedTaskIds = [lit ''b'']\<rparr>"] exI [of _ allowedEvaluation]
        exI [of _ "lit ''2026-01-01T00:01:00.000Z''"] exI [of _ tb] conjI
        demoService_reads execTables_stored exec_mutation exec_granted)
      (simp_all add: empty execAttempt_def claimedTables_def execClaimCommand_def)
  then show ?thesis using tb(2) by blast
qed

lemma execTables_sound: "sound (\<lambda>s. s) execTables"
proof -
  have empty: "db_executions execTables = []" "db_sequences execTables = []" "db_terminals execTables = []" "db_epochs execTables = []"
    "db_requests execTables = []" "db_audit execTables = []" "db_decisions execTables = []" "db_projects execTables = [execProject]"
    by (simp_all add: execTables_def demoTables_def noTables_def)
  have "shiftTimestamp (oi_now demoIdentity) (days 31) = Some (lit ''2026-02-01T00:00:00.000Z'') \<and>
      lit ''2026-01-20T00:00:00.000Z'' \<le> lit ''2026-02-01T00:00:00.000Z''" by code_simp
  then have "rooted (db_grants execTables)" "grantsKeyed (db_grants execTables)"
    by (simp_all add: rooted_def grantsKeyed_def execTables_def capabilityGrant_def capability_def)
  moreover have "consistent execTables \<longleftrightarrow> rooted (db_grants execTables) \<and> grantsKeyed (db_grants execTables)"
    by (auto simp: consistent_def ledger_def projectsKeyed_def epochsNumbered_def empty)
  moreover have "\<not> isRunning demo i" for i
    by (auto simp: isRunning_def taskById_def demo_defs)
  then have "lineage execTables demo" by (simp add: lineage_def empty)
  ultimately show ?thesis using execTables_stored unfolding sound_def by blast
qed

lemma claimedTables_stored: "represents tb demoClaimed \<Longrightarrow> stored (\<lambda>s. s) (claimedTables tb) demoClaimed"
  by (simp add: claimedTables_def read_represents [OF _ demoClaimed_ok(1,2)])

lemma claimed_step: "claims demoService execClaimCommand (execContext demoIdentity) demoIdentity (lit ''x'') execTables execAttempt db \<Longrightarrow>
    services (\<lambda>s. s) execTables demoService db"
  using via_claim [OF exec_parsed(1) exec_operating(1) exec_issues(1)] by simp

section \<open>The takeover\<close>

definition supersededRow :: execution_attempt where
  "supersededRow = supersededAttempt (lit ''y'') (oi_now laterIdentity) execAttempt"

definition laterAttempt :: execution_attempt where
  "laterAttempt = takeoverAttempt execTakeoverCommand (execContext laterIdentity) laterIdentity (lit ''y'') execProject execAttempt
     (advancedSequence (firstSequence (lit ''b''))) (lit ''2026-01-02T00:01:00.000Z'')"

definition takenTables :: "domain_tables \<Rightarrow> database" where
  "takenTables tb = (executionRecords laterIdentity ''execution.lease.takeover'' (executionTarget (lit ''y'') 1 execProject) allowedEvaluation
      (claimedTables tb))
     \<lparr>db_sequences := [advancedSequence (firstSequence (lit ''b''))], db_executions := [supersededRow, laterAttempt]\<rparr>"

lemma execAttempt_fields:
  "xa_executionId execAttempt = lit ''x''" "xa_taskId execAttempt = lit ''b''" "xa_idempotencyKey execAttempt = lit ''k''"
  "xa_status execAttempt = ActiveAttempt" "xa_attemptNumber execAttempt = 1" "xa_fencingToken execAttempt = 1" "xa_revision execAttempt = 1"
  "xa_leaseRevision execAttempt = 1" "xa_postTaskRevision execAttempt = 3" "xa_ownerId execAttempt = lit ''worker''"
  "xa_leaseExpiresAt execAttempt = lit ''2026-01-01T00:01:00.000Z''" "xa_updatedAt execAttempt = oi_now demoIdentity"
  "xa_supersededByExecutionId execAttempt = None" "xa_requestId execAttempt = lit ''r''" "xa_decisionId execAttempt = lit ''d''"
  "xa_createdAt execAttempt = oi_now demoIdentity"
  by (simp_all add: execAttempt_def claimedAttempt_def execClaimCommand_def execContext_def demoIdentity_def)

lemma exec_supersedable: "supersedable (lit ''worker'') execLease (oi_now laterIdentity) execAttempt"
  using exec_times by (simp add: supersedable_def leaseMatches_def execLease_def execAttempt_fields)

lemma exec_takes:
  assumes "represents tb demoClaimed"
  shows "takesOver demoService execTakeoverCommand (execContext laterIdentity) laterIdentity (lit ''y'') (claimedTables tb) laterAttempt
    (takenTables tb)"
proof -
  let ?st = "stateOf demoClaimed (claimedTables tb)" and ?q = "firstSequence (lit ''b'')"
  have tables: "db_executions (claimedTables tb) = [execAttempt]" "db_sequences (claimedTables tb) = [?q]"
    "st_executions ?st = [execAttempt]" "st_executionSequences ?st = [?q]" "st_executionIntents ?st = []" "st_manualTurns ?st = []"
    by (simp_all add: stateOf_def claimedTables_def execTables_def demoTables_def noTables_def withRecords_def)
  have fields: "le_executionId (tc_lease execTakeoverCommand) = lit ''x''" "tc_taskId execTakeoverCommand = lit ''b''"
    "tc_project execTakeoverCommand = execExpectation" "tc_lease execTakeoverCommand = execLease"
    "tc_idempotencyKey execTakeoverCommand = lit ''l''" "tc_leaseDurationSeconds execTakeoverCommand = 60"
    by (simp_all add: execTakeoverCommand_def execLease_def)
  have running: "t_state demoRunning = Running" "t_revision demoRunning = 3" by (simp_all add: demoRunning_def)
  have may: "mayTakeOver execTakeoverCommand (oi_now laterIdentity) ?st execAttempt execProject demoRunning ?q"
    using exec_times exec_binding(2)
    by (simp add: mayTakeOver_def fields attemptById_def tables execAttempt_fields leaseCurrent_def running sequenceStands_def
        sequenceOf_def requiresReliabilityReconciliation_def) (simp add: execLease_def)
  have key: "attemptByKey ?st (tc_idempotencyKey execTakeoverCommand) = None"
    by (simp add: attemptByKey_def tables fields execAttempt_fields)
  have "sequenceMatches (lit ''b'') 1 1 1 ?q" by (simp add: sequenceMatches_def)
  then have advanced: "advancedRows ?q [?q] = [advancedSequence ?q]" by (simp add: advancedRows_def)
  have task: "es_taskId (advancedSequence ?q) = lit ''b''" by (simp add: advancedSequence_def)
  have rows: "supersededRows (lit ''y'') (lit ''worker'') execLease (oi_now laterIdentity) [execAttempt] = [supersededRow]"
    using exec_supersedable by (simp add: supersededRows_def supersededRow_def)
  have conflict: "\<not> attemptsConflict laterAttempt supersededRow"
    by (simp add: attemptsConflict_def laterAttempt_def takeoverAttempt_def supersededRow_def supersededAttempt_def execAttempt_fields
        execTakeoverCommand_def laterIdentity_def advancedSequence_def)
  have fresh: "freshRecords laterIdentity (claimedTables tb)"
    by (simp add: freshRecords_def freshRequest_def claimedTables_def withRecords_def execTables_def demoTables_def noTables_def
        requestRecord_def decisionRecord_def auditRecord_def laterIdentity_def demoIdentity_def)
  have reads: "readState demoService (claimedTables tb) = Inr ?st"
    by (rule demoService_reads [OF claimedTables_stored [OF assms]])
  show ?thesis
    unfolding takesOver_def
    by (intro exI [of _ ?st] exI [of _ execAttempt] exI [of _ execProject] exI [of _ demoRunning] exI [of _ ?q]
        exI [of _ "advancedSequence ?q"] exI [of _ allowedEvaluation] exI [of _ "lit ''2026-01-02T00:01:00.000Z''"] conjI
        reads key may exec_granted fresh)
      (use exec_times exec_supersedable exec_expiry(2) conflict in \<open>simp_all add: allowedEvaluation_def fields tables advanced task
        execAttempt_fields rows laterAttempt_def takenTables_def\<close>)
qed

lemma taken_step: "represents tb demoClaimed \<Longrightarrow> services (\<lambda>s. s) (claimedTables tb) demoService (takenTables tb)"
  using via_takeover [OF exec_parsed(2) exec_operating(2) exec_issues(2) exec_takes] by simp

lemma takenTables_stored: "represents tb demoClaimed \<Longrightarrow> stored (\<lambda>s. s) (takenTables tb) demoClaimed"
  using claimedTables_stored [of tb] by (simp add: takenTables_def withRecords_def)

text \<open>The history of the two operations.\<close>

lemma exec_history:
  obtains tb where "represents tb demoClaimed" "run (services (\<lambda>s. s)) execTables [demoService, demoService] (takenTables tb)"
    "run (services (\<lambda>s. s)) execTables [demoService] (claimedTables tb)"
    "run (services (\<lambda>s. s)) (claimedTables tb) [demoService] (takenTables tb)"
    "claims demoService execClaimCommand (execContext demoIdentity) demoIdentity (lit ''x'') execTables execAttempt (claimedTables tb)"
proof -
  obtain tb where tb: "claims demoService execClaimCommand (execContext demoIdentity) demoIdentity (lit ''x'') execTables execAttempt (claimedTables tb)"
    "represents tb demoClaimed" using exec_claims by blast
  note steps = claimed_step [OF tb(1)] taken_step [OF tb(2)]
  show thesis
    by (rule that [OF tb(2) _ _ _ tb(1)]) (use steps in \<open>auto simp: run_Cons_simp\<close>)
qed

text \<open>A stored Task that was edited after its claim, so that its lease is stranded.\<close>

definition demoChanged :: snapshot where
  "demoChanged = demo\<lparr>s_tasks := [demoDone, demoRunning\<lparr>t_body := lit ''new'', t_revision := 4\<rparr>]\<rparr>"

lemmas demoChanged_defs = demoChanged_def demoRunning_def demo_defs

lemma demoChanged_ok: "wf_snapshot (\<lambda>s. s) demoChanged" "storable demoChanged" "represents (tablesOf demoChanged) demoChanged"
proof -
  have "parentRel (s_tasks demoChanged) = {}" by (auto simp: parentRel_def demoChanged_defs)
  moreover have "depRel (s_tasks demoChanged) \<subseteq> {(lit ''b'', lit ''a'')}" by (auto simp: depRel_def demoChanged_defs)
  then have "acyclic (depRel (s_tasks demoChanged))" by (rule acyclic_mono [rotated]) (simp add: acyclic_insert_iff)
  ultimately show "wf_snapshot (\<lambda>s. s) demoChanged"
    unfolding wf_snapshot_in_def
    by (simp add: demoChanged_defs wf_task_def wf_references_def facts_of_state_def wf_revision_def MAX_SAFE_INTEGER_def
        wf_project_def wf_completion_def)
  show "storable demoChanged" by (simp add: storable_def storableTask_def storableId_def demoChanged_defs, code_simp)
  show "represents (tablesOf demoChanged) demoChanged" by (rule represents_tablesOf) code_simp+
qed

definition changedTables :: "domain_tables \<Rightarrow> database" where
  "changedTables tb = (claimedTables tb)\<lparr>db_domain := tablesOf demoChanged\<rparr>"

lemma changedTables_stored: "stored (\<lambda>s. s) (changedTables tb) demoChanged"
  by (simp add: changedTables_def read_represents [OF demoChanged_ok(3,1,2)])

lemma changedTables_sound:
  assumes "represents tb demoClaimed" "sound (\<lambda>s. s) (claimedTables tb)"
  shows "sound (\<lambda>s. s) (changedTables tb)"
proof -
  note old = soundE [OF assms(2) claimedTables_stored [OF assms(1)]]
  have tables: "db_executions (changedTables tb) = db_executions (claimedTables tb)" "db_sequences (changedTables tb) = db_sequences (claimedTables tb)"
    "db_requests (changedTables tb) = db_requests (claimedTables tb)" "db_terminals (changedTables tb) = db_terminals (claimedTables tb)"
    by (simp_all add: changedTables_def)
  have "consistent (changedTables tb) = consistent (claimedTables tb)"
    by (simp add: consistent_def ledger_def changedTables_def)
  moreover have "succeeds (claimedTables tb) (changedTables tb)"
    by (auto simp: succeeds_def changedTables_def intro: grows_refl)
  then have "sequenceHolds (changedTables tb) demoChanged q" if "q \<in> set (db_sequences (claimedTables tb))" for q
  proof (rule sequenceHolds_mono [rotated 2])
    show "sequenceHolds (claimedTables tb) demoClaimed q" using old(2) that by (simp add: lineage_def)
    show "\<exists>t'. taskById demoChanged (es_taskId q) = Some t' \<and> t_projectId t' = t_projectId t \<and> t_revision t \<le> t_revision t'"
      if "taskById demoClaimed (es_taskId q) = Some t" for t
      using that by (auto simp: taskById_def demoChanged_defs demoClaimed_def split: if_splits)
  qed (simp_all add: tables)
  moreover have "isRunning demoChanged i = isRunning demoClaimed i" for i
    by (auto simp: isRunning_def taskById_def demoChanged_defs demoClaimed_def)
  ultimately have "consistent (changedTables tb)" "lineage (changedTables tb) demoChanged"
    using old by (simp_all add: lineage_def tables servedRequest_def)
  then show ?thesis using changedTables_stored unfolding sound_def by blast
qed

lemma changedTables_stranded: "stranded execAttempt demoChanged (changedTables tb)"
  by (simp add: stranded_def execAttempt_fields changedTables_def claimedTables_def) (simp add: taskById_def demoChanged_defs)

end
