(* ===== verification/Execution_Properties.thy ===== *)
theory Execution_Properties
  imports Execution_Example Application_Properties
begin

text \<open>
  The properties of the execution service and of its histories together with the application
  service. A table is \<open>sound\<close> in every history from unused tables (\<open>executions.reach_inv\<close>); the
  steps of \<open>services nfc\<close> are the committed transactions of both services.
\<close>

section \<open>Operations\<close>

text \<open>
  C6: On the tables that its transaction finds (the ones before, or what others made of them in the
  meantime), each operation of the execution service that throws changes nothing, one that fails
  changes nothing or appends the three records of a denial, and one that succeeds has done what
  it answers: claim and takeover repeat the answer of the first operation under the same
  idempotency key, or write the attempt, the sequence, the Domain and the records; inspection
  records an authorized read; renewal moves the expiry of the lease of its caller.
\<close>

theorem execution_accounted:
  "served (others sv) (claimAnswers sv ig v) (denied ''execution.claim'') (claim sv ig v) db \<and>
   served (others sv) (inspectAnswers sv ig v) (denied ''execution.claim.inspect'') (inspectExecution sv ig v) db \<and>
   served (others sv) (renewAnswers sv ig v) (denied ''execution.lease.renew'') (renewLease sv ig v) db \<and>
   served (others sv) (takeoverAnswers sv ig v) (denied ''execution.lease.takeover'') (takeover sv ig v) db"
  by (intro conjI served_claim served_inspect served_renewLease served_takeover)

text \<open>
  C12: Every operation of the application service and of the execution service is atomic: on the
  tables that it finds at its transaction it changes nothing or makes one step of a history.
\<close>

theorem system_atomic:
  "(\<exists>db1. others sv db db1 \<and> (tablesAfter sv call db e = db1 \<or> system_step db1 sv (tablesAfter sv call db e))) \<and>
   (\<exists>db1. others sv db db1 \<and>
      (executionTablesAfter sv ig execution db e = db1 \<or> system_step db1 sv (executionTablesAfter sv ig execution db e)))"
  using operations_serialize [of sv db call e] executions_serialize [of sv db ig execution e] by (blast intro: via_application)

section \<open>Histories\<close>

text \<open>
  C4: The stored Domain snapshot refines the Domain machine: through any sequence of committed
  transactions of both services, of any number of processes in any order, the snapshot read from
  the tables only makes steps of the Domain contract; a claim is its claiming transition.
\<close>

theorem system_refines_domain:
  assumes "run (services nfc) db svs db'" and "readDomainSnapshotUntransactional nfc (db_domain db) = Inr s"
  shows "\<exists>as s'. run (domain_step nfc) s as s' \<and> readDomainSnapshotUntransactional nfc (db_domain db') = Inr s'"
  by (rule services_simulates [OF assms])

theorem system_refines_domain_witness:
  "\<exists>tb as. run (services (\<lambda>s. s)) execTables [demoService, demoService] (takenTables tb) \<and>
     run (domain_step (\<lambda>s. s)) demo as demoClaimed"
proof -
  obtain tb where tb: "represents tb demoClaimed" "run (services (\<lambda>s. s)) execTables [demoService, demoService] (takenTables tb)"
    using exec_history by blast
  from system_refines_domain [OF tb(2) execTables_stored] takenTables_stored [OF tb(1)] tb(2) show ?thesis by auto
qed



text \<open>
  C8: Whatever the services do, the state that they leave passes the checks that every read of the
  execution inventory makes: no history of the services ends in a state that they then refuse as
  corrupt. (Timestamps are of years up to 9999, where texts are ordered as times.)
\<close>

theorem executions_checked:
  assumes "run (services nfc) db svs db'" and "sound nfc db" and "readDomainSnapshotUntransactional nfc (db_domain db') = Inr s"
    and "\<forall>a\<in>set (db_executions db'). shortTimestamp (xa_createdAt a) \<and> shortTimestamp (xa_leaseExpiresAt a)"
  shows "checkExecutions (stateOf s db') = Inr ()"
  using soundE [OF executions.run_inv [OF assms(1,2)] assms(3)] readDomain_wf [OF assms(3)] assms(4)
  by (intro checkExecutions_lineage) auto

theorem executions_checked_witness:
  "\<exists>tb. run (services (\<lambda>s. s)) execTables [demoService, demoService] (takenTables tb) \<and> length (db_executions (takenTables tb)) = 2 \<and>
     checkExecutions (stateOf demoClaimed (takenTables tb)) = Inr ()"
proof -
  obtain tb where tb: "represents tb demoClaimed" "run (services (\<lambda>s. s)) execTables [demoService, demoService] (takenTables tb)"
    using exec_history by blast
  have executions: "db_executions (takenTables tb) = [supersededRow, laterAttempt]" by (simp add: takenTables_def)
  have "shortTimestamp (oi_now demoIdentity)" "shortTimestamp (oi_now laterIdentity)" "shortTimestamp (lit ''2026-01-01T00:01:00.000Z'')"
    "shortTimestamp (lit ''2026-01-02T00:01:00.000Z'')"
    unfolding shortTimestamp_def by code_simp+
  then have "\<forall>a\<in>set (db_executions (takenTables tb)). shortTimestamp (xa_createdAt a) \<and> shortTimestamp (xa_leaseExpiresAt a)"
    by (simp add: executions supersededRow_def supersededAttempt_def execAttempt_fields laterAttempt_def takeoverAttempt_def)
  from executions_checked [OF tb(2) execTables_sound takenTables_stored [OF tb(1)] this] tb(2) executions show ?thesis by auto
qed

section \<open>Leases\<close>





text \<open>
  C10: A superseded attempt is fenced off for good: however the history goes on, its row never
  changes, no renewal of it succeeds, and a takeover that names it as its predecessor is at most
  answered with the takeover that was made, without a change of the tables. (What runs beside an
  operation are operations of the services.)
\<close>

theorem superseded_locked_out:
  assumes "run (services nfc) db svs db'" and "sound nfc db" and "a \<in> set (db_executions db)" and "xa_status a = SupersededAttempt"
    and "\<forall>d. others sv db' d \<longrightarrow> (\<exists>svs. run (services nfc) db' svs d)"
    and "parseRenew v = Some renewal" and "le_executionId (rc_lease renewal) = xa_executionId a"
    and "parseTakeover w = Some replacement" and "le_executionId (tc_lease replacement) = xa_executionId a"
  shows "a \<in> set (db_executions db') \<and>
    (\<forall>r. fst (renewLease sv ig v (db', e)) \<noteq> Returns r) \<and>
    (\<forall>r db'' e'. takeover sv ig w (db', e) = (Returns r, (db'', e')) \<longrightarrow> others sv db' db'')"
proof -
  have here: "a \<in> set (db_executions db')" by (rule superseded_fenced(1) [OF assms(1-4)])
  have sound: "sound nfc db'" by (rule executions.run_inv [OF assms(1,2)])
  have fenced: "\<not> renewsLease sv renewal ctx identity d r d'" "\<not> takesOver sv replacement ctx identity executionId d attempt d'"
    if "others sv db' d" for ctx identity d r d' executionId attempt
    using assms(5) that superseded_fenced(2,3) [OF _ sound here assms(4)] assms(7,9) by blast+
  have "fst (renewLease sv ig v (db', e)) \<noteq> Returns r" for r
  proof
    assume "fst (renewLease sv ig v (db', e)) = Returns r"
    then obtain db'' e' where "renewLease sv ig v (db', e) = (Returns r, (db'', e'))" by (metis prod.collapse)
    then show False using served_renewLease [of sv ig v db'] fenced(1) assms(6) by (fastforce simp: served_def renewAnswers_def)
  qed
  moreover have "others sv db' db''" if "takeover sv ig w (db', e) = (Returns r, (db'', e'))" for r db'' e'
    using served_takeover [of sv ig w db'] fenced(2) assms(8) that
    by (fastforce simp: served_def takeoverAnswers_def repeats_def)
  ultimately show ?thesis using here by blast
qed

text \<open>The same, in the words of the example: its first attempt is superseded.\<close>

lemma exec_superseded: "supersededRow \<in> set (db_executions (takenTables tb))" "xa_status supersededRow = SupersededAttempt"
  "xa_executionId supersededRow = lit ''x''"
  by (simp_all add: takenTables_def supersededRow_def supersededAttempt_def execAttempt_fields)

definition execRenewal :: jsval where
  "execRenewal = jsObj [(''kind'', JStr (lit ''execution.lease.renew'')), (''projectId'', JStr (lit ''p'')),
     (''expectedProjectResourceRevision'', jsInt 1), (''expectedProjectConfigRevision'', jsInt 1),
     (''executionId'', JStr (lit ''x'')), (''expectedExecutionRevision'', jsInt 1), (''expectedLeaseRevision'', jsInt 1),
     (''expectedFencingToken'', jsInt 1), (''expectedTaskRevision'', jsInt 3), (''leaseDurationSeconds'', jsInt 60)]"

lemma execRenewal_parsed: "\<exists>renewal. parseRenew execRenewal = Some renewal \<and> le_executionId (rc_lease renewal) = lit ''x''"
  by (rule exI [of _ "\<lparr>rc_project = execExpectation, rc_lease = execLease, rc_leaseDurationSeconds = 60\<rparr>"]) code_simp

theorem superseded_locked_out_witness:
  "\<exists>tb. run (services (\<lambda>s. s)) execTables [demoService, demoService] (takenTables tb) \<and> supersededRow \<in> set (db_executions (takenTables tb)) \<and>
     (\<forall>r. fst (renewLease demoService (execIngress laterIdentity ''x'') execRenewal (takenTables tb, 0)) \<noteq> Returns r)"
proof -
  obtain tb where tb: "run (services (\<lambda>s. s)) execTables [demoService, demoService] (takenTables tb)"
    using exec_history by blast
  have sound: "sound (\<lambda>s. s) (takenTables tb)" by (rule executions.run_inv [OF tb execTables_sound])
  obtain renewal where renewal: "parseRenew execRenewal = Some renewal" "le_executionId (rc_lease renewal) = xa_executionId supersededRow"
    using execRenewal_parsed exec_superseded(3) by metis
  have takeover: "le_executionId (tc_lease execTakeoverCommand) = xa_executionId supersededRow"
    by (simp add: exec_superseded(3) execTakeoverCommand_def execLease_def)
  have others: "\<forall>d. others demoService (takenTables tb) d \<longrightarrow> (\<exists>svs. run (services (\<lambda>s. s)) (takenTables tb) (svs :: nat service list) d)"
    by (intro allI impI exI [of _ "[]"]) (drule demo_others, simp)
  have here: "run (services (\<lambda>s. s)) (takenTables tb) ([] :: nat service list) (takenTables tb)" by simp
  show ?thesis
    using superseded_locked_out [OF here sound exec_superseded(1,2) others renewal exec_parsed(2) takeover] tb by blast
qed

text \<open>
  C11: A claim is idempotent: after a claim was carried out, the same command by the same actor and
  owner, at any later time of the history, is answered with the attempt that the first one made
  and with the identity of its request, and changes nothing.
\<close>

theorem claim_repeated:
  fixes ig0 ig :: "'e execution_ingress" and sv0 sv :: "'e service" and svs :: "'e service list"
  assumes "parseClaim v = Some command" and "issues ig0 executionId" and "operating ig0 ctx0 identity"
    and "claims sv0 command ctx0 identity executionId db0 attempt db1" and "sv_nfc sv0 = sv_nfc sv"
    and "sound (sv_nfc sv) db0" and "run (services (sv_nfc sv)) db1 svs db" and "sv_open sv e' = None" and "readState sv db = Inr state"
    and "trustedContext ig e = (Some ctx, e')" and "tx_ownerId ctx = tx_ownerId ctx0"
    and "ta_actorId (tx_actor ctx) = ta_actorId (tx_actor ctx0)"
  shows "\<exists>a\<in>set (db_executions db). xa_executionId a = executionId \<and> attemptKept attempt a \<and>
    claim sv ig v (db, e) = (Returns (executionSucceeded (view a (tx_now ctx)) (oi_requestId identity) (oi_correlationId identity)), (db, e'))"
  by (rule claim_idempotent [OF assms])

theorem claim_repeated_witness:
  "\<exists>tb a r. a \<in> set (db_executions (takenTables tb)) \<and> xa_executionId a = lit ''x'' \<and>
     claim demoService (execIngress laterIdentity ''z'') execClaim (takenTables tb, 0) = (Returns r, (takenTables tb, 0)) \<and>
     xs_value r = view a (oi_now laterIdentity) \<and> xs_requestId r = lit ''r''"
proof -
  obtain tb where tb: "represents tb demoClaimed" "run (services (\<lambda>s. s)) (claimedTables tb) [demoService] (takenTables tb)"
    "claims demoService execClaimCommand (execContext demoIdentity) demoIdentity (lit ''x'') execTables execAttempt (claimedTables tb)"
    using exec_history by blast
  have open_store: "sv_open demoService 0 = None" by (simp add: demoService_def)
  have reads: "readState demoService (takenTables tb) = Inr (stateOf demoClaimed (takenTables tb))"
    by (rule demoService_reads [OF takenTables_stored [OF tb(1)]])
  have caller: "tx_ownerId (execContext laterIdentity) = tx_ownerId (execContext demoIdentity)"
    "ta_actorId (tx_actor (execContext laterIdentity)) = ta_actorId (tx_actor (execContext demoIdentity))"
    by (simp_all add: execContext_def laterIdentity_def demoIdentity_def)
  have "\<exists>a\<in>set (db_executions (takenTables tb)). xa_executionId a = lit ''x'' \<and> attemptKept execAttempt a \<and>
      claim demoService (execIngress laterIdentity ''z'') execClaim (takenTables tb, 0) =
        (Returns (executionSucceeded (view a (tx_now (execContext laterIdentity))) (oi_requestId demoIdentity) (oi_correlationId demoIdentity)),
         (takenTables tb, 0))"
    by (rule claim_repeated [where svs = "[demoService]", OF exec_parsed(1) exec_issues(1) exec_operating(1) tb(3) refl _ _ open_store reads
        exec_context(2) caller]) (simp_all add: execTables_sound tb(2) [simplified])
  then obtain a where "a \<in> set (db_executions (takenTables tb))" "xa_executionId a = lit ''x''"
    "claim demoService (execIngress laterIdentity ''z'') execClaim (takenTables tb, 0) =
        (Returns (executionSucceeded (view a (tx_now (execContext laterIdentity))) (oi_requestId demoIdentity) (oi_correlationId demoIdentity)),
         (takenTables tb, 0))" by blast
  then show ?thesis
    by (intro exI [of _ tb] exI [of _ a] exI [of _ "executionSucceeded (view a (tx_now (execContext laterIdentity))) (oi_requestId demoIdentity) (oi_correlationId demoIdentity)"])
      (simp add: executionSucceeded_def execContext_def demoIdentity_def)
qed

section \<open>A lease that nobody can move\<close>

text \<open>
  C39: Once the revision of a running Task has passed the one that its attempt was claimed for (by
  an edit of its body, for example), its lease is stranded: whatever the two services do from
  then on, the attempt stays active with the expiry that it has, and the Task stays running.
\<close>

theorem lease_stranded:
  assumes "run (services nfc) db svs db'" and "sound nfc db" and "readDomainSnapshotUntransactional nfc (db_domain db) = Inr s"
    and "a \<in> set (db_executions db)" and "xa_status a = ActiveAttempt"
    and "taskById s (xa_taskId a) = Some t" and "xa_postTaskRevision a < t_revision t"
  shows "a \<in> set (db_executions db') \<and>
    (\<exists>s'. readDomainSnapshotUntransactional nfc (db_domain db') = Inr s' \<and> isRunning s' (xa_taskId a))"
proof -
  have "stranded a s db" using assms(4-7) by (simp add: stranded_def)
  then obtain s' where s': "stored nfc db' s'" "stranded a s' db'" using history_stranded [OF assms(1-3)] by blast
  have "isRunning s' (xa_taskId a)"
    unfolding running_active [OF soundE(2) [OF executions.run_inv [OF assms(1,2)] s'(1)]] using s'(2) by (auto simp: stranded_def)
  then show ?thesis using s' by (auto simp: stranded_def)
qed

theorem lease_stranded_witness:
  "\<exists>tb db'. run (services (\<lambda>s. s)) (changedTables tb) [demoService] db' \<and> length (db_requests db') = 2 \<and> execAttempt \<in> set (db_executions db')"
proof -
  obtain tb where tb: "represents tb demoClaimed" "run (services (\<lambda>s. s)) execTables [demoService] (claimedTables tb)"
    using exec_history by blast
  have sound: "sound (\<lambda>s. s) (changedTables tb)"
    by (rule changedTables_sound [OF tb(1) executions.run_inv [OF tb(2) execTables_sound]])
  let ?denied = "deniedRecords laterIdentity ''runtime.status'' runtimeTarget (staleEvaluation PolicyAllow) (changedTables tb)"
  have "freshRecords laterIdentity (changedTables tb)"
    by (simp add: freshRecords_def freshRequest_def changedTables_def claimedTables_def withRecords_def execTables_def demoTables_def
        noTables_def requestRecord_def decisionRecord_def auditRecord_def laterIdentity_def demoIdentity_def)
  then have "refused laterIdentity ''runtime.status'' (changedTables tb) ?denied"
    unfolding refused_def using staleEvaluation_denied by blast
  then have "system_step (changedTables tb) demoService ?denied" by (intro via_application transacts_refused)
  then have run: "run (services (\<lambda>s. s)) (changedTables tb) [demoService] ?denied" by (simp add: run_Cons_simp)
  obtain t where "taskById demoChanged (xa_taskId execAttempt) = Some t" "xa_postTaskRevision execAttempt < t_revision t"
    "execAttempt \<in> set (db_executions (changedTables tb))" "xa_status execAttempt = ActiveAttempt"
    using changedTables_stranded unfolding stranded_def by blast
  from lease_stranded [OF run sound changedTables_stored this(3,4,1,2)] run show ?thesis
    by (intro exI [of _ tb] exI [of _ ?denied])
      (simp add: withRecords_def changedTables_def claimedTables_def execTables_def demoTables_def noTables_def)
qed

end
