(* ===== verification/Command_Line.thy ===== *)
theory Command_Line
  imports Application_Input Project_Registry Js_Date_Format
begin

text \<open>
  The command line (\<^verbatim>\<open>src/cli-api-parser.ts\<close> and the tables of \<^verbatim>\<open>src/cli-api-model.ts\<close>): the reading of
  arguments into a command, and the application command and the confirmation that belong to it.
  Unicode normalisation is the parameter \<open>nfc\<close>, and paths are those of POSIX platforms.
\<close>

section \<open>The tables\<close>

datatype cli_format = Human | Json

datatype parse_failure_code =
  CliInvalidInput | CliUnsupportedVersion | ResultLimitExceeded | ConfirmationRequired | DataLossAckRequired

record parse_failure =
  pf_format :: cli_format
  pf_command :: string
  pf_code :: parse_failure_code

record command_spec =
  cs_id :: string
  cs_path :: "string list"
  cs_required :: "string list"
  cs_optional :: "string list"

record cli_command =
  pc_format :: cli_format
  pc_apiVersion :: jsstr
  pc_runtimeRoot :: "jsstr option"
  pc_id :: string
  pc_options :: "(jsstr \<times> jsstr) list"

definition CLI_API_VERSION :: string where
  "CLI_API_VERSION = ''ato.api/v1''"

definition EXECUTION_COMMON_OPTIONS :: "string list" where
  "EXECUTION_COMMON_OPTIONS =
     [''project-id'', ''expected-project-resource-revision'', ''expected-project-config-revision'', ''task-id'',
      ''expected-task-revision'', ''execution-id'', ''expected-execution-revision'', ''expected-attempt-number'',
      ''expected-fencing-token'', ''idempotency-key'']"

abbreviation specOf :: "string \<Rightarrow> string list \<Rightarrow> string list \<Rightarrow> string list \<Rightarrow> command_spec" where
  "specOf i p r o' \<equiv> \<lparr>cs_id = i, cs_path = p, cs_required = r, cs_optional = o'\<rparr>"

definition taskFields :: "string list" where
  "taskFields = [''project-id'', ''expected-project-resource-revision'', ''task-id'', ''expected-task-revision'']"

definition COMMAND_SPECS :: "command_spec list" where
  "COMMAND_SPECS =
     [specOf ''status'' [''status''] [] [],
      specOf ''doctor'' [''doctor''] [] [],
      specOf ''init'' [''init''] [''expires-at'', ''confirm''] [],
      specOf ''restore'' [''restore''] [''generation-id'', ''confirm'', ''acknowledge-data-loss''] [],
      specOf ''authorization.renew'' [''authorization'', ''renew''] [''expires-at'', ''confirm''] [],
      specOf ''authorization.list'' [''authorization'', ''list''] [''limit''] [''after-grant-id''],
      specOf ''authorization.show'' [''authorization'', ''show''] [''grant-id'', ''expected-grant-revision''] [],
      specOf ''authorization.issue'' [''authorization'', ''issue''] [''action'', ''scope'', ''not-before'', ''expires-at'', ''confirm'']
        [''project-id'', ''expected-resource-revision'', ''expected-config-revision''],
      specOf ''authorization.revoke'' [''authorization'', ''revoke''] [''grant-id'', ''expected-grant-revision'', ''confirm''] [],
      specOf ''authorization.evaluate'' [''authorization'', ''evaluate'']
        [''project-id'', ''expected-resource-revision'', ''expected-config-revision'', ''action''] [],
      specOf ''project.register'' [''project'', ''register''] [''project-id'', ''root'', ''confirm''] [],
      specOf ''project.show'' [''project'', ''show''] [''project-id'', ''expected-resource-revision''] [],
      specOf ''project.update'' [''project'', ''update'']
        [''project-id'', ''expected-resource-revision'', ''expected-config-revision'', ''confirm''] [],
      specOf ''project.disable'' [''project'', ''disable'']
        [''project-id'', ''expected-resource-revision'', ''expected-config-revision'', ''confirm''] [],
      specOf ''task.create'' [''task'', ''create'']
        [''project-id'', ''expected-project-resource-revision'', ''task-id'', ''body''] [''supersedes-task-id''],
      specOf ''task.show'' [''task'', ''show''] taskFields [],
      specOf ''task.update-body'' [''task'', ''update-body''] (taskFields @ [''body'']) [],
      specOf ''task.set-parent'' [''task'', ''set-parent''] (taskFields @ [''parent-id'']) [],
      specOf ''task.clear-parent'' [''task'', ''clear-parent''] taskFields [],
      specOf ''task.mark-ready'' [''task'', ''mark-ready''] taskFields [],
      specOf ''task.cancel'' [''task'', ''cancel''] (taskFields @ [''reason'']) [],
      specOf ''dependency.add'' [''dependency'', ''add''] (taskFields @ [''dependency-id'', ''expected-dependency-revision'']) [],
      specOf ''dependency.remove'' [''dependency'', ''remove''] (taskFields @ [''dependency-id'', ''expected-dependency-revision'']) [],
      specOf ''backup.create'' [''backup'', ''create''] [] [],
      specOf ''authorization.upgrade'' [''authorization'', ''upgrade''] [''expires-at'', ''confirm''] [],
      specOf ''dispatch.run'' [''dispatch'', ''run''] [''idempotency-key'', ''lease-duration-seconds''] [],
      specOf ''dispatch.resume'' [''dispatch'', ''resume''] [''run-id''] [],
      specOf ''execution.inspect'' [''execution'', ''inspect''] EXECUTION_COMMON_OPTIONS [],
      specOf ''execution.resume'' [''execution'', ''resume'']
        (EXECUTION_COMMON_OPTIONS @ [''continuation-reference'', ''required-action-receipt-id'']) [''confirm''],
      specOf ''execution.retry'' [''execution'', ''retry'']
        (EXECUTION_COMMON_OPTIONS @ [''continuation-reference'', ''required-action-receipt-id'']) [''confirm''],
      specOf ''execution.request-cancel'' [''execution'', ''request-cancel''] (EXECUTION_COMMON_OPTIONS @ [''reason-code'']) [],
      specOf ''manual.outcome-report'' [''manual'', ''outcome-report'']
        (EXECUTION_COMMON_OPTIONS @ [''report-id'', ''outcome'', ''code'', ''confirm'']) [''evidence-reference''],
      specOf ''execution.accept-manual-completion'' [''execution'', ''accept-manual-completion'']
        (EXECUTION_COMMON_OPTIONS @ [''confirm'']) [],
      specOf ''codex.profile.activate'' [''codex'', ''profile'', ''activate'']
        [''project-id'', ''expected-project-resource-revision'', ''expected-project-config-revision'', ''profile-id'',
         ''expected-profile-revision'', ''workspace-root-key'', ''workspace-root'', ''codex-home-key'', ''codex-home'',
         ''git-executable'', ''idempotency-key'', ''confirm''] [],
      specOf ''codex.profile.inspect'' [''codex'', ''profile'', ''inspect'']
        [''project-id'', ''expected-project-resource-revision'', ''expected-project-config-revision'', ''profile-id'',
         ''expected-profile-revision''] [],
      specOf ''codex.profile.deactivate'' [''codex'', ''profile'', ''deactivate'']
        [''project-id'', ''expected-project-resource-revision'', ''expected-project-config-revision'', ''profile-id'',
         ''expected-profile-revision'', ''idempotency-key'', ''confirm''] [],
      specOf ''codex.dispatch-run'' [''codex'', ''dispatch-run'']
        [''project-id'', ''expected-project-resource-revision'', ''expected-project-config-revision'', ''profile-id'',
         ''expected-profile-revision'', ''task-id'', ''expected-task-revision'', ''base-reference'', ''idempotency-key'',
         ''lease-duration-seconds'', ''confirm''] []]"

definition PRODUCT_COMMAND_IDS :: "string list" where
  "PRODUCT_COMMAND_IDS =
     [''authorization.upgrade'', ''dispatch.run'', ''dispatch.resume'', ''execution.inspect'', ''execution.resume'',
      ''execution.retry'', ''execution.request-cancel'', ''manual.outcome-report'', ''execution.accept-manual-completion'',
      ''codex.profile.activate'', ''codex.profile.inspect'', ''codex.profile.deactivate'', ''codex.dispatch-run'']"

section \<open>Lexical predicates\<close>

definition safeToken :: "(jsstr \<Rightarrow> jsstr) \<Rightarrow> jsstr \<Rightarrow> bool" where
  "safeToken nfc v \<longleftrightarrow> length v > 0 \<and> wellFormedText v \<and> \<not> forbiddenCancellationText v \<and> nfc v = v"

text \<open>The pattern \<^verbatim>\<open>/^(?:0|[1-9][0-9]*)$/u\<close>, the number that such a text denotes, and the text of a number.\<close>

fun decimalPattern :: "jsstr \<Rightarrow> bool" where
  "decimalPattern [] = False"
| "decimalPattern (c # cs) = (c = 48 \<and> cs = [] \<or> isDigit c \<and> c \<noteq> 48 \<and> list_all isDigit cs)"

fun decimalText :: "nat \<Rightarrow> jsstr" where
  "decimalText n = (if n < 10 then [48 + of_nat n] else decimalText (n div 10) @ [48 + of_nat (n mod 10)])"

declare decimalText.simps [simp del]

text \<open>\<open>Number(value)\<close> where \<open>Number.isSafeInteger(Number(value)) && String(Number(value)) === value\<close>.\<close>

definition canonicalNumber :: "jsstr \<Rightarrow> int option" where
  "canonicalNumber v =
     (if decimalPattern v \<and> digitsValue v \<le> MAX_SAFE_INTEGER \<and> decimalText (nat (digitsValue v)) = v then Some (digitsValue v) else None)"

definition canonicalRevision :: "jsstr \<Rightarrow> int option" where
  "canonicalRevision v = (case canonicalNumber v of Some n \<Rightarrow> if n > 0 then Some n else None | None \<Rightarrow> None)"

definition canonicalTimestamp :: "jsstr \<Rightarrow> bool" where
  "canonicalTimestamp v \<longleftrightarrow> length v \<ge> 20 \<and> length v \<le> 40 \<and> isIsoString v"

definition domainId :: "(jsstr \<Rightarrow> jsstr) \<Rightarrow> jsstr \<Rightarrow> bool" where
  "domainId nfc v \<longleftrightarrow> safeToken nfc v \<and> encodedBytes v \<ge> 1 \<and> encodedBytes v \<le> 128"

definition absolutePath :: "(jsstr \<Rightarrow> jsstr) \<Rightarrow> nat \<Rightarrow> jsstr \<Rightarrow> bool" where
  "absolutePath nfc maximumBytes v \<longleftrightarrow>
     \<not> (\<not> safeToken nfc v \<or> encodedBytes v > maximumBytes \<or> \<not> isAbsolute v) \<and>
     \<not> list_ex (\<lambda>segment. segment = lit ''.'' \<or> segment = lit ''..'') (rootSegments v)"

text \<open>The patterns of execution codes, backup generations and commit identifiers.\<close>

definition executionCode :: "jsstr \<Rightarrow> bool" where
  "executionCode v \<longleftrightarrow> operationalText v \<and> length v \<le> 64"

definition lowerHex :: "code_unit \<Rightarrow> bool" where
  "lowerHex c \<longleftrightarrow> isDigit c \<or> 97 \<le> unat c \<and> unat c \<le> 102"

definition generationPattern :: "jsstr \<Rightarrow> bool" where
  "generationPattern v \<longleftrightarrow>
     (case chunks [8, 1, 4, 1, 1, 3, 1, 1, 3, 1, 12] v of
        Some cs \<Rightarrow> map (\<lambda>i. cs ! i) [1, 3, 6, 9] = [lit ''-'', lit ''-'', lit ''-'', lit ''-''] \<and> cs ! 4 = lit ''4'' \<and>
          cs ! 7 \<in> lit ` {''8'', ''9'', ''a'', ''b''} \<and> list_all (\<lambda>i. list_all lowerHex (cs ! i)) [0, 2, 5, 8, 10]
      | None \<Rightarrow> False)"

definition baseReferencePattern :: "jsstr \<Rightarrow> bool" where
  "baseReferencePattern v \<longleftrightarrow> length v = 40 \<and> list_all lowerHex v"

text \<open>The pattern \<^verbatim>\<open>/^--[a-z][a-z0-9-]*$/u\<close>.\<close>

definition optionPattern :: "jsstr \<Rightarrow> bool" where
  "optionPattern v \<longleftrightarrow>
     (case v of a # b # c # cs \<Rightarrow> [a, b] = lit ''--'' \<and> 97 \<le> unat c \<and> unat c \<le> 122 \<and>
          list_all (\<lambda>d. 97 \<le> unat d \<and> unat d \<le> 122 \<or> isDigit d \<or> [d] = lit ''-'') cs
      | _ \<Rightarrow> False)"

section \<open>Validation of the options\<close>

type_synonym cli_options = "(jsstr \<times> jsstr) list"

abbreviation given :: "cli_options \<Rightarrow> string \<Rightarrow> jsstr option" where
  "given options name \<equiv> map_of options (lit name)"

text \<open>A check of an option if it is given.\<close>

definition optionOk :: "cli_options \<Rightarrow> (jsstr \<Rightarrow> bool) \<Rightarrow> string \<Rightarrow> bool" where
  "optionOk options check name \<longleftrightarrow> (case given options name of None \<Rightarrow> True | Some v \<Rightarrow> check v)"

definition REVISION_OPTIONS :: "string list" where
  "REVISION_OPTIONS =
     [''expected-grant-revision'', ''expected-resource-revision'', ''expected-config-revision'', ''expected-project-resource-revision'',
      ''expected-task-revision'', ''expected-dependency-revision'', ''expected-project-config-revision'', ''expected-execution-revision'',
      ''expected-attempt-number'', ''expected-fencing-token'']"

definition PRODUCT_OPTIONS :: "string list" where
  "PRODUCT_OPTIONS =
     [''project-id'', ''task-id'', ''execution-id'', ''idempotency-key'', ''continuation-reference'', ''required-action-receipt-id'',
      ''reason-code'', ''report-id'', ''code'', ''evidence-reference'', ''run-id'', ''profile-id'', ''workspace-root-key'', ''codex-home-key'']"

definition validProfileRevision :: "command_spec \<Rightarrow> jsstr \<Rightarrow> bool" where
  "validProfileRevision spec v \<longleftrightarrow>
     (case canonicalNumber v of None \<Rightarrow> False | Some n \<Rightarrow> \<not> (n < 0 \<or> (cs_id spec \<noteq> ''codex.profile.activate'' \<and> n = 0)))"

text \<open>The fields of \<open>authorization.issue\<close>; its times are required options, so that they are given.\<close>

definition validIssue :: "cli_options \<Rightarrow> jsstr \<Rightarrow> bool" where
  "validIssue options now \<longleftrightarrow>
     (let projectFields = map (given options) [''project-id'', ''expected-resource-revision'', ''expected-config-revision'']; scope = given options ''scope'';
          notBefore = the (given options ''not-before''); expiresAt = the (given options ''expires-at'') in
      (if scope = Some (lit ''runtime'') then list_all (\<lambda>v. v = None) projectFields
       else if scope = Some (lit ''project'') then list_all (\<lambda>v. v \<noteq> None) projectFields else False) \<and>
      \<not> (notBefore < now \<or> expiresAt \<le> notBefore))"

text \<open>The window of an expiry, in milliseconds after now.\<close>

definition expiryWithin :: "jsstr \<Rightarrow> int \<Rightarrow> int \<Rightarrow> jsstr \<Rightarrow> bool" where
  "expiryWithin now least most expiresAt \<longleftrightarrow> momentOf expiresAt > momentOf now + least \<and> momentOf expiresAt \<le> momentOf now + most"

definition validateOptions :: "(jsstr \<Rightarrow> jsstr) \<Rightarrow> command_spec \<Rightarrow> cli_options \<Rightarrow> jsstr \<Rightarrow> parse_failure_code option" where
  "validateOptions nfc spec options now =
     (if \<not> list_all (optionOk options (\<lambda>v. canonicalRevision v \<noteq> None)) REVISION_OPTIONS then Some CliInvalidInput
      else if \<not> optionOk options (validProfileRevision spec) ''expected-profile-revision'' then Some CliInvalidInput
      else if \<not> list_all (optionOk options (domainId nfc)) [''project-id'', ''task-id'', ''dependency-id'', ''parent-id'', ''supersedes-task-id'']
      then Some CliInvalidInput
      else if \<not> list_all (optionOk options operationalText) [''grant-id'', ''after-grant-id''] then Some CliInvalidInput
      else if \<not> optionOk options generationPattern ''generation-id'' then Some CliInvalidInput
      else if \<not> list_all (optionOk options canonicalTimestamp) [''expires-at'', ''not-before''] then Some CliInvalidInput
      else if \<not> optionOk options (\<lambda>v. list_ex (\<lambda>a. v = lit a) AUTHORIZATION_ACTIONS) ''action'' then Some CliInvalidInput
      else if \<not> optionOk options (absolutePath nfc 1024) ''root'' then Some CliInvalidInput
      else if \<not> optionOk options (\<lambda>v. safeToken nfc v \<and> \<not> encodedBytes v < 1 \<and> \<not> encodedBytes v > 16384) ''body'' then Some CliInvalidInput
      else if \<not> optionOk options (\<lambda>v. isCanonicalCancellationReason nfc (JStr v)) ''reason'' then Some CliInvalidInput
      else if \<not> optionOk options (\<lambda>v. canonicalNumber v \<noteq> None) ''limit'' then Some CliInvalidInput
      else if \<not> optionOk options (\<lambda>v. case canonicalNumber v of Some n \<Rightarrow> \<not> n < 1 \<and> \<not> n > 100 | None \<Rightarrow> True) ''limit'' then Some ResultLimitExceeded
      else if cs_id spec = ''authorization.issue'' \<and> \<not> validIssue options now then Some CliInvalidInput
      else if cs_id spec = ''init'' \<and> \<not> optionOk options (expiryWithin now 0 (days 31)) ''expires-at'' then Some CliInvalidInput
      else if cs_id spec \<in> {''authorization.renew'', ''authorization.upgrade''} \<and> \<not> optionOk options (expiryWithin now (days 7) (days 31)) ''expires-at''
      then Some CliInvalidInput
      else if cs_id spec \<in> set PRODUCT_COMMAND_IDS \<and>
         \<not> (list_all (optionOk options operationalText) PRODUCT_OPTIONS \<and> list_all (optionOk options executionCode) [''reason-code'', ''code''])
      then Some CliInvalidInput
      else if \<not> list_all (optionOk options (absolutePath nfc 4096)) [''workspace-root'', ''codex-home'', ''git-executable''] then Some CliInvalidInput
      else if \<not> optionOk options baseReferencePattern ''base-reference'' then Some CliInvalidInput
      else if \<not> optionOk options (\<lambda>v. case canonicalNumber v of Some n \<Rightarrow> \<not> n < 30 \<and> \<not> n > 3600 | None \<Rightarrow> False) ''lease-duration-seconds''
      then Some CliInvalidInput
      else if \<not> optionOk options (\<lambda>v. v \<in> lit ` {''activate'', ''wait'', ''succeed'', ''fail'', ''confirm_cancelled''}) ''outcome'' then Some CliInvalidInput
      else None)"

section \<open>Confirmations\<close>

record cli_confirmation =
  cc_phrase :: "string option"
  cc_action :: "string option"
  cc_productAction :: "string option"

definition confirmed :: "string \<Rightarrow> string \<Rightarrow> cli_confirmation" where
  "confirmed phrase action = \<lparr>cc_phrase = Some phrase, cc_action = Some action, cc_productAction = None\<rparr>"

definition confirmedProduct :: "string \<Rightarrow> string \<Rightarrow> cli_confirmation" where
  "confirmedProduct phrase action = \<lparr>cc_phrase = Some phrase, cc_action = None, cc_productAction = Some action\<rparr>"

definition unconfirmed :: cli_confirmation where
  "unconfirmed = \<lparr>cc_phrase = None, cc_action = None, cc_productAction = None\<rparr>"

definition confirmationFor :: "cli_command \<Rightarrow> cli_confirmation" where
  "confirmationFor command =
     (let i = pc_id command in
      if i = ''init'' then confirmed ''INITIALIZE LOCAL RUNTIME'' ''authorization.grant.issue''
      else if i = ''authorization.renew'' then confirmed ''RENEW LOCAL CAPABILITIES'' ''authorization.capability.renew''
      else if i = ''authorization.upgrade'' then confirmed ''UPGRADE LOCAL CAPABILITIES'' ''authorization.capability.upgrade''
      else if i = ''authorization.issue'' then confirmed ''ISSUE LOCAL GRANT'' ''authorization.grant.issue''
      else if i = ''authorization.revoke'' then confirmed ''REVOKE LOCAL GRANT'' ''authorization.grant.revoke''
      else if i = ''project.register'' then confirmed ''REGISTER LOCAL PROJECT'' ''project.register''
      else if i = ''project.update'' then confirmed ''UPDATE LOCAL PROJECT'' ''project.update''
      else if i = ''project.disable'' then confirmed ''DISABLE LOCAL PROJECT'' ''project.disable''
      else if i = ''restore'' then confirmed ''RESTORE LOCAL BACKUP'' ''runtime.restore''
      else if i = ''manual.outcome-report'' then confirmedProduct ''RECORD MANUAL OUTCOME'' ''manual.turn.report''
      else if i = ''execution.accept-manual-completion'' then confirmedProduct ''ACCEPT MANUAL COMPLETION'' ''execution.completion.accept''
      else if i = ''codex.profile.activate'' then confirmedProduct ''ACTIVATE CODEX PROFILE'' ''codex.profile.activate''
      else if i = ''codex.profile.deactivate'' then confirmedProduct ''DEACTIVATE CODEX PROFILE'' ''codex.profile.deactivate''
      else if i = ''codex.dispatch-run'' then confirmedProduct ''INVOKE CODEX TASK'' ''codex.execution.invoke''
      else if i \<in> {''execution.resume'', ''execution.retry''} then
        (if given (pc_options command) ''confirm'' = None then unconfirmed
         else confirmedProduct ''INVOKE CODEX CONTINUATION'' ''codex.execution.invoke'')
      else unconfirmed)"

section \<open>Reading the arguments\<close>

definition parseFailure :: "cli_format \<Rightarrow> string \<Rightarrow> parse_failure_code \<Rightarrow> parse_failure" where
  "parseFailure format command code = \<lparr>pf_format = format, pf_command = command, pf_code = code\<rparr>"

abbreviation unreadable :: "cli_format \<Rightarrow> parse_failure" where
  "unreadable format \<equiv> parseFailure format ''unknown'' CliInvalidInput"

record cli_globals =
  gl_format :: cli_format
  gl_apiVersion :: jsstr
  gl_runtimeRoot :: "jsstr option"
  gl_seenFormat :: bool
  gl_seenVersion :: bool

definition noGlobals :: cli_globals where
  "noGlobals = \<lparr>gl_format = Human, gl_apiVersion = lit CLI_API_VERSION, gl_runtimeRoot = None, gl_seenFormat = False, gl_seenVersion = False\<rparr>"

definition isGlobal :: "jsstr \<Rightarrow> bool" where
  "isGlobal name \<longleftrightarrow> name \<in> lit ` {''--format'', ''--api-version'', ''--runtime-root''}"

definition dashed :: "jsstr \<Rightarrow> bool" where
  "dashed v \<longleftrightarrow> prefix (lit ''--'') v"

definition readGlobal :: "cli_globals \<Rightarrow> jsstr \<Rightarrow> jsstr \<Rightarrow> parse_failure + cli_globals" where
  "readGlobal g name value =
     (if name = lit ''--format'' then
        (if gl_seenFormat g \<or> (value \<noteq> lit ''human'' \<and> value \<noteq> lit ''json'') then Inl (unreadable Human)
         else Inr (g\<lparr>gl_seenFormat := True, gl_format := if value = lit ''json'' then Json else Human\<rparr>))
      else if name = lit ''--api-version'' then
        (if gl_seenVersion g then Inl (unreadable (gl_format g)) else Inr (g\<lparr>gl_seenVersion := True, gl_apiVersion := value\<rparr>))
      else if gl_runtimeRoot g \<noteq> None then Inl (unreadable (gl_format g)) else Inr (g\<lparr>gl_runtimeRoot := Some value\<rparr>))"

text \<open>The global options, and the arguments after them. (\<open>seenRuntime\<close> is \<open>runtimeRoot !== null\<close>.)\<close>

fun readGlobals :: "cli_globals \<Rightarrow> jsstr list \<Rightarrow> parse_failure + cli_globals \<times> jsstr list" where
  "readGlobals g (name # value # args) =
     (if \<not> isGlobal name then Inr (g, name # value # args)
      else if dashed value then Inl (unreadable (if name = lit ''--format'' then Human else gl_format g))
      else ebind (readGlobal g name value) (\<lambda>g'. readGlobals g' args))"
| "readGlobals g [name] = (if \<not> isGlobal name then Inr (g, [name]) else Inl (unreadable (if name = lit ''--format'' then Human else gl_format g)))"
| "readGlobals g [] = Inr (g, [])"

text \<open>The first specification, longest paths first, whose path the arguments begin with.\<close>

definition findSpec :: "jsstr list \<Rightarrow> command_spec option" where
  "findSpec args = find (\<lambda>candidate. prefix (map lit (cs_path candidate)) args) (sort_key (\<lambda>spec. - int (length (cs_path spec))) COMMAND_SPECS)"

definition allowedOption :: "command_spec \<Rightarrow> jsstr \<Rightarrow> bool" where
  "allowedOption spec name \<longleftrightarrow> name \<in> set (map lit (cs_required spec @ cs_optional spec))"

text \<open>The options of a command: pairs of a name and a value, no name twice.\<close>

fun readOptions :: "command_spec \<Rightarrow> cli_options \<Rightarrow> jsstr list \<Rightarrow> cli_options option" where
  "readOptions spec options (name # value # args) =
     (if \<not> optionPattern name \<or> 61 \<in> set name \<or> dashed value \<or> isGlobal name then None
      else if \<not> allowedOption spec (drop 2 name) \<or> map_of options (drop 2 name) \<noteq> None then None
      else readOptions spec (options @ [(drop 2 name, value)]) args)"
| "readOptions spec options [name] = None"
| "readOptions spec options [] = Some options"

text \<open>The checks of the options against their specification.\<close>

definition checkedCommand :: "(jsstr \<Rightarrow> jsstr) \<Rightarrow> cli_globals \<Rightarrow> command_spec \<Rightarrow> cli_options \<Rightarrow> jsstr \<Rightarrow> parse_failure + cli_command" where
  "checkedCommand nfc g spec options now =
     (let missing = filter (\<lambda>name. given options name = None) (cs_required spec);
          refuse = (\<lambda>code. Inl (parseFailure (gl_format g) (cs_id spec) code));
          command = \<lparr>pc_format = gl_format g, pc_apiVersion = gl_apiVersion g, pc_runtimeRoot = gl_runtimeRoot g, pc_id = cs_id spec,
            pc_options = options\<rparr> in
      if ''acknowledge-data-loss'' \<in> set missing then refuse DataLossAckRequired
      else if ''confirm'' \<in> set missing then refuse ConfirmationRequired
      else if missing \<noteq> [] then refuse CliInvalidInput
      else (case validateOptions nfc spec options now of
          Some code \<Rightarrow> refuse code
        | None \<Rightarrow>
            if cs_id spec = ''restore'' \<and> given options ''acknowledge-data-loss'' \<noteq> Some (lit ''DISCARD CURRENT LOCAL DATA'')
            then refuse DataLossAckRequired
            else (case cc_phrase (confirmationFor command) of
                None \<Rightarrow> Inr command
              | Some phrase \<Rightarrow> if given options ''confirm'' \<noteq> Some (lit phrase) then refuse ConfirmationRequired else Inr command)))"

definition parseCliArguments :: "(jsstr \<Rightarrow> jsstr) \<Rightarrow> jsstr list \<Rightarrow> jsstr \<Rightarrow> parse_failure + cli_command" where
  "parseCliArguments nfc args now =
     ebind (readGlobals noGlobals args) (\<lambda>(g, rest).
     if args = [] \<or> length args > 64 \<or> sum_list (map encodedBytes args) > 32768 \<or> \<not> list_all (safeToken nfc) args \<or> \<not> canonicalTimestamp now
     then Inl (unreadable (gl_format g))
     else (case rest of
         [] \<Rightarrow> Inl (unreadable (gl_format g))
       | first # _ \<Rightarrow>
           if prefix (lit ''-'') first \<or> prefix (lit ''@'') first \<or> 61 \<in> set first then Inl (unreadable (gl_format g))
           else (case findSpec rest of
               None \<Rightarrow> Inl (unreadable (gl_format g))
             | Some spec \<Rightarrow>
                 if gl_apiVersion g \<noteq> lit CLI_API_VERSION then Inl (parseFailure (gl_format g) (cs_id spec) CliUnsupportedVersion)
                 else if (case gl_runtimeRoot g of None \<Rightarrow> False | Some root \<Rightarrow> \<not> absolutePath nfc 1024 root)
                 then Inl (parseFailure (gl_format g) (cs_id spec) CliInvalidInput)
                 else (case readOptions spec [] (drop (length (cs_path spec)) rest) of
                     None \<Rightarrow> Inl (parseFailure (gl_format g) (cs_id spec) CliInvalidInput)
                   | Some options \<Rightarrow> checkedCommand nfc g spec options now))))"

section \<open>The application command\<close>

text \<open>
  \<open>option\<close> and \<open>optionRevision\<close> throw where the option is absent or is no revision; the object that
  is built evaluates its properties in order. \<open>Number(limit)\<close> reads a text that was validated.
\<close>

definition option_of :: "cli_command \<Rightarrow> string \<Rightarrow> string + jsstr" where
  "option_of command name = eopt ''Parsed command option is absent'' (given (pc_options command) name)"

definition optionRevision :: "cli_command \<Rightarrow> string \<Rightarrow> string + jsval" where
  "optionRevision command name =
     ebind (option_of command name) (\<lambda>v. eopt ''Parsed revision is invalid'' (map_option jsInt (canonicalRevision v)))"

definition optionText :: "cli_command \<Rightarrow> string \<Rightarrow> string + jsval" where
  "optionText command name = ebind (option_of command name) (\<lambda>v. Inr (JStr v))"

text \<open>\<open>command.options[name] ?? null\<close>\<close>

definition optionOrNull :: "cli_command \<Rightarrow> string \<Rightarrow> jsval" where
  "optionOrNull command name = jsNullable JStr (given (pc_options command) name)"

fun objectOf :: "(string \<times> (string + jsval)) list \<Rightarrow> string + (string \<times> jsval) list" where
  "objectOf [] = Inr []"
| "objectOf ((key, v) # properties) = ebind v (\<lambda>x. ebind (objectOf properties) (\<lambda>rest. Inr ((key, x) # rest)))"

definition commandOf :: "string \<Rightarrow> (string \<times> (string + jsval)) list \<Rightarrow> string + jsval option" where
  "commandOf kind properties = ebind (objectOf ((''kind'', Inr (JStr (lit kind))) # properties)) (\<lambda>fields. Inr (Some (jsObj fields)))"

definition nested :: "(string \<times> (string + jsval)) list \<Rightarrow> string + jsval" where
  "nested properties = ebind (objectOf properties) (\<lambda>fields. Inr (jsObj fields))"

definition projectOptions :: "cli_command \<Rightarrow> (string \<times> (string + jsval)) list" where
  "projectOptions command =
     [(''projectId'', optionText command ''project-id''),
      (''expectedResourceRevision'', optionRevision command ''expected-resource-revision''),
      (''expectedConfigRevision'', optionRevision command ''expected-config-revision'')]"

definition taskOptions :: "cli_command \<Rightarrow> (string \<times> (string + jsval)) list" where
  "taskOptions command =
     [(''projectId'', optionText command ''project-id''),
      (''expectedProjectResourceRevision'', optionRevision command ''expected-project-resource-revision''),
      (''taskId'', optionText command ''task-id''),
      (''expectedTaskRevision'', optionRevision command ''expected-task-revision'')]"

definition issueCommand :: "cli_command \<Rightarrow> jsstr \<Rightarrow> string + jsval option" where
  "issueCommand command actorId =
     ebind (option_of command ''scope'') (\<lambda>scopeKind.
     let whenProject = (\<lambda>v. if scopeKind = lit ''project'' then v else Inr JNull) in
     commandOf ''authorization.grant.issue''
       [(''actorId'', Inr (JStr actorId)), (''action'', optionText command ''action''),
        (''scope'', nested
          [(''kind'', Inr (JStr scopeKind)), (''projectId'', whenProject (optionText command ''project-id'')),
           (''resourceRevision'', whenProject (optionRevision command ''expected-resource-revision'')),
           (''configRevision'', whenProject (optionRevision command ''expected-config-revision''))]),
        (''notBefore'', optionText command ''not-before''), (''expiresAt'', optionText command ''expires-at'')])"

definition applicationCommand :: "cli_command \<Rightarrow> jsstr \<Rightarrow> jsstr option \<Rightarrow> string + jsval option" where
  "applicationCommand command actorId generationId =
     (let i = pc_id command; text = optionText command; revised = optionRevision command in
      if i = ''status'' then commandOf ''runtime.status'' []
      else if i = ''authorization.list'' then commandOf ''authorization.grant.list''
        [(''limit'', ebind (option_of command ''limit'') (\<lambda>v. Inr (jsInt (digitsValue v)))),
         (''afterGrantId'', Inr (optionOrNull command ''after-grant-id''))]
      else if i = ''authorization.show'' then commandOf ''authorization.grant.inspect''
        [(''grantId'', text ''grant-id''), (''expectedGrantRevision'', revised ''expected-grant-revision'')]
      else if i = ''authorization.issue'' then issueCommand command actorId
      else if i = ''authorization.revoke'' then commandOf ''authorization.grant.revoke''
        [(''grantId'', text ''grant-id''), (''expectedGrantRevision'', revised ''expected-grant-revision'')]
      else if i = ''authorization.evaluate'' then commandOf ''policy.evaluate'' (projectOptions command @ [(''action'', text ''action'')])
      else if i = ''project.register'' then commandOf ''project.register'' [(''projectId'', text ''project-id''), (''root'', text ''root'')]
      else if i = ''project.show'' then commandOf ''project.inspect''
        [(''projectId'', text ''project-id''), (''expectedResourceRevision'', revised ''expected-resource-revision'')]
      else if i = ''project.update'' then commandOf ''project.update'' (projectOptions command)
      else if i = ''project.disable'' then commandOf ''project.disable'' (projectOptions command)
      else if i = ''task.create'' then commandOf ''task.create''
        [(''projectId'', text ''project-id''),
         (''expectedProjectResourceRevision'', revised ''expected-project-resource-revision''),
         (''taskId'', text ''task-id''), (''body'', text ''body''), (''supersedesTaskId'', Inr (optionOrNull command ''supersedes-task-id''))]
      else if i = ''task.show'' then commandOf ''task.inspect'' (taskOptions command)
      else if i = ''task.update-body'' then commandOf ''task.update''
        (taskOptions command @ [(''change'', nested [(''kind'', Inr (JStr (lit ''body''))), (''body'', text ''body'')])])
      else if i = ''task.set-parent'' then commandOf ''task.update''
        (taskOptions command @ [(''change'', nested [(''kind'', Inr (JStr (lit ''parent''))), (''parentId'', text ''parent-id'')])])
      else if i = ''task.clear-parent'' then commandOf ''task.update''
        (taskOptions command @ [(''change'', nested [(''kind'', Inr (JStr (lit ''parent''))), (''parentId'', Inr JNull)])])
      else if i = ''task.mark-ready'' then commandOf ''task.mark_ready'' (taskOptions command)
      else if i = ''task.cancel'' then commandOf ''task.cancel'' (taskOptions command @ [(''reason'', text ''reason'')])
      else if i = ''dependency.add'' \<or> i = ''dependency.remove'' then commandOf i
        (taskOptions command @ [(''dependencyId'', text ''dependency-id''), (''expectedDependencyRevision'', revised ''expected-dependency-revision'')])
      else if i = ''backup.create'' then
        (case generationId of None \<Rightarrow> Inl ''Backup generation was not allocated''
         | Some generation \<Rightarrow> commandOf ''runtime.backup'' [(''backupGenerationId'', Inr (JStr generation))])
      else if i = ''restore'' then commandOf ''runtime.restore'' [(''backupGenerationId'', text ''generation-id'')]
      else Inr None)"

end
