(* ===== verification/Command_Line_Facts.thy ===== *)
theory Command_Line_Facts
  imports Command_Line Authorization_Facts
begin

text \<open>
  What the command line guarantees of a command that it reads, and that the application service
  admits every command that is made of it.
\<close>

section \<open>Texts\<close>

lemma length_codePoints: "length v \<le> encodedBytes v"
  by (induction v rule: codePoints.induct) (auto simp: encodedBytes_def utf8Length_def)

lemma zero_codePoints: "0 \<in> set v \<Longrightarrow> 0 \<in> set (codePoints v)"
proof (induction v rule: codePoints.induct)
  case (3 c d cs)
  have "\<not> isHighSurrogate 0" "\<not> isLowSurrogate 0" by (simp_all add: isHighSurrogate_def isLowSurrogate_def)
  then show ?case using 3 by auto
qed simp_all

lemma safeToken_zero: "safeToken nfc v \<Longrightarrow> 0 \<notin> set v"
  using zero_codePoints [of v] by (auto simp: safeToken_def forbiddenCancellationText_def list_ex_iff FORBIDDEN_RANGES_def)

lemma safeToken_nonempty: "safeToken nfc v \<Longrightarrow> encodedBytes v \<le> n \<Longrightarrow> nonempty (JStr v) n"
  using length_codePoints [of v] safeToken_zero by (auto simp: nonempty_def safeToken_def)

lemma safeToken_domain: "safeToken nfc v \<Longrightarrow> domainIdentifier (JStr v)"
  by (simp add: domainIdentifier_def safeToken_def)

lemma lowerHex_alphanumeric: "lowerHex c \<Longrightarrow> alphanumeric c"
  by (auto simp: lowerHex_def alphanumeric_def isDigit_def Let_def)

lemma generationPattern_operational:
  assumes "generationPattern v"
  shows "operationalText v"
proof -
  obtain cs where cs: "chunks [8, 1, 4, 1, 1, 3, 1, 1, 3, 1, 12] v = Some cs"
    "map (\<lambda>i. cs ! i) [1, 3, 6, 9] = [lit ''-'', lit ''-'', lit ''-'', lit ''-'']"
    "cs ! 4 = lit ''4''" "cs ! 7 \<in> lit ` {''8'', ''9'', ''a'', ''b''}" "list_all (\<lambda>i. list_all lowerHex (cs ! i)) [0, 2, 5, 8, 10]"
    using assms by (auto simp: generationPattern_def split: option.splits)
  note c = chunks_Some [OF cs(1)]
  obtain a b c d e f g h i j k where split: "cs = [a, b, c, d, e, f, g, h, i, j, k]" "length a = 8"
    using c by (auto simp: map_eq_Cons_conv)
  define ok where "ok = list_all (\<lambda>u. alphanumeric u \<or> u \<in> set (lit ''._:-''))"
  have hex: "list_all lowerHex w \<Longrightarrow> ok w" for w
    using lowerHex_alphanumeric by (auto simp: ok_def list_all_iff)
  have "ok (lit ''-'')" "ok (lit ''4'')" "ok (lit ''8'')" "ok (lit ''9'')" "ok (lit ''a'')" "ok (lit ''b'')"
    by (simp_all add: ok_def lit_def alphanumeric_def)
  then have "ok a" "ok b" "ok c" "ok d" "ok e" "ok f" "ok g" "ok h" "ok i" "ok j" "ok k"
    using cs(2-5) by (auto simp: split(1) intro: hex)
  then have "ok v" using c by (auto simp: split(1) ok_def)
  moreover have "alphanumeric (hd a)" using cs(5) split(2) lowerHex_alphanumeric by (cases a) (auto simp: split(1))
  then have "alphanumeric (hd v)" using c split(2) by (auto simp: split(1) hd_append)
  moreover have "length v = 36" using chunks_length [OF cs(1)] by simp
  ultimately show ?thesis by (cases v) (auto simp: ok_def)
qed

lemma plain_surrogate: "c < 127 \<Longrightarrow> \<not> isHighSurrogate c \<and> \<not> isLowSurrogate c"
  by (auto simp: isHighSurrogate_def isLowSurrogate_def word_le_nat_alt word_less_nat_alt)

lemma plain_codePoints: "list_all (\<lambda>c. 32 \<le> c \<and> c < 127) v \<Longrightarrow> codePoints v = map unat v \<and> wellFormedText v"
  by (induction v rule: codePoints.induct) (auto simp: plain_surrogate)

lemma plain_forbidden:
  fixes c :: code_unit
  assumes "32 \<le> c" "c < 127"
  shows "\<not> list_ex (\<lambda>(a, b). a \<le> unat c \<and> unat c \<le> b) FORBIDDEN_RANGES"
  using assms by (simp add: FORBIDDEN_RANGES_def word_le_nat_alt word_less_nat_alt)

text \<open>Printable ASCII text is safe, and takes one byte a character.\<close>

lemma plain_text:
  assumes "list_all (\<lambda>c. 32 \<le> c \<and> c < 127) v"
  shows "v \<noteq> [] \<Longrightarrow> nfc v = v \<Longrightarrow> safeToken nfc v" "encodedBytes v = length v"
proof -
  note p = plain_codePoints [OF assms]
  have "\<not> forbiddenCancellationText v"
    using assms plain_forbidden p by (auto simp: forbiddenCancellationText_def list_ex_iff list_all_iff)
  then show "v \<noteq> [] \<Longrightarrow> nfc v = v \<Longrightarrow> safeToken nfc v" using p by (simp add: safeToken_def)
  have "sum_list (map (utf8Length \<circ> unat) v) = length v"
    using assms by (induction v) (auto simp: utf8Length_def word_less_nat_alt)
  then show "encodedBytes v = length v" using p by (simp add: encodedBytes_def)
qed

text \<open>A text of decimal digits without a leading zero is the text of the number that it denotes.\<close>

lemma canonicalNumber_value: "canonicalNumber v = Some n \<Longrightarrow> n = digitsValue v \<and> n \<le> MAX_SAFE_INTEGER"
  by (simp add: canonicalNumber_def split: if_splits)

lemma canonicalRevision_revision: "canonicalRevision v = Some n \<Longrightarrow> revision (jsInt n)"
  by (auto simp: canonicalRevision_def revision_def MAX_SAFE_INTEGER_def dest!: canonicalNumber_value split: option.splits if_splits)

section \<open>What a parsed command satisfies\<close>

lemma optionOkD: "optionOk options check name \<Longrightarrow> given options name = Some v \<Longrightarrow> check v"
  by (simp add: optionOk_def)

definition wellOptioned :: "(jsstr \<Rightarrow> jsstr) \<Rightarrow> cli_options \<Rightarrow> bool" where
  "wellOptioned nfc options \<longleftrightarrow>
     (\<forall>name\<in>set REVISION_OPTIONS. optionOk options (\<lambda>v. canonicalRevision v \<noteq> None) name) \<and>
     (\<forall>name\<in>{''project-id'', ''task-id'', ''dependency-id'', ''parent-id'', ''supersedes-task-id''}. optionOk options (domainId nfc) name) \<and>
     optionOk options operationalText ''grant-id'' \<and> optionOk options operationalText ''after-grant-id'' \<and>
     optionOk options generationPattern ''generation-id'' \<and>
     optionOk options canonicalTimestamp ''expires-at'' \<and> optionOk options canonicalTimestamp ''not-before'' \<and>
     optionOk options (\<lambda>v. list_ex (\<lambda>a. v = lit a) AUTHORIZATION_ACTIONS) ''action'' \<and>
     optionOk options (absolutePath nfc 1024) ''root'' \<and>
     optionOk options (\<lambda>v. safeToken nfc v \<and> \<not> encodedBytes v < 1 \<and> \<not> encodedBytes v > 16384) ''body'' \<and>
     optionOk options (\<lambda>v. isCanonicalCancellationReason nfc (JStr v)) ''reason'' \<and>
     optionOk options (\<lambda>v. \<exists>n. canonicalNumber v = Some n \<and> 1 \<le> n \<and> n \<le> 100) ''limit''"

lemma validateOptions_None:
  assumes "validateOptions nfc spec options now = None"
  shows "wellOptioned nfc options" "cs_id spec = ''authorization.issue'' \<Longrightarrow> validIssue options now"
proof -
  have unless: "((if c then Some x else y) = None) = (\<not> c \<and> y = None)" for c and x :: parse_failure_code and y by simp
  note checks = assms [unfolded validateOptions_def unless not_not list.pred_inject list_all_iff [of _ REVISION_OPTIONS]]
  have "optionOk options (\<lambda>v. \<exists>n. canonicalNumber v = Some n \<and> 1 \<le> n \<and> n \<le> 100) ''limit''"
    if "optionOk options (\<lambda>v. canonicalNumber v \<noteq> None) ''limit''"
      "optionOk options (\<lambda>v. case canonicalNumber v of Some n \<Rightarrow> \<not> n < 1 \<and> \<not> n > 100 | None \<Rightarrow> True) ''limit''"
    using that by (auto simp: optionOk_def split: option.splits)
  then show "wellOptioned nfc options"
    unfolding wellOptioned_def ball_simps using checks by blast
  show "cs_id spec = ''authorization.issue'' \<Longrightarrow> validIssue options now" using checks by blast
qed

lemma findSpec_member: "findSpec args = Some spec \<Longrightarrow> spec \<in> set COMMAND_SPECS"
  unfolding findSpec_def by (drule find_eq_Some_D) simp

theorem parseCliArguments_Inr:
  assumes "parseCliArguments nfc args now = Inr command"
  obtains spec where "spec \<in> set COMMAND_SPECS" "pc_id command = cs_id spec"
    "\<And>name. name \<in> set (cs_required spec) \<Longrightarrow> given (pc_options command) name \<noteq> None"
    "validateOptions nfc spec (pc_options command) now = None"
    "\<And>phrase. cc_phrase (confirmationFor command) = Some phrase \<Longrightarrow> given (pc_options command) ''confirm'' = Some (lit phrase)"
    "cs_id spec = ''restore'' \<Longrightarrow> given (pc_options command) ''acknowledge-data-loss'' = Some (lit ''DISCARD CURRENT LOCAL DATA'')"
proof -
  obtain g spec options where c: "findSpec (snd g) = Some spec" "checkedCommand nfc (fst g) spec options now = Inr command"
    using assms by (auto simp: parseCliArguments_def ebind_eq_Inr split: if_splits list.splits option.splits)
  show thesis
    by (rule that [OF findSpec_member [OF c(1)]])
      (use c(2) in \<open>auto simp: checkedCommand_def Let_def filter_empty_conv split: if_splits option.splits\<close>)
qed

section \<open>What the service admits\<close>

text \<open>A command object with the fields that \<open>parseCommand\<close> expects of its kind.\<close>

lemma commandKindOf_jsObj:
  "kind \<in> set BASE_AUTHORIZATION_ACTIONS \<Longrightarrow> commandKindOf (jsObj ((''kind'', JStr (lit kind)) # rest)) = Some kind"
proof -
  assume k: "kind \<in> set BASE_AUTHORIZATION_ACTIONS"
  have "isLit (JStr (lit kind)) = (\<lambda>a. a = kind)" by (auto simp: isLit_def)
  moreover have "find (\<lambda>a. a = kind) xs = Some kind" if "kind \<in> set xs" for xs
    using that by (induction xs) auto
  ultimately show ?thesis using k by (simp add: commandKindOf_def jsObj_def)
qed

lemma parseCommand_jsObj:
  assumes "kind \<in> set BASE_AUTHORIZATION_ACTIONS" "map fst rest = tl (expectedKeys kind)" "hd (expectedKeys kind) = ''kind''" "expectedKeys kind \<noteq> []"
  shows "parseCommand nfc (jsObj ((''kind'', JStr (lit kind)) # rest)) =
    (let record = map (\<lambda>(k, v). (lit k, v)) ((''kind'', JStr (lit kind)) # rest) in
     if kind \<in> {''authorization.grant.list'', ''runtime.status'', ''runtime.backup'', ''runtime.restore'',
        ''authorization.grant.issue'', ''authorization.grant.inspect'', ''authorization.grant.revoke''}
     then readRuntimeCommand kind record
     else if kind \<in> {''policy.evaluate'', ''project.register'', ''project.update'', ''project.disable'', ''project.inspect''}
     then readProjectCommand kind record
     else readTaskCommand nfc kind record)"
proof -
  have keys: "expectedKeys kind = ''kind'' # map fst rest" using assms(2-4) by (cases "expectedKeys kind") auto
  have "exactRecord (jsObj ((''kind'', JStr (lit kind)) # rest)) (expectedKeys kind) =
      Some (map (\<lambda>(k, v). (lit k, v)) ((''kind'', JStr (lit kind)) # rest))"
    unfolding exactRecord_def keys by (rule readExactRecord_jsObj) auto
  then show ?thesis by (simp add: parseCommand_def commandKindOf_jsObj [OF assms(1)])
qed

text \<open>The fields that a well-optioned command has.\<close>

lemma optionText_Inr: "given (pc_options command) name = Some v \<Longrightarrow> optionText command name = Inr (JStr v)"
  by (simp add: optionText_def option_of_def)

lemma fld_project:
  assumes "wellOptioned nfc (pc_options command)" "given (pc_options command) name \<noteq> None"
    "name \<in> {''project-id'', ''task-id'', ''dependency-id'', ''parent-id'', ''supersedes-task-id''}"
  obtains v where "given (pc_options command) name = Some v" "optionText command name = Inr (JStr v)" "domainIdentifier (JStr v)"
proof -
  obtain v where v: "given (pc_options command) name = Some v" using assms(2) by blast
  have "optionOk (pc_options command) (domainId nfc) name" using assms(1,3) by (simp only: wellOptioned_def)
  then have "domainId nfc v" by (rule optionOkD [OF _ v])
  then have "domainIdentifier (JStr v)" unfolding domainId_def by (blast intro: safeToken_domain)
  then show thesis by (rule that [OF v optionText_Inr [OF v]])
qed

lemma fld_revision:
  assumes "wellOptioned nfc (pc_options command)" "given (pc_options command) name \<noteq> None" "name \<in> set REVISION_OPTIONS"
  obtains n where "optionRevision command name = Inr (jsInt n)" "revision (jsInt n)"
proof -
  obtain v where v: "given (pc_options command) name = Some v" using assms(2) by blast
  have "optionOk (pc_options command) (\<lambda>v. canonicalRevision v \<noteq> None) name" using assms(1,3) by (simp only: wellOptioned_def)
  then have "canonicalRevision v \<noteq> None" by (rule optionOkD [OF _ v])
  then obtain n where "canonicalRevision v = Some n" by blast
  then show thesis using that [of n] canonicalRevision_revision v by (simp add: optionRevision_def option_of_def)
qed

lemma fld_text:
  assumes "given (pc_options command) name \<noteq> None" "optionOk (pc_options command) check name"
  obtains v where "optionText command name = Inr (JStr v)" "check v"
  using assms optionText_Inr optionOkD by blast

text \<open>The three groups of commands: a command object that is admitted.\<close>

definition admitted :: "(jsstr \<Rightarrow> jsstr) \<Rightarrow> string \<Rightarrow> string + jsval option \<Rightarrow> bool" where
  "admitted nfc kind r \<longleftrightarrow> (\<exists>v command. r = Inr (Some v) \<and> parseCommand nfc v = Some command \<and> commandKind command = kind)"

lemmas admission = parseCommand_jsObj expectedKeys_def BASE_AUTHORIZATION_ACTIONS_def readRuntimeCommand_def readProjectCommand_def
  readTaskCommand_def Let_def fld_Cons

lemma admitted_plain:
  "admitted nfc ''runtime.status'' (commandOf ''runtime.status'' [])"
  "operationalText i \<Longrightarrow> admitted nfc ''runtime.backup'' (commandOf ''runtime.backup'' [(''backupGenerationId'', Inr (JStr i))])"
  "operationalText i \<Longrightarrow> admitted nfc ''runtime.restore'' (commandOf ''runtime.restore'' [(''backupGenerationId'', Inr (JStr i))])"
  "operationalText i \<Longrightarrow> revision (jsInt n) \<Longrightarrow> kind = ''authorization.grant.inspect'' \<or> kind = ''authorization.grant.revoke'' \<Longrightarrow>
     admitted nfc kind (commandOf kind [(''grantId'', Inr (JStr i)), (''expectedGrantRevision'', Inr (jsInt n))])"
  by (auto simp: admitted_def commandOf_def admission operationalIdentifier_def)

lemma admitted_list:
  "1 \<le> n \<Longrightarrow> n \<le> 100 \<Longrightarrow> pred_option operationalText after \<Longrightarrow>
     admitted nfc ''authorization.grant.list''
       (commandOf ''authorization.grant.list'' [(''limit'', Inr (jsInt n)), (''afterGrantId'', Inr (jsNullable JStr after))])"
  by (cases after) (auto simp: admitted_def commandOf_def admission operationalIdentifier_def MAX_SAFE_INTEGER_def jsNullable_def nullable_def)

lemma admitted_project:
  assumes "domainIdentifier (JStr p)" "revision (jsInt m)" "revision (jsInt n)"
  shows "list_ex (\<lambda>b. a = lit b) AUTHORIZATION_ACTIONS \<Longrightarrow> admitted nfc ''policy.evaluate'' (commandOf ''policy.evaluate''
      [(''projectId'', Inr (JStr p)), (''expectedResourceRevision'', Inr (jsInt m)), (''expectedConfigRevision'', Inr (jsInt n)),
       (''action'', Inr (JStr a))])"
    "nonempty (JStr root) 4096 \<Longrightarrow> admitted nfc ''project.register'' (commandOf ''project.register''
      [(''projectId'', Inr (JStr p)), (''root'', Inr (JStr root))])"
    "admitted nfc ''project.inspect'' (commandOf ''project.inspect''
      [(''projectId'', Inr (JStr p)), (''expectedResourceRevision'', Inr (jsInt m))])"
    "kind = ''project.update'' \<or> kind = ''project.disable'' \<Longrightarrow> admitted nfc kind (commandOf kind
      [(''projectId'', Inr (JStr p)), (''expectedResourceRevision'', Inr (jsInt m)), (''expectedConfigRevision'', Inr (jsInt n))])"
  using assms by (auto simp: admitted_def commandOf_def admission isAuthorizationAction_def isLit_def)

lemma admitted_create:
  assumes "domainIdentifier (JStr p)" "revision (jsInt m)" "domainIdentifier (JStr t)" "nonempty (JStr body) 16384"
    "pred_option (\<lambda>i. domainIdentifier (JStr i)) supersedes"
  shows "admitted nfc ''task.create'' (commandOf ''task.create''
    [(''projectId'', Inr (JStr p)), (''expectedProjectResourceRevision'', Inr (jsInt m)), (''taskId'', Inr (JStr t)), (''body'', Inr (JStr body)),
     (''supersedesTaskId'', Inr (jsNullable JStr supersedes))])"
  using assms by (cases supersedes) (auto simp: admitted_def commandOf_def admission jsNullable_def nullable_def)

abbreviation taskObject :: "jsstr \<Rightarrow> int \<Rightarrow> jsstr \<Rightarrow> int \<Rightarrow> (string \<times> (string + jsval)) list" where
  "taskObject p m t n \<equiv> [(''projectId'', Inr (JStr p)), (''expectedProjectResourceRevision'', Inr (jsInt m)), (''taskId'', Inr (JStr t)),
     (''expectedTaskRevision'', Inr (jsInt n))]"

lemma parseChange_jsObj:
  "nonempty (JStr body) 16384 \<Longrightarrow> parseChange (jsObj [(''kind'', JStr (lit ''body'')), (''body'', JStr body)]) = Some (BodyChange body)"
  "parent = JNull \<or> domainIdentifier parent \<Longrightarrow>
     parseChange (jsObj [(''kind'', JStr (lit ''parent'')), (''parentId'', parent)]) = Some (ParentChange (nullable strOf parent))"
proof -
  have own: "parseChange (jsObj ((''kind'', JStr (lit k)) # rest)) =
      (if k = ''body'' then
         (case exactRecord (jsObj ((''kind'', JStr (lit k)) # rest)) [''kind'', ''body''] of None \<Rightarrow> None
          | Some change \<Rightarrow> if nonempty (fld change ''body'') 16384 then Some (BodyChange (strOf (fld change ''body''))) else None)
       else if k = ''parent'' then
         (case exactRecord (jsObj ((''kind'', JStr (lit k)) # rest)) [''kind'', ''parentId''] of None \<Rightarrow> None
          | Some change \<Rightarrow> if fld change ''parentId'' = JNull \<or> domainIdentifier (fld change ''parentId'')
              then Some (ParentChange (nullable strOf (fld change ''parentId''))) else None)
       else None)" for k rest
    by (simp add: parseChange_def jsObj_def isLit_def)
  show "nonempty (JStr body) 16384 \<Longrightarrow> parseChange (jsObj [(''kind'', JStr (lit ''body'')), (''body'', JStr body)]) = Some (BodyChange body)"
    "parent = JNull \<or> domainIdentifier parent \<Longrightarrow>
     parseChange (jsObj [(''kind'', JStr (lit ''parent'')), (''parentId'', parent)]) = Some (ParentChange (nullable strOf parent))"
    unfolding own by (simp_all add: exactRecord_def readExactRecord_jsObj fld_Cons)
qed

lemma admitted_task:
  assumes "domainIdentifier (JStr p)" "revision (jsInt m)" "domainIdentifier (JStr t)" "revision (jsInt n)"
  shows "admitted nfc ''task.inspect'' (commandOf ''task.inspect'' (taskObject p m t n))"
    "admitted nfc ''task.mark_ready'' (commandOf ''task.mark_ready'' (taskObject p m t n))"
    "parseChange c = Some change \<Longrightarrow> admitted nfc ''task.update'' (commandOf ''task.update'' (taskObject p m t n @ [(''change'', Inr c)]))"
    "isCanonicalCancellationReason nfc (JStr r) \<Longrightarrow>
       admitted nfc ''task.cancel'' (commandOf ''task.cancel'' (taskObject p m t n @ [(''reason'', Inr (JStr r))]))"
    "kind = ''dependency.add'' \<or> kind = ''dependency.remove'' \<Longrightarrow> domainIdentifier (JStr d) \<Longrightarrow> revision (jsInt k) \<Longrightarrow>
       admitted nfc kind (commandOf kind (taskObject p m t n @
         [(''dependencyId'', Inr (JStr d)), (''expectedDependencyRevision'', Inr (jsInt k))]))"
  using assms by (auto simp: admitted_def commandOf_def admission)

lemma admitted_issue:
  assumes "operationalText actor" "list_ex (\<lambda>b. a = lit b) AUTHORIZATION_ACTIONS" "canonicalTimestamp x" "canonicalTimestamp y"
    "parseScope scope = Some sc"
  shows "admitted nfc ''authorization.grant.issue'' (commandOf ''authorization.grant.issue''
    [(''actorId'', Inr (JStr actor)), (''action'', Inr (JStr a)), (''scope'', Inr scope), (''notBefore'', Inr (JStr x)),
     (''expiresAt'', Inr (JStr y))])"
  using assms by (auto simp: admitted_def commandOf_def admission operationalIdentifier_def isAuthorizationAction_def isLit_def timestamp_def canonicalTimestamp_def)

end
