(* ===== verification/Command_Line_Properties.thy ===== *)
theory Command_Line_Properties
  imports Command_Line_Facts
begin

text \<open>
  The properties of the command line: what it reads is admitted by the application service, and a
  command of high risk is only read with its confirmation.
\<close>

section \<open>Every command that is read is admitted\<close>

text \<open>The action of the application service that a command of the command line stands for.\<close>

definition ROUTED_KINDS :: "(string \<times> string) list" where
  "ROUTED_KINDS =
     [(''status'', ''runtime.status''), (''authorization.list'', ''authorization.grant.list''),
      (''authorization.show'', ''authorization.grant.inspect''), (''authorization.issue'', ''authorization.grant.issue''),
      (''authorization.revoke'', ''authorization.grant.revoke''), (''authorization.evaluate'', ''policy.evaluate''),
      (''project.register'', ''project.register''), (''project.show'', ''project.inspect''), (''project.update'', ''project.update''),
      (''project.disable'', ''project.disable''), (''task.create'', ''task.create''), (''task.show'', ''task.inspect''),
      (''task.update-body'', ''task.update''), (''task.set-parent'', ''task.update''), (''task.clear-parent'', ''task.update''),
      (''task.mark-ready'', ''task.mark_ready''), (''task.cancel'', ''task.cancel''), (''dependency.add'', ''dependency.add''),
      (''dependency.remove'', ''dependency.remove''), (''backup.create'', ''runtime.backup''), (''restore'', ''runtime.restore'')]"

definition routedKind :: "string \<Rightarrow> string option" where
  "routedKind = map_of ROUTED_KINDS"

lemmas routes = routedKind_def ROUTED_KINDS_def

definition requiredOf :: "string \<Rightarrow> string list" where
  "requiredOf i = concat (map cs_required (filter (\<lambda>spec. cs_id spec = i) COMMAND_SPECS))"

lemma requiredOf_spec: "spec \<in> set COMMAND_SPECS \<Longrightarrow> requiredOf (cs_id spec) = cs_required spec"
proof -
  have "list_all (\<lambda>spec. requiredOf (cs_id spec) = cs_required spec) COMMAND_SPECS" by code_simp
  then show "spec \<in> set COMMAND_SPECS \<Longrightarrow> requiredOf (cs_id spec) = cs_required spec" by (simp add: list_all_iff)
qed

text \<open>What is known of a command that was read, by its identifier.\<close>

definition complete :: "(jsstr \<Rightarrow> jsstr) \<Rightarrow> cli_command \<Rightarrow> bool" where
  "complete nfc command \<longleftrightarrow> wellOptioned nfc (pc_options command) \<and>
     (\<forall>name\<in>set (requiredOf (pc_id command)). given (pc_options command) name \<noteq> None)"

lemma parsed_complete: "parseCliArguments nfc args now = Inr command \<Longrightarrow> complete nfc command"
  by (erule parseCliArguments_Inr) (auto simp: complete_def requiredOf_spec dest: validateOptions_None(1))

lemma completeD:
  assumes "complete nfc command" "pc_id command = i" "list_all (\<lambda>name. name \<in> set (requiredOf i)) names"
  shows "wellOptioned nfc (pc_options command)" "\<forall>name\<in>set names. given (pc_options command) name \<noteq> None"
  using assms by (auto simp: complete_def list_all_iff)

lemma wellOptionedD:
  assumes "wellOptioned nfc options"
  shows "optionOk options (\<lambda>v. safeToken nfc v \<and> \<not> encodedBytes v < 1 \<and> \<not> encodedBytes v > 16384) ''body''"
    "optionOk options (\<lambda>v. isCanonicalCancellationReason nfc (JStr v)) ''reason''"
    "optionOk options operationalText ''grant-id''" "optionOk options operationalText ''after-grant-id''"
    "optionOk options generationPattern ''generation-id''"
    "optionOk options canonicalTimestamp ''expires-at''" "optionOk options canonicalTimestamp ''not-before''"
    "optionOk options (\<lambda>v. list_ex (\<lambda>a. v = lit a) AUTHORIZATION_ACTIONS) ''action''"
    "optionOk options (absolutePath nfc 1024) ''root''"
    "optionOk options (\<lambda>v. \<exists>n. canonicalNumber v = Some n \<and> 1 \<le> n \<and> n \<le> 100) ''limit''"
  using assms by (simp_all only: wellOptioned_def)

lemma task_fields:
  assumes "complete nfc command" "pc_id command = i" "list_all (\<lambda>name. name \<in> set (requiredOf i)) taskFields"
  obtains p m t n where "taskOptions command = taskObject p m t n" "domainIdentifier (JStr p)" "revision (jsInt m)"
    "domainIdentifier (JStr t)" "revision (jsInt n)"
proof -
  note c = completeD [OF assms, unfolded taskFields_def, simplified]
  obtain p where "optionText command ''project-id'' = Inr (JStr p)" "domainIdentifier (JStr p)"
    by (rule fld_project [OF c(1), of "''project-id''"]) (use c(2) in auto)
  moreover obtain t where "optionText command ''task-id'' = Inr (JStr t)" "domainIdentifier (JStr t)"
    by (rule fld_project [OF c(1), of "''task-id''"]) (use c(2) in auto)
  moreover obtain m where "optionRevision command ''expected-project-resource-revision'' = Inr (jsInt m)" "revision (jsInt m)"
    by (rule fld_revision [OF c(1), of "''expected-project-resource-revision''"]) (use c(2) in \<open>auto simp: REVISION_OPTIONS_def\<close>)
  moreover obtain n where "optionRevision command ''expected-task-revision'' = Inr (jsInt n)" "revision (jsInt n)"
    by (rule fld_revision [OF c(1), of "''expected-task-revision''"]) (use c(2) in \<open>auto simp: REVISION_OPTIONS_def\<close>)
  ultimately show thesis using that [of p m t n] by (simp add: taskOptions_def)
qed

lemma project_fields:
  assumes "complete nfc command" "pc_id command = i"
    "list_all (\<lambda>name. name \<in> set (requiredOf i)) [''project-id'', ''expected-resource-revision'', ''expected-config-revision'']"
  obtains p m n where "projectOptions command = [(''projectId'', Inr (JStr p)), (''expectedResourceRevision'', Inr (jsInt m)),
      (''expectedConfigRevision'', Inr (jsInt n))]" "domainIdentifier (JStr p)" "revision (jsInt m)" "revision (jsInt n)"
proof -
  note c = completeD [OF assms, simplified]
  obtain p where "optionText command ''project-id'' = Inr (JStr p)" "domainIdentifier (JStr p)"
    by (rule fld_project [OF c(1), of "''project-id''"]) (use c(2) in auto)
  moreover obtain m where "optionRevision command ''expected-resource-revision'' = Inr (jsInt m)" "revision (jsInt m)"
    by (rule fld_revision [OF c(1), of "''expected-resource-revision''"]) (use c(2) in \<open>auto simp: REVISION_OPTIONS_def\<close>)
  moreover obtain n where "optionRevision command ''expected-config-revision'' = Inr (jsInt n)" "revision (jsInt n)"
    by (rule fld_revision [OF c(1), of "''expected-config-revision''"]) (use c(2) in \<open>auto simp: REVISION_OPTIONS_def\<close>)
  ultimately show thesis using that [of p m n] by (simp add: projectOptions_def)
qed

text \<open>Each group of identifiers.\<close>

lemma route_task:
  assumes "complete nfc command" "pc_id command \<in> {''task.show'', ''task.mark-ready'', ''task.update-body'', ''task.set-parent'', ''task.clear-parent'',
    ''task.cancel'', ''dependency.add'', ''dependency.remove''}"
  shows "\<exists>kind. routedKind (pc_id command) = Some kind \<and> admitted nfc kind (applicationCommand command actorId generationId)"
proof -
  have "list_all (\<lambda>i. list_all (\<lambda>name. name \<in> set (requiredOf i)) taskFields)
      [''task.show'', ''task.mark-ready'', ''task.update-body'', ''task.set-parent'', ''task.clear-parent'', ''task.cancel'', ''dependency.add'', ''dependency.remove'']"
    by code_simp
  then have "list_all (\<lambda>name. name \<in> set (requiredOf (pc_id command))) taskFields" using assms(2) by auto
  then obtain p m t n where f: "taskOptions command = taskObject p m t n" "domainIdentifier (JStr p)" "revision (jsInt m)"
    "domainIdentifier (JStr t)" "revision (jsInt n)" by (rule task_fields [OF assms(1) refl])
  note a = admitted_task [OF f(2-5), where nfc = nfc]
  have w: "wellOptioned nfc (pc_options command)" using assms(1) by (simp add: complete_def)
  have has: "given (pc_options command) name \<noteq> None" if "name \<in> set (requiredOf (pc_id command))" for name
    using assms(1) that by (simp add: complete_def)
  consider "pc_id command = ''task.show''" | "pc_id command = ''task.mark-ready''" | "pc_id command = ''task.update-body''"
    | "pc_id command = ''task.set-parent''" | "pc_id command = ''task.clear-parent''" | "pc_id command = ''task.cancel''"
    | "pc_id command = ''dependency.add'' \<or> pc_id command = ''dependency.remove''" using assms(2) by blast
  then show ?thesis
  proof cases
    case 3
    have "''body'' \<in> set (requiredOf ''task.update-body'')" by code_simp
    then obtain body where body: "optionText command ''body'' = Inr (JStr body)" "safeToken nfc body \<and> \<not> encodedBytes body < 1 \<and> \<not> encodedBytes body > 16384"
      by (rule fld_text [OF has [unfolded 3] wellOptionedD(1) [OF w]])
    have "parseChange (jsObj [(''kind'', JStr (lit ''body'')), (''body'', JStr body)]) = Some (BodyChange body)"
      using body(2) by (intro parseChange_jsObj safeToken_nonempty) auto
    from a(3) [OF this] show ?thesis by (simp add: 3 routes applicationCommand_def f(1) body(1) nested_def)
  next
    case 4
    have "''parent-id'' \<in> set (requiredOf ''task.set-parent'')" by code_simp
    then obtain parent where parent: "optionText command ''parent-id'' = Inr (JStr parent)" "domainIdentifier (JStr parent)"
      using fld_project [OF w has [unfolded 4], of "''parent-id''"] by auto
    from a(3) [OF parseChange_jsObj(2) [OF disjI2 [OF parent(2)]]] show ?thesis
      by (simp add: 4 routes applicationCommand_def f(1) parent(1) nested_def)
  next
    case 5
    from a(3) [OF parseChange_jsObj(2) [OF disjI1 [OF refl]]] show ?thesis
      by (simp add: 5 routes applicationCommand_def f(1) nested_def)
  next
    case 6
    have "''reason'' \<in> set (requiredOf ''task.cancel'')" by code_simp
    then obtain r where r: "optionText command ''reason'' = Inr (JStr r)" "isCanonicalCancellationReason nfc (JStr r)"
      by (rule fld_text [OF has [unfolded 6] wellOptionedD(2) [OF w]])
    from a(4) [OF r(2)] show ?thesis by (simp add: 6 routes applicationCommand_def f(1) r(1))
  next
    case 7
    have "list_all (\<lambda>i. ''dependency-id'' \<in> set (requiredOf i) \<and> ''expected-dependency-revision'' \<in> set (requiredOf i)) [''dependency.add'', ''dependency.remove'']"
      by code_simp
    then have here: "''dependency-id'' \<in> set (requiredOf (pc_id command))" "''expected-dependency-revision'' \<in> set (requiredOf (pc_id command))"
      using 7 by auto
    obtain d where d: "optionText command ''dependency-id'' = Inr (JStr d)" "domainIdentifier (JStr d)"
      using fld_project [OF w has [OF here(1)]] by auto
    obtain k where k: "optionRevision command ''expected-dependency-revision'' = Inr (jsInt k)" "revision (jsInt k)"
      using fld_revision [OF w has [OF here(2)]] by (auto simp: REVISION_OPTIONS_def)
    note depend = a(5) [OF _ d(2) k(2), simplified]
    from 7 show ?thesis by (elim disjE) (simp_all add: routes applicationCommand_def f(1) d(1) k(1) depend)
  qed (use a(1,2) in \<open>simp_all add: routes applicationCommand_def f(1)\<close>)
qed

lemma requiredOf_list:
  "set (requiredOf ''authorization.list'') = {''limit''}"
  "set (requiredOf ''authorization.issue'') = {''action'', ''scope'', ''not-before'', ''expires-at'', ''confirm''}"
  "set (requiredOf ''task.create'') = {''project-id'', ''expected-project-resource-revision'', ''task-id'', ''body''}"
  "set (requiredOf ''restore'') = {''generation-id'', ''confirm'', ''acknowledge-data-loss''}"
  "set (requiredOf ''project.register'') = {''project-id'', ''root'', ''confirm''}"
  "set (requiredOf ''project.show'') = {''project-id'', ''expected-resource-revision''}"
  by code_simp+

lemma optionOrNull_ok:
  assumes "optionOk (pc_options command) check name"
  obtains v where "optionOrNull command name = jsNullable JStr v" "pred_option check v"
  using assms that [of None] that [of "Some v" for v] by (cases "given (pc_options command) name") (auto simp: optionOrNull_def optionOk_def)

lemma absolutePath_nonempty: "absolutePath nfc m v \<Longrightarrow> m \<le> n \<Longrightarrow> nonempty (JStr v) n"
  by (rule safeToken_nonempty [of nfc]) (auto simp: absolutePath_def)

lemma revision_one: "revision (jsInt 1)"
  by (simp add: revision_def MAX_SAFE_INTEGER_def)

lemma route_project:
  assumes "complete nfc command"
    "pc_id command \<in> {''authorization.evaluate'', ''project.register'', ''project.show'', ''project.update'', ''project.disable''}"
  shows "\<exists>kind. routedKind (pc_id command) = Some kind \<and> admitted nfc kind (applicationCommand command actorId generationId)"
proof -
  have w: "wellOptioned nfc (pc_options command)" using assms(1) by (simp add: complete_def)
  have has: "given (pc_options command) name \<noteq> None" if "name \<in> set (requiredOf (pc_id command))" for name
    using assms(1) that by (simp add: complete_def)
  have three: "list_all (\<lambda>i. list_all (\<lambda>name. name \<in> set (requiredOf i)) [''project-id'', ''expected-resource-revision'', ''expected-config-revision''])
      [''authorization.evaluate'', ''project.update'', ''project.disable'']" by code_simp
  consider "pc_id command = ''authorization.evaluate''" | "pc_id command = ''project.register''" | "pc_id command = ''project.show''"
    | "pc_id command = ''project.update'' \<or> pc_id command = ''project.disable''" using assms(2) by blast
  then show ?thesis
  proof cases
    case 1
    then obtain p m n where f: "projectOptions command = [(''projectId'', Inr (JStr p)), (''expectedResourceRevision'', Inr (jsInt m)),
        (''expectedConfigRevision'', Inr (jsInt n))]" "domainIdentifier (JStr p)" "revision (jsInt m)" "revision (jsInt n)"
      using project_fields [OF assms(1) 1] three by auto
    have "''action'' \<in> set (requiredOf ''authorization.evaluate'')" by code_simp
    then obtain a where a: "optionText command ''action'' = Inr (JStr a)" "list_ex (\<lambda>b. a = lit b) AUTHORIZATION_ACTIONS"
      by (rule fld_text [OF has [unfolded 1] wellOptionedD(8) [OF w]])
    from admitted_project(1) [OF f(2-4) a(2), where nfc = nfc] show ?thesis by (simp add: 1 routes applicationCommand_def f(1) a(1))
  next
    case 2
    obtain p where p: "optionText command ''project-id'' = Inr (JStr p)" "domainIdentifier (JStr p)"
      by (rule fld_project [OF w has, of "''project-id''"]) (auto simp: 2 requiredOf_list)
    have "''root'' \<in> set (requiredOf ''project.register'')" by (simp add: requiredOf_list)
    then obtain root where root: "optionText command ''root'' = Inr (JStr root)" "absolutePath nfc 1024 root"
      by (rule fld_text [OF has [unfolded 2] wellOptionedD(9) [OF w]])
    from admitted_project(2) [OF p(2) revision_one revision_one absolutePath_nonempty [OF root(2)], where nfc = nfc]
    show ?thesis by (simp add: 2 routes applicationCommand_def p(1) root(1))
  next
    case 3
    obtain p where p: "optionText command ''project-id'' = Inr (JStr p)" "domainIdentifier (JStr p)"
      by (rule fld_project [OF w has, of "''project-id''"]) (auto simp: 3 requiredOf_list)
    obtain m where m: "optionRevision command ''expected-resource-revision'' = Inr (jsInt m)" "revision (jsInt m)"
      by (rule fld_revision [OF w has, of "''expected-resource-revision''"]) (auto simp: 3 requiredOf_list REVISION_OPTIONS_def)
    from admitted_project(3) [OF p(2) m(2) revision_one, where nfc = nfc]
    show ?thesis by (simp add: 3 routes applicationCommand_def p(1) m(1))
  next
    case 4
    have "list_all (\<lambda>name. name \<in> set (requiredOf (pc_id command))) [''project-id'', ''expected-resource-revision'', ''expected-config-revision'']"
      using 4 three by auto
    then obtain p m n where f: "projectOptions command = [(''projectId'', Inr (JStr p)), (''expectedResourceRevision'', Inr (jsInt m)),
        (''expectedConfigRevision'', Inr (jsInt n))]" "domainIdentifier (JStr p)" "revision (jsInt m)" "revision (jsInt n)"
      by (rule project_fields [OF assms(1) refl])
    note a = admitted_project(4) [OF f(2-4), where nfc = nfc]
    from 4 show ?thesis by (elim disjE) (simp_all add: routes applicationCommand_def f(1) a)
  qed
qed

lemma route_plain:
  assumes "complete nfc command" "pred_option generationPattern generationId"
    "pc_id command \<in> {''status'', ''backup.create'', ''restore'', ''authorization.show'', ''authorization.revoke'', ''authorization.list''}"
    "pc_id command = ''backup.create'' \<longrightarrow> generationId \<noteq> None"
  shows "\<exists>kind. routedKind (pc_id command) = Some kind \<and> admitted nfc kind (applicationCommand command actorId generationId)"
proof -
  have w: "wellOptioned nfc (pc_options command)" using assms(1) by (simp add: complete_def)
  have has: "given (pc_options command) name \<noteq> None" if "name \<in> set (requiredOf (pc_id command))" for name
    using assms(1) that by (simp add: complete_def)
  consider "pc_id command = ''status''" | "pc_id command = ''backup.create''" | "pc_id command = ''restore''"
    | "pc_id command = ''authorization.show'' \<or> pc_id command = ''authorization.revoke''" | "pc_id command = ''authorization.list''"
    using assms(3) by blast
  then show ?thesis
  proof cases
    case 1
    then show ?thesis by (simp add: routes applicationCommand_def admitted_plain(1))
  next
    case 2
    then obtain i where i: "generationId = Some i" "operationalText i" using assms(2,4) generationPattern_operational by auto
    show ?thesis using admitted_plain(2) [OF i(2), where nfc = nfc] by (simp add: 2 routes applicationCommand_def i(1))
  next
    case 3
    have "''generation-id'' \<in> set (requiredOf ''restore'')" by (simp add: requiredOf_list)
    then obtain i where i: "optionText command ''generation-id'' = Inr (JStr i)" "generationPattern i"
      by (rule fld_text [OF has [unfolded 3] wellOptionedD(5) [OF w]])
    show ?thesis using admitted_plain(3) [OF generationPattern_operational [OF i(2)], where nfc = nfc]
      by (simp add: 3 routes applicationCommand_def i(1))
  next
    case 4
    have "list_all (\<lambda>i. ''grant-id'' \<in> set (requiredOf i) \<and> ''expected-grant-revision'' \<in> set (requiredOf i)) [''authorization.show'', ''authorization.revoke'']"
      by code_simp
    then have here: "''grant-id'' \<in> set (requiredOf (pc_id command))" "''expected-grant-revision'' \<in> set (requiredOf (pc_id command))"
      using 4 by auto
    obtain i where i: "optionText command ''grant-id'' = Inr (JStr i)" "operationalText i"
      by (rule fld_text [OF has [OF here(1)] wellOptionedD(3) [OF w]])
    obtain n where n: "optionRevision command ''expected-grant-revision'' = Inr (jsInt n)" "revision (jsInt n)"
      using fld_revision [OF w has [OF here(2)]] by (auto simp: REVISION_OPTIONS_def)
    note a = admitted_plain(4) [OF i(2) n(2), where nfc = nfc]
    from 4 show ?thesis by (elim disjE) (simp_all add: routes applicationCommand_def i(1) n(1) a)
  next
    case 5
    have "''limit'' \<in> set (requiredOf ''authorization.list'')" by (simp add: requiredOf_list)
    then obtain v where v: "given (pc_options command) ''limit'' = Some v" using has [unfolded 5] by blast
    obtain n where n: "canonicalNumber v = Some n" "1 \<le> n" "n \<le> 100" using optionOkD [OF wellOptionedD(10) [OF w] v] by blast
    obtain after where after: "optionOrNull command ''after-grant-id'' = jsNullable JStr after" "pred_option operationalText after"
      by (rule optionOrNull_ok [OF wellOptionedD(4) [OF w]])
    have limit: "ebind (option_of command ''limit'') (\<lambda>v. Inr (jsInt (digitsValue v))) = (Inr (jsInt n) :: string + jsval)"
      using canonicalNumber_value [OF n(1)] by (simp add: option_of_def v)
    from admitted_list [OF n(2,3) after(2), where nfc = nfc] show ?thesis
      by (simp add: 5 routes applicationCommand_def limit after(1))
  qed
qed

lemma route_create:
  assumes "complete nfc command" "pc_id command = ''task.create''"
  shows "\<exists>kind. routedKind (pc_id command) = Some kind \<and> admitted nfc kind (applicationCommand command actorId generationId)"
proof -
  have w: "wellOptioned nfc (pc_options command)" using assms(1) by (simp add: complete_def)
  have has: "given (pc_options command) name \<noteq> None" if "name \<in> set (requiredOf ''task.create'')" for name
    using assms that by (simp add: complete_def)
  obtain p where p: "optionText command ''project-id'' = Inr (JStr p)" "domainIdentifier (JStr p)"
    by (rule fld_project [OF w has, of "''project-id''"]) (auto simp: requiredOf_list)
  obtain t where t: "optionText command ''task-id'' = Inr (JStr t)" "domainIdentifier (JStr t)"
    by (rule fld_project [OF w has, of "''task-id''"]) (auto simp: requiredOf_list)
  obtain m where m: "optionRevision command ''expected-project-resource-revision'' = Inr (jsInt m)" "revision (jsInt m)"
    by (rule fld_revision [OF w has, of "''expected-project-resource-revision''"]) (auto simp: requiredOf_list REVISION_OPTIONS_def)
  have "''body'' \<in> set (requiredOf ''task.create'')" by (simp add: requiredOf_list)
  then obtain body where body: "optionText command ''body'' = Inr (JStr body)" "safeToken nfc body \<and> \<not> encodedBytes body < 1 \<and> \<not> encodedBytes body > 16384"
    by (rule fld_text [OF has wellOptionedD(1) [OF w]])
  have "optionOk (pc_options command) (domainId nfc) ''supersedes-task-id''" using w by (simp only: wellOptioned_def ball_simps simp_thms)
  then obtain s where s: "optionOrNull command ''supersedes-task-id'' = jsNullable JStr s" "pred_option (domainId nfc) s" by (rule optionOrNull_ok)
  have s': "pred_option (\<lambda>i. domainIdentifier (JStr i)) s" using s(2) by (cases s) (auto simp: domainId_def intro: safeToken_domain)
  have "nonempty (JStr body) 16384" using body(2) by (intro safeToken_nonempty) auto
  from admitted_create [OF p(2) m(2) t(2) this s', where nfc = nfc] show ?thesis
    by (simp add: assms(2) routes applicationCommand_def p(1) m(1) t(1) body(1) s(1))
qed

lemma route_issue:
  assumes "complete nfc command" "pc_id command = ''authorization.issue''" "validIssue (pc_options command) now" "operationalText actorId"
  shows "\<exists>kind. routedKind (pc_id command) = Some kind \<and> admitted nfc kind (applicationCommand command actorId generationId)"
proof -
  have w: "wellOptioned nfc (pc_options command)" using assms(1) by (simp add: complete_def)
  have has: "given (pc_options command) name \<noteq> None" if "name \<in> set (requiredOf ''authorization.issue'')" for name
    using assms(1,2) that by (simp add: complete_def)
  have here: "''action'' \<in> set (requiredOf ''authorization.issue'')" "''not-before'' \<in> set (requiredOf ''authorization.issue'')"
    "''expires-at'' \<in> set (requiredOf ''authorization.issue'')" by (simp_all add: requiredOf_list)
  obtain a where a: "optionText command ''action'' = Inr (JStr a)" "list_ex (\<lambda>b. a = lit b) AUTHORIZATION_ACTIONS"
    by (rule fld_text [OF has [OF here(1)] wellOptionedD(8) [OF w]])
  obtain x where x: "optionText command ''not-before'' = Inr (JStr x)" "canonicalTimestamp x"
    by (rule fld_text [OF has [OF here(2)] wellOptionedD(7) [OF w]])
  obtain y where y: "optionText command ''expires-at'' = Inr (JStr y)" "canonicalTimestamp y"
    by (rule fld_text [OF has [OF here(3)] wellOptionedD(6) [OF w]])
  have scope: "given (pc_options command) ''scope'' = Some (lit ''runtime'') \<or> given (pc_options command) ''scope'' = Some (lit ''project'') \<and>
      (\<forall>name\<in>{''project-id'', ''expected-resource-revision'', ''expected-config-revision''}. given (pc_options command) name \<noteq> None)"
    using assms(3) by (auto simp: validIssue_def Let_def split: if_splits)
  then consider (runtime) "given (pc_options command) ''scope'' = Some (lit ''runtime'')"
    | (project) "given (pc_options command) ''scope'' = Some (lit ''project'')"
      "given (pc_options command) ''project-id'' \<noteq> None" "given (pc_options command) ''expected-resource-revision'' \<noteq> None"
      "given (pc_options command) ''expected-config-revision'' \<noteq> None" by auto
  then show ?thesis
  proof cases
    case runtime
    have "\<exists>sc. parseScope (jsObj [(''kind'', JStr (lit ''runtime'')), (''projectId'', JNull), (''resourceRevision'', JNull), (''configRevision'', JNull)]) = Some sc"
      by (simp add: parseScope_def exactRecord_def readExactRecord_jsObj isLit_def)
    then obtain sc where "parseScope (jsObj [(''kind'', JStr (lit ''runtime'')), (''projectId'', JNull), (''resourceRevision'', JNull),
      (''configRevision'', JNull)]) = Some sc" by blast
    from admitted_issue [OF assms(4) a(2) x(2) y(2) this, where nfc = nfc] runtime show ?thesis
      by (simp add: assms(2) routes applicationCommand_def issueCommand_def nested_def option_of_def a(1) x(1) y(1))
  next
    case project
    obtain p where p: "optionText command ''project-id'' = Inr (JStr p)" "domainIdentifier (JStr p)"
      by (rule fld_project [OF w project(2)]) auto
    obtain m where m: "optionRevision command ''expected-resource-revision'' = Inr (jsInt m)" "revision (jsInt m)"
      by (rule fld_revision [OF w project(3)]) (auto simp: REVISION_OPTIONS_def)
    obtain n where n: "optionRevision command ''expected-config-revision'' = Inr (jsInt n)" "revision (jsInt n)"
      by (rule fld_revision [OF w project(4)]) (auto simp: REVISION_OPTIONS_def)
    have "\<exists>sc. parseScope (jsObj [(''kind'', JStr (lit ''project'')), (''projectId'', JStr p), (''resourceRevision'', jsInt m), (''configRevision'', jsInt n)]) = Some sc"
      using p(2) m(2) n(2) by (simp add: parseScope_def exactRecord_def readExactRecord_jsObj isLit_def)
    then obtain sc where "parseScope (jsObj [(''kind'', JStr (lit ''project'')), (''projectId'', JStr p), (''resourceRevision'', jsInt m),
      (''configRevision'', jsInt n)]) = Some sc" by blast
    from admitted_issue [OF assms(4) a(2) x(2) y(2) this, where nfc = nfc] project(1) show ?thesis
      by (simp add: assms(2) routes applicationCommand_def issueCommand_def nested_def option_of_def a(1) x(1) y(1) p(1) m(1) n(1))
  qed
qed

lemma unrouted: "routedKind (pc_id command) = None \<Longrightarrow> applicationCommand command actorId generationId = Inr None"
  by (simp add: routes applicationCommand_def split: if_splits)

lemma routed_known:
  "routedKind i \<noteq> None \<Longrightarrow> i \<in> {''task.show'', ''task.mark-ready'', ''task.update-body'', ''task.set-parent'', ''task.clear-parent'',
      ''task.cancel'', ''dependency.add'', ''dependency.remove''} \<union>
    {''authorization.evaluate'', ''project.register'', ''project.show'', ''project.update'', ''project.disable''} \<union>
    {''status'', ''backup.create'', ''restore'', ''authorization.show'', ''authorization.revoke'', ''authorization.list''} \<union>
    {''task.create'', ''authorization.issue''}"
  by (simp add: routes split: if_splits)

lemma parsed_issue:
  assumes "parseCliArguments nfc args now = Inr command" "pc_id command = ''authorization.issue''"
  shows "validIssue (pc_options command) now"
  using assms by (auto elim!: parseCliArguments_Inr dest: validateOptions_None(2))

section \<open>A registration, as it is typed\<close>

definition demoRest :: "jsstr list" where
  "demoRest = map lit [''project'', ''register'', ''--project-id'', ''p'', ''--root'', ''/r'', ''--confirm'', ''REGISTER LOCAL PROJECT'']"

definition demoGlobals :: cli_globals where
  "demoGlobals = noGlobals\<lparr>gl_seenFormat := True, gl_format := Json\<rparr>"

definition demoOptions :: cli_options where
  "demoOptions = [(lit ''project-id'', lit ''p''), (lit ''root'', lit ''/r''), (lit ''confirm'', lit ''REGISTER LOCAL PROJECT'')]"

definition demoArguments :: "jsstr list" where
  "demoArguments = map lit [''--format'', ''json''] @ demoRest"

definition demoSpec :: command_spec where
  "demoSpec = specOf ''project.register'' [''project'', ''register''] [''project-id'', ''root'', ''confirm''] []"

lemma cli_demo_globals: "readGlobals noGlobals demoArguments = Inr (demoGlobals, demoRest)" by code_simp
lemma cli_demo_spec: "findSpec demoRest = Some demoSpec" by code_simp
lemma cli_demo_options: "readOptions demoSpec [] (drop 2 demoRest) = Some demoOptions" by code_simp
lemma cli_demo_printable:
  "list_all (list_all (\<lambda>c. 32 \<le> c \<and> c < 127)) demoArguments \<and> sum_list (map length demoArguments) \<le> 32768 \<and>
   length demoArguments = 10 \<and> [] \<notin> set demoArguments" by code_simp

lemma cli_demo_time: "canonicalTimestamp (lit ''2026-01-01T00:00:00.000Z'')" by code_simp
lemma cli_demo_root: "rootSegments (lit ''/r'') = [lit ''r''] \<and> isAbsolute (lit ''/r'')" by code_simp

definition demoRegistration :: cli_command where
  "demoRegistration = \<lparr>pc_format = Json, pc_apiVersion = lit CLI_API_VERSION, pc_runtimeRoot = None, pc_id = ''project.register'',
     pc_options = demoOptions\<rparr>"

lemma cli_demo_given:
  "given demoOptions ''project-id'' = Some (lit ''p'')" "given demoOptions ''root'' = Some (lit ''/r'')"
  "given demoOptions ''confirm'' = Some (lit ''REGISTER LOCAL PROJECT'')"
  "name \<notin> {''project-id'', ''root'', ''confirm''} \<Longrightarrow> given demoOptions name = None"
  by (simp_all add: demoOptions_def)

lemma cli_demo_plain: "v \<in> set demoArguments \<Longrightarrow> encodedBytes v = length v \<and> safeToken id v"
  using cli_demo_printable plain_text(1) [of v id] plain_text(2) [of v] by (auto simp: list_all_iff)

lemma cli_demo_valid: "validateOptions id demoSpec demoOptions now = None"
proof -
  have "safeToken id (lit ''p'') \<and> safeToken id (lit ''/r'')" "encodedBytes (lit ''p'') = 1 \<and> encodedBytes (lit ''/r'') = 2"
    using cli_demo_plain [of "lit ''p''"] cli_demo_plain [of "lit ''/r''"] by (simp_all add: demoArguments_def demoRest_def)
  then have "domainId id (lit ''p'')" "absolutePath id 1024 (lit ''/r'')"
    using cli_demo_root by (simp_all add: domainId_def absolutePath_def)
  then show ?thesis
    by (simp add: validateOptions_def optionOk_def cli_demo_given REVISION_OPTIONS_def demoSpec_def PRODUCT_COMMAND_IDS_def)
qed

lemma cli_demo_checked: "checkedCommand id demoGlobals demoSpec demoOptions now = Inr demoRegistration"
  unfolding checkedCommand_def cli_demo_valid
  by (simp add: Let_def cli_demo_given demoSpec_def demoGlobals_def noGlobals_def demoRegistration_def confirmationFor_def confirmed_def)

lemma cli_demo_parsed: "parseCliArguments id demoArguments (lit ''2026-01-01T00:00:00.000Z'') = Inr demoRegistration"
proof -
  have lengths: "map encodedBytes demoArguments = map length demoArguments" using cli_demo_plain by simp
  have "list_all (safeToken id) demoArguments" using cli_demo_plain by (simp add: list_all_iff)
  then have "\<not> (demoArguments = [] \<or> length demoArguments > 64 \<or> sum_list (map encodedBytes demoArguments) > 32768 \<or>
      \<not> list_all (safeToken id) demoArguments \<or> \<not> canonicalTimestamp (lit ''2026-01-01T00:00:00.000Z''))"
    unfolding lengths using cli_demo_printable cli_demo_time by auto
  moreover have "demoRest \<noteq> []" "hd demoRest = lit ''project''" "\<not> prefix (lit ''-'') (lit ''project'')" "\<not> prefix (lit ''@'') (lit ''project'')"
    "61 \<notin> set (lit ''project'')" by (simp_all add: demoRest_def lit_def)
  moreover have "gl_apiVersion demoGlobals = lit CLI_API_VERSION" "gl_runtimeRoot demoGlobals = None" "length (cs_path demoSpec) = 2"
    by (simp_all add: demoGlobals_def noGlobals_def demoSpec_def)
  ultimately show ?thesis
    unfolding parseCliArguments_def cli_demo_globals ebind_Inr prod.case
    by (simp add: cli_demo_spec cli_demo_options cli_demo_checked split: list.split) (metis list.sel(1))
qed
section \<open>The properties\<close>

text \<open>
  C37: what the command line reads, the application service admits. For a command that
  \<open>parseCliArguments\<close> accepts, with a well-formed actor and backup generation, \<open>applicationCommand\<close>
  never throws: it gives no command for the identifiers that are served elsewhere, and for every
  other one an object that \<open>parseCommand\<close> reads as a command of exactly the action that the
  identifier stands for.
\<close>

theorem cli_admitted:
  assumes "parseCliArguments nfc args now = Inr command" "operationalText actorId" "pred_option generationPattern generationId"
    "pc_id command = ''backup.create'' \<longrightarrow> generationId \<noteq> None"
  shows "case routedKind (pc_id command) of None \<Rightarrow> applicationCommand command actorId generationId = Inr None
    | Some kind \<Rightarrow> admitted nfc kind (applicationCommand command actorId generationId)"
proof (cases "routedKind (pc_id command)")
  case (Some kind)
  note c = parsed_complete [OF assms(1)]
  have "\<exists>kind. routedKind (pc_id command) = Some kind \<and> admitted nfc kind (applicationCommand command actorId generationId)"
  proof -
    have "routedKind (pc_id command) \<noteq> None" by (simp add: Some)
    from routed_known [OF this] consider
      "pc_id command \<in> {''task.show'', ''task.mark-ready'', ''task.update-body'', ''task.set-parent'', ''task.clear-parent'',
        ''task.cancel'', ''dependency.add'', ''dependency.remove''}"
      | "pc_id command \<in> {''authorization.evaluate'', ''project.register'', ''project.show'', ''project.update'', ''project.disable''}"
      | "pc_id command \<in> {''status'', ''backup.create'', ''restore'', ''authorization.show'', ''authorization.revoke'', ''authorization.list''}"
      | "pc_id command = ''task.create''" | "pc_id command = ''authorization.issue''" by blast
    then show ?thesis
      by cases (rule route_task [OF c], assumption, rule route_project [OF c], assumption, rule route_plain [OF c assms(3) _ assms(4)], assumption,
        rule route_create [OF c], assumption, rule route_issue [OF c _ parsed_issue [OF assms(1)] assms(2)])
  qed
  then show ?thesis by (simp add: Some)
qed (simp add: unrouted)

lemma cli_admitted_witness:
  "case routedKind (pc_id demoRegistration) of None \<Rightarrow> applicationCommand demoRegistration (lit ''a'') None = Inr None
    | Some kind \<Rightarrow> admitted id kind (applicationCommand demoRegistration (lit ''a'') None)"
  by (rule cli_admitted [OF cli_demo_parsed]) (simp_all add: demoRegistration_def alphanumeric_def lit_def)




end
