(* ===== verification/Spec2Isabelle.thy ===== *)
theory Spec2Isabelle
  imports Domain_Properties Authorization_Properties Application_Properties Repository_Properties Execution_Properties
    Command_Line_Properties
begin

text \<open>
  A verification development for the agent task orchestrator, a TypeScript program that keeps a
  graph of Tasks in a local SQLite store and changes it only through authorized commands.

  \<^bold>\<open>The program and its parts.\<close> The \<^emph>\<open>Domain Core\<close> (\<^verbatim>\<open>src/domain.ts\<close>) is a pure library:
  every operation receives a snapshot of Projects and Tasks and a command as \<open>unknown\<close> values,
  validates both, and returns a new snapshot with events or an error. The \<^emph>\<open>authorization
  rules\<close> (\<^verbatim>\<open>src/authorization.ts\<close>) decide, from the grants of an actor, whether an action on a
  target is allowed and whether a grant may be issued. The \<^emph>\<open>application service\<close>
  (\<^verbatim>\<open>src/application-service.ts\<close>, with \<^verbatim>\<open>application-model.ts\<close>, \<^verbatim>\<open>application-input.ts\<close>,
  \<^verbatim>\<open>application-policy.ts\<close> and \<^verbatim>\<open>application-domain.ts\<close>) bootstraps a runtime, upgrades and renews
  its capabilities and executes commands: it admits the input, asks the ingress for an identity,
  reads ahead what the command needs, and then, in one write transaction, authorizes the command,
  calls the Domain Core, writes the result and appends a request, a decision and an audit event.
  The \<^emph>\<open>execution service\<close> (\<^verbatim>\<open>src/execution-application.ts\<close>) hands out leases on ready Tasks: a
  claim makes the Task running and its caller the holder, the holder renews, and once the lease has
  expired another caller takes over under the next fencing token.
  The \<^emph>\<open>command line\<close> (\<^verbatim>\<open>src/cli-api-parser.ts\<close>, \<^verbatim>\<open>cli-api-model.ts\<close>) reads arguments
  into commands for these services.
  The \<^emph>\<open>project registry\<close> (\<^verbatim>\<open>src/project-registry.ts\<close>) establishes the identity of directories.
  The \<^emph>\<open>Domain repository\<close> (\<^verbatim>\<open>src/persistence/repository.ts\<close>, \<^verbatim>\<open>errors.ts\<close>, \<^verbatim>\<open>database.ts\<close>) and
  the \<^emph>\<open>application transaction\<close> (\<^verbatim>\<open>src/persistence/application-repository-transaction.ts\<close>) store
  all of this in tables (\<^verbatim>\<open>migrations/0001-current-baseline.sql\<close>).

  \<^bold>\<open>Foundations.\<close>
  \<^item> \<open>Prelude\<close>: strings as lists of UTF-16 code units, the error monad, insertion-ordered sets,
    generic facts. \<open>Js_Value\<close>: the values that a caller may pass, with the record reader that the
    sources repeat. \<open>Js_Date\<close>, \<open>Js_Date_Format\<close>: ISO timestamps, \<open>Date.parse\<close> and
    \<open>toISOString\<close> on the proleptic Gregorian calendar. \<open>Machines\<close>: runs, reachability and the
    locale \<open>inductive_invariant\<close>.

  \<^bold>\<open>Domain Core.\<close>
  \<^item> \<open>Domain_Model\<close> (types, readers of single values), \<open>Domain_Codec\<close> (well-formed data and the
    locale \<open>codec\<close>: what is built is read back), \<open>Domain_Graph\<close> (the four graph searches, with their
    termination and their equivalence to relations), \<open>Domain_Snapshot\<close> (\<open>parseSnapshot\<close> and
    replacement), \<open>Domain_Ops\<close> and \<open>Domain_Transition\<close> (every exported operation).
  \<^item> \<open>Domain_Machine\<close> is the abstract specification: a step relation on well-formed snapshots
    without encodings or re-validation. \<open>Domain_Reach\<close> proves its invariants over all runs;
    \<open>Domain_Update\<close>, \<open>Domain_Decision\<close>, \<open>Domain_Refine\<close>, \<open>Domain_Cancel\<close> and \<open>Domain_Complete\<close>
    prove that the operations refine it, and that an enabled command is accepted.
    \<open>Domain_Properties\<close> states the properties, \<open>Domain_Example\<close> the snapshot they are tried on.

  \<^bold>\<open>Authorization.\<close> \<open>Authorization\<close> holds the rules, \<open>Authorization_Facts\<close> what they guarantee
  (allowed exactly under a grant in force; nothing is issued beyond the issuer's authority),
  \<open>Authorization_Properties\<close> the properties.

  \<^bold>\<open>Repository and registry.\<close> \<open>Repository\<close> models rows, bindings, the \<open>CHECK\<close> constraints of the
  tables \<open>projects\<close>, \<open>tasks\<close> and \<open>task_dependencies\<close>, reading a snapshot and the two writes with
  their compare-and-swap and readback. \<open>Repository_Facts\<close> shows that the rows of a storable
  snapshot read back as it, \<open>Repository_Commit\<close> that a write takes the rows of one snapshot to the
  rows of the next or reports a conflict. \<open>Project_Registry\<close> holds the inspection of roots and
  characterises what it admits. \<open>Repository_Properties\<close> states the properties.

  \<^bold>\<open>Application service.\<close>
  \<^item> \<open>Application_Model\<close>, \<open>Application_Input\<close>, \<open>Application_Policy\<close>, \<open>Application_Domain\<close>:
    commands, their admission, decisions, and the bridge to the Domain Core.
  \<^item> \<open>Application_Store\<close>: the tables as a record \<open>database\<close>, each operation of a transaction, and
    the transaction with rollback. A program is a function from tables and environment to an
    outcome (\<open>Returns\<close>, \<open>Fails\<close> with a failure result, \<open>Throws\<close>) and new tables and environment.
  \<^item> \<open>Application_Service\<close> (bootstrap, upgrade, renewal) and \<open>Application_Execute\<close> (execution).
  \<^item> \<open>Application_Logic\<close>: triples with postconditions for returning and for failing.
    \<open>Application_Evidence\<close>, \<open>Application_Accounting\<close>, \<open>Application_Guarantees\<close> and
    \<open>Application_Capabilities\<close> derive what each transaction does to the tables;
    \<open>Application_Operations\<close> composes preflight and transaction, with other processes in between;
    \<open>Application_History\<close> makes committed transactions the steps of a machine and proves what
    every history keeps, and that the stored snapshot simulates the Domain machine.
    \<open>Application_Listing\<close> follows the pages of the grant listing. \<open>Application_Properties\<close> states
    the properties, \<open>Application_Example\<close> evaluates one whole execution.

  \<^bold>\<open>Execution service.\<close>
  \<^item> \<open>Execution_Model\<close> (commands, parsers, ingress, decisions on a state), \<open>Execution_Service\<close> (the
    five writes of the transaction with their compare-and-swap, and the steps that the operations
    share), \<open>Execution_Commands\<close> (claim, inspection), \<open>Execution_Leases\<close> (renewal, takeover).
  \<^item> \<open>Execution_Effects\<close> and \<open>Execution_Lease_Effects\<close> derive what each transaction does to the
    tables, \<open>Execution_Operations\<close> what each operation does, with other processes in between.
  \<^item> \<open>Execution_Inventory\<close> models the checks that reading a state makes of sequences, attempts and
    execution requests (\<^verbatim>\<open>persistence/application-repository-state.ts\<close>).
  \<^item> \<open>Execution_History\<close> puts the transactions of both services into one machine, \<open>system_step\<close>;
    \<open>Execution_Lineage\<close> and \<open>Execution_Succession\<close> prove the invariant \<open>lineage\<close> of its histories
    (attempts numbered 1, 2, 3, \<dots> per Task, each authorized and linked to the next, the last one
    active, a Task running exactly when it has attempts), \<open>Execution_Guarantees\<close> that \<open>lineage\<close>
    implies the checks, and \<open>Execution_Fencing\<close> that the attempts of a Task implement an abstract
    lease (the locale \<open>simulation\<close>), that superseded holders are fenced off and that claims are
    idempotent. \<open>Execution_Example\<close> is a history of a claim and a takeover,
    \<open>Execution_Properties\<close> states the properties.

  \<^bold>\<open>Command line.\<close> \<open>Command_Line\<close> holds the tables of commands, the reading of global and command
  options, their validation, the confirmations and \<open>applicationCommand\<close>. \<open>Command_Line_Facts\<close> shows
  what a command that is read satisfies and which objects \<open>parseCommand\<close> admits;
  \<open>Command_Line_Properties\<close> that every command that is read is admitted as the action that it names,
  and that commands of high risk are read only with their exact confirmation.

  \<^bold>\<open>Conventions.\<close> Error codes, messages and details are kept as the source has them. Integers are
  \<open>int\<close> with the bound \<open>MAX_SAFE_INTEGER\<close> checked where the source checks it; a number that is not
  an integer is \<open>JFraction\<close>; \<open>-0\<close> is \<open>0\<close>. An exception is a value. The comparison of canonical
  JSON texts is equality of the data. Recursion has no depth limit, as the source's loops have
  none. Tables are lists in insertion order; the primary keys, the \<open>UNIQUE\<close> and \<open>CHECK\<close> constraints
  that the operations meet and the row counts they test are modelled, and text is bound as UTF-8,
  which replaces lone surrogates.

  \<^bold>\<open>Parameters.\<close> What is not code of the repository is an argument of the definitions: Unicode
  normalisation, SHA-256, the ingress (actor, clock, identifiers, confirmation), the file system,
  the fault-injection hooks, the integrity checks that run when a state is read (\<open>sv_check\<close>; those
  on executions are also modelled, and proved to hold in every history), and what other processes commit before a transaction begins (\<open>sv_before\<close>). No theorem about the
  application layer assumes anything of them, but that histories run under one normalisation and,
  where a property says so, that what happens beside an operation is a history; the Domain properties that mention normalisation
  hold for every function.

  \<^bold>\<open>Fuel.\<close> Every loop of the model terminates by a measure, except \<open>pages\<close>, which follows a cursor
  for a given number of pages: one more than the number of grants is enough
  (\<open>grant_listing_complete\<close>).

  \<^bold>\<open>Not modelled.\<close> Foreign keys and failures of SQLite input and output; the Windows branches of
  the project registry; opening, migrating, backing up and diagnosing a store; the digests and
  the other integrity checks of stored states; the scheduler, dispatcher, workspace, completion,
  manual and Codex services; the presentation of results and the wiring of the command line.
  These act mostly through external processes or
  through tables that the modelled operations do not touch. Of the tables of the dispatcher and of
  the backends the execution service only asks whether a row exists for an execution; histories
  begin without such rows and the services modelled here never write any, so the histories here
  are those of a store whose executions have not been dispatched.
\<close>

end
